(* ===== verification/Polaris_Prelude.thy ===== *)
theory Polaris_Prelude
  imports Main "HOL-Library.AList" "HOL-Library.State_Monad" "HOL-Library.Word"
begin

text \<open>
  The prelude of the polaris-k8s development: the Go base types, the parts of Go's
  \<open>strings\<close>, \<open>strconv\<close> and \<open>fmt\<close> packages the operator uses, Go maps, and the generic
  lemmas the component theories share.

  Go strings are byte sequences, here \<open>string\<close> (lists of 8-bit characters). A Go
  \<open>map[string]string\<close> is an association list with distinct keys (\<open>wf_map\<close>); its order
  stands for the unspecified iteration order of a \<open>range\<close> loop, so a statement about
  every well-formed list covers every iteration order. The nil map and the empty map are
  both \<open>[]\<close>: \<open>len\<close>, indexing and \<open>range\<close> do not tell them apart.
\<close>

named_theorems go_maps \<open>lemmas about Go maps as association lists\<close>

section \<open>Base types\<close>

type_synonym go_int = "64 word"
type_synonym go_int32 = "32 word"
type_synonym strmap = "(string \<times> string) list"

text \<open>Go's conversion \<open>int(x)\<close> of an \<open>int32\<close> sign-extends.\<close>

definition int_of_int32 :: "go_int32 \<Rightarrow> go_int" where
  "int_of_int32 x = signed_take_bit 31 (ucast x)"

lemma int_of_int32_scast: "int_of_int32 x = scast x"
  unfolding int_of_int32_def
  by (rule bit_word_eqI) (auto simp: bit_signed_take_bit_iff bit_ucast_iff bit_signed_iff min_def not_less less_eq_Suc_le)

lemma sint_int_of_int32: "sint (int_of_int32 x) = sint x"
  unfolding int_of_int32_scast by (rule sint_up_scast) (simp add: is_up)

section \<open>Strings\<close>

definition has_prefix :: "string \<Rightarrow> string \<Rightarrow> bool" where
  "has_prefix s p \<longleftrightarrow> take (length p) s = p"

definition has_suffix :: "string \<Rightarrow> string \<Rightarrow> bool" where
  "has_suffix s p \<longleftrightarrow> has_prefix (rev s) (rev p)"

fun str_contains :: "string \<Rightarrow> string \<Rightarrow> bool" where
  "str_contains [] p \<longleftrightarrow> p = []"
| "str_contains (c # s) p \<longleftrightarrow> has_prefix (c # s) p \<or> str_contains s p"

definition trim_right :: "string \<Rightarrow> char \<Rightarrow> string" where
  "trim_right s c = rev (dropWhile (\<lambda>x. x = c) (rev s))"

fun str_join :: "string list \<Rightarrow> string \<Rightarrow> string" where
  "str_join [] sep = []"
| "str_join [s] sep = s"
| "str_join (s # t # ss) sep = s @ sep @ str_join (t # ss) sep"

lemma str_join_Cons: "ss \<noteq> [] \<Longrightarrow> str_join (s # ss) sep = s @ sep @ str_join ss sep"
  by (cases ss) auto

lemma has_prefix_append [simp]: "has_prefix (p @ s) p"
  by (simp add: has_prefix_def)

lemma has_suffix_append [simp]: "has_suffix (s @ p) p"
  by (simp add: has_suffix_def)

lemma has_suffix_refl [simp]: "has_suffix s s"
  by (simp add: has_suffix_def has_prefix_def)

lemma has_suffix_iff: "has_suffix s p \<longleftrightarrow> (\<exists>t. s = t @ p)"
proof
  assume "has_suffix s p"
  then have "take (length p) (rev s) = rev p"
    by (simp add: has_suffix_def has_prefix_def)
  then have "rev s = rev p @ drop (length p) (rev s)"
    by (metis append_take_drop_id)
  then show "\<exists>t. s = t @ p"
    by (metis rev_append rev_rev_ident)
qed auto

lemma trim_right_last: "trim_right s c = [] \<or> last (trim_right s c) \<noteq> c"
  unfolding trim_right_def using hd_dropWhile [of "\<lambda>x. x = c" "rev s"]
  by (auto simp: last_rev)

text \<open>\<open>strconv.Itoa\<close> for the integers the operator prints (\<open>%d\<close>).\<close>

definition digit :: "nat \<Rightarrow> char" where
  "digit n = char_of (48 + n)"

fun show_nat :: "nat \<Rightarrow> string" where
  "show_nat n = (if n < 10 then [digit n] else show_nat (n div 10) @ [digit (n mod 10)])"

declare show_nat.simps [simp del]

definition show_int :: "int \<Rightarrow> string" where
  "show_int i = (if i < 0 then ''-'' @ show_nat (nat (- i)) else show_nat (nat i))"

text \<open>
  \<open>%q\<close>, i.e. \<open>strconv.Quote\<close>: exact for ASCII strings (a multi-byte UTF-8 rune, which Go
  prints as it is, is printed byte by byte here).
\<close>

definition hex_digit :: "nat \<Rightarrow> char" where
  "hex_digit n = (if n < 10 then char_of (48 + n) else char_of (87 + n))"

definition quote_char :: "char \<Rightarrow> string" where
  "quote_char c =
     (let n = (of_char c :: nat) in
      if n = 34 \<or> n = 92 then [CHR 0x5C, c]
      else if 32 \<le> n \<and> n < 127 then [c]
      else if n = 7 then [CHR 0x5C, CHR ''a'']
      else if n = 8 then [CHR 0x5C, CHR ''b'']
      else if n = 9 then [CHR 0x5C, CHR ''t'']
      else if n = 10 then [CHR 0x5C, CHR ''n'']
      else if n = 11 then [CHR 0x5C, CHR ''v'']
      else if n = 12 then [CHR 0x5C, CHR ''f'']
      else if n = 13 then [CHR 0x5C, CHR ''r'']
      else [CHR 0x5C, CHR ''x'', hex_digit (n div 16), hex_digit (n mod 16)])"

definition go_quote :: "string \<Rightarrow> string" where
  "go_quote s = CHR 0x22 # concat (map quote_char s) @ [CHR 0x22]"

section \<open>Go maps\<close>

definition wf_map :: "('k \<times> 'v) list \<Rightarrow> bool" where
  "wf_map m \<longleftrightarrow> distinct (map fst m)"

lemma wf_map_Nil [simp]: "wf_map []"
  by (simp add: wf_map_def)

lemma wf_map_Cons: "wf_map ((k, v) # m) \<longleftrightarrow> k \<notin> fst ` set m \<and> wf_map m"
  by (simp add: wf_map_def)

lemma wf_map_update [go_maps, simp]: "wf_map m \<Longrightarrow> wf_map (AList.update k v m)"
  by (simp add: wf_map_def distinct_update)

lemma wf_map_lookup [go_maps]: "wf_map m \<Longrightarrow> (k, v) \<in> set m \<longleftrightarrow> map_of m k = Some v"
  by (simp add: wf_map_def map_of_eq_Some_iff)

lemma wf_map_card: "wf_map m \<Longrightarrow> card (dom (map_of m)) = length m"
  by (metis distinct_card dom_map_of_conv_image_fst length_map list.set_map wf_map_def)

text \<open>
  Two maps of the same size are equal as soon as every entry of one is in the other: the
  counting argument behind the early length test of a map comparison.
\<close>

lemma map_of_eqI_length:
  assumes wf: "wf_map a" "wf_map b" and len: "length a = length b"
    and sub: "\<And>k v. (k, v) \<in> set a \<Longrightarrow> map_of b k = Some v"
  shows "map_of a = map_of b"
proof -
  have ab: "map_of b k = Some v" if "map_of a k = Some v" for k v
    using that sub map_of_SomeD by fastforce
  then have "dom (map_of a) \<subseteq> dom (map_of b)" by (auto simp: dom_def)
  moreover have "card (dom (map_of a)) = card (dom (map_of b))"
    using wf len by (simp add: wf_map_card)
  ultimately have dom: "dom (map_of a) = dom (map_of b)"
    by (simp add: card_subset_eq finite_dom_map_of)
  show ?thesis
  proof
    fix k
    show "map_of a k = map_of b k"
      using ab dom by (cases "map_of a k") (metis domIff, simp)
  qed
qed

lemma map_of_eq_length:
  assumes "wf_map a" "wf_map b" "map_of a = map_of b"
  shows "length a = length b"
  using assms by (metis wf_map_card)

section \<open>Options and sums\<close>

fun opt_err :: "('e \<Rightarrow> 'f) \<Rightarrow> 'e option \<Rightarrow> 'f option" where
  "opt_err f None = None"
| "opt_err f (Some e) = Some (f e)"

lemma opt_err_None_iff [simp]: "opt_err f x = None \<longleftrightarrow> x = None" "None = opt_err f x \<longleftrightarrow> x = None"
  by (cases x; simp)+

lemma opt_err_Some_iff: "opt_err f x = Some y \<longleftrightarrow> (\<exists>e. x = Some e \<and> y = f e)"
  by (cases x) auto

end
