(* ===== verification/Go_Errors.thy ===== *)
theory Go_Errors
  imports Polaris_Prelude
begin

text \<open>
  Go errors and the classification of Polaris API errors (\<open>internal/polaris/errors.go\<close>).

  A Go \<open>error\<close> value is a tree of wrappers: \<open>fmt.Errorf("...: %w", err)\<close> is
  \<open>ErrWrap prefix err\<close>, with \<open>prefix\<close> the text before the wrapped error. A leaf is an error
  made by \<open>errors.New\<close> or by \<open>fmt.Errorf\<close> without \<open>%w\<close> (\<open>ErrNew\<close>), a value of a library
  (\<open>ErrLib\<close>, with its text) or a \<open>*polaris.APIError\<close>. The nil error is \<open>None\<close>.
\<close>

section \<open>Error values\<close>

record APIError =
  apiStatusCode :: int
  apiOp :: string
  apiBody :: string

datatype goerr = ErrNew string | ErrLib string | ErrWrap string goerr | ErrAPI APIError

definition APIError_Error :: "APIError \<Rightarrow> string" where
  "APIError_Error e =
     ''polaris '' @ apiOp e @ '': HTTP '' @ show_int (apiStatusCode e) @ '': '' @ apiBody e"

fun Error :: "goerr \<Rightarrow> string" where
  "Error (ErrNew s) = s"
| "Error (ErrLib s) = s"
| "Error (ErrWrap p e) = p @ Error e"
| "Error (ErrAPI e) = APIError_Error e"

text \<open>\<open>errors.As(err, &apiErr)\<close>: the first \<open>*APIError\<close> down the chain of wrappers.\<close>

fun errors_As :: "goerr \<Rightarrow> APIError option" where
  "errors_As (ErrAPI e) = Some e"
| "errors_As (ErrWrap p e) = errors_As e"
| "errors_As (ErrNew s) = None"
| "errors_As (ErrLib s) = None"

definition as_APIError :: "goerr option \<Rightarrow> APIError option" where
  "as_APIError err = (case err of None \<Rightarrow> None | Some e \<Rightarrow> errors_As e)"

section \<open>Classifiers\<close>

definition IsNotFound :: "goerr option \<Rightarrow> bool" where
  "IsNotFound err =
     (case as_APIError err of None \<Rightarrow> False | Some apiErr \<Rightarrow> apiStatusCode apiErr = 404)"

definition IsConflict :: "goerr option \<Rightarrow> bool" where
  "IsConflict err =
     (case as_APIError err of None \<Rightarrow> False | Some apiErr \<Rightarrow> apiStatusCode apiErr = 409)"

definition IsUnauthorized :: "goerr option \<Rightarrow> bool" where
  "IsUnauthorized err =
     (case as_APIError err of None \<Rightarrow> False | Some apiErr \<Rightarrow> apiStatusCode apiErr = 401)"

definition IsRetryable :: "goerr option \<Rightarrow> bool" where
  "IsRetryable err =
     (case as_APIError err of
        None \<Rightarrow> err \<noteq> None
      | Some apiErr \<Rightarrow> apiStatusCode apiErr \<in> {429, 502, 503, 504})"

section \<open>Properties\<close>

text \<open>Any number of wrappers around an error: \<open>fmt.Errorf\<close> along a call chain.\<close>

definition wrapped :: "string list \<Rightarrow> goerr \<Rightarrow> goerr" where
  "wrapped ps e = foldr ErrWrap ps e"

lemma wrapped_simps [simp]:
  "wrapped [] e = e" "wrapped (p # ps) e = ErrWrap p (wrapped ps e)"
  by (simp_all add: wrapped_def)

lemma errors_As_wrapped [simp]: "errors_As (wrapped ps e) = errors_As e"
  by (induction ps) auto

lemma errors_As_SomeD: "errors_As e = Some a \<Longrightarrow> \<exists>ps. e = wrapped ps (ErrAPI a)"
proof (induction e)
  case (ErrWrap p e)
  then obtain ps where "e = wrapped ps (ErrAPI a)" by auto
  then have "ErrWrap p e = wrapped (p # ps) (ErrAPI a)" by simp
  then show ?case by blast
next
  case (ErrAPI b)
  then show ?case by (auto intro: exI [of _ "[]"])
qed auto

lemmas classifier_defs = IsNotFound_def IsConflict_def IsUnauthorized_def IsRetryable_def
  as_APIError_def

text \<open>
  However deeply the callers wrap it, an API error is classified by its HTTP status
  alone: not-found exactly for 404, conflict for 409, unauthorized for 401, retryable for
  429, 502, 503 and 504.
\<close>

theorem classifiers_by_status:
  "IsNotFound (Some (wrapped ps (ErrAPI a))) = (apiStatusCode a = 404) \<and>
   IsConflict (Some (wrapped ps (ErrAPI a))) = (apiStatusCode a = 409) \<and>
   IsUnauthorized (Some (wrapped ps (ErrAPI a))) = (apiStatusCode a = 401) \<and>
   IsRetryable (Some (wrapped ps (ErrAPI a))) = (apiStatusCode a \<in> {429, 502, 503, 504})"
  by (simp add: classifier_defs)

end
