(* ===== verification/Api_Types.thy ===== *)
theory Api_Types
  imports Go_Errors
begin

text \<open>
  The twelve custom resources of \<open>api/v1alpha1\<close> as records, and the two Kubernetes types
  they embed (\<open>metav1.ObjectMeta\<close> and \<open>metav1.Condition\<close>, of which the fields the operator
  reads or writes are kept).

  Every Go resource is a struct of metadata, spec and status: here the polymorphic record
  \<open>cr\<close>. Every Go status struct has \<open>ObservedGeneration\<close> and \<open>Conditions\<close>: here the base
  record \<open>status_base\<close>, which the status records with further fields extend. A pointer field
  is an \<open>option\<close>. \<open>DeletionTimestamp\<close> is \<open>None\<close> exactly where the Go code's \<open>IsZero()\<close> holds.
  \<open>obj\<close> is the \<open>client.Object\<close> interface: one constructor per registered kind.
\<close>

section \<open>Kubernetes metadata\<close>

record objmeta =
  objName :: string
  objNamespace :: string
  objGeneration :: int
  objDeletionTimestamp :: "int option"
  objFinalizers :: "string list"

record NamespacedName =
  nnNamespace :: string
  nnName :: string

datatype ConditionStatus = ConditionTrue | ConditionFalse | ConditionUnknown

record Condition =
  condType :: string
  condStatus :: ConditionStatus
  condObservedGeneration :: int
  condReason :: string
  condMessage :: string

section \<open>References (refs.go)\<close>

text \<open>The eight reference structs have the same two fields.\<close>

record object_ref =
  refName :: string
  refNamespace :: string

type_synonym ConnectionRef = object_ref
type_synonym CatalogRef = object_ref
type_synonym NamespaceRef = object_ref
type_synonym TableRef = object_ref
type_synonym ViewRef = object_ref
type_synonym PrincipalRef = object_ref
type_synonym PrincipalRoleRef = object_ref
type_synonym CatalogRoleRef = object_ref

record ClientCredentialsSecretRef =
  ccName :: string
  ccClientIdKey :: string
  ccClientSecretKey :: string

record CABundleSecretRef =
  caName :: string
  caKey :: string

record GeneratedCredentialsSecretRef =
  gcName :: string

section \<open>Iceberg schemas (common.go)\<close>

record IcebergField =
  fieldID :: go_int32
  fieldName :: string
  fieldType :: string
  fieldRequired :: bool
  fieldDoc :: string

record IcebergSchema =
  schemaFields :: "IcebergField list"
  schemaIdentifierFieldIds :: "go_int32 list"

record IcebergPartitionField =
  partSourceID :: go_int32
  partFieldID :: go_int32
  partName :: string
  partTransform :: string

record IcebergPartitionSpec =
  partFields :: "IcebergPartitionField list"

section \<open>Resources\<close>

record ('spec, 'status) cr =
  crMeta :: objmeta
  crSpec :: 'spec
  crStatus :: 'status

record status_base =
  observedGeneration :: int
  conditions :: "Condition list"

subsection \<open>PolarisConnection\<close>

record PolarisConnectionSpec =
  connServerURL :: string
  connTokenPath :: string
  connScope :: string
  connCredentialsSecretRef :: ClientCredentialsSecretRef
  connCABundleSecretRef :: "CABundleSecretRef option"
  connInsecureSkipVerify :: bool

record PolarisConnectionStatus = status_base +
  connServerVersion :: string

type_synonym PolarisConnection = "(PolarisConnectionSpec, PolarisConnectionStatus) cr"

subsection \<open>PolarisCatalog\<close>

type_synonym CatalogType = string
type_synonym StorageType = string

definition CatalogTypeInternal :: CatalogType where "CatalogTypeInternal = ''INTERNAL''"
definition CatalogTypeExternal :: CatalogType where "CatalogTypeExternal = ''EXTERNAL''"
definition StorageTypeS3 :: StorageType where "StorageTypeS3 = ''S3''"
definition StorageTypeAzure :: StorageType where "StorageTypeAzure = ''AZURE''"
definition StorageTypeGCS :: StorageType where "StorageTypeGCS = ''GCS''"
definition StorageTypeFile :: StorageType where "StorageTypeFile = ''FILE''"

lemmas storage_types = StorageTypeS3_def StorageTypeAzure_def StorageTypeGCS_def
  StorageTypeFile_def

record S3StorageConfig =
  s3RoleARN :: string
  s3Region :: string
  s3ExternalID :: string
  s3UserARN :: string

record AzureStorageConfig =
  azTenantID :: string
  azMultiTenantAppName :: string
  azConsentURL :: string

record GCSStorageConfig =
  gcsServiceAccount :: string

record StorageConfig =
  scStorageType :: StorageType
  scAllowedLocations :: "string list"
  scS3 :: "S3StorageConfig option"
  scAzure :: "AzureStorageConfig option"
  scGCS :: "GCSStorageConfig option"

record PolarisCatalogSpec =
  catConnectionRef :: ConnectionRef
  catName :: string
  catType :: CatalogType
  catDefaultBaseLocation :: string
  catStorageConfig :: StorageConfig
  catProperties :: strmap

record PolarisCatalogStatus = status_base +
  catPolarisCatalogID :: string

type_synonym PolarisCatalog = "(PolarisCatalogSpec, PolarisCatalogStatus) cr"

subsection \<open>PolarisNamespace\<close>

record PolarisNamespaceSpec =
  nsCatalogRef :: CatalogRef
  nsParentRef :: "NamespaceRef option"
  nsName :: string
  nsProperties :: strmap

record PolarisNamespaceStatus = status_base +
  nsFullPath :: "string list"

type_synonym PolarisNamespace = "(PolarisNamespaceSpec, PolarisNamespaceStatus) cr"

subsection \<open>PolarisTable, PolarisView, PolarisPolicy\<close>

type_synonym WriteFormat = string

record PolarisTableSpec =
  tblNamespaceRef :: NamespaceRef
  tblName :: string
  tblSchema :: IcebergSchema
  tblPartitionSpec :: "IcebergPartitionSpec option"
  tblWriteFormat :: WriteFormat
  tblProperties :: strmap

record PolarisTableStatus = status_base +
  tblLocation :: string
  tblTableUUID :: string
  tblCurrentSnapshotID :: int

type_synonym PolarisTable = "(PolarisTableSpec, PolarisTableStatus) cr"

record PolarisViewSpec =
  viewNamespaceRef :: NamespaceRef
  viewName :: string
  viewSchema :: IcebergSchema
  viewSQL :: string
  viewDialect :: string
  viewProperties :: strmap

record PolarisViewStatus = status_base +
  viewVersionID :: int

type_synonym PolarisView = "(PolarisViewSpec, PolarisViewStatus) cr"

text \<open>\<open>polContent\<close> is the raw JSON of \<open>apiextensionsv1.JSON\<close>.\<close>

record PolarisPolicySpec =
  polNamespaceRef :: NamespaceRef
  polName :: string
  polType :: string
  polDescription :: string
  polContent :: string

type_synonym PolarisPolicyStatus = status_base
type_synonym PolarisPolicy = "(PolarisPolicySpec, PolarisPolicyStatus) cr"

subsection \<open>Identities, roles, bindings, grants\<close>

record PolarisPrincipalSpec =
  ppConnectionRef :: ConnectionRef
  ppName :: string
  ppCredentialRotationRequired :: bool
  ppProperties :: strmap
  ppCredentialsSecretRef :: GeneratedCredentialsSecretRef

record PolarisPrincipalStatus = status_base +
  ppPrincipalID :: string
  ppCredentialsLastRotated :: "int option"

type_synonym PolarisPrincipal = "(PolarisPrincipalSpec, PolarisPrincipalStatus) cr"

record PolarisPrincipalRoleSpec =
  prConnectionRef :: ConnectionRef
  prName :: string
  prProperties :: strmap

type_synonym PolarisPrincipalRoleStatus = status_base
type_synonym PolarisPrincipalRole = "(PolarisPrincipalRoleSpec, PolarisPrincipalRoleStatus) cr"

record PolarisCatalogRoleSpec =
  crlCatalogRef :: CatalogRef
  crlName :: string
  crlProperties :: strmap

type_synonym PolarisCatalogRoleStatus = status_base
type_synonym PolarisCatalogRole = "(PolarisCatalogRoleSpec, PolarisCatalogRoleStatus) cr"

record PolarisPrincipalRoleBindingSpec =
  prbPrincipalRef :: PrincipalRef
  prbPrincipalRoleRef :: PrincipalRoleRef

type_synonym PolarisPrincipalRoleBindingStatus = status_base
type_synonym PolarisPrincipalRoleBinding =
  "(PolarisPrincipalRoleBindingSpec, PolarisPrincipalRoleBindingStatus) cr"

record PolarisCatalogRoleBindingSpec =
  crbPrincipalRoleRef :: PrincipalRoleRef
  crbCatalogRoleRef :: CatalogRoleRef

type_synonym PolarisCatalogRoleBindingStatus = status_base
type_synonym PolarisCatalogRoleBinding =
  "(PolarisCatalogRoleBindingSpec, PolarisCatalogRoleBindingStatus) cr"

type_synonym Privilege = string
type_synonym GrantTargetType = string

definition GrantTargetCatalog :: GrantTargetType where "GrantTargetCatalog = ''catalog''"
definition GrantTargetNamespace :: GrantTargetType where "GrantTargetNamespace = ''namespace''"
definition GrantTargetTable :: GrantTargetType where "GrantTargetTable = ''table''"
definition GrantTargetView :: GrantTargetType where "GrantTargetView = ''view''"

lemmas grant_targets = GrantTargetCatalog_def GrantTargetNamespace_def GrantTargetTable_def
  GrantTargetView_def

record GrantTarget =
  gtType :: GrantTargetType
  gtNamespaceRef :: "NamespaceRef option"
  gtTableRef :: "TableRef option"
  gtViewRef :: "ViewRef option"

record PolarisGrantSpec =
  grCatalogRoleRef :: CatalogRoleRef
  grPrivilege :: Privilege
  grTarget :: GrantTarget

type_synonym PolarisGrantStatus = status_base
type_synonym PolarisGrant = "(PolarisGrantSpec, PolarisGrantStatus) cr"

section \<open>The client.Object interface\<close>

datatype obj =
    OConnection PolarisConnection
  | OCatalog PolarisCatalog
  | ONamespace PolarisNamespace
  | OTable PolarisTable
  | OView PolarisView
  | OPolicy PolarisPolicy
  | OPrincipal PolarisPrincipal
  | OPrincipalRole PolarisPrincipalRole
  | OCatalogRole PolarisCatalogRole
  | OPrincipalRoleBinding PolarisPrincipalRoleBinding
  | OCatalogRoleBinding PolarisCatalogRoleBinding
  | OGrant PolarisGrant

text \<open>The metadata accessors of the interface, and the status fields every kind has.\<close>

fun obj_meta :: "obj \<Rightarrow> objmeta" where
  "obj_meta (OConnection x) = crMeta x"
| "obj_meta (OCatalog x) = crMeta x"
| "obj_meta (ONamespace x) = crMeta x"
| "obj_meta (OTable x) = crMeta x"
| "obj_meta (OView x) = crMeta x"
| "obj_meta (OPolicy x) = crMeta x"
| "obj_meta (OPrincipal x) = crMeta x"
| "obj_meta (OPrincipalRole x) = crMeta x"
| "obj_meta (OCatalogRole x) = crMeta x"
| "obj_meta (OPrincipalRoleBinding x) = crMeta x"
| "obj_meta (OCatalogRoleBinding x) = crMeta x"
| "obj_meta (OGrant x) = crMeta x"

fun set_obj_meta :: "objmeta \<Rightarrow> obj \<Rightarrow> obj" where
  "set_obj_meta m (OConnection x) = OConnection (x\<lparr>crMeta := m\<rparr>)"
| "set_obj_meta m (OCatalog x) = OCatalog (x\<lparr>crMeta := m\<rparr>)"
| "set_obj_meta m (ONamespace x) = ONamespace (x\<lparr>crMeta := m\<rparr>)"
| "set_obj_meta m (OTable x) = OTable (x\<lparr>crMeta := m\<rparr>)"
| "set_obj_meta m (OView x) = OView (x\<lparr>crMeta := m\<rparr>)"
| "set_obj_meta m (OPolicy x) = OPolicy (x\<lparr>crMeta := m\<rparr>)"
| "set_obj_meta m (OPrincipal x) = OPrincipal (x\<lparr>crMeta := m\<rparr>)"
| "set_obj_meta m (OPrincipalRole x) = OPrincipalRole (x\<lparr>crMeta := m\<rparr>)"
| "set_obj_meta m (OCatalogRole x) = OCatalogRole (x\<lparr>crMeta := m\<rparr>)"
| "set_obj_meta m (OPrincipalRoleBinding x) = OPrincipalRoleBinding (x\<lparr>crMeta := m\<rparr>)"
| "set_obj_meta m (OCatalogRoleBinding x) = OCatalogRoleBinding (x\<lparr>crMeta := m\<rparr>)"
| "set_obj_meta m (OGrant x) = OGrant (x\<lparr>crMeta := m\<rparr>)"

fun obj_conds :: "obj \<Rightarrow> Condition list" where
  "obj_conds (OConnection x) = conditions (crStatus x)"
| "obj_conds (OCatalog x) = conditions (crStatus x)"
| "obj_conds (ONamespace x) = conditions (crStatus x)"
| "obj_conds (OTable x) = conditions (crStatus x)"
| "obj_conds (OView x) = conditions (crStatus x)"
| "obj_conds (OPolicy x) = conditions (crStatus x)"
| "obj_conds (OPrincipal x) = conditions (crStatus x)"
| "obj_conds (OPrincipalRole x) = conditions (crStatus x)"
| "obj_conds (OCatalogRole x) = conditions (crStatus x)"
| "obj_conds (OPrincipalRoleBinding x) = conditions (crStatus x)"
| "obj_conds (OCatalogRoleBinding x) = conditions (crStatus x)"
| "obj_conds (OGrant x) = conditions (crStatus x)"

fun obj_observed :: "obj \<Rightarrow> int" where
  "obj_observed (OConnection x) = observedGeneration (crStatus x)"
| "obj_observed (OCatalog x) = observedGeneration (crStatus x)"
| "obj_observed (ONamespace x) = observedGeneration (crStatus x)"
| "obj_observed (OTable x) = observedGeneration (crStatus x)"
| "obj_observed (OView x) = observedGeneration (crStatus x)"
| "obj_observed (OPolicy x) = observedGeneration (crStatus x)"
| "obj_observed (OPrincipal x) = observedGeneration (crStatus x)"
| "obj_observed (OPrincipalRole x) = observedGeneration (crStatus x)"
| "obj_observed (OCatalogRole x) = observedGeneration (crStatus x)"
| "obj_observed (OPrincipalRoleBinding x) = observedGeneration (crStatus x)"
| "obj_observed (OCatalogRoleBinding x) = observedGeneration (crStatus x)"
| "obj_observed (OGrant x) = observedGeneration (crStatus x)"

text \<open>Writes through \<open>&obj.Status.Conditions\<close> and \<open>obj.Status.ObservedGeneration\<close>.\<close>

definition setConds ::
  "Condition list \<Rightarrow> ('sp, 'a status_base_scheme) cr \<Rightarrow> ('sp, 'a status_base_scheme) cr" where
  "setConds cs x = x\<lparr>crStatus := (crStatus x)\<lparr>conditions := cs\<rparr>\<rparr>"

definition setObserved ::
  "int \<Rightarrow> ('sp, 'a status_base_scheme) cr \<Rightarrow> ('sp, 'a status_base_scheme) cr" where
  "setObserved g x = x\<lparr>crStatus := (crStatus x)\<lparr>observedGeneration := g\<rparr>\<rparr>"

fun set_obj_conds :: "Condition list \<Rightarrow> obj \<Rightarrow> obj" where
  "set_obj_conds cs (OConnection x) = OConnection (setConds cs x)"
| "set_obj_conds cs (OCatalog x) = OCatalog (setConds cs x)"
| "set_obj_conds cs (ONamespace x) = ONamespace (setConds cs x)"
| "set_obj_conds cs (OTable x) = OTable (setConds cs x)"
| "set_obj_conds cs (OView x) = OView (setConds cs x)"
| "set_obj_conds cs (OPolicy x) = OPolicy (setConds cs x)"
| "set_obj_conds cs (OPrincipal x) = OPrincipal (setConds cs x)"
| "set_obj_conds cs (OPrincipalRole x) = OPrincipalRole (setConds cs x)"
| "set_obj_conds cs (OCatalogRole x) = OCatalogRole (setConds cs x)"
| "set_obj_conds cs (OPrincipalRoleBinding x) = OPrincipalRoleBinding (setConds cs x)"
| "set_obj_conds cs (OCatalogRoleBinding x) = OCatalogRoleBinding (setConds cs x)"
| "set_obj_conds cs (OGrant x) = OGrant (setConds cs x)"

lemma setConds_simps [simp]:
  "crMeta (setConds cs x) = crMeta x" "crSpec (setConds cs x) = crSpec x"
  "conditions (crStatus (setConds cs x)) = cs"
  "observedGeneration (crStatus (setConds cs x)) = observedGeneration (crStatus x)"
  by (simp_all add: setConds_def)

lemma setObserved_simps [simp]:
  "crMeta (setObserved g x) = crMeta x" "crSpec (setObserved g x) = crSpec x"
  "conditions (crStatus (setObserved g x)) = conditions (crStatus x)"
  "observedGeneration (crStatus (setObserved g x)) = g"
  by (simp_all add: setObserved_def)

lemma set_obj_meta_simps [simp]:
  "obj_meta (set_obj_meta m ob) = m" "obj_conds (set_obj_meta m ob) = obj_conds ob"
  "obj_observed (set_obj_meta m ob) = obj_observed ob"
  by (cases ob; simp)+

lemma set_obj_conds_simps [simp]:
  "obj_meta (set_obj_conds cs ob) = obj_meta ob" "obj_conds (set_obj_conds cs ob) = cs"
  "obj_observed (set_obj_conds cs ob) = obj_observed ob"
  by (cases ob; simp)+

end
