(* ===== verification/Wire.thy ===== *)
theory Wire
  imports Api_Types
begin

text \<open>
  The wire formats of the Polaris REST API as the generated clients
  (\<open>internal/polaris/management\<close> and \<open>internal/polaris/catalog\<close>) define them: the request and
  response structs, what \<open>encoding/json\<close> makes of them in either direction, and the
  requests and raw responses themselves.

  A JSON document is a value of \<open>json\<close>. The text parser of \<open>encoding/json\<close> is a parameter of
  the model (the field \<open>json_parse\<close> of the environment, theory World); what
  \<open>json.Unmarshal\<close> does with the parsed document is defined here for the fields the operator
  reads: a missing field or a null leaves the zero value, a value of another shape is an
  error, field names match without regard to ASCII case, and the last of several equal names
  counts. The fields of a response the operator never reads can only make the decoding fail;
  the verdict on them is the parameter \<open>rest\<close> of a decoder. Marshalling writes a struct's
  fields in order and leaves out an empty \<open>omitempty\<close> field.
\<close>

section \<open>JSON\<close>

datatype json =
    JNull
  | JBool bool
  | JInt int
  | JFraction string
  | JString string
  | JArray "json list"
  | JObject "(string \<times> json) list"

definition jomit :: "string \<Rightarrow> ('a \<Rightarrow> json) \<Rightarrow> 'a option \<Rightarrow> (string \<times> json) list" where
  "jomit k f v = (case v of None \<Rightarrow> [] | Some x \<Rightarrow> [(k, f x)])"

definition jomit_str :: "string \<Rightarrow> string \<Rightarrow> (string \<times> json) list" where
  "jomit_str k s = (if s = [] then [] else [(k, JString s)])"

definition jstrings :: "string list \<Rightarrow> json" where
  "jstrings ss = JArray (map JString ss)"

definition jstrmap :: "strmap \<Rightarrow> json" where
  "jstrmap m = JObject (map (\<lambda>(k, v). (k, JString v)) m)"

definition jword :: "go_int \<Rightarrow> json" where
  "jword w = JInt (sint w)"

lemma jomit_simps [simp]: "jomit k f None = []" "jomit k f (Some x) = [(k, f x)]"
  by (simp_all add: jomit_def)

lemma jstrmap_inject [simp]: "jstrmap a = jstrmap b \<longleftrightarrow> a = b"
proof -
  have "inj (\<lambda>(k, v). (k, JString v) :: string \<times> json)" by (auto simp: inj_def)
  then show ?thesis by (simp add: jstrmap_def inj_map_eq_map)
qed

lemma jstrings_inject [simp]: "jstrings a = jstrings b \<longleftrightarrow> a = b"
  by (simp add: jstrings_def inj_map_eq_map inj_def)

section \<open>Decoding\<close>

definition lower_char :: "char \<Rightarrow> char" where
  "lower_char c = (let n = (of_char c :: nat) in if 65 \<le> n \<and> n \<le> 90 then char_of (n + 32) else c)"

definition same_field :: "string \<Rightarrow> string \<Rightarrow> bool" where
  "same_field a b \<longleftrightarrow> map lower_char a = map lower_char b"

definition json_error :: "string \<Rightarrow> goerr" where
  "json_error t = ErrLib (''json: cannot unmarshal value into Go value of type '' @ t)"

definition dec_string :: "json \<Rightarrow> goerr + string" where
  "dec_string j =
     (case j of JString s \<Rightarrow> Inr s | JNull \<Rightarrow> Inr [] | _ \<Rightarrow> Inl (json_error ''string''))"

definition dec_int :: "json \<Rightarrow> goerr + go_int" where
  "dec_int j =
     (case j of
        JInt i \<Rightarrow> if - (2 ^ 63) \<le> i \<and> i < 2 ^ 63 then Inr (word_of_int i)
                  else Inl (json_error ''int'')
      | JNull \<Rightarrow> Inr 0
      | _ \<Rightarrow> Inl (json_error ''int''))"

fun dec_list :: "(json \<Rightarrow> goerr + 'a) \<Rightarrow> json list \<Rightarrow> goerr + 'a list" where
  "dec_list d [] = Inr []"
| "dec_list d (j # js) =
     (case d j of
        Inl e \<Rightarrow> Inl e
      | Inr x \<Rightarrow> (case dec_list d js of Inl e \<Rightarrow> Inl e | Inr xs \<Rightarrow> Inr (x # xs)))"

definition dec_strings :: "json \<Rightarrow> goerr + string list" where
  "dec_strings j =
     (case j of JArray js \<Rightarrow> dec_list dec_string js | JNull \<Rightarrow> Inr []
      | _ \<Rightarrow> Inl (json_error ''[]string''))"

fun dec_entries :: "(string \<times> json) list \<Rightarrow> strmap \<Rightarrow> goerr + strmap" where
  "dec_entries [] m = Inr m"
| "dec_entries ((k, j) # kvs) m =
     (case dec_string j of Inl e \<Rightarrow> Inl e | Inr v \<Rightarrow> dec_entries kvs (AList.update k v m))"

definition dec_strmap :: "json \<Rightarrow> goerr + strmap" where
  "dec_strmap j =
     (case j of JObject kvs \<Rightarrow> dec_entries kvs [] | JNull \<Rightarrow> Inr []
      | _ \<Rightarrow> Inl (json_error ''map[string]string''))"

text \<open>A field of pointer type: null or missing is nil.\<close>

definition dec_ptr :: "(json \<Rightarrow> goerr + 'a) \<Rightarrow> json \<Rightarrow> goerr + 'a option" where
  "dec_ptr d j =
     (case j of JNull \<Rightarrow> Inr None
      | _ \<Rightarrow> (case d j of Inl e \<Rightarrow> Inl e | Inr x \<Rightarrow> Inr (Some x)))"

definition dec_fields :: "string \<Rightarrow> json \<Rightarrow> goerr + (string \<times> json) list" where
  "dec_fields t j = (case j of JObject kvs \<Rightarrow> Inr kvs | JNull \<Rightarrow> Inr [] | _ \<Rightarrow> Inl (json_error t))"

definition field :: "(string \<times> json) list \<Rightarrow> string \<Rightarrow> json" where
  "field kvs n =
     (case find (\<lambda>(k, _). same_field k n) (rev kvs) of None \<Rightarrow> JNull | Some (_, j) \<Rightarrow> j)"

definition sum_bind :: "'e + 'a \<Rightarrow> ('a \<Rightarrow> 'e + 'b) \<Rightarrow> 'e + 'b" where
  "sum_bind x f = (case x of Inl e \<Rightarrow> Inl e | Inr a \<Rightarrow> f a)"

lemma sum_bind_simps [simp]: "sum_bind (Inl e) f = Inl e" "sum_bind (Inr a) f = f a"
  by (simp_all add: sum_bind_def)

lemma wf_dec_entries: "wf_map m \<Longrightarrow> dec_entries kvs m = Inr r \<Longrightarrow> wf_map r"
  by (induction kvs m rule: dec_entries.induct) (auto split: sum.splits)

lemma wf_dec_strmap: "dec_strmap j = Inr m \<Longrightarrow> wf_map m"
  by (auto simp: dec_strmap_def split: json.splits intro: wf_dec_entries [OF wf_map_Nil])

text \<open>The last argument of every decoder below is \<open>rest\<close>, as said above.\<close>

type_synonym rest_check = "string \<Rightarrow> json \<Rightarrow> goerr option"

definition dec_rest :: "rest_check \<Rightarrow> string \<Rightarrow> json \<Rightarrow> 'a \<Rightarrow> goerr + 'a" where
  "dec_rest rest t j x = (case rest t j of Some e \<Rightarrow> Inl e | None \<Rightarrow> Inr x)"

section \<open>Management plane types\<close>

record Catalog_Properties =
  cpDefaultBaseLocation :: string
  cpAdditionalProperties :: strmap

record StorageConfigInfo =
  sciAllowedLocations :: "string list option"
  sciStorageType :: string

record Catalog =
  mcEntityVersion :: "go_int option"
  mcProperties :: Catalog_Properties
  mcStorageConfigInfo :: StorageConfigInfo

record Principal =
  mpClientId :: "string option"
  mpEntityVersion :: "go_int option"
  mpName :: string
  mpProperties :: "strmap option"

record PrincipalRole =
  mprEntityVersion :: "go_int option"
  mprName :: string
  mprProperties :: "strmap option"

record CatalogRole =
  mcrEntityVersion :: "go_int option"
  mcrName :: string
  mcrProperties :: "strmap option"

text \<open>The anonymous struct \<open>Credentials\<close> of \<open>PrincipalWithCredentials\<close>.\<close>

record PrincipalWithCredentials =
  pwcClientId :: "string option"
  pwcClientSecret :: "string option"

record CreatePrincipalRequest =
  cprCredentialRotationRequired :: "bool option"
  cprPrincipal :: "Principal option"

record UpdateRequest =
  urCurrentEntityVersion :: go_int
  urProperties :: strmap

type_synonym UpdatePrincipalRequest = UpdateRequest
type_synonym UpdatePrincipalRoleRequest = UpdateRequest
type_synonym UpdateCatalogRoleRequest = UpdateRequest

record PrincipalRoleRequest = prqPrincipalRole :: "PrincipalRole option"

type_synonym CreatePrincipalRoleRequest = PrincipalRoleRequest
type_synonym GrantPrincipalRoleRequest = PrincipalRoleRequest

record CatalogRoleRequest = crqCatalogRole :: "CatalogRole option"

type_synonym CreateCatalogRoleRequest = CatalogRoleRequest
type_synonym GrantCatalogRoleRequest = CatalogRoleRequest

text \<open>
  \<open>Catalog_Properties.UnmarshalJSON\<close>: the key \<open>default-base-location\<close> (exact, this is a Go
  map) is taken out, every other key goes to \<open>AdditionalProperties\<close>.
\<close>

fun dec_named :: "(string \<times> json) list \<Rightarrow> goerr + strmap" where
  "dec_named [] = Inr []"
| "dec_named ((k, j) # kvs) =
     (case dec_string j of
        Inl e \<Rightarrow> Inl (ErrWrap (''error unmarshaling field '' @ k @ '': '') e)
      | Inr v \<Rightarrow> (case dec_named kvs of Inl e \<Rightarrow> Inl e | Inr m \<Rightarrow> Inr ((k, v) # m)))"

definition Catalog_Properties_UnmarshalJSON :: "json \<Rightarrow> goerr + Catalog_Properties" where
  "Catalog_Properties_UnmarshalJSON j =
     sum_bind (dec_fields ''map[string]json.RawMessage'' j) (\<lambda>kvs.
     let key = ''default-base-location'';
         object = foldl (\<lambda>m (k, raw). AList.update k raw m) [] kvs in
     sum_bind
       (case map_of object key of
          None \<Rightarrow> Inr []
        | Some raw \<Rightarrow>
            (case dec_string raw of
               Inl e \<Rightarrow> Inl (ErrWrap (''error reading '' @ [CHR 0x27] @ key @ [CHR 0x27] @ '': '') e)
             | Inr s \<Rightarrow> Inr s)) (\<lambda>loc.
     sum_bind (dec_named (filter (\<lambda>(k, _). k \<noteq> key) object)) (\<lambda>props.
       Inr \<lparr>cpDefaultBaseLocation = loc, cpAdditionalProperties = props\<rparr>)))"

lemma map_fst_dec_named: "dec_named kvs = Inr m \<Longrightarrow> map fst m = map fst kvs"
  by (induction kvs arbitrary: m rule: dec_named.induct) (auto split: sum.splits)

lemma wf_map_foldl_update:
  "wf_map m \<Longrightarrow> wf_map (foldl (\<lambda>m (k, v). AList.update k v m) m kvs)"
  by (induction kvs arbitrary: m) auto

lemma wf_map_filter: "wf_map m \<Longrightarrow> wf_map (filter P m)"
  by (auto simp: wf_map_def intro: distinct_map_filter)

text \<open>
  The properties read back from the server form a Go map without the key
  \<open>default-base-location\<close>.
\<close>

lemma Catalog_Properties_additional:
  assumes "Catalog_Properties_UnmarshalJSON j = Inr p"
  shows "wf_map (cpAdditionalProperties p)"
    and "''default-base-location'' \<notin> fst ` set (cpAdditionalProperties p)"
proof -
  from assms obtain kvs where
    dec: "dec_named (filter (\<lambda>(k, _). k \<noteq> ''default-base-location'')
      (foldl (\<lambda>m (k, raw). AList.update k raw m) [] kvs)) = Inr (cpAdditionalProperties p)"
    by (auto simp: Catalog_Properties_UnmarshalJSON_def sum_bind_def Let_def split: sum.splits)
  have wf: "wf_map (foldl (\<lambda>m (k, raw). AList.update k raw m) [] kvs)"
    by (simp add: wf_map_foldl_update)
  note keys = map_fst_dec_named [OF dec]
  show "wf_map (cpAdditionalProperties p)"
    using wf_map_filter [OF wf] keys by (simp add: wf_map_def)
  show "''default-base-location'' \<notin> fst ` set (cpAdditionalProperties p)"
    using arg_cong [OF keys, of set] by (auto simp: image_iff)
qed

definition dec_StorageConfigInfo :: "json \<Rightarrow> goerr + StorageConfigInfo" where
  "dec_StorageConfigInfo j =
     sum_bind (dec_fields ''StorageConfigInfo'' j) (\<lambda>f.
     sum_bind (dec_ptr dec_strings (field f ''allowedLocations'')) (\<lambda>locs.
     sum_bind (dec_string (field f ''storageType'')) (\<lambda>ty.
       Inr \<lparr>sciAllowedLocations = locs, sciStorageType = ty\<rparr>)))"

text \<open>A missing \<open>properties\<close> field never reaches \<open>UnmarshalJSON\<close>; a null one decodes to the
  same empty value.\<close>

definition dec_Catalog :: "rest_check \<Rightarrow> json \<Rightarrow> goerr + Catalog" where
  "dec_Catalog rest j =
     sum_bind (dec_fields ''Catalog'' j) (\<lambda>f.
     sum_bind (dec_ptr dec_int (field f ''entityVersion'')) (\<lambda>ver.
     sum_bind (Catalog_Properties_UnmarshalJSON (field f ''properties'')) (\<lambda>props.
     sum_bind (dec_StorageConfigInfo (field f ''storageConfigInfo'')) (\<lambda>sc.
       dec_rest rest ''Catalog'' j
         \<lparr>mcEntityVersion = ver, mcProperties = props, mcStorageConfigInfo = sc\<rparr>))))"

definition dec_Principal :: "rest_check \<Rightarrow> json \<Rightarrow> goerr + Principal" where
  "dec_Principal rest j =
     sum_bind (dec_fields ''Principal'' j) (\<lambda>f.
     sum_bind (dec_ptr dec_string (field f ''clientId'')) (\<lambda>cid.
     sum_bind (dec_ptr dec_int (field f ''entityVersion'')) (\<lambda>ver.
     sum_bind (dec_string (field f ''name'')) (\<lambda>name.
     sum_bind (dec_ptr dec_strmap (field f ''properties'')) (\<lambda>props.
       dec_rest rest ''Principal'' j
         \<lparr>mpClientId = cid, mpEntityVersion = ver, mpName = name, mpProperties = props\<rparr>)))))"

definition dec_PrincipalRole :: "rest_check \<Rightarrow> json \<Rightarrow> goerr + PrincipalRole" where
  "dec_PrincipalRole rest j =
     sum_bind (dec_fields ''PrincipalRole'' j) (\<lambda>f.
     sum_bind (dec_ptr dec_int (field f ''entityVersion'')) (\<lambda>ver.
     sum_bind (dec_string (field f ''name'')) (\<lambda>name.
     sum_bind (dec_ptr dec_strmap (field f ''properties'')) (\<lambda>props.
       dec_rest rest ''PrincipalRole'' j
         \<lparr>mprEntityVersion = ver, mprName = name, mprProperties = props\<rparr>))))"

definition dec_CatalogRole :: "rest_check \<Rightarrow> json \<Rightarrow> goerr + CatalogRole" where
  "dec_CatalogRole rest j =
     sum_bind (dec_fields ''CatalogRole'' j) (\<lambda>f.
     sum_bind (dec_ptr dec_int (field f ''entityVersion'')) (\<lambda>ver.
     sum_bind (dec_string (field f ''name'')) (\<lambda>name.
     sum_bind (dec_ptr dec_strmap (field f ''properties'')) (\<lambda>props.
       dec_rest rest ''CatalogRole'' j
         \<lparr>mcrEntityVersion = ver, mcrName = name, mcrProperties = props\<rparr>))))"

definition dec_PrincipalWithCredentials ::
  "rest_check \<Rightarrow> json \<Rightarrow> goerr + PrincipalWithCredentials" where
  "dec_PrincipalWithCredentials rest j =
     sum_bind (dec_fields ''PrincipalWithCredentials'' j) (\<lambda>f.
     sum_bind (dec_fields ''PrincipalWithCredentials.credentials'' (field f ''credentials'')) (\<lambda>c.
     sum_bind (dec_ptr dec_string (field c ''clientId'')) (\<lambda>cid.
     sum_bind (dec_ptr dec_string (field c ''clientSecret'')) (\<lambda>sec.
       dec_rest rest ''PrincipalWithCredentials'' j
         \<lparr>pwcClientId = cid, pwcClientSecret = sec\<rparr>))))"

section \<open>Catalog plane types\<close>

record GetNamespaceResponse = gnrProperties :: "strmap option"

record TableMetadata =
  tmLocation :: "string option"
  tmTableUuid :: string

record LoadTableResult = ltrMetadata :: TableMetadata

record Policy =
  plContent :: "string option"
  plDescription :: "string option"
  plVersion :: go_int

record LoadPolicyResponse = lprPolicy :: "Policy option"

record CreateNamespaceRequest =
  cnrNamespace :: "string list"
  cnrProperties :: "strmap option"

record UpdateNamespacePropertiesRequest =
  unrRemovals :: "string list option"
  unrUpdates :: "strmap option"

text \<open>The union \<open>catalog.Type\<close> holds raw JSON; the operator only stores a primitive type in it.\<close>

record StructField =
  sfDoc :: "string option"
  sfId :: go_int
  sfName :: string
  sfRequired :: bool
  sfType :: json

record Schema =
  schFields :: "StructField list"
  schIdentifierFieldIds :: "go_int list option"
  schType :: string

record PartitionField =
  pfFieldId :: "go_int option"
  pfName :: string
  pfSourceId :: go_int
  pfTransform :: string

record PartitionSpec = psFields :: "PartitionField list"

record CreateTableRequest =
  ctrName :: string
  ctrPartitionSpec :: "PartitionSpec option"
  ctrProperties :: "strmap option"
  ctrSchema :: Schema

record ViewVersion =
  vvDefaultNamespace :: "string list"
  vvRepresentations :: "json list"
  vvSchemaId :: go_int
  vvSummary :: strmap
  vvTimestampMs :: go_int
  vvVersionId :: go_int

record CreateViewRequest =
  cvrName :: string
  cvrProperties :: strmap
  cvrSchema :: Schema
  cvrViewVersion :: ViewVersion

record CreatePolicyRequest =
  cpqContent :: "string option"
  cpqDescription :: "string option"
  cpqName :: string
  cpqType :: string

record UpdatePolicyRequest =
  upqContent :: "string option"
  upqCurrentPolicyVersion :: "go_int option"
  upqDescription :: "string option"

definition dec_GetNamespaceResponse :: "rest_check \<Rightarrow> json \<Rightarrow> goerr + GetNamespaceResponse" where
  "dec_GetNamespaceResponse rest j =
     sum_bind (dec_fields ''GetNamespaceResponse'' j) (\<lambda>f.
     sum_bind (dec_ptr dec_strmap (field f ''properties'')) (\<lambda>props.
       dec_rest rest ''GetNamespaceResponse'' j \<lparr>gnrProperties = props\<rparr>))"

definition dec_LoadTableResult :: "rest_check \<Rightarrow> json \<Rightarrow> goerr + LoadTableResult" where
  "dec_LoadTableResult rest j =
     sum_bind (dec_fields ''LoadTableResult'' j) (\<lambda>f.
     sum_bind (dec_fields ''TableMetadata'' (field f ''metadata'')) (\<lambda>m.
     sum_bind (dec_ptr dec_string (field m ''location'')) (\<lambda>loc.
     sum_bind (dec_string (field m ''table-uuid'')) (\<lambda>uuid.
       dec_rest rest ''LoadTableResult'' j
         \<lparr>ltrMetadata = \<lparr>tmLocation = loc, tmTableUuid = uuid\<rparr>\<rparr>))))"

definition dec_Policy :: "json \<Rightarrow> goerr + Policy" where
  "dec_Policy j =
     sum_bind (dec_fields ''Policy'' j) (\<lambda>f.
     sum_bind (dec_ptr dec_string (field f ''content'')) (\<lambda>content.
     sum_bind (dec_ptr dec_string (field f ''description'')) (\<lambda>descr.
     sum_bind (dec_int (field f ''version'')) (\<lambda>ver.
       Inr \<lparr>plContent = content, plDescription = descr, plVersion = ver\<rparr>))))"

definition dec_LoadPolicyResponse :: "rest_check \<Rightarrow> json \<Rightarrow> goerr + LoadPolicyResponse" where
  "dec_LoadPolicyResponse rest j =
     sum_bind (dec_fields ''LoadPolicyResponse'' j) (\<lambda>f.
     sum_bind (dec_ptr dec_Policy (field f ''policy'')) (\<lambda>p.
       dec_rest rest ''LoadPolicyResponse'' j \<lparr>lprPolicy = p\<rparr>))"

text \<open>A response type of which the operator reads no field.\<close>

definition dec_unread :: "string \<Rightarrow> rest_check \<Rightarrow> json \<Rightarrow> goerr + unit" where
  "dec_unread t rest j = dec_rest rest t j ()"

end
