(* ===== verification/Rest_Api.thy ===== *)
theory Rest_Api
  imports Wire
begin

text \<open>
  The generated REST clients, \<open>internal/polaris/management/zz_generated.gen.go\<close> and
  \<open>internal/polaris/catalog/zz_generated.gen.go\<close>: for each of the 37 operations the
  reconcilers use, the request it builds (\<open>New...Request\<close>) and what it makes of the response
  (\<open>Parse...Wrapper\<close>). The functions \<open>...WithResponse\<close> that send the request are in theory
  Polaris_Client.

  A request keeps its path as a list of segments: a literal of the OpenAPI template or a
  parameter, which \<open>runtime.StyleParamWithOptions\<close> escapes when the URL is built. \<open>rqOp\<close> names
  the generated operation that made the request; the server does not see it.
\<close>

section \<open>Requests and responses\<close>

datatype operation =
    OpGetCatalog
  | OpCreateCatalog
  | OpUpdateCatalog
  | OpDeleteCatalog
  | OpGetPrincipal
  | OpCreatePrincipal
  | OpUpdatePrincipal
  | OpRotateCredentials
  | OpDeletePrincipal
  | OpGetPrincipalRole
  | OpCreatePrincipalRole
  | OpUpdatePrincipalRole
  | OpDeletePrincipalRole
  | OpGetCatalogRole
  | OpCreateCatalogRole
  | OpUpdateCatalogRole
  | OpDeleteCatalogRole
  | OpAssignPrincipalRole
  | OpRevokePrincipalRole
  | OpAssignCatalogRoleToPrincipalRole
  | OpRevokeCatalogRoleFromPrincipalRole
  | OpAddGrantToCatalogRole
  | OpRevokeGrantFromCatalogRole
  | OpLoadNamespaceMetadata
  | OpCreateNamespace
  | OpUpdateProperties
  | OpDropNamespace
  | OpLoadTable
  | OpCreateTable
  | OpDropTable
  | OpLoadView
  | OpCreateView
  | OpDropView
  | OpLoadPolicy
  | OpCreatePolicy
  | OpUpdatePolicy
  | OpDropPolicy

datatype segment = Lit string | Par string

record request =
  rqOp :: operation
  rqMethod :: string
  rqPath :: "segment list"
  rqBody :: "json option"

text \<open>
  The answer of the server: the body as far as it could be read, and the error that ended
  the reading, if any.
\<close>

record rawresp =
  rrStatus :: int
  rrContentType :: string
  rrBody :: string
  rrReadErr :: "goerr option"

text \<open>
  The role of an operation in the protocol of the reconcilers: reading one remote resource,
  creating it, changing it, the idempotent assignments and grants, removing it.
\<close>

datatype op_class = Probe | Create | Modify | Assign | Remove

definition op_class :: "operation \<Rightarrow> op_class" where
  "op_class p =
     (case p of
        OpGetCatalog \<Rightarrow> Probe | OpGetPrincipal \<Rightarrow> Probe | OpGetPrincipalRole \<Rightarrow> Probe
      | OpGetCatalogRole \<Rightarrow> Probe | OpLoadNamespaceMetadata \<Rightarrow> Probe | OpLoadTable \<Rightarrow> Probe
      | OpLoadView \<Rightarrow> Probe | OpLoadPolicy \<Rightarrow> Probe
      | OpCreateCatalog \<Rightarrow> Create | OpCreatePrincipal \<Rightarrow> Create
      | OpCreatePrincipalRole \<Rightarrow> Create | OpCreateCatalogRole \<Rightarrow> Create
      | OpCreateNamespace \<Rightarrow> Create | OpCreateTable \<Rightarrow> Create | OpCreateView \<Rightarrow> Create
      | OpCreatePolicy \<Rightarrow> Create
      | OpUpdateCatalog \<Rightarrow> Modify | OpUpdatePrincipal \<Rightarrow> Modify
      | OpRotateCredentials \<Rightarrow> Modify | OpUpdatePrincipalRole \<Rightarrow> Modify
      | OpUpdateCatalogRole \<Rightarrow> Modify | OpUpdateProperties \<Rightarrow> Modify
      | OpUpdatePolicy \<Rightarrow> Modify
      | OpAssignPrincipalRole \<Rightarrow> Assign | OpAssignCatalogRoleToPrincipalRole \<Rightarrow> Assign
      | OpAddGrantToCatalogRole \<Rightarrow> Assign
      | _ \<Rightarrow> Remove)"

section \<open>Request bodies\<close>

definition marshal_Principal :: "Principal \<Rightarrow> json" where
  "marshal_Principal p =
     JObject (jomit ''clientId'' JString (mpClientId p) @
       jomit ''entityVersion'' jword (mpEntityVersion p) @
       [(''name'', JString (mpName p))] @
       jomit ''properties'' jstrmap (mpProperties p))"

definition marshal_PrincipalRole :: "PrincipalRole \<Rightarrow> json" where
  "marshal_PrincipalRole p =
     JObject (jomit ''entityVersion'' jword (mprEntityVersion p) @
       [(''name'', JString (mprName p))] @
       jomit ''properties'' jstrmap (mprProperties p))"

definition marshal_CatalogRole :: "CatalogRole \<Rightarrow> json" where
  "marshal_CatalogRole p =
     JObject (jomit ''entityVersion'' jword (mcrEntityVersion p) @
       [(''name'', JString (mcrName p))] @
       jomit ''properties'' jstrmap (mcrProperties p))"

definition marshal_CreatePrincipalRequest :: "CreatePrincipalRequest \<Rightarrow> json" where
  "marshal_CreatePrincipalRequest b =
     JObject (jomit ''credentialRotationRequired'' JBool (cprCredentialRotationRequired b) @
       jomit ''principal'' marshal_Principal (cprPrincipal b))"

definition marshal_UpdateRequest :: "UpdateRequest \<Rightarrow> json" where
  "marshal_UpdateRequest b =
     JObject [(''currentEntityVersion'', jword (urCurrentEntityVersion b)),
       (''properties'', jstrmap (urProperties b))]"

definition marshal_PrincipalRoleRequest :: "PrincipalRoleRequest \<Rightarrow> json" where
  "marshal_PrincipalRoleRequest b =
     JObject (jomit ''principalRole'' marshal_PrincipalRole (prqPrincipalRole b))"

definition marshal_CatalogRoleRequest :: "CatalogRoleRequest \<Rightarrow> json" where
  "marshal_CatalogRoleRequest b =
     JObject (jomit ''catalogRole'' marshal_CatalogRole (crqCatalogRole b))"

definition marshal_CreateNamespaceRequest :: "CreateNamespaceRequest \<Rightarrow> json" where
  "marshal_CreateNamespaceRequest b =
     JObject ([(''namespace'', jstrings (cnrNamespace b))] @
       jomit ''properties'' jstrmap (cnrProperties b))"

definition marshal_UpdateNamespacePropertiesRequest ::
  "UpdateNamespacePropertiesRequest \<Rightarrow> json" where
  "marshal_UpdateNamespacePropertiesRequest b =
     JObject (jomit ''removals'' jstrings (unrRemovals b) @
       jomit ''updates'' jstrmap (unrUpdates b))"

definition marshal_StructField :: "StructField \<Rightarrow> json" where
  "marshal_StructField f =
     JObject (jomit ''doc'' JString (sfDoc f) @
       [(''id'', jword (sfId f)), (''name'', JString (sfName f)),
        (''required'', JBool (sfRequired f)), (''type'', sfType f)])"

text \<open>A nil slice without \<open>omitempty\<close> is written as null.\<close>

definition jslice :: "('a \<Rightarrow> json) \<Rightarrow> 'a list \<Rightarrow> json" where
  "jslice f xs = (if xs = [] then JNull else JArray (map f xs))"

definition marshal_Schema :: "Schema \<Rightarrow> json" where
  "marshal_Schema s =
     JObject ([(''fields'', jslice marshal_StructField (schFields s))] @
       jomit ''identifier-field-ids'' (\<lambda>ids. JArray (map jword ids)) (schIdentifierFieldIds s) @
       [(''type'', JString (schType s))])"

definition marshal_PartitionField :: "PartitionField \<Rightarrow> json" where
  "marshal_PartitionField f =
     JObject (jomit ''field-id'' jword (pfFieldId f) @
       [(''name'', JString (pfName f)), (''source-id'', jword (pfSourceId f)),
        (''transform'', JString (pfTransform f))])"

definition marshal_PartitionSpec :: "PartitionSpec \<Rightarrow> json" where
  "marshal_PartitionSpec s =
     JObject [(''fields'', jslice marshal_PartitionField (psFields s))]"

definition marshal_CreateTableRequest :: "CreateTableRequest \<Rightarrow> json" where
  "marshal_CreateTableRequest b =
     JObject ([(''name'', JString (ctrName b))] @
       jomit ''partition-spec'' marshal_PartitionSpec (ctrPartitionSpec b) @
       jomit ''properties'' jstrmap (ctrProperties b) @
       [(''schema'', marshal_Schema (ctrSchema b))])"

definition marshal_ViewVersion :: "ViewVersion \<Rightarrow> json" where
  "marshal_ViewVersion v =
     JObject [(''default-namespace'', jstrings (vvDefaultNamespace v)),
       (''representations'', JArray (vvRepresentations v)),
       (''schema-id'', jword (vvSchemaId v)), (''summary'', jstrmap (vvSummary v)),
       (''timestamp-ms'', jword (vvTimestampMs v)), (''version-id'', jword (vvVersionId v))]"

definition marshal_CreateViewRequest :: "CreateViewRequest \<Rightarrow> json" where
  "marshal_CreateViewRequest b =
     JObject [(''name'', JString (cvrName b)), (''properties'', jstrmap (cvrProperties b)),
       (''schema'', marshal_Schema (cvrSchema b)),
       (''view-version'', marshal_ViewVersion (cvrViewVersion b))]"

definition marshal_CreatePolicyRequest :: "CreatePolicyRequest \<Rightarrow> json" where
  "marshal_CreatePolicyRequest b =
     JObject (jomit ''content'' JString (cpqContent b) @
       jomit ''description'' JString (cpqDescription b) @
       [(''name'', JString (cpqName b)), (''type'', JString (cpqType b))])"

definition marshal_UpdatePolicyRequest :: "UpdatePolicyRequest \<Rightarrow> json" where
  "marshal_UpdatePolicyRequest b =
     JObject (jomit ''content'' JString (upqContent b) @
       jomit ''current-policy-version'' jword (upqCurrentPolicyVersion b) @
       jomit ''description'' JString (upqDescription b))"

section \<open>Request constructors\<close>

definition NewGetCatalogRequest :: "string \<Rightarrow> request" where
  "NewGetCatalogRequest catalogName =
     \<lparr>rqOp = OpGetCatalog, rqMethod = ''GET'',
      rqPath = [Lit ''catalogs'', Par catalogName],
      rqBody = None\<rparr>"

definition NewCreateCatalogRequestWithBody :: "json \<Rightarrow> request" where
  "NewCreateCatalogRequestWithBody body =
     \<lparr>rqOp = OpCreateCatalog, rqMethod = ''POST'',
      rqPath = [Lit ''catalogs''],
      rqBody = Some body\<rparr>"

definition NewUpdateCatalogRequestWithBody :: "string \<Rightarrow> json \<Rightarrow> request" where
  "NewUpdateCatalogRequestWithBody catalogName body =
     \<lparr>rqOp = OpUpdateCatalog, rqMethod = ''PUT'',
      rqPath = [Lit ''catalogs'', Par catalogName],
      rqBody = Some body\<rparr>"

definition NewDeleteCatalogRequest :: "string \<Rightarrow> request" where
  "NewDeleteCatalogRequest catalogName =
     \<lparr>rqOp = OpDeleteCatalog, rqMethod = ''DELETE'',
      rqPath = [Lit ''catalogs'', Par catalogName],
      rqBody = None\<rparr>"

definition NewGetPrincipalRequest :: "string \<Rightarrow> request" where
  "NewGetPrincipalRequest principalName =
     \<lparr>rqOp = OpGetPrincipal, rqMethod = ''GET'',
      rqPath = [Lit ''principals'', Par principalName],
      rqBody = None\<rparr>"

definition NewCreatePrincipalRequest :: "CreatePrincipalRequest \<Rightarrow> request" where
  "NewCreatePrincipalRequest body =
     \<lparr>rqOp = OpCreatePrincipal, rqMethod = ''POST'',
      rqPath = [Lit ''principals''],
      rqBody = Some (marshal_CreatePrincipalRequest body)\<rparr>"

definition NewUpdatePrincipalRequest :: "string \<Rightarrow> UpdateRequest \<Rightarrow> request" where
  "NewUpdatePrincipalRequest principalName body =
     \<lparr>rqOp = OpUpdatePrincipal, rqMethod = ''PUT'',
      rqPath = [Lit ''principals'', Par principalName],
      rqBody = Some (marshal_UpdateRequest body)\<rparr>"

definition NewRotateCredentialsRequest :: "string \<Rightarrow> request" where
  "NewRotateCredentialsRequest principalName =
     \<lparr>rqOp = OpRotateCredentials, rqMethod = ''POST'',
      rqPath = [Lit ''principals'', Par principalName, Lit ''rotate''],
      rqBody = None\<rparr>"

definition NewDeletePrincipalRequest :: "string \<Rightarrow> request" where
  "NewDeletePrincipalRequest principalName =
     \<lparr>rqOp = OpDeletePrincipal, rqMethod = ''DELETE'',
      rqPath = [Lit ''principals'', Par principalName],
      rqBody = None\<rparr>"

definition NewGetPrincipalRoleRequest :: "string \<Rightarrow> request" where
  "NewGetPrincipalRoleRequest principalRoleName =
     \<lparr>rqOp = OpGetPrincipalRole, rqMethod = ''GET'',
      rqPath = [Lit ''principal-roles'', Par principalRoleName],
      rqBody = None\<rparr>"

definition NewCreatePrincipalRoleRequest :: "PrincipalRoleRequest \<Rightarrow> request" where
  "NewCreatePrincipalRoleRequest body =
     \<lparr>rqOp = OpCreatePrincipalRole, rqMethod = ''POST'',
      rqPath = [Lit ''principal-roles''],
      rqBody = Some (marshal_PrincipalRoleRequest body)\<rparr>"

definition NewUpdatePrincipalRoleRequest :: "string \<Rightarrow> UpdateRequest \<Rightarrow> request" where
  "NewUpdatePrincipalRoleRequest principalRoleName body =
     \<lparr>rqOp = OpUpdatePrincipalRole, rqMethod = ''PUT'',
      rqPath = [Lit ''principal-roles'', Par principalRoleName],
      rqBody = Some (marshal_UpdateRequest body)\<rparr>"

definition NewDeletePrincipalRoleRequest :: "string \<Rightarrow> request" where
  "NewDeletePrincipalRoleRequest principalRoleName =
     \<lparr>rqOp = OpDeletePrincipalRole, rqMethod = ''DELETE'',
      rqPath = [Lit ''principal-roles'', Par principalRoleName],
      rqBody = None\<rparr>"

definition NewGetCatalogRoleRequest :: "string \<Rightarrow> string \<Rightarrow> request" where
  "NewGetCatalogRoleRequest catalogName catalogRoleName =
     \<lparr>rqOp = OpGetCatalogRole, rqMethod = ''GET'',
      rqPath = [Lit ''catalogs'', Par catalogName, Lit ''catalog-roles'', Par catalogRoleName],
      rqBody = None\<rparr>"

definition NewCreateCatalogRoleRequest :: "string \<Rightarrow> CatalogRoleRequest \<Rightarrow> request" where
  "NewCreateCatalogRoleRequest catalogName body =
     \<lparr>rqOp = OpCreateCatalogRole, rqMethod = ''POST'',
      rqPath = [Lit ''catalogs'', Par catalogName, Lit ''catalog-roles''],
      rqBody = Some (marshal_CatalogRoleRequest body)\<rparr>"

definition NewUpdateCatalogRoleRequest :: "string \<Rightarrow> string \<Rightarrow> UpdateRequest \<Rightarrow> request" where
  "NewUpdateCatalogRoleRequest catalogName catalogRoleName body =
     \<lparr>rqOp = OpUpdateCatalogRole, rqMethod = ''PUT'',
      rqPath = [Lit ''catalogs'', Par catalogName, Lit ''catalog-roles'', Par catalogRoleName],
      rqBody = Some (marshal_UpdateRequest body)\<rparr>"

definition NewDeleteCatalogRoleRequest :: "string \<Rightarrow> string \<Rightarrow> request" where
  "NewDeleteCatalogRoleRequest catalogName catalogRoleName =
     \<lparr>rqOp = OpDeleteCatalogRole, rqMethod = ''DELETE'',
      rqPath = [Lit ''catalogs'', Par catalogName, Lit ''catalog-roles'', Par catalogRoleName],
      rqBody = None\<rparr>"

definition NewAssignPrincipalRoleRequest :: "string \<Rightarrow> PrincipalRoleRequest \<Rightarrow> request" where
  "NewAssignPrincipalRoleRequest principalName body =
     \<lparr>rqOp = OpAssignPrincipalRole, rqMethod = ''PUT'',
      rqPath = [Lit ''principals'', Par principalName, Lit ''principal-roles''],
      rqBody = Some (marshal_PrincipalRoleRequest body)\<rparr>"

definition NewRevokePrincipalRoleRequest :: "string \<Rightarrow> string \<Rightarrow> request" where
  "NewRevokePrincipalRoleRequest principalName principalRoleName =
     \<lparr>rqOp = OpRevokePrincipalRole, rqMethod = ''DELETE'',
      rqPath = [Lit ''principals'', Par principalName, Lit ''principal-roles'', Par principalRoleName],
      rqBody = None\<rparr>"

definition NewAssignCatalogRoleToPrincipalRoleRequest :: "string \<Rightarrow> string \<Rightarrow> CatalogRoleRequest \<Rightarrow> request" where
  "NewAssignCatalogRoleToPrincipalRoleRequest principalRoleName catalogName body =
     \<lparr>rqOp = OpAssignCatalogRoleToPrincipalRole, rqMethod = ''PUT'',
      rqPath = [Lit ''principal-roles'', Par principalRoleName, Lit ''catalog-roles'', Par catalogName],
      rqBody = Some (marshal_CatalogRoleRequest body)\<rparr>"

definition NewRevokeCatalogRoleFromPrincipalRoleRequest :: "string \<Rightarrow> string \<Rightarrow> string \<Rightarrow> request" where
  "NewRevokeCatalogRoleFromPrincipalRoleRequest principalRoleName catalogName catalogRoleName =
     \<lparr>rqOp = OpRevokeCatalogRoleFromPrincipalRole, rqMethod = ''DELETE'',
      rqPath = [Lit ''principal-roles'', Par principalRoleName, Lit ''catalog-roles'', Par catalogName, Par catalogRoleName],
      rqBody = None\<rparr>"

definition NewAddGrantToCatalogRoleRequestWithBody :: "string \<Rightarrow> string \<Rightarrow> json \<Rightarrow> request" where
  "NewAddGrantToCatalogRoleRequestWithBody catalogName catalogRoleName body =
     \<lparr>rqOp = OpAddGrantToCatalogRole, rqMethod = ''PUT'',
      rqPath = [Lit ''catalogs'', Par catalogName, Lit ''catalog-roles'', Par catalogRoleName, Lit ''grants''],
      rqBody = Some body\<rparr>"

definition NewRevokeGrantFromCatalogRoleRequestWithBody :: "string \<Rightarrow> string \<Rightarrow> json \<Rightarrow> request" where
  "NewRevokeGrantFromCatalogRoleRequestWithBody catalogName catalogRoleName body =
     \<lparr>rqOp = OpRevokeGrantFromCatalogRole, rqMethod = ''POST'',
      rqPath = [Lit ''catalogs'', Par catalogName, Lit ''catalog-roles'', Par catalogRoleName, Lit ''grants''],
      rqBody = Some body\<rparr>"

definition NewLoadNamespaceMetadataRequest :: "string \<Rightarrow> string \<Rightarrow> request" where
  "NewLoadNamespaceMetadataRequest prefix namespace =
     \<lparr>rqOp = OpLoadNamespaceMetadata, rqMethod = ''GET'',
      rqPath = [Lit ''v1'', Par prefix, Lit ''namespaces'', Par namespace],
      rqBody = None\<rparr>"

definition NewCreateNamespaceRequest :: "string \<Rightarrow> CreateNamespaceRequest \<Rightarrow> request" where
  "NewCreateNamespaceRequest prefix body =
     \<lparr>rqOp = OpCreateNamespace, rqMethod = ''POST'',
      rqPath = [Lit ''v1'', Par prefix, Lit ''namespaces''],
      rqBody = Some (marshal_CreateNamespaceRequest body)\<rparr>"

definition NewUpdatePropertiesRequest :: "string \<Rightarrow> string \<Rightarrow> UpdateNamespacePropertiesRequest \<Rightarrow> request" where
  "NewUpdatePropertiesRequest prefix namespace body =
     \<lparr>rqOp = OpUpdateProperties, rqMethod = ''POST'',
      rqPath = [Lit ''v1'', Par prefix, Lit ''namespaces'', Par namespace, Lit ''properties''],
      rqBody = Some (marshal_UpdateNamespacePropertiesRequest body)\<rparr>"

definition NewDropNamespaceRequest :: "string \<Rightarrow> string \<Rightarrow> request" where
  "NewDropNamespaceRequest prefix namespace =
     \<lparr>rqOp = OpDropNamespace, rqMethod = ''DELETE'',
      rqPath = [Lit ''v1'', Par prefix, Lit ''namespaces'', Par namespace],
      rqBody = None\<rparr>"

definition NewLoadTableRequest :: "string \<Rightarrow> string \<Rightarrow> string \<Rightarrow> request" where
  "NewLoadTableRequest prefix namespace table =
     \<lparr>rqOp = OpLoadTable, rqMethod = ''GET'',
      rqPath = [Lit ''v1'', Par prefix, Lit ''namespaces'', Par namespace, Lit ''tables'', Par table],
      rqBody = None\<rparr>"

definition NewCreateTableRequest :: "string \<Rightarrow> string \<Rightarrow> CreateTableRequest \<Rightarrow> request" where
  "NewCreateTableRequest prefix namespace body =
     \<lparr>rqOp = OpCreateTable, rqMethod = ''POST'',
      rqPath = [Lit ''v1'', Par prefix, Lit ''namespaces'', Par namespace, Lit ''tables''],
      rqBody = Some (marshal_CreateTableRequest body)\<rparr>"

definition NewDropTableRequest :: "string \<Rightarrow> string \<Rightarrow> string \<Rightarrow> request" where
  "NewDropTableRequest prefix namespace table =
     \<lparr>rqOp = OpDropTable, rqMethod = ''DELETE'',
      rqPath = [Lit ''v1'', Par prefix, Lit ''namespaces'', Par namespace, Lit ''tables'', Par table],
      rqBody = None\<rparr>"

definition NewLoadViewRequest :: "string \<Rightarrow> string \<Rightarrow> string \<Rightarrow> request" where
  "NewLoadViewRequest prefix namespace view =
     \<lparr>rqOp = OpLoadView, rqMethod = ''GET'',
      rqPath = [Lit ''v1'', Par prefix, Lit ''namespaces'', Par namespace, Lit ''views'', Par view],
      rqBody = None\<rparr>"

definition NewCreateViewRequest :: "string \<Rightarrow> string \<Rightarrow> CreateViewRequest \<Rightarrow> request" where
  "NewCreateViewRequest prefix namespace body =
     \<lparr>rqOp = OpCreateView, rqMethod = ''POST'',
      rqPath = [Lit ''v1'', Par prefix, Lit ''namespaces'', Par namespace, Lit ''views''],
      rqBody = Some (marshal_CreateViewRequest body)\<rparr>"

definition NewDropViewRequest :: "string \<Rightarrow> string \<Rightarrow> string \<Rightarrow> request" where
  "NewDropViewRequest prefix namespace view =
     \<lparr>rqOp = OpDropView, rqMethod = ''DELETE'',
      rqPath = [Lit ''v1'', Par prefix, Lit ''namespaces'', Par namespace, Lit ''views'', Par view],
      rqBody = None\<rparr>"

definition NewLoadPolicyRequest :: "string \<Rightarrow> string \<Rightarrow> string \<Rightarrow> request" where
  "NewLoadPolicyRequest prefix namespace policyName =
     \<lparr>rqOp = OpLoadPolicy, rqMethod = ''GET'',
      rqPath = [Lit ''polaris'', Lit ''v1'', Par prefix, Lit ''namespaces'', Par namespace, Lit ''policies'', Par policyName],
      rqBody = None\<rparr>"

definition NewCreatePolicyRequest :: "string \<Rightarrow> string \<Rightarrow> CreatePolicyRequest \<Rightarrow> request" where
  "NewCreatePolicyRequest prefix namespace body =
     \<lparr>rqOp = OpCreatePolicy, rqMethod = ''POST'',
      rqPath = [Lit ''polaris'', Lit ''v1'', Par prefix, Lit ''namespaces'', Par namespace, Lit ''policies''],
      rqBody = Some (marshal_CreatePolicyRequest body)\<rparr>"

definition NewUpdatePolicyRequest :: "string \<Rightarrow> string \<Rightarrow> string \<Rightarrow> UpdatePolicyRequest \<Rightarrow> request" where
  "NewUpdatePolicyRequest prefix namespace policyName body =
     \<lparr>rqOp = OpUpdatePolicy, rqMethod = ''PUT'',
      rqPath = [Lit ''polaris'', Lit ''v1'', Par prefix, Lit ''namespaces'', Par namespace, Lit ''policies'', Par policyName],
      rqBody = Some (marshal_UpdatePolicyRequest body)\<rparr>"

definition NewDropPolicyRequest :: "string \<Rightarrow> string \<Rightarrow> string \<Rightarrow> request" where
  "NewDropPolicyRequest prefix namespace policyName =
     \<lparr>rqOp = OpDropPolicy, rqMethod = ''DELETE'',
      rqPath = [Lit ''polaris'', Lit ''v1'', Par prefix, Lit ''namespaces'', Par namespace, Lit ''policies'', Par policyName],
      rqBody = None\<rparr>"

lemma op_class_new [simp]:
  "op_class (rqOp (NewGetCatalogRequest catalogName)) = Probe"
  "op_class (rqOp (NewCreateCatalogRequestWithBody b1)) = Create"
  "op_class (rqOp (NewUpdateCatalogRequestWithBody catalogName b2)) = Modify"
  "op_class (rqOp (NewDeleteCatalogRequest catalogName)) = Remove"
  "op_class (rqOp (NewGetPrincipalRequest principalName)) = Probe"
  "op_class (rqOp (NewCreatePrincipalRequest b3)) = Create"
  "op_class (rqOp (NewUpdatePrincipalRequest principalName b4)) = Modify"
  "op_class (rqOp (NewRotateCredentialsRequest principalName)) = Modify"
  "op_class (rqOp (NewDeletePrincipalRequest principalName)) = Remove"
  "op_class (rqOp (NewGetPrincipalRoleRequest principalRoleName)) = Probe"
  "op_class (rqOp (NewCreatePrincipalRoleRequest b5)) = Create"
  "op_class (rqOp (NewUpdatePrincipalRoleRequest principalRoleName b6)) = Modify"
  "op_class (rqOp (NewDeletePrincipalRoleRequest principalRoleName)) = Remove"
  "op_class (rqOp (NewGetCatalogRoleRequest catalogName catalogRoleName)) = Probe"
  "op_class (rqOp (NewCreateCatalogRoleRequest catalogName b7)) = Create"
  "op_class (rqOp (NewUpdateCatalogRoleRequest catalogName catalogRoleName b8)) = Modify"
  "op_class (rqOp (NewDeleteCatalogRoleRequest catalogName catalogRoleName)) = Remove"
  "op_class (rqOp (NewAssignPrincipalRoleRequest principalName b9)) = Assign"
  "op_class (rqOp (NewRevokePrincipalRoleRequest principalName principalRoleName)) = Remove"
  "op_class (rqOp (NewAssignCatalogRoleToPrincipalRoleRequest principalRoleName catalogName b10)) = Assign"
  "op_class (rqOp (NewRevokeCatalogRoleFromPrincipalRoleRequest principalRoleName catalogName catalogRoleName)) = Remove"
  "op_class (rqOp (NewAddGrantToCatalogRoleRequestWithBody catalogName catalogRoleName b11)) = Assign"
  "op_class (rqOp (NewRevokeGrantFromCatalogRoleRequestWithBody catalogName catalogRoleName b12)) = Remove"
  "op_class (rqOp (NewLoadNamespaceMetadataRequest prefix namespace)) = Probe"
  "op_class (rqOp (NewCreateNamespaceRequest prefix b13)) = Create"
  "op_class (rqOp (NewUpdatePropertiesRequest prefix namespace b14)) = Modify"
  "op_class (rqOp (NewDropNamespaceRequest prefix namespace)) = Remove"
  "op_class (rqOp (NewLoadTableRequest prefix namespace table)) = Probe"
  "op_class (rqOp (NewCreateTableRequest prefix namespace b15)) = Create"
  "op_class (rqOp (NewDropTableRequest prefix namespace table)) = Remove"
  "op_class (rqOp (NewLoadViewRequest prefix namespace view)) = Probe"
  "op_class (rqOp (NewCreateViewRequest prefix namespace b16)) = Create"
  "op_class (rqOp (NewDropViewRequest prefix namespace view)) = Remove"
  "op_class (rqOp (NewLoadPolicyRequest prefix namespace policyName)) = Probe"
  "op_class (rqOp (NewCreatePolicyRequest prefix namespace b17)) = Create"
  "op_class (rqOp (NewUpdatePolicyRequest prefix namespace policyName b18)) = Modify"
  "op_class (rqOp (NewDropPolicyRequest prefix namespace policyName)) = Remove"
  by (simp_all add: op_class_def NewGetCatalogRequest_def
    NewCreateCatalogRequestWithBody_def
    NewUpdateCatalogRequestWithBody_def
    NewDeleteCatalogRequest_def
    NewGetPrincipalRequest_def
    NewCreatePrincipalRequest_def
    NewUpdatePrincipalRequest_def
    NewRotateCredentialsRequest_def
    NewDeletePrincipalRequest_def
    NewGetPrincipalRoleRequest_def
    NewCreatePrincipalRoleRequest_def
    NewUpdatePrincipalRoleRequest_def
    NewDeletePrincipalRoleRequest_def
    NewGetCatalogRoleRequest_def
    NewCreateCatalogRoleRequest_def
    NewUpdateCatalogRoleRequest_def
    NewDeleteCatalogRoleRequest_def
    NewAssignPrincipalRoleRequest_def
    NewRevokePrincipalRoleRequest_def
    NewAssignCatalogRoleToPrincipalRoleRequest_def
    NewRevokeCatalogRoleFromPrincipalRoleRequest_def
    NewAddGrantToCatalogRoleRequestWithBody_def
    NewRevokeGrantFromCatalogRoleRequestWithBody_def
    NewLoadNamespaceMetadataRequest_def
    NewCreateNamespaceRequest_def
    NewUpdatePropertiesRequest_def
    NewDropNamespaceRequest_def
    NewLoadTableRequest_def
    NewCreateTableRequest_def
    NewDropTableRequest_def
    NewLoadViewRequest_def
    NewCreateViewRequest_def
    NewDropViewRequest_def
    NewLoadPolicyRequest_def
    NewCreatePolicyRequest_def
    NewUpdatePolicyRequest_def
    NewDropPolicyRequest_def)

section \<open>Parsing responses\<close>

text \<open>
  The library side of decoding: the JSON text parser and the verdict on unread fields
  (theory Wire).
\<close>

record codec =
  json_parse :: "string \<Rightarrow> goerr + json"
  json_rest :: rest_check

text \<open>The result struct of an operation: status, body and the decoded \<open>JSON200\<close>/\<open>JSON201\<close>.\<close>

record 'a wrapper =
  wStatusCode :: int
  wBody :: string
  wJSON :: "'a option"

text \<open>One case of a generated \<open>switch\<close>: \<open>Class 5\<close> is the test \<open>StatusCode/100 == 5\<close>.\<close>

datatype code = Code int | Class int

fun code_matches :: "int \<Rightarrow> code \<Rightarrow> bool" where
  "code_matches s (Code c) \<longleftrightarrow> s = c"
| "code_matches s (Class c) \<longleftrightarrow> s div 100 = c"

definition payload ::
  "codec \<Rightarrow> (rest_check \<Rightarrow> json \<Rightarrow> goerr + 'a) \<Rightarrow> string \<Rightarrow> goerr + 'a option" where
  "payload J d body =
     sum_bind (json_parse J body) (\<lambda>j. sum_bind (d (json_rest J) j) (\<lambda>x. Inr (Some x)))"

definition discard ::
  "codec \<Rightarrow> (rest_check \<Rightarrow> json \<Rightarrow> goerr + 'b) \<Rightarrow> string \<Rightarrow> goerr + 'a option" where
  "discard J d body =
     sum_bind (json_parse J body) (\<lambda>j. sum_bind (d (json_rest J) j) (\<lambda>x. Inr None))"

definition iceberg ::
  "codec \<Rightarrow> code list \<Rightarrow> (code \<times> (string \<Rightarrow> goerr + 'a option)) list" where
  "iceberg J cs = map (\<lambda>c. (c, discard J (dec_unread ''IcebergErrorResponse''))) cs"

definition parse_wrapper ::
  "(code \<times> (string \<Rightarrow> goerr + 'a option)) list \<Rightarrow> rawresp \<Rightarrow> goerr + 'a wrapper" where
  "parse_wrapper cases rsp =
     (case rrReadErr rsp of
        Some e \<Rightarrow> Inl e
      | None \<Rightarrow>
          let response = \<lparr>wStatusCode = rrStatus rsp, wBody = rrBody rsp, wJSON = None\<rparr> in
          (case find (\<lambda>(c, _). str_contains (rrContentType rsp) ''json'' \<and>
                               code_matches (rrStatus rsp) c) cases of
             None \<Rightarrow> Inr response
           | Some (_, d) \<Rightarrow> sum_bind (d (rrBody rsp)) (\<lambda>j. Inr (response\<lparr>wJSON := j\<rparr>))))"

lemma parse_wrapper_status:
  "parse_wrapper cases rsp = Inr w \<Longrightarrow> wStatusCode w = rrStatus rsp \<and> wBody w = rrBody rsp"
  by (auto simp: parse_wrapper_def Let_def sum_bind_def split: option.splits sum.splits)

definition ParseGetCatalogWrapper :: "codec \<Rightarrow> rawresp \<Rightarrow> goerr + Catalog wrapper" where
  "ParseGetCatalogWrapper J =
     parse_wrapper ([(Code 200, payload J dec_Catalog)])"

definition ParseCreateCatalogWrapper :: "codec \<Rightarrow> rawresp \<Rightarrow> goerr + unit wrapper" where
  "ParseCreateCatalogWrapper J =
     parse_wrapper ([(Code 201, discard J (dec_unread ''Catalog''))])"

definition ParseUpdateCatalogWrapper :: "codec \<Rightarrow> rawresp \<Rightarrow> goerr + unit wrapper" where
  "ParseUpdateCatalogWrapper J =
     parse_wrapper ([(Code 200, discard J (dec_unread ''Catalog''))])"

definition ParseDeleteCatalogWrapper :: "codec \<Rightarrow> rawresp \<Rightarrow> goerr + unit wrapper" where
  "ParseDeleteCatalogWrapper J =
     parse_wrapper ([])"

definition ParseGetPrincipalWrapper :: "codec \<Rightarrow> rawresp \<Rightarrow> goerr + Principal wrapper" where
  "ParseGetPrincipalWrapper J =
     parse_wrapper ([(Code 200, payload J dec_Principal)])"

definition ParseCreatePrincipalWrapper :: "codec \<Rightarrow> rawresp \<Rightarrow> goerr + PrincipalWithCredentials wrapper" where
  "ParseCreatePrincipalWrapper J =
     parse_wrapper ([(Code 201, payload J dec_PrincipalWithCredentials)])"

definition ParseUpdatePrincipalWrapper :: "codec \<Rightarrow> rawresp \<Rightarrow> goerr + unit wrapper" where
  "ParseUpdatePrincipalWrapper J =
     parse_wrapper ([(Code 200, discard J (dec_unread ''Principal''))])"

definition ParseRotateCredentialsWrapper :: "codec \<Rightarrow> rawresp \<Rightarrow> goerr + PrincipalWithCredentials wrapper" where
  "ParseRotateCredentialsWrapper J =
     parse_wrapper ([(Code 200, payload J dec_PrincipalWithCredentials)])"

definition ParseDeletePrincipalWrapper :: "codec \<Rightarrow> rawresp \<Rightarrow> goerr + unit wrapper" where
  "ParseDeletePrincipalWrapper J =
     parse_wrapper ([])"

definition ParseGetPrincipalRoleWrapper :: "codec \<Rightarrow> rawresp \<Rightarrow> goerr + PrincipalRole wrapper" where
  "ParseGetPrincipalRoleWrapper J =
     parse_wrapper ([(Code 200, payload J dec_PrincipalRole)])"

definition ParseCreatePrincipalRoleWrapper :: "codec \<Rightarrow> rawresp \<Rightarrow> goerr + unit wrapper" where
  "ParseCreatePrincipalRoleWrapper J =
     parse_wrapper ([(Code 201, discard J (dec_unread ''PrincipalRole''))])"

definition ParseUpdatePrincipalRoleWrapper :: "codec \<Rightarrow> rawresp \<Rightarrow> goerr + unit wrapper" where
  "ParseUpdatePrincipalRoleWrapper J =
     parse_wrapper ([(Code 200, discard J (dec_unread ''PrincipalRole''))])"

definition ParseDeletePrincipalRoleWrapper :: "codec \<Rightarrow> rawresp \<Rightarrow> goerr + unit wrapper" where
  "ParseDeletePrincipalRoleWrapper J =
     parse_wrapper ([])"

definition ParseGetCatalogRoleWrapper :: "codec \<Rightarrow> rawresp \<Rightarrow> goerr + CatalogRole wrapper" where
  "ParseGetCatalogRoleWrapper J =
     parse_wrapper ([(Code 200, payload J dec_CatalogRole)])"

definition ParseCreateCatalogRoleWrapper :: "codec \<Rightarrow> rawresp \<Rightarrow> goerr + unit wrapper" where
  "ParseCreateCatalogRoleWrapper J =
     parse_wrapper ([(Code 201, discard J (dec_unread ''CatalogRole''))])"

definition ParseUpdateCatalogRoleWrapper :: "codec \<Rightarrow> rawresp \<Rightarrow> goerr + unit wrapper" where
  "ParseUpdateCatalogRoleWrapper J =
     parse_wrapper ([(Code 200, discard J (dec_unread ''CatalogRole''))])"

definition ParseDeleteCatalogRoleWrapper :: "codec \<Rightarrow> rawresp \<Rightarrow> goerr + unit wrapper" where
  "ParseDeleteCatalogRoleWrapper J =
     parse_wrapper ([])"

definition ParseAssignPrincipalRoleWrapper :: "codec \<Rightarrow> rawresp \<Rightarrow> goerr + unit wrapper" where
  "ParseAssignPrincipalRoleWrapper J =
     parse_wrapper ([])"

definition ParseRevokePrincipalRoleWrapper :: "codec \<Rightarrow> rawresp \<Rightarrow> goerr + unit wrapper" where
  "ParseRevokePrincipalRoleWrapper J =
     parse_wrapper ([])"

definition ParseAssignCatalogRoleToPrincipalRoleWrapper :: "codec \<Rightarrow> rawresp \<Rightarrow> goerr + unit wrapper" where
  "ParseAssignCatalogRoleToPrincipalRoleWrapper J =
     parse_wrapper ([])"

definition ParseRevokeCatalogRoleFromPrincipalRoleWrapper :: "codec \<Rightarrow> rawresp \<Rightarrow> goerr + unit wrapper" where
  "ParseRevokeCatalogRoleFromPrincipalRoleWrapper J =
     parse_wrapper ([])"

definition ParseAddGrantToCatalogRoleWrapper :: "codec \<Rightarrow> rawresp \<Rightarrow> goerr + unit wrapper" where
  "ParseAddGrantToCatalogRoleWrapper J =
     parse_wrapper ([])"

definition ParseRevokeGrantFromCatalogRoleWrapper :: "codec \<Rightarrow> rawresp \<Rightarrow> goerr + unit wrapper" where
  "ParseRevokeGrantFromCatalogRoleWrapper J =
     parse_wrapper ([])"

definition ParseLoadNamespaceMetadataWrapper :: "codec \<Rightarrow> rawresp \<Rightarrow> goerr + GetNamespaceResponse wrapper" where
  "ParseLoadNamespaceMetadataWrapper J =
     parse_wrapper ([(Code 200, payload J dec_GetNamespaceResponse)] @
        iceberg J [Code 400, Code 401, Code 403, Code 404, Code 419, Code 503, Class 5])"

definition ParseCreateNamespaceWrapper :: "codec \<Rightarrow> rawresp \<Rightarrow> goerr + unit wrapper" where
  "ParseCreateNamespaceWrapper J =
     parse_wrapper ([(Code 200, discard J (dec_unread ''CreateNamespaceResponse''))] @
        iceberg J [Code 400, Code 401, Code 403] @
        [(Code 406, discard J (dec_unread ''UnsupportedOperationResponse''))] @
        iceberg J [Code 409, Code 419, Code 503, Class 5])"

definition ParseUpdatePropertiesWrapper :: "codec \<Rightarrow> rawresp \<Rightarrow> goerr + unit wrapper" where
  "ParseUpdatePropertiesWrapper J =
     parse_wrapper ([(Code 200, discard J (dec_unread ''UpdateNamespacePropertiesResponse''))] @
        iceberg J [Code 400, Code 401, Code 403, Code 404] @
        [(Code 406, discard J (dec_unread ''UnsupportedOperationResponse''))] @
        iceberg J [Code 419, Code 422, Code 503, Class 5])"

definition ParseDropNamespaceWrapper :: "codec \<Rightarrow> rawresp \<Rightarrow> goerr + unit wrapper" where
  "ParseDropNamespaceWrapper J =
     parse_wrapper (iceberg J [Code 400, Code 401, Code 403, Code 404, Code 409, Code 419, Code 503, Class 5])"

definition ParseLoadTableWrapper :: "codec \<Rightarrow> rawresp \<Rightarrow> goerr + LoadTableResult wrapper" where
  "ParseLoadTableWrapper J =
     parse_wrapper ([(Code 200, payload J dec_LoadTableResult)] @
        iceberg J [Code 400, Code 401, Code 403, Code 404, Code 419, Code 503, Class 5])"

definition ParseCreateTableWrapper :: "codec \<Rightarrow> rawresp \<Rightarrow> goerr + LoadTableResult wrapper" where
  "ParseCreateTableWrapper J =
     parse_wrapper ([(Code 200, payload J dec_LoadTableResult)] @
        iceberg J [Code 400, Code 401, Code 403, Code 404, Code 409, Code 419, Code 503, Class 5])"

definition ParseDropTableWrapper :: "codec \<Rightarrow> rawresp \<Rightarrow> goerr + unit wrapper" where
  "ParseDropTableWrapper J =
     parse_wrapper (iceberg J [Code 400, Code 401, Code 403, Code 404, Code 419, Code 503, Class 5])"

definition ParseLoadViewWrapper :: "codec \<Rightarrow> rawresp \<Rightarrow> goerr + unit wrapper" where
  "ParseLoadViewWrapper J =
     parse_wrapper ([(Code 200, discard J (dec_unread ''LoadViewResponse''))] @
        iceberg J [Code 400, Code 401, Code 403] @
        [(Code 404, discard J (dec_unread ''ErrorModel''))] @
        iceberg J [Code 419, Code 503, Class 5])"

definition ParseCreateViewWrapper :: "codec \<Rightarrow> rawresp \<Rightarrow> goerr + unit wrapper" where
  "ParseCreateViewWrapper J =
     parse_wrapper ([(Code 200, discard J (dec_unread ''LoadViewResponse''))] @
        iceberg J [Code 400, Code 401, Code 403] @
        [(Code 404, discard J (dec_unread ''ErrorModel''))] @
        [(Code 409, discard J (dec_unread ''ErrorModel''))] @
        iceberg J [Code 419, Code 503, Class 5])"

definition ParseDropViewWrapper :: "codec \<Rightarrow> rawresp \<Rightarrow> goerr + unit wrapper" where
  "ParseDropViewWrapper J =
     parse_wrapper (iceberg J [Code 400, Code 401, Code 403] @
        [(Code 404, discard J (dec_unread ''ErrorModel''))] @
        iceberg J [Code 419, Code 503, Class 5])"

definition ParseLoadPolicyWrapper :: "codec \<Rightarrow> rawresp \<Rightarrow> goerr + LoadPolicyResponse wrapper" where
  "ParseLoadPolicyWrapper J =
     parse_wrapper ([(Code 200, payload J dec_LoadPolicyResponse)] @
        iceberg J [Code 400, Code 401, Code 403, Code 404, Code 503, Class 5])"

definition ParseCreatePolicyWrapper :: "codec \<Rightarrow> rawresp \<Rightarrow> goerr + unit wrapper" where
  "ParseCreatePolicyWrapper J =
     parse_wrapper ([(Code 200, discard J (dec_unread ''CreatePolicyResponse''))] @
        iceberg J [Code 400, Code 401, Code 403, Code 404, Code 409, Code 503, Class 5])"

definition ParseUpdatePolicyWrapper :: "codec \<Rightarrow> rawresp \<Rightarrow> goerr + unit wrapper" where
  "ParseUpdatePolicyWrapper J =
     parse_wrapper ([(Code 200, discard J (dec_unread ''UpdatePolicyResponse''))] @
        iceberg J [Code 400, Code 401, Code 403, Code 404, Code 409, Code 503, Class 5])"

definition ParseDropPolicyWrapper :: "codec \<Rightarrow> rawresp \<Rightarrow> goerr + unit wrapper" where
  "ParseDropPolicyWrapper J =
     parse_wrapper (iceberg J [Code 400, Code 401, Code 403, Code 404, Code 503, Class 5])"

end
