(* ===== verification/World.thy ===== *)
theory World
  imports Rest_Api
begin

text \<open>
  The world a reconciler runs in, and the reasoning about its runs.

  Everything the operator calls but does not define (the Kubernetes API server behind
  \<open>client.Client\<close>, the helpers of \<open>apimachinery\<close> and \<open>controller-runtime\<close>, the Polaris server,
  the clock, \<open>net/url\<close>, the certificate parser) is a field of the record \<open>env\<close>. A call whose
  answer can change from one call to the next is a function of the whole history of calls
  made so far, so the model covers every behaviour of the other side, other clients' writes
  included. A run is a state transformer over \<open>mstate\<close>: the history, which every call extends
  by one event with its answer, and the token cache of the Polaris client in use. The
  context argument and logging have no effect in the model.
\<close>

section \<open>Events\<close>

record Secret =
  secretMeta :: objmeta
  secretOwners :: "string list"
  secretData :: strmap

datatype event =
    EGet NamespacedName "goerr + obj"
  | EGetSecret NamespacedName "goerr + Secret"
  | EUpdate obj "goerr option"
  | EStatusUpdate obj "goerr option"
  | EWriteSecret NamespacedName "goerr + Secret"
  | ENow int
  | EToken string strmap "goerr + rawresp"
  | EHttp request "string option" "goerr + rawresp"

record mstate =
  hist :: "event list"
  tokCached :: string
  tokExpiresAt :: int

type_synonym 'a io = "(mstate, 'a) state"

section \<open>The environment\<close>

text \<open>A parsed URL: its path, which the code reads and writes, and the rest of it.\<close>

record url =
  urlRest :: string
  urlPath :: string

record env =
  get_PolarisConnection :: "event list \<Rightarrow> NamespacedName \<Rightarrow> goerr + PolarisConnection"
  get_PolarisCatalog :: "event list \<Rightarrow> NamespacedName \<Rightarrow> goerr + PolarisCatalog"
  get_PolarisNamespace :: "event list \<Rightarrow> NamespacedName \<Rightarrow> goerr + PolarisNamespace"
  get_PolarisTable :: "event list \<Rightarrow> NamespacedName \<Rightarrow> goerr + PolarisTable"
  get_PolarisView :: "event list \<Rightarrow> NamespacedName \<Rightarrow> goerr + PolarisView"
  get_PolarisPolicy :: "event list \<Rightarrow> NamespacedName \<Rightarrow> goerr + PolarisPolicy"
  get_PolarisPrincipal :: "event list \<Rightarrow> NamespacedName \<Rightarrow> goerr + PolarisPrincipal"
  get_PolarisPrincipalRole :: "event list \<Rightarrow> NamespacedName \<Rightarrow> goerr + PolarisPrincipalRole"
  get_PolarisCatalogRole :: "event list \<Rightarrow> NamespacedName \<Rightarrow> goerr + PolarisCatalogRole"
  get_PolarisPrincipalRoleBinding ::
    "event list \<Rightarrow> NamespacedName \<Rightarrow> goerr + PolarisPrincipalRoleBinding"
  get_PolarisCatalogRoleBinding ::
    "event list \<Rightarrow> NamespacedName \<Rightarrow> goerr + PolarisCatalogRoleBinding"
  get_PolarisGrant :: "event list \<Rightarrow> NamespacedName \<Rightarrow> goerr + PolarisGrant"
  get_Secret :: "event list \<Rightarrow> NamespacedName \<Rightarrow> goerr + Secret"
  client_Update :: "event list \<Rightarrow> obj \<Rightarrow> goerr option"
  status_Update :: "event list \<Rightarrow> obj \<Rightarrow> goerr option"
  create_or_update ::
    "event list \<Rightarrow> NamespacedName \<Rightarrow> (Secret \<Rightarrow> goerr + Secret) \<Rightarrow> goerr + Secret"
  set_controller_reference :: "PolarisPrincipal \<Rightarrow> Secret \<Rightarrow> goerr + Secret"
  apierrors_IsNotFound :: "goerr \<Rightarrow> bool"
  FindStatusCondition :: "Condition list \<Rightarrow> string \<Rightarrow> Condition option"
  IsStatusConditionTrue :: "Condition list \<Rightarrow> string \<Rightarrow> bool"
  SetStatusCondition :: "Condition list \<Rightarrow> Condition \<Rightarrow> Condition list"
  ContainsFinalizer :: "objmeta \<Rightarrow> string \<Rightarrow> bool"
  AddFinalizer :: "objmeta \<Rightarrow> string \<Rightarrow> objmeta"
  RemoveFinalizer :: "objmeta \<Rightarrow> string \<Rightarrow> objmeta"
  key_String :: "NamespacedName \<Rightarrow> string"
  time_Now :: "event list \<Rightarrow> int"
  token_post :: "event list \<Rightarrow> string \<Rightarrow> strmap \<Rightarrow> goerr + rawresp"
  http_Do :: "event list \<Rightarrow> url \<Rightarrow> request \<Rightarrow> string option \<Rightarrow> goerr + rawresp"
  url_Parse :: "string \<Rightarrow> goerr + url"
  url_String :: "url \<Rightarrow> string"
  url_Resolve :: "url \<Rightarrow> string \<Rightarrow> goerr + url"
  style_param :: "string \<Rightarrow> string"
  pem_has_certs :: "string \<Rightarrow> bool"
  json_merge :: "json \<Rightarrow> json \<Rightarrow> goerr + json"
  codec :: codec

section \<open>Calls\<close>

definition ask :: "(event list \<Rightarrow> 'a) \<Rightarrow> ('a \<Rightarrow> event) \<Rightarrow> 'a io" where
  "ask f ev = State (\<lambda>s. let r = f (hist s) in (r, s\<lparr>hist := hist s @ [ev r]\<rparr>))"

text \<open>\<open>r.Get(ctx, key, obj)\<close>: the object, or the error.\<close>

definition kget ::
  "(event list \<Rightarrow> NamespacedName \<Rightarrow> goerr + 'a) \<Rightarrow> ('a \<Rightarrow> obj) \<Rightarrow> NamespacedName \<Rightarrow> (goerr + 'a) io"
  where
  "kget get mk key = ask (\<lambda>h. get h key) (\<lambda>r. EGet key (map_sum id mk r))"

definition kget_secret :: "env \<Rightarrow> NamespacedName \<Rightarrow> (goerr + Secret) io" where
  "kget_secret E key = ask (\<lambda>h. get_Secret E h key) (EGetSecret key)"

definition Update :: "env \<Rightarrow> obj \<Rightarrow> goerr option io" where
  "Update E ob = ask (\<lambda>h. client_Update E h ob) (EUpdate ob)"

definition Status_Update :: "env \<Rightarrow> obj \<Rightarrow> goerr option io" where
  "Status_Update E ob = ask (\<lambda>h. status_Update E h ob) (EStatusUpdate ob)"

definition Now :: "env \<Rightarrow> int io" where
  "Now E = ask (time_Now E) ENow"

definition get_cache :: "(string \<times> int) io" where
  "get_cache = State (\<lambda>s. ((tokCached s, tokExpiresAt s), s))"

definition set_cache :: "string \<Rightarrow> int \<Rightarrow> unit io" where
  "set_cache tok ex = State (\<lambda>s. ((), s\<lparr>tokCached := tok, tokExpiresAt := ex\<rparr>))"

lemma run_state_simps [simp]:
  "run_state (ask f ev) s = (f (hist s), s\<lparr>hist := hist s @ [ev (f (hist s))]\<rparr>)"
  "run_state get_cache s = ((tokCached s, tokExpiresAt s), s)"
  "run_state (set_cache tok ex) s = ((), s\<lparr>tokCached := tok, tokExpiresAt := ex\<rparr>)"
  by (simp_all add: ask_def get_cache_def set_cache_def Let_def)

lemmas call_defs = kget_def kget_secret_def Update_def Status_Update_def Now_def

section \<open>Runs and their traces\<close>

definition result :: "'a io \<Rightarrow> mstate \<Rightarrow> 'a" where
  "result m s = fst (run_state m s)"

definition trace :: "'a io \<Rightarrow> mstate \<Rightarrow> event list" where
  "trace m s = drop (length (hist s)) (hist (snd (run_state m s)))"

text \<open>
  \<open>valid m P\<close>: whatever the history and the token cache, \<open>m\<close> only extends the history, and
  its result and the events it adds satisfy \<open>P\<close>.
\<close>

definition valid :: "'a io \<Rightarrow> ('a \<Rightarrow> event list \<Rightarrow> bool) \<Rightarrow> bool" where
  "valid m P \<longleftrightarrow>
     (\<forall>s. \<exists>evs. hist (snd (run_state m s)) = hist s @ evs \<and> P (fst (run_state m s)) evs)"

named_theorems vc \<open>rules for valid, applied backwards\<close>

lemma validD: "valid m P \<Longrightarrow> P (result m s) (trace m s)"
proof -
  assume "valid m P"
  then obtain evs where h: "hist (snd (run_state m s)) = hist s @ evs"
    and P: "P (fst (run_state m s)) evs"
    unfolding valid_def by blast
  have "trace m s = evs" by (simp add: trace_def h)
  then show ?thesis using P by (simp add: result_def)
qed

lemma valid_mono: "valid m Q \<Longrightarrow> (\<And>x evs. Q x evs \<Longrightarrow> P x evs) \<Longrightarrow> valid m P"
  unfolding valid_def by meson

lemma valid_conj: "valid m P \<Longrightarrow> valid m Q \<Longrightarrow> valid m (\<lambda>x evs. P x evs \<and> Q x evs)"
  unfolding valid_def by (metis same_append_eq)

lemma valid_return [vc]: "P x [] \<Longrightarrow> valid (State_Monad.return x) P"
  by (simp add: valid_def)

lemma valid_ask: "(\<And>h. P (f h) [ev (f h)]) \<Longrightarrow> valid (ask f ev) P"
  by (simp add: valid_def)

lemma valid_bind [vc]:
  assumes "valid m (\<lambda>x evs. valid (f x) (\<lambda>y evs'. P y (evs @ evs')))"
  shows "valid (State_Monad.bind m f) P"
  unfolding valid_def
proof
  fix s
  obtain evs where m: "hist (snd (run_state m s)) = hist s @ evs"
    and f: "valid (f (fst (run_state m s))) (\<lambda>y evs'. P y (evs @ evs'))"
    using assms unfolding valid_def by blast
  obtain x s' where run: "run_state m s = (x, s')" by (cases "run_state m s")
  obtain evs' where "hist (snd (run_state (f x) s')) = hist s' @ evs'"
    and "P (fst (run_state (f x) s')) (evs @ evs')"
    using f unfolding run fst_conv valid_def by blast
  then show "\<exists>ev. hist (snd (run_state (State_Monad.bind m f) s)) = hist s @ ev \<and>
      P (fst (run_state (State_Monad.bind m f) s)) ev"
    using m run by auto
qed

lemma valid_if [vc]:
  "(b \<Longrightarrow> valid m P) \<Longrightarrow> (\<not> b \<Longrightarrow> valid n P) \<Longrightarrow> valid (if b then m else n) P"
  by simp

lemma valid_case_sum [vc]:
  "(\<And>e. x = Inl e \<Longrightarrow> valid (f e) P) \<Longrightarrow> (\<And>a. x = Inr a \<Longrightarrow> valid (g a) P) \<Longrightarrow>
   valid (case x of Inl e \<Rightarrow> f e | Inr a \<Rightarrow> g a) P"
  by (cases x) auto

lemma valid_case_option [vc]:
  "(x = None \<Longrightarrow> valid m P) \<Longrightarrow> (\<And>a. x = Some a \<Longrightarrow> valid (g a) P) \<Longrightarrow>
   valid (case x of None \<Rightarrow> m | Some a \<Rightarrow> g a) P"
  by (cases x) auto

lemma valid_case_prod [vc]:
  "(\<And>a b. x = (a, b) \<Longrightarrow> valid (g a b) P) \<Longrightarrow> valid (case x of (a, b) \<Rightarrow> g a b) P"
  by (cases x) auto

lemma valid_Let [vc]: "valid (f x) P \<Longrightarrow> valid (let y = x in f y) P"
  by simp

lemma valid_kget [vc]:
  "(\<And>r. P r [EGet key (map_sum id mk r)]) \<Longrightarrow> valid (kget get mk key) P"
  unfolding kget_def by (rule valid_ask) blast

lemma valid_kget_secret [vc]:
  "(\<And>r. P r [EGetSecret key r]) \<Longrightarrow> valid (kget_secret E key) P"
  unfolding kget_secret_def by (rule valid_ask) blast

lemma valid_Update [vc]: "(\<And>e. P e [EUpdate ob e]) \<Longrightarrow> valid (Update E ob) P"
  unfolding Update_def by (rule valid_ask) blast

lemma valid_Status_Update [vc]: "(\<And>e. P e [EStatusUpdate ob e]) \<Longrightarrow> valid (Status_Update E ob) P"
  unfolding Status_Update_def by (rule valid_ask) blast

lemma valid_Now [vc]: "(\<And>t. P t [ENow t]) \<Longrightarrow> valid (Now E) P"
  unfolding Now_def by (rule valid_ask) blast

lemma valid_get_cache [vc]: "(\<And>c. P c []) \<Longrightarrow> valid get_cache P"
  by (simp add: valid_def)

lemma valid_set_cache [vc]: "P () [] \<Longrightarrow> valid (set_cache tok ex) P"
  by (simp add: valid_def)

section \<open>Effects\<close>

text \<open>
  The events the other side can see as a change or a remote request: calls of the Polaris
  API (with the answers), writes of the object, of its status and of the credentials
  Secret. Reads, the clock and the token endpoint are left out.
\<close>

datatype effect =
    Api request "goerr + rawresp"
  | Upd obj "goerr option"
  | Stat obj "goerr option"
  | SecretWrite NamespacedName "goerr + Secret"

fun effect_of :: "event \<Rightarrow> effect list" where
  "effect_of (EHttp rq b a) = [Api rq a]"
| "effect_of (EUpdate ob e) = [Upd ob e]"
| "effect_of (EStatusUpdate ob e) = [Stat ob e]"
| "effect_of (EWriteSecret k r) = [SecretWrite k r]"
| "effect_of (EGet k r) = []"
| "effect_of (EGetSecret k r) = []"
| "effect_of (ENow t) = []"
| "effect_of (EToken u f r) = []"

definition effects :: "event list \<Rightarrow> effect list" where
  "effects evs = concat (map effect_of evs)"

lemma effects_simps [simp]:
  "effects [] = []" "effects (e # evs) = effect_of e @ effects evs"
  "effects (a @ b) = effects a @ effects b"
  by (simp_all add: effects_def)

lemma EHttp_effect: "EHttp rq b a \<in> set evs \<Longrightarrow> Api rq a \<in> set (effects evs)"
  by (auto simp: effects_def intro!: bexI [of _ "EHttp rq b a"])

text \<open>A computation without effects, whatever it reads.\<close>

definition quiet :: "'a io \<Rightarrow> bool" where
  "quiet m \<longleftrightarrow> valid m (\<lambda>x evs. effects evs = [])"

lemma valid_quiet: "quiet m \<Longrightarrow> (\<And>x evs. effects evs = [] \<Longrightarrow> P x evs) \<Longrightarrow> valid m P"
  unfolding quiet_def by (erule valid_mono) blast

section \<open>Documented laws of the Kubernetes libraries\<close>

text \<open>
  What the proofs use of \<open>apimachinery\<close>'s condition helpers and \<open>controllerutil\<close>'s finalizer
  helpers, as their documentation states it: a condition set is found again under its type
  and no other type changes; adding or removing a finalizer changes that finalizer only.
\<close>

definition lib_ok :: "env \<Rightarrow> bool" where
  "lib_ok E \<longleftrightarrow>
     (\<forall>cs c t. FindStatusCondition E (SetStatusCondition E cs c) t =
        (if t = condType c then Some c else FindStatusCondition E cs t)) \<and>
     (\<forall>cs t. IsStatusConditionTrue E cs t =
        (case FindStatusCondition E cs t of None \<Rightarrow> False
         | Some c \<Rightarrow> condStatus c = ConditionTrue)) \<and>
     (\<forall>m f g. ContainsFinalizer E (AddFinalizer E m f) g = (g = f \<or> ContainsFinalizer E m g)) \<and>
     (\<forall>m f g. ContainsFinalizer E (RemoveFinalizer E m f) g = (g \<noteq> f \<and> ContainsFinalizer E m g)) \<and>
     (\<forall>m f. (AddFinalizer E m f)\<lparr>objFinalizers := []\<rparr> = m\<lparr>objFinalizers := []\<rparr>) \<and>
     (\<forall>m f. (RemoveFinalizer E m f)\<lparr>objFinalizers := []\<rparr> = m\<lparr>objFinalizers := []\<rparr>)"

lemma find_set:
  "lib_ok E \<Longrightarrow> FindStatusCondition E (SetStatusCondition E cs c) t =
     (if t = condType c then Some c else FindStatusCondition E cs t)"
  by (simp add: lib_ok_def)

lemma is_true:
  "lib_ok E \<Longrightarrow> IsStatusConditionTrue E cs t =
     (case FindStatusCondition E cs t of None \<Rightarrow> False | Some c \<Rightarrow> condStatus c = ConditionTrue)"
  by (simp add: lib_ok_def)

lemma contains_add:
  "lib_ok E \<Longrightarrow> ContainsFinalizer E (AddFinalizer E m f) g = (g = f \<or> ContainsFinalizer E m g)"
  by (simp add: lib_ok_def)

lemma contains_remove:
  "lib_ok E \<Longrightarrow>
   ContainsFinalizer E (RemoveFinalizer E m f) g = (g \<noteq> f \<and> ContainsFinalizer E m g)"
  by (simp add: lib_ok_def)

section \<open>A sample environment\<close>

text \<open>
  An environment with the library functions as their packages define them, in which no
  object exists, no request succeeds and no time passes. Concrete runs replace the fields
  they need.
\<close>

definition find_condition :: "Condition list \<Rightarrow> string \<Rightarrow> Condition option" where
  "find_condition cs t = find (\<lambda>c. condType c = t) cs"

fun set_condition :: "Condition list \<Rightarrow> Condition \<Rightarrow> Condition list" where
  "set_condition [] c = [c]"
| "set_condition (d # cs) c = (if condType d = condType c then c # cs else d # set_condition cs c)"

definition is_condition_true :: "Condition list \<Rightarrow> string \<Rightarrow> bool" where
  "is_condition_true cs t =
     (case find_condition cs t of None \<Rightarrow> False | Some c \<Rightarrow> condStatus c = ConditionTrue)"

lemma find_set_condition:
  "find_condition (set_condition cs c) t = (if t = condType c then Some c else find_condition cs t)"
  by (induction cs c rule: set_condition.induct) (auto simp: find_condition_def)

definition sample_env :: env where
  "sample_env =
     \<lparr>get_PolarisConnection = \<lambda>h k. Inl (ErrLib ''not found''),
      get_PolarisCatalog = \<lambda>h k. Inl (ErrLib ''not found''),
      get_PolarisNamespace = \<lambda>h k. Inl (ErrLib ''not found''),
      get_PolarisTable = \<lambda>h k. Inl (ErrLib ''not found''),
      get_PolarisView = \<lambda>h k. Inl (ErrLib ''not found''),
      get_PolarisPolicy = \<lambda>h k. Inl (ErrLib ''not found''),
      get_PolarisPrincipal = \<lambda>h k. Inl (ErrLib ''not found''),
      get_PolarisPrincipalRole = \<lambda>h k. Inl (ErrLib ''not found''),
      get_PolarisCatalogRole = \<lambda>h k. Inl (ErrLib ''not found''),
      get_PolarisPrincipalRoleBinding = \<lambda>h k. Inl (ErrLib ''not found''),
      get_PolarisCatalogRoleBinding = \<lambda>h k. Inl (ErrLib ''not found''),
      get_PolarisGrant = \<lambda>h k. Inl (ErrLib ''not found''),
      get_Secret = \<lambda>h k. Inl (ErrLib ''not found''),
      client_Update = \<lambda>h ob. None,
      status_Update = \<lambda>h ob. None,
      create_or_update = \<lambda>h k f. f \<lparr>secretMeta = \<lparr>objName = nnName k, objNamespace = nnNamespace k,
        objGeneration = 0, objDeletionTimestamp = None, objFinalizers = []\<rparr>,
        secretOwners = [], secretData = []\<rparr>,
      set_controller_reference = \<lambda>p s. Inr (s\<lparr>secretOwners := [objName (crMeta p)]\<rparr>),
      apierrors_IsNotFound = \<lambda>e. e = ErrLib ''not found'',
      FindStatusCondition = find_condition,
      IsStatusConditionTrue = is_condition_true,
      SetStatusCondition = set_condition,
      ContainsFinalizer = \<lambda>m f. f \<in> set (objFinalizers m),
      AddFinalizer = \<lambda>m f. m\<lparr>objFinalizers :=
        (if f \<in> set (objFinalizers m) then objFinalizers m else objFinalizers m @ [f])\<rparr>,
      RemoveFinalizer = \<lambda>m f. m\<lparr>objFinalizers := filter (\<lambda>g. g \<noteq> f) (objFinalizers m)\<rparr>,
      key_String = \<lambda>k. nnNamespace k @ ''/'' @ nnName k,
      time_Now = \<lambda>h. 0,
      token_post = \<lambda>h u f. Inl (ErrLib ''connection refused''),
      http_Do = \<lambda>h u rq b. Inl (ErrLib ''connection refused''),
      url_Parse = \<lambda>s. Inr \<lparr>urlRest = [], urlPath = s\<rparr>,
      url_String = \<lambda>u. urlRest u @ urlPath u,
      url_Resolve = \<lambda>u p. Inr (u\<lparr>urlPath := urlPath u @ drop 2 p\<rparr>),
      style_param = \<lambda>s. s,
      pem_has_certs = \<lambda>s. True,
      json_merge = \<lambda>a b. Inr b,
      codec = \<lparr>json_parse = \<lambda>s. Inl (ErrLib ''invalid character''), json_rest = \<lambda>t j. None\<rparr>\<rparr>"

lemma lib_ok_sample: "lib_ok sample_env"
  by (auto simp: lib_ok_def sample_env_def find_set_condition is_condition_true_def)

end
