(* ===== verification/Polaris_Client.thy ===== *)
theory Polaris_Client
  imports World
begin

text \<open>
  The Polaris client of \<open>internal/polaris\<close>: configuration (\<open>client.go\<close>), the OAuth token
  source (\<open>auth.go\<close>) and the sending half of the generated clients. Durations and times are
  integers in nanoseconds, as in package \<open>time\<close>. A client's token cache is the pair
  \<open>tokCached\<close>, \<open>tokExpiresAt\<close> of the run state: a reconcile uses the one client it builds, and
  \<open>NewClient\<close> starts it empty. The mutex of the token source makes every \<open>token\<close> call one
  step, which the model has by construction.
\<close>

section \<open>Configuration\<close>

definition DefaultTokenPath :: string where
  "DefaultTokenPath = ''/api/catalog/v1/oauth/tokens''"
definition DefaultScope :: string where "DefaultScope = ''PRINCIPAL_ROLE:ALL''"
definition Second :: int where "Second = 1000000000"
definition DefaultHTTPTimeout :: int where "DefaultHTTPTimeout = 30 * Second"
definition managementBasePath :: string where "managementBasePath = ''/api/management/v1''"
definition catalogBasePath :: string where "catalogBasePath = ''/api/catalog''"
definition tokenLeadTime :: int where "tokenLeadTime = 30 * Second"

record Config =
  cfgServerURL :: string
  cfgTokenPath :: string
  cfgScope :: string
  cfgClientID :: string
  cfgClientSecret :: string
  cfgCABundle :: string
  cfgInsecureSkipVerify :: bool
  cfgHTTPTimeout :: int

definition Validate :: "env \<Rightarrow> Config \<Rightarrow> goerr option" where
  "Validate E c =
     (if cfgServerURL c = [] then Some (ErrNew ''polaris: ServerURL is required'')
      else case url_Parse E (cfgServerURL c) of
        Inl err \<Rightarrow> Some (ErrWrap ''polaris: ServerURL is not a valid URL: '' err)
      | Inr _ \<Rightarrow>
          if cfgClientID c = [] \<or> cfgClientSecret c = []
          then Some (ErrNew ''polaris: ClientID and ClientSecret are required'')
          else None)"

definition withDefaults :: "Config \<Rightarrow> Config" where
  "withDefaults c0 =
     (let c1 = if cfgTokenPath c0 = [] then c0\<lparr>cfgTokenPath := DefaultTokenPath\<rparr> else c0;
          c2 = if cfgScope c1 = [] then c1\<lparr>cfgScope := DefaultScope\<rparr> else c1 in
      if cfgHTTPTimeout c2 = 0 then c2\<lparr>cfgHTTPTimeout := DefaultHTTPTimeout\<rparr> else c2)"

definition joinURL :: "env \<Rightarrow> string \<Rightarrow> string \<Rightarrow> goerr + string" where
  "joinURL E base seg =
     (case url_Parse E base of
        Inl err \<Rightarrow> Inl err
      | Inr u \<Rightarrow>
          if seg = [] then Inr (url_String E u)
          else if has_prefix seg ''/'' then Inr (url_String E (u\<lparr>urlPath := seg\<rparr>))
          else Inr (url_String E
                 (u\<lparr>urlPath := trim_right (urlPath u) (CHR ''/'') @ ''/'' @ seg\<rparr>)))"

text \<open>
  The part of \<open>http.Transport\<close> the operator sets. \<open>RootCAs\<close> is the system pool with the bundle
  appended; \<open>http.DefaultTransport\<close> is the standard library's own \<open>*http.Transport\<close>.
\<close>

record Transport =
  trInsecureSkipVerify :: bool
  trRootCAs :: "string option"

definition buildTransport :: "env \<Rightarrow> Config \<Rightarrow> goerr + Transport" where
  "buildTransport E cfg =
     (let t = \<lparr>trInsecureSkipVerify = cfgInsecureSkipVerify cfg, trRootCAs = None\<rparr> in
      if cfgCABundle cfg \<noteq> [] then
        if \<not> pem_has_certs E (cfgCABundle cfg)
        then Inl (ErrNew ''polaris: CABundle did not contain any valid certificates'')
        else Inr (t\<lparr>trRootCAs := Some (cfgCABundle cfg)\<rparr>)
      else Inr t)"

record Client =
  clManagement :: string
  clCatalog :: string
  clTransport :: Transport
  clCfg :: Config

text \<open>\<open>NewClient\<close> of the generated packages: the server URL ends with a slash.\<close>

definition generated_NewClient :: "string \<Rightarrow> string" where
  "generated_NewClient server = (if \<not> has_suffix server ''/'' then server @ ''/'' else server)"

definition NewClient :: "env \<Rightarrow> Config \<Rightarrow> (goerr + Client) io" where
  "NewClient E cfg0 =
     (case Validate E cfg0 of
        Some err \<Rightarrow> State_Monad.return (Inl err)
      | None \<Rightarrow>
        let cfg = withDefaults cfg0 in
        case buildTransport E cfg of
          Inl err \<Rightarrow> State_Monad.return (Inl err)
        | Inr transport \<Rightarrow>
        case joinURL E (cfgServerURL cfg) managementBasePath of
          Inl err \<Rightarrow> State_Monad.return (Inl (ErrWrap ''polaris: build management URL: '' err))
        | Inr mgmtURL \<Rightarrow>
        case joinURL E (cfgServerURL cfg) catalogBasePath of
          Inl err \<Rightarrow> State_Monad.return (Inl (ErrWrap ''polaris: build catalog URL: '' err))
        | Inr catURL \<Rightarrow> do {
            _ \<leftarrow> set_cache [] 0;
            State_Monad.return (Inr
              \<lparr>clManagement = generated_NewClient mgmtURL,
               clCatalog = generated_NewClient catURL,
               clTransport = transport, clCfg = cfg\<rparr>)
          })"

section \<open>Tokens\<close>

record tokenResponse =
  trAccessToken :: string
  trExpiresIn :: go_int

definition dec_tokenResponse :: "json \<Rightarrow> goerr + tokenResponse" where
  "dec_tokenResponse j =
     sum_bind (dec_fields ''polaris.tokenResponse'' j) (\<lambda>f.
     sum_bind (dec_string (field f ''access_token'')) (\<lambda>tok.
     sum_bind (dec_string (field f ''token_type'')) (\<lambda>_.
     sum_bind (dec_int (field f ''expires_in'')) (\<lambda>ex.
     sum_bind (dec_string (field f ''scope'')) (\<lambda>_.
       Inr \<lparr>trAccessToken = tok, trExpiresIn = ex\<rparr>)))))"

definition token_form :: "Config \<Rightarrow> strmap" where
  "token_form cfg =
     [(''grant_type'', ''client_credentials''), (''client_id'', cfgClientID cfg),
      (''client_secret'', cfgClientSecret cfg), (''scope'', cfgScope cfg)]"

definition read_token :: "env \<Rightarrow> rawresp \<Rightarrow> goerr + tokenResponse" where
  "read_token E resp =
     (case rrReadErr resp of
        Some err \<Rightarrow> Inl (ErrWrap ''polaris: read token response: '' err)
      | None \<Rightarrow>
        if rrStatus resp \<ge> 400 then
          Inl (ErrAPI \<lparr>apiStatusCode = rrStatus resp, apiOp = ''auth/token'', apiBody = rrBody resp\<rparr>)
        else case sum_bind (json_parse (codec E) (rrBody resp)) dec_tokenResponse of
          Inl err \<Rightarrow> Inl (ErrWrap ''polaris: decode token response: '' err)
        | Inr tr \<Rightarrow>
            if trAccessToken tr = [] then
              Inl (ErrNew (''polaris: token endpoint returned empty access_token (body: '' @
                rrBody resp @ '')''))
            else Inr tr)"

definition fetch :: "env \<Rightarrow> Config \<Rightarrow> (goerr + tokenResponse) io" where
  "fetch E cfg =
     (case joinURL E (cfgServerURL cfg) (cfgTokenPath cfg) of
        Inl err \<Rightarrow> State_Monad.return (Inl err)
      | Inr endpoint \<Rightarrow>
        case url_Parse E endpoint of
          Inl err \<Rightarrow> State_Monad.return (Inl err)
        | Inr _ \<Rightarrow> do {
            r \<leftarrow> ask (\<lambda>h. token_post E h endpoint (token_form cfg))
                 (EToken endpoint (token_form cfg));
            case r of
              Inl err \<Rightarrow> State_Monad.return (Inl (ErrWrap ''polaris: post token endpoint: '' err))
            | Inr resp \<Rightarrow> State_Monad.return (read_token E resp)
          })"

text \<open>\<open>time.Duration(x) * time.Second\<close> is 64-bit arithmetic: it wraps around.\<close>

definition seconds :: "go_int \<Rightarrow> int" where
  "seconds x = sint (x * word_of_int Second)"

definition token_lifetime :: "tokenResponse \<Rightarrow> int" where
  "token_lifetime resp =
     (if 0 <s trExpiresIn resp then seconds (trExpiresIn resp) else 3600 * Second)"

definition refresh :: "env \<Rightarrow> Client \<Rightarrow> (goerr + string) io" where
  "refresh E pc = do {
     r \<leftarrow> fetch E (clCfg pc);
     case r of
       Inl err \<Rightarrow> State_Monad.return (Inl err)
     | Inr resp \<Rightarrow> do {
         now \<leftarrow> Now E;
         _ \<leftarrow> set_cache (trAccessToken resp) (now + token_lifetime resp);
         State_Monad.return (Inr (trAccessToken resp))
       }
   }"

definition token :: "env \<Rightarrow> Client \<Rightarrow> (goerr + string) io" where
  "token E pc = do {
     (cached, expiresAt) \<leftarrow> get_cache;
     if cached \<noteq> [] then do {
       now \<leftarrow> Now E;
       if expiresAt - now > tokenLeadTime then State_Monad.return (Inr cached)
       else refresh E pc
     } else refresh E pc
   }"

definition injectBearer :: "env \<Rightarrow> Client \<Rightarrow> string \<Rightarrow> (goerr + string option) io" where
  "injectBearer E pc path =
     (if has_suffix path (cfgTokenPath (clCfg pc)) then State_Monad.return (Inr None)
      else do {
        r \<leftarrow> token E pc;
        case r of
          Inl err \<Rightarrow> State_Monad.return (Inl (ErrWrap ''polaris: acquire token: '' err))
        | Inr tok \<Rightarrow> State_Monad.return (Inr (Some (''Bearer '' @ tok)))
      })"

definition Ping :: "env \<Rightarrow> Client \<Rightarrow> goerr option io" where
  "Ping E pc = do {
     r \<leftarrow> token E pc;
     State_Monad.return (case r of Inl err \<Rightarrow> Some err | Inr _ \<Rightarrow> None)
   }"

section \<open>Sending requests\<close>

datatype plane = Management | CatalogPlane

fun plane_server :: "Client \<Rightarrow> plane \<Rightarrow> string" where
  "plane_server pc Management = clManagement pc"
| "plane_server pc CatalogPlane = clCatalog pc"

definition operation_path :: "env \<Rightarrow> request \<Rightarrow> string" where
  "operation_path E rq =
     ''.'' @ concat (map (\<lambda>sg. ''/'' @ (case sg of Lit s \<Rightarrow> s | Par p \<Rightarrow> style_param E p)) (rqPath rq))"

text \<open>The common end of the generated \<open>New...Request\<close>: \<open>http.NewRequest\<close> parses the URL again.\<close>

definition new_http_request :: "env \<Rightarrow> string \<Rightarrow> request \<Rightarrow> goerr + url" where
  "new_http_request E server rq =
     sum_bind (url_Parse E server) (\<lambda>serverURL.
     sum_bind (url_Resolve E serverURL (operation_path E rq)) (\<lambda>queryURL.
       url_Parse E (url_String E queryURL)))"

text \<open>
  A generated operation: build the request, run the request editor \<open>injectBearer\<close>, send it,
  parse the answer.
\<close>

definition call ::
  "env \<Rightarrow> Client \<Rightarrow> plane \<Rightarrow> request \<Rightarrow> (rawresp \<Rightarrow> goerr + 'w) \<Rightarrow> (goerr + 'w) io" where
  "call E pc pl rq parse =
     (case new_http_request E (plane_server pc pl) rq of
        Inl err \<Rightarrow> State_Monad.return (Inl err)
      | Inr u \<Rightarrow> do {
          b \<leftarrow> injectBearer E pc (urlPath u);
          case b of
            Inl err \<Rightarrow> State_Monad.return (Inl err)
          | Inr bearer \<Rightarrow> do {
              rsp \<leftarrow> ask (\<lambda>h. http_Do E h u rq bearer) (EHttp rq bearer);
              State_Monad.return (sum_bind rsp parse)
            }
        })"

section \<open>The operations\<close>

definition DeleteCatalog :: "env \<Rightarrow> Client \<Rightarrow> string \<Rightarrow> (goerr + rawresp) io" where
  "DeleteCatalog E pc catalogName =
     call E pc Management (NewDeleteCatalogRequest catalogName) Inr"

definition GetCatalogWithResponse ::
  "env \<Rightarrow> Client \<Rightarrow> string \<Rightarrow> (goerr + Catalog wrapper) io" where
  "GetCatalogWithResponse E pc catalogName =
     call E pc Management (NewGetCatalogRequest catalogName) (ParseGetCatalogWrapper (codec E))"

definition CreateCatalogWithBodyWithResponse ::
  "env \<Rightarrow> Client \<Rightarrow> json \<Rightarrow> (goerr + unit wrapper) io" where
  "CreateCatalogWithBodyWithResponse E pc body =
     call E pc Management (NewCreateCatalogRequestWithBody body) (ParseCreateCatalogWrapper (codec E))"

definition UpdateCatalogWithBodyWithResponse ::
  "env \<Rightarrow> Client \<Rightarrow> string \<Rightarrow> json \<Rightarrow> (goerr + unit wrapper) io" where
  "UpdateCatalogWithBodyWithResponse E pc catalogName body =
     call E pc Management (NewUpdateCatalogRequestWithBody catalogName body) (ParseUpdateCatalogWrapper (codec E))"

definition GetPrincipalWithResponse ::
  "env \<Rightarrow> Client \<Rightarrow> string \<Rightarrow> (goerr + Principal wrapper) io" where
  "GetPrincipalWithResponse E pc principalName =
     call E pc Management (NewGetPrincipalRequest principalName) (ParseGetPrincipalWrapper (codec E))"

definition CreatePrincipalWithResponse ::
  "env \<Rightarrow> Client \<Rightarrow> CreatePrincipalRequest \<Rightarrow> (goerr + PrincipalWithCredentials wrapper) io" where
  "CreatePrincipalWithResponse E pc body =
     call E pc Management (NewCreatePrincipalRequest body) (ParseCreatePrincipalWrapper (codec E))"

definition UpdatePrincipalWithResponse ::
  "env \<Rightarrow> Client \<Rightarrow> string \<Rightarrow> UpdateRequest \<Rightarrow> (goerr + unit wrapper) io" where
  "UpdatePrincipalWithResponse E pc principalName body =
     call E pc Management (NewUpdatePrincipalRequest principalName body) (ParseUpdatePrincipalWrapper (codec E))"

definition RotateCredentialsWithResponse ::
  "env \<Rightarrow> Client \<Rightarrow> string \<Rightarrow> (goerr + PrincipalWithCredentials wrapper) io" where
  "RotateCredentialsWithResponse E pc principalName =
     call E pc Management (NewRotateCredentialsRequest principalName) (ParseRotateCredentialsWrapper (codec E))"

definition DeletePrincipalWithResponse ::
  "env \<Rightarrow> Client \<Rightarrow> string \<Rightarrow> (goerr + unit wrapper) io" where
  "DeletePrincipalWithResponse E pc principalName =
     call E pc Management (NewDeletePrincipalRequest principalName) (ParseDeletePrincipalWrapper (codec E))"

definition GetPrincipalRoleWithResponse ::
  "env \<Rightarrow> Client \<Rightarrow> string \<Rightarrow> (goerr + PrincipalRole wrapper) io" where
  "GetPrincipalRoleWithResponse E pc principalRoleName =
     call E pc Management (NewGetPrincipalRoleRequest principalRoleName) (ParseGetPrincipalRoleWrapper (codec E))"

definition CreatePrincipalRoleWithResponse ::
  "env \<Rightarrow> Client \<Rightarrow> PrincipalRoleRequest \<Rightarrow> (goerr + unit wrapper) io" where
  "CreatePrincipalRoleWithResponse E pc body =
     call E pc Management (NewCreatePrincipalRoleRequest body) (ParseCreatePrincipalRoleWrapper (codec E))"

definition UpdatePrincipalRoleWithResponse ::
  "env \<Rightarrow> Client \<Rightarrow> string \<Rightarrow> UpdateRequest \<Rightarrow> (goerr + unit wrapper) io" where
  "UpdatePrincipalRoleWithResponse E pc principalRoleName body =
     call E pc Management (NewUpdatePrincipalRoleRequest principalRoleName body) (ParseUpdatePrincipalRoleWrapper (codec E))"

definition DeletePrincipalRoleWithResponse ::
  "env \<Rightarrow> Client \<Rightarrow> string \<Rightarrow> (goerr + unit wrapper) io" where
  "DeletePrincipalRoleWithResponse E pc principalRoleName =
     call E pc Management (NewDeletePrincipalRoleRequest principalRoleName) (ParseDeletePrincipalRoleWrapper (codec E))"

definition GetCatalogRoleWithResponse ::
  "env \<Rightarrow> Client \<Rightarrow> string \<Rightarrow> string \<Rightarrow> (goerr + CatalogRole wrapper) io" where
  "GetCatalogRoleWithResponse E pc catalogName catalogRoleName =
     call E pc Management (NewGetCatalogRoleRequest catalogName catalogRoleName) (ParseGetCatalogRoleWrapper (codec E))"

definition CreateCatalogRoleWithResponse ::
  "env \<Rightarrow> Client \<Rightarrow> string \<Rightarrow> CatalogRoleRequest \<Rightarrow> (goerr + unit wrapper) io" where
  "CreateCatalogRoleWithResponse E pc catalogName body =
     call E pc Management (NewCreateCatalogRoleRequest catalogName body) (ParseCreateCatalogRoleWrapper (codec E))"

definition UpdateCatalogRoleWithResponse ::
  "env \<Rightarrow> Client \<Rightarrow> string \<Rightarrow> string \<Rightarrow> UpdateRequest \<Rightarrow> (goerr + unit wrapper) io" where
  "UpdateCatalogRoleWithResponse E pc catalogName catalogRoleName body =
     call E pc Management (NewUpdateCatalogRoleRequest catalogName catalogRoleName body) (ParseUpdateCatalogRoleWrapper (codec E))"

definition DeleteCatalogRoleWithResponse ::
  "env \<Rightarrow> Client \<Rightarrow> string \<Rightarrow> string \<Rightarrow> (goerr + unit wrapper) io" where
  "DeleteCatalogRoleWithResponse E pc catalogName catalogRoleName =
     call E pc Management (NewDeleteCatalogRoleRequest catalogName catalogRoleName) (ParseDeleteCatalogRoleWrapper (codec E))"

definition AssignPrincipalRoleWithResponse ::
  "env \<Rightarrow> Client \<Rightarrow> string \<Rightarrow> PrincipalRoleRequest \<Rightarrow> (goerr + unit wrapper) io" where
  "AssignPrincipalRoleWithResponse E pc principalName body =
     call E pc Management (NewAssignPrincipalRoleRequest principalName body) (ParseAssignPrincipalRoleWrapper (codec E))"

definition RevokePrincipalRoleWithResponse ::
  "env \<Rightarrow> Client \<Rightarrow> string \<Rightarrow> string \<Rightarrow> (goerr + unit wrapper) io" where
  "RevokePrincipalRoleWithResponse E pc principalName principalRoleName =
     call E pc Management (NewRevokePrincipalRoleRequest principalName principalRoleName) (ParseRevokePrincipalRoleWrapper (codec E))"

definition AssignCatalogRoleToPrincipalRoleWithResponse ::
  "env \<Rightarrow> Client \<Rightarrow> string \<Rightarrow> string \<Rightarrow> CatalogRoleRequest \<Rightarrow> (goerr + unit wrapper) io" where
  "AssignCatalogRoleToPrincipalRoleWithResponse E pc principalRoleName catalogName body =
     call E pc Management (NewAssignCatalogRoleToPrincipalRoleRequest principalRoleName catalogName body) (ParseAssignCatalogRoleToPrincipalRoleWrapper (codec E))"

definition RevokeCatalogRoleFromPrincipalRoleWithResponse ::
  "env \<Rightarrow> Client \<Rightarrow> string \<Rightarrow> string \<Rightarrow> string \<Rightarrow> (goerr + unit wrapper) io" where
  "RevokeCatalogRoleFromPrincipalRoleWithResponse E pc principalRoleName catalogName catalogRoleName =
     call E pc Management (NewRevokeCatalogRoleFromPrincipalRoleRequest principalRoleName catalogName catalogRoleName) (ParseRevokeCatalogRoleFromPrincipalRoleWrapper (codec E))"

definition AddGrantToCatalogRoleWithBodyWithResponse ::
  "env \<Rightarrow> Client \<Rightarrow> string \<Rightarrow> string \<Rightarrow> json \<Rightarrow> (goerr + unit wrapper) io" where
  "AddGrantToCatalogRoleWithBodyWithResponse E pc catalogName catalogRoleName body =
     call E pc Management (NewAddGrantToCatalogRoleRequestWithBody catalogName catalogRoleName body) (ParseAddGrantToCatalogRoleWrapper (codec E))"

definition RevokeGrantFromCatalogRoleWithBodyWithResponse ::
  "env \<Rightarrow> Client \<Rightarrow> string \<Rightarrow> string \<Rightarrow> json \<Rightarrow> (goerr + unit wrapper) io" where
  "RevokeGrantFromCatalogRoleWithBodyWithResponse E pc catalogName catalogRoleName body =
     call E pc Management (NewRevokeGrantFromCatalogRoleRequestWithBody catalogName catalogRoleName body) (ParseRevokeGrantFromCatalogRoleWrapper (codec E))"

definition LoadNamespaceMetadataWithResponse ::
  "env \<Rightarrow> Client \<Rightarrow> string \<Rightarrow> string \<Rightarrow> (goerr + GetNamespaceResponse wrapper) io" where
  "LoadNamespaceMetadataWithResponse E pc prefix namespace =
     call E pc CatalogPlane (NewLoadNamespaceMetadataRequest prefix namespace) (ParseLoadNamespaceMetadataWrapper (codec E))"

definition CreateNamespaceWithResponse ::
  "env \<Rightarrow> Client \<Rightarrow> string \<Rightarrow> CreateNamespaceRequest \<Rightarrow> (goerr + unit wrapper) io" where
  "CreateNamespaceWithResponse E pc prefix body =
     call E pc CatalogPlane (NewCreateNamespaceRequest prefix body) (ParseCreateNamespaceWrapper (codec E))"

definition UpdatePropertiesWithResponse ::
  "env \<Rightarrow> Client \<Rightarrow> string \<Rightarrow> string \<Rightarrow> UpdateNamespacePropertiesRequest \<Rightarrow> (goerr + unit wrapper) io" where
  "UpdatePropertiesWithResponse E pc prefix namespace body =
     call E pc CatalogPlane (NewUpdatePropertiesRequest prefix namespace body) (ParseUpdatePropertiesWrapper (codec E))"

definition DropNamespaceWithResponse ::
  "env \<Rightarrow> Client \<Rightarrow> string \<Rightarrow> string \<Rightarrow> (goerr + unit wrapper) io" where
  "DropNamespaceWithResponse E pc prefix namespace =
     call E pc CatalogPlane (NewDropNamespaceRequest prefix namespace) (ParseDropNamespaceWrapper (codec E))"

definition LoadTableWithResponse ::
  "env \<Rightarrow> Client \<Rightarrow> string \<Rightarrow> string \<Rightarrow> string \<Rightarrow> (goerr + LoadTableResult wrapper) io" where
  "LoadTableWithResponse E pc prefix namespace table =
     call E pc CatalogPlane (NewLoadTableRequest prefix namespace table) (ParseLoadTableWrapper (codec E))"

definition CreateTableWithResponse ::
  "env \<Rightarrow> Client \<Rightarrow> string \<Rightarrow> string \<Rightarrow> CreateTableRequest \<Rightarrow> (goerr + LoadTableResult wrapper) io" where
  "CreateTableWithResponse E pc prefix namespace body =
     call E pc CatalogPlane (NewCreateTableRequest prefix namespace body) (ParseCreateTableWrapper (codec E))"

definition DropTableWithResponse ::
  "env \<Rightarrow> Client \<Rightarrow> string \<Rightarrow> string \<Rightarrow> string \<Rightarrow> (goerr + unit wrapper) io" where
  "DropTableWithResponse E pc prefix namespace table =
     call E pc CatalogPlane (NewDropTableRequest prefix namespace table) (ParseDropTableWrapper (codec E))"

definition LoadViewWithResponse ::
  "env \<Rightarrow> Client \<Rightarrow> string \<Rightarrow> string \<Rightarrow> string \<Rightarrow> (goerr + unit wrapper) io" where
  "LoadViewWithResponse E pc prefix namespace view =
     call E pc CatalogPlane (NewLoadViewRequest prefix namespace view) (ParseLoadViewWrapper (codec E))"

definition CreateViewWithResponse ::
  "env \<Rightarrow> Client \<Rightarrow> string \<Rightarrow> string \<Rightarrow> CreateViewRequest \<Rightarrow> (goerr + unit wrapper) io" where
  "CreateViewWithResponse E pc prefix namespace body =
     call E pc CatalogPlane (NewCreateViewRequest prefix namespace body) (ParseCreateViewWrapper (codec E))"

definition DropViewWithResponse ::
  "env \<Rightarrow> Client \<Rightarrow> string \<Rightarrow> string \<Rightarrow> string \<Rightarrow> (goerr + unit wrapper) io" where
  "DropViewWithResponse E pc prefix namespace view =
     call E pc CatalogPlane (NewDropViewRequest prefix namespace view) (ParseDropViewWrapper (codec E))"

definition LoadPolicyWithResponse ::
  "env \<Rightarrow> Client \<Rightarrow> string \<Rightarrow> string \<Rightarrow> string \<Rightarrow> (goerr + LoadPolicyResponse wrapper) io" where
  "LoadPolicyWithResponse E pc prefix namespace policyName =
     call E pc CatalogPlane (NewLoadPolicyRequest prefix namespace policyName) (ParseLoadPolicyWrapper (codec E))"

definition CreatePolicyWithResponse ::
  "env \<Rightarrow> Client \<Rightarrow> string \<Rightarrow> string \<Rightarrow> CreatePolicyRequest \<Rightarrow> (goerr + unit wrapper) io" where
  "CreatePolicyWithResponse E pc prefix namespace body =
     call E pc CatalogPlane (NewCreatePolicyRequest prefix namespace body) (ParseCreatePolicyWrapper (codec E))"

definition UpdatePolicyWithResponse ::
  "env \<Rightarrow> Client \<Rightarrow> string \<Rightarrow> string \<Rightarrow> string \<Rightarrow> UpdatePolicyRequest \<Rightarrow> (goerr + unit wrapper) io" where
  "UpdatePolicyWithResponse E pc prefix namespace policyName body =
     call E pc CatalogPlane (NewUpdatePolicyRequest prefix namespace policyName body) (ParseUpdatePolicyWrapper (codec E))"

definition DropPolicyWithResponse ::
  "env \<Rightarrow> Client \<Rightarrow> string \<Rightarrow> string \<Rightarrow> string \<Rightarrow> (goerr + unit wrapper) io" where
  "DropPolicyWithResponse E pc prefix namespace policyName =
     call E pc CatalogPlane (NewDropPolicyRequest prefix namespace policyName) (ParseDropPolicyWrapper (codec E))"

section \<open>Rules\<close>

lemma quiet_fetch: "quiet (fetch E cfg)"
  unfolding quiet_def fetch_def by (auto intro!: vc valid_ask)

lemma quiet_refresh: "quiet (refresh E pc)"
  unfolding quiet_def refresh_def by (auto intro!: vc valid_quiet [OF quiet_fetch])

lemma quiet_token: "quiet (token E pc)"
  unfolding quiet_def token_def by (auto intro!: vc valid_quiet [OF quiet_refresh])

lemma quiet_injectBearer: "quiet (injectBearer E pc path)"
  unfolding quiet_def injectBearer_def by (auto intro!: vc valid_quiet [OF quiet_token])

lemma quiet_Ping: "quiet (Ping E pc)"
  unfolding quiet_def Ping_def by (auto intro!: vc valid_quiet [OF quiet_token])

lemma quiet_NewClient: "quiet (NewClient E cfg)"
  unfolding quiet_def NewClient_def by (auto intro!: vc simp: Let_def)

text \<open>
  A call either fails before anything is sent, or is exactly one request on the wire whose
  answer is handed to the parser.
\<close>

lemma valid_call:
  assumes unsent: "\<And>e evs. effects evs = [] \<Longrightarrow> P (Inl e) evs"
    and sent: "\<And>ans evs. effects evs = [Api rq ans] \<Longrightarrow> P (sum_bind ans parse) evs"
  shows "valid (call E pc pl rq parse) P"
  unfolding call_def
  by (auto intro!: vc valid_ask valid_quiet [OF quiet_injectBearer] unsent sent)

section \<open>Properties of the token source\<close>

lemma read_token_nonempty: "read_token E raw = Inr tr \<Longrightarrow> trAccessToken tr \<noteq> []"
  by (auto simp: read_token_def split: option.splits if_splits sum.splits)

lemma run_fetch:
  "(\<exists>e h'. run_state (fetch E cfg) s = (Inl e, s\<lparr>hist := hist s @ h'\<rparr>)) \<or>
   (\<exists>endpoint raw tr. read_token E raw = Inr tr \<and>
      run_state (fetch E cfg) s =
        (Inr tr, s\<lparr>hist := hist s @ [EToken endpoint (token_form cfg) (Inr raw)]\<rparr>))"
proof (cases "joinURL E (cfgServerURL cfg) (cfgTokenPath cfg)")
  case (Inl e)
  then have "run_state (fetch E cfg) s = (Inl e, s\<lparr>hist := hist s @ []\<rparr>)"
    by (simp add: fetch_def)
  then show ?thesis by blast
next
  case (Inr endpoint)
  note join = this
  show ?thesis
  proof (cases "url_Parse E endpoint")
    case (Inl e)
    then have "run_state (fetch E cfg) s = (Inl e, s\<lparr>hist := hist s @ []\<rparr>)"
      using join by (simp add: fetch_def)
    then show ?thesis by blast
  next
    case (Inr u)
    let ?r = "token_post E (hist s) endpoint (token_form cfg)"
    let ?s = "s\<lparr>hist := hist s @ [EToken endpoint (token_form cfg) ?r]\<rparr>"
    have run: "run_state (fetch E cfg) s =
      (case ?r of Inl err \<Rightarrow> (Inl (ErrWrap ''polaris: post token endpoint: '' err), ?s)
       | Inr resp \<Rightarrow> (read_token E resp, ?s))"
      using join Inr by (simp add: fetch_def split: sum.splits)
    show ?thesis
    proof (cases ?r)
      case (Inl e)
      then show ?thesis using run by auto
    next
      case (Inr raw)
      then show ?thesis using run by (cases "read_token E raw") auto
    qed
  qed
qed

lemma run_refresh:
  "(\<exists>e h'. run_state (refresh E pc) s = (Inl e, s\<lparr>hist := hist s @ h'\<rparr>)) \<or>
   (\<exists>endpoint raw tr now. read_token E raw = Inr tr \<and>
      run_state (refresh E pc) s =
        (Inr (trAccessToken tr),
         s\<lparr>hist := hist s @ [EToken endpoint (token_form (clCfg pc)) (Inr raw), ENow now],
           tokCached := trAccessToken tr, tokExpiresAt := now + token_lifetime tr\<rparr>))"
proof -
  consider e h' where "run_state (fetch E (clCfg pc)) s = (Inl e, s\<lparr>hist := hist s @ h'\<rparr>)"
    | endpoint raw tr where "read_token E raw = Inr tr"
      "run_state (fetch E (clCfg pc)) s =
        (Inr tr, s\<lparr>hist := hist s @ [EToken endpoint (token_form (clCfg pc)) (Inr raw)]\<rparr>)"
    using run_fetch [of E "clCfg pc" s] by blast
  then show ?thesis
  proof cases
    case 1
    then show ?thesis by (auto simp: refresh_def)
  next
    case 2
    then show ?thesis by (fastforce simp: refresh_def Now_def)
  qed
qed

text \<open>The state in which \<open>token\<close> starts to refresh: as it was, but for a reading of the clock.\<close>

lemma run_token:
  "run_state (token E pc) s =
     (if tokCached s = [] then run_state (refresh E pc) s
      else if time_Now E (hist s) + tokenLeadTime < tokExpiresAt s
      then (Inr (tokCached s), s\<lparr>hist := hist s @ [ENow (time_Now E (hist s))]\<rparr>)
      else run_state (refresh E pc) (s\<lparr>hist := hist s @ [ENow (time_Now E (hist s))]\<rparr>))"
  by (auto simp: token_def Now_def algebra_simps)

text \<open>
  C32. The token source never returns an empty token, and returns a cached one only when the
  clock shows more than the lead time of 30 seconds before its expiry; otherwise it returns
  the token the endpoint has just issued, and caches it with the expiry computed from the
  response. When the exchange fails the cache is left as it was.
\<close>

theorem token_spec:
  "case run_state (token E pc) s of
     (Inl e, s') \<Rightarrow> tokCached s' = tokCached s \<and> tokExpiresAt s' = tokExpiresAt s
   | (Inr tok, s') \<Rightarrow>
       tok \<noteq> [] \<and> tok = tokCached s' \<and>
       (tok = tokCached s \<and> tokExpiresAt s' = tokExpiresAt s \<and>
          (\<exists>now. trace (token E pc) s = [ENow now] \<and> now + tokenLeadTime < tokExpiresAt s) \<or>
        (\<exists>pre endpoint raw tr now.
          trace (token E pc) s =
            pre @ [EToken endpoint (token_form (clCfg pc)) (Inr raw), ENow now] \<and>
          read_token E raw = Inr tr \<and> tok = trAccessToken tr \<and>
          tokExpiresAt s' = now + token_lifetime tr))"
proof -
  let ?s1 = "s\<lparr>hist := hist s @ [ENow (time_Now E (hist s))]\<rparr>"
  consider "tokCached s = []"
    | "tokCached s \<noteq> []" "time_Now E (hist s) + tokenLeadTime < tokExpiresAt s"
    | "tokCached s \<noteq> []" "\<not> time_Now E (hist s) + tokenLeadTime < tokExpiresAt s"
    by blast
  then show ?thesis
  proof cases
    case 1
    then show ?thesis
      using run_refresh [of E pc s] by (auto simp: run_token trace_def read_token_nonempty)
  next
    case 2
    then show ?thesis by (auto simp: run_token trace_def)
  next
    case 3
    then show ?thesis
      using run_refresh [of E pc ?s1] by (auto simp: run_token trace_def read_token_nonempty)
  qed
qed

text \<open>
  Token reuse: once \<open>token\<close> has returned a token, a further call made more than the lead
  time before the recorded expiry returns the same token and does nothing but read the clock.
\<close>

theorem token_cache_reuse:
  assumes "run_state (token E pc) s = (Inr tok, s1)"
    and "time_Now E (hist s1) + tokenLeadTime < tokExpiresAt s1"
  shows "run_state (token E pc) s1 =
    (Inr tok, s1\<lparr>hist := hist s1 @ [ENow (time_Now E (hist s1))]\<rparr>)"
proof -
  have "tok \<noteq> [] \<and> tok = tokCached s1"
    using run_refresh [of E pc s]
      run_refresh [of E pc "s\<lparr>hist := hist s @ [ENow (time_Now E (hist s))]\<rparr>"]
      assms(1) read_token_nonempty
    by (auto simp: run_token split: if_splits)
  then show ?thesis using assms(2) by (auto simp: run_token)
qed

text \<open>
  The lifetime is exact up to 9223372036 seconds (292 years); one second more and the
  64-bit product is negative, so that the token would count as expired at once.
\<close>

theorem token_lifetime_range:
  "(0 < sint (trExpiresIn tr) \<and> sint (trExpiresIn tr) \<le> 9223372036 \<longrightarrow>
      token_lifetime tr = sint (trExpiresIn tr) * Second) \<and>
   (sint (trExpiresIn tr) \<le> 0 \<longrightarrow> token_lifetime tr = 3600 * Second) \<and>
   (trExpiresIn tr = 9223372037 \<longrightarrow> token_lifetime tr < 0)"
proof (intro conjI impI)
  assume a: "0 < sint (trExpiresIn tr) \<and> sint (trExpiresIn tr) \<le> 9223372036"
  have "sint (trExpiresIn tr * word_of_int Second) = sint (trExpiresIn tr) * Second"
    using a by (simp add: Second_def sint_word_ariths(3) signed_take_bit_int_eq_self)
  then show "token_lifetime tr = sint (trExpiresIn tr) * Second"
    using a by (simp add: token_lifetime_def seconds_def word_sless_alt)
next
  assume "sint (trExpiresIn tr) \<le> 0"
  then show "token_lifetime tr = 3600 * Second"
    by (simp add: token_lifetime_def word_sless_alt)
next
  assume "trExpiresIn tr = 9223372037"
  then show "token_lifetime tr < 0"
    by (simp add: token_lifetime_def seconds_def Second_def word_sless_alt)
qed

theorem token_cache_reuse_witness:
  "\<exists>pc s tok s1. run_state (token sample_env pc) s = (Inr tok, s1) \<and>
     run_state (token sample_env pc) s1 = (Inr tok, s1\<lparr>hist := hist s1 @ [ENow 0]\<rparr>)"
proof -
  let ?s = "\<lparr>hist = [], tokCached = ''t'', tokExpiresAt = 60 * Second\<rparr>"
  let ?s1 = "\<lparr>hist = [ENow 0], tokCached = ''t'', tokExpiresAt = 60 * Second\<rparr>"
  have 1: "run_state (token sample_env pc) ?s = (Inr ''t'', ?s1)" for pc
    by (simp add: run_token sample_env_def tokenLeadTime_def Second_def)
  moreover have "run_state (token sample_env pc) ?s1 = (Inr ''t'', ?s1\<lparr>hist := hist ?s1 @ [ENow 0]\<rparr>)" for pc
    using token_cache_reuse [OF 1 [of pc]] by (simp add: sample_env_def tokenLeadTime_def Second_def)
  ultimately show ?thesis by blast
qed

theorem token_lifetime_range_witness:
  "token_lifetime \<lparr>trAccessToken = ''t'', trExpiresIn = 3600\<rparr> = 3600 * Second \<and>
   token_lifetime \<lparr>trAccessToken = ''t'', trExpiresIn = 0\<rparr> = 3600 * Second \<and>
   token_lifetime \<lparr>trAccessToken = ''t'', trExpiresIn = 9223372037\<rparr> < 0"
  using token_lifetime_range [of "\<lparr>trAccessToken = ''t'', trExpiresIn = 3600\<rparr>"]
    token_lifetime_range [of "\<lparr>trAccessToken = ''t'', trExpiresIn = 0\<rparr>"]
    token_lifetime_range [of "\<lparr>trAccessToken = ''t'', trExpiresIn = 9223372037\<rparr>"]
  by simp

section \<open>Properties of the client\<close>

lemma valid_token_nonempty: "valid (token E pc) (\<lambda>r evs. \<forall>t. r = Inr t \<longrightarrow> t \<noteq> [])"
  unfolding valid_def
proof
  fix s
  obtain evs where "hist (snd (run_state (token E pc) s)) = hist s @ evs"
    using quiet_token [of E pc] unfolding quiet_def valid_def by blast
  moreover have "\<forall>t. fst (run_state (token E pc) s) = Inr t \<longrightarrow> t \<noteq> []"
    using run_refresh [of E pc s]
      run_refresh [of E pc "s\<lparr>hist := hist s @ [ENow (time_Now E (hist s))]\<rparr>"]
      read_token_nonempty by (auto simp: run_token)
  ultimately show "\<exists>evs. hist (snd (run_state (token E pc) s)) = hist s @ evs \<and>
      (\<forall>t. fst (run_state (token E pc) s) = Inr t \<longrightarrow> t \<noteq> [])"
    by blast
qed

lemma valid_injectBearer:
  assumes "\<And>e evs. effects evs = [] \<Longrightarrow> P (Inl e) evs"
    and "\<And>b evs. effects evs = [] \<Longrightarrow>
      (if has_suffix path (cfgTokenPath (clCfg pc)) then b = None
       else \<exists>tok. tok \<noteq> [] \<and> b = Some (''Bearer '' @ tok)) \<Longrightarrow> P (Inr b) evs"
  shows "valid (injectBearer E pc path) P"
proof -
  have tok: "valid (token E pc) (\<lambda>r evs. effects evs = [] \<and> (\<forall>t. r = Inr t \<longrightarrow> t \<noteq> []))"
    using valid_conj [OF quiet_token [unfolded quiet_def] valid_token_nonempty] .
  show ?thesis
    unfolding injectBearer_def
    by (intro vc) (auto intro!: valid_mono [OF tok] vc assms split: if_splits)
qed

text \<open>The events a call may cause: silent ones, and its own request with the right header.\<close>

definition bearer_ok :: "Client \<Rightarrow> string \<Rightarrow> string option \<Rightarrow> bool" where
  "bearer_ok pc path b \<longleftrightarrow>
     (if has_suffix path (cfgTokenPath (clCfg pc)) then b = None
      else case b of None \<Rightarrow> False | Some h \<Rightarrow> has_prefix h ''Bearer '' \<and> h \<noteq> ''Bearer '')"

fun call_event_ok :: "env \<Rightarrow> Client \<Rightarrow> plane \<Rightarrow> request \<Rightarrow> event \<Rightarrow> bool" where
  "call_event_ok E pc pl rq (EHttp rq' b ans) \<longleftrightarrow>
     rq' = rq \<and>
     (case new_http_request E (plane_server pc pl) rq of Inl _ \<Rightarrow> False
      | Inr u \<Rightarrow> bearer_ok pc (urlPath u) b)"
| "call_event_ok E pc pl rq e \<longleftrightarrow> effect_of e = []"

lemma call_event_ok_silent: "effects evs = [] \<Longrightarrow> list_all (call_event_ok E pc pl rq) evs"
proof (induction evs)
  case (Cons e evs)
  then show ?case by (cases e) auto
qed simp

text \<open>
  C33. Authentication: a call sends at most one request, its own, and every request goes out
  with a non-empty bearer token, except one whose URL path ends with the token path.
\<close>

theorem call_authenticated:
  "list_all (call_event_ok E pc pl rq) (trace (call E pc pl rq parse) s) \<and>
   length (effects (trace (call E pc pl rq parse) s)) \<le> 1"
proof -
  have bearer: "bearer_ok pc path b"
    if "if has_suffix path (cfgTokenPath (clCfg pc)) then b = None
        else \<exists>tok. tok \<noteq> [] \<and> b = Some (''Bearer '' @ tok)" for path b
    using that by (auto simp: bearer_ok_def has_prefix_def)
  have "valid (call E pc pl rq parse)
    (\<lambda>r evs. list_all (call_event_ok E pc pl rq) evs \<and> length (effects evs) \<le> 1)"
    unfolding call_def
    by (intro vc valid_injectBearer)
      (auto intro!: vc valid_ask dest: call_event_ok_silent bearer)
  from validD [OF this] show ?thesis .
qed

text \<open>
  A client that \<open>NewClient\<close> returns has the server, credentials and TLS settings it was
  given, all required ones non-empty, with the token path, scope and timeout defaulted, base
  URLs ending in a slash, and an empty token cache; a bundle without certificates is refused.
\<close>

theorem NewClient_spec:
  assumes "run_state (NewClient E cfg) s = (Inr pc, s')"
  shows "clCfg pc = withDefaults cfg \<and>
    cfgServerURL (clCfg pc) = cfgServerURL cfg \<and> cfgServerURL cfg \<noteq> [] \<and>
    cfgClientID (clCfg pc) = cfgClientID cfg \<and> cfgClientID cfg \<noteq> [] \<and>
    cfgClientSecret (clCfg pc) = cfgClientSecret cfg \<and> cfgClientSecret cfg \<noteq> [] \<and>
    cfgTokenPath (clCfg pc) \<noteq> [] \<and> cfgScope (clCfg pc) \<noteq> [] \<and> cfgHTTPTimeout (clCfg pc) \<noteq> 0 \<and>
    trInsecureSkipVerify (clTransport pc) = cfgInsecureSkipVerify cfg \<and>
    trRootCAs (clTransport pc) = (if cfgCABundle cfg = [] then None else Some (cfgCABundle cfg)) \<and>
    (cfgCABundle cfg = [] \<or> pem_has_certs E (cfgCABundle cfg)) \<and>
    has_suffix (clManagement pc) ''/'' \<and> has_suffix (clCatalog pc) ''/'' \<and>
    tokCached s' = [] \<and> hist s' = hist s"
proof -
  have d: "cfgServerURL (withDefaults cfg) = cfgServerURL cfg"
    "cfgClientID (withDefaults cfg) = cfgClientID cfg"
    "cfgClientSecret (withDefaults cfg) = cfgClientSecret cfg"
    "cfgCABundle (withDefaults cfg) = cfgCABundle cfg"
    "cfgInsecureSkipVerify (withDefaults cfg) = cfgInsecureSkipVerify cfg"
    "cfgTokenPath (withDefaults cfg) \<noteq> []" "cfgScope (withDefaults cfg) \<noteq> []"
    "cfgHTTPTimeout (withDefaults cfg) \<noteq> 0"
    by (simp_all add: withDefaults_def Let_def DefaultTokenPath_def DefaultScope_def
        DefaultHTTPTimeout_def Second_def)
  have g: "has_suffix (generated_NewClient u) ''/''" for u
    by (simp add: generated_NewClient_def)
  show ?thesis
    using assms d g
    by (auto simp: NewClient_def Validate_def buildTransport_def Let_def
        split: option.splits if_splits sum.splits)
qed

theorem NewClient_spec_witness:
  "\<exists>pc s'. run_state (NewClient sample_env
      \<lparr>cfgServerURL = ''http://p'', cfgTokenPath = [], cfgScope = [], cfgClientID = ''i'',
       cfgClientSecret = ''s'', cfgCABundle = [], cfgInsecureSkipVerify = False,
       cfgHTTPTimeout = 0\<rparr>) \<lparr>hist = [], tokCached = ''old'', tokExpiresAt = 0\<rparr> = (Inr pc, s') \<and>
     cfgTokenPath (clCfg pc) \<noteq> [] \<and> tokCached s' = []"
proof -
  let ?cfg = "\<lparr>cfgServerURL = ''http://p'', cfgTokenPath = [], cfgScope = [], cfgClientID = ''i'',
       cfgClientSecret = ''s'', cfgCABundle = [], cfgInsecureSkipVerify = False,
       cfgHTTPTimeout = 0\<rparr>"
  let ?s = "\<lparr>hist = [], tokCached = ''old'', tokExpiresAt = 0\<rparr>"
  have "\<exists>pc s'. run_state (NewClient sample_env ?cfg) ?s = (Inr pc, s')"
    by (simp add: NewClient_def Validate_def buildTransport_def withDefaults_def joinURL_def
        sample_env_def Let_def managementBasePath_def catalogBasePath_def)
  then obtain pc s' where r: "run_state (NewClient sample_env ?cfg) ?s = (Inr pc, s')" by blast
  show ?thesis using r NewClient_spec [OF r] by blast
qed

end
