(* ===== verification/Controller_Helpers.thy ===== *)
theory Controller_Helpers
  imports Polaris_Client
begin

text \<open>
  \<open>internal/controller/helpers.go\<close>, and the code blocks the twelve reconcilers repeat word for
  word (the failure block, \<open>resolveFail\<close>, the final status update, the reading of API
  responses), each written once here.

  A Go helper that takes a \<open>client.Object\<close> together with pointers into its status takes the
  typed resource \<open>x\<close> here and the constructor \<open>mk\<close> that makes it an \<open>obj\<close>. The call sites
  always pass the object's own conditions and generation. Helpers that take a pointer which
  no caller passes as nil have no nil case.
\<close>

section \<open>Constants\<close>

definition PolarisFinalizer :: string where
  "PolarisFinalizer = ''polaris.k8s.calific.io/finalizer''"

definition ConditionReady :: string where "ConditionReady = ''Ready''"
definition ConditionSynced :: string where "ConditionSynced = ''Synced''"
definition ConditionAuthValid :: string where "ConditionAuthValid = ''AuthValid''"
definition ConditionCredentialsWritten :: string where
  "ConditionCredentialsWritten = ''CredentialsWritten''"

lemmas condition_types = ConditionReady_def ConditionSynced_def ConditionAuthValid_def
  ConditionCredentialsWritten_def

definition ReasonReady :: string where "ReasonReady = ''Ready''"
definition ReasonRefError :: string where "ReasonRefError = ''ReferenceError''"
definition ReasonAuthError :: string where "ReasonAuthError = ''AuthenticationError''"
definition ReasonPolarisError :: string where "ReasonPolarisError = ''PolarisError''"
definition ReasonInvalidSpec :: string where "ReasonInvalidSpec = ''InvalidSpec''"
definition ReasonSyncFailed :: string where "ReasonSyncFailed = ''SyncFailed''"
definition ReasonSynced :: string where "ReasonSynced = ''Synced''"
definition ReasonCredentialsValid :: string where "ReasonCredentialsValid = ''CredentialsValid''"
definition ReasonDependencyNotReady :: string where
  "ReasonDependencyNotReady = ''DependencyNotReady''"

definition dependencyRequeueAfter :: int where "dependencyRequeueAfter = 5 * Second"

section \<open>Results\<close>

text \<open>\<open>ctrl.Result\<close> with the error of a reconcile; or a run-time panic (a nil dereference).\<close>

record Result =
  resRequeue :: bool
  resRequeueAfter :: int

definition noResult :: Result where "noResult = \<lparr>resRequeue = False, resRequeueAfter = 0\<rparr>"
definition requeue :: Result where "requeue = \<lparr>resRequeue = True, resRequeueAfter = 0\<rparr>"
definition requeueLater :: Result where
  "requeueLater = \<lparr>resRequeue = False, resRequeueAfter = dependencyRequeueAfter\<rparr>"

datatype outcome = Returns Result "goerr option" | Panics

section \<open>Conditions\<close>

definition setCondition ::
  "env \<Rightarrow> Condition list \<Rightarrow> string \<Rightarrow> ConditionStatus \<Rightarrow> int \<Rightarrow> string \<Rightarrow> string \<Rightarrow> Condition list"
  where
  "setCondition E conds typ status gen reason msg =
     SetStatusCondition E conds
       \<lparr>condType = typ, condStatus = status, condObservedGeneration = gen,
        condReason = reason, condMessage = msg\<rparr>"

definition setReady :: "env \<Rightarrow> Condition list \<Rightarrow> int \<Rightarrow> string \<Rightarrow> Condition list" where
  "setReady E conds gen msg =
     SetStatusCondition E conds
       \<lparr>condType = ConditionReady, condStatus = ConditionTrue, condObservedGeneration = gen,
        condReason = ReasonReady, condMessage = msg\<rparr>"

definition setNotReady ::
  "env \<Rightarrow> Condition list \<Rightarrow> int \<Rightarrow> string \<Rightarrow> string \<Rightarrow> Condition list" where
  "setNotReady E conds gen reason msg =
     SetStatusCondition E conds
       \<lparr>condType = ConditionReady, condStatus = ConditionFalse, condObservedGeneration = gen,
        condReason = reason, condMessage = msg\<rparr>"

definition setSynced :: "env \<Rightarrow> Condition list \<Rightarrow> int \<Rightarrow> string \<Rightarrow> Condition list" where
  "setSynced E conds gen msg =
     SetStatusCondition E conds
       \<lparr>condType = ConditionSynced, condStatus = ConditionTrue, condObservedGeneration = gen,
        condReason = ReasonSynced, condMessage = msg\<rparr>"

definition parentReady :: "env \<Rightarrow> Condition list \<Rightarrow> bool" where
  "parentReady E conds = IsStatusConditionTrue E conds ConditionReady"

definition isDeleting :: "objmeta \<Rightarrow> bool" where
  "isDeleting m \<longleftrightarrow> objDeletionTimestamp m \<noteq> None"

section \<open>Names and properties\<close>

definition resolveNamespace :: "string \<Rightarrow> string \<Rightarrow> string" where
  "resolveNamespace refNs ownerNs = (if refNs \<noteq> [] then refNs else ownerNs)"

definition polarisName :: "string \<Rightarrow> string \<Rightarrow> string" where
  "polarisName specName metaName = (if specName \<noteq> [] then specName else metaName)"

definition ref_key :: "object_ref \<Rightarrow> string \<Rightarrow> NamespacedName" where
  "ref_key ref defaultNs =
     \<lparr>nnNamespace = resolveNamespace (refNamespace ref) defaultNs, nnName = refName ref\<rparr>"

definition equalProperties :: "strmap \<Rightarrow> strmap \<Rightarrow> bool" where
  "equalProperties a b \<longleftrightarrow>
     (if length a \<noteq> length b then False
      else list_all (\<lambda>(k, v). case map_of b k of None \<Rightarrow> False | Some bv \<Rightarrow> bv = v) a)"

definition copyStringMap :: "strmap \<Rightarrow> strmap" where "copyStringMap m = m"

section \<open>Reference resolution\<close>

definition resolve ::
  "env \<Rightarrow> (event list \<Rightarrow> NamespacedName \<Rightarrow> goerr + 'a) \<Rightarrow> ('a \<Rightarrow> obj) \<Rightarrow> string \<Rightarrow>
   object_ref \<Rightarrow> string \<Rightarrow> (goerr + 'a) io" where
  "resolve E get mk kind ref defaultNs = do {
     r \<leftarrow> kget get mk (ref_key ref defaultNs);
     State_Monad.return (case r of
         Inl err \<Rightarrow>
           Inl (ErrWrap (''resolve '' @ kind @ '' '' @ key_String E (ref_key ref defaultNs) @ '': '') err)
       | Inr ob \<Rightarrow> Inr ob)
   }"

definition getConnection :: "env \<Rightarrow> ConnectionRef \<Rightarrow> string \<Rightarrow> (goerr + PolarisConnection) io" where
  "getConnection E = resolve E (get_PolarisConnection E) OConnection ''PolarisConnection''"

definition getCatalog :: "env \<Rightarrow> CatalogRef \<Rightarrow> string \<Rightarrow> (goerr + PolarisCatalog) io" where
  "getCatalog E = resolve E (get_PolarisCatalog E) OCatalog ''PolarisCatalog''"

definition getNamespace :: "env \<Rightarrow> NamespaceRef \<Rightarrow> string \<Rightarrow> (goerr + PolarisNamespace) io" where
  "getNamespace E = resolve E (get_PolarisNamespace E) ONamespace ''PolarisNamespace''"

definition getPrincipal :: "env \<Rightarrow> PrincipalRef \<Rightarrow> string \<Rightarrow> (goerr + PolarisPrincipal) io" where
  "getPrincipal E = resolve E (get_PolarisPrincipal E) OPrincipal ''PolarisPrincipal''"

definition getPrincipalRole ::
  "env \<Rightarrow> PrincipalRoleRef \<Rightarrow> string \<Rightarrow> (goerr + PolarisPrincipalRole) io" where
  "getPrincipalRole E =
     resolve E (get_PolarisPrincipalRole E) OPrincipalRole ''PolarisPrincipalRole''"

definition getCatalogRole ::
  "env \<Rightarrow> CatalogRoleRef \<Rightarrow> string \<Rightarrow> (goerr + PolarisCatalogRole) io" where
  "getCatalogRole E = resolve E (get_PolarisCatalogRole E) OCatalogRole ''PolarisCatalogRole''"

section \<open>Client construction\<close>

definition data_at :: "strmap \<Rightarrow> string \<Rightarrow> string" where
  "data_at m k = (case map_of m k of None \<Rightarrow> [] | Some v \<Rightarrow> v)"

definition or_default :: "string \<Rightarrow> string \<Rightarrow> string" where
  "or_default s d = (if s = [] then d else s)"

definition buildPolarisClient :: "env \<Rightarrow> PolarisConnection \<Rightarrow> (goerr + Client) io" where
  "buildPolarisClient E conn =
     (let spec = crSpec conn;
          cref = connCredentialsSecretRef spec;
          credsKey = \<lparr>nnNamespace = objNamespace (crMeta conn), nnName = ccName cref\<rparr> in do {
      r \<leftarrow> kget_secret E credsKey;
      case r of
        Inl err \<Rightarrow> State_Monad.return
          (Inl (ErrWrap (''read credentials Secret '' @ key_String E credsKey @ '': '') err))
      | Inr creds \<Rightarrow>
        let clientIDKey = or_default (ccClientIdKey cref) ''clientId'';
            clientSecretKey = or_default (ccClientSecretKey cref) ''clientSecret'';
            clientID = data_at (secretData creds) clientIDKey;
            clientSecret = data_at (secretData creds) clientSecretKey in
        if clientID = [] \<or> clientSecret = [] then State_Monad.return
          (Inl (ErrNew (''credentials Secret '' @ key_String E credsKey @ '' missing keys '' @
             go_quote clientIDKey @ '' and/or '' @ go_quote clientSecretKey)))
        else
          let cfg = \<lparr>cfgServerURL = connServerURL spec, cfgTokenPath = connTokenPath spec,
                     cfgScope = connScope spec, cfgClientID = clientID,
                     cfgClientSecret = clientSecret, cfgCABundle = [],
                     cfgInsecureSkipVerify = connInsecureSkipVerify spec, cfgHTTPTimeout = 0\<rparr> in
          case connCABundleSecretRef spec of
            None \<Rightarrow> NewClient E cfg
          | Some caRef \<Rightarrow>
            let caSecretKey = \<lparr>nnNamespace = objNamespace (crMeta conn), nnName = caName caRef\<rparr> in do {
            r2 \<leftarrow> kget_secret E caSecretKey;
            case r2 of
              Inl err \<Rightarrow> State_Monad.return
                (Inl (ErrWrap (''read CA bundle Secret '' @ key_String E caSecretKey @ '': '') err))
            | Inr caSecret \<Rightarrow>
              let bundleKey = or_default (caKey caRef) ''ca.crt'';
                  bundle = data_at (secretData caSecret) bundleKey in
              if bundle = [] then State_Monad.return
                (Inl (ErrNew (''CA bundle Secret '' @ key_String E caSecretKey @ '' missing key '' @
                   go_quote bundleKey)))
              else NewClient E (cfg\<lparr>cfgCABundle := bundle\<rparr>)
            }
      })"

text \<open>The field \<open>BuildPolarisClient\<close> every reconciler struct has, and its method \<open>builder\<close>.\<close>

record reconciler =
  BuildPolarisClient :: "(PolarisConnection \<Rightarrow> (goerr + Client) io) option"

definition builder :: "env \<Rightarrow> reconciler \<Rightarrow> PolarisConnection \<Rightarrow> (goerr + Client) io" where
  "builder E r =
     (case BuildPolarisClient r of Some f \<Rightarrow> f | None \<Rightarrow> buildPolarisClient E)"

section \<open>Namespace paths\<close>

definition maxDepth :: nat where "maxDepth = 32"

text \<open>The em dash of the message, in UTF-8.\<close>

definition em_dash :: string where "em_dash = [CHR 0xE2, CHR 0x80, CHR 0x94]"

definition ns_catalog_key :: "PolarisNamespace \<Rightarrow> NamespacedName" where
  "ns_catalog_key ns = ref_key (nsCatalogRef (crSpec ns)) (objNamespace (crMeta ns))"

definition ns_segment :: "PolarisNamespace \<Rightarrow> string" where
  "ns_segment ns = polarisName (nsName (crSpec ns)) (objName (crMeta ns))"

definition slash_name :: "string \<Rightarrow> string \<Rightarrow> string" where
  "slash_name a b = a @ ''/'' @ b"

definition crosses_error :: "PolarisNamespace \<Rightarrow> PolarisNamespace \<Rightarrow> goerr" where
  "crosses_error ns parent =
     ErrNew (''namespace '' @ slash_name (objNamespace (crMeta ns)) (objName (crMeta ns)) @
       '' references catalog '' @
       slash_name (nnNamespace (ns_catalog_key ns)) (nnName (ns_catalog_key ns)) @
       '' but parent '' @ slash_name (objNamespace (crMeta parent)) (objName (crMeta parent)) @
       '' references catalog '' @
       slash_name (nnNamespace (ns_catalog_key parent)) (nnName (ns_catalog_key parent)) @
       '' '' @ em_dash @ '' chain crosses catalogs'')"

text \<open>
  The loop of \<open>resolveNamespacePath\<close>; the number is \<open>maxDepth - i\<close>, so that the loop is a
  structural recursion.
\<close>

fun walk_parents ::
  "env \<Rightarrow> PolarisNamespace \<Rightarrow> nat \<Rightarrow> PolarisNamespace \<Rightarrow> string list \<Rightarrow> (goerr + string list) io"
  where
  "walk_parents E ns n cur path =
     (case nsParentRef (crSpec cur) of
        None \<Rightarrow> State_Monad.return (Inr path)
      | Some ref \<Rightarrow>
        (case n of
           0 \<Rightarrow> State_Monad.return (Inl (ErrNew (''namespace parentRef chain exceeds '' @
                  show_nat maxDepth @ '' levels (cycle?)'')))
         | Suc m \<Rightarrow> do {
             let parentKey = ref_key ref (objNamespace (crMeta cur));
             r \<leftarrow> kget (get_PolarisNamespace E) ONamespace parentKey;
             case r of
               Inl err \<Rightarrow> State_Monad.return
                 (Inl (ErrWrap (''walk parentRef '' @ key_String E parentKey @ '': '') err))
             | Inr parent \<Rightarrow>
                 if nnName (ns_catalog_key parent) \<noteq> nnName (ns_catalog_key ns) \<or>
                    nnNamespace (ns_catalog_key parent) \<noteq> nnNamespace (ns_catalog_key ns)
                 then State_Monad.return (Inl (crosses_error ns parent))
                 else walk_parents E ns m parent (ns_segment parent # path)
           }))"

declare walk_parents.simps [simp del]

definition resolveNamespacePath ::
  "env \<Rightarrow> PolarisNamespace \<Rightarrow> (goerr + string list \<times> PolarisCatalog) io" where
  "resolveNamespacePath E ns = do {
     r \<leftarrow> walk_parents E ns maxDepth ns [ns_segment ns];
     case r of
       Inl err \<Rightarrow> State_Monad.return (Inl err)
     | Inr path \<Rightarrow> do {
         c \<leftarrow> kget (get_PolarisCatalog E) OCatalog (ns_catalog_key ns);
         State_Monad.return (case c of
             Inl err \<Rightarrow> Inl (ErrWrap (''resolve root catalog '' @
               slash_name (nnNamespace (ns_catalog_key ns)) (nnName (ns_catalog_key ns)) @ '': '') err)
           | Inr catalog \<Rightarrow> Inr (path, catalog))
       }
   }"

section \<open>Waiting for a parent\<close>

definition dependencyMessage :: "string \<Rightarrow> string" where
  "dependencyMessage dep = ''waiting for '' @ dep @ '' to be ready''"

definition waitForDependency ::
  "env \<Rightarrow> (('sp, 'a status_base_scheme) cr \<Rightarrow> obj) \<Rightarrow> ('sp, 'a status_base_scheme) cr \<Rightarrow> string \<Rightarrow>
   outcome io" where
  "waitForDependency E mk x dep =
     (let conds = conditions (crStatus x);
          gen = objGeneration (crMeta x);
          msg = dependencyMessage dep in
      if (case FindStatusCondition E conds ConditionReady of
            None \<Rightarrow> True
          | Some cur \<Rightarrow> condStatus cur \<noteq> ConditionFalse \<or>
              condReason cur \<noteq> ReasonDependencyNotReady \<or>
              condMessage cur \<noteq> msg \<or> condObservedGeneration cur \<noteq> gen)
      then do {
        err \<leftarrow> Status_Update E (mk (setConds (setNotReady E conds gen ReasonDependencyNotReady msg) x));
        State_Monad.return (case err of
            Some e \<Rightarrow> Returns noResult (Some e)
          | None \<Rightarrow> Returns requeueLater None)
      }
      else State_Monad.return (Returns requeueLater None))"

section \<open>Finalizers\<close>

text \<open>The Boolean result is Go's: whether the object was changed and persisted.\<close>

definition ensureFinalizer ::
  "env \<Rightarrow> (('sp, 'st) cr \<Rightarrow> obj) \<Rightarrow> ('sp, 'st) cr \<Rightarrow> (goerr + bool) io" where
  "ensureFinalizer E mk x =
     (if ContainsFinalizer E (crMeta x) PolarisFinalizer then State_Monad.return (Inr False)
      else do {
        err \<leftarrow> Update E (mk (x\<lparr>crMeta := AddFinalizer E (crMeta x) PolarisFinalizer\<rparr>));
        State_Monad.return (case err of
            Some e \<Rightarrow> Inl (ErrWrap ''add finalizer: '' e)
          | None \<Rightarrow> Inr True)
      })"

definition removeFinalizer ::
  "env \<Rightarrow> (('sp, 'st) cr \<Rightarrow> obj) \<Rightarrow> ('sp, 'st) cr \<Rightarrow> goerr option io" where
  "removeFinalizer E mk x =
     (if \<not> ContainsFinalizer E (crMeta x) PolarisFinalizer then State_Monad.return None
      else do {
        err \<leftarrow> Update E (mk (x\<lparr>crMeta := RemoveFinalizer E (crMeta x) PolarisFinalizer\<rparr>));
        State_Monad.return (opt_err (ErrWrap ''remove finalizer: '') err)
      })"

section \<open>The blocks repeated in every reconciler\<close>

text \<open>
  The failure block: not ready for \<open>reason\<close> with the text of \<open>err\<close>, observed generation up to
  date, status written (an error of that write is only logged), \<open>ret\<close> returned.
\<close>

definition failStatus ::
  "env \<Rightarrow> (('sp, 'a status_base_scheme) cr \<Rightarrow> obj) \<Rightarrow> ('sp, 'a status_base_scheme) cr \<Rightarrow> string \<Rightarrow>
   goerr \<Rightarrow> goerr \<Rightarrow> outcome io" where
  "failStatus E mk x reason err ret =
     (let gen = objGeneration (crMeta x) in do {
        _ \<leftarrow> Status_Update E (mk (setObserved gen
               (setConds (setNotReady E (conditions (crStatus x)) gen reason (Error err)) x)));
        State_Monad.return (Returns noResult (Some ret))
      })"

definition resolveFail ::
  "env \<Rightarrow> (('sp, 'a status_base_scheme) cr \<Rightarrow> obj) \<Rightarrow> ('sp, 'a status_base_scheme) cr \<Rightarrow> bool \<Rightarrow>
   string \<Rightarrow> goerr \<Rightarrow> outcome io" where
  "resolveFail E mk x deleting reason err =
     (if deleting then do {
        e \<leftarrow> removeFinalizer E mk x;
        State_Monad.return (Returns noResult e)
      }
      else failStatus E mk x reason err err)"

text \<open>The end of a successful pass: observed generation, Synced, Ready, one status write.\<close>

definition finish ::
  "env \<Rightarrow> (('sp, 'a status_base_scheme) cr \<Rightarrow> obj) \<Rightarrow> ('sp, 'a status_base_scheme) cr \<Rightarrow> string \<Rightarrow>
   string \<Rightarrow> outcome io" where
  "finish E mk x syncedMsg readyMsg =
     (let gen = objGeneration (crMeta x);
          conds = setReady E (setSynced E (conditions (crStatus x)) gen syncedMsg) gen readyMsg in do {
        err \<leftarrow> Status_Update E (mk (setConds conds (setObserved gen x)));
        State_Monad.return (Returns noResult err)
      })"

text \<open>
  A failed \<open>r.Get\<close> of the object itself; a finalizer step and what follows it; the end of a
  deletion.
\<close>

definition getFail :: "env \<Rightarrow> goerr \<Rightarrow> outcome" where
  "getFail E err =
     (if apierrors_IsNotFound E err then Returns noResult None else Returns noResult (Some err))"

definition withFinalizer ::
  "env \<Rightarrow> (('sp, 'st) cr \<Rightarrow> obj) \<Rightarrow> ('sp, 'st) cr \<Rightarrow> outcome io \<Rightarrow> outcome io" where
  "withFinalizer E mk x next = do {
     r \<leftarrow> ensureFinalizer E mk x;
     case r of
       Inl err \<Rightarrow> State_Monad.return (Returns noResult (Some err))
     | Inr added \<Rightarrow> if added then State_Monad.return (Returns requeue None) else next
   }"

definition returning :: "goerr option io \<Rightarrow> outcome io" where
  "returning m = do { err \<leftarrow> m; State_Monad.return (Returns noResult err) }"

section \<open>Reading API responses\<close>

text \<open>
  \<open>if resp.StatusCode() >= 400 && resp.StatusCode() != ... { return &polaris.APIError{...} }\<close>
\<close>

definition api_failure :: "string \<Rightarrow> int list \<Rightarrow> int \<Rightarrow> string \<Rightarrow> goerr option" where
  "api_failure op tolerated status body =
     (if status \<ge> 400 \<and> status \<notin> set tolerated
      then Some (ErrAPI \<lparr>apiStatusCode = status, apiOp = op, apiBody = body\<rparr>)
      else None)"

definition StatusNotFound :: int where "StatusNotFound = 404"
definition StatusConflict :: int where "StatusConflict = 409"

text \<open>
  The probe of a remote resource: \<open>None\<close> is Go's \<open>found == false\<close>, \<open>Some p\<close> the pointer to
  the decoded payload, nil when the response carried none.
\<close>

definition remote_get ::
  "string \<Rightarrow> string \<Rightarrow> (goerr + 'a wrapper) io \<Rightarrow> (goerr + 'a option option) io" where
  "remote_get op what m = do {
     r \<leftarrow> m;
     State_Monad.return (case r of
         Inl err \<Rightarrow> Inl (ErrWrap (what @ '': '') err)
       | Inr resp \<Rightarrow>
           if wStatusCode resp = StatusNotFound then Inr None
           else case api_failure op [] (wStatusCode resp) (wBody resp) of
             Some err \<Rightarrow> Inl err
           | None \<Rightarrow> Inr (Some (wJSON resp)))
   }"

definition remote_change ::
  "string \<Rightarrow> string \<Rightarrow> int list \<Rightarrow> (goerr + 'a wrapper) io \<Rightarrow> goerr option io" where
  "remote_change op what tolerated m = do {
     r \<leftarrow> m;
     State_Monad.return (case r of
         Inl err \<Rightarrow> Some (ErrWrap (what @ '': '') err)
       | Inr resp \<Rightarrow> api_failure op tolerated (wStatusCode resp) (wBody resp))
   }"

definition remote_delete ::
  "env \<Rightarrow> (('sp, 'st) cr \<Rightarrow> obj) \<Rightarrow> ('sp, 'st) cr \<Rightarrow> string \<Rightarrow> string \<Rightarrow> (goerr + 'a wrapper) io \<Rightarrow>
   goerr option io" where
  "remote_delete E mk x op what m = do {
     r \<leftarrow> m;
     case r of
       Inl err \<Rightarrow> State_Monad.return (Some (ErrWrap (what @ '': '') err))
     | Inr resp \<Rightarrow>
         (case api_failure op [StatusNotFound] (wStatusCode resp) (wBody resp) of
            Some err \<Rightarrow> State_Monad.return (Some err)
          | None \<Rightarrow> removeFinalizer E mk x)
   }"

end
