(* ===== verification/Lifecycle.thy ===== *)
theory Lifecycle
  imports Controller_Helpers
begin

text \<open>
  The protocol every managed resource follows, as an abstract specification of one
  reconcile, and the rules by which a reconciler is shown to refine it.

  \<open>lifecycle E ob out evs\<close> says: a pass over the object \<open>ob\<close>, as it was read, may end with
  \<open>out\<close> after the events \<open>evs\<close>. Its rules are the ways a pass can go. The eleven reconcilers
  that manage a remote resource refine it (each in its own theory); the connection, which
  has none, does not.
\<close>

section \<open>Kinds and their parents\<close>

datatype kind =
    KConnection | KCatalog | KNamespace | KTable | KView | KPolicy | KPrincipal
  | KPrincipalRole | KCatalogRole | KPrincipalRoleBinding | KCatalogRoleBinding | KGrant

fun kind_of :: "obj \<Rightarrow> kind" where
  "kind_of (OConnection x) = KConnection"
| "kind_of (OCatalog x) = KCatalog"
| "kind_of (ONamespace x) = KNamespace"
| "kind_of (OTable x) = KTable"
| "kind_of (OView x) = KView"
| "kind_of (OPolicy x) = KPolicy"
| "kind_of (OPrincipal x) = KPrincipal"
| "kind_of (OPrincipalRole x) = KPrincipalRole"
| "kind_of (OCatalogRole x) = KCatalogRole"
| "kind_of (OPrincipalRoleBinding x) = KPrincipalRoleBinding"
| "kind_of (OCatalogRoleBinding x) = KCatalogRoleBinding"
| "kind_of (OGrant x) = KGrant"

fun same_spec :: "obj \<Rightarrow> obj \<Rightarrow> bool" where
  "same_spec (OConnection x) ob \<longleftrightarrow> (case ob of OConnection y \<Rightarrow> crSpec x = crSpec y | _ \<Rightarrow> False)"
| "same_spec (OCatalog x) ob \<longleftrightarrow> (case ob of OCatalog y \<Rightarrow> crSpec x = crSpec y | _ \<Rightarrow> False)"
| "same_spec (ONamespace x) ob \<longleftrightarrow> (case ob of ONamespace y \<Rightarrow> crSpec x = crSpec y | _ \<Rightarrow> False)"
| "same_spec (OTable x) ob \<longleftrightarrow> (case ob of OTable y \<Rightarrow> crSpec x = crSpec y | _ \<Rightarrow> False)"
| "same_spec (OView x) ob \<longleftrightarrow> (case ob of OView y \<Rightarrow> crSpec x = crSpec y | _ \<Rightarrow> False)"
| "same_spec (OPolicy x) ob \<longleftrightarrow> (case ob of OPolicy y \<Rightarrow> crSpec x = crSpec y | _ \<Rightarrow> False)"
| "same_spec (OPrincipal x) ob \<longleftrightarrow> (case ob of OPrincipal y \<Rightarrow> crSpec x = crSpec y | _ \<Rightarrow> False)"
| "same_spec (OPrincipalRole x) ob \<longleftrightarrow> (case ob of OPrincipalRole y \<Rightarrow> crSpec x = crSpec y | _ \<Rightarrow> False)"
| "same_spec (OCatalogRole x) ob \<longleftrightarrow> (case ob of OCatalogRole y \<Rightarrow> crSpec x = crSpec y | _ \<Rightarrow> False)"
| "same_spec (OPrincipalRoleBinding x) ob \<longleftrightarrow> (case ob of OPrincipalRoleBinding y \<Rightarrow> crSpec x = crSpec y | _ \<Rightarrow> False)"
| "same_spec (OCatalogRoleBinding x) ob \<longleftrightarrow> (case ob of OCatalogRoleBinding y \<Rightarrow> crSpec x = crSpec y | _ \<Rightarrow> False)"
| "same_spec (OGrant x) ob \<longleftrightarrow> (case ob of OGrant y \<Rightarrow> crSpec x = crSpec y | _ \<Rightarrow> False)"

lemma same_spec_simps [simp]:
  "same_spec ob (set_obj_conds cs ob)" "same_spec ob (set_obj_meta m ob)"
  by (cases ob; simp)+

lemma same_spec_kind: "same_spec ob ob' \<Longrightarrow> kind_of ob' = kind_of ob"
  by (cases ob; cases ob'; simp)

text \<open>The objects whose Ready condition a reconciler waits for.\<close>

fun required_parents :: "obj \<Rightarrow> (kind \<times> NamespacedName) list" where
  "required_parents (OConnection x) = []"
| "required_parents (OCatalog x) =
     [(KConnection, ref_key (catConnectionRef (crSpec x)) (objNamespace (crMeta x)))]"
| "required_parents (ONamespace x) = [(KCatalog, ns_catalog_key x)]"
| "required_parents (OTable x) =
     [(KNamespace, ref_key (tblNamespaceRef (crSpec x)) (objNamespace (crMeta x)))]"
| "required_parents (OView x) =
     [(KNamespace, ref_key (viewNamespaceRef (crSpec x)) (objNamespace (crMeta x)))]"
| "required_parents (OPolicy x) =
     [(KNamespace, ref_key (polNamespaceRef (crSpec x)) (objNamespace (crMeta x)))]"
| "required_parents (OPrincipal x) =
     [(KConnection, ref_key (ppConnectionRef (crSpec x)) (objNamespace (crMeta x)))]"
| "required_parents (OPrincipalRole x) =
     [(KConnection, ref_key (prConnectionRef (crSpec x)) (objNamespace (crMeta x)))]"
| "required_parents (OCatalogRole x) =
     [(KCatalog, ref_key (crlCatalogRef (crSpec x)) (objNamespace (crMeta x)))]"
| "required_parents (OPrincipalRoleBinding x) =
     [(KPrincipal, ref_key (prbPrincipalRef (crSpec x)) (objNamespace (crMeta x))),
      (KPrincipalRole, ref_key (prbPrincipalRoleRef (crSpec x)) (objNamespace (crMeta x)))]"
| "required_parents (OCatalogRoleBinding x) =
     [(KPrincipalRole, ref_key (crbPrincipalRoleRef (crSpec x)) (objNamespace (crMeta x))),
      (KCatalogRole, ref_key (crbCatalogRoleRef (crSpec x)) (objNamespace (crMeta x)))]"
| "required_parents (OGrant x) =
     [(KCatalogRole, ref_key (grCatalogRoleRef (crSpec x)) (objNamespace (crMeta x)))]"

fun saw_ready :: "env \<Rightarrow> kind \<Rightarrow> NamespacedName \<Rightarrow> event \<Rightarrow> bool" where
  "saw_ready E k key (EGet key' (Inr p)) \<longleftrightarrow>
     key' = key \<and> kind_of p = k \<and> parentReady E (obj_conds p)"
| "saw_ready E k key _ \<longleftrightarrow> False"

definition parents_ready :: "env \<Rightarrow> obj \<Rightarrow> event list \<Rightarrow> bool" where
  "parents_ready E ob evs \<longleftrightarrow>
     list_all (\<lambda>(k, key). list_ex (saw_ready E k key) evs) (required_parents ob)"

text \<open>The state in which a reconciler may touch the Polaris server.\<close>

definition may_act :: "env \<Rightarrow> obj \<Rightarrow> event list \<Rightarrow> bool" where
  "may_act E ob evs \<longleftrightarrow>
     ContainsFinalizer E (obj_meta ob) PolarisFinalizer \<and> parents_ready E ob evs"

section \<open>Remote calls\<close>

definition tolerated :: "int list \<Rightarrow> rawresp \<Rightarrow> bool" where
  "tolerated codes raw \<longleftrightarrow> rrStatus raw < 400 \<or> rrStatus raw \<in> set codes"

text \<open>At most the request \<open>rq\<close> went out.\<close>

definition sent :: "request \<Rightarrow> effect list \<Rightarrow> bool" where
  "sent rq es \<longleftrightarrow> es = [] \<or> (\<exists>ans. es = [Api rq ans])"

fun attempt :: "effect \<Rightarrow> bool" where
  "attempt (Api rq ans) \<longleftrightarrow> op_class (rqOp rq) \<noteq> Remove"
| "attempt (SecretWrite k r) \<longleftrightarrow> True"
| "attempt _ \<longleftrightarrow> False"

definition attempts :: "effect list \<Rightarrow> bool" where
  "attempts es \<longleftrightarrow> list_all attempt es \<and> length es \<le> 4"

text \<open>Accepted changes only.\<close>

fun change_ok :: "effect \<Rightarrow> bool" where
  "change_ok (Api rq (Inr raw)) \<longleftrightarrow> op_class (rqOp rq) = Modify \<and> tolerated [] raw"
| "change_ok (SecretWrite k (Inr s)) \<longleftrightarrow> True"
| "change_ok _ \<longleftrightarrow> False"

definition created :: "effect list \<Rightarrow> bool" where
  "created es \<longleftrightarrow>
     (case es of
        Api rq (Inr raw) # es' \<Rightarrow>
          op_class (rqOp rq) = Create \<and> tolerated [StatusConflict] raw \<and> list_all change_ok es'
      | _ \<Rightarrow> False)"

text \<open>
  The requests of a pass that brings the remote side in line: one idempotent assignment; or
  a probe that finds nothing and a creation (a conflict counts: somebody else created it); or
  a probe that finds the resource and the changes it needs, all of them accepted.
\<close>

fun sync_run :: "effect list \<Rightarrow> bool" where
  "sync_run (Api rq (Inr raw) # es) \<longleftrightarrow>
     (case op_class (rqOp rq) of
        Assign \<Rightarrow> tolerated [StatusConflict] raw \<and> es = []
      | Probe \<Rightarrow>
          if rrStatus raw = StatusNotFound then created es
          else tolerated [] raw \<and> list_all change_ok es
      | _ \<Rightarrow> False)"
| "sync_run _ \<longleftrightarrow> False"

section \<open>The protocol\<close>

definition finalizer_dropped :: "env \<Rightarrow> obj \<Rightarrow> goerr option \<Rightarrow> effect list \<Rightarrow> bool" where
  "finalizer_dropped E ob err es \<longleftrightarrow>
     (if ContainsFinalizer E (obj_meta ob) PolarisFinalizer
      then \<exists>e. es = [Upd (set_obj_meta (RemoveFinalizer E (obj_meta ob) PolarisFinalizer) ob) e] \<and>
             err = opt_err (ErrWrap ''remove finalizer: '') e
      else es = [] \<and> err = None)"

text \<open>One probe that was answered with success.\<close>

fun probe_answered :: "effect list \<Rightarrow> bool" where
  "probe_answered [Api rq (Inr raw)] \<longleftrightarrow> op_class (rqOp rq) = Probe \<and> tolerated [] raw"
| "probe_answered _ \<longleftrightarrow> False"

text \<open>The kinds whose reconciler follows a pointer of the probe's answer without a test.\<close>

definition trusts_answer :: "kind \<Rightarrow> bool" where
  "trusts_answer k \<longleftrightarrow> k \<in> {KCatalog, KPrincipal, KPrincipalRole, KCatalogRole, KPolicy}"

definition gen_of :: "obj \<Rightarrow> int" where "gen_of ob = objGeneration (obj_meta ob)"

definition waiting_condition :: "env \<Rightarrow> obj \<Rightarrow> bool" where
  "waiting_condition E ob \<longleftrightarrow>
     (case FindStatusCondition E (obj_conds ob) ConditionReady of
        None \<Rightarrow> False
      | Some c \<Rightarrow> condStatus c = ConditionFalse \<and> condReason c = ReasonDependencyNotReady \<and>
          condObservedGeneration c = gen_of ob)"

text \<open>
  In the rules, \<open>butlast (effects evs)\<close> and \<open>last (effects evs)\<close> are the remote calls and the
  one status write that ends the pass.
\<close>

inductive lifecycle :: "env \<Rightarrow> obj \<Rightarrow> outcome \<Rightarrow> event list \<Rightarrow> bool" for E ob where
  unreachable:
    "isDeleting (obj_meta ob) \<Longrightarrow> finalizer_dropped E ob err (effects evs) \<Longrightarrow>
     lifecycle E ob (Returns noResult err) evs"
| removed:
    "isDeleting (obj_meta ob) \<Longrightarrow> effects evs = Api rq (Inr raw) # es \<Longrightarrow>
     op_class (rqOp rq) = Remove \<Longrightarrow> tolerated [StatusNotFound] raw \<Longrightarrow>
     finalizer_dropped E ob err es \<Longrightarrow>
     lifecycle E ob (Returns noResult err) evs"
| remove_failed:
    "isDeleting (obj_meta ob) \<Longrightarrow>
     sent rq (effects evs) \<Longrightarrow> op_class (rqOp rq) = Remove \<Longrightarrow>
     lifecycle E ob (Returns noResult (Some e)) evs"
| still_waiting:
    "\<not> isDeleting (obj_meta ob) \<Longrightarrow> attempts (effects evs) \<Longrightarrow>
     (effects evs \<noteq> [] \<longrightarrow> may_act E ob evs) \<Longrightarrow> waiting_condition E ob \<Longrightarrow>
     lifecycle E ob (Returns requeueLater None) evs"
| waiting:
    "\<not> isDeleting (obj_meta ob) \<Longrightarrow> effects evs \<noteq> [] \<Longrightarrow> last (effects evs) = Stat ob' err \<Longrightarrow>
     attempts (butlast (effects evs)) \<Longrightarrow>
     (butlast (effects evs) \<noteq> [] \<longrightarrow> may_act E ob evs) \<Longrightarrow>
     ob' = set_obj_conds
       (setNotReady E (obj_conds ob) (gen_of ob) ReasonDependencyNotReady msg) ob \<Longrightarrow>
     out = (case err of None \<Rightarrow> Returns requeueLater None | Some e \<Rightarrow> Returns noResult (Some e)) \<Longrightarrow>
     lifecycle E ob out evs"
| finalizer_added:
    "\<not> isDeleting (obj_meta ob) \<Longrightarrow> \<not> ContainsFinalizer E (obj_meta ob) PolarisFinalizer \<Longrightarrow>
     effects evs = [Upd (set_obj_meta (AddFinalizer E (obj_meta ob) PolarisFinalizer) ob) err] \<Longrightarrow>
     out = (case err of None \<Rightarrow> Returns requeue None
            | Some e \<Rightarrow> Returns noResult (Some (ErrWrap ''add finalizer: '' e))) \<Longrightarrow>
     lifecycle E ob out evs"
| failed:
    "\<not> isDeleting (obj_meta ob) \<Longrightarrow> effects evs \<noteq> [] \<Longrightarrow> last (effects evs) = Stat ob' err \<Longrightarrow>
     attempts (butlast (effects evs)) \<Longrightarrow>
     (butlast (effects evs) \<noteq> [] \<longrightarrow> may_act E ob evs) \<Longrightarrow>
     obj_meta ob' = obj_meta ob \<Longrightarrow> same_spec ob ob' \<Longrightarrow> has_suffix (Error e) msg \<Longrightarrow>
     obj_conds ob' = setNotReady E cs (gen_of ob) reason msg \<Longrightarrow>
     obj_observed ob' = gen_of ob \<or> kind_of ob = KPrincipal \<and> obj_observed ob' = obj_observed ob \<Longrightarrow>
     lifecycle E ob (Returns noResult (Some e)) evs"
| secret_unwritten:
    "\<not> isDeleting (obj_meta ob) \<Longrightarrow> effects evs \<noteq> [] \<Longrightarrow> last (effects evs) = Stat ob' err \<Longrightarrow>
     attempts (butlast (effects evs)) \<Longrightarrow> may_act E ob evs \<Longrightarrow> kind_of ob = KPrincipal \<Longrightarrow>
     obj_meta ob' = obj_meta ob \<Longrightarrow> same_spec ob ob' \<Longrightarrow> has_suffix (Error e) msg \<Longrightarrow>
     obj_conds ob' = setCondition E (obj_conds ob) ConditionCredentialsWritten ConditionFalse
       (gen_of ob) ReasonSyncFailed msg \<Longrightarrow>
     obj_observed ob' = obj_observed ob \<Longrightarrow>
     lifecycle E ob (Returns noResult (Some e)) evs"
| synced:
    "\<not> isDeleting (obj_meta ob) \<Longrightarrow> effects evs \<noteq> [] \<Longrightarrow> last (effects evs) = Stat ob' err \<Longrightarrow>
     attempts (butlast (effects evs)) \<Longrightarrow> sync_run (butlast (effects evs)) \<Longrightarrow>
     may_act E ob evs \<Longrightarrow> obj_meta ob' = obj_meta ob \<Longrightarrow> same_spec ob ob' \<Longrightarrow>
     obj_conds ob' = setReady E (setSynced E cs (gen_of ob) msg) (gen_of ob) msg' \<Longrightarrow>
     obj_observed ob' = gen_of ob \<Longrightarrow>
     lifecycle E ob (Returns noResult err) evs"
| crashed:
    "\<not> isDeleting (obj_meta ob) \<Longrightarrow> probe_answered (effects evs) \<Longrightarrow> may_act E ob evs \<Longrightarrow>
     trusts_answer (kind_of ob) \<Longrightarrow> lifecycle E ob Panics evs"

section \<open>Runs with a past\<close>

text \<open>\<open>after pre m L\<close>: \<open>m\<close> run after the events \<open>pre\<close> ends in \<open>L\<close> of all events.\<close>

definition after :: "event list \<Rightarrow> 'a io \<Rightarrow> ('a \<Rightarrow> event list \<Rightarrow> bool) \<Rightarrow> bool" where
  "after pre m L \<longleftrightarrow> valid m (\<lambda>x evs. L x (pre @ evs))"

lemma valid_after: "after [] m L \<Longrightarrow> valid m L"
  by (simp add: after_def)

named_theorems step \<open>rules for after, applied backwards\<close>

lemma after_return [step]: "L x pre \<Longrightarrow> after pre (State_Monad.return x) L"
  by (simp add: after_def valid_return)

lemma after_bind [step]:
  "valid m (\<lambda>x evs. after (pre @ evs) (f x) L) \<Longrightarrow> after pre (State_Monad.bind m f) L"
  unfolding after_def by (rule valid_bind) simp

lemma after_if [step]:
  "(b \<Longrightarrow> after pre m L) \<Longrightarrow> (\<not> b \<Longrightarrow> after pre n L) \<Longrightarrow> after pre (if b then m else n) L"
  by simp

lemma after_case_sum [step]:
  "(\<And>e. x = Inl e \<Longrightarrow> after pre (f e) L) \<Longrightarrow> (\<And>a. x = Inr a \<Longrightarrow> after pre (g a) L) \<Longrightarrow>
   after pre (case x of Inl e \<Rightarrow> f e | Inr a \<Rightarrow> g a) L"
  by (cases x) auto

lemma after_case_option [step]:
  "(x = None \<Longrightarrow> after pre m L) \<Longrightarrow> (\<And>a. x = Some a \<Longrightarrow> after pre (g a) L) \<Longrightarrow>
   after pre (case x of None \<Rightarrow> m | Some a \<Rightarrow> g a) L"
  by (cases x) auto

lemma after_case_prod [step]:
  "(\<And>a b. x = (a, b) \<Longrightarrow> after pre (g a b) L) \<Longrightarrow> after pre (case x of (a, b) \<Rightarrow> g a b) L"
  by (cases x) auto

lemma after_Let [step]: "after pre (f x) L \<Longrightarrow> after pre (let y = x in f y) L"
  by simp

text \<open>
  A case distinction on a value already known has one branch. These rules come before the
  general ones, so that no proof walks through the branches that cannot be taken.
\<close>

named_theorems known \<open>rules for case distinctions on known values\<close>

lemma after_case_known [known]:
  "after pre (f e) L \<Longrightarrow> after pre (case Inl e of Inl e \<Rightarrow> f e | Inr a \<Rightarrow> g a) L"
  "after pre (g' a) L \<Longrightarrow> after pre (case Inr a of Inl e \<Rightarrow> f' e | Inr a \<Rightarrow> g' a) L"
  "after pre m L' \<Longrightarrow> after pre (case None of None \<Rightarrow> m | Some a \<Rightarrow> h a) L'"
  "after pre (h' b) L' \<Longrightarrow> after pre (case Some b of None \<Rightarrow> m' | Some a \<Rightarrow> h' a) L'"
  "after pre (k c d) L' \<Longrightarrow> after pre (case (c, d) of (a, b) \<Rightarrow> k a b) L'"
  by simp_all

lemma valid_case_known [known]:
  "valid (f e) L \<Longrightarrow> valid (case Inl e of Inl e \<Rightarrow> f e | Inr a \<Rightarrow> g a) L"
  "valid (g' a) L \<Longrightarrow> valid (case Inr a of Inl e \<Rightarrow> f' e | Inr a \<Rightarrow> g' a) L"
  "valid m L' \<Longrightarrow> valid (case None of None \<Rightarrow> m | Some a \<Rightarrow> h a) L'"
  "valid (h' b) L' \<Longrightarrow> valid (case Some b of None \<Rightarrow> m' | Some a \<Rightarrow> h' a) L'"
  "valid (k c d) L' \<Longrightarrow> valid (case (c, d) of (a, b) \<Rightarrow> k a b) L'"
  by simp_all

section \<open>Reads\<close>

lemma valid_kget_cases:
  "(\<And>e. P (Inl e) [EGet key (Inl e)]) \<Longrightarrow> (\<And>x. P (Inr x) [EGet key (Inr (mk x))]) \<Longrightarrow>
   valid (kget get mk key) P"
  by (rule valid_kget) (auto split: sum.split simp: map_sum_def)

lemma valid_resolve:
  assumes "\<And>e e'. P (Inl e) [EGet (ref_key ref ns) (Inl e')]"
    and "\<And>x. P (Inr x) [EGet (ref_key ref ns) (Inr (mk x))]"
  shows "valid (resolve E get mk what ref ns) P"
  unfolding resolve_def by (intro vc valid_kget_cases) (auto intro: vc assms)

lemma valid_getters [step]:
  "(\<And>e e'. P1 (Inl e) [EGet (ref_key ref ns) (Inl e')]) \<Longrightarrow>
   (\<And>x. P1 (Inr x) [EGet (ref_key ref ns) (Inr (OConnection x))]) \<Longrightarrow>
   valid (getConnection E ref ns) P1"
  "(\<And>e e'. P2 (Inl e) [EGet (ref_key ref ns) (Inl e')]) \<Longrightarrow>
   (\<And>x. P2 (Inr x) [EGet (ref_key ref ns) (Inr (OCatalog x))]) \<Longrightarrow>
   valid (getCatalog E ref ns) P2"
  "(\<And>e e'. P3 (Inl e) [EGet (ref_key ref ns) (Inl e')]) \<Longrightarrow>
   (\<And>x. P3 (Inr x) [EGet (ref_key ref ns) (Inr (ONamespace x))]) \<Longrightarrow>
   valid (getNamespace E ref ns) P3"
  "(\<And>e e'. P4 (Inl e) [EGet (ref_key ref ns) (Inl e')]) \<Longrightarrow>
   (\<And>x. P4 (Inr x) [EGet (ref_key ref ns) (Inr (OPrincipal x))]) \<Longrightarrow>
   valid (getPrincipal E ref ns) P4"
  "(\<And>e e'. P5 (Inl e) [EGet (ref_key ref ns) (Inl e')]) \<Longrightarrow>
   (\<And>x. P5 (Inr x) [EGet (ref_key ref ns) (Inr (OPrincipalRole x))]) \<Longrightarrow>
   valid (getPrincipalRole E ref ns) P5"
  "(\<And>e e'. P6 (Inl e) [EGet (ref_key ref ns) (Inl e')]) \<Longrightarrow>
   (\<And>x. P6 (Inr x) [EGet (ref_key ref ns) (Inr (OCatalogRole x))]) \<Longrightarrow>
   valid (getCatalogRole E ref ns) P6"
  by (simp_all add: getConnection_def getCatalog_def getNamespace_def getPrincipal_def
      getPrincipalRole_def getCatalogRole_def valid_resolve)

lemma quiet_walk_parents: "quiet (walk_parents E ns n cur path)"
proof (induction E ns n cur path rule: walk_parents.induct)
  case (1 E ns n cur path)
  show ?case
    unfolding quiet_def
    by (subst walk_parents.simps)
      (auto intro!: vc valid_kget_cases valid_quiet [OF 1] split: nat.splits option.splits)
qed

lemma valid_resolveNamespacePath [step]:
  assumes "\<And>e evs. effects evs = [] \<Longrightarrow> P (Inl e) evs"
    and "\<And>path cat evs. effects evs = [] \<Longrightarrow>
      P (Inr (path, cat)) (evs @ [EGet (ns_catalog_key ns) (Inr (OCatalog cat))])"
  shows "valid (resolveNamespacePath E ns) P"
  unfolding resolveNamespacePath_def
  by (intro vc valid_quiet [OF quiet_walk_parents] valid_kget_cases) (auto intro!: vc assms)

lemma quiet_buildPolarisClient: "quiet (buildPolarisClient E conn)"
  unfolding quiet_def buildPolarisClient_def Let_def
  by (auto intro!: vc valid_quiet [OF quiet_NewClient])

text \<open>An injected client builder may read what it wants, but must not act.\<close>

definition quiet_builder :: "reconciler \<Rightarrow> bool" where
  "quiet_builder r \<longleftrightarrow>
     (case BuildPolarisClient r of None \<Rightarrow> True | Some f \<Rightarrow> \<forall>conn. quiet (f conn))"

lemma valid_builder:
  "quiet_builder r \<Longrightarrow> (\<And>e evs. effects evs = [] \<Longrightarrow> P (Inl e) evs) \<Longrightarrow>
   (\<And>pc evs. effects evs = [] \<Longrightarrow> P (Inr pc) evs) \<Longrightarrow> valid (builder E r conn) P"
  unfolding builder_def quiet_builder_def
  by (rule valid_quiet) (auto simp: quiet_buildPolarisClient split: option.splits intro: sum.induct)

section \<open>Remote calls\<close>

lemma sum_bind_Inr [simp]: "sum_bind x Inr = x"
  by (cases x) simp_all

lemma api_failure_simps [simp]:
  "api_failure op tol s b = None \<longleftrightarrow> s < 400 \<or> s \<in> set tol"
  "api_failure op tol s b = Some e \<longleftrightarrow> s \<ge> 400 \<and> s \<notin> set tol \<and>
     e = ErrAPI \<lparr>apiStatusCode = s, apiOp = op, apiBody = b\<rparr>"
  by (auto simp: api_failure_def)

lemma valid_call_parse:
  assumes "\<And>e evs. sent rq (effects evs) \<Longrightarrow> P (Inl e) evs"
    and "\<And>w raw evs. effects evs = [Api rq (Inr raw)] \<Longrightarrow> wStatusCode w = rrStatus raw \<Longrightarrow>
      P (Inr w) evs"
  shows "valid (call E pc pl rq (parse_wrapper cases)) P"
proof (rule valid_call)
  fix ans evs
  assume e: "effects evs = [Api rq ans]"
  show "P (sum_bind ans (parse_wrapper cases)) evs"
  proof (cases "sum_bind ans (parse_wrapper cases)")
    case (Inl a)
    then show ?thesis using assms(1) e by (simp add: sent_def)
  next
    case (Inr w)
    then obtain raw where "ans = Inr raw" "parse_wrapper cases raw = Inr w"
      by (cases ans) auto
    then show ?thesis using assms(2) e Inr parse_wrapper_status by metis
  qed
qed (simp add: assms(1) sent_def)

lemma valid_remote_get:
  assumes "\<And>e evs. sent rq (effects evs) \<Longrightarrow> P (Inl e) evs"
    and "\<And>raw evs. effects evs = [Api rq (Inr raw)] \<Longrightarrow> rrStatus raw = StatusNotFound \<Longrightarrow>
      P (Inr None) evs"
    and "\<And>raw evs p. effects evs = [Api rq (Inr raw)] \<Longrightarrow> rrStatus raw < 400 \<Longrightarrow>
      P (Inr (Some p)) evs"
  shows "valid (remote_get op what (call E pc pl rq (parse_wrapper cases))) P"
  unfolding remote_get_def
  by (intro vc valid_call_parse)
    (auto split: sum.split option.split intro: assms simp: sent_def StatusNotFound_def)

lemma valid_remote_change:
  assumes "\<And>e evs. sent rq (effects evs) \<Longrightarrow> P (Some e) evs"
    and "\<And>raw evs. effects evs = [Api rq (Inr raw)] \<Longrightarrow> tolerated tol raw \<Longrightarrow> P None evs"
  shows "valid (remote_change op what tol (call E pc pl rq (parse_wrapper cases))) P"
  unfolding remote_change_def
  apply (intro vc valid_call_parse)
  subgoal by (simp add: assms(1))
  subgoal for w raw evs
    using assms by (cases "tolerated tol raw") (auto simp: tolerated_def sent_def api_failure_def)
  done

lemma saw_append [simp]:
  "parents_ready E ob pre \<Longrightarrow> parents_ready E ob (pre @ evs)"
  "may_act E ob pre \<Longrightarrow> may_act E ob (pre @ evs)"
  by (auto simp: parents_ready_def may_act_def list_all_iff)

text \<open>The text of an error ends with that of the error it wraps.\<close>

definition mentions :: "goerr \<Rightarrow> goerr \<Rightarrow> bool" where
  "mentions e e' \<longleftrightarrow> has_suffix (Error e) (Error e')"

lemma mentions_simps [simp]: "mentions e e" "mentions (ErrWrap p e) e"
  by (simp_all add: mentions_def)

section \<open>The interface of the kinds\<close>

text \<open>
  What the helpers use of a \<open>client.Object\<close>: the metadata, conditions and observed
  generation seen through the interface are those of the typed resource, and a write of
  metadata through it is a write to the resource. Each lemma takes a block of reconciler
  code to the rule of the protocol it follows.
\<close>

locale resource_kind =
  fixes mk :: "('sp, 'a status_base_scheme) cr \<Rightarrow> obj"
  assumes mk_meta: "obj_meta (mk x) = crMeta x"
    and mk_conds: "obj_conds (mk x) = conditions (crStatus x)"
    and mk_observed: "obj_observed (mk x) = observedGeneration (crStatus x)"
    and mk_set_meta: "set_obj_meta m (mk x) = mk (x\<lparr>crMeta := m\<rparr>)"
    and mk_set_conds: "set_obj_conds cs (mk x) = mk (setConds cs x)"
    and mk_same_spec: "same_spec (mk x) (mk y) \<longleftrightarrow> crSpec x = crSpec y"
begin

lemmas mk_simps = mk_meta mk_conds mk_observed mk_set_meta mk_set_conds mk_same_spec

lemma valid_removeFinalizer:
  "(\<And>err evs. finalizer_dropped E (mk x) err (effects evs) \<Longrightarrow> P err evs) \<Longrightarrow>
   valid (removeFinalizer E mk x) P"
  unfolding removeFinalizer_def by (intro vc) (auto simp: finalizer_dropped_def mk_simps)

lemma after_failStatus:
  assumes "\<not> isDeleting (crMeta x0)" "attempts (effects pre)"
    "effects pre \<noteq> [] \<Longrightarrow> may_act E (mk x0) pre" "crMeta x = crMeta x0" "crSpec x = crSpec x0"
    "mentions ret err"
  shows "after pre (failStatus E mk x reason err ret) (lifecycle E (mk x0))"
  unfolding failStatus_def Let_def using assms
  by (intro step vc) (auto intro!: lifecycle.failed simp: mk_simps gen_of_def butlast_append mentions_def)

lemma after_resolveFail:
  assumes "effects pre = []" "deleting = isDeleting (crMeta x)"
  shows "after pre (resolveFail E mk x deleting reason err) (lifecycle E (mk x))"
  unfolding resolveFail_def using assms
  by (intro step valid_removeFinalizer after_failStatus)
    (auto intro!: lifecycle.unreachable simp: mk_simps attempts_def)

lemma after_wait:
  assumes "\<not> isDeleting (crMeta x)" "attempts (effects pre)"
    "effects pre \<noteq> [] \<Longrightarrow> may_act E (mk x) pre"
  shows "after pre (waitForDependency E mk x dep) (lifecycle E (mk x))"
  unfolding waitForDependency_def Let_def
proof (intro step vc, goal_cases)
  case (1 err)
  show ?case
    by (rule lifecycle.waiting [where err = err and msg = "dependencyMessage dep"])
      (use assms in \<open>auto simp: mk_simps gen_of_def butlast_append split: option.splits\<close>)
next
  case 2
  then show ?case
    using assms
    by (auto intro!: lifecycle.still_waiting simp: waiting_condition_def mk_simps gen_of_def
        split: option.splits)
qed

lemma after_withFinalizer:
  assumes "\<not> isDeleting (crMeta x)" "effects pre = []" "parents_ready E (mk x) pre"
    and next_ok: "\<And>pre'. effects pre' = [] \<Longrightarrow> may_act E (mk x) pre' \<Longrightarrow>
      after pre' next (lifecycle E (mk x))"
  shows "after pre (withFinalizer E mk x next) (lifecycle E (mk x))"
proof (cases "ContainsFinalizer E (crMeta x) PolarisFinalizer")
  case True
  then have "after pre next (lifecycle E (mk x))"
    using next_ok assms(2,3) by (simp add: may_act_def mk_meta)
  then show ?thesis using True
    by (simp add: withFinalizer_def ensureFinalizer_def after_def valid_def)
next
  case False
  then show ?thesis
    unfolding withFinalizer_def ensureFinalizer_def using assms(1,2)
    by (auto intro!: step vc lifecycle.finalizer_added simp: mk_simps split: option.splits)
qed

lemma after_finish:
  assumes "\<not> isDeleting (crMeta x0)" "attempts (effects pre)" "sync_run (effects pre)"
    "may_act E (mk x0) pre" "crMeta x = crMeta x0" "crSpec x = crSpec x0"
  shows "after pre (finish E mk x m1 m2) (lifecycle E (mk x0))"
  unfolding finish_def Let_def using assms
  by (intro step vc) (auto intro!: lifecycle.synced simp: mk_simps gen_of_def butlast_append)

lemma after_remote_delete:
  assumes "isDeleting (crMeta x)" "effects pre = []" "op_class (rqOp rq) = Remove"
  shows "after pre (returning (remote_delete E mk x op what
    (call E pc pl rq (parse_wrapper cases)))) (lifecycle E (mk x))"
  unfolding returning_def remote_delete_def
proof (intro step vc valid_call_parse valid_removeFinalizer, goal_cases)
  case 1
  then show ?case using assms by (auto simp: mk_simps intro!: lifecycle.remove_failed [of _ rq])
next
  case 5
  then show ?case using assms
    by (auto simp: mk_simps tolerated_def intro!: lifecycle.removed)
next
  case 6
  then show ?case using assms
    by (auto simp: mk_simps sent_def intro!: lifecycle.remove_failed [of _ rq])
qed simp_all

end

interpretation connection_kind: resource_kind OConnection by unfold_locales simp_all
interpretation catalog_kind: resource_kind OCatalog by unfold_locales simp_all
interpretation namespace_kind: resource_kind ONamespace by unfold_locales simp_all
interpretation table_kind: resource_kind OTable by unfold_locales simp_all
interpretation view_kind: resource_kind OView by unfold_locales simp_all
interpretation policy_kind: resource_kind OPolicy by unfold_locales simp_all
interpretation principal_kind: resource_kind OPrincipal by unfold_locales simp_all
interpretation principal_role_kind: resource_kind OPrincipalRole by unfold_locales simp_all
interpretation catalog_role_kind: resource_kind OCatalogRole by unfold_locales simp_all
interpretation principal_role_binding_kind: resource_kind OPrincipalRoleBinding
  by unfold_locales simp_all
interpretation catalog_role_binding_kind: resource_kind OCatalogRoleBinding
  by unfold_locales simp_all
interpretation grant_kind: resource_kind OGrant by unfold_locales simp_all

text \<open>The definitions that decide the side conditions of the rules above.\<close>

lemmas protocol_defs = trusts_answer_def parents_ready_def attempts_def sent_def created_def
  tolerated_def StatusNotFound_def StatusConflict_def

section \<open>Whole passes\<close>

text \<open>The head of every \<open>Reconcile\<close>: read the object, and stop when it is gone.\<close>

definition reconcile_with ::
  "env \<Rightarrow> (event list \<Rightarrow> NamespacedName \<Rightarrow> goerr + 'x) \<Rightarrow> ('x \<Rightarrow> obj) \<Rightarrow> ('x \<Rightarrow> outcome io) \<Rightarrow>
   NamespacedName \<Rightarrow> outcome io" where
  "reconcile_with E get mk body req = do {
     r \<leftarrow> kget get mk req;
     case r of
       Inl err \<Rightarrow> State_Monad.return (getFail E err)
     | Inr x \<Rightarrow> body x
   }"

text \<open>The reconcilers as \<open>cmd/main.go\<close> makes them: no injected client builder.\<close>

definition production :: reconciler where
  "production = \<lparr>BuildPolarisClient = None\<rparr>"

lemma quiet_production [simp]: "quiet_builder production"
  by (simp add: quiet_builder_def production_def)

definition pass ::
  "(obj \<Rightarrow> outcome \<Rightarrow> event list \<Rightarrow> bool) \<Rightarrow> env \<Rightarrow> kind \<Rightarrow> NamespacedName \<Rightarrow> outcome \<Rightarrow> event list \<Rightarrow> bool"
  where
  "pass L E k req out evs \<longleftrightarrow>
     (\<exists>err. evs = [EGet req (Inl err)] \<and> out = getFail E err) \<or>
     (\<exists>ob evs'. evs = EGet req (Inr ob) # evs' \<and> kind_of ob = k \<and> L ob out evs')"

lemma valid_reconcile_with:
  assumes "\<And>x. valid (body x) (L (mk x))" "\<And>x. kind_of (mk x) = k"
  shows "valid (reconcile_with E get mk body req) (pass L E k req)"
  unfolding reconcile_with_def
  by (intro vc valid_kget_cases)
    (auto simp: pass_def assms(2) intro!: vc valid_mono [OF assms(1)])

section \<open>What every managed resource guarantees\<close>

text \<open>The object a pass read, if it read one.\<close>

fun read_object :: "event list \<Rightarrow> obj option" where
  "read_object (EGet key (Inr ob) # evs) = Some ob"
| "read_object _ = None"

fun is_status_write :: "effect \<Rightarrow> bool" where
  "is_status_write (Stat ob e) \<longleftrightarrow> True"
| "is_status_write _ \<longleftrightarrow> False"

lemma attempts_mem:
  "attempts es \<Longrightarrow> x \<in> set es \<Longrightarrow> attempt x"
  by (simp add: attempts_def list_all_iff)

lemma effects_snoc:
  "es \<noteq> [] \<Longrightarrow> last es = x \<Longrightarrow> es = butlast es @ [x]"
  by (metis append_butlast_last_id)

lemma sync_run_calls: "sync_run es \<Longrightarrow> es \<noteq> []"
  by auto

text \<open>
  The three shapes of a pass over a live object, and the two of a pass over a deleted one.
\<close>

lemma probe_attempts: "probe_answered es \<Longrightarrow> attempts es"
  by (auto simp: attempts_def elim!: probe_answered.elims)

lemma lifecycle_live:
  assumes "lifecycle E ob out evs" "\<not> isDeleting (obj_meta ob)"
  obtains (update) err where "effects evs =
      [Upd (set_obj_meta (AddFinalizer E (obj_meta ob) PolarisFinalizer) ob) err]"
      "\<not> ContainsFinalizer E (obj_meta ob) PolarisFinalizer"
      "out \<noteq> Returns noResult None"
  | (status) es ob' err where "effects evs = es @ [Stat ob' err]" "attempts es"
      "es \<noteq> [] \<longrightarrow> may_act E ob evs" "obj_meta ob' = obj_meta ob"
  | (silent) "attempts (effects evs)" "effects evs \<noteq> [] \<longrightarrow> may_act E ob evs"
      "out = Panics \<or> out = Returns requeueLater None"
  using assms
proof (cases rule: lifecycle.cases)
  case (waiting ob' err msg)
  then show ?thesis using that(2) [OF effects_snoc] by auto
next
  case (finalizer_added err)
  then show ?thesis
    using that(1) [of err] by (auto simp: requeue_def noResult_def split: option.splits)
next
  case (failed ob' err)
  then show ?thesis using that(2) [OF effects_snoc] by auto
next
  case (secret_unwritten ob' err)
  then show ?thesis using that(2) [OF effects_snoc] by auto
next
  case (synced ob' err)
  then show ?thesis using that(2) [OF effects_snoc] by auto
qed (auto intro: that probe_attempts)

lemma lifecycle_deleted:
  assumes "lifecycle E ob out evs" "isDeleting (obj_meta ob)"
  obtains (dropped) err where "finalizer_dropped E ob err (effects evs)"
      "out = Returns noResult err"
  | (removed) rq raw es err where "effects evs = Api rq (Inr raw) # es"
      "op_class (rqOp rq) = Remove" "tolerated [StatusNotFound] raw"
      "finalizer_dropped E ob err es" "out = Returns noResult err"
  | (rejected) rq e where "sent rq (effects evs)" "op_class (rqOp rq) = Remove"
      "out = Returns noResult (Some e)"
  using assms by (cases rule: lifecycle.cases) (auto intro: that)

lemma parentReady_set:
  assumes "lib_ok E"
  shows "parentReady E (setReady E cs g msg)"
    and "\<not> parentReady E (setNotReady E cs g reason msg)"
    and "parentReady E (setCondition E cs ConditionCredentialsWritten st g reason msg) =
      parentReady E cs"
    and "parentReady E (setCondition E cs ConditionAuthValid st g reason msg) = parentReady E cs"
  using assms
  by (simp_all add: parentReady_def setReady_def setNotReady_def setCondition_def is_true
      find_set condition_types)

text \<open>The Ready condition, if it is true.\<close>

definition ready_cond :: "env \<Rightarrow> Condition list \<Rightarrow> Condition option" where
  "ready_cond E cs =
     (case FindStatusCondition E cs ConditionReady of
        None \<Rightarrow> None
      | Some c \<Rightarrow> if condStatus c = ConditionTrue then Some c else None)"

lemma ready_cond_iff: "lib_ok E \<Longrightarrow> parentReady E cs \<longleftrightarrow> ready_cond E cs \<noteq> None"
  by (simp add: parentReady_def ready_cond_def is_true split: option.split)

lemma ready_cond_set:
  assumes "lib_ok E"
  shows "ready_cond E (setReady E cs g msg) = Some \<lparr>condType = ConditionReady,
      condStatus = ConditionTrue, condObservedGeneration = g, condReason = ReasonReady,
      condMessage = msg\<rparr>"
    and "ready_cond E (setNotReady E cs g reason msg) = None"
    and "ready_cond E (setCondition E cs ConditionCredentialsWritten st g reason msg) =
      ready_cond E cs"
  using assms
  by (simp_all add: ready_cond_def setReady_def setNotReady_def setCondition_def find_set
      condition_types)

text \<open>
  The contract of a reconciler, and what its clients (the dispatcher in theory Manager) may
  conclude from it.
\<close>

locale managed_resource =
  fixes reconcile :: "env \<Rightarrow> NamespacedName \<Rightarrow> outcome io" and k :: kind
  assumes refines: "valid (reconcile E req) (pass (lifecycle E) E k req)"
begin

lemma pass_cases:
  obtains (unread) "effects (trace (reconcile E req) s) = []"
      "read_object (trace (reconcile E req) s) = None"
  | (read) ob evs where "trace (reconcile E req) s = EGet req (Inr ob) # evs"
      "kind_of ob = k" "lifecycle E ob (result (reconcile E req) s) evs"
      "effects (trace (reconcile E req) s) = effects evs"
  using validD [OF refines [of E req], of s] unfolding pass_def by (auto intro: that)

lemma acts_only_when_ready:
  assumes "Api rq ans \<in> set (effects (trace (reconcile E req) s))"
    and "op_class (rqOp rq) \<noteq> Remove"
  shows "\<exists>ob. read_object (trace (reconcile E req) s) = Some ob \<and> kind_of ob = k \<and>
    \<not> isDeleting (obj_meta ob) \<and> may_act E ob (trace (reconcile E req) s)"
proof (cases rule: pass_cases [of E req s])
  case unread
  then show ?thesis using assms by simp
next
  case (read ob evs)
  have live: "\<not> isDeleting (obj_meta ob)"
  proof
    assume del: "isDeleting (obj_meta ob)"
    show False
      using read(3) del assms read(4)
      by (cases rule: lifecycle_deleted)
        (auto simp: finalizer_dropped_def sent_def split: if_splits)
  qed
  have "may_act E ob evs"
    using read(3) live assms read(4) by (cases rule: lifecycle_live) auto
  then have "may_act E ob (EGet req (Inr ob) # evs)"
    by (auto simp: may_act_def parents_ready_def list_all_iff)
  then show ?thesis using read live by auto
qed

lemma removes_only_when_deleted:
  assumes "Api rq ans \<in> set (effects (trace (reconcile E req) s))"
    and "op_class (rqOp rq) = Remove"
  shows "\<exists>ob. read_object (trace (reconcile E req) s) = Some ob \<and> isDeleting (obj_meta ob) \<and>
    hd (effects (trace (reconcile E req) s)) = Api rq ans"
proof (cases rule: pass_cases [of E req s])
  case unread
  then show ?thesis using assms by simp
next
  case (read ob evs)
  have "isDeleting (obj_meta ob)"
  proof (rule ccontr)
    assume live: "\<not> isDeleting (obj_meta ob)"
    show False
      using read(3) live assms read(4)
      by (cases rule: lifecycle_live) (auto dest: attempts_mem)
  qed
  note del = this
  show ?thesis
    using read(3) del assms read(1,4) del
    by (cases rule: lifecycle_deleted) (auto simp: finalizer_dropped_def sent_def split: if_splits)
qed

lemma finalizer_discipline:
  assumes "Upd ob' e \<in> set (effects (trace (reconcile E req) s))"
  shows "\<exists>ob. read_object (trace (reconcile E req) s) = Some ob \<and>
    (if isDeleting (obj_meta ob)
     then ob' = set_obj_meta (RemoveFinalizer E (obj_meta ob) PolarisFinalizer) ob \<and>
       ContainsFinalizer E (obj_meta ob) PolarisFinalizer \<and>
       (effects (trace (reconcile E req) s) = [Upd ob' e] \<or>
        (\<exists>rq raw. effects (trace (reconcile E req) s) = [Api rq (Inr raw), Upd ob' e] \<and>
           op_class (rqOp rq) = Remove \<and> tolerated [StatusNotFound] raw))
     else ob' = set_obj_meta (AddFinalizer E (obj_meta ob) PolarisFinalizer) ob \<and>
       \<not> ContainsFinalizer E (obj_meta ob) PolarisFinalizer \<and>
       effects (trace (reconcile E req) s) = [Upd ob' e])"
proof (cases rule: pass_cases [of E req s])
  case unread
  then show ?thesis using assms by simp
next
  case (read ob evs)
  show ?thesis
  proof (cases "isDeleting (obj_meta ob)")
    case True
    show ?thesis
      using read(3) True assms read(1,2,4) True
      by (cases rule: lifecycle_deleted)
        (auto simp: finalizer_dropped_def sent_def split: if_splits)
  next
    case False
    show ?thesis
      using read(3) False assms read(1,2,4) False
      by (cases rule: lifecycle_live) (auto dest: attempts_mem)
  qed
qed

lemma effects_bounded:
  "length (effects (trace (reconcile E req) s)) \<le> 5 \<and>
   list_all (\<lambda>x. \<not> is_status_write x) (butlast (effects (trace (reconcile E req) s)))"
proof (cases rule: pass_cases [of E req s])
  case unread
  then show ?thesis by simp
next
  case (read ob evs)
  have no_status: "list_all (\<lambda>x. \<not> is_status_write x) es" if "attempts es" for es
    using that unfolding attempts_def list_all_iff
    by (metis attempt.simps(4) is_status_write.elims(2))
  have butl: "list_all (\<lambda>x. \<not> is_status_write x) (butlast es)" if "attempts es" for es
    using no_status [OF that] by (auto simp: list_all_iff dest: in_set_butlastD)
  have len: "length es \<le> 4" if "attempts es" for es
    using that by (simp add: attempts_def)
  show ?thesis
  proof (cases "isDeleting (obj_meta ob)")
    case True
    with read(3) show ?thesis
      unfolding read(4)
      by (cases rule: lifecycle_deleted)
        (auto simp: finalizer_dropped_def sent_def split: if_splits)
  next
    case False
    with read(3) show ?thesis
      unfolding read(4)
      by (cases rule: lifecycle_live) (auto intro: no_status butl dest: len)
  qed
qed

lemma ready_is_earned:
  assumes "lib_ok E" "Stat ob' e \<in> set (effects (trace (reconcile E req) s))"
    and "ready_cond E (obj_conds ob') = Some c"
  shows "\<exists>ob. read_object (trace (reconcile E req) s) = Some ob \<and>
    last (effects (trace (reconcile E req) s)) = Stat ob' e \<and>
    (sync_run (butlast (effects (trace (reconcile E req) s))) \<and> obj_observed ob' = gen_of ob \<and>
       condObservedGeneration c = gen_of ob \<and> result (reconcile E req) s = Returns noResult e \<or>
     k = KPrincipal \<and> ready_cond E (obj_conds ob) = Some c \<and>
       (\<exists>err. result (reconcile E req) s = Returns noResult (Some err)))"
proof (cases rule: pass_cases [of E req s])
  case unread
  then show ?thesis using assms by simp
next
  case (read ob evs)
  have last_stat: "x = Stat ob' e" if "es \<noteq> []" "last es = x" "attempts (butlast es)"
    "Stat ob' e \<in> set es" for x es
    using effects_snoc [OF that(1,2)] attempts_mem [OF that(3), of "Stat ob' e"] that(4)
    by (metis Un_iff append_Nil attempt.simps(4) empty_iff list.set(1) set_ConsD set_append)
  have stat: "Stat ob' e \<in> set (effects evs)" using assms(2) read(4) by simp
  show ?thesis
    using read(3)
  proof (cases rule: lifecycle.cases)
    case (still_waiting)
    then show ?thesis using stat by (auto dest: attempts_mem)
  next
    case (waiting ob'' err msg)
    then have "ob' = ob''" using last_stat stat by blast
    then show ?thesis using waiting assms(3) ready_cond_set [OF assms(1)] by simp
  next
    case (failed ob'' err msg cs reason)
    then have "ob' = ob''" using last_stat stat by blast
    then show ?thesis using failed assms(3) ready_cond_set [OF assms(1)] by simp
  next
    case (secret_unwritten ob'' err msg)
    then have "Stat ob'' err = Stat ob' e" using last_stat stat by blast
    then show ?thesis
      using secret_unwritten assms(3) ready_cond_set [OF assms(1)] read by auto
  next
    case (synced ob'' err)
    then have "Stat ob'' err = Stat ob' e" using last_stat stat by blast
    then show ?thesis using synced assms(3) ready_cond_set [OF assms(1)] read by auto
  next
    case crashed
    then show ?thesis using attempts_mem [OF probe_attempts stat] by simp
  qed (use stat in \<open>auto simp: finalizer_dropped_def sent_def split: if_splits\<close>)
qed

lemma success_is_synced:
  assumes "result (reconcile E req) s = Returns noResult None"
    and "read_object (trace (reconcile E req) s) = Some ob" "\<not> isDeleting (obj_meta ob)"
  shows "\<exists>es ob'. effects (trace (reconcile E req) s) = es @ [Stat ob' None] \<and> sync_run es \<and>
    obj_meta ob' = obj_meta ob \<and> obj_observed ob' = gen_of ob \<and>
    (\<exists>cs msg. obj_conds ob' = setReady E cs (gen_of ob) msg)"
proof (cases rule: pass_cases [of E req s])
  case unread
  then show ?thesis using assms by simp
next
  case (read ob0 evs)
  then have ob: "ob0 = ob" using assms(2) by simp
  show ?thesis
    using read(3) unfolding ob assms(1)
  proof (cases rule: lifecycle.cases)
    case (synced ob' cs msg msg')
    then show ?thesis using effects_snoc read(4) by metis
  qed (use assms(3) in \<open>auto simp: noResult_def requeue_def requeueLater_def
      dependencyRequeueAfter_def Second_def split: option.splits\<close>)
qed

lemma waiting_reports_only:
  assumes "lib_ok E" "result (reconcile E req) s = Returns requeueLater None"
  shows "\<exists>ob. read_object (trace (reconcile E req) s) = Some ob \<and> \<not> isDeleting (obj_meta ob) \<and>
    list_all (\<lambda>x. case x of
        Stat ob' e \<Rightarrow> e = None \<and> obj_observed ob' = obj_observed ob \<and> obj_meta ob' = obj_meta ob \<and>
          \<not> parentReady E (obj_conds ob')
      | Upd ob' e \<Rightarrow> False
      | _ \<Rightarrow> True) (effects (trace (reconcile E req) s))"
    (is "\<exists>ob. _ \<and> _ \<and> list_all (?ok ob) _")
proof (cases rule: pass_cases [of E req s])
  case unread
  then show ?thesis
    using validD [OF refines [of E req], of s] assms
    by (auto simp: pass_def getFail_def requeueLater_def noResult_def dependencyRequeueAfter_def
        Second_def split: if_splits)
next
  case (read ob evs)
  have att: "list_all (?ok ob) es" if "attempts es" for es
    using that unfolding attempts_def list_all_iff
    by (auto split: effect.split dest: bspec)
  show ?thesis
    using read(3) unfolding assms(2)
  proof (cases rule: lifecycle.cases)
    case still_waiting
    then show ?thesis using read att by auto
  next
    case (waiting ob' err msg)
    have "list_all (?ok ob) (effects evs)"
      by (subst effects_snoc [OF waiting(2,3)])
        (use waiting att parentReady_set [OF assms(1)] in
          \<open>auto simp: requeueLater_def noResult_def split: option.splits\<close>)
    then show ?thesis using read waiting(1) by auto
  qed (auto simp: noResult_def requeue_def requeueLater_def dependencyRequeueAfter_def
      Second_def split: option.splits)
qed

lemma deletion_completes:
  assumes "result (reconcile E req) s = Returns noResult None"
    and "read_object (trace (reconcile E req) s) = Some ob" "isDeleting (obj_meta ob)"
    and "ContainsFinalizer E (obj_meta ob) PolarisFinalizer"
  shows "last (effects (trace (reconcile E req) s)) =
    Upd (set_obj_meta (RemoveFinalizer E (obj_meta ob) PolarisFinalizer) ob) None"
proof (cases rule: pass_cases [of E req s])
  case unread
  then show ?thesis using assms by simp
next
  case (read ob0 evs)
  then have ob: "ob0 = ob" using assms(2) by simp
  show ?thesis
    using read(3) unfolding ob assms(1)
    by (cases rule: lifecycle_deleted [OF _ assms(3)])
      (use assms read in \<open>auto simp: finalizer_dropped_def\<close>)
qed

lemma panic_cause:
  assumes "result (reconcile E req) s = Panics"
  shows "trusts_answer k \<and> probe_answered (effects (trace (reconcile E req) s)) \<and>
    (\<exists>ob. read_object (trace (reconcile E req) s) = Some ob \<and> \<not> isDeleting (obj_meta ob))"
proof (cases rule: pass_cases [of E req s])
  case unread
  then show ?thesis
    using validD [OF refines [of E req], of s] assms
    by (auto simp: pass_def getFail_def split: if_splits)
next
  case (read ob evs)
  show ?thesis
    using read(3) unfolding assms
    by (cases rule: lifecycle.cases) (use read in \<open>auto split: option.splits\<close>)
qed

lemma spec_kept:
  assumes "x \<in> set (effects (trace (reconcile E req) s))" "x = Upd ob' e \<or> x = Stat ob' e"
  shows "\<exists>ob. read_object (trace (reconcile E req) s) = Some ob \<and> same_spec ob ob' \<and>
    (x = Stat ob' e \<longrightarrow> obj_meta ob' = obj_meta ob) \<and>
    (x = Upd ob' e \<longrightarrow> obj_conds ob' = obj_conds ob \<and> obj_observed ob' = obj_observed ob)"
proof (cases rule: pass_cases [of E req s])
  case unread
  then show ?thesis using assms by simp
next
  case (read ob evs)
  have mem: "x \<in> set (effects evs)" using assms(1) read(4) by simp
  have no_write: "\<not> attempt x" using assms(2) by auto
  have last_one: "x = y" if "es \<noteq> []" "last es = y" "attempts (butlast es)" "x \<in> set es" for y es
    using effects_snoc [OF that(1,2)] attempts_mem [OF that(3)] that(4) no_write
    by (metis Un_iff empty_iff list.set(1) set_ConsD set_append)
  have none: "x \<notin> set es" if "attempts es" for es
    using attempts_mem [OF that] no_write by blast
  note facts = read assms(2) mem none none [OF probe_attempts]
  show ?thesis
    using read(3)
  proof (cases rule: lifecycle.cases)
    case (waiting ob'' err msg)
    then show ?thesis using last_one [OF waiting(2,3,4) mem] facts by auto
  next
    case (failed ob'' err)
    then show ?thesis using last_one [OF failed(3,4,5) mem] facts by auto
  next
    case (secret_unwritten ob'' err)
    then show ?thesis using last_one [OF secret_unwritten(3,4,5) mem] facts by auto
  next
    case (synced ob'' err)
    then show ?thesis using last_one [OF synced(3,4,5) mem] facts by auto
  qed (use facts in \<open>auto simp: finalizer_dropped_def sent_def split: if_splits\<close>)
qed

lemma errors_reported:
  assumes "lib_ok E" "result (reconcile E req) s = Returns noResult (Some e)"
    and "read_object (trace (reconcile E req) s) = Some ob" "\<not> isDeleting (obj_meta ob)"
  shows "(\<exists>ob' err. effects (trace (reconcile E req) s) = [Upd ob' (Some err)] \<and>
      e = ErrWrap ''add finalizer: '' err) \<or>
    (\<exists>es ob' w. effects (trace (reconcile E req) s) = es @ [Stat ob' w] \<and>
      (w = Some e \<or>
       (\<exists>t c. FindStatusCondition E (obj_conds ob') t = Some c \<and> condStatus c = ConditionFalse \<and>
          condObservedGeneration c = gen_of ob \<and> has_suffix (Error e) (condMessage c) \<and>
          (t = ConditionReady \<or> k = KPrincipal \<and> t = ConditionCredentialsWritten))))"
proof (cases rule: pass_cases [of E req s])
  case unread
  then show ?thesis using assms by simp
next
  case (read ob0 evs)
  then have ob: "ob0 = ob" using assms(3) by simp
  show ?thesis
    using read(3) unfolding ob assms(2)
  proof (cases rule: lifecycle.cases)
    case (waiting ob' err msg)
    then have "err = Some e"
      by (auto simp: requeueLater_def noResult_def split: option.splits)
    then show ?thesis using effects_snoc [OF waiting(2,3)] unfolding read(4) by blast
  next
    case (failed ob' err msg cs reason)
    have "FindStatusCondition E (obj_conds ob') ConditionReady = Some
      \<lparr>condType = ConditionReady, condStatus = ConditionFalse, condObservedGeneration = gen_of ob,
       condReason = reason, condMessage = msg\<rparr>"
      using failed find_set [OF assms(1)] by (simp add: setNotReady_def)
    then show ?thesis
      using effects_snoc [OF failed(2,3)] failed unfolding read(4) by (metis Condition.select_convs(2,3,5))
  next
    case (secret_unwritten ob' err msg)
    have "FindStatusCondition E (obj_conds ob') ConditionCredentialsWritten = Some
      \<lparr>condType = ConditionCredentialsWritten, condStatus = ConditionFalse,
       condObservedGeneration = gen_of ob, condReason = ReasonSyncFailed, condMessage = msg\<rparr>"
      using secret_unwritten find_set [OF assms(1)] by (simp add: setCondition_def)
    then show ?thesis
      using effects_snoc [OF secret_unwritten(2,3)] secret_unwritten read(2) ob unfolding read(4)
      by (metis Condition.select_convs(2,3,5))
  next
    case (synced ob' cs msg msg')
    then show ?thesis using effects_snoc [OF synced(2,3)] unfolding read(4) by blast
  qed (use assms(4) read(4) in \<open>auto simp: noResult_def requeue_def split: option.splits\<close>)
qed

end

end
