(* ===== verification/Catalog_Controller.thy ===== *)
theory Catalog_Controller
  imports Lifecycle
begin

text \<open>
  \<open>internal/controller/polariscatalog_controller.go\<close>: the reconciler of \<open>PolarisCatalog\<close>, with
  the request bodies it builds by hand.
\<close>

section \<open>Request bodies\<close>

record storageBody =
  sbStorageType :: string
  sbAllowedLocations :: "string list"
  sbRoleARN :: string
  sbRegion :: string
  sbExternalID :: string
  sbUserARN :: string
  sbTenantID :: string
  sbMultiTenantAppName :: string
  sbConsentURL :: string
  sbGCSServiceAccount :: string

definition marshal_storageBody :: "storageBody \<Rightarrow> json" where
  "marshal_storageBody b =
     JObject ([(''storageType'', JString (sbStorageType b))] @
       (if sbAllowedLocations b = [] then []
        else [(''allowedLocations'', jstrings (sbAllowedLocations b))]) @
       jomit_str ''roleArn'' (sbRoleARN b) @ jomit_str ''region'' (sbRegion b) @
       jomit_str ''externalId'' (sbExternalID b) @ jomit_str ''userArn'' (sbUserARN b) @
       jomit_str ''tenantId'' (sbTenantID b) @
       jomit_str ''multiTenantAppName'' (sbMultiTenantAppName b) @
       jomit_str ''consentUrl'' (sbConsentURL b) @
       jomit_str ''gcsServiceAccount'' (sbGCSServiceAccount b))"

definition buildStorageBody :: "StorageConfig \<Rightarrow> goerr + storageBody" where
  "buildStorageBody sc =
     (let out = \<lparr>sbStorageType = scStorageType sc, sbAllowedLocations = scAllowedLocations sc,
                 sbRoleARN = [], sbRegion = [], sbExternalID = [], sbUserARN = [],
                 sbTenantID = [], sbMultiTenantAppName = [], sbConsentURL = [],
                 sbGCSServiceAccount = []\<rparr> in
      if scStorageType sc = StorageTypeS3 then
        (case scS3 sc of
           None \<Rightarrow> Inl (ErrNew ''storageConfig.s3 must be set when storageType=S3'')
         | Some s3 \<Rightarrow> Inr (out\<lparr>sbRoleARN := s3RoleARN s3, sbRegion := s3Region s3,
                             sbExternalID := s3ExternalID s3, sbUserARN := s3UserARN s3\<rparr>))
      else if scStorageType sc = StorageTypeAzure then
        (case scAzure sc of
           None \<Rightarrow> Inl (ErrNew ''storageConfig.azure must be set when storageType=AZURE'')
         | Some az \<Rightarrow> Inr (out\<lparr>sbTenantID := azTenantID az,
                             sbMultiTenantAppName := azMultiTenantAppName az,
                             sbConsentURL := azConsentURL az\<rparr>))
      else if scStorageType sc = StorageTypeGCS then
        (case scGCS sc of
           None \<Rightarrow> Inl (ErrNew ''storageConfig.gcs must be set when storageType=GCS'')
         | Some gcs \<Rightarrow> Inr (out\<lparr>sbGCSServiceAccount := gcsServiceAccount gcs\<rparr>))
      else if scStorageType sc = StorageTypeFile then Inr out
      else Inl (ErrNew (''unsupported storageType '' @ go_quote (scStorageType sc))))"

definition base_location_key :: string where
  "base_location_key = ''default-base-location''"

text \<open>The \<open>range\<close> loop both body builders start with.\<close>

definition catalog_props :: "PolarisCatalog \<Rightarrow> strmap" where
  "catalog_props cat =
     foldl (\<lambda>props (k, v). if k = base_location_key then props else AList.update k v props)
       [(base_location_key, catDefaultBaseLocation (crSpec cat))] (catProperties (crSpec cat))"

definition buildCatalogCreateBody :: "PolarisCatalog \<Rightarrow> string \<Rightarrow> goerr + json" where
  "buildCatalogCreateBody cat name =
     (let typ = (if catType (crSpec cat) = [] then CatalogTypeInternal else catType (crSpec cat)) in
      case buildStorageBody (catStorageConfig (crSpec cat)) of
        Inl err \<Rightarrow> Inl err
      | Inr storage \<Rightarrow>
          Inr (JObject [(''catalog'', JObject
            [(''name'', JString name), (''type'', JString typ),
             (''properties'', jstrmap (catalog_props cat)),
             (''storageConfigInfo'', marshal_storageBody storage)])]))"

definition buildCatalogUpdateBody :: "PolarisCatalog \<Rightarrow> Catalog option \<Rightarrow> goerr + json" where
  "buildCatalogUpdateBody cat current =
     (case buildStorageBody (catStorageConfig (crSpec cat)) of
        Inl err \<Rightarrow> Inl err
      | Inr storage \<Rightarrow>
          Inr (JObject
            (jomit ''currentEntityVersion'' jword
               (case current of None \<Rightarrow> None | Some c \<Rightarrow> mcEntityVersion c) @
             (if catalog_props cat = [] then []
              else [(''properties'', jstrmap (catalog_props cat))]) @
             [(''storageConfigInfo'', marshal_storageBody storage)])))"

section \<open>Drift\<close>

text \<open>The Go map \<open>seen\<close> is used as a set.\<close>

definition equalStringSet :: "string list \<Rightarrow> string list \<Rightarrow> bool" where
  "equalStringSet a b \<longleftrightarrow>
     (if length a \<noteq> length b then False
      else let seen = set a in list_all (\<lambda>s. s \<in> seen) b)"

definition PolarisCatalog_driftsFrom :: "PolarisCatalog \<Rightarrow> Catalog \<Rightarrow> bool" where
  "PolarisCatalog_driftsFrom cat current \<longleftrightarrow>
     (let spec = crSpec cat; props = mcProperties current; sc = mcStorageConfigInfo current in
      if cpDefaultBaseLocation props \<noteq> catDefaultBaseLocation spec then True
      else if \<not> equalProperties (cpAdditionalProperties props) (catProperties spec) then True
      else if sciStorageType sc \<noteq> scStorageType (catStorageConfig spec) then True
      else
        let currentLocs = (case sciAllowedLocations sc of None \<Rightarrow> [] | Some locs \<Rightarrow> locs) in
        \<not> equalStringSet currentLocs (scAllowedLocations (catStorageConfig spec)))"

section \<open>Operations\<close>

definition PolarisCatalog_finalize ::
  "env \<Rightarrow> PolarisCatalog \<Rightarrow> Client \<Rightarrow> string \<Rightarrow> goerr option io" where
  "PolarisCatalog_finalize E cat pc name = do {
     r \<leftarrow> DeleteCatalog E pc name;
     case r of
       Inl err \<Rightarrow> State_Monad.return (Some (ErrWrap ''delete catalog: '' err))
     | Inr resp \<Rightarrow>
         (case api_failure ''catalogs/delete'' [StatusNotFound] (rrStatus resp) (rrBody resp) of
            Some err \<Rightarrow> State_Monad.return (Some err)
          | None \<Rightarrow> removeFinalizer E OCatalog cat)
   }"

definition PolarisCatalog_getCatalog ::
  "env \<Rightarrow> Client \<Rightarrow> string \<Rightarrow> (goerr + Catalog option option) io" where
  "PolarisCatalog_getCatalog E pc name =
     remote_get ''catalogs/get'' ''get catalog'' (GetCatalogWithResponse E pc name)"

definition PolarisCatalog_createCatalog ::
  "env \<Rightarrow> Client \<Rightarrow> PolarisCatalog \<Rightarrow> string \<Rightarrow> goerr option io" where
  "PolarisCatalog_createCatalog E pc cat name =
     (case buildCatalogCreateBody cat name of
        Inl err \<Rightarrow> State_Monad.return (Some (ErrWrap ''build create body: '' err))
      | Inr body \<Rightarrow>
          remote_change ''catalogs/create'' ''create catalog'' [StatusConflict]
            (CreateCatalogWithBodyWithResponse E pc body))"

definition PolarisCatalog_updateCatalog ::
  "env \<Rightarrow> Client \<Rightarrow> PolarisCatalog \<Rightarrow> Catalog option \<Rightarrow> goerr option io" where
  "PolarisCatalog_updateCatalog E pc cat current =
     (case buildCatalogUpdateBody cat current of
        Inl err \<Rightarrow> State_Monad.return (Some (ErrWrap ''build update body: '' err))
      | Inr body \<Rightarrow>
          remote_change ''catalogs/update'' ''update catalog'' []
            (UpdateCatalogWithBodyWithResponse E pc
              (polarisName (catName (crSpec cat)) (objName (crMeta cat))) body))"

section \<open>Reconcile\<close>

definition PolarisCatalog_finish :: "env \<Rightarrow> PolarisCatalog \<Rightarrow> string \<Rightarrow> outcome io" where
  "PolarisCatalog_finish E cat name =
     finish E OCatalog (cat\<lparr>crStatus := (crStatus cat)\<lparr>catPolarisCatalogID := name\<rparr>\<rparr>)
       ''catalog state matches spec'' ''catalog is reconciled''"

definition PolarisCatalog_reconcileObject ::
  "env \<Rightarrow> reconciler \<Rightarrow> PolarisCatalog \<Rightarrow> outcome io" where
  "PolarisCatalog_reconcileObject E r cat =
     (let deleting = isDeleting (crMeta cat) in do {
      connRes \<leftarrow> getConnection E (catConnectionRef (crSpec cat)) (objNamespace (crMeta cat));
      case connRes of
        Inl err \<Rightarrow> resolveFail E OCatalog cat deleting ReasonRefError err
      | Inr conn \<Rightarrow>
      if \<not> deleting \<and> \<not> parentReady E (conditions (crStatus conn)) then
        waitForDependency E OCatalog cat (''PolarisConnection '' @ objName (crMeta conn))
      else do {
      pcRes \<leftarrow> builder E r conn;
      case pcRes of
        Inl err \<Rightarrow> resolveFail E OCatalog cat deleting ReasonAuthError err
      | Inr pc \<Rightarrow>
      let polarisCatName = polarisName (catName (crSpec cat)) (objName (crMeta cat)) in
      if deleting then returning (PolarisCatalog_finalize E cat pc polarisCatName)
      else withFinalizer E OCatalog cat (do {
      got \<leftarrow> PolarisCatalog_getCatalog E pc polarisCatName;
      case got of
        Inl err \<Rightarrow> failStatus E OCatalog cat ReasonPolarisError err err
      | Inr None \<Rightarrow> do {
          res \<leftarrow> PolarisCatalog_createCatalog E pc cat polarisCatName;
          case res of
            Some err \<Rightarrow> failStatus E OCatalog cat ReasonPolarisError err err
          | None \<Rightarrow> PolarisCatalog_finish E cat polarisCatName
        }
      | Inr (Some None) \<Rightarrow> State_Monad.return Panics
      | Inr (Some (Some current)) \<Rightarrow>
          if PolarisCatalog_driftsFrom cat current then do {
            res \<leftarrow> PolarisCatalog_updateCatalog E pc cat (Some current);
            case res of
              Some err \<Rightarrow> failStatus E OCatalog cat ReasonSyncFailed err err
            | None \<Rightarrow> PolarisCatalog_finish E cat polarisCatName
          }
          else PolarisCatalog_finish E cat polarisCatName
      })
      }
     })"

definition PolarisCatalog_Reconcile :: "env \<Rightarrow> reconciler \<Rightarrow> NamespacedName \<Rightarrow> outcome io" where
  "PolarisCatalog_Reconcile E r =
     reconcile_with E (get_PolarisCatalog E) OCatalog (PolarisCatalog_reconcileObject E r)"

section \<open>Refinement\<close>

lemma after_PolarisCatalog_finish:
  assumes "\<not> isDeleting (crMeta cat)" "attempts (effects pre)" "sync_run (effects pre)"
    "may_act E (OCatalog cat) pre"
  shows "after pre (PolarisCatalog_finish E cat name) (lifecycle E (OCatalog cat))"
  unfolding PolarisCatalog_finish_def
  by (rule catalog_kind.after_finish) (simp_all add: assms)

lemma after_PolarisCatalog_finalize:
  assumes "isDeleting (crMeta cat)" "effects pre = []"
  shows "after pre (returning (PolarisCatalog_finalize E cat pc name)) (lifecycle E (OCatalog cat))"
  unfolding returning_def PolarisCatalog_finalize_def DeleteCatalog_def
  apply (intro step vc valid_call catalog_kind.valid_removeFinalizer)
  using assms
  by (auto simp: protocol_defs sum_bind_Inr
      intro!: lifecycle.removed lifecycle.remove_failed [of _ "NewDeleteCatalogRequest name"])

lemmas PolarisCatalog_ops = PolarisCatalog_getCatalog_def PolarisCatalog_createCatalog_def
  PolarisCatalog_updateCatalog_def
  GetCatalogWithResponse_def ParseGetCatalogWrapper_def
  CreateCatalogWithBodyWithResponse_def ParseCreateCatalogWrapper_def
  UpdateCatalogWithBodyWithResponse_def ParseUpdateCatalogWrapper_def

lemma PolarisCatalog_refines:
  assumes "quiet_builder r"
  shows "valid (PolarisCatalog_reconcileObject E r cat) (lifecycle E (OCatalog cat))"
  unfolding PolarisCatalog_reconcileObject_def PolarisCatalog_ops Let_def
  by (rule valid_after, intro known step vc valid_builder assms valid_remote_get valid_remote_change
      catalog_kind.after_resolveFail catalog_kind.after_wait catalog_kind.after_withFinalizer
      catalog_kind.after_failStatus after_PolarisCatalog_finish after_PolarisCatalog_finalize)
    (auto simp: protocol_defs intro!: step lifecycle.crashed)

interpretation catalog_managed: managed_resource "\<lambda>E. PolarisCatalog_Reconcile E production" KCatalog
  by unfold_locales
    (simp add: PolarisCatalog_Reconcile_def valid_reconcile_with PolarisCatalog_refines)

end
