(* ===== verification/Namespace_Controller.thy ===== *)
theory Namespace_Controller
  imports Lifecycle
begin

text \<open>
  \<open>internal/controller/polarisnamespace_controller.go\<close>: the reconciler of \<open>PolarisNamespace\<close>.
  \<open>resolveNamespacePath\<close> is in theory Controller_Helpers.
\<close>

section \<open>Paths and properties\<close>

definition unit_separator :: string where "unit_separator = [CHR 0x1F]"

definition encodeNamespacePath :: "string list \<Rightarrow> string" where
  "encodeNamespacePath path = str_join path unit_separator"

text \<open>The two \<open>range\<close> loops; a nil \<open>updates\<close> map is \<open>[]\<close>.\<close>

definition diffProperties :: "strmap \<Rightarrow> strmap \<Rightarrow> strmap \<times> string list" where
  "diffProperties observed desired =
     (filter (\<lambda>(k, v). case map_of observed k of None \<Rightarrow> True | Some cur \<Rightarrow> cur \<noteq> v) desired,
      map fst (filter (\<lambda>(k, _). case map_of desired k of None \<Rightarrow> True | Some _ \<Rightarrow> False) observed))"

section \<open>Operations\<close>

definition PolarisNamespace_finalize ::
  "env \<Rightarrow> PolarisNamespace \<Rightarrow> Client \<Rightarrow> string \<Rightarrow> string list \<Rightarrow> goerr option io" where
  "PolarisNamespace_finalize E ns pc catalogName path =
     remote_delete E ONamespace ns ''namespaces/drop'' ''drop namespace''
       (DropNamespaceWithResponse E pc catalogName (encodeNamespacePath path))"

definition namespace_properties :: "GetNamespaceResponse option \<Rightarrow> strmap" where
  "namespace_properties j =
     (case j of
        None \<Rightarrow> []
      | Some g \<Rightarrow> (case gnrProperties g of None \<Rightarrow> [] | Some props \<Rightarrow> props))"

definition PolarisNamespace_getNamespace ::
  "env \<Rightarrow> Client \<Rightarrow> string \<Rightarrow> string list \<Rightarrow> (goerr + strmap option) io" where
  "PolarisNamespace_getNamespace E pc catalogName path = do {
     r \<leftarrow> remote_get ''namespaces/load'' ''load namespace''
       (LoadNamespaceMetadataWithResponse E pc catalogName (encodeNamespacePath path));
     State_Monad.return (case r of
         Inl err \<Rightarrow> Inl err
       | Inr found \<Rightarrow> Inr (map_option namespace_properties found))
   }"

definition PolarisNamespace_createNamespace ::
  "env \<Rightarrow> Client \<Rightarrow> string \<Rightarrow> string list \<Rightarrow> strmap \<Rightarrow> goerr option io" where
  "PolarisNamespace_createNamespace E pc catalogName path props =
     (let body = \<lparr>cnrNamespace = path,
                  cnrProperties = (if length props > 0 then Some props else None)\<rparr> in
      remote_change ''namespaces/create'' ''create namespace'' [StatusConflict]
        (CreateNamespaceWithResponse E pc catalogName body))"

definition PolarisNamespace_updateProperties ::
  "env \<Rightarrow> Client \<Rightarrow> string \<Rightarrow> string list \<Rightarrow> strmap \<Rightarrow> string list \<Rightarrow> goerr option io" where
  "PolarisNamespace_updateProperties E pc catalogName path updates removals =
     (let body = \<lparr>unrRemovals = (if length removals > 0 then Some removals else None),
                  unrUpdates = (if length updates > 0 then Some updates else None)\<rparr> in
      remote_change ''namespaces/update-properties'' ''update properties'' []
        (UpdatePropertiesWithResponse E pc catalogName (encodeNamespacePath path) body))"

section \<open>Reconcile\<close>

definition PolarisNamespace_finish :: "env \<Rightarrow> PolarisNamespace \<Rightarrow> string list \<Rightarrow> outcome io" where
  "PolarisNamespace_finish E ns path =
     finish E ONamespace (ns\<lparr>crStatus := (crStatus ns)\<lparr>nsFullPath := path\<rparr>\<rparr>)
       ''namespace state matches spec'' ''namespace is reconciled''"

definition PolarisNamespace_reconcileObject ::
  "env \<Rightarrow> reconciler \<Rightarrow> PolarisNamespace \<Rightarrow> outcome io" where
  "PolarisNamespace_reconcileObject E r ns =
     (let deleting = isDeleting (crMeta ns) in do {
      pathRes \<leftarrow> resolveNamespacePath E ns;
      case pathRes of
        Inl err \<Rightarrow> resolveFail E ONamespace ns deleting ReasonRefError err
      | Inr (path, cat) \<Rightarrow>
      if \<not> deleting \<and> \<not> parentReady E (conditions (crStatus cat)) then
        waitForDependency E ONamespace ns (''PolarisCatalog '' @ objName (crMeta cat))
      else do {
      connRes \<leftarrow> getConnection E (catConnectionRef (crSpec cat)) (objNamespace (crMeta cat));
      case connRes of
        Inl err \<Rightarrow> resolveFail E ONamespace ns deleting ReasonRefError err
      | Inr conn \<Rightarrow> do {
      pcRes \<leftarrow> builder E r conn;
      case pcRes of
        Inl err \<Rightarrow> resolveFail E ONamespace ns deleting ReasonAuthError err
      | Inr pc \<Rightarrow>
      let catalogName = polarisName (catName (crSpec cat)) (objName (crMeta cat)) in
      if deleting then returning (PolarisNamespace_finalize E ns pc catalogName path)
      else withFinalizer E ONamespace ns (do {
      got \<leftarrow> PolarisNamespace_getNamespace E pc catalogName path;
      case got of
        Inl err \<Rightarrow> failStatus E ONamespace ns ReasonPolarisError err err
      | Inr None \<Rightarrow> do {
          res \<leftarrow> PolarisNamespace_createNamespace E pc catalogName path (nsProperties (crSpec ns));
          case res of
            Some err \<Rightarrow>
              if IsNotFound (Some err) then
                waitForDependency E ONamespace ns ''parent namespace/catalog (Polaris-side)''
              else failStatus E ONamespace ns ReasonPolarisError err err
          | None \<Rightarrow> PolarisNamespace_finish E ns path
        }
      | Inr (Some current) \<Rightarrow>
          let (add, remove) = diffProperties current (nsProperties (crSpec ns)) in
          if length add > 0 \<or> length remove > 0 then do {
            res \<leftarrow> PolarisNamespace_updateProperties E pc catalogName path add remove;
            case res of
              Some err \<Rightarrow> failStatus E ONamespace ns ReasonSyncFailed err err
            | None \<Rightarrow> PolarisNamespace_finish E ns path
          }
          else PolarisNamespace_finish E ns path
      })
      }
      }
     })"

definition PolarisNamespace_Reconcile :: "env \<Rightarrow> reconciler \<Rightarrow> NamespacedName \<Rightarrow> outcome io" where
  "PolarisNamespace_Reconcile E r =
     reconcile_with E (get_PolarisNamespace E) ONamespace (PolarisNamespace_reconcileObject E r)"

section \<open>Refinement\<close>

lemma after_PolarisNamespace_finish:
  assumes "\<not> isDeleting (crMeta ns)" "attempts (effects pre)" "sync_run (effects pre)"
    "may_act E (ONamespace ns) pre"
  shows "after pre (PolarisNamespace_finish E ns path) (lifecycle E (ONamespace ns))"
  unfolding PolarisNamespace_finish_def
  by (rule namespace_kind.after_finish) (simp_all add: assms)

lemmas PolarisNamespace_ops = PolarisNamespace_finalize_def PolarisNamespace_getNamespace_def
  PolarisNamespace_createNamespace_def PolarisNamespace_updateProperties_def
  DropNamespaceWithResponse_def ParseDropNamespaceWrapper_def
  LoadNamespaceMetadataWithResponse_def ParseLoadNamespaceMetadataWrapper_def
  CreateNamespaceWithResponse_def ParseCreateNamespaceWrapper_def
  UpdatePropertiesWithResponse_def ParseUpdatePropertiesWrapper_def

lemma PolarisNamespace_refines:
  assumes "quiet_builder r"
  shows "valid (PolarisNamespace_reconcileObject E r ns) (lifecycle E (ONamespace ns))"
  unfolding PolarisNamespace_reconcileObject_def PolarisNamespace_ops Let_def
  by (rule valid_after, intro known step vc valid_builder assms valid_remote_get valid_remote_change
      namespace_kind.after_resolveFail namespace_kind.after_wait
      namespace_kind.after_withFinalizer namespace_kind.after_failStatus
      namespace_kind.after_remote_delete after_PolarisNamespace_finish)
    (auto simp: protocol_defs intro!: step)

interpretation namespace_managed: managed_resource "\<lambda>E. PolarisNamespace_Reconcile E production" KNamespace
  by unfold_locales
    (simp add: PolarisNamespace_Reconcile_def valid_reconcile_with PolarisNamespace_refines)

end
