(* ===== verification/Table_Controller.thy ===== *)
theory Table_Controller
  imports Namespace_Controller
begin

text \<open>
  \<open>internal/controller/polaristable_controller.go\<close>: the reconciler of \<open>PolarisTable\<close>, which
  creates and deletes tables, and the translation of Iceberg schemas and partition specs.
\<close>

section \<open>Schemas\<close>

text \<open>\<open>Type.FromPrimitiveType\<close> of the generated client: \<open>json.Marshal\<close> of a string succeeds.\<close>

definition FromPrimitiveType :: "string \<Rightarrow> goerr + json" where
  "FromPrimitiveType v = Inr (JString v)"

definition buildStructField :: "IcebergField \<Rightarrow> goerr + StructField" where
  "buildStructField f =
     (case FromPrimitiveType (fieldType f) of
        Inl err \<Rightarrow> Inl (ErrWrap (''schema field '' @ go_quote (fieldName f) @
          '' has unsupported type '' @ go_quote (fieldType f) @
          '' (only primitive types supported in v1alpha1): '') err)
      | Inr ft \<Rightarrow> Inr \<lparr>sfDoc = (if fieldDoc f \<noteq> [] then Some (fieldDoc f) else None),
                     sfId = int_of_int32 (fieldID f), sfName = fieldName f,
                     sfRequired = fieldRequired f, sfType = ft\<rparr>)"

fun buildStructFields :: "IcebergField list \<Rightarrow> goerr + StructField list" where
  "buildStructFields [] = Inr []"
| "buildStructFields (f # fs) =
     (case buildStructField f of
        Inl err \<Rightarrow> Inl err
      | Inr sf \<Rightarrow>
          (case buildStructFields fs of
             Inl err \<Rightarrow> Inl err
           | Inr sfs \<Rightarrow> Inr (sf # sfs)))"

definition buildIcebergSchema :: "IcebergSchema \<Rightarrow> goerr + Schema" where
  "buildIcebergSchema s =
     (case buildStructFields (schemaFields s) of
        Inl err \<Rightarrow> Inl err
      | Inr sfs \<Rightarrow>
          Inr \<lparr>schFields = sfs,
               schIdentifierFieldIds =
                 (if length (schemaIdentifierFieldIds s) > 0
                  then Some (map int_of_int32 (schemaIdentifierFieldIds s)) else None),
               schType = ''struct''\<rparr>)"

definition buildPartitionSpec :: "IcebergPartitionSpec \<Rightarrow> PartitionSpec" where
  "buildPartitionSpec ps =
     \<lparr>psFields = map (\<lambda>f. \<lparr>pfFieldId = Some (int_of_int32 (partFieldID f)),
                           pfName = partName f,
                           pfSourceId = int_of_int32 (partSourceID f),
                           pfTransform = partTransform f\<rparr>) (partFields ps)\<rparr>"

section \<open>Operations\<close>

definition PolarisTable_finalize ::
  "env \<Rightarrow> PolarisTable \<Rightarrow> Client \<Rightarrow> string \<Rightarrow> string list \<Rightarrow> string \<Rightarrow> goerr option io" where
  "PolarisTable_finalize E tbl pc catalogName path tableName =
     remote_delete E OTable tbl ''tables/drop'' ''drop table''
       (DropTableWithResponse E pc catalogName (encodeNamespacePath path) tableName)"

definition PolarisTable_buildCreateBody :: "PolarisTable \<Rightarrow> string \<Rightarrow> goerr + CreateTableRequest" where
  "PolarisTable_buildCreateBody tbl name =
     (let spec = crSpec tbl in
      case buildIcebergSchema (tblSchema spec) of
        Inl err \<Rightarrow> Inl err
      | Inr schema \<Rightarrow>
          Inr \<lparr>ctrName = name,
               ctrPartitionSpec = map_option buildPartitionSpec (tblPartitionSpec spec),
               ctrProperties =
                 (if length (tblProperties spec) > 0 \<or> tblWriteFormat spec \<noteq> [] then
                    let props = copyStringMap (tblProperties spec) in
                    Some (if tblWriteFormat spec \<noteq> []
                          then AList.update ''write.format.default'' (tblWriteFormat spec) props
                          else props)
                  else None),
               ctrSchema = schema\<rparr>)"

definition set_location :: "string option \<Rightarrow> PolarisTable \<Rightarrow> PolarisTable" where
  "set_location loc tbl =
     (case loc of None \<Rightarrow> tbl
      | Some l \<Rightarrow> tbl\<lparr>crStatus := (crStatus tbl)\<lparr>tblLocation := l\<rparr>\<rparr>)"

definition set_table_uuid :: "string \<Rightarrow> PolarisTable \<Rightarrow> PolarisTable" where
  "set_table_uuid uuid tbl = tbl\<lparr>crStatus := (crStatus tbl)\<lparr>tblTableUUID := uuid\<rparr>\<rparr>"

lemma set_table_meta [simp]:
  "crMeta (set_location loc tbl) = crMeta tbl" "crMeta (set_table_uuid u tbl) = crMeta tbl"
  "crSpec (set_location loc tbl) = crSpec tbl" "crSpec (set_table_uuid u tbl) = crSpec tbl"
  by (simp_all add: set_location_def set_table_uuid_def split: option.split)

section \<open>Reconcile\<close>

definition PolarisTable_finish :: "env \<Rightarrow> PolarisTable \<Rightarrow> outcome io" where
  "PolarisTable_finish E tbl =
     finish E OTable tbl ''table state matches spec'' ''table is reconciled''"

text \<open>The branch for a table the server does not have.\<close>

definition PolarisTable_create ::
  "env \<Rightarrow> Client \<Rightarrow> PolarisTable \<Rightarrow> string \<Rightarrow> string list \<Rightarrow> string \<Rightarrow> outcome io" where
  "PolarisTable_create E pc tbl catalogName path tableName =
     (case PolarisTable_buildCreateBody tbl tableName of
        Inl err \<Rightarrow> failStatus E OTable tbl ReasonInvalidSpec err err
      | Inr body \<Rightarrow> do {
          r \<leftarrow> CreateTableWithResponse E pc catalogName (encodeNamespacePath path) body;
          case r of
            Inl err \<Rightarrow> failStatus E OTable tbl ReasonPolarisError err (ErrWrap ''create table: '' err)
          | Inr resp \<Rightarrow>
              if wStatusCode resp = StatusNotFound then
                waitForDependency E OTable tbl ''namespace (Polaris-side)''
              else case api_failure ''tables/create'' [StatusConflict] (wStatusCode resp) (wBody resp) of
                Some err \<Rightarrow> failStatus E OTable tbl ReasonPolarisError err err
              | None \<Rightarrow>
                  PolarisTable_finish E
                    (case wJSON resp of
                       None \<Rightarrow> tbl
                     | Some j \<Rightarrow> set_location (tmLocation (ltrMetadata j)) tbl)
        })"

definition PolarisTable_reconcileObject ::
  "env \<Rightarrow> reconciler \<Rightarrow> PolarisTable \<Rightarrow> outcome io" where
  "PolarisTable_reconcileObject E r tbl =
     (let deleting = isDeleting (crMeta tbl) in do {
      nsRes \<leftarrow> getNamespace E (tblNamespaceRef (crSpec tbl)) (objNamespace (crMeta tbl));
      case nsRes of
        Inl err \<Rightarrow> resolveFail E OTable tbl deleting ReasonRefError err
      | Inr ns \<Rightarrow>
      if \<not> deleting \<and> \<not> parentReady E (conditions (crStatus ns)) then
        waitForDependency E OTable tbl (''PolarisNamespace '' @ objName (crMeta ns))
      else do {
      pathRes \<leftarrow> resolveNamespacePath E ns;
      case pathRes of
        Inl err \<Rightarrow> resolveFail E OTable tbl deleting ReasonRefError err
      | Inr (path, cat) \<Rightarrow> do {
      connRes \<leftarrow> getConnection E (catConnectionRef (crSpec cat)) (objNamespace (crMeta cat));
      case connRes of
        Inl err \<Rightarrow> resolveFail E OTable tbl deleting ReasonRefError err
      | Inr conn \<Rightarrow> do {
      pcRes \<leftarrow> builder E r conn;
      case pcRes of
        Inl err \<Rightarrow> resolveFail E OTable tbl deleting ReasonAuthError err
      | Inr pc \<Rightarrow>
      let catalogName = polarisName (catName (crSpec cat)) (objName (crMeta cat));
          tableName = polarisName (tblName (crSpec tbl)) (objName (crMeta tbl)) in
      if deleting then returning (PolarisTable_finalize E tbl pc catalogName path tableName)
      else withFinalizer E OTable tbl (do {
      loaded \<leftarrow> LoadTableWithResponse E pc catalogName (encodeNamespacePath path) tableName;
      case loaded of
        Inl err \<Rightarrow> failStatus E OTable tbl ReasonPolarisError err (ErrWrap ''load table: '' err)
      | Inr loadResp \<Rightarrow>
          if wStatusCode loadResp = StatusNotFound then
            PolarisTable_create E pc tbl catalogName path tableName
          else case api_failure ''tables/load'' [] (wStatusCode loadResp) (wBody loadResp) of
            Some err \<Rightarrow> failStatus E OTable tbl ReasonPolarisError err err
          | None \<Rightarrow>
              PolarisTable_finish E
                (case wJSON loadResp of
                   None \<Rightarrow> tbl
                 | Some j \<Rightarrow> set_table_uuid (tmTableUuid (ltrMetadata j))
                     (set_location (tmLocation (ltrMetadata j)) tbl))
      })
      }
      }
      }
     })"

definition PolarisTable_Reconcile :: "env \<Rightarrow> reconciler \<Rightarrow> NamespacedName \<Rightarrow> outcome io" where
  "PolarisTable_Reconcile E r =
     reconcile_with E (get_PolarisTable E) OTable (PolarisTable_reconcileObject E r)"

section \<open>Refinement\<close>

lemma after_PolarisTable_finish:
  assumes "\<not> isDeleting (crMeta tbl0)" "attempts (effects pre)" "sync_run (effects pre)"
    "may_act E (OTable tbl0) pre" "crMeta tbl = crMeta tbl0" "crSpec tbl = crSpec tbl0"
  shows "after pre (PolarisTable_finish E tbl) (lifecycle E (OTable tbl0))"
  unfolding PolarisTable_finish_def by (rule table_kind.after_finish) (simp_all add: assms)

lemmas PolarisTable_ops = PolarisTable_finalize_def PolarisTable_create_def
  DropTableWithResponse_def ParseDropTableWrapper_def
  LoadTableWithResponse_def ParseLoadTableWrapper_def
  CreateTableWithResponse_def ParseCreateTableWrapper_def

lemma PolarisTable_refines:
  assumes "quiet_builder r"
  shows "valid (PolarisTable_reconcileObject E r tbl) (lifecycle E (OTable tbl))"
  unfolding PolarisTable_reconcileObject_def PolarisTable_ops Let_def
  by (rule valid_after, intro known step vc valid_builder assms valid_call_parse
      table_kind.after_resolveFail table_kind.after_wait
      table_kind.after_withFinalizer table_kind.after_failStatus
      table_kind.after_remote_delete after_PolarisTable_finish)
    (auto simp: protocol_defs split: option.split)

interpretation table_managed: managed_resource "\<lambda>E. PolarisTable_Reconcile E production" KTable
  by unfold_locales
    (simp add: PolarisTable_Reconcile_def valid_reconcile_with PolarisTable_refines)

end
