(* ===== verification/View_Controller.thy ===== *)
theory View_Controller
  imports Table_Controller
begin

text \<open>
  \<open>internal/controller/polarisview_controller.go\<close>: the reconciler of \<open>PolarisView\<close>, which
  creates and deletes views. \<open>MergeSQLViewRepresentation\<close> merges into the empty union with
  the library function \<open>runtime.JSONMerge\<close>, the field \<open>json_merge\<close> of the environment.
\<close>

section \<open>Operations\<close>

definition PolarisView_finalize ::
  "env \<Rightarrow> PolarisView \<Rightarrow> Client \<Rightarrow> string \<Rightarrow> string list \<Rightarrow> string \<Rightarrow> goerr option io" where
  "PolarisView_finalize E view pc catalogName path name =
     remote_delete E OView view ''views/drop'' ''drop view''
       (DropViewWithResponse E pc catalogName (encodeNamespacePath path) name)"

definition marshal_SQLViewRepresentation :: "string \<Rightarrow> string \<Rightarrow> json" where
  "marshal_SQLViewRepresentation dialect sql =
     JObject [(''dialect'', JString dialect), (''sql'', JString sql), (''type'', JString ''sql'')]"

definition PolarisView_buildCreateBody ::
  "env \<Rightarrow> PolarisView \<Rightarrow> string \<Rightarrow> (goerr + CreateViewRequest) io" where
  "PolarisView_buildCreateBody E view name =
     (let spec = crSpec view in
      case buildIcebergSchema (viewSchema spec) of
        Inl err \<Rightarrow> State_Monad.return (Inl err)
      | Inr schema \<Rightarrow>
        case json_merge E JNull (marshal_SQLViewRepresentation (viewDialect spec) (viewSQL spec)) of
          Inl err \<Rightarrow> State_Monad.return (Inl (ErrWrap ''build SQL representation: '' err))
        | Inr rep \<Rightarrow> do {
            now \<leftarrow> Now E;
            State_Monad.return (Inr
              \<lparr>cvrName = name,
               cvrProperties = copyStringMap (viewProperties spec),
               cvrSchema = schema,
               cvrViewVersion =
                 \<lparr>vvDefaultNamespace = [], vvRepresentations = [rep], vvSchemaId = - 1,
                  vvSummary = [(''engine'', viewDialect spec)],
                  vvTimestampMs = word_of_int (now div 1000000), vvVersionId = 1\<rparr>\<rparr>)
          })"

section \<open>Reconcile\<close>

definition PolarisView_finish :: "env \<Rightarrow> PolarisView \<Rightarrow> outcome io" where
  "PolarisView_finish E view =
     finish E OView view ''view state matches spec'' ''view is reconciled''"

text \<open>The branch for a view the server does not have.\<close>

definition PolarisView_create ::
  "env \<Rightarrow> Client \<Rightarrow> PolarisView \<Rightarrow> string \<Rightarrow> string list \<Rightarrow> string \<Rightarrow> outcome io" where
  "PolarisView_create E pc view catalogName path name = do {
     built \<leftarrow> PolarisView_buildCreateBody E view name;
     case built of
       Inl err \<Rightarrow> failStatus E OView view ReasonInvalidSpec err err
     | Inr body \<Rightarrow> do {
         r \<leftarrow> CreateViewWithResponse E pc catalogName (encodeNamespacePath path) body;
         case r of
           Inl err \<Rightarrow> failStatus E OView view ReasonPolarisError err (ErrWrap ''create view: '' err)
         | Inr resp \<Rightarrow>
             if wStatusCode resp = StatusNotFound then
               waitForDependency E OView view ''namespace (Polaris-side)''
             else case api_failure ''views/create'' [StatusConflict] (wStatusCode resp) (wBody resp) of
               Some err \<Rightarrow> failStatus E OView view ReasonPolarisError err err
             | None \<Rightarrow> PolarisView_finish E view
       }
   }"

definition PolarisView_reconcileObject ::
  "env \<Rightarrow> reconciler \<Rightarrow> PolarisView \<Rightarrow> outcome io" where
  "PolarisView_reconcileObject E r view =
     (let deleting = isDeleting (crMeta view) in do {
      nsRes \<leftarrow> getNamespace E (viewNamespaceRef (crSpec view)) (objNamespace (crMeta view));
      case nsRes of
        Inl err \<Rightarrow> resolveFail E OView view deleting ReasonRefError err
      | Inr ns \<Rightarrow>
      if \<not> deleting \<and> \<not> parentReady E (conditions (crStatus ns)) then
        waitForDependency E OView view (''PolarisNamespace '' @ objName (crMeta ns))
      else do {
      pathRes \<leftarrow> resolveNamespacePath E ns;
      case pathRes of
        Inl err \<Rightarrow> resolveFail E OView view deleting ReasonRefError err
      | Inr (path, cat) \<Rightarrow> do {
      connRes \<leftarrow> getConnection E (catConnectionRef (crSpec cat)) (objNamespace (crMeta cat));
      case connRes of
        Inl err \<Rightarrow> resolveFail E OView view deleting ReasonRefError err
      | Inr conn \<Rightarrow> do {
      pcRes \<leftarrow> builder E r conn;
      case pcRes of
        Inl err \<Rightarrow> resolveFail E OView view deleting ReasonAuthError err
      | Inr pc \<Rightarrow>
      let catalogName = polarisName (catName (crSpec cat)) (objName (crMeta cat));
          name = polarisName (viewName (crSpec view)) (objName (crMeta view)) in
      if deleting then returning (PolarisView_finalize E view pc catalogName path name)
      else withFinalizer E OView view (do {
      loaded \<leftarrow> LoadViewWithResponse E pc catalogName (encodeNamespacePath path) name;
      case loaded of
        Inl err \<Rightarrow> failStatus E OView view ReasonPolarisError err (ErrWrap ''load view: '' err)
      | Inr loadResp \<Rightarrow>
          if wStatusCode loadResp = StatusNotFound then
            PolarisView_create E pc view catalogName path name
          else case api_failure ''views/load'' [] (wStatusCode loadResp) (wBody loadResp) of
            Some err \<Rightarrow> failStatus E OView view ReasonPolarisError err err
          | None \<Rightarrow> PolarisView_finish E view
      })
      }
      }
      }
     })"

definition PolarisView_Reconcile :: "env \<Rightarrow> reconciler \<Rightarrow> NamespacedName \<Rightarrow> outcome io" where
  "PolarisView_Reconcile E r =
     reconcile_with E (get_PolarisView E) OView (PolarisView_reconcileObject E r)"

section \<open>Refinement\<close>

lemma after_PolarisView_finish:
  assumes "\<not> isDeleting (crMeta view)" "attempts (effects pre)" "sync_run (effects pre)"
    "may_act E (OView view) pre"
  shows "after pre (PolarisView_finish E view) (lifecycle E (OView view))"
  unfolding PolarisView_finish_def by (rule view_kind.after_finish) (simp_all add: assms)

lemmas PolarisView_ops = PolarisView_finalize_def PolarisView_create_def
  DropViewWithResponse_def ParseDropViewWrapper_def
  LoadViewWithResponse_def ParseLoadViewWrapper_def
  CreateViewWithResponse_def ParseCreateViewWrapper_def

lemma quiet_PolarisView_buildCreateBody: "quiet (PolarisView_buildCreateBody E view name)"
  unfolding quiet_def PolarisView_buildCreateBody_def Let_def by (intro vc) simp_all

lemma PolarisView_refines:
  assumes "quiet_builder r"
  shows "valid (PolarisView_reconcileObject E r view) (lifecycle E (OView view))"
  unfolding PolarisView_reconcileObject_def PolarisView_ops Let_def
  by (rule valid_after, intro known step vc valid_builder assms valid_call_parse
      valid_quiet [OF quiet_PolarisView_buildCreateBody] view_kind.after_resolveFail view_kind.after_wait
      view_kind.after_withFinalizer view_kind.after_failStatus
      view_kind.after_remote_delete after_PolarisView_finish)
    (auto simp: protocol_defs)

interpretation view_managed: managed_resource "\<lambda>E. PolarisView_Reconcile E production" KView
  by unfold_locales
    (simp add: PolarisView_Reconcile_def valid_reconcile_with PolarisView_refines)

end
