(* ===== verification/Policy_Controller.thy ===== *)
theory Policy_Controller
  imports Namespace_Controller
begin

text \<open>
  \<open>internal/controller/polarispolicy_controller.go\<close>: the reconciler of \<open>PolarisPolicy\<close>. Its
  \<open>Reconcile\<close> is one long function; the branches for an absent policy and for a drifted one
  are definitions of their own here.
\<close>

section \<open>Operations\<close>

definition PolarisPolicy_finalize ::
  "env \<Rightarrow> PolarisPolicy \<Rightarrow> Client \<Rightarrow> string \<Rightarrow> string list \<Rightarrow> string \<Rightarrow> goerr option io" where
  "PolarisPolicy_finalize E pol pc catalogName path policyName =
     remote_delete E OPolicy pol ''policies/drop'' ''drop policy''
       (DropPolicyWithResponse E pc catalogName (encodeNamespacePath path) policyName)"

text \<open>
  The payload's \<open>Policy\<close> is a pointer which the code follows without a test: \<open>None\<close> is the
  nil dereference.
\<close>

definition PolarisPolicy_policyDrifts ::
  "LoadPolicyResponse option \<Rightarrow> string \<Rightarrow> string \<Rightarrow> bool option" where
  "PolarisPolicy_policyDrifts json200 desiredContent desiredDescription =
     (case json200 of
        None \<Rightarrow> Some False
      | Some resp \<Rightarrow>
          (case lprPolicy resp of
             None \<Rightarrow> None
           | Some cur \<Rightarrow>
               if plContent cur \<noteq> Some desiredContent then Some True
               else
                 let curDesc = (case plDescription cur of None \<Rightarrow> [] | Some d \<Rightarrow> d) in
                 Some (curDesc \<noteq> desiredDescription)))"

definition optional_description :: "PolarisPolicy \<Rightarrow> string option" where
  "optional_description pol =
     (if polDescription (crSpec pol) \<noteq> [] then Some (polDescription (crSpec pol)) else None)"

definition PolarisPolicy_createBody :: "PolarisPolicy \<Rightarrow> string \<Rightarrow> CreatePolicyRequest" where
  "PolarisPolicy_createBody pol policyName =
     \<lparr>cpqContent = Some (polContent (crSpec pol)), cpqDescription = optional_description pol,
      cpqName = policyName, cpqType = polType (crSpec pol)\<rparr>"

definition PolarisPolicy_updateBody ::
  "PolarisPolicy \<Rightarrow> LoadPolicyResponse option \<Rightarrow> UpdatePolicyRequest" where
  "PolarisPolicy_updateBody pol json200 =
     \<lparr>upqContent = Some (polContent (crSpec pol)),
      upqCurrentPolicyVersion =
        (case json200 of None \<Rightarrow> None | Some resp \<Rightarrow> map_option plVersion (lprPolicy resp)),
      upqDescription = optional_description pol\<rparr>"

section \<open>Reconcile\<close>

definition PolarisPolicy_finish :: "env \<Rightarrow> PolarisPolicy \<Rightarrow> outcome io" where
  "PolarisPolicy_finish E pol =
     finish E OPolicy pol ''policy state matches spec'' ''policy is reconciled''"

definition PolarisPolicy_create ::
  "env \<Rightarrow> Client \<Rightarrow> PolarisPolicy \<Rightarrow> string \<Rightarrow> string list \<Rightarrow> string \<Rightarrow> outcome io" where
  "PolarisPolicy_create E pc pol catalogName path policyName = do {
     r \<leftarrow> CreatePolicyWithResponse E pc catalogName (encodeNamespacePath path)
            (PolarisPolicy_createBody pol policyName);
     case r of
       Inl err \<Rightarrow> failStatus E OPolicy pol ReasonPolarisError err (ErrWrap ''create policy: '' err)
     | Inr resp \<Rightarrow>
         if wStatusCode resp = StatusNotFound then
           waitForDependency E OPolicy pol ''namespace (Polaris-side)''
         else case api_failure ''policies/create'' [StatusConflict] (wStatusCode resp) (wBody resp) of
           Some err \<Rightarrow> failStatus E OPolicy pol ReasonPolarisError err err
         | None \<Rightarrow> PolarisPolicy_finish E pol
   }"

definition PolarisPolicy_update ::
  "env \<Rightarrow> Client \<Rightarrow> PolarisPolicy \<Rightarrow> string \<Rightarrow> string list \<Rightarrow> string \<Rightarrow> LoadPolicyResponse option \<Rightarrow>
   outcome io" where
  "PolarisPolicy_update E pc pol catalogName path policyName json200 = do {
     r \<leftarrow> UpdatePolicyWithResponse E pc catalogName (encodeNamespacePath path) policyName
            (PolarisPolicy_updateBody pol json200);
     case r of
       Inl err \<Rightarrow> failStatus E OPolicy pol ReasonPolarisError err (ErrWrap ''update policy: '' err)
     | Inr resp \<Rightarrow>
         (case api_failure ''policies/update'' [] (wStatusCode resp) (wBody resp) of
            Some err \<Rightarrow> failStatus E OPolicy pol ReasonSyncFailed err err
          | None \<Rightarrow> PolarisPolicy_finish E pol)
   }"

definition PolarisPolicy_reconcileObject ::
  "env \<Rightarrow> reconciler \<Rightarrow> PolarisPolicy \<Rightarrow> outcome io" where
  "PolarisPolicy_reconcileObject E r pol =
     (let deleting = isDeleting (crMeta pol) in do {
      nsRes \<leftarrow> getNamespace E (polNamespaceRef (crSpec pol)) (objNamespace (crMeta pol));
      case nsRes of
        Inl err \<Rightarrow> resolveFail E OPolicy pol deleting ReasonRefError err
      | Inr ns \<Rightarrow>
      if \<not> deleting \<and> \<not> parentReady E (conditions (crStatus ns)) then
        waitForDependency E OPolicy pol (''PolarisNamespace '' @ objName (crMeta ns))
      else do {
      pathRes \<leftarrow> resolveNamespacePath E ns;
      case pathRes of
        Inl err \<Rightarrow> resolveFail E OPolicy pol deleting ReasonRefError err
      | Inr (path, cat) \<Rightarrow> do {
      connRes \<leftarrow> getConnection E (catConnectionRef (crSpec cat)) (objNamespace (crMeta cat));
      case connRes of
        Inl err \<Rightarrow> resolveFail E OPolicy pol deleting ReasonRefError err
      | Inr conn \<Rightarrow> do {
      pcRes \<leftarrow> builder E r conn;
      case pcRes of
        Inl err \<Rightarrow> resolveFail E OPolicy pol deleting ReasonAuthError err
      | Inr pc \<Rightarrow>
      let catalogName = polarisName (catName (crSpec cat)) (objName (crMeta cat));
          policyName = polarisName (polName (crSpec pol)) (objName (crMeta pol)) in
      if deleting then returning (PolarisPolicy_finalize E pol pc catalogName path policyName)
      else withFinalizer E OPolicy pol (do {
      loaded \<leftarrow> LoadPolicyWithResponse E pc catalogName (encodeNamespacePath path) policyName;
      case loaded of
        Inl err \<Rightarrow> failStatus E OPolicy pol ReasonPolarisError err (ErrWrap ''load policy: '' err)
      | Inr loadResp \<Rightarrow>
          if wStatusCode loadResp = StatusNotFound then
            PolarisPolicy_create E pc pol catalogName path policyName
          else case api_failure ''policies/load'' [] (wStatusCode loadResp) (wBody loadResp) of
            Some err \<Rightarrow> failStatus E OPolicy pol ReasonPolarisError err err
          | None \<Rightarrow>
            case PolarisPolicy_policyDrifts (wJSON loadResp) (polContent (crSpec pol))
                   (polDescription (crSpec pol)) of
              None \<Rightarrow> State_Monad.return Panics
            | Some drifts \<Rightarrow>
                if drifts then
                  PolarisPolicy_update E pc pol catalogName path policyName (wJSON loadResp)
                else PolarisPolicy_finish E pol
      })
      }
      }
      }
     })"

definition PolarisPolicy_Reconcile :: "env \<Rightarrow> reconciler \<Rightarrow> NamespacedName \<Rightarrow> outcome io" where
  "PolarisPolicy_Reconcile E r =
     reconcile_with E (get_PolarisPolicy E) OPolicy (PolarisPolicy_reconcileObject E r)"

section \<open>Refinement\<close>

lemma after_PolarisPolicy_finish:
  assumes "\<not> isDeleting (crMeta pol)" "attempts (effects pre)" "sync_run (effects pre)"
    "may_act E (OPolicy pol) pre"
  shows "after pre (PolarisPolicy_finish E pol) (lifecycle E (OPolicy pol))"
  unfolding PolarisPolicy_finish_def by (rule policy_kind.after_finish) (simp_all add: assms)

lemmas PolarisPolicy_ops = PolarisPolicy_finalize_def PolarisPolicy_create_def
  PolarisPolicy_update_def
  DropPolicyWithResponse_def ParseDropPolicyWrapper_def
  LoadPolicyWithResponse_def ParseLoadPolicyWrapper_def
  CreatePolicyWithResponse_def ParseCreatePolicyWrapper_def
  UpdatePolicyWithResponse_def ParseUpdatePolicyWrapper_def

lemma PolarisPolicy_refines:
  assumes "quiet_builder r"
  shows "valid (PolarisPolicy_reconcileObject E r pol) (lifecycle E (OPolicy pol))"
  unfolding PolarisPolicy_reconcileObject_def PolarisPolicy_ops Let_def
  by (rule valid_after, intro known step vc valid_builder assms valid_call_parse
      policy_kind.after_resolveFail policy_kind.after_wait
      policy_kind.after_withFinalizer policy_kind.after_failStatus
      policy_kind.after_remote_delete after_PolarisPolicy_finish)
    (auto simp: protocol_defs intro!: lifecycle.crashed)

interpretation policy_managed: managed_resource "\<lambda>E. PolarisPolicy_Reconcile E production" KPolicy
  by unfold_locales
    (simp add: PolarisPolicy_Reconcile_def valid_reconcile_with PolarisPolicy_refines)

end
