(* ===== verification/Principal_Controller.thy ===== *)
theory Principal_Controller
  imports Lifecycle
begin

text \<open>
  \<open>internal/controller/polarisprincipal_controller.go\<close>: the reconciler of \<open>PolarisPrincipal\<close>,
  which also keeps the credentials Secret and rotates the credentials on request.
  \<open>controllerutil.CreateOrUpdate\<close> is the field \<open>create_or_update\<close> of the environment; it gets
  the mutation the code passes to it.
\<close>

section \<open>Operations\<close>

record principalCredentials =
  pcClientID :: string
  pcClientSecret :: string

definition creds :: "string option \<Rightarrow> string option \<Rightarrow> principalCredentials" where
  "creds cid secret =
     \<lparr>pcClientID = (case cid of None \<Rightarrow> [] | Some s \<Rightarrow> s),
      pcClientSecret = (case secret of None \<Rightarrow> [] | Some s \<Rightarrow> s)\<rparr>"

definition PolarisPrincipal_finalize ::
  "env \<Rightarrow> PolarisPrincipal \<Rightarrow> Client \<Rightarrow> string \<Rightarrow> goerr option io" where
  "PolarisPrincipal_finalize E pp pc name =
     remote_delete E OPrincipal pp ''principals/delete'' ''delete principal''
       (DeletePrincipalWithResponse E pc name)"

definition PolarisPrincipal_getPrincipal ::
  "env \<Rightarrow> Client \<Rightarrow> string \<Rightarrow> (goerr + Principal option option) io" where
  "PolarisPrincipal_getPrincipal E pc name =
     remote_get ''principals/get'' ''get principal'' (GetPrincipalWithResponse E pc name)"

definition principal_create_body :: "PolarisPrincipal \<Rightarrow> string \<Rightarrow> CreatePrincipalRequest" where
  "principal_create_body pp name =
     \<lparr>cprCredentialRotationRequired = Some (ppCredentialRotationRequired (crSpec pp)),
      cprPrincipal = Some
        \<lparr>mpClientId = None, mpEntityVersion = None, mpName = name,
         mpProperties =
           (if length (ppProperties (crSpec pp)) > 0
            then Some (copyStringMap (ppProperties (crSpec pp))) else None)\<rparr>\<rparr>"

text \<open>What \<open>createPrincipal\<close> and \<open>rotateCredentials\<close> make of the response.\<close>

definition read_credentials ::
  "string \<Rightarrow> string \<Rightarrow> int list \<Rightarrow> goerr + PrincipalWithCredentials wrapper \<Rightarrow>
   goerr + principalCredentials option" where
  "read_credentials op what tol r =
     (case r of
        Inl err \<Rightarrow> Inl (ErrWrap (what @ '': '') err)
      | Inr resp \<Rightarrow>
          (case api_failure op tol (wStatusCode resp) (wBody resp) of
             Some err \<Rightarrow> Inl err
           | None \<Rightarrow>
               Inr (map_option (\<lambda>j. creds (pwcClientId j) (pwcClientSecret j)) (wJSON resp))))"

definition PolarisPrincipal_createPrincipal ::
  "env \<Rightarrow> Client \<Rightarrow> PolarisPrincipal \<Rightarrow> string \<Rightarrow> (goerr + principalCredentials option) io" where
  "PolarisPrincipal_createPrincipal E pc pp name = do {
     r \<leftarrow> CreatePrincipalWithResponse E pc (principal_create_body pp name);
     State_Monad.return
       (read_credentials ''principals/create'' ''create principal'' [StatusConflict] r)
   }"

definition PolarisPrincipal_updatePrincipal ::
  "env \<Rightarrow> Client \<Rightarrow> PolarisPrincipal \<Rightarrow> string \<Rightarrow> Principal option \<Rightarrow> goerr option io" where
  "PolarisPrincipal_updatePrincipal E pc pp name current =
     (let body = \<lparr>urCurrentEntityVersion =
                    (case current of None \<Rightarrow> 0
                     | Some c \<Rightarrow> (case mpEntityVersion c of None \<Rightarrow> 0 | Some v \<Rightarrow> v)),
                  urProperties = copyStringMap (ppProperties (crSpec pp))\<rparr> in
      remote_change ''principals/update'' ''update principal'' []
        (UpdatePrincipalWithResponse E pc name body))"

definition PolarisPrincipal_rotateCredentials ::
  "env \<Rightarrow> Client \<Rightarrow> string \<Rightarrow> (goerr + principalCredentials option) io" where
  "PolarisPrincipal_rotateCredentials E pc name = do {
     r \<leftarrow> RotateCredentialsWithResponse E pc name;
     State_Monad.return (read_credentials ''principals/rotate'' ''rotate credentials'' [] r)
   }"

definition credentials_secret_key :: "PolarisPrincipal \<Rightarrow> NamespacedName" where
  "credentials_secret_key pp =
     \<lparr>nnNamespace = objNamespace (crMeta pp), nnName = gcName (ppCredentialsSecretRef (crSpec pp))\<rparr>"

text \<open>The function passed to \<open>CreateOrUpdate\<close>.\<close>

definition mutate_secret ::
  "env \<Rightarrow> PolarisPrincipal \<Rightarrow> principalCredentials \<Rightarrow> Secret \<Rightarrow> goerr + Secret" where
  "mutate_secret E pp c secret =
     (case set_controller_reference E pp secret of
        Inl err \<Rightarrow> Inl err
      | Inr s \<Rightarrow>
          Inr (s\<lparr>secretData := AList.update ''clientSecret'' (pcClientSecret c)
                 (AList.update ''clientId'' (pcClientID c) (secretData s))\<rparr>))"

definition PolarisPrincipal_writeCredentialsSecret ::
  "env \<Rightarrow> PolarisPrincipal \<Rightarrow> principalCredentials option \<Rightarrow> goerr option io" where
  "PolarisPrincipal_writeCredentialsSecret E pp c0 =
     (case c0 of
        None \<Rightarrow> State_Monad.return (Some (ErrNew ''polaris did not return clientId/clientSecret''))
      | Some c \<Rightarrow>
          if pcClientID c = [] \<or> pcClientSecret c = [] then
            State_Monad.return (Some (ErrNew ''polaris did not return clientId/clientSecret''))
          else do {
            r \<leftarrow> ask (\<lambda>h. create_or_update E h (credentials_secret_key pp) (mutate_secret E pp c))
                  (EWriteSecret (credentials_secret_key pp));
            State_Monad.return (case r of
                Inl err \<Rightarrow> Some (ErrWrap ''write credentials Secret: '' err)
              | Inr _ \<Rightarrow> None)
          })"

definition PolarisPrincipal_driftsFrom :: "PolarisPrincipal \<Rightarrow> Principal \<Rightarrow> bool" where
  "PolarisPrincipal_driftsFrom pp current \<longleftrightarrow>
     (let currentProps = (case mpProperties current of None \<Rightarrow> [] | Some m \<Rightarrow> m) in
      \<not> equalProperties currentProps (ppProperties (crSpec pp)))"

definition set_rotated :: "int \<Rightarrow> PolarisPrincipal \<Rightarrow> PolarisPrincipal" where
  "set_rotated now pp = pp\<lparr>crStatus := (crStatus pp)\<lparr>ppCredentialsLastRotated := Some now\<rparr>\<rparr>"

definition set_principal_id :: "Principal option \<Rightarrow> PolarisPrincipal \<Rightarrow> PolarisPrincipal" where
  "set_principal_id current pp =
     (case current of
        None \<Rightarrow> pp
      | Some c \<Rightarrow>
          (case mpClientId c of
             None \<Rightarrow> pp
           | Some cid \<Rightarrow> pp\<lparr>crStatus := (crStatus pp)\<lparr>ppPrincipalID := cid\<rparr>\<rparr>))"

definition set_credentials_condition ::
  "env \<Rightarrow> ConditionStatus \<Rightarrow> string \<Rightarrow> string \<Rightarrow> PolarisPrincipal \<Rightarrow> PolarisPrincipal" where
  "set_credentials_condition E st reason msg pp =
     setConds (setCondition E (conditions (crStatus pp)) ConditionCredentialsWritten st
       (objGeneration (crMeta pp)) reason msg) pp"

lemma principal_status_simps [simp]:
  "crMeta (set_rotated now pp) = crMeta pp" "crSpec (set_rotated now pp) = crSpec pp"
  "crMeta (set_principal_id cur pp) = crMeta pp" "crSpec (set_principal_id cur pp) = crSpec pp"
  "crMeta (set_credentials_condition E st reason msg pp) = crMeta pp"
  "crSpec (set_credentials_condition E st reason msg pp) = crSpec pp"
  "observedGeneration (crStatus (set_rotated now pp)) = observedGeneration (crStatus pp)"
  "observedGeneration (crStatus (set_credentials_condition E st reason msg pp)) =
     observedGeneration (crStatus pp)"
  by (simp_all add: set_rotated_def set_principal_id_def set_credentials_condition_def
      split: option.split)

section \<open>Reconcile\<close>

definition PolarisPrincipal_finish ::
  "env \<Rightarrow> PolarisPrincipal \<Rightarrow> Principal option \<Rightarrow> outcome io" where
  "PolarisPrincipal_finish E pp current =
     finish E OPrincipal (set_principal_id current pp)
       ''principal state matches spec'' ''principal is reconciled''"

definition PolarisPrincipal_rotate ::
  "env \<Rightarrow> Client \<Rightarrow> PolarisPrincipal \<Rightarrow> string \<Rightarrow> bool \<Rightarrow> Principal option \<Rightarrow> outcome io" where
  "PolarisPrincipal_rotate E pc pp name justCreated current =
     (let gen = objGeneration (crMeta pp) in
      if \<not> justCreated \<and> ppCredentialRotationRequired (crSpec pp) \<and>
         observedGeneration (crStatus pp) < gen
      then do {
        rotated \<leftarrow> PolarisPrincipal_rotateCredentials E pc name;
        case rotated of
          Inl err \<Rightarrow> do {
            _ \<leftarrow> Status_Update E (OPrincipal
              (setConds (setNotReady E (conditions (crStatus pp)) gen ReasonSyncFailed (Error err)) pp));
            State_Monad.return (Returns noResult (Some err))
          }
        | Inr newCreds \<Rightarrow>
            (case newCreds of
               None \<Rightarrow> PolarisPrincipal_finish E pp current
             | Some c \<Rightarrow> do {
                 res \<leftarrow> PolarisPrincipal_writeCredentialsSecret E pp (Some c);
                 case res of
                   Some err \<Rightarrow> do {
                     _ \<leftarrow> Status_Update E (OPrincipal
                       (set_credentials_condition E ConditionFalse ReasonSyncFailed (Error err) pp));
                     State_Monad.return (Returns noResult (Some err))
                   }
                 | None \<Rightarrow> do {
                     now \<leftarrow> Now E;
                     PolarisPrincipal_finish E (set_rotated now pp) current
                   }
               })
      }
      else PolarisPrincipal_finish E pp current)"

text \<open>The branch for a principal the server does not have.\<close>

definition PolarisPrincipal_create ::
  "env \<Rightarrow> Client \<Rightarrow> PolarisPrincipal \<Rightarrow> string \<Rightarrow> outcome io" where
  "PolarisPrincipal_create E pc pp name = do {
     created \<leftarrow> PolarisPrincipal_createPrincipal E pc pp name;
     case created of
       Inl err \<Rightarrow> failStatus E OPrincipal pp ReasonPolarisError err err
     | Inr newCreds \<Rightarrow> do {
         res \<leftarrow> PolarisPrincipal_writeCredentialsSecret E pp newCreds;
         case res of
           Some err \<Rightarrow>
             failStatus E OPrincipal
               (set_credentials_condition E ConditionFalse ReasonSyncFailed (Error err) pp)
               ReasonSyncFailed err err
         | None \<Rightarrow> do {
             now \<leftarrow> Now E;
             PolarisPrincipal_rotate E pc
               (set_credentials_condition E ConditionTrue ReasonSynced
                 ''credentials written to Secret'' (set_rotated now pp))
               name True None
           }
       }
   }"

definition PolarisPrincipal_reconcileObject ::
  "env \<Rightarrow> reconciler \<Rightarrow> PolarisPrincipal \<Rightarrow> outcome io" where
  "PolarisPrincipal_reconcileObject E r pp =
     (let deleting = isDeleting (crMeta pp) in do {
      connRes \<leftarrow> getConnection E (ppConnectionRef (crSpec pp)) (objNamespace (crMeta pp));
      case connRes of
        Inl err \<Rightarrow> resolveFail E OPrincipal pp deleting ReasonRefError err
      | Inr conn \<Rightarrow> do {
      pcRes \<leftarrow> builder E r conn;
      case pcRes of
        Inl err \<Rightarrow> resolveFail E OPrincipal pp deleting ReasonAuthError err
      | Inr pc \<Rightarrow>
      if \<not> deleting \<and> \<not> parentReady E (conditions (crStatus conn)) then
        waitForDependency E OPrincipal pp (''PolarisConnection '' @ objName (crMeta conn))
      else
      let name = polarisName (ppName (crSpec pp)) (objName (crMeta pp)) in
      if deleting then returning (PolarisPrincipal_finalize E pp pc name)
      else withFinalizer E OPrincipal pp (do {
      got \<leftarrow> PolarisPrincipal_getPrincipal E pc name;
      case got of
        Inl err \<Rightarrow> failStatus E OPrincipal pp ReasonPolarisError err err
      | Inr None \<Rightarrow> PolarisPrincipal_create E pc pp name
      | Inr (Some None) \<Rightarrow> State_Monad.return Panics
      | Inr (Some (Some current)) \<Rightarrow>
          if PolarisPrincipal_driftsFrom pp current then do {
            res \<leftarrow> PolarisPrincipal_updatePrincipal E pc pp name (Some current);
            case res of
              Some err \<Rightarrow> failStatus E OPrincipal pp ReasonSyncFailed err err
            | None \<Rightarrow> PolarisPrincipal_rotate E pc pp name False (Some current)
          }
          else PolarisPrincipal_rotate E pc pp name False (Some current)
      })
      }
     })"

definition PolarisPrincipal_Reconcile :: "env \<Rightarrow> reconciler \<Rightarrow> NamespacedName \<Rightarrow> outcome io" where
  "PolarisPrincipal_Reconcile E r =
     reconcile_with E (get_PolarisPrincipal E) OPrincipal (PolarisPrincipal_reconcileObject E r)"

section \<open>Refinement\<close>

lemma after_PolarisPrincipal_finish:
  assumes "\<not> isDeleting (crMeta pp0)" "attempts (effects pre)" "sync_run (effects pre)"
    "may_act E (OPrincipal pp0) pre" "crMeta pp = crMeta pp0" "crSpec pp = crSpec pp0"
  shows "after pre (PolarisPrincipal_finish E pp current) (lifecycle E (OPrincipal pp0))"
  unfolding PolarisPrincipal_finish_def
  by (rule principal_kind.after_finish) (simp_all add: assms)

lemma valid_writeCredentialsSecret:
  assumes "\<And>e evs. effects evs = [] \<or> (\<exists>e'. effects evs = [SecretWrite k (Inl e')]) \<Longrightarrow> P (Some e) evs"
    and "\<And>s evs. effects evs = [SecretWrite k (Inr s)] \<Longrightarrow> P None evs"
    and "k = credentials_secret_key pp"
  shows "valid (PolarisPrincipal_writeCredentialsSecret E pp c) P"
  unfolding PolarisPrincipal_writeCredentialsSecret_def
  by (intro vc valid_ask) (auto intro!: assms(1,2) simp: assms(3) split: sum.split)

lemma valid_read_credentials:
  assumes "\<And>e evs. sent rq (effects evs) \<Longrightarrow> P (Inl e) evs"
    and "\<And>c raw evs. effects evs = [Api rq (Inr raw)] \<Longrightarrow> tolerated tol raw \<Longrightarrow> P (Inr c) evs"
  shows "valid (State_Monad.bind (call E pc pl rq (parse_wrapper cases))
    (\<lambda>r. State_Monad.return (read_credentials op what tol r))) P"
  by (intro vc valid_call_parse)
    (auto simp: read_credentials_def sent_def tolerated_def split: option.split intro: assms)

lemma valid_createPrincipal:
  assumes "\<And>e evs. sent (NewCreatePrincipalRequest (principal_create_body pp name)) (effects evs) \<Longrightarrow>
      P (Inl e) evs"
    and "\<And>c raw evs. effects evs =
        [Api (NewCreatePrincipalRequest (principal_create_body pp name)) (Inr raw)] \<Longrightarrow>
      tolerated [StatusConflict] raw \<Longrightarrow> P (Inr c) evs"
  shows "valid (PolarisPrincipal_createPrincipal E pc pp name) P"
  unfolding PolarisPrincipal_createPrincipal_def CreatePrincipalWithResponse_def
    ParseCreatePrincipalWrapper_def
  by (rule valid_read_credentials) (auto intro: assms)

lemma valid_rotateCredentials:
  assumes "\<And>e evs. sent (NewRotateCredentialsRequest name) (effects evs) \<Longrightarrow> P (Inl e) evs"
    and "\<And>c raw evs. effects evs = [Api (NewRotateCredentialsRequest name) (Inr raw)] \<Longrightarrow>
      tolerated [] raw \<Longrightarrow> P (Inr c) evs"
  shows "valid (PolarisPrincipal_rotateCredentials E pc name) P"
  unfolding PolarisPrincipal_rotateCredentials_def RotateCredentialsWithResponse_def
    ParseRotateCredentialsWrapper_def
  by (rule valid_read_credentials) (auto intro: assms)

lemmas PolarisPrincipal_ops = PolarisPrincipal_finalize_def PolarisPrincipal_getPrincipal_def
  PolarisPrincipal_updatePrincipal_def
  DeletePrincipalWithResponse_def ParseDeletePrincipalWrapper_def
  GetPrincipalWithResponse_def ParseGetPrincipalWrapper_def
  UpdatePrincipalWithResponse_def ParseUpdatePrincipalWrapper_def

lemma after_rotation_failed:
  assumes "\<not> isDeleting (crMeta pp)" "attempts (effects pre)" "may_act E (OPrincipal pp) pre"
  shows "after pre (State_Monad.bind
      (Status_Update E (OPrincipal (setConds (setNotReady E cs (objGeneration (crMeta pp)) reason (Error err)) pp)))
      (\<lambda>_. State_Monad.return (Returns noResult (Some err)))) (lifecycle E (OPrincipal pp))"
  by (intro step vc)
    (use assms in \<open>auto simp: gen_of_def butlast_append intro!: lifecycle.failed\<close>)

lemma after_secret_unwritten:
  assumes "\<not> isDeleting (crMeta pp)" "attempts (effects pre)" "may_act E (OPrincipal pp) pre"
  shows "after pre (State_Monad.bind
      (Status_Update E (OPrincipal
        (set_credentials_condition E ConditionFalse ReasonSyncFailed (Error err) pp)))
      (\<lambda>_. State_Monad.return (Returns noResult (Some err)))) (lifecycle E (OPrincipal pp))"
  by (intro step vc)
    (use assms in \<open>auto simp: gen_of_def butlast_append set_credentials_condition_def
      intro!: lifecycle.secret_unwritten\<close>)

lemma after_PolarisPrincipal_rotate:
  assumes "\<not> isDeleting (crMeta pp)" "attempts (effects pre)" "length (effects pre) \<le> 2"
    "may_act E (OPrincipal pp) pre"
    and step_ok: "\<And>es. list_all change_ok es \<Longrightarrow> sync_run (effects pre @ es)"
  shows "after pre (PolarisPrincipal_rotate E pc pp name justCreated current)
    (lifecycle E (OPrincipal pp))"
  unfolding PolarisPrincipal_rotate_def Let_def
  apply (intro known after_rotation_failed after_secret_unwritten step vc
      valid_rotateCredentials
      valid_writeCredentialsSecret [where k = "credentials_secret_key pp"] refl
      after_PolarisPrincipal_finish)
  using assms step_ok [of "[]"] by (auto simp: protocol_defs intro!: step_ok)

lemma after_PolarisPrincipal_create:
  assumes "\<not> isDeleting (crMeta pp)" "may_act E (OPrincipal pp) pre"
    and probe: "effects pre = [Api rq (Inr raw)]" "op_class (rqOp rq) = Probe"
      "rrStatus raw = StatusNotFound"
  shows "after pre (PolarisPrincipal_create E pc pp name) (lifecycle E (OPrincipal pp))"
proof -
  have rot: "after pre' (PolarisPrincipal_rotate E pc pp' name True current)
      (lifecycle E (OPrincipal pp))"
    if "attempts (effects pre')" "sync_run (effects pre')" "may_act E (OPrincipal pp) pre'"
      "crMeta pp' = crMeta pp" "crSpec pp' = crSpec pp" for pre' pp' current
    unfolding PolarisPrincipal_rotate_def Let_def
    by (simp, rule after_PolarisPrincipal_finish) (simp_all add: assms(1) that)
  show ?thesis
    unfolding PolarisPrincipal_create_def
    apply (intro known step vc valid_createPrincipal
        valid_writeCredentialsSecret [where k = "credentials_secret_key pp"] refl
        principal_kind.after_failStatus rot)
    using assms by (auto simp: protocol_defs)
qed

lemma PolarisPrincipal_refines:
  assumes "quiet_builder r"
  shows "valid (PolarisPrincipal_reconcileObject E r pp) (lifecycle E (OPrincipal pp))"
  unfolding PolarisPrincipal_reconcileObject_def PolarisPrincipal_ops Let_def
  by (rule valid_after, intro known step vc valid_builder assms valid_remote_get
      valid_remote_change principal_kind.after_resolveFail principal_kind.after_wait
      principal_kind.after_withFinalizer principal_kind.after_failStatus
      principal_kind.after_remote_delete after_PolarisPrincipal_create
      after_PolarisPrincipal_rotate)
    (auto simp: protocol_defs intro!: lifecycle.crashed)

interpretation principal_managed: managed_resource "\<lambda>E. PolarisPrincipal_Reconcile E production" KPrincipal
  by unfold_locales
    (simp add: PolarisPrincipal_Reconcile_def valid_reconcile_with PolarisPrincipal_refines)

end
