(* ===== verification/Role_Controllers.thy ===== *)
theory Role_Controllers
  imports Lifecycle
begin

text \<open>
  \<open>internal/controller/polarisprincipalrole_controller.go\<close> and
  \<open>polariscatalogrole_controller.go\<close>: the reconcilers of \<open>PolarisPrincipalRole\<close> and
  \<open>PolarisCatalogRole\<close>.
\<close>

text \<open>\<open>if current != nil && current.EntityVersion != nil\<close>, else Go's zero value.\<close>

definition version_or_zero :: "go_int option \<Rightarrow> go_int" where
  "version_or_zero v = (case v of None \<Rightarrow> 0 | Some n \<Rightarrow> n)"

definition props_or_nil :: "strmap option \<Rightarrow> strmap" where
  "props_or_nil m = (case m of None \<Rightarrow> [] | Some p \<Rightarrow> p)"

definition props_pointer :: "strmap \<Rightarrow> strmap option" where
  "props_pointer props = (if length props > 0 then Some (copyStringMap props) else None)"

section \<open>Principal roles\<close>

definition PolarisPrincipalRole_finalize ::
  "env \<Rightarrow> PolarisPrincipalRole \<Rightarrow> Client \<Rightarrow> string \<Rightarrow> goerr option io" where
  "PolarisPrincipalRole_finalize E pr pc name =
     remote_delete E OPrincipalRole pr ''principal-roles/delete'' ''delete principal role''
       (DeletePrincipalRoleWithResponse E pc name)"

definition PolarisPrincipalRole_getRole ::
  "env \<Rightarrow> Client \<Rightarrow> string \<Rightarrow> (goerr + PrincipalRole option option) io" where
  "PolarisPrincipalRole_getRole E pc name =
     remote_get ''principal-roles/get'' ''get principal role'' (GetPrincipalRoleWithResponse E pc name)"

definition PolarisPrincipalRole_createRole ::
  "env \<Rightarrow> Client \<Rightarrow> string \<Rightarrow> strmap \<Rightarrow> goerr option io" where
  "PolarisPrincipalRole_createRole E pc name props =
     (let role = \<lparr>mprEntityVersion = None, mprName = name, mprProperties = props_pointer props\<rparr> in
      remote_change ''principal-roles/create'' ''create principal role'' [StatusConflict]
        (CreatePrincipalRoleWithResponse E pc \<lparr>prqPrincipalRole = Some role\<rparr>))"

definition PolarisPrincipalRole_updateRole ::
  "env \<Rightarrow> Client \<Rightarrow> string \<Rightarrow> PrincipalRole \<Rightarrow> strmap \<Rightarrow> goerr option io" where
  "PolarisPrincipalRole_updateRole E pc name current props =
     remote_change ''principal-roles/update'' ''update principal role'' []
       (UpdatePrincipalRoleWithResponse E pc name
         \<lparr>urCurrentEntityVersion = version_or_zero (mprEntityVersion current),
          urProperties = copyStringMap props\<rparr>)"

definition PolarisPrincipalRole_driftsFrom :: "PolarisPrincipalRole \<Rightarrow> PrincipalRole \<Rightarrow> bool" where
  "PolarisPrincipalRole_driftsFrom pr current \<longleftrightarrow>
     \<not> equalProperties (props_or_nil (mprProperties current)) (prProperties (crSpec pr))"

definition PolarisPrincipalRole_finish :: "env \<Rightarrow> PolarisPrincipalRole \<Rightarrow> outcome io" where
  "PolarisPrincipalRole_finish E pr =
     finish E OPrincipalRole pr ''principal role state matches spec'' ''principal role is reconciled''"

definition PolarisPrincipalRole_reconcileObject ::
  "env \<Rightarrow> reconciler \<Rightarrow> PolarisPrincipalRole \<Rightarrow> outcome io" where
  "PolarisPrincipalRole_reconcileObject E r pr =
     (let deleting = isDeleting (crMeta pr) in do {
      connRes \<leftarrow> getConnection E (prConnectionRef (crSpec pr)) (objNamespace (crMeta pr));
      case connRes of
        Inl err \<Rightarrow> resolveFail E OPrincipalRole pr deleting ReasonRefError err
      | Inr conn \<Rightarrow> do {
      pcRes \<leftarrow> builder E r conn;
      case pcRes of
        Inl err \<Rightarrow> resolveFail E OPrincipalRole pr deleting ReasonAuthError err
      | Inr pc \<Rightarrow>
      if \<not> deleting \<and> \<not> parentReady E (conditions (crStatus conn)) then
        waitForDependency E OPrincipalRole pr (''PolarisConnection '' @ objName (crMeta conn))
      else
      let name = polarisName (prName (crSpec pr)) (objName (crMeta pr)) in
      if deleting then returning (PolarisPrincipalRole_finalize E pr pc name)
      else withFinalizer E OPrincipalRole pr (do {
      got \<leftarrow> PolarisPrincipalRole_getRole E pc name;
      case got of
        Inl err \<Rightarrow> failStatus E OPrincipalRole pr ReasonPolarisError err err
      | Inr None \<Rightarrow> do {
          res \<leftarrow> PolarisPrincipalRole_createRole E pc name (prProperties (crSpec pr));
          case res of
            Some err \<Rightarrow> failStatus E OPrincipalRole pr ReasonPolarisError err err
          | None \<Rightarrow> PolarisPrincipalRole_finish E pr
        }
      | Inr (Some None) \<Rightarrow> State_Monad.return Panics
      | Inr (Some (Some current)) \<Rightarrow>
          if PolarisPrincipalRole_driftsFrom pr current then do {
            res \<leftarrow> PolarisPrincipalRole_updateRole E pc name current (prProperties (crSpec pr));
            case res of
              Some err \<Rightarrow> failStatus E OPrincipalRole pr ReasonSyncFailed err err
            | None \<Rightarrow> PolarisPrincipalRole_finish E pr
          }
          else PolarisPrincipalRole_finish E pr
      })
      }
     })"

definition PolarisPrincipalRole_Reconcile ::
  "env \<Rightarrow> reconciler \<Rightarrow> NamespacedName \<Rightarrow> outcome io" where
  "PolarisPrincipalRole_Reconcile E r =
     reconcile_with E (get_PolarisPrincipalRole E) OPrincipalRole
       (PolarisPrincipalRole_reconcileObject E r)"

lemma after_PolarisPrincipalRole_finish:
  assumes "\<not> isDeleting (crMeta pr)" "attempts (effects pre)" "sync_run (effects pre)"
    "may_act E (OPrincipalRole pr) pre"
  shows "after pre (PolarisPrincipalRole_finish E pr) (lifecycle E (OPrincipalRole pr))"
  unfolding PolarisPrincipalRole_finish_def
  by (rule principal_role_kind.after_finish) (simp_all add: assms)

lemmas PolarisPrincipalRole_ops = PolarisPrincipalRole_finalize_def
  PolarisPrincipalRole_getRole_def PolarisPrincipalRole_createRole_def
  PolarisPrincipalRole_updateRole_def
  DeletePrincipalRoleWithResponse_def ParseDeletePrincipalRoleWrapper_def
  GetPrincipalRoleWithResponse_def ParseGetPrincipalRoleWrapper_def
  CreatePrincipalRoleWithResponse_def ParseCreatePrincipalRoleWrapper_def
  UpdatePrincipalRoleWithResponse_def ParseUpdatePrincipalRoleWrapper_def

lemma PolarisPrincipalRole_refines:
  assumes "quiet_builder r"
  shows "valid (PolarisPrincipalRole_reconcileObject E r pr) (lifecycle E (OPrincipalRole pr))"
  unfolding PolarisPrincipalRole_reconcileObject_def PolarisPrincipalRole_ops Let_def
  by (rule valid_after, intro known step vc valid_builder assms valid_remote_get
      valid_remote_change principal_role_kind.after_resolveFail principal_role_kind.after_wait
      principal_role_kind.after_withFinalizer principal_role_kind.after_failStatus
      principal_role_kind.after_remote_delete after_PolarisPrincipalRole_finish)
    (auto simp: protocol_defs intro!: lifecycle.crashed)

section \<open>Catalog roles\<close>

definition PolarisCatalogRole_finalize ::
  "env \<Rightarrow> PolarisCatalogRole \<Rightarrow> Client \<Rightarrow> string \<Rightarrow> string \<Rightarrow> goerr option io" where
  "PolarisCatalogRole_finalize E cr pc catalogName roleName =
     remote_delete E OCatalogRole cr ''catalog-roles/delete'' ''delete catalog role''
       (DeleteCatalogRoleWithResponse E pc catalogName roleName)"

definition PolarisCatalogRole_getRole ::
  "env \<Rightarrow> Client \<Rightarrow> string \<Rightarrow> string \<Rightarrow> (goerr + CatalogRole option option) io" where
  "PolarisCatalogRole_getRole E pc catalogName roleName =
     remote_get ''catalog-roles/get'' ''get catalog role''
       (GetCatalogRoleWithResponse E pc catalogName roleName)"

definition PolarisCatalogRole_createRole ::
  "env \<Rightarrow> Client \<Rightarrow> string \<Rightarrow> string \<Rightarrow> strmap \<Rightarrow> goerr option io" where
  "PolarisCatalogRole_createRole E pc catalogName roleName props =
     (let role = \<lparr>mcrEntityVersion = None, mcrName = roleName, mcrProperties = props_pointer props\<rparr> in
      remote_change ''catalog-roles/create'' ''create catalog role'' [StatusConflict]
        (CreateCatalogRoleWithResponse E pc catalogName \<lparr>crqCatalogRole = Some role\<rparr>))"

definition PolarisCatalogRole_updateRole ::
  "env \<Rightarrow> Client \<Rightarrow> string \<Rightarrow> string \<Rightarrow> CatalogRole \<Rightarrow> strmap \<Rightarrow> goerr option io" where
  "PolarisCatalogRole_updateRole E pc catalogName roleName current props =
     remote_change ''catalog-roles/update'' ''update catalog role'' []
       (UpdateCatalogRoleWithResponse E pc catalogName roleName
         \<lparr>urCurrentEntityVersion = version_or_zero (mcrEntityVersion current),
          urProperties = copyStringMap props\<rparr>)"

definition PolarisCatalogRole_driftsFrom :: "PolarisCatalogRole \<Rightarrow> CatalogRole \<Rightarrow> bool" where
  "PolarisCatalogRole_driftsFrom cr current \<longleftrightarrow>
     \<not> equalProperties (props_or_nil (mcrProperties current)) (crlProperties (crSpec cr))"

definition PolarisCatalogRole_finish :: "env \<Rightarrow> PolarisCatalogRole \<Rightarrow> outcome io" where
  "PolarisCatalogRole_finish E cr =
     finish E OCatalogRole cr ''catalog role state matches spec'' ''catalog role is reconciled''"

definition PolarisCatalogRole_reconcileObject ::
  "env \<Rightarrow> reconciler \<Rightarrow> PolarisCatalogRole \<Rightarrow> outcome io" where
  "PolarisCatalogRole_reconcileObject E r cr =
     (let deleting = isDeleting (crMeta cr) in do {
      catRes \<leftarrow> getCatalog E (crlCatalogRef (crSpec cr)) (objNamespace (crMeta cr));
      case catRes of
        Inl err \<Rightarrow> resolveFail E OCatalogRole cr deleting ReasonRefError err
      | Inr cat \<Rightarrow>
      if \<not> deleting \<and> \<not> parentReady E (conditions (crStatus cat)) then
        waitForDependency E OCatalogRole cr (''PolarisCatalog '' @ objName (crMeta cat))
      else do {
      connRes \<leftarrow> getConnection E (catConnectionRef (crSpec cat)) (objNamespace (crMeta cat));
      case connRes of
        Inl err \<Rightarrow> resolveFail E OCatalogRole cr deleting ReasonRefError err
      | Inr conn \<Rightarrow> do {
      pcRes \<leftarrow> builder E r conn;
      case pcRes of
        Inl err \<Rightarrow> resolveFail E OCatalogRole cr deleting ReasonAuthError err
      | Inr pc \<Rightarrow>
      let catalogName = polarisName (catName (crSpec cat)) (objName (crMeta cat));
          roleName = polarisName (crlName (crSpec cr)) (objName (crMeta cr)) in
      if deleting then returning (PolarisCatalogRole_finalize E cr pc catalogName roleName)
      else withFinalizer E OCatalogRole cr (do {
      got \<leftarrow> PolarisCatalogRole_getRole E pc catalogName roleName;
      case got of
        Inl err \<Rightarrow> failStatus E OCatalogRole cr ReasonPolarisError err err
      | Inr None \<Rightarrow> do {
          res \<leftarrow> PolarisCatalogRole_createRole E pc catalogName roleName (crlProperties (crSpec cr));
          case res of
            Some err \<Rightarrow>
              if IsNotFound (Some err) then
                waitForDependency E OCatalogRole cr (''catalog '' @ catalogName @ '' (Polaris-side)'')
              else failStatus E OCatalogRole cr ReasonPolarisError err err
          | None \<Rightarrow> PolarisCatalogRole_finish E cr
        }
      | Inr (Some None) \<Rightarrow> State_Monad.return Panics
      | Inr (Some (Some current)) \<Rightarrow>
          if PolarisCatalogRole_driftsFrom cr current then do {
            res \<leftarrow> PolarisCatalogRole_updateRole E pc catalogName roleName current
                     (crlProperties (crSpec cr));
            case res of
              Some err \<Rightarrow> failStatus E OCatalogRole cr ReasonSyncFailed err err
            | None \<Rightarrow> PolarisCatalogRole_finish E cr
          }
          else PolarisCatalogRole_finish E cr
      })
      }
      }
     })"

definition PolarisCatalogRole_Reconcile ::
  "env \<Rightarrow> reconciler \<Rightarrow> NamespacedName \<Rightarrow> outcome io" where
  "PolarisCatalogRole_Reconcile E r =
     reconcile_with E (get_PolarisCatalogRole E) OCatalogRole
       (PolarisCatalogRole_reconcileObject E r)"

lemma after_PolarisCatalogRole_finish:
  assumes "\<not> isDeleting (crMeta cr)" "attempts (effects pre)" "sync_run (effects pre)"
    "may_act E (OCatalogRole cr) pre"
  shows "after pre (PolarisCatalogRole_finish E cr) (lifecycle E (OCatalogRole cr))"
  unfolding PolarisCatalogRole_finish_def
  by (rule catalog_role_kind.after_finish) (simp_all add: assms)

lemmas PolarisCatalogRole_ops = PolarisCatalogRole_finalize_def
  PolarisCatalogRole_getRole_def PolarisCatalogRole_createRole_def
  PolarisCatalogRole_updateRole_def
  DeleteCatalogRoleWithResponse_def ParseDeleteCatalogRoleWrapper_def
  GetCatalogRoleWithResponse_def ParseGetCatalogRoleWrapper_def
  CreateCatalogRoleWithResponse_def ParseCreateCatalogRoleWrapper_def
  UpdateCatalogRoleWithResponse_def ParseUpdateCatalogRoleWrapper_def

lemma PolarisCatalogRole_refines:
  assumes "quiet_builder r"
  shows "valid (PolarisCatalogRole_reconcileObject E r cr) (lifecycle E (OCatalogRole cr))"
  unfolding PolarisCatalogRole_reconcileObject_def PolarisCatalogRole_ops Let_def
  by (rule valid_after, intro known step vc valid_builder assms valid_remote_get
      valid_remote_change catalog_role_kind.after_resolveFail catalog_role_kind.after_wait
      catalog_role_kind.after_withFinalizer catalog_role_kind.after_failStatus
      catalog_role_kind.after_remote_delete after_PolarisCatalogRole_finish)
    (auto simp: protocol_defs intro!: lifecycle.crashed)

interpretation principal_role_managed: managed_resource "\<lambda>E. PolarisPrincipalRole_Reconcile E production" KPrincipalRole
  by unfold_locales
    (simp add: PolarisPrincipalRole_Reconcile_def valid_reconcile_with PolarisPrincipalRole_refines)

interpretation catalog_role_managed: managed_resource "\<lambda>E. PolarisCatalogRole_Reconcile E production" KCatalogRole
  by unfold_locales
    (simp add: PolarisCatalogRole_Reconcile_def valid_reconcile_with PolarisCatalogRole_refines)

end
