(* ===== verification/Binding_Controllers.thy ===== *)
theory Binding_Controllers
  imports Lifecycle
begin

text \<open>
  \<open>internal/controller/polarisprincipalrolebinding_controller.go\<close> and
  \<open>polariscatalogrolebinding_controller.go\<close>: the reconcilers of the two bindings, each one
  idempotent assignment.
\<close>

section \<open>Principal role bindings\<close>

definition PolarisPrincipalRoleBinding_finalize ::
  "env \<Rightarrow> PolarisPrincipalRoleBinding \<Rightarrow> Client \<Rightarrow> string \<Rightarrow> string \<Rightarrow> goerr option io" where
  "PolarisPrincipalRoleBinding_finalize E b pc principalName roleName =
     remote_delete E OPrincipalRoleBinding b ''principal-role-binding/revoke'' ''revoke principal role''
       (RevokePrincipalRoleWithResponse E pc principalName roleName)"

definition principal_role_assignment :: "string \<Rightarrow> GrantPrincipalRoleRequest" where
  "principal_role_assignment roleName =
     \<lparr>prqPrincipalRole = Some
        \<lparr>mprEntityVersion = None, mprName = roleName, mprProperties = None\<rparr>\<rparr>"

definition PolarisPrincipalRoleBinding_reconcileObject ::
  "env \<Rightarrow> reconciler \<Rightarrow> PolarisPrincipalRoleBinding \<Rightarrow> outcome io" where
  "PolarisPrincipalRoleBinding_reconcileObject E r b =
     (let deleting = isDeleting (crMeta b) in do {
      ppRes \<leftarrow> getPrincipal E (prbPrincipalRef (crSpec b)) (objNamespace (crMeta b));
      case ppRes of
        Inl err \<Rightarrow> resolveFail E OPrincipalRoleBinding b deleting ReasonRefError err
      | Inr prin \<Rightarrow>
      if \<not> deleting \<and> \<not> parentReady E (conditions (crStatus prin)) then
        waitForDependency E OPrincipalRoleBinding b
          (''PolarisPrincipal '' @ objName (crMeta prin))
      else do {
      prRes \<leftarrow> getPrincipalRole E (prbPrincipalRoleRef (crSpec b)) (objNamespace (crMeta b));
      case prRes of
        Inl err \<Rightarrow> resolveFail E OPrincipalRoleBinding b deleting ReasonRefError err
      | Inr role \<Rightarrow>
      if \<not> deleting \<and> \<not> parentReady E (conditions (crStatus role)) then
        waitForDependency E OPrincipalRoleBinding b
          (''PolarisPrincipalRole '' @ objName (crMeta role))
      else do {
      connRes \<leftarrow> getConnection E (prConnectionRef (crSpec role)) (objNamespace (crMeta role));
      case connRes of
        Inl err \<Rightarrow> resolveFail E OPrincipalRoleBinding b deleting ReasonRefError err
      | Inr conn \<Rightarrow> do {
      pcRes \<leftarrow> builder E r conn;
      case pcRes of
        Inl err \<Rightarrow> resolveFail E OPrincipalRoleBinding b deleting ReasonAuthError err
      | Inr pc \<Rightarrow>
      let principalName = polarisName (ppName (crSpec prin)) (objName (crMeta prin));
          roleName = polarisName (prName (crSpec role)) (objName (crMeta role)) in
      if deleting then returning (PolarisPrincipalRoleBinding_finalize E b pc principalName roleName)
      else withFinalizer E OPrincipalRoleBinding b (do {
      res \<leftarrow> AssignPrincipalRoleWithResponse E pc principalName (principal_role_assignment roleName);
      case res of
        Inl err \<Rightarrow> failStatus E OPrincipalRoleBinding b ReasonPolarisError err
                     (ErrWrap ''assign principal role: '' err)
      | Inr resp \<Rightarrow>
          if wStatusCode resp = StatusNotFound then
            waitForDependency E OPrincipalRoleBinding b ''principal/principal-role (Polaris-side)''
          else case api_failure ''principal-role-binding/assign'' [StatusConflict]
                      (wStatusCode resp) (wBody resp) of
            Some err \<Rightarrow> failStatus E OPrincipalRoleBinding b ReasonPolarisError err err
          | None \<Rightarrow> finish E OPrincipalRoleBinding b ''principal role binding active''
                      ''principal is assigned the role''
      })
      }
      }
      }
     })"

definition PolarisPrincipalRoleBinding_Reconcile ::
  "env \<Rightarrow> reconciler \<Rightarrow> NamespacedName \<Rightarrow> outcome io" where
  "PolarisPrincipalRoleBinding_Reconcile E r =
     reconcile_with E (get_PolarisPrincipalRoleBinding E) OPrincipalRoleBinding
       (PolarisPrincipalRoleBinding_reconcileObject E r)"

lemmas PolarisPrincipalRoleBinding_ops = PolarisPrincipalRoleBinding_finalize_def
  RevokePrincipalRoleWithResponse_def ParseRevokePrincipalRoleWrapper_def
  AssignPrincipalRoleWithResponse_def ParseAssignPrincipalRoleWrapper_def

lemma PolarisPrincipalRoleBinding_refines:
  assumes "quiet_builder r"
  shows "valid (PolarisPrincipalRoleBinding_reconcileObject E r b)
    (lifecycle E (OPrincipalRoleBinding b))"
  unfolding PolarisPrincipalRoleBinding_reconcileObject_def PolarisPrincipalRoleBinding_ops Let_def
  by (rule valid_after, intro known step vc valid_builder assms valid_call_parse
      principal_role_binding_kind.after_resolveFail principal_role_binding_kind.after_wait
      principal_role_binding_kind.after_withFinalizer
      principal_role_binding_kind.after_failStatus
      principal_role_binding_kind.after_remote_delete principal_role_binding_kind.after_finish)
    (auto simp: protocol_defs)

section \<open>Catalog role bindings\<close>

definition PolarisCatalogRoleBinding_finalize ::
  "env \<Rightarrow> PolarisCatalogRoleBinding \<Rightarrow> Client \<Rightarrow> string \<Rightarrow> string \<Rightarrow> string \<Rightarrow> goerr option io" where
  "PolarisCatalogRoleBinding_finalize E b pc principalRoleName catalogName catalogRoleName =
     remote_delete E OCatalogRoleBinding b ''catalog-role-binding/revoke'' ''revoke catalog role''
       (RevokeCatalogRoleFromPrincipalRoleWithResponse E pc principalRoleName catalogName
         catalogRoleName)"

definition catalog_role_assignment :: "string \<Rightarrow> GrantCatalogRoleRequest" where
  "catalog_role_assignment catalogRoleName =
     \<lparr>crqCatalogRole = Some
        \<lparr>mcrEntityVersion = None, mcrName = catalogRoleName, mcrProperties = None\<rparr>\<rparr>"

definition PolarisCatalogRoleBinding_reconcileObject ::
  "env \<Rightarrow> reconciler \<Rightarrow> PolarisCatalogRoleBinding \<Rightarrow> outcome io" where
  "PolarisCatalogRoleBinding_reconcileObject E r b =
     (let deleting = isDeleting (crMeta b) in do {
      prRes \<leftarrow> getPrincipalRole E (crbPrincipalRoleRef (crSpec b)) (objNamespace (crMeta b));
      case prRes of
        Inl err \<Rightarrow> resolveFail E OCatalogRoleBinding b deleting ReasonRefError err
      | Inr pr \<Rightarrow>
      if \<not> deleting \<and> \<not> parentReady E (conditions (crStatus pr)) then
        waitForDependency E OCatalogRoleBinding b (''PolarisPrincipalRole '' @ objName (crMeta pr))
      else do {
      crRes \<leftarrow> getCatalogRole E (crbCatalogRoleRef (crSpec b)) (objNamespace (crMeta b));
      case crRes of
        Inl err \<Rightarrow> resolveFail E OCatalogRoleBinding b deleting ReasonRefError err
      | Inr cr \<Rightarrow>
      if \<not> deleting \<and> \<not> parentReady E (conditions (crStatus cr)) then
        waitForDependency E OCatalogRoleBinding b (''PolarisCatalogRole '' @ objName (crMeta cr))
      else do {
      catRes \<leftarrow> getCatalog E (crlCatalogRef (crSpec cr)) (objNamespace (crMeta cr));
      case catRes of
        Inl err \<Rightarrow> resolveFail E OCatalogRoleBinding b deleting ReasonRefError err
      | Inr cat \<Rightarrow> do {
      connRes \<leftarrow> getConnection E (catConnectionRef (crSpec cat)) (objNamespace (crMeta cat));
      case connRes of
        Inl err \<Rightarrow> resolveFail E OCatalogRoleBinding b deleting ReasonRefError err
      | Inr conn \<Rightarrow> do {
      pcRes \<leftarrow> builder E r conn;
      case pcRes of
        Inl err \<Rightarrow> resolveFail E OCatalogRoleBinding b deleting ReasonAuthError err
      | Inr pc \<Rightarrow>
      let principalRoleName = polarisName (prName (crSpec pr)) (objName (crMeta pr));
          catalogRoleName = polarisName (crlName (crSpec cr)) (objName (crMeta cr));
          catalogName = polarisName (catName (crSpec cat)) (objName (crMeta cat)) in
      if deleting then
        returning (PolarisCatalogRoleBinding_finalize E b pc principalRoleName catalogName
          catalogRoleName)
      else withFinalizer E OCatalogRoleBinding b (do {
      res \<leftarrow> AssignCatalogRoleToPrincipalRoleWithResponse E pc principalRoleName catalogName
               (catalog_role_assignment catalogRoleName);
      case res of
        Inl err \<Rightarrow> failStatus E OCatalogRoleBinding b ReasonPolarisError err
                     (ErrWrap ''assign catalog role: '' err)
      | Inr resp \<Rightarrow>
          if wStatusCode resp = StatusNotFound then
            waitForDependency E OCatalogRoleBinding b ''principal-role/catalog-role (Polaris-side)''
          else case api_failure ''catalog-role-binding/assign'' [StatusConflict]
                      (wStatusCode resp) (wBody resp) of
            Some err \<Rightarrow> failStatus E OCatalogRoleBinding b ReasonPolarisError err err
          | None \<Rightarrow> finish E OCatalogRoleBinding b ''catalog role binding active''
                      ''catalog role is attached to principal role''
      })
      }
      }
      }
      }
     })"

definition PolarisCatalogRoleBinding_Reconcile ::
  "env \<Rightarrow> reconciler \<Rightarrow> NamespacedName \<Rightarrow> outcome io" where
  "PolarisCatalogRoleBinding_Reconcile E r =
     reconcile_with E (get_PolarisCatalogRoleBinding E) OCatalogRoleBinding
       (PolarisCatalogRoleBinding_reconcileObject E r)"

lemmas PolarisCatalogRoleBinding_ops = PolarisCatalogRoleBinding_finalize_def
  RevokeCatalogRoleFromPrincipalRoleWithResponse_def
  ParseRevokeCatalogRoleFromPrincipalRoleWrapper_def
  AssignCatalogRoleToPrincipalRoleWithResponse_def
  ParseAssignCatalogRoleToPrincipalRoleWrapper_def

lemma PolarisCatalogRoleBinding_refines:
  assumes "quiet_builder r"
  shows "valid (PolarisCatalogRoleBinding_reconcileObject E r b)
    (lifecycle E (OCatalogRoleBinding b))"
  unfolding PolarisCatalogRoleBinding_reconcileObject_def PolarisCatalogRoleBinding_ops Let_def
  by (rule valid_after, intro known step vc valid_builder assms valid_call_parse
      catalog_role_binding_kind.after_resolveFail catalog_role_binding_kind.after_wait
      catalog_role_binding_kind.after_withFinalizer catalog_role_binding_kind.after_failStatus
      catalog_role_binding_kind.after_remote_delete catalog_role_binding_kind.after_finish)
    (auto simp: protocol_defs)

interpretation principal_role_binding_managed: managed_resource "\<lambda>E. PolarisPrincipalRoleBinding_Reconcile E production" KPrincipalRoleBinding
  by unfold_locales
    (simp add: PolarisPrincipalRoleBinding_Reconcile_def valid_reconcile_with PolarisPrincipalRoleBinding_refines)

interpretation catalog_role_binding_managed: managed_resource "\<lambda>E. PolarisCatalogRoleBinding_Reconcile E production" KCatalogRoleBinding
  by unfold_locales
    (simp add: PolarisCatalogRoleBinding_Reconcile_def valid_reconcile_with PolarisCatalogRoleBinding_refines)

end
