(* ===== verification/Grant_Controller.thy ===== *)
theory Grant_Controller
  imports Lifecycle
begin

text \<open>
  \<open>internal/controller/polarisgrant_controller.go\<close>: the reconciler of \<open>PolarisGrant\<close>, which
  builds the grant payload by hand. The payload is a \<open>map[string]any\<close>, here its list of
  entries; \<open>json.Marshal\<close> of strings and lists of strings cannot fail.
\<close>

section \<open>The payload\<close>

definition grant_target_name ::
  "env \<Rightarrow> PolarisGrant \<Rightarrow> (string \<times> json) list \<Rightarrow> (goerr + (string \<times> json) list) io" where
  "grant_target_name E g body =
     (let target = grTarget (crSpec g); ns = objNamespace (crMeta g) in
      if gtType target = GrantTargetNamespace then State_Monad.return (Inr body)
      else if gtType target = GrantTargetTable then
        (case gtTableRef target of
           None \<Rightarrow> State_Monad.return
             (Inl (ErrNew ''target.tableRef is required when target.type is table''))
         | Some ref \<Rightarrow> do {
             r \<leftarrow> kget (get_PolarisTable E) OTable (ref_key ref ns);
             State_Monad.return (case r of
                 Inl err \<Rightarrow> Inl (ErrWrap ''resolve table ref: '' err)
               | Inr tbl \<Rightarrow> Inr (body @
                   [(''tableName'', JString (polarisName (tblName (crSpec tbl)) (objName (crMeta tbl))))]))
           })
      else if gtType target = GrantTargetView then
        (case gtViewRef target of
           None \<Rightarrow> State_Monad.return
             (Inl (ErrNew ''target.viewRef is required when target.type is view''))
         | Some ref \<Rightarrow> do {
             r \<leftarrow> kget (get_PolarisView E) OView (ref_key ref ns);
             State_Monad.return (case r of
                 Inl err \<Rightarrow> Inl (ErrWrap ''resolve view ref: '' err)
               | Inr view \<Rightarrow> Inr (body @
                   [(''viewName'', JString (polarisName (viewName (crSpec view)) (objName (crMeta view))))]))
           })
      else State_Monad.return
        (Inl (ErrNew (''unsupported target.type '' @ go_quote (gtType target)))))"

definition PolarisGrant_buildGrantBody ::
  "env \<Rightarrow> PolarisGrant \<Rightarrow> (goerr + (string \<times> json) list) io" where
  "PolarisGrant_buildGrantBody E g =
     (let target = grTarget (crSpec g);
          body = [(''type'', JString (gtType target)), (''privilege'', JString (grPrivilege (crSpec g)))] in
      if gtType target = GrantTargetCatalog then State_Monad.return (Inr body)
      else case gtNamespaceRef target of
        None \<Rightarrow> State_Monad.return (Inl (ErrNew
          ''target.namespaceRef is required when target.type is namespace, table, or view''))
      | Some ref \<Rightarrow> do {
          nsRes \<leftarrow> getNamespace E ref (objNamespace (crMeta g));
          case nsRes of
            Inl err \<Rightarrow> State_Monad.return (Inl (ErrWrap ''resolve namespace ref: '' err))
          | Inr ns \<Rightarrow> do {
              pathRes \<leftarrow> resolveNamespacePath E ns;
              case pathRes of
                Inl err \<Rightarrow> State_Monad.return (Inl (ErrWrap ''resolve namespace path: '' err))
              | Inr (path, _) \<Rightarrow> grant_target_name E g (body @ [(''namespace'', jstrings path)])
            }
        })"

definition grant_payload :: "(string \<times> json) list \<Rightarrow> json" where
  "grant_payload body = JObject [(''grant'', JObject body)]"

section \<open>Reconcile\<close>

definition PolarisGrant_finalize ::
  "env \<Rightarrow> PolarisGrant \<Rightarrow> Client \<Rightarrow> string \<Rightarrow> string \<Rightarrow> (string \<times> json) list \<Rightarrow> goerr option io" where
  "PolarisGrant_finalize E g pc catalogName roleName grantBody =
     remote_delete E OGrant g ''grants/revoke'' ''revoke grant''
       (RevokeGrantFromCatalogRoleWithBodyWithResponse E pc catalogName roleName
         (grant_payload grantBody))"

definition PolarisGrant_reconcileObject ::
  "env \<Rightarrow> reconciler \<Rightarrow> PolarisGrant \<Rightarrow> outcome io" where
  "PolarisGrant_reconcileObject E r g =
     (let deleting = isDeleting (crMeta g) in do {
      crRes \<leftarrow> getCatalogRole E (grCatalogRoleRef (crSpec g)) (objNamespace (crMeta g));
      case crRes of
        Inl err \<Rightarrow> resolveFail E OGrant g deleting ReasonRefError err
      | Inr cr \<Rightarrow>
      if \<not> deleting \<and> \<not> parentReady E (conditions (crStatus cr)) then
        waitForDependency E OGrant g (''PolarisCatalogRole '' @ objName (crMeta cr))
      else do {
      catRes \<leftarrow> getCatalog E (crlCatalogRef (crSpec cr)) (objNamespace (crMeta cr));
      case catRes of
        Inl err \<Rightarrow> resolveFail E OGrant g deleting ReasonRefError err
      | Inr cat \<Rightarrow> do {
      connRes \<leftarrow> getConnection E (catConnectionRef (crSpec cat)) (objNamespace (crMeta cat));
      case connRes of
        Inl err \<Rightarrow> resolveFail E OGrant g deleting ReasonRefError err
      | Inr conn \<Rightarrow> do {
      pcRes \<leftarrow> builder E r conn;
      case pcRes of
        Inl err \<Rightarrow> resolveFail E OGrant g deleting ReasonAuthError err
      | Inr pc \<Rightarrow>
      let catalogName = polarisName (catName (crSpec cat)) (objName (crMeta cat));
          roleName = polarisName (crlName (crSpec cr)) (objName (crMeta cr)) in do {
      bodyRes \<leftarrow> PolarisGrant_buildGrantBody E g;
      case bodyRes of
        Inl err \<Rightarrow> resolveFail E OGrant g deleting ReasonInvalidSpec err
      | Inr grantBody \<Rightarrow>
      if deleting then returning (PolarisGrant_finalize E g pc catalogName roleName grantBody)
      else withFinalizer E OGrant g (do {
      res \<leftarrow> AddGrantToCatalogRoleWithBodyWithResponse E pc catalogName roleName
               (grant_payload grantBody);
      case res of
        Inl err \<Rightarrow> failStatus E OGrant g ReasonPolarisError err (ErrWrap ''add grant: '' err)
      | Inr resp \<Rightarrow>
          if wStatusCode resp = StatusNotFound then
            waitForDependency E OGrant g ''grant target (Polaris-side)''
          else case api_failure ''grants/add'' [StatusConflict] (wStatusCode resp) (wBody resp) of
            Some err \<Rightarrow> failStatus E OGrant g ReasonPolarisError err err
          | None \<Rightarrow> finish E OGrant g ''grant active'' ''grant is reconciled''
      })
      }
      }
      }
      }
     })"

definition PolarisGrant_Reconcile :: "env \<Rightarrow> reconciler \<Rightarrow> NamespacedName \<Rightarrow> outcome io" where
  "PolarisGrant_Reconcile E r =
     reconcile_with E (get_PolarisGrant E) OGrant (PolarisGrant_reconcileObject E r)"

section \<open>Refinement\<close>

lemma quiet_buildGrantBody: "quiet (PolarisGrant_buildGrantBody E g)"
  unfolding quiet_def PolarisGrant_buildGrantBody_def grant_target_name_def Let_def
  by (intro known vc step valid_kget_cases) simp_all

lemmas PolarisGrant_ops = PolarisGrant_finalize_def
  RevokeGrantFromCatalogRoleWithBodyWithResponse_def ParseRevokeGrantFromCatalogRoleWrapper_def
  AddGrantToCatalogRoleWithBodyWithResponse_def ParseAddGrantToCatalogRoleWrapper_def

lemma PolarisGrant_refines:
  assumes "quiet_builder r"
  shows "valid (PolarisGrant_reconcileObject E r g) (lifecycle E (OGrant g))"
  unfolding PolarisGrant_reconcileObject_def PolarisGrant_ops Let_def
  by (rule valid_after, intro known step vc valid_builder assms valid_call_parse
      valid_quiet [OF quiet_buildGrantBody] grant_kind.after_resolveFail grant_kind.after_wait
      grant_kind.after_withFinalizer grant_kind.after_failStatus
      grant_kind.after_remote_delete grant_kind.after_finish)
    (auto simp: protocol_defs)

interpretation grant_managed: managed_resource "\<lambda>E. PolarisGrant_Reconcile E production" KGrant
  by unfold_locales
    (simp add: PolarisGrant_Reconcile_def valid_reconcile_with PolarisGrant_refines)

end
