(* ===== verification/Connection_Controller.thy ===== *)
theory Connection_Controller
  imports Lifecycle
begin

text \<open>
  \<open>internal/controller/polarisconnection_controller.go\<close>: the reconciler of
  \<open>PolarisConnection\<close>, which has no remote state: it proves the credentials by fetching a
  token and reports the outcome.
\<close>

definition connection_failed ::
  "env \<Rightarrow> PolarisConnection \<Rightarrow> string \<Rightarrow> string \<Rightarrow> goerr \<Rightarrow> outcome io" where
  "connection_failed E conn authMsg readyMsg err =
     (let gen = objGeneration (crMeta conn);
          conds = setNotReady E
            (setCondition E (conditions (crStatus conn)) ConditionAuthValid ConditionFalse gen
               ReasonAuthError authMsg)
            gen ReasonAuthError readyMsg in do {
        _ \<leftarrow> Status_Update E (OConnection (setObserved gen (setConds conds conn)));
        State_Monad.return (Returns noResult (Some err))
      })"

definition PolarisConnection_reconcileObject ::
  "env \<Rightarrow> reconciler \<Rightarrow> PolarisConnection \<Rightarrow> outcome io" where
  "PolarisConnection_reconcileObject E r conn =
     (if isDeleting (crMeta conn) then returning (removeFinalizer E OConnection conn)
      else do {
      pcRes \<leftarrow> builder E r conn;
      case pcRes of
        Inl err \<Rightarrow> connection_failed E conn (''cannot build client: '' @ Error err)
                     ''credentials could not be loaded'' err
      | Inr pc \<Rightarrow> do {
      ping \<leftarrow> Ping E pc;
      case ping of
        Some err \<Rightarrow> connection_failed E conn (''token exchange failed: '' @ Error err)
                      ''could not authenticate to Polaris'' err
      | None \<Rightarrow>
        let gen = objGeneration (crMeta conn);
            conds = setReady E
              (setCondition E (conditions (crStatus conn)) ConditionAuthValid ConditionTrue gen
                 ReasonCredentialsValid
                 ''successfully exchanged client credentials for an access token'')
              gen ''connection is healthy'' in do {
          err \<leftarrow> Status_Update E (OConnection (setObserved gen (setConds conds conn)));
          State_Monad.return (Returns noResult err)
        }
      }
     })"

definition PolarisConnection_Reconcile :: "env \<Rightarrow> reconciler \<Rightarrow> NamespacedName \<Rightarrow> outcome io" where
  "PolarisConnection_Reconcile E r =
     reconcile_with E (get_PolarisConnection E) OConnection (PolarisConnection_reconcileObject E r)"

section \<open>Abstract behaviour\<close>

text \<open>
  A pass over a connection: a deleted one loses its finalizer; a healthy one is written
  AuthValid and Ready, any other is written neither, and the error is returned. Nothing is
  ever sent to the API, only to the token endpoint.
\<close>

definition connection_pass :: "env \<Rightarrow> obj \<Rightarrow> outcome \<Rightarrow> event list \<Rightarrow> bool" where
  "connection_pass E ob out evs \<longleftrightarrow>
     (if isDeleting (obj_meta ob)
      then \<exists>err. finalizer_dropped E ob err (effects evs) \<and> out = Returns noResult err
      else \<exists>ob' cs msg err e.
        effects evs = [Stat ob' e] \<and> obj_meta ob' = obj_meta ob \<and> obj_observed ob' = gen_of ob \<and>
        (obj_conds ob' = setReady E
             (setCondition E cs ConditionAuthValid ConditionTrue (gen_of ob) ReasonCredentialsValid
               ''successfully exchanged client credentials for an access token'')
             (gen_of ob) ''connection is healthy'' \<and> out = Returns noResult e \<or>
         obj_conds ob' = setNotReady E
             (setCondition E cs ConditionAuthValid ConditionFalse (gen_of ob) ReasonAuthError msg)
             (gen_of ob) ReasonAuthError err \<and> (\<exists>x. out = Returns noResult (Some x))))"

lemma PolarisConnection_refines:
  assumes "quiet_builder r"
  shows "valid (PolarisConnection_reconcileObject E r conn) (connection_pass E (OConnection conn))"
  unfolding PolarisConnection_reconcileObject_def connection_failed_def returning_def Let_def
  by (rule valid_after, intro known step vc valid_builder assms valid_quiet [OF quiet_Ping]
      connection_kind.valid_removeFinalizer)
    (auto simp: connection_pass_def gen_of_def)

lemma PolarisConnection_pass:
  assumes "quiet_builder r"
  shows "valid (PolarisConnection_Reconcile E r req) (pass (connection_pass E) E KConnection req)"
  unfolding PolarisConnection_Reconcile_def
  by (rule valid_reconcile_with) (simp_all add: PolarisConnection_refines assms)

end
