(* ===== verification/Manager.thy ===== *)
theory Manager
  imports Catalog_Controller Namespace_Controller Table_Controller View_Controller
    Policy_Controller Principal_Controller Role_Controllers Binding_Controllers
    Grant_Controller Connection_Controller
begin

text \<open>
  The manager \<open>cmd/main.go\<close> starts: twelve controllers, one per kind, each with the production
  client builder. A work item is a kind and a key; controller-runtime hands it to the
  \<open>Reconcile\<close> method of that kind.
\<close>

fun Reconcile :: "env \<Rightarrow> kind \<Rightarrow> NamespacedName \<Rightarrow> outcome io" where
  "Reconcile E KConnection req = PolarisConnection_Reconcile E production req"
| "Reconcile E KCatalog req = PolarisCatalog_Reconcile E production req"
| "Reconcile E KNamespace req = PolarisNamespace_Reconcile E production req"
| "Reconcile E KTable req = PolarisTable_Reconcile E production req"
| "Reconcile E KView req = PolarisView_Reconcile E production req"
| "Reconcile E KPolicy req = PolarisPolicy_Reconcile E production req"
| "Reconcile E KPrincipal req = PolarisPrincipal_Reconcile E production req"
| "Reconcile E KPrincipalRole req = PolarisPrincipalRole_Reconcile E production req"
| "Reconcile E KCatalogRole req = PolarisCatalogRole_Reconcile E production req"
| "Reconcile E KPrincipalRoleBinding req =
     PolarisPrincipalRoleBinding_Reconcile E production req"
| "Reconcile E KCatalogRoleBinding req = PolarisCatalogRoleBinding_Reconcile E production req"
| "Reconcile E KGrant req = PolarisGrant_Reconcile E production req"

text \<open>
  Every kind but the connection meets the contract; the facts of the eleven interpretations
  are proved for the dispatcher by cases over the kind.
\<close>

lemma Reconcile_managed:
  assumes "k \<noteq> KConnection"
  shows "managed_resource (\<lambda>E. Reconcile E k) k"
  using assms
  unfolding managed_resource_def
  by (cases k) (simp_all add: catalog_managed.refines namespace_managed.refines
      table_managed.refines view_managed.refines policy_managed.refines
      principal_managed.refines principal_role_managed.refines catalog_role_managed.refines
      principal_role_binding_managed.refines catalog_role_binding_managed.refines
      grant_managed.refines)

end
