(* ===== verification/Sample_Runs.thy ===== *)
theory Sample_Runs
  imports Manager
begin

text \<open>
  Concrete runs: a server that answers every request of a method with one status, a token
  endpoint, a connection and one principal role. The witnesses of the properties evaluate
  them.
\<close>

definition sample_meta :: "int option \<Rightarrow> string list \<Rightarrow> objmeta" where
  "sample_meta del fins =
     \<lparr>objName = ''r'', objNamespace = ''n'', objGeneration = 2, objDeletionTimestamp = del,
      objFinalizers = fins\<rparr>"

definition sample_conditions :: "bool \<Rightarrow> Condition list" where
  "sample_conditions ready =
     [\<lparr>condType = ConditionReady,
       condStatus = (if ready then ConditionTrue else ConditionFalse),
       condObservedGeneration = 1, condReason = ReasonReady, condMessage = []\<rparr>]"

definition sample_connection :: "bool \<Rightarrow> PolarisConnection" where
  "sample_connection ready =
     \<lparr>crMeta = \<lparr>objName = ''c'', objNamespace = ''n'', objGeneration = 1,
                objDeletionTimestamp = None, objFinalizers = []\<rparr>,
      crSpec = \<lparr>connServerURL = ''http://p'', connTokenPath = ''/t'', connScope = [],
                connCredentialsSecretRef =
                  \<lparr>ccName = ''s'', ccClientIdKey = ''i'', ccClientSecretKey = ''k''\<rparr>,
                connCABundleSecretRef = None, connInsecureSkipVerify = False\<rparr>,
      crStatus = \<lparr>observedGeneration = 1, conditions = sample_conditions ready,
                  connServerVersion = []\<rparr>\<rparr>"

definition sample_role :: "int option \<Rightarrow> string list \<Rightarrow> PolarisPrincipalRole" where
  "sample_role del fins =
     \<lparr>crMeta = sample_meta del fins,
      crSpec = \<lparr>prConnectionRef = \<lparr>refName = ''c'', refNamespace = []\<rparr>, prName = [],
                prProperties = []\<rparr>,
      crStatus = \<lparr>observedGeneration = 1, conditions = []\<rparr>\<rparr>"

definition sample_secret :: Secret where
  "sample_secret =
     \<lparr>secretMeta = sample_meta None [], secretOwners = [],
      secretData = [(''i'', ''id''), (''k'', ''key'')]\<rparr>"

definition sample_answer :: "int \<Rightarrow> rawresp" where
  "sample_answer st = \<lparr>rrStatus = st, rrContentType = [], rrBody = [], rrReadErr = None\<rparr>"

definition sample_world :: "bool \<Rightarrow> PolarisPrincipalRole \<Rightarrow> (string \<Rightarrow> int) \<Rightarrow> env" where
  "sample_world ready role status = sample_env
     \<lparr>get_PolarisConnection := \<lambda>h k. Inr (sample_connection ready),
      get_PolarisPrincipalRole := \<lambda>h k. Inr role,
      get_Secret := \<lambda>h k. Inr sample_secret,
      token_post := \<lambda>h u f. Inr (sample_answer 200),
      http_Do := \<lambda>h u rq b. Inr (sample_answer (status (rqMethod rq))),
      codec := \<lparr>json_parse = \<lambda>s. Inr (JObject [(''access_token'', JString ''tok'')]),
               json_rest = \<lambda>t j. None\<rparr>\<rparr>"

definition sample_key :: NamespacedName where
  "sample_key = \<lparr>nnNamespace = ''n'', nnName = ''r''\<rparr>"

definition sample_start :: mstate where
  "sample_start = \<lparr>hist = [], tokCached = [], tokExpiresAt = 0\<rparr>"

definition creating_world :: env where
  "creating_world = sample_world True (sample_role None [PolarisFinalizer])
     (\<lambda>m. if m = ''GET'' then 404 else 201)"

definition deleting_world :: env where
  "deleting_world = sample_world True (sample_role (Some 1) [PolarisFinalizer]) (\<lambda>m. 204)"

definition waiting_world :: env where
  "waiting_world = sample_world False (sample_role None []) (\<lambda>m. 500)"

definition sample_trace :: "env \<Rightarrow> event list" where
  "sample_trace E = trace (Reconcile E KPrincipalRole sample_key) sample_start"

definition sample_result :: "env \<Rightarrow> outcome" where
  "sample_result E = result (Reconcile E KPrincipalRole sample_key) sample_start"

lemma lib_ok_world: "lib_ok (sample_world ready role status)"
  using lib_ok_sample unfolding lib_ok_def by (simp add: sample_world_def)

definition sample_catalog :: "PolarisCatalog" where
  "sample_catalog =
     \<lparr>crMeta = \<lparr>objName = ''c'', objNamespace = ''n'', objGeneration = 1, objDeletionTimestamp = None,
                objFinalizers = [PolarisFinalizer]\<rparr>,
      crSpec = \<lparr>catConnectionRef = \<lparr>refName = ''c'', refNamespace = []\<rparr>, catName = [], catType = [],
                catDefaultBaseLocation = ''file:///w'',
                catStorageConfig = \<lparr>scStorageType = StorageTypeFile, scAllowedLocations = [],
                  scS3 = None, scAzure = None, scGCS = None\<rparr>,
                catProperties = []\<rparr>,
      crStatus = \<lparr>observedGeneration = 1, conditions = sample_conditions True,
                  catPolarisCatalogID = []\<rparr>\<rparr>"

definition sample_namespace :: "string \<Rightarrow> string option \<Rightarrow> PolarisNamespace" where
  "sample_namespace name parent =
     \<lparr>crMeta = \<lparr>objName = name, objNamespace = ''n'', objGeneration = 1, objDeletionTimestamp = None,
                objFinalizers = [PolarisFinalizer]\<rparr>,
      crSpec = \<lparr>nsCatalogRef = \<lparr>refName = ''c'', refNamespace = []\<rparr>,
                nsParentRef = map_option (\<lambda>p. \<lparr>refName = p, refNamespace = []\<rparr>) parent,
                nsName = [], nsProperties = []\<rparr>,
      crStatus = \<lparr>observedGeneration = 1, conditions = sample_conditions True, nsFullPath = []\<rparr>\<rparr>"

text \<open>What the runs do, evaluated.\<close>

fun shows_call :: "op_class \<Rightarrow> effect \<Rightarrow> bool" where
  "shows_call c (Api rq ans) \<longleftrightarrow> op_class (rqOp rq) = c"
| "shows_call c _ \<longleftrightarrow> False"

fun shows_status :: "env \<Rightarrow> effect \<Rightarrow> bool" where
  "shows_status E (Stat ob e) \<longleftrightarrow> e = None \<and> parentReady E (obj_conds ob)"
| "shows_status E _ \<longleftrightarrow> False"

fun shows_update :: "effect \<Rightarrow> bool" where
  "shows_update (Upd ob e) \<longleftrightarrow> e = None"
| "shows_update _ \<longleftrightarrow> False"

definition reads_object :: "env \<Rightarrow> bool \<Rightarrow> event list \<Rightarrow> bool" where
  "reads_object E del evs \<longleftrightarrow>
     (case read_object evs of None \<Rightarrow> False
      | Some ob \<Rightarrow> isDeleting (obj_meta ob) = del \<and>
          ContainsFinalizer E (obj_meta ob) PolarisFinalizer)"

lemma creating_run:
  "list_ex (shows_call Create) (effects (sample_trace creating_world)) \<and>
   list_ex (shows_status creating_world) (effects (sample_trace creating_world)) \<and>
   reads_object creating_world False (sample_trace creating_world) \<and>
   sample_result creating_world = Returns noResult None"
  by code_simp

lemma deleting_run:
  "list_ex (shows_call Remove) (effects (sample_trace deleting_world)) \<and>
   list_ex shows_update (effects (sample_trace deleting_world)) \<and>
   reads_object deleting_world True (sample_trace deleting_world) \<and>
   sample_result deleting_world = Returns noResult None"
  by code_simp

lemma waiting_run: "sample_result waiting_world = Returns requeueLater None"
  by code_simp

lemma creating_calls:
  obtains rq ans where "Api rq ans \<in> set (effects (sample_trace creating_world))"
    "op_class (rqOp rq) = Create"
  using creating_run by (auto simp: list_ex_iff elim!: shows_call.elims)

lemma creating_status:
  obtains ob where "Stat ob None \<in> set (effects (sample_trace creating_world))"
    "parentReady creating_world (obj_conds ob)"
  using creating_run by (auto simp: list_ex_iff elim!: shows_status.elims)

lemma deleting_calls:
  obtains rq ans where "Api rq ans \<in> set (effects (sample_trace deleting_world))"
    "op_class (rqOp rq) = Remove"
  using deleting_run by (auto simp: list_ex_iff elim!: shows_call.elims)

lemma deleting_update:
  obtains ob where "Upd ob None \<in> set (effects (sample_trace deleting_world))"
  using deleting_run by (auto simp: list_ex_iff elim!: shows_update.elims)

lemma sample_reads:
  assumes "reads_object E del evs"
  obtains ob where "read_object evs = Some ob" "isDeleting (obj_meta ob) = del"
    "ContainsFinalizer E (obj_meta ob) PolarisFinalizer"
  using assms by (auto simp: reads_object_def split: option.splits)

lemmas sample_defs = sample_trace_def sample_result_def

text \<open>
  Two runs that fail: a server that answers the probe with 200 and no JSON body, and one that
  answers every request with 500.
\<close>

definition empty_answer_world :: env where
  "empty_answer_world = (sample_world True (sample_role None [PolarisFinalizer]) (\<lambda>m. 200))"

lemma empty_answer_run: "sample_result empty_answer_world = Panics"
  by code_simp

definition failing_world :: env where
  "failing_world = sample_world True (sample_role None [PolarisFinalizer]) (\<lambda>m. 500)"

definition sample_failure :: goerr where
  "sample_failure = ErrAPI \<lparr>apiStatusCode = 500, apiOp = ''principal-roles/get'', apiBody = []\<rparr>"

lemma failing_run:
  "reads_object failing_world False (sample_trace failing_world)"
  "sample_result failing_world = Returns noResult (Some sample_failure)"
  by code_simp+

end
