(* ===== verification/Namespace_Paths.thy ===== *)
theory Namespace_Paths
  imports Sample_Runs
begin

text \<open>
  What \<open>resolveNamespacePath\<close> (\<open>internal/controller/helpers.go\<close>) computes: the chain of
  \<open>parentRef\<close>s of a namespace as a relation on the reads, soundness of the loop against it in
  any run, and completeness and the reporting of cycles in a store that does not change.
\<close>

section \<open>Chains of parents\<close>

text \<open>
  \<open>ancestry ns evs chain\<close>: \<open>chain\<close> lists the ancestors of \<open>ns\<close> from the root down to \<open>ns\<close>
  itself, every one read through the \<open>parentRef\<close> of its child, and \<open>evs\<close> are these reads.
\<close>

inductive ancestry :: "PolarisNamespace \<Rightarrow> event list \<Rightarrow> PolarisNamespace list \<Rightarrow> bool" where
  ancestry_root: "nsParentRef (crSpec ns) = None \<Longrightarrow> ancestry ns [] [ns]"
| ancestry_step: "\<lbrakk>nsParentRef (crSpec ns) = Some ref; ancestry parent evs chain\<rbrakk> \<Longrightarrow>
    ancestry ns (EGet (ref_key ref (objNamespace (crMeta ns))) (Inr (ONamespace parent)) # evs)
      (chain @ [ns])"

lemma ancestry_length: "ancestry ns evs chain \<Longrightarrow> length chain = Suc (length evs)"
  by (induction rule: ancestry.induct) auto

lemma key_eqI: "nnName k = nnName l \<Longrightarrow> nnNamespace k = nnNamespace l \<Longrightarrow> k = (l :: NamespacedName)"
  by simp

definition walks_to ::
  "PolarisNamespace \<Rightarrow> nat \<Rightarrow> PolarisNamespace \<Rightarrow> string list \<Rightarrow> goerr + string list \<Rightarrow> event list \<Rightarrow> bool" where
  "walks_to ns n cur rest r evs \<longleftrightarrow> length evs \<le> n \<and>
     (\<forall>p. r = Inr p \<longrightarrow> (\<exists>chain. ancestry cur evs chain \<and> p = map ns_segment chain @ rest \<and>
        list_all (\<lambda>a. ns_catalog_key a = ns_catalog_key ns) chain))"

lemma walks_to_error: "length evs \<le> n \<Longrightarrow> walks_to ns n cur rest (Inl e) evs"
  by (simp add: walks_to_def)

lemma walks_to_root:
  "nsParentRef (crSpec cur) = None \<Longrightarrow> ns_catalog_key cur = ns_catalog_key ns \<Longrightarrow>
   walks_to ns n cur rest (Inr (ns_segment cur # rest)) []"
  by (auto simp: walks_to_def intro!: exI [of _ "[cur]"] ancestry_root)

lemma walks_to_parent:
  "nsParentRef (crSpec cur) = Some ref \<Longrightarrow> ns_catalog_key cur = ns_catalog_key ns \<Longrightarrow>
   walks_to ns n parent (ns_segment cur # rest) r evs \<Longrightarrow>
   walks_to ns (Suc n) cur rest r
     (EGet (ref_key ref (objNamespace (crMeta cur))) (Inr (ONamespace parent)) # evs)"
  by (fastforce simp: walks_to_def intro: ancestry_step)

lemma valid_walk_parents:
  assumes "ns_catalog_key cur = ns_catalog_key ns"
  shows "valid (walk_parents E ns n cur (ns_segment cur # rest)) (walks_to ns n cur rest)"
  using assms
proof (induction n arbitrary: cur rest)
  case 0
  then show ?case
    by (subst walk_parents.simps, simp only: nat.case, intro vc)
      (simp_all add: walks_to_root walks_to_error)
next
  case (Suc n)
  then show ?case
    by (subst walk_parents.simps, simp only: nat.case, intro vc)
      (auto simp: walks_to_root walks_to_error intro!: walks_to_parent valid_mono [OF Suc.IH])
qed

lemma valid_path_resolved:
  "valid (resolveNamespacePath E ns) (\<lambda>r evs'. \<forall>path cat. r = Inr (path, cat) \<longrightarrow>
    (\<exists>chain evs. ancestry ns evs chain \<and> path = map ns_segment chain \<and>
      evs' = evs @ [EGet (ns_catalog_key ns) (Inr (OCatalog cat))] \<and>
      list_all (\<lambda>a. ns_catalog_key a = ns_catalog_key ns) chain \<and> length chain \<le> maxDepth + 1))"
  unfolding resolveNamespacePath_def
  by (intro vc valid_mono [OF valid_walk_parents [OF refl]])
    (fastforce simp: walks_to_def ancestry_length split: sum.splits)+

text \<open>A store that does not change: chains of references in it, and cycles.\<close>

definition stored_parent :: "env \<Rightarrow> PolarisNamespace \<Rightarrow> PolarisNamespace \<Rightarrow> bool" where
  "stored_parent E ns parent \<longleftrightarrow> (case nsParentRef (crSpec ns) of None \<Rightarrow> False
     | Some ref \<Rightarrow> (\<forall>h. get_PolarisNamespace E h (ref_key ref (objNamespace (crMeta ns))) = Inr parent) \<and>
         ns_catalog_key parent = ns_catalog_key ns)"

fun stored_chain :: "env \<Rightarrow> PolarisNamespace \<Rightarrow> PolarisNamespace list \<Rightarrow> bool" where
  "stored_chain E ns [] \<longleftrightarrow> nsParentRef (crSpec ns) = None"
| "stored_chain E ns (p # ps) \<longleftrightarrow> stored_parent E ns p \<and> stored_chain E p ps"

lemma run_walk_chain:
  assumes "stored_chain E cur ps" "length ps \<le> n" "ns_catalog_key cur = ns_catalog_key ns"
  shows "fst (run_state (walk_parents E ns n cur path) s) =
    Inr (map ns_segment (rev ps) @ path)"
  using assms
proof (induction ps arbitrary: cur n path s)
  case Nil
  then show ?case by (subst walk_parents.simps) simp
next
  case (Cons p ps)
  then obtain m where "n = Suc m" by (cases n) auto
  with Cons show ?case
    by (subst walk_parents.simps) (auto simp: stored_parent_def kget_def Let_def split: option.splits)
qed

lemma run_walk_cycle:
  assumes "\<forall>i. stored_parent E (f i) (f (Suc i))" "ns_catalog_key (f 0) = ns_catalog_key ns"
  shows "fst (run_state (walk_parents E ns n (f 0) path) s) =
    Inl (ErrNew (''namespace parentRef chain exceeds '' @ show_nat maxDepth @ '' levels (cycle?)''))"
  using assms
proof (induction n arbitrary: f path s)
  case 0
  then show ?case
    by (subst walk_parents.simps) (auto simp: stored_parent_def dest!: spec [of _ 0] split: option.splits)
next
  case (Suc n)
  have "stored_parent E (f 0) (f 1)" using Suc.prems by simp
  then show ?case
    using Suc.IH [of "\<lambda>i. f (Suc i)"] Suc.prems
    by (subst walk_parents.simps) (auto simp: stored_parent_def kget_def Let_def split: option.splits)
qed

lemma show_maxDepth: "show_nat maxDepth = ''32''"
  by code_simp

section \<open>Sample stores\<close>

text \<open>\<open>b\<close> has the parent \<open>a\<close>, and \<open>l\<close> is its own parent.\<close>

definition tree_world :: env where
  "tree_world = sample_env
     \<lparr>get_PolarisNamespace := \<lambda>h k. Inr (if nnName k = ''l'' then sample_namespace ''l'' (Some ''l'')
        else sample_namespace ''a'' None),
      get_PolarisCatalog := \<lambda>h k. Inr sample_catalog\<rparr>"

lemmas tree_defs = tree_world_def sample_namespace_def ref_key_def resolveNamespace_def
  ns_catalog_key_def ns_segment_def polarisName_def stored_parent_def

lemma tree_run:
  "result (resolveNamespacePath tree_world (sample_namespace ''b'' (Some ''a''))) sample_start =
   Inr ([''a'', ''b''], sample_catalog)"
  by code_simp

section \<open>Properties\<close>

text \<open>
  C29. A resolved path is the chain of names from the root namespace
  down to the object, each ancestor read through its child's reference; all of them name the
  same catalog, which is the one returned and the last thing read; the chain has at most 33
  members.
\<close>

theorem resolveNamespacePath_sound:
  assumes "result (resolveNamespacePath E ns) s = Inr (path, cat)"
  shows "\<exists>chain evs. ancestry ns evs chain \<and> path = map ns_segment chain \<and>
    trace (resolveNamespacePath E ns) s = evs @ [EGet (ns_catalog_key ns) (Inr (OCatalog cat))] \<and>
    list_all (\<lambda>a. ns_catalog_key a = ns_catalog_key ns) chain \<and> length chain \<le> maxDepth + 1"
  using validD [OF valid_path_resolved, of E ns s] assms by blast

theorem resolveNamespacePath_sound_witness:
  "\<exists>chain evs. ancestry (sample_namespace ''b'' (Some ''a'')) evs chain \<and>
     [''a'', ''b''] = map ns_segment chain"
  using resolveNamespacePath_sound [OF tree_run] by (elim exE conjE) (intro exI conjI)

text \<open>
  C30. In a store that does not change, a chain of at most 32
  parents that all name the object's catalog is resolved to its path.
\<close>

theorem resolveNamespacePath_complete:
  assumes "stored_chain E ns ps" "length ps \<le> maxDepth"
    and "\<forall>h. get_PolarisCatalog E h (ns_catalog_key ns) = Inr cat"
  shows "result (resolveNamespacePath E ns) s = Inr (map ns_segment (rev (ns # ps)), cat)"
  using run_walk_chain [OF assms(1,2) refl] assms(3)
  by (simp add: resolveNamespacePath_def result_def kget_def split_beta)

theorem resolveNamespacePath_complete_witness:
  "result (resolveNamespacePath tree_world (sample_namespace ''b'' (Some ''a''))) sample_start =
   Inr ([''a'', ''b''], sample_catalog)"
  using resolveNamespacePath_complete [of tree_world "sample_namespace ''b'' (Some ''a'')"
      "[sample_namespace ''a'' None]" sample_catalog sample_start]
  by (simp add: tree_defs maxDepth_def)

text \<open>
  C31. An endless chain of parents in one catalog, in particular a
  cycle, is reported as an error; the resolution does not loop.
\<close>

theorem resolveNamespacePath_cycle:
  assumes "\<forall>i. stored_parent E (f i) (f (Suc i))"
  shows "result (resolveNamespacePath E (f 0)) s =
    Inl (ErrNew (''namespace parentRef chain exceeds 32 levels (cycle?)''))"
  using run_walk_cycle [OF assms refl]
  by (simp add: resolveNamespacePath_def result_def split_beta show_maxDepth)

theorem resolveNamespacePath_cycle_witness:
  "result (resolveNamespacePath tree_world (sample_namespace ''l'' (Some ''l''))) sample_start =
   Inl (ErrNew (''namespace parentRef chain exceeds 32 levels (cycle?)''))"
  by (rule resolveNamespacePath_cycle) (simp add: tree_defs)

end
