(* ===== verification/Plan_Rules.thy ===== *)
theory Plan_Rules
  imports Namespace_Paths
begin

text \<open>
  The language in which the requests of a pass are specified, and the backward rules that
  compute them: what a pass read, the request it may send in each state, and the rules that
  carry a block of reconciler code to the actions it performs.
\<close>

section \<open>Actions\<close>

text \<open>
  The effects that act on the outside: API requests and writes of a Secret. A computation is
  \<open>inert\<close> when it performs none.
\<close>

fun is_action :: "effect \<Rightarrow> bool" where
  "is_action (Api rq a) \<longleftrightarrow> True"
| "is_action (SecretWrite k r) \<longleftrightarrow> True"
| "is_action (Upd ob e) \<longleftrightarrow> False"
| "is_action (Stat ob e) \<longleftrightarrow> False"

definition actions :: "event list \<Rightarrow> effect list" where
  "actions evs = filter is_action (effects evs)"

lemma actions_simps [simp]:
  "actions [] = []" "actions (e # evs) = filter is_action (effect_of e) @ actions evs"
  "actions (a @ b) = actions a @ actions b"
  by (simp_all add: actions_def)

lemma actions_quiet: "effects evs = [] \<Longrightarrow> actions evs = []"
  by (simp add: actions_def)

definition inert :: "'a io \<Rightarrow> bool" where
  "inert m \<longleftrightarrow> valid m (\<lambda>x evs. actions evs = [])"

lemma valid_inert: "inert m \<Longrightarrow> (\<And>x evs. actions evs = [] \<Longrightarrow> P x evs) \<Longrightarrow> valid m P"
  unfolding inert_def by (erule valid_mono) blast

lemma inert_quiet: "quiet m \<Longrightarrow> inert m"
  unfolding inert_def by (erule valid_quiet) (rule actions_quiet)

lemma inert_removeFinalizer: "inert (removeFinalizer E mk x)"
  unfolding inert_def removeFinalizer_def by (intro vc) simp_all

lemma inert_failStatus: "inert (failStatus E mk x reason err ret)"
  unfolding inert_def failStatus_def Let_def by (intro vc) simp

lemma inert_resolveFail: "inert (resolveFail E mk x deleting reason err)"
  unfolding inert_def resolveFail_def
  by (intro vc valid_inert [OF inert_removeFinalizer] valid_inert [OF inert_failStatus]) simp_all

lemma inert_wait: "inert (waitForDependency E mk x dep)"
  unfolding inert_def waitForDependency_def Let_def by (intro vc) simp_all

lemma inert_finish: "inert (finish E mk x m1 m2)"
  unfolding inert_def finish_def Let_def by (intro vc) simp

section \<open>What a pass has read\<close>

definition found :: "event list \<Rightarrow> NamespacedName \<Rightarrow> obj \<Rightarrow> bool" where
  "found evs key ob \<longleftrightarrow> EGet key (Inr ob) \<in> set evs"

lemma found_simps [simp]:
  "found (e # evs) key ob \<longleftrightarrow> e = EGet key (Inr ob) \<or> found evs key ob"
  "found (a @ b) key ob \<longleftrightarrow> found a key ob \<or> found b key ob"
  by (auto simp: found_def)

lemma found_mono: "found a key ob \<Longrightarrow> set a \<subseteq> set b \<Longrightarrow> found b key ob"
  by (auto simp: found_def)

definition catalog_name :: "PolarisCatalog \<Rightarrow> string" where
  "catalog_name cat = polarisName (catName (crSpec cat)) (objName (crMeta cat))"

text \<open>
  The catalog and the path of a namespace, as the events show them.
\<close>

definition located :: "event list \<Rightarrow> PolarisNamespace \<Rightarrow> string \<Rightarrow> string list \<Rightarrow> bool" where
  "located evs ns cname path \<longleftrightarrow>
     (\<exists>reads chain cat. ancestry ns reads chain \<and> set reads \<subseteq> set evs \<and> path = map ns_segment chain \<and>
        list_all (\<lambda>a. ns_catalog_key a = ns_catalog_key ns) chain \<and>
        found evs (ns_catalog_key ns) (OCatalog cat) \<and> cname = catalog_name cat)"

lemma located_mono:
  assumes "located a ns cname path" "set a \<subseteq> set b"
  shows "located b ns cname path"
proof -
  obtain reads chain cat where "ancestry ns reads chain" "set reads \<subseteq> set a" "path = map ns_segment chain"
    "list_all (\<lambda>a. ns_catalog_key a = ns_catalog_key ns) chain"
    "found a (ns_catalog_key ns) (OCatalog cat)" "cname = catalog_name cat"
    using assms(1) unfolding located_def by blast
  then show ?thesis
    unfolding located_def found_def using assms(2)
    by (intro exI [of _ reads] exI [of _ chain] exI [of _ cat]) auto
qed

section \<open>Requests in order\<close>

lemma sent_idle [simp]: "sent rq []"
  by (simp add: sent_def)

definition one_of :: "request set \<Rightarrow> effect list \<Rightarrow> bool" where
  "one_of R as \<longleftrightarrow> as = [] \<or> (\<exists>rq \<in> R. \<exists>a. as = [Api rq a])"

lemma one_of_simps [simp]: "one_of R []" "one_of R [Api rq a] \<longleftrightarrow> rq \<in> R"
  by (auto simp: one_of_def)

lemma one_ofI: "sent rq as \<Longrightarrow> rq \<in> R \<Longrightarrow> one_of R as"
  by (auto simp: sent_def one_of_def)

text \<open>
  Probe, then create what is absent (a 404) or change what is there; after any other answer,
  nothing.
\<close>

fun upsert ::
  "request \<Rightarrow> (effect list \<Rightarrow> bool) \<Rightarrow> (rawresp \<Rightarrow> effect list \<Rightarrow> bool) \<Rightarrow> effect list \<Rightarrow> bool" where
  "upsert get new old [] \<longleftrightarrow> True"
| "upsert get new old (Api rq (Inr raw) # as) \<longleftrightarrow> rq = get \<and>
     (as = [] \<or> (if rrStatus raw = StatusNotFound then new as else rrStatus raw < 400 \<and> old raw as))"
| "upsert get new old as \<longleftrightarrow> (\<exists>e. as = [Api get (Inl e)])"

lemma upsert_probe [simp]: "upsert get new old [Api get ans]"
  by (cases ans) auto

lemma upsertI: "sent get as \<Longrightarrow> upsert get new old as"
  by (auto simp: sent_def)

text \<open>
  Plans in a context: the names a plan needs come from objects the pass has read under the
  keys the specification gives. Without such a read nothing is requested.
\<close>

definition located_plan ::
  "event list \<Rightarrow> PolarisNamespace \<Rightarrow> (string \<Rightarrow> string list \<Rightarrow> effect list \<Rightarrow> bool) \<Rightarrow>
   effect list \<Rightarrow> bool" where
  "located_plan evs ns pl as \<longleftrightarrow>
     as = [] \<or> (\<exists>cname path. located evs ns cname path \<and> pl cname path as)"

lemma located_plan_idle [simp]: "located_plan evs ns pl []"
  by (simp add: located_plan_def)

lemma located_planI:
  "located a ns cname path \<Longrightarrow> set a \<subseteq> set evs \<Longrightarrow> pl cname path as \<Longrightarrow> located_plan evs ns pl as"
  unfolding located_plan_def by (blast intro: located_mono)

definition in_namespace ::
  "event list \<Rightarrow> object_ref \<Rightarrow> objmeta \<Rightarrow> (string \<Rightarrow> string list \<Rightarrow> effect list \<Rightarrow> bool) \<Rightarrow>
   effect list \<Rightarrow> bool" where
  "in_namespace evs ref owner pl as \<longleftrightarrow> as = [] \<or>
     (\<exists>ns. found evs (ref_key ref (objNamespace owner)) (ONamespace ns) \<and> located_plan evs ns pl as)"

lemma in_namespace_idle [simp]: "in_namespace evs ref owner pl []"
  by (simp add: in_namespace_def)

lemma in_namespaceI:
  "located a ns cname path \<Longrightarrow> set a \<subseteq> set evs \<Longrightarrow>
   found evs (ref_key ref (objNamespace owner)) (ONamespace ns) \<Longrightarrow> pl cname path as \<Longrightarrow>
   in_namespace evs ref owner pl as"
  unfolding in_namespace_def by (blast intro: located_planI)

definition in_catalog ::
  "event list \<Rightarrow> object_ref \<Rightarrow> objmeta \<Rightarrow> (string \<Rightarrow> effect list \<Rightarrow> bool) \<Rightarrow> effect list \<Rightarrow> bool" where
  "in_catalog evs ref owner pl as \<longleftrightarrow> as = [] \<or>
     (\<exists>cat. found evs (ref_key ref (objNamespace owner)) (OCatalog cat) \<and> pl (catalog_name cat) as)"

lemma in_catalog_idle [simp]: "in_catalog evs ref owner pl []"
  by (simp add: in_catalog_def)

lemma in_catalogI:
  "found evs (ref_key ref (objNamespace owner)) (OCatalog cat) \<Longrightarrow> pl (catalog_name cat) as \<Longrightarrow>
   in_catalog evs ref owner pl as"
  unfolding in_catalog_def by blast

section \<open>Rules\<close>

lemma valid_sent_call:
  assumes "\<And>e evs. sent rq (actions evs) \<Longrightarrow> P (Inl e) evs"
    and "\<And>w raw evs. actions evs = [Api rq (Inr raw)] \<Longrightarrow> parse_wrapper cases raw = Inr w \<Longrightarrow>
      wStatusCode w = rrStatus raw \<Longrightarrow> P (Inr w) evs"
  shows "valid (call E pc pl rq (parse_wrapper cases)) P"
proof (rule valid_call)
  fix ans evs
  assume e: "effects evs = [Api rq ans]"
  show "P (sum_bind ans (parse_wrapper cases)) evs"
  proof (cases "sum_bind ans (parse_wrapper cases)")
    case (Inl a)
    then show ?thesis using assms(1) e by (simp add: sent_def actions_def)
  next
    case (Inr w)
    then obtain raw where "ans = Inr raw" "parse_wrapper cases raw = Inr w"
      by (cases ans) auto
    then show ?thesis using assms(2) e Inr parse_wrapper_status by (metis actions_def filter.simps is_action.simps(1))
  qed
qed (simp add: assms(1) sent_def actions_def)

lemma valid_probe:
  assumes "\<And>e evs. sent rq (actions evs) \<Longrightarrow> P (Inl e) evs"
    and "\<And>raw evs. actions evs = [Api rq (Inr raw)] \<Longrightarrow> rrStatus raw = StatusNotFound \<Longrightarrow>
      P (Inr None) evs"
    and "\<And>raw w evs. actions evs = [Api rq (Inr raw)] \<Longrightarrow> rrStatus raw < 400 \<Longrightarrow>
      parse_wrapper cases raw = Inr w \<Longrightarrow> P (Inr (Some (wJSON w))) evs"
  shows "valid (remote_get op what (call E pc pl rq (parse_wrapper cases))) P"
  unfolding remote_get_def
  by (intro vc valid_sent_call)
    (auto split: sum.split option.split intro: assms simp: sent_def StatusNotFound_def)

lemma valid_change:
  assumes "\<And>e evs. sent rq (actions evs) \<Longrightarrow> P (Some e) evs"
    and "\<And>raw evs. actions evs = [Api rq (Inr raw)] \<Longrightarrow> P None evs"
  shows "valid (remote_change op what tol (call E pc pl rq (parse_wrapper cases))) P"
  unfolding remote_change_def
  apply (intro vc valid_sent_call)
  subgoal by (simp add: assms(1))
  subgoal for w raw evs
    using assms by (cases "tolerated tol raw") (auto simp: tolerated_def sent_def api_failure_def)
  done

lemma after_inert:
  "inert m \<Longrightarrow> (\<And>x evs. actions evs = [] \<Longrightarrow> L x (pre @ evs)) \<Longrightarrow> after pre m L"
  unfolding after_def by (erule valid_inert)

lemma after_with_finalizer:
  assumes "after pre next L" "\<And>x evs. actions evs = [] \<Longrightarrow> L x (pre @ evs)"
  shows "after pre (withFinalizer E mk x next) L"
proof (cases "ContainsFinalizer E (crMeta x) PolarisFinalizer")
  case True
  then show ?thesis using assms(1)
    by (simp add: withFinalizer_def ensureFinalizer_def after_def valid_def)
next
  case False
  then show ?thesis
    unfolding withFinalizer_def ensureFinalizer_def
    by (auto intro!: step vc assms(2) split: option.splits)
qed

lemma after_removal:
  assumes "\<And>x evs. sent rq (actions evs) \<Longrightarrow> L x (pre @ evs)"
  shows "after pre (returning (remote_delete E mk x op what (call E pc pl rq (parse_wrapper cases)))) L"
  unfolding returning_def remote_delete_def after_def
  by (intro vc valid_sent_call valid_inert [OF inert_removeFinalizer])
    (auto intro!: assms simp: sent_def)

lemmas inerts = after_inert [OF inert_failStatus] after_inert [OF inert_resolveFail]
  after_inert [OF inert_wait] after_inert [OF inert_finish]

lemma valid_located:
  assumes "\<And>e evs. actions evs = [] \<Longrightarrow> P (Inl e) evs"
    and "\<And>path cat evs. actions evs = [] \<Longrightarrow> located evs ns (catalog_name cat) path \<Longrightarrow>
      P (Inr (path, cat)) evs"
  shows "valid (resolveNamespacePath E ns) P"
proof -
  have "valid (resolveNamespacePath E ns) (\<lambda>x evs. actions evs = [])"
    by (rule valid_resolveNamespacePath) (simp_all add: actions_quiet)
  from valid_conj [OF this valid_path_resolved] show ?thesis
  proof (rule valid_mono, goal_cases)
    case (1 x evs)
    show ?case
    proof (cases x)
      case (Inr r)
      obtain path cat where x: "x = Inr (path, cat)" using Inr by (cases r) auto
      have "located evs ns (catalog_name cat) path"
        using 1 x unfolding located_def by fastforce
      then show ?thesis using assms(2) 1 x by blast
    qed (use 1 assms(1) in blast)
  qed
qed

lemmas plan_rules = valid_located step vc valid_builder valid_probe valid_change valid_sent_call
  inerts after_with_finalizer after_removal

lemmas plan_defs = actions_quiet Let_def StatusNotFound_def

end
