(* ===== verification/Request_Plans.thy ===== *)
theory Request_Plans
  imports Plan_Rules
begin

text \<open>
  The requests of every reconciler, exactly: which request is sent, to which resource, with
  which body, in which state of the server, with names taken from the objects the pass has
  read. One plan per kind (\<open>internal/controller/polaris*_controller.go\<close>), one lemma per
  reconciler that it follows its plan, and the property for the dispatcher.
\<close>

section \<open>Catalogs\<close>

definition catalog_plan :: "env \<Rightarrow> PolarisCatalog \<Rightarrow> effect list \<Rightarrow> bool" where
  "catalog_plan E cat as \<longleftrightarrow>
     (let name = catalog_name cat in
      if isDeleting (crMeta cat) then one_of {NewDeleteCatalogRequest name} as
      else upsert (NewGetCatalogRequest name)
        (one_of {rq. \<exists>body. buildCatalogCreateBody cat name = Inr body \<and>
           rq = NewCreateCatalogRequestWithBody body})
        (\<lambda>raw. one_of {rq. \<exists>w c body. ParseGetCatalogWrapper (codec E) raw = Inr w \<and>
           wJSON w = Some c \<and> PolarisCatalog_driftsFrom cat c \<and>
           buildCatalogUpdateBody cat (Some c) = Inr body \<and>
           rq = NewUpdateCatalogRequestWithBody name body}) as)"

lemma after_catalog_removal:
  assumes "\<And>x evs. sent (NewDeleteCatalogRequest name) (actions evs) \<Longrightarrow> L x (pre @ evs)"
  shows "after pre (returning (PolarisCatalog_finalize E cat pc name)) L"
  unfolding returning_def PolarisCatalog_finalize_def DeleteCatalog_def after_def
  by (intro vc valid_call valid_inert [OF inert_removeFinalizer])
    (auto intro!: assms simp: sent_def actions_def sum_bind_Inr)

lemma PolarisCatalog_plan:
  assumes "quiet_builder r"
  shows "valid (PolarisCatalog_reconcileObject E r cat) (\<lambda>out evs. catalog_plan E cat (actions evs))"
  unfolding PolarisCatalog_reconcileObject_def PolarisCatalog_ops PolarisCatalog_finish_def Let_def
  apply (rule valid_after, intro known after_catalog_removal plan_rules assms)
  apply (simp_all add: catalog_plan_def catalog_name_def plan_defs ParseGetCatalogWrapper_def upsertI)
  apply (auto intro: one_ofI upsertI)
  done

section \<open>Namespaces and what they hold\<close>

definition namespace_plan ::
  "env \<Rightarrow> PolarisNamespace \<Rightarrow> string \<Rightarrow> string list \<Rightarrow> effect list \<Rightarrow> bool" where
  "namespace_plan E ns cname path as \<longleftrightarrow>
     (let p = encodeNamespacePath path; props = nsProperties (crSpec ns) in
      if isDeleting (crMeta ns) then one_of {NewDropNamespaceRequest cname p} as
      else upsert (NewLoadNamespaceMetadataRequest cname p)
        (one_of {NewCreateNamespaceRequest cname
           \<lparr>cnrNamespace = path, cnrProperties = (if props = [] then None else Some props)\<rparr>})
        (\<lambda>raw. one_of {rq. \<exists>w add remove. ParseLoadNamespaceMetadataWrapper (codec E) raw = Inr w \<and>
           diffProperties (namespace_properties (wJSON w)) props = (add, remove) \<and>
           (add \<noteq> [] \<or> remove \<noteq> []) \<and>
           rq = NewUpdatePropertiesRequest cname p
             \<lparr>unrRemovals = (if remove = [] then None else Some remove),
              unrUpdates = (if add = [] then None else Some add)\<rparr>}) as)"

definition table_plan :: "PolarisTable \<Rightarrow> string \<Rightarrow> string list \<Rightarrow> effect list \<Rightarrow> bool" where
  "table_plan tbl cname path as \<longleftrightarrow>
     (let p = encodeNamespacePath path; name = polarisName (tblName (crSpec tbl)) (objName (crMeta tbl)) in
      if isDeleting (crMeta tbl) then one_of {NewDropTableRequest cname p name} as
      else upsert (NewLoadTableRequest cname p name)
        (one_of {rq. \<exists>body. PolarisTable_buildCreateBody tbl name = Inr body \<and>
           rq = NewCreateTableRequest cname p body})
        (\<lambda>raw. one_of {}) as)"

text \<open>
  The body of a view carries the time of its creation, hence the state \<open>s\<close>.
\<close>

definition view_plan :: "env \<Rightarrow> PolarisView \<Rightarrow> string \<Rightarrow> string list \<Rightarrow> effect list \<Rightarrow> bool" where
  "view_plan E view cname path as \<longleftrightarrow>
     (let p = encodeNamespacePath path;
          name = polarisName (viewName (crSpec view)) (objName (crMeta view)) in
      if isDeleting (crMeta view) then one_of {NewDropViewRequest cname p name} as
      else upsert (NewLoadViewRequest cname p name)
        (one_of {rq. \<exists>body s. result (PolarisView_buildCreateBody E view name) s = Inr body \<and>
           rq = NewCreateViewRequest cname p body})
        (\<lambda>raw. one_of {}) as)"

definition policy_plan :: "env \<Rightarrow> PolarisPolicy \<Rightarrow> string \<Rightarrow> string list \<Rightarrow> effect list \<Rightarrow> bool" where
  "policy_plan E pol cname path as \<longleftrightarrow>
     (let p = encodeNamespacePath path; name = polarisName (polName (crSpec pol)) (objName (crMeta pol)) in
      if isDeleting (crMeta pol) then one_of {NewDropPolicyRequest cname p name} as
      else upsert (NewLoadPolicyRequest cname p name)
        (one_of {NewCreatePolicyRequest cname p (PolarisPolicy_createBody pol name)})
        (\<lambda>raw. one_of {rq. \<exists>w. ParseLoadPolicyWrapper (codec E) raw = Inr w \<and>
           PolarisPolicy_policyDrifts (wJSON w) (polContent (crSpec pol))
             (polDescription (crSpec pol)) = Some True \<and>
           rq = NewUpdatePolicyRequest cname p name (PolarisPolicy_updateBody pol (wJSON w))}) as)"

lemmas located_simps = plan_defs namespace_plan_def table_plan_def view_plan_def policy_plan_def
  catalog_name_def ParseLoadNamespaceMetadataWrapper_def ParseLoadPolicyWrapper_def

lemma PolarisNamespace_plan:
  assumes "quiet_builder r"
  shows "valid (PolarisNamespace_reconcileObject E r ns)
    (\<lambda>out evs. located_plan evs ns (namespace_plan E ns) (actions evs))"
  unfolding PolarisNamespace_reconcileObject_def PolarisNamespace_ops PolarisNamespace_finish_def Let_def
  apply (rule valid_after, intro known plan_rules assms)
  apply ((simp add: plan_defs; fail)|(erule located_planI, force, (auto simp: located_simps intro: one_ofI upsertI)[]))+
  done

lemma valid_view_body:
  assumes "\<And>x evs s. actions evs = [] \<Longrightarrow> result (PolarisView_buildCreateBody E view name) s = x \<Longrightarrow> P x evs"
  shows "valid (PolarisView_buildCreateBody E view name) P"
  unfolding valid_def
proof
  fix s
  obtain evs where "hist (snd (run_state (PolarisView_buildCreateBody E view name) s)) = hist s @ evs"
    "effects evs = []"
    using quiet_PolarisView_buildCreateBody unfolding quiet_def valid_def by blast
  then show "\<exists>evs. hist (snd (run_state (PolarisView_buildCreateBody E view name) s)) = hist s @ evs \<and>
      P (fst (run_state (PolarisView_buildCreateBody E view name) s)) evs"
    using assms [OF actions_quiet] by (auto simp: result_def)
qed

lemma PolarisTable_plan:
  assumes "quiet_builder r"
  shows "valid (PolarisTable_reconcileObject E r tbl)
    (\<lambda>out evs. in_namespace evs (tblNamespaceRef (crSpec tbl)) (crMeta tbl) (table_plan tbl) (actions evs))"
  unfolding PolarisTable_reconcileObject_def PolarisTable_ops PolarisTable_finish_def Let_def
  apply (rule valid_after, intro known plan_rules assms)
  apply ((simp add: plan_defs; fail)|(erule in_namespaceI, force, force, (auto simp: located_simps intro: one_ofI upsertI)[]))+
  done

lemma PolarisView_plan:
  assumes "quiet_builder r"
  shows "valid (PolarisView_reconcileObject E r view)
    (\<lambda>out evs. in_namespace evs (viewNamespaceRef (crSpec view)) (crMeta view) (view_plan E view) (actions evs))"
  unfolding PolarisView_reconcileObject_def PolarisView_ops PolarisView_finish_def Let_def
  apply (rule valid_after, intro known plan_rules valid_view_body assms)
  apply ((simp add: plan_defs; fail)|(erule in_namespaceI, force, force, (auto simp: located_simps intro: one_ofI upsertI)[]))+
  done

lemma PolarisPolicy_plan:
  assumes "quiet_builder r"
  shows "valid (PolarisPolicy_reconcileObject E r pol)
    (\<lambda>out evs. in_namespace evs (polNamespaceRef (crSpec pol)) (crMeta pol) (policy_plan E pol) (actions evs))"
  unfolding PolarisPolicy_reconcileObject_def PolarisPolicy_ops PolarisPolicy_finish_def
    PolarisPolicy_create_def PolarisPolicy_update_def Let_def
  apply (rule valid_after, intro known plan_rules assms)
  apply ((simp add: plan_defs; fail)|(erule in_namespaceI, force, force, (auto simp: located_simps intro: one_ofI upsertI)[]))+
  done

section \<open>Roles\<close>

definition principal_role_plan :: "env \<Rightarrow> PolarisPrincipalRole \<Rightarrow> effect list \<Rightarrow> bool" where
  "principal_role_plan E pr as \<longleftrightarrow>
     (let name = polarisName (prName (crSpec pr)) (objName (crMeta pr)); props = prProperties (crSpec pr) in
      if isDeleting (crMeta pr) then one_of {NewDeletePrincipalRoleRequest name} as
      else upsert (NewGetPrincipalRoleRequest name)
        (one_of {NewCreatePrincipalRoleRequest
           \<lparr>prqPrincipalRole = Some \<lparr>mprEntityVersion = None, mprName = name,
              mprProperties = (if props = [] then None else Some props)\<rparr>\<rparr>})
        (\<lambda>raw. one_of {rq. \<exists>w c. ParseGetPrincipalRoleWrapper (codec E) raw = Inr w \<and>
           wJSON w = Some c \<and> PolarisPrincipalRole_driftsFrom pr c \<and>
           rq = NewUpdatePrincipalRoleRequest name
             \<lparr>urCurrentEntityVersion = version_or_zero (mprEntityVersion c), urProperties = props\<rparr>}) as)"

definition catalog_role_plan :: "env \<Rightarrow> PolarisCatalogRole \<Rightarrow> string \<Rightarrow> effect list \<Rightarrow> bool" where
  "catalog_role_plan E cr cname as \<longleftrightarrow>
     (let name = polarisName (crlName (crSpec cr)) (objName (crMeta cr)); props = crlProperties (crSpec cr) in
      if isDeleting (crMeta cr) then one_of {NewDeleteCatalogRoleRequest cname name} as
      else upsert (NewGetCatalogRoleRequest cname name)
        (one_of {NewCreateCatalogRoleRequest cname
           \<lparr>crqCatalogRole = Some \<lparr>mcrEntityVersion = None, mcrName = name,
              mcrProperties = (if props = [] then None else Some props)\<rparr>\<rparr>})
        (\<lambda>raw. one_of {rq. \<exists>w c. ParseGetCatalogRoleWrapper (codec E) raw = Inr w \<and>
           wJSON w = Some c \<and> PolarisCatalogRole_driftsFrom cr c \<and>
           rq = NewUpdateCatalogRoleRequest cname name
             \<lparr>urCurrentEntityVersion = version_or_zero (mcrEntityVersion c), urProperties = props\<rparr>}) as)"

lemma PolarisPrincipalRole_plan:
  assumes "quiet_builder r"
  shows "valid (PolarisPrincipalRole_reconcileObject E r pr) (\<lambda>out evs. principal_role_plan E pr (actions evs))"
  unfolding PolarisPrincipalRole_reconcileObject_def PolarisPrincipalRole_ops PolarisPrincipalRole_finish_def Let_def
  apply (rule valid_after, intro known plan_rules assms)
  apply (auto simp add: principal_role_plan_def plan_defs ParseGetPrincipalRoleWrapper_def upsertI
    intro!: one_ofI simp: props_pointer_def copyStringMap_def)
  done

lemma PolarisCatalogRole_plan:
  assumes "quiet_builder r"
  shows "valid (PolarisCatalogRole_reconcileObject E r cr)
    (\<lambda>out evs. in_catalog evs (crlCatalogRef (crSpec cr)) (crMeta cr) (catalog_role_plan E cr) (actions evs))"
  unfolding PolarisCatalogRole_reconcileObject_def PolarisCatalogRole_ops PolarisCatalogRole_finish_def Let_def
  apply (rule valid_after, intro known plan_rules assms)
  apply ((simp add: plan_defs; fail)|(rule in_catalogI, force, (auto simp: catalog_name_def catalog_role_plan_def plan_defs ParseGetCatalogRoleWrapper_def upsertI
    intro!: one_ofI simp: props_pointer_def copyStringMap_def)[]))+
  done

section \<open>Bindings\<close>

definition principal_role_binding_plan ::
  "event list \<Rightarrow> PolarisPrincipalRoleBinding \<Rightarrow> effect list \<Rightarrow> bool" where
  "principal_role_binding_plan evs b as \<longleftrightarrow> as = [] \<or>
     (\<exists>prin role. found evs (ref_key (prbPrincipalRef (crSpec b)) (objNamespace (crMeta b))) (OPrincipal prin) \<and>
        found evs (ref_key (prbPrincipalRoleRef (crSpec b)) (objNamespace (crMeta b))) (OPrincipalRole role) \<and>
        (let pname = polarisName (ppName (crSpec prin)) (objName (crMeta prin));
             rname = polarisName (prName (crSpec role)) (objName (crMeta role)) in
         one_of {if isDeleting (crMeta b) then NewRevokePrincipalRoleRequest pname rname
                 else NewAssignPrincipalRoleRequest pname (principal_role_assignment rname)} as))"

definition catalog_role_binding_plan ::
  "event list \<Rightarrow> PolarisCatalogRoleBinding \<Rightarrow> effect list \<Rightarrow> bool" where
  "catalog_role_binding_plan evs b as \<longleftrightarrow> as = [] \<or>
     (\<exists>pr cr cat.
        found evs (ref_key (crbPrincipalRoleRef (crSpec b)) (objNamespace (crMeta b))) (OPrincipalRole pr) \<and>
        found evs (ref_key (crbCatalogRoleRef (crSpec b)) (objNamespace (crMeta b))) (OCatalogRole cr) \<and>
        found evs (ref_key (crlCatalogRef (crSpec cr)) (objNamespace (crMeta cr))) (OCatalog cat) \<and>
        (let prname = polarisName (prName (crSpec pr)) (objName (crMeta pr));
             crname = polarisName (crlName (crSpec cr)) (objName (crMeta cr)) in
         one_of {if isDeleting (crMeta b)
                 then NewRevokeCatalogRoleFromPrincipalRoleRequest prname (catalog_name cat) crname
                 else NewAssignCatalogRoleToPrincipalRoleRequest prname (catalog_name cat)
                   (catalog_role_assignment crname)} as))"

lemma PolarisPrincipalRoleBinding_plan:
  assumes "quiet_builder r"
  shows "valid (PolarisPrincipalRoleBinding_reconcileObject E r b)
    (\<lambda>out evs. principal_role_binding_plan evs b (actions evs))"
  unfolding PolarisPrincipalRoleBinding_reconcileObject_def PolarisPrincipalRoleBinding_ops Let_def
  by (rule valid_after, intro known plan_rules assms)
    (simp_all add: plan_defs principal_role_binding_plan_def one_ofI, (blast intro: one_ofI)+)

lemma PolarisCatalogRoleBinding_plan:
  assumes "quiet_builder r"
  shows "valid (PolarisCatalogRoleBinding_reconcileObject E r b)
    (\<lambda>out evs. catalog_role_binding_plan evs b (actions evs))"
  unfolding PolarisCatalogRoleBinding_reconcileObject_def PolarisCatalogRoleBinding_ops Let_def
  apply (rule valid_after, intro known plan_rules assms)
  apply (simp_all add: plan_defs catalog_role_binding_plan_def catalog_name_def)
  apply (fastforce intro: one_ofI)+
  done

section \<open>Grants\<close>

text \<open>
  The entries of the payload after type, privilege and namespace.
\<close>

definition grant_object :: "event list \<Rightarrow> PolarisGrant \<Rightarrow> (string \<times> json) list \<Rightarrow> bool" where
  "grant_object evs g tail \<longleftrightarrow>
     (let t = grTarget (crSpec g); owner = objNamespace (crMeta g) in
      gtType t = GrantTargetNamespace \<and> tail = [] \<or>
      gtType t = GrantTargetTable \<and>
        (\<exists>ref tbl. gtTableRef t = Some ref \<and> found evs (ref_key ref owner) (OTable tbl) \<and>
           tail = [(''tableName'', JString (polarisName (tblName (crSpec tbl)) (objName (crMeta tbl))))]) \<or>
      gtType t = GrantTargetView \<and>
        (\<exists>ref view. gtViewRef t = Some ref \<and> found evs (ref_key ref owner) (OView view) \<and>
           tail = [(''viewName'', JString (polarisName (viewName (crSpec view)) (objName (crMeta view))))]))"

definition grant_entries :: "event list \<Rightarrow> PolarisGrant \<Rightarrow> (string \<times> json) list \<Rightarrow> bool" where
  "grant_entries evs g body \<longleftrightarrow>
     (let t = grTarget (crSpec g);
          head = [(''type'', JString (gtType t)), (''privilege'', JString (grPrivilege (crSpec g)))] in
      if gtType t = GrantTargetCatalog then body = head
      else \<exists>ref ns cname path tail. gtNamespaceRef t = Some ref \<and>
        found evs (ref_key ref (objNamespace (crMeta g))) (ONamespace ns) \<and>
        located evs ns cname path \<and> grant_object evs g tail \<and>
        body = head @ (''namespace'', jstrings path) # tail)"

lemma grant_object_mono: "grant_object a g tail \<Longrightarrow> set a \<subseteq> set b \<Longrightarrow> grant_object b g tail"
  unfolding grant_object_def Let_def using found_mono [of a _ _ b] by blast

lemma grant_entries_mono: "grant_entries a g body \<Longrightarrow> set a \<subseteq> set b \<Longrightarrow> grant_entries b g body"
  unfolding grant_entries_def Let_def
  using found_mono [of a _ _ b] located_mono [of a _ _ _ b] grant_object_mono [of a g _ b]
  by (simp split: if_splits, blast)

lemma grant_entriesI:
  assumes "gtType (grTarget (crSpec g)) \<noteq> GrantTargetCatalog" "gtNamespaceRef (grTarget (crSpec g)) = Some ref"
    and "found evs (ref_key ref (objNamespace (crMeta g))) (ONamespace ns)"
    and "located a ns cname path" "set a \<subseteq> set evs" "grant_object b g tail" "set b \<subseteq> set evs"
  shows "grant_entries evs g ([(''type'', JString (gtType (grTarget (crSpec g)))),
    (''privilege'', JString (grPrivilege (crSpec g)))] @ (''namespace'', jstrings path) # tail)"
  using assms located_mono [OF assms(4,5)] grant_object_mono [OF assms(6,7)]
  unfolding grant_entries_def Let_def by auto

lemma valid_grant_target_name:
  assumes "\<And>e evs. actions evs = [] \<Longrightarrow> P (Inl e) evs"
    and "\<And>tail evs. actions evs = [] \<Longrightarrow> grant_object evs g tail \<Longrightarrow> P (Inr (body @ tail)) evs"
  shows "valid (grant_target_name E g body) P"
  unfolding grant_target_name_def Let_def
  apply (intro known valid_kget_cases vc)
  using assms(2) [of _ "[]"] by (auto intro!: assms simp: grant_object_def grant_targets)

lemma valid_buildGrantBody:
  assumes "\<And>e evs. actions evs = [] \<Longrightarrow> P (Inl e) evs"
    and "\<And>body evs. actions evs = [] \<Longrightarrow> grant_entries evs g body \<Longrightarrow> P (Inr body) evs"
  shows "valid (PolarisGrant_buildGrantBody E g) P"
  unfolding PolarisGrant_buildGrantBody_def Let_def
  apply (intro known valid_located step vc valid_grant_target_name)
  apply (auto intro!: assms simp: grant_entries_def [of "[]"])
  apply (rule grant_entriesI [simplified])
  apply auto
  done

definition grant_plan :: "event list \<Rightarrow> PolarisGrant \<Rightarrow> effect list \<Rightarrow> bool" where
  "grant_plan evs g as \<longleftrightarrow> as = [] \<or>
     (\<exists>cr cat body.
        found evs (ref_key (grCatalogRoleRef (crSpec g)) (objNamespace (crMeta g))) (OCatalogRole cr) \<and>
        found evs (ref_key (crlCatalogRef (crSpec cr)) (objNamespace (crMeta cr))) (OCatalog cat) \<and>
        grant_entries evs g body \<and>
        (let rname = polarisName (crlName (crSpec cr)) (objName (crMeta cr)) in
         one_of {if isDeleting (crMeta g)
                 then NewRevokeGrantFromCatalogRoleRequestWithBody (catalog_name cat) rname (grant_payload body)
                 else NewAddGrantToCatalogRoleRequestWithBody (catalog_name cat) rname (grant_payload body)} as))"

lemma grant_planI:
  "grant_entries a g body \<Longrightarrow> set a \<subseteq> set evs \<Longrightarrow>
   found evs (ref_key (grCatalogRoleRef (crSpec g)) (objNamespace (crMeta g))) (OCatalogRole cr) \<Longrightarrow>
   found evs (ref_key (crlCatalogRef (crSpec cr)) (objNamespace (crMeta cr))) (OCatalog cat) \<Longrightarrow>
   sent (if isDeleting (crMeta g)
      then NewRevokeGrantFromCatalogRoleRequestWithBody (catalog_name cat)
        (polarisName (crlName (crSpec cr)) (objName (crMeta cr))) (grant_payload body)
      else NewAddGrantToCatalogRoleRequestWithBody (catalog_name cat)
        (polarisName (crlName (crSpec cr)) (objName (crMeta cr))) (grant_payload body)) as \<Longrightarrow>
   grant_plan evs g as"
  unfolding grant_plan_def Let_def by (blast intro: grant_entries_mono one_ofI)

lemma PolarisGrant_plan:
  assumes "quiet_builder r"
  shows "valid (PolarisGrant_reconcileObject E r g) (\<lambda>out evs. grant_plan evs g (actions evs))"
  unfolding PolarisGrant_reconcileObject_def PolarisGrant_ops Let_def
  apply (rule valid_after, intro known valid_buildGrantBody plan_rules assms)
  apply ((simp add: plan_defs grant_plan_def; fail)|(erule grant_planI, force, force, force, (auto simp: plan_defs catalog_name_def sent_def)[]))+
  done

section \<open>Principals\<close>

definition usable :: "principalCredentials option \<Rightarrow> bool" where
  "usable c \<longleftrightarrow> (case c of None \<Rightarrow> False | Some c \<Rightarrow> pcClientID c \<noteq> [] \<and> pcClientSecret c \<noteq> [])"

definition issued ::
  "(rawresp \<Rightarrow> goerr + PrincipalWithCredentials wrapper) \<Rightarrow> (goerr + rawresp) \<Rightarrow> bool" where
  "issued parse a \<longleftrightarrow>
     (\<exists>raw w. a = Inr raw \<and> parse raw = Inr w \<and>
        usable (map_option (\<lambda>j. creds (pwcClientId j) (pwcClientSecret j)) (wJSON w)))"

text \<open>
  One request that hands out credentials, and the Secret that takes them.
\<close>

definition issues ::
  "NamespacedName \<Rightarrow> (rawresp \<Rightarrow> goerr + PrincipalWithCredentials wrapper) \<Rightarrow> request \<Rightarrow>
   effect list \<Rightarrow> bool" where
  "issues key parse rq as \<longleftrightarrow> sent rq as \<or>
     (\<exists>a r. as = [Api rq a, SecretWrite key r] \<and> issued parse a)"

definition rotation_due :: "PolarisPrincipal \<Rightarrow> bool" where
  "rotation_due pp \<longleftrightarrow> ppCredentialRotationRequired (crSpec pp) \<and>
     observedGeneration (crStatus pp) < objGeneration (crMeta pp)"

definition rotates :: "env \<Rightarrow> PolarisPrincipal \<Rightarrow> string \<Rightarrow> effect list \<Rightarrow> bool" where
  "rotates E pp name as \<longleftrightarrow> as = [] \<or>
     rotation_due pp \<and> issues (credentials_secret_key pp) (ParseRotateCredentialsWrapper (codec E))
       (NewRotateCredentialsRequest name) as"

definition principal_plan :: "env \<Rightarrow> PolarisPrincipal \<Rightarrow> effect list \<Rightarrow> bool" where
  "principal_plan E pp as \<longleftrightarrow>
     (let name = polarisName (ppName (crSpec pp)) (objName (crMeta pp)); key = credentials_secret_key pp in
      if isDeleting (crMeta pp) then one_of {NewDeletePrincipalRequest name} as
      else upsert (NewGetPrincipalRequest name)
        (issues key (ParseCreatePrincipalWrapper (codec E))
           (NewCreatePrincipalRequest (principal_create_body pp name)))
        (\<lambda>raw as. \<exists>w c. ParseGetPrincipalWrapper (codec E) raw = Inr w \<and> wJSON w = Some c \<and>
           (if PolarisPrincipal_driftsFrom pp c
            then \<exists>a as'. as = Api (NewUpdatePrincipalRequest name
                \<lparr>urCurrentEntityVersion = (case mpEntityVersion c of None \<Rightarrow> 0 | Some v \<Rightarrow> v),
                 urProperties = ppProperties (crSpec pp)\<rparr>) a # as' \<and> rotates E pp name as'
            else rotates E pp name as)) as)"

lemma valid_credentials:
  assumes "\<And>e evs. sent rq (actions evs) \<Longrightarrow> P (Inl e) evs"
    and "\<And>w raw evs. actions evs = [Api rq (Inr raw)] \<Longrightarrow> parse_wrapper cases raw = Inr w \<Longrightarrow>
      P (Inr (map_option (\<lambda>j. creds (pwcClientId j) (pwcClientSecret j)) (wJSON w))) evs"
  shows "valid (State_Monad.bind (call E pc pl rq (parse_wrapper cases))
    (\<lambda>r. State_Monad.return (read_credentials op what tol r))) P"
  by (intro vc valid_sent_call)
    (auto simp: read_credentials_def sent_def split: option.split intro: assms)

lemma valid_secret_write:
  assumes "\<And>x evs. actions evs = [] \<or> usable c \<and> (\<exists>r. actions evs = [SecretWrite (credentials_secret_key pp) r]) \<Longrightarrow>
    P x evs"
  shows "valid (PolarisPrincipal_writeCredentialsSecret E pp c) P"
  unfolding PolarisPrincipal_writeCredentialsSecret_def
  by (intro vc valid_ask) (auto intro!: assms simp: usable_def split: sum.split)

lemma after_principal_finish:
  "(\<And>x evs. actions evs = [] \<Longrightarrow> L x (pre @ evs)) \<Longrightarrow> after pre (PolarisPrincipal_finish E pp c) L"
  unfolding PolarisPrincipal_finish_def by (rule after_inert [OF inert_finish])

lemma issues_simps [simp]:
  "issues key parse rq []" "issues key parse rq [Api rq a]"
  "issues key parse rq [Api rq a, SecretWrite key r] \<longleftrightarrow> issued parse a"
  by (auto simp: issues_def sent_def)

lemma after_rotate:
  assumes "\<And>x as evs. actions evs = as \<Longrightarrow> rotates E pp name as \<Longrightarrow> L x (pre @ evs)"
  shows "after pre (PolarisPrincipal_rotate E pc pp name False c) L"
  unfolding PolarisPrincipal_rotate_def Let_def PolarisPrincipal_rotateCredentials_def
    RotateCredentialsWithResponse_def ParseRotateCredentialsWrapper_def
  apply (intro known valid_credentials valid_secret_write after_principal_finish step vc)
  apply (auto intro!: assms simp: rotates_def rotation_due_def issues_def sent_def issued_def ParseRotateCredentialsWrapper_def)
  done

lemma rotate_created:
  "PolarisPrincipal_rotate E pc pp name True c = PolarisPrincipal_finish E pp c"
  by (simp add: PolarisPrincipal_rotate_def Let_def)

lemma after_principal_create:
  assumes "\<And>x evs. issues (credentials_secret_key pp) (ParseCreatePrincipalWrapper (codec E))
      (NewCreatePrincipalRequest (principal_create_body pp name)) (actions evs) \<Longrightarrow> L x (pre @ evs)"
  shows "after pre (PolarisPrincipal_create E pc pp name) L"
  unfolding PolarisPrincipal_create_def PolarisPrincipal_createPrincipal_def rotate_created
    CreatePrincipalWithResponse_def ParseCreatePrincipalWrapper_def
  apply (intro known valid_credentials valid_secret_write after_principal_finish inerts step vc)
  apply (auto intro!: assms simp: issues_def sent_def issued_def ParseCreatePrincipalWrapper_def)
  done

lemma PolarisPrincipal_plan:
  assumes "quiet_builder r"
  shows "valid (PolarisPrincipal_reconcileObject E r pp) (\<lambda>out evs. principal_plan E pp (actions evs))"
  unfolding PolarisPrincipal_reconcileObject_def PolarisPrincipal_ops Let_def
  apply (rule valid_after, intro known after_principal_create after_rotate plan_rules assms)
  apply (auto simp: principal_plan_def plan_defs ParseGetPrincipalWrapper_def upsertI copyStringMap_def one_ofI sent_def rotates_def)
  done

section \<open>All kinds\<close>

fun plan :: "env \<Rightarrow> obj \<Rightarrow> event list \<Rightarrow> effect list \<Rightarrow> bool" where
  "plan E (OConnection x) evs as \<longleftrightarrow> as = []"
| "plan E (OCatalog x) evs as \<longleftrightarrow> catalog_plan E x as"
| "plan E (ONamespace x) evs as \<longleftrightarrow> located_plan evs x (namespace_plan E x) as"
| "plan E (OTable x) evs as \<longleftrightarrow>
     in_namespace evs (tblNamespaceRef (crSpec x)) (crMeta x) (table_plan x) as"
| "plan E (OView x) evs as \<longleftrightarrow>
     in_namespace evs (viewNamespaceRef (crSpec x)) (crMeta x) (view_plan E x) as"
| "plan E (OPolicy x) evs as \<longleftrightarrow>
     in_namespace evs (polNamespaceRef (crSpec x)) (crMeta x) (policy_plan E x) as"
| "plan E (OPrincipal x) evs as \<longleftrightarrow> principal_plan E x as"
| "plan E (OPrincipalRole x) evs as \<longleftrightarrow> principal_role_plan E x as"
| "plan E (OCatalogRole x) evs as \<longleftrightarrow>
     in_catalog evs (crlCatalogRef (crSpec x)) (crMeta x) (catalog_role_plan E x) as"
| "plan E (OPrincipalRoleBinding x) evs as \<longleftrightarrow> principal_role_binding_plan evs x as"
| "plan E (OCatalogRoleBinding x) evs as \<longleftrightarrow> catalog_role_binding_plan evs x as"
| "plan E (OGrant x) evs as \<longleftrightarrow> grant_plan evs x as"

lemma PolarisConnection_plan:
  assumes "quiet_builder r"
  shows "valid (PolarisConnection_reconcileObject E r conn) (\<lambda>out evs. actions evs = [])"
  by (rule valid_mono [OF PolarisConnection_refines [OF assms]])
    (auto simp: connection_pass_def finalizer_dropped_def actions_def split: if_splits)

lemma skips:
  "located evs ns cname path \<Longrightarrow> located (e # evs) ns cname path"
  "grant_entries evs g body \<Longrightarrow> grant_entries (e # evs) g body"
  "located_plan evs ns pl as \<Longrightarrow> located_plan (e # evs) ns pl as"
proof -
  show l: "located evs ns cname path \<Longrightarrow> located (e # evs) ns cname path" for ns cname path
    by (erule located_mono) auto
  show "grant_entries evs g body \<Longrightarrow> grant_entries (e # evs) g body"
    by (erule grant_entries_mono) auto
  show "located_plan evs ns pl as \<Longrightarrow> located_plan (e # evs) ns pl as"
    using l by (auto simp: located_plan_def)
qed

lemma plan_skip: "plan E ob evs as \<Longrightarrow> plan E ob (e # evs) as"
proof (cases ob)
  case (OGrant g)
  then show "plan E ob evs as \<Longrightarrow> plan E ob (e # evs) as"
    unfolding OGrant plan.simps grant_plan_def found_simps Let_def by (blast intro: skips)
next
  case (OCatalogRoleBinding b)
  then show "plan E ob evs as \<Longrightarrow> plan E ob (e # evs) as"
    unfolding OCatalogRoleBinding plan.simps catalog_role_binding_plan_def found_simps by blast
next
  case (OPrincipalRoleBinding b)
  then show "plan E ob evs as \<Longrightarrow> plan E ob (e # evs) as"
    unfolding OPrincipalRoleBinding plan.simps principal_role_binding_plan_def found_simps by blast
qed (auto simp: in_namespace_def in_catalog_def intro: skips)

lemma Reconcile_plan:
  "valid (Reconcile E k req) (pass (\<lambda>ob out evs. plan E ob evs (actions evs)) E k req)"
  by (cases k)
    (simp_all add: PolarisConnection_Reconcile_def PolarisCatalog_Reconcile_def
      PolarisNamespace_Reconcile_def PolarisTable_Reconcile_def PolarisView_Reconcile_def
      PolarisPolicy_Reconcile_def PolarisPrincipal_Reconcile_def PolarisPrincipalRole_Reconcile_def
      PolarisCatalogRole_Reconcile_def PolarisPrincipalRoleBinding_Reconcile_def
      PolarisCatalogRoleBinding_Reconcile_def PolarisGrant_Reconcile_def
      valid_reconcile_with PolarisConnection_plan PolarisCatalog_plan PolarisNamespace_plan
      PolarisTable_plan PolarisView_plan PolarisPolicy_plan PolarisPrincipal_plan
      PolarisPrincipalRole_plan PolarisCatalogRole_plan PolarisPrincipalRoleBinding_plan
      PolarisCatalogRoleBinding_plan PolarisGrant_plan)

section \<open>Properties\<close>

text \<open>
  C1. Every reconciler sends the requests its plan allows and no others. A pass
  that finds no object acts on nothing. Otherwise the requests are those of the kind: one
  removal of the object's own remote resource while it is being deleted; else a probe, then a
  creation with the body built from the specification if the probe answered 404, or, if it
  answered below 400 and the payload drifts from the specification, one change with the
  version the server reported; bindings and grants send one assignment. All names come from the
  specification and from objects this very pass has read under the keys the specification
  gives; a principal's credentials are rotated only when asked for, and a Secret is written
  only after an answer with usable credentials.
\<close>

theorem requests_follow_plan:
  "case read_object (trace (Reconcile E k req) s) of
     None \<Rightarrow> actions (trace (Reconcile E k req) s) = []
   | Some ob \<Rightarrow> kind_of ob = k \<and>
       plan E ob (trace (Reconcile E k req) s) (actions (trace (Reconcile E k req) s))"
  using validD [OF Reconcile_plan, of E k req s]
  by (auto simp: pass_def intro!: plan_skip split: option.split)

end
