(* ===== verification/Credentials.thy ===== *)
theory Credentials
  imports Request_Plans
begin

text \<open>
  The credentials of principals (\<open>internal/controller/polarisprincipal_controller.go\<close>): when
  they are rotated, when the Secret that keeps them is written, and what is written to it.
\<close>

section \<open>Requests of a principal\<close>

lemma principal_ops [simp]:
  "rqOp (NewGetPrincipalRequest n) = OpGetPrincipal"
  "rqOp (NewCreatePrincipalRequest b) = OpCreatePrincipal"
  "rqOp (NewUpdatePrincipalRequest n u) = OpUpdatePrincipal"
  "rqOp (NewRotateCredentialsRequest n) = OpRotateCredentials"
  "rqOp (NewDeletePrincipalRequest n) = OpDeletePrincipal"
  by (simp_all add: NewGetPrincipalRequest_def NewCreatePrincipalRequest_def
      NewUpdatePrincipalRequest_def NewRotateCredentialsRequest_def NewDeletePrincipalRequest_def)

lemma principal_passes:
  obtains (absent) "actions (trace (Reconcile E KPrincipal req) s) = []"
  | (read) pp where "read_object (trace (Reconcile E KPrincipal req) s) = Some (OPrincipal pp)"
      "principal_plan E pp (actions (trace (Reconcile E KPrincipal req) s))"
  using validD [OF Reconcile_plan, of E KPrincipal req s]
proof (auto simp: pass_def)
  fix ob evs
  assume "trace (PolarisPrincipal_Reconcile E production req) s = EGet req (Inr ob) # evs"
    and "kind_of ob = KPrincipal" "plan E ob evs (actions evs)"
  then show thesis by (cases ob) (auto intro: read)
qed

lemma actions_mem [simp]: "x \<in> set (actions evs) \<longleftrightarrow> x \<in> set (effects evs) \<and> is_action x"
  by (auto simp: actions_def)

lemma no_actions: "actions evs = [] \<Longrightarrow> x \<in> set (effects evs) \<Longrightarrow> \<not> is_action x"
  by (auto simp: actions_def filter_empty_conv)

lemma upsert_elim:
  assumes "upsert get new old as"
  obtains (idle) "as = []" | (failed) e where "as = [Api get (Inl e)]"
  | (probed) raw where "as = [Api get (Inr raw)]"
  | (absent) raw rest where "as = Api get (Inr raw) # rest" "new rest"
  | (present) raw rest where "as = Api get (Inr raw) # rest" "old raw rest"
  using assms by (cases "(get, new, old, as)" rule: upsert.cases) (auto split: if_splits)

lemma plan_rotation:
  assumes "principal_plan E pp as" "Api rq a \<in> set as" "rqOp rq = OpRotateCredentials"
  shows "rotation_due pp \<and> \<not> isDeleting (crMeta pp) \<and>
    (\<forall>rq' a'. Api rq' a' \<in> set as \<longrightarrow> rqOp rq' \<noteq> OpCreatePrincipal)"
  using assms
  by (auto simp: principal_plan_def Let_def rotates_def issues_def sent_def one_of_def
      split: if_splits elim!: upsert_elim)

lemma plan_secret:
  assumes "principal_plan E pp as" "SecretWrite key r \<in> set as"
  shows "key = credentials_secret_key pp \<and> \<not> isDeleting (crMeta pp) \<and>
    (\<exists>es rq a. as = es @ [Api rq a, SecretWrite key r] \<and>
       (rqOp rq = OpCreatePrincipal \<and> issued (ParseCreatePrincipalWrapper (codec E)) a \<or>
        rqOp rq = OpRotateCredentials \<and> issued (ParseRotateCredentialsWrapper (codec E)) a))"
  using assms
  by (auto simp: principal_plan_def Let_def rotates_def issues_def sent_def one_of_def
      Cons_eq_append_conv split: if_splits elim!: upsert_elim)

section \<open>Sample runs\<close>

text \<open>
  A principal whose rotation is asked for, and a server that answers every request with one
  status and one body, which serves as a token, a principal and its credentials.
\<close>

definition sample_principal :: "string list \<Rightarrow> PolarisPrincipal" where
  "sample_principal fins =
     \<lparr>crMeta = sample_meta None fins,
      crSpec = \<lparr>ppConnectionRef = \<lparr>refName = ''c'', refNamespace = []\<rparr>, ppName = [],
                ppCredentialRotationRequired = True, ppProperties = [],
                ppCredentialsSecretRef = \<lparr>gcName = ''out''\<rparr>\<rparr>,
      crStatus = \<lparr>observedGeneration = 1, conditions = [], ppPrincipalID = [],
                  ppCredentialsLastRotated = None\<rparr>\<rparr>"

definition credentials_json :: json where
  "credentials_json = JObject [(''access_token'', JString ''tok''),
     (''credentials'', JObject [(''clientId'', JString ''i''), (''clientSecret'', JString ''k'')])]"

definition principal_world :: "int \<Rightarrow> env" where
  "principal_world st = sample_env
     \<lparr>get_PolarisConnection := \<lambda>h k. Inr (sample_connection True),
      get_PolarisPrincipal := \<lambda>h k. Inr (sample_principal [PolarisFinalizer]),
      get_Secret := \<lambda>h k. Inr sample_secret,
      token_post := \<lambda>h u f. Inr (sample_answer 200),
      http_Do := \<lambda>h u rq b. Inr ((sample_answer st)\<lparr>rrContentType := ''application/json''\<rparr>),
      codec := \<lparr>json_parse = \<lambda>s. Inr credentials_json, json_rest = \<lambda>t j. None\<rparr>\<rparr>"

definition principal_trace :: "int \<Rightarrow> event list" where
  "principal_trace st = trace (Reconcile (principal_world st) KPrincipal sample_key) sample_start"

fun shows_op :: "operation \<Rightarrow> effect \<Rightarrow> bool" where
  "shows_op op (Api rq a) \<longleftrightarrow> rqOp rq = op"
| "shows_op op _ \<longleftrightarrow> False"

fun shows_secret :: "effect \<Rightarrow> bool" where
  "shows_secret (SecretWrite k r) \<longleftrightarrow> True"
| "shows_secret _ \<longleftrightarrow> False"

lemma rotating_run:
  "list_ex (shows_op OpRotateCredentials) (effects (principal_trace 200)) \<and>
   list_ex shows_secret (effects (principal_trace 200))"
  by code_simp


lemma rotating_rotates:
  obtains rq a where "Api rq a \<in> set (effects (principal_trace 200))" "rqOp rq = OpRotateCredentials"
  using rotating_run by (auto simp: list_ex_iff elim!: shows_op.elims)

lemma rotating_writes:
  obtains k r where "SecretWrite k r \<in> set (effects (principal_trace 200))"
  using rotating_run by (auto simp: list_ex_iff elim!: shows_secret.elims)

section \<open>Properties\<close>

text \<open>
  C27. The credentials of a principal are rotated only if the object read asks for
  a rotation, has a generation the operator has not yet observed and is not being deleted; and
  never in the pass that creates the principal.
\<close>

theorem rotation_only_when_due:
  assumes "Api rq a \<in> set (effects (trace (Reconcile E KPrincipal req) s))"
    and "rqOp rq = OpRotateCredentials"
  shows "\<exists>pp. read_object (trace (Reconcile E KPrincipal req) s) = Some (OPrincipal pp) \<and>
    rotation_due pp \<and> \<not> isDeleting (crMeta pp) \<and>
    (\<forall>rq' a'. Api rq' a' \<in> set (effects (trace (Reconcile E KPrincipal req) s)) \<longrightarrow>
       rqOp rq' \<noteq> OpCreatePrincipal)"
proof (cases rule: principal_passes [of E req s])
  case absent
  from no_actions [OF absent assms(1)] show ?thesis by simp
next
  case (read pp)
  with plan_rotation [OF read(2)] assms show ?thesis by simp
qed

theorem rotation_only_when_due_witness:
  "\<exists>pp. read_object (principal_trace 200) = Some (OPrincipal pp) \<and> rotation_due pp"
  by (rule rotating_rotates)
    (use rotation_only_when_due [of _ _ "principal_world 200" sample_key sample_start,
        folded principal_trace_def] in blast)

text \<open>
  C28. The credentials Secret is written only under the key the specification names,
  only by a pass over a principal that is not being deleted, and right after the request that
  created the principal or rotated its credentials was answered with a client id and a secret,
  neither of them empty; nothing is requested after it.
\<close>

theorem secret_after_issue:
  assumes "SecretWrite key r \<in> set (effects (trace (Reconcile E KPrincipal req) s))"
  shows "\<exists>pp es rq a. read_object (trace (Reconcile E KPrincipal req) s) = Some (OPrincipal pp) \<and>
    key = credentials_secret_key pp \<and> \<not> isDeleting (crMeta pp) \<and>
    actions (trace (Reconcile E KPrincipal req) s) = es @ [Api rq a, SecretWrite key r] \<and>
    (rqOp rq = OpCreatePrincipal \<and> issued (ParseCreatePrincipalWrapper (codec E)) a \<or>
     rqOp rq = OpRotateCredentials \<and> issued (ParseRotateCredentialsWrapper (codec E)) a)"
proof (cases rule: principal_passes [of E req s])
  case absent
  from no_actions [OF absent assms] show ?thesis by simp
next
  case (read pp)
  have "SecretWrite key r \<in> set (actions (trace (Reconcile E KPrincipal req) s))"
    using assms by simp
  from plan_secret [OF read(2) this] read(1) show ?thesis by blast
qed

theorem secret_after_issue_witness:
  "\<exists>pp es rq a k r. read_object (principal_trace 200) = Some (OPrincipal pp) \<and>
     k = credentials_secret_key pp \<and> actions (principal_trace 200) = es @ [Api rq a, SecretWrite k r]"
  by (rule rotating_writes)
    (use secret_after_issue [of _ _ "principal_world 200" sample_key sample_start, folded principal_trace_def]
      in blast)

text \<open>
  What is written to the Secret: the two credentials under \<open>clientId\<close> and
  \<open>clientSecret\<close>, on top of what the controller reference function returned; every other
  entry of the Secret keeps its value, and name and owner are not touched.
\<close>

theorem secret_content:
  assumes "set_controller_reference E pp secret = Inr owned"
  shows "\<exists>s'. mutate_secret E pp c secret = Inr s' \<and>
    map_of (secretData s') =
      (map_of (secretData owned))(''clientId'' \<mapsto> pcClientID c, ''clientSecret'' \<mapsto> pcClientSecret c) \<and>
    secretMeta s' = secretMeta owned \<and> secretOwners s' = secretOwners owned"
  using assms by (simp add: mutate_secret_def AList.update_conv')

theorem secret_content_witness:
  "\<exists>s'. mutate_secret sample_env (sample_principal []) (creds (Some ''i'') (Some ''k'')) sample_secret = Inr s' \<and>
     secretOwners s' = [''r'']"
  using secret_content [of sample_env "sample_principal []" sample_secret
      "sample_secret\<lparr>secretOwners := [''r'']\<rparr>" "creds (Some ''i'') (Some ''k'')"]
  by (auto simp: sample_env_def sample_principal_def sample_meta_def)


end
