(* ===== verification/Property_Sync.thy ===== *)
theory Property_Sync
  imports Namespace_Controller
begin

text \<open>
  The comparison and the diff of Go maps that decide what the reconcilers send:
  \<open>equalProperties\<close> (\<open>helpers.go\<close>) against equality of finite maps, \<open>diffProperties\<close> and
  \<open>encodeNamespacePath\<close> (\<open>polarisnamespace_controller.go\<close>) against the meaning the Iceberg
  REST protocol gives to what they produce.
\<close>

section \<open>Comparison\<close>

lemma equalProperties_iff:
  assumes "wf_map a" "wf_map b"
  shows "equalProperties a b \<longleftrightarrow> map_of a = map_of b"
proof
  assume "equalProperties a b"
  then have "length a = length b" "\<forall>(k, v) \<in> set a. map_of b k = Some v"
    by (auto simp: equalProperties_def list_all_iff split: if_splits option.splits)
  then show "map_of a = map_of b"
    using assms by (intro map_of_eqI_length) auto
next
  assume eq: "map_of a = map_of b"
  then have "length a = length b"
    using assms by (intro map_of_eq_length)
  moreover have "map_of b k = Some v" if "(k, v) \<in> set a" for k v
    using that assms(1) eq by (simp add: wf_map_lookup)
  ultimately show "equalProperties a b"
    by (auto simp: equalProperties_def list_all_iff)
qed

text \<open>
  The comparison with the early length test decides equality of
  the two maps, whatever their iteration orders.
\<close>

theorem equalProperties_correct:
  assumes "wf_map a" "wf_map b"
  shows "equalProperties a b \<longleftrightarrow> map_of a = map_of b"
  by (rule equalProperties_iff [OF assms])

theorem equalProperties_correct_witness:
  "equalProperties [(''a'', ''1''), (''b'', ''2'')] [(''b'', ''2''), (''a'', ''1'')] \<longleftrightarrow>
   map_of [(''a'', ''1''), (''b'', ''2'')] = map_of [(''b'', ''2''), (''a'', ''1'')]"
  by (rule equalProperties_correct) (simp_all add: wf_map_def)

section \<open>The diff\<close>

text \<open>What a server does with an update of properties: it drops the removals and sets the updates.\<close>

definition applyProperties :: "strmap \<Rightarrow> string list \<Rightarrow> strmap \<Rightarrow> strmap" where
  "applyProperties updates removals m =
     foldl (\<lambda>acc (k, v). AList.update k v acc) (filter (\<lambda>(k, _). k \<notin> set removals) m) updates"

lemma map_of_filter_key: "map_of (filter (\<lambda>(k, _). P k) m) x = (if P x then map_of m x else None)"
  by (induction m) auto

lemma map_of_filter_wf:
  assumes "wf_map m"
  shows "map_of (filter P m) x = (case map_of m x of None \<Rightarrow> None | Some v \<Rightarrow> if P (x, v) then Some v else None)"
  using assms by (induction m) (auto simp: wf_map_def split: option.splits dest: map_of_SomeD, force)

lemma map_of_foldl_update:
  assumes "wf_map ups"
  shows "map_of (foldl (\<lambda>acc (k, v). AList.update k v acc) m ups) x =
    (case map_of ups x of None \<Rightarrow> map_of m x | Some v \<Rightarrow> Some v)"
  using assms
proof (induction ups arbitrary: m)
  case (Cons kv ups)
  obtain k v where kv: "kv = (k, v)" by force
  then have "k \<notin> fst ` set ups" "wf_map ups" using Cons.prems by (simp_all add: wf_map_Cons)
  then show ?case using Cons.IH [of "AList.update k v m"] kv
    by (auto simp: update_conv split: option.splits dest: map_of_SomeD intro: rev_image_eqI)
qed simp

lemma diffProperties_updates:
  assumes "wf_map desired"
  shows "map_of (fst (diffProperties observed desired)) x =
    (if map_of desired x = map_of observed x then None else map_of desired x)"
  using assms by (auto simp: diffProperties_def map_of_filter_wf split: option.splits)

lemma diffProperties_removals:
  "x \<in> set (snd (diffProperties observed desired)) \<longleftrightarrow>
    map_of observed x \<noteq> None \<and> map_of desired x = None"
  by (force simp: diffProperties_def map_of_eq_None_iff split: option.splits)

text \<open>
  C36. Applied by the server to the observed properties, the updates and
  removals of the diff give exactly the desired ones.
\<close>

theorem diffProperties_sound:
  assumes "wf_map observed" "wf_map desired" "diffProperties observed desired = (updates, removals)"
  shows "map_of (applyProperties updates removals observed) = map_of desired"
proof
  fix x
  have ups: "map_of updates = (\<lambda>x. if map_of desired x = map_of observed x then None else map_of desired x)"
    and rems: "x \<in> set removals \<longleftrightarrow> map_of observed x \<noteq> None \<and> map_of desired x = None"
    using assms diffProperties_updates [of desired observed]
      diffProperties_removals [of x observed desired] by auto
  have "wf_map updates"
    using assms by (auto simp: diffProperties_def wf_map_filter)
  then show "map_of (applyProperties updates removals observed) x = map_of desired x"
    using rems by (auto simp: applyProperties_def map_of_foldl_update ups map_of_filter_key
        split: option.splits)
qed

theorem diffProperties_sound_witness:
  "map_of (applyProperties [(''b'', ''3''), (''c'', ''4'')] [''a''] [(''a'', ''1''), (''b'', ''2'')]) =
   map_of [(''b'', ''3''), (''c'', ''4'')]"
  by (rule diffProperties_sound) (simp_all add: wf_map_def diffProperties_def)

text \<open>
  The diff is empty exactly when nothing has to change (so that the
  reconciler then sends no update), it never updates and removes one key, and it leaves every
  key alone that already has its desired value.
\<close>

theorem diffProperties_minimal:
  assumes "wf_map observed" "wf_map desired" "diffProperties observed desired = (updates, removals)"
  shows "(updates = [] \<and> removals = [] \<longleftrightarrow> map_of observed = map_of desired) \<and>
    set removals \<inter> dom (map_of updates) = {} \<and>
    (\<forall>k. map_of observed k = map_of desired k \<longrightarrow> k \<notin> dom (map_of updates) \<and> k \<notin> set removals)"
proof -
  have ups: "map_of updates = (\<lambda>x. if map_of desired x = map_of observed x then None else map_of desired x)"
    and rems: "set removals = {x. map_of observed x \<noteq> None \<and> map_of desired x = None}"
    using assms diffProperties_updates [of desired observed]
      diffProperties_removals [of _ observed desired] by auto
  have "map_of updates x = None \<and> x \<notin> set removals \<longleftrightarrow> map_of observed x = map_of desired x" for x
    unfolding ups rems by (cases "map_of desired x") auto
  moreover have "updates = [] \<longleftrightarrow> (\<forall>x. map_of updates x = None)"
    by (cases updates) (auto simp: map_of_eq_None_iff)
  moreover have "removals = [] \<longleftrightarrow> (\<forall>x. x \<notin> set removals)"
    by (cases removals) auto
  ultimately have "updates = [] \<and> removals = [] \<longleftrightarrow> map_of observed = map_of desired"
    by (metis ext)
  then show ?thesis by (auto simp: ups rems split: if_splits)
qed

theorem diffProperties_minimal_witness:
  "[(''b'', ''3'')] = [] \<and> [''a''] = [] \<longleftrightarrow>
     map_of [(''a'', ''1''), (''b'', ''2'')] = map_of [(''b'', ''3'')]"
  using diffProperties_minimal [of "[(''a'', ''1''), (''b'', ''2'')]" "[(''b'', ''3'')]" "[(''b'', ''3'')]" "[''a'']"]
  by (simp add: wf_map_def diffProperties_def)

section \<open>Path encoding\<close>

text \<open>The decoder of the other side: the path is split at the unit separator.\<close>

fun split_at :: "char \<Rightarrow> string \<Rightarrow> string list" where
  "split_at c [] = [[]]"
| "split_at c (x # xs) = (if x = c then [] # split_at c xs
     else (case split_at c xs of [] \<Rightarrow> [[x]] | y # ys \<Rightarrow> (x # y) # ys))"

lemma split_at_last: "c \<notin> set a \<Longrightarrow> split_at c a = [a]"
  by (induction a) auto

lemma split_at_sep: "c \<notin> set a \<Longrightarrow> split_at c (a @ c # u) = a # split_at c u"
  by (induction a) auto

lemma split_at_join:
  assumes "list_all (\<lambda>s. c \<notin> set s) p" "p \<noteq> []"
  shows "split_at c (str_join p [c]) = p"
  using assms by (induction p "[c]" rule: str_join.induct) (auto simp: split_at_last split_at_sep)

text \<open>
  A path with at least one level, none of which contains the
  unit separator, is recovered from its encoding; so different paths are never confused.
\<close>

theorem encodeNamespacePath_roundtrip:
  assumes "p \<noteq> []" "list_all (\<lambda>s. CHR 0x1F \<notin> set s) p"
  shows "split_at (CHR 0x1F) (encodeNamespacePath p) = p"
  using split_at_join [OF assms(2,1)] by (simp add: encodeNamespacePath_def unit_separator_def)

theorem encodeNamespacePath_roundtrip_witness:
  "split_at (CHR 0x1F) (encodeNamespacePath [''a'', ''b.c'', []]) = [''a'', ''b.c'', []]"
  by (rule encodeNamespacePath_roundtrip) simp_all

end
