(* ===== verification/Convergence.thy ===== *)
theory Convergence
  imports Credentials Property_Sync
begin

text \<open>
  When the operator comes to rest: what it reads back of what it wrote (the structs of
  \<open>internal/polaris/management\<close> survive the way through JSON), and that a pass which finds the
  remote side as the specification wants it sends no request but its probe.
\<close>

section \<open>Round trips\<close>

definition wf_props :: "strmap option \<Rightarrow> bool" where
  "wf_props m \<longleftrightarrow> (case m of None \<Rightarrow> True | Some p \<Rightarrow> wf_map p)"

lemma dec_entries_strings:
  "wf_map (a @ m) \<Longrightarrow> dec_entries (map (\<lambda>(k, v). (k, JString v)) m) a = Inr (a @ m)"
proof (induction m arbitrary: a)
  case (Cons kv m)
  obtain k v where kv: "kv = (k, v)" by force
  have "k \<notin> fst ` set a" using Cons.prems kv by (auto simp: wf_map_def)
  then have "AList.update k v a = a @ [(k, v)]" by (induction a) auto
  then show ?case using Cons.IH [of "a @ [(k, v)]"] Cons.prems kv by (simp add: dec_string_def)
qed simp

lemma dec_strmap_jstrmap: "wf_map m \<Longrightarrow> dec_strmap (jstrmap m) = Inr m"
  using dec_entries_strings [of "[]" m] by (simp add: dec_strmap_def jstrmap_def)

lemma dec_int_jword: "dec_int (jword w) = Inr w"
  using sint_range_size [of w] by (simp add: dec_int_def jword_def word_size)

lemma decoded_pointers:
  "dec_ptr dec_int (jword w) = Inr (Some w)" "dec_ptr dec_string (JString s) = Inr (Some s)"
  "wf_map m \<Longrightarrow> dec_ptr dec_strmap (jstrmap m) = Inr (Some m)" "dec_ptr d JNull = Inr None"
  "dec_string (JString s) = Inr s"
  using dec_int_jword [of w] dec_strmap_jstrmap [of m]
  by (simp_all add: dec_ptr_def jword_def jstrmap_def dec_string_def)

text \<open>Which of the field names in use match which.\<close>

lemma role_fields:
  "same_field ''clientId'' ''clientId''"
  "\<not> same_field ''clientId'' ''entityVersion''"
  "\<not> same_field ''clientId'' ''name''"
  "\<not> same_field ''clientId'' ''properties''"
  "\<not> same_field ''entityVersion'' ''clientId''"
  "same_field ''entityVersion'' ''entityVersion''"
  "\<not> same_field ''entityVersion'' ''name''"
  "\<not> same_field ''entityVersion'' ''properties''"
  "\<not> same_field ''name'' ''clientId''"
  "\<not> same_field ''name'' ''entityVersion''"
  "same_field ''name'' ''name''"
  "\<not> same_field ''name'' ''properties''"
  "\<not> same_field ''properties'' ''clientId''"
  "\<not> same_field ''properties'' ''entityVersion''"
  "\<not> same_field ''properties'' ''name''"
  "same_field ''properties'' ''properties''"
  by code_simp+

text \<open>The fields of a response that are not read are in order.\<close>

definition lenient :: "rest_check \<Rightarrow> bool" where
  "lenient rest \<longleftrightarrow> (\<forall>t j. rest t j = None)"

lemmas role_decoding = dec_fields_def field_def jomit_def role_fields decoded_pointers dec_rest_def

lemma principal_role_roundtrip:
  assumes "lenient rest" "wf_props (mprProperties r)"
  shows "dec_PrincipalRole rest (marshal_PrincipalRole r) = Inr r"
  using assms by (cases r)
    (auto simp: lenient_def dec_PrincipalRole_def marshal_PrincipalRole_def role_decoding wf_props_def
      split: option.splits)

lemma catalog_role_roundtrip:
  assumes "lenient rest" "wf_props (mcrProperties r)"
  shows "dec_CatalogRole rest (marshal_CatalogRole r) = Inr r"
  using assms by (cases r)
    (auto simp: lenient_def dec_CatalogRole_def marshal_CatalogRole_def role_decoding wf_props_def
      split: option.splits)

lemma principal_roundtrip:
  assumes "lenient rest" "wf_props (mpProperties r)"
  shows "dec_Principal rest (marshal_Principal r) = Inr r"
  using assms by (cases r)
    (auto simp: lenient_def dec_Principal_def marshal_Principal_def role_decoding wf_props_def
      split: option.splits)

section \<open>Coming to rest\<close>

text \<open>The answer \<open>raw\<close> to the probe agrees with the specification.\<close>

fun settled :: "env \<Rightarrow> obj \<Rightarrow> rawresp \<Rightarrow> bool" where
  "settled E (OCatalog x) raw \<longleftrightarrow> (\<exists>w c. ParseGetCatalogWrapper (codec E) raw = Inr w \<and>
     wJSON w = Some c \<and> \<not> PolarisCatalog_driftsFrom x c)"
| "settled E (ONamespace x) raw \<longleftrightarrow> (\<exists>w. ParseLoadNamespaceMetadataWrapper (codec E) raw = Inr w \<and>
     diffProperties (namespace_properties (wJSON w)) (nsProperties (crSpec x)) = ([], []))"
| "settled E (OTable x) raw \<longleftrightarrow> True"
| "settled E (OView x) raw \<longleftrightarrow> True"
| "settled E (OPolicy x) raw \<longleftrightarrow> (\<exists>w. ParseLoadPolicyWrapper (codec E) raw = Inr w \<and>
     PolarisPolicy_policyDrifts (wJSON w) (polContent (crSpec x)) (polDescription (crSpec x)) =
       Some False)"
| "settled E (OPrincipal x) raw \<longleftrightarrow> \<not> rotation_due x \<and>
     (\<exists>w c. ParseGetPrincipalWrapper (codec E) raw = Inr w \<and> wJSON w = Some c \<and>
        \<not> PolarisPrincipal_driftsFrom x c)"
| "settled E (OPrincipalRole x) raw \<longleftrightarrow> (\<exists>w c. ParseGetPrincipalRoleWrapper (codec E) raw = Inr w \<and>
     wJSON w = Some c \<and> \<not> PolarisPrincipalRole_driftsFrom x c)"
| "settled E (OCatalogRole x) raw \<longleftrightarrow> (\<exists>w c. ParseGetCatalogRoleWrapper (codec E) raw = Inr w \<and>
     wJSON w = Some c \<and> \<not> PolarisCatalogRole_driftsFrom x c)"
| "settled E _ raw \<longleftrightarrow> False"

lemma upsert_settled:
  "upsert get new old (Api rq (Inr raw) # as) \<Longrightarrow> rrStatus raw \<noteq> StatusNotFound \<Longrightarrow>
   (old raw as \<Longrightarrow> as = []) \<Longrightarrow> as = []"
  by (auto split: if_splits)

lemma one_of_empty: "one_of R as \<Longrightarrow> R = {} \<Longrightarrow> as = []"
  by (auto simp: one_of_def)

lemma plan_settled:
  assumes "plan E ob evs (Api rq (Inr raw) # as)" "\<not> isDeleting (obj_meta ob)"
    and "rrStatus raw \<noteq> StatusNotFound" "settled E ob raw"
  shows "as = []"
proof (cases ob)
  case (OPrincipal x)
  then show ?thesis
    using assms by (auto simp: principal_plan_def rotates_def Let_def elim!: upsert_settled [rotated])
next
  case (ONamespace x)
  then show ?thesis
    using assms
    by (auto simp: located_plan_def namespace_plan_def Let_def elim!: upsert_settled [rotated]
        intro!: one_of_empty)
qed (use assms in \<open>auto simp: catalog_plan_def in_namespace_def located_plan_def table_plan_def
    view_plan_def policy_plan_def principal_role_plan_def in_catalog_def catalog_role_plan_def Let_def
    one_of_empty dest!: upsert_settled\<close>)

lemma pass_plan:
  assumes "read_object (trace (Reconcile E k req) s) = Some ob"
  obtains evs where "plan E ob evs (actions (trace (Reconcile E k req) s))" "kind_of ob = k"
  using validD [OF Reconcile_plan, of E k req s] assms by (auto simp: pass_def)

text \<open>A role's key in the creation request, and its properties.\<close>

fun role_payload :: "obj \<Rightarrow> (string \<times> strmap) option" where
  "role_payload (OPrincipalRole x) = Some (''principalRole'', prProperties (crSpec x))"
| "role_payload (OCatalogRole x) = Some (''catalogRole'', crlProperties (crSpec x))"
| "role_payload _ = None"

definition json_answer :: "env \<Rightarrow> rawresp \<Rightarrow> json \<Rightarrow> bool" where
  "json_answer E raw j \<longleftrightarrow> rrReadErr raw = None \<and> rrStatus raw = 200 \<and>
     str_contains (rrContentType raw) ''json'' \<and> json_parse (codec E) (rrBody raw) = Inr j"

lemma equalProperties_self: "wf_map m \<Longrightarrow> equalProperties m m"
  by (simp add: equalProperties_iff)

lemma principal_role_echo:
  assumes "lenient (json_rest (codec E))" "wf_map (prProperties (crSpec pr))"
    and "json_answer E raw (marshal_PrincipalRole \<lparr>mprEntityVersion = Some v, mprName = name,
      mprProperties = (if prProperties (crSpec pr) = [] then None else Some (prProperties (crSpec pr)))\<rparr>)"
  shows "settled E (OPrincipalRole pr) raw"
  using assms principal_role_roundtrip [OF assms(1), of "\<lparr>mprEntityVersion = Some v, mprName = name,
      mprProperties = (if prProperties (crSpec pr) = [] then None else Some (prProperties (crSpec pr)))\<rparr>"]
  by (auto simp: json_answer_def ParseGetPrincipalRoleWrapper_def parse_wrapper_def payload_def
      wf_props_def PolarisPrincipalRole_driftsFrom_def props_or_nil_def equalProperties_self Let_def
      split: if_splits)

lemma catalog_role_echo:
  assumes "lenient (json_rest (codec E))" "wf_map (crlProperties (crSpec cr))"
    and "json_answer E raw (marshal_CatalogRole \<lparr>mcrEntityVersion = Some v, mcrName = name,
      mcrProperties = (if crlProperties (crSpec cr) = [] then None else Some (crlProperties (crSpec cr)))\<rparr>)"
  shows "settled E (OCatalogRole cr) raw"
  using assms catalog_role_roundtrip [OF assms(1), of "\<lparr>mcrEntityVersion = Some v, mcrName = name,
      mcrProperties = (if crlProperties (crSpec cr) = [] then None else Some (crlProperties (crSpec cr)))\<rparr>"]
  by (auto simp: json_answer_def ParseGetCatalogRoleWrapper_def parse_wrapper_def payload_def
      wf_props_def PolarisCatalogRole_driftsFrom_def props_or_nil_def equalProperties_self Let_def
      split: if_splits)

lemma created_principal_role:
  assumes "principal_role_plan E pr as" "Api rq a \<in> set as" "op_class (rqOp rq) = Create"
  shows "rq = NewCreatePrincipalRoleRequest \<lparr>prqPrincipalRole = Some \<lparr>mprEntityVersion = None,
    mprName = polarisName (prName (crSpec pr)) (objName (crMeta pr)),
    mprProperties = (if prProperties (crSpec pr) = [] then None else Some (prProperties (crSpec pr)))\<rparr>\<rparr>"
  using assms by (auto simp: principal_role_plan_def Let_def one_of_def split: if_splits elim!: upsert_elim)

lemma created_catalog_role:
  assumes "catalog_role_plan E cr cname as" "Api rq a \<in> set as" "op_class (rqOp rq) = Create"
  shows "rq = NewCreateCatalogRoleRequest cname \<lparr>crqCatalogRole = Some \<lparr>mcrEntityVersion = None,
    mcrName = polarisName (crlName (crSpec cr)) (objName (crMeta cr)),
    mcrProperties = (if crlProperties (crSpec cr) = [] then None else Some (crlProperties (crSpec cr)))\<rparr>\<rparr>"
  using assms by (auto simp: catalog_role_plan_def Let_def one_of_def split: if_splits elim!: upsert_elim)

text \<open>What the server shows of a role it was asked to create.\<close>

definition role_created :: "event list \<Rightarrow> obj \<Rightarrow> json \<Rightarrow> bool" where
  "role_created tr ob j \<longleftrightarrow> (\<exists>rq ans key props kvs v. read_object tr = Some ob \<and>
     role_payload ob = Some (key, props) \<and> Api rq ans \<in> set (actions tr) \<and>
     op_class (rqOp rq) = Create \<and> rqBody rq = Some (JObject [(key, JObject kvs)]) \<and>
     j = JObject ((''entityVersion'', jword v) # kvs))"

lemma created_principal_role_body:
  assumes "role_created (trace (Reconcile E k req) s) (OPrincipalRole pr) j"
  obtains v where "j = marshal_PrincipalRole \<lparr>mprEntityVersion = Some v,
    mprName = polarisName (prName (crSpec pr)) (objName (crMeta pr)),
    mprProperties = (if prProperties (crSpec pr) = [] then None else Some (prProperties (crSpec pr)))\<rparr>"
proof -
  obtain rq ans kvs v where c: "read_object (trace (Reconcile E k req) s) = Some (OPrincipalRole pr)"
      "Api rq ans \<in> set (actions (trace (Reconcile E k req) s))" "op_class (rqOp rq) = Create"
      "rqBody rq = Some (JObject [(''principalRole'', JObject kvs)])"
      "j = JObject ((''entityVersion'', jword v) # kvs)"
    using assms by (auto simp: role_created_def)
  from c(1) obtain evs where
    "plan E (OPrincipalRole pr) evs (actions (trace (Reconcile E k req) s))" by (rule pass_plan)
  then have "principal_role_plan E pr (actions (trace (Reconcile E k req) s))" by simp
  from created_principal_role [OF this c(2,3)] c(4,5) show thesis
    by (auto simp: NewCreatePrincipalRoleRequest_def marshal_PrincipalRoleRequest_def
        marshal_PrincipalRole_def jomit_def intro!: that [of v])
qed

lemma created_catalog_role_body:
  assumes "role_created (trace (Reconcile E k req) s) (OCatalogRole cr) j"
  obtains v where "j = marshal_CatalogRole \<lparr>mcrEntityVersion = Some v,
    mcrName = polarisName (crlName (crSpec cr)) (objName (crMeta cr)),
    mcrProperties = (if crlProperties (crSpec cr) = [] then None else Some (crlProperties (crSpec cr)))\<rparr>"
proof -
  obtain rq ans kvs v where c: "read_object (trace (Reconcile E k req) s) = Some (OCatalogRole cr)"
      "Api rq ans \<in> set (actions (trace (Reconcile E k req) s))" "op_class (rqOp rq) = Create"
      "rqBody rq = Some (JObject [(''catalogRole'', JObject kvs)])"
      "j = JObject ((''entityVersion'', jword v) # kvs)"
    using assms by (auto simp: role_created_def)
  from c(1) obtain evs where
    "plan E (OCatalogRole cr) evs (actions (trace (Reconcile E k req) s))" by (rule pass_plan)
  then obtain cname where "catalog_role_plan E cr cname (actions (trace (Reconcile E k req) s))"
    using c(2) unfolding plan.simps in_catalog_def by (metis empty_iff list.set(1))
  from created_catalog_role [OF this c(2,3)] c(4,5) show thesis
    by (auto simp: NewCreateCatalogRoleRequest_def marshal_CatalogRoleRequest_def
        marshal_CatalogRole_def jomit_def intro!: that [of v])
qed

lemma created_settles:
  assumes "role_created (trace (Reconcile E k req) s) ob j" "json_answer E raw j"
    and "lenient (json_rest (codec E))" "role_payload ob = Some (key, props)" "wf_map props"
  shows "settled E ob raw"
  using assms(4)
proof (cases ob)
  case (OPrincipalRole pr)
  with assms(1) obtain v where "j = marshal_PrincipalRole \<lparr>mprEntityVersion = Some v,
    mprName = polarisName (prName (crSpec pr)) (objName (crMeta pr)),
    mprProperties = (if prProperties (crSpec pr) = [] then None else Some (prProperties (crSpec pr)))\<rparr>"
    by (auto elim: created_principal_role_body)
  with assms OPrincipalRole show ?thesis
    by (simp only: role_payload.simps option.inject prod.inject) (blast intro: principal_role_echo)
next
  case (OCatalogRole cr)
  with assms(1) obtain v where "j = marshal_CatalogRole \<lparr>mcrEntityVersion = Some v,
    mcrName = polarisName (crlName (crSpec cr)) (objName (crMeta cr)),
    mcrProperties = (if crlProperties (crSpec cr) = [] then None else Some (crlProperties (crSpec cr)))\<rparr>"
    by (auto elim: created_catalog_role_body)
  with assms OCatalogRole show ?thesis
    by (simp only: role_payload.simps option.inject prod.inject) (blast intro: catalog_role_echo)
qed simp_all

lemma settled_payload:
  "settled E ob raw \<Longrightarrow> role_payload ob = Some p \<Longrightarrow> role_payload ob' = Some p \<Longrightarrow> settled E ob' raw"
  by (cases ob; cases ob') (auto simp: PolarisPrincipalRole_driftsFrom_def PolarisCatalogRole_driftsFrom_def)

section \<open>A sample run\<close>

definition steady_world :: env where
  "steady_world = (principal_world 200)\<lparr>get_PolarisPrincipalRole := \<lambda>h k. Inr (sample_role None [PolarisFinalizer])\<rparr>"

definition steady_answer :: rawresp where
  "steady_answer = (sample_answer 200)\<lparr>rrContentType := ''application/json''\<rparr>"

lemma steady_run:
  "read_object (sample_trace steady_world) = Some (OPrincipalRole (sample_role None [PolarisFinalizer]))"
  "actions (sample_trace steady_world) = [Api (NewGetPrincipalRoleRequest ''r'') (Inr steady_answer)]"
  "ParseGetPrincipalRoleWrapper (codec steady_world) steady_answer =
     Inr \<lparr>wStatusCode = 200, wBody = [], wJSON = Some
       \<lparr>mprEntityVersion = None, mprName = [], mprProperties = None\<rparr>\<rparr>"
  by code_simp+

lemma steady_settled:
  "settled steady_world (OPrincipalRole (sample_role None f)) steady_answer"
  "rrStatus steady_answer \<noteq> StatusNotFound" "\<not> isDeleting (obj_meta (OPrincipalRole (sample_role None f)))"
  by (simp add: steady_run(3) sample_role_def PolarisPrincipalRole_driftsFrom_def props_or_nil_def
      equalProperties_def)
    (simp_all add: steady_answer_def sample_answer_def StatusNotFound_def sample_role_def sample_meta_def
      isDeleting_def)

text \<open>A server that lacks the role until it is created, and then shows it.\<close>

fun shows_api :: "effect \<Rightarrow> bool" where
  "shows_api (Api rq a) \<longleftrightarrow> True"
| "shows_api _ \<longleftrightarrow> False"

fun posts :: "event \<Rightarrow> bool" where
  "posts (EHttp rq b a) \<longleftrightarrow> rqMethod rq = ''POST''"
| "posts _ \<longleftrightarrow> False"

definition role_json :: json where
  "role_json = JObject [(''entityVersion'', jword 1), (''name'', JString ''r'')]"

definition shown_role :: rawresp where
  "shown_role = \<lparr>rrStatus = 200, rrContentType = ''application/json'', rrBody = ''role'', rrReadErr = None\<rparr>"

definition role_world :: env where
  "role_world = steady_world
     \<lparr>http_Do := \<lambda>h u rq b. Inr (if list_ex posts h then shown_role else sample_answer 404),
      codec := \<lparr>json_parse = \<lambda>s. Inr (if s = ''role'' then role_json else credentials_json),
               json_rest = \<lambda>t j. None\<rparr>\<rparr>"

definition role_next :: mstate where
  "role_next = sample_start\<lparr>hist := sample_trace role_world\<rparr>"

definition next_trace :: "event list" where
  "next_trace = trace (Reconcile role_world KPrincipalRole sample_key) role_next"

lemma role_run:
  "read_object (sample_trace role_world) = Some (OPrincipalRole (sample_role None [PolarisFinalizer]))"
  "map (\<lambda>e. case e of Api rq a \<Rightarrow> (op_class (rqOp rq), rqBody rq)) (actions (sample_trace role_world)) =
     [(Probe, None), (Create, Some (JObject [(''principalRole'', JObject [(''name'', JString ''r'')])]))]"
  "list_all shows_api (actions (sample_trace role_world))"
  by code_simp+

lemma next_run:
  "read_object next_trace = Some (OPrincipalRole (sample_role None [PolarisFinalizer]))"
  "actions next_trace = [Api (NewGetPrincipalRoleRequest ''r'') (Inr shown_role)]"
  by code_simp+

section \<open>Properties\<close>

text \<open>
  The structs the operator sends and reads through
  \<open>internal/polaris/management\<close> survive marshalling and unmarshalling, property maps with
  distinct keys included: a pointer field left \<open>nil\<close> is omitted and comes back \<open>nil\<close>, every
  version number of 32 bits comes back as it was.
\<close>

theorem management_roundtrip:
  assumes "lenient rest"
    and "wf_props (mprProperties pr)" "wf_props (mcrProperties cr)" "wf_props (mpProperties p)"
  shows "dec_PrincipalRole rest (marshal_PrincipalRole pr) = Inr pr \<and>
    dec_CatalogRole rest (marshal_CatalogRole cr) = Inr cr \<and>
    dec_Principal rest (marshal_Principal p) = Inr p"
  using assms by (simp add: principal_role_roundtrip catalog_role_roundtrip principal_roundtrip)

theorem management_roundtrip_witness:
  "dec_PrincipalRole (\<lambda>t j. None) (marshal_PrincipalRole
     \<lparr>mprEntityVersion = Some (- 1), mprName = ''r'', mprProperties = Some [(''a'', ''1''), (''b'', [])]\<rparr>) =
   Inr \<lparr>mprEntityVersion = Some (- 1), mprName = ''r'', mprProperties = Some [(''a'', ''1''), (''b'', [])]\<rparr>"
  by (rule management_roundtrip
      [of "\<lambda>t j. None" _ "\<lparr>mcrEntityVersion = None, mcrName = [], mcrProperties = None\<rparr>"
        "\<lparr>mpClientId = None, mpEntityVersion = None, mpName = [], mpProperties = None\<rparr>", THEN conjunct1])
    (simp_all add: lenient_def wf_props_def wf_map_def)

text \<open>
  C11. A pass that finds the object on the server, and its answer to the probe in
  agreement with the specification, sends no further request and writes no Secret: nothing is
  created, changed or rotated again.
\<close>

theorem steady_state:
  assumes "read_object (trace (Reconcile E k req) s) = Some ob" "\<not> isDeleting (obj_meta ob)"
    and "actions (trace (Reconcile E k req) s) = Api rq (Inr raw) # as"
    and "rrStatus raw \<noteq> StatusNotFound" "settled E ob raw"
  shows "as = []"
  using assms(1) by (rule pass_plan) (use assms plan_settled in metis)

theorem steady_state_witness:
  "\<exists>rq. actions (sample_trace steady_world) = [Api rq (Inr steady_answer)]"
proof (intro exI)
  let ?probe = "Api (NewGetPrincipalRoleRequest ''r'') (Inr steady_answer)"
  have split: "actions (sample_trace steady_world) = ?probe # tl (actions (sample_trace steady_world))"
    by (simp add: steady_run(2))
  have "tl (actions (sample_trace steady_world)) = []"
    by (rule steady_state [OF steady_run(1) [unfolded sample_trace_def] steady_settled(3)
          split [unfolded sample_trace_def] steady_settled(2,1), folded sample_trace_def])
  with split show "actions (sample_trace steady_world) = [?probe]"
    by simp
qed


lemma sample_role_created:
  "role_created (trace (Reconcile role_world KPrincipalRole sample_key) sample_start)
     (OPrincipalRole (sample_role None [PolarisFinalizer])) role_json"
proof -
  obtain rq0 a0 rq a where "actions (sample_trace role_world) = [Api rq0 a0, Api rq a]"
      "op_class (rqOp rq) = Create"
      "rqBody rq = Some (JObject [(''principalRole'', JObject [(''name'', JString ''r'')])])"
    using role_run(2,3) by (auto simp: map_eq_Cons_conv elim!: shows_api.elims)
  then show ?thesis
    using role_run(1) by (auto simp: role_created_def sample_trace_def role_json_def)
qed

lemma json_content: "str_contains ''application/json'' ''json''"
  by code_simp

lemma sample_settle_facts:
  "role_payload (OPrincipalRole (sample_role d f)) = Some (''principalRole'', [])"
  "wf_map ([] :: strmap)" "lenient (json_rest (codec role_world))"
  "\<not> isDeleting (obj_meta (OPrincipalRole (sample_role None f)))"
  "json_answer role_world shown_role role_json"
  by (simp_all add: sample_role_def sample_meta_def isDeleting_def wf_map_def lenient_def role_world_def
      json_answer_def shown_role_def json_content del: str_contains.simps)


end
