(* ===== verification/Go_Heap.thy ===== *)
theory Go_Heap
  imports Polaris_Prelude
begin

text \<open>
  Values of Go with their sharing: pointers, slices and maps are references into a store, a
  struct is a value. What it means for a function to be a deep copy, and the rules that the
  statements of a generated \<open>DeepCopyInto\<close> preserve it.

  A slice is seen as a whole array and addresses are handed out in order; the place at which a
  cell is put is not observable. The store only grows: nothing is freed.
\<close>

section \<open>Values and the store\<close>

type_synonym addr = nat

datatype scalar = SString string | SInt int | SBool bool

datatype gval = GScalar scalar | GNil | GRef addr | GStruct "(string \<times> gval) list"

datatype cell = CVar gval | CArray "gval list" | CMap "(string \<times> string) list"

type_synonym heap = "cell list"

text \<open>Types, as far as sharing is concerned; the only maps of the API are \<open>map[string]string\<close>.\<close>

datatype ty = TScalar | TPtr ty | TSlice ty | TMap | TStruct "(string \<times> ty) list"

definition field_of :: "(string \<times> gval) list \<Rightarrow> string \<Rightarrow> gval" where
  "field_of fs n = the (map_of fs n)"

text \<open>Types without references: assignment copies their values entirely.\<close>

fun flat :: "ty \<Rightarrow> bool" where
  "flat TScalar \<longleftrightarrow> True"
| "flat (TStruct ts) \<longleftrightarrow> (\<forall>(n, t) \<in> set ts. flat t)"
| "flat _ \<longleftrightarrow> False"

text \<open>\<open>v\<close> is a value of type \<open>t\<close> in the store \<open>h\<close>, without dangling references.\<close>

fun has_type :: "heap \<Rightarrow> ty \<Rightarrow> gval \<Rightarrow> bool" where
  "has_type h TScalar v \<longleftrightarrow> (case v of GScalar s \<Rightarrow> True | _ \<Rightarrow> False)"
| "has_type h (TPtr t) v \<longleftrightarrow>
     (case v of GNil \<Rightarrow> True
      | GRef a \<Rightarrow> a < length h \<and> (case h ! a of CVar x \<Rightarrow> has_type h t x | _ \<Rightarrow> False)
      | _ \<Rightarrow> False)"
| "has_type h (TSlice t) v \<longleftrightarrow>
     (case v of GNil \<Rightarrow> True
      | GRef a \<Rightarrow> a < length h \<and> (case h ! a of CArray xs \<Rightarrow> \<forall>x \<in> set xs. has_type h t x | _ \<Rightarrow> False)
      | _ \<Rightarrow> False)"
| "has_type h TMap v \<longleftrightarrow>
     (case v of GNil \<Rightarrow> True
      | GRef a \<Rightarrow> a < length h \<and> (case h ! a of CMap m \<Rightarrow> True | _ \<Rightarrow> False)
      | _ \<Rightarrow> False)"
| "has_type h (TStruct ts) v \<longleftrightarrow>
     (case v of GStruct fs \<Rightarrow> map fst fs = map fst ts \<and> (\<forall>(n, t) \<in> set ts. has_type h t (field_of fs n))
      | _ \<Rightarrow> False)"

text \<open>What a reader sees: the value with its references followed.\<close>

datatype tree =
    Leaf gval
  | Absent
  | Pointee tree
  | Elements "tree list"
  | Entries "(string \<times> string) list"
  | Fields "(string \<times> tree) list"

fun view :: "heap \<Rightarrow> ty \<Rightarrow> gval \<Rightarrow> tree" where
  "view h TScalar v = Leaf v"
| "view h (TPtr t) v =
     (case v of GRef a \<Rightarrow> (case h ! a of CVar x \<Rightarrow> Pointee (view h t x) | _ \<Rightarrow> Absent) | _ \<Rightarrow> Absent)"
| "view h (TSlice t) v =
     (case v of GRef a \<Rightarrow> (case h ! a of CArray xs \<Rightarrow> Elements (map (view h t) xs) | _ \<Rightarrow> Absent)
      | _ \<Rightarrow> Absent)"
| "view h TMap v = (case v of GRef a \<Rightarrow> (case h ! a of CMap m \<Rightarrow> Entries m | _ \<Rightarrow> Absent) | _ \<Rightarrow> Absent)"
| "view h (TStruct ts) v =
     (case v of GStruct fs \<Rightarrow> Fields (map (\<lambda>(n, t). (n, view h t (field_of fs n))) ts) | _ \<Rightarrow> Absent)"

text \<open>The cells a reader passes through.\<close>

fun reach :: "heap \<Rightarrow> ty \<Rightarrow> gval \<Rightarrow> addr set" where
  "reach h TScalar v = {}"
| "reach h (TPtr t) v =
     (case v of GRef a \<Rightarrow> insert a (case h ! a of CVar x \<Rightarrow> reach h t x | _ \<Rightarrow> {}) | _ \<Rightarrow> {})"
| "reach h (TSlice t) v =
     (case v of GRef a \<Rightarrow> insert a (case h ! a of CArray xs \<Rightarrow> \<Union>x \<in> set xs. reach h t x | _ \<Rightarrow> {})
      | _ \<Rightarrow> {})"
| "reach h TMap v = (case v of GRef a \<Rightarrow> {a} | _ \<Rightarrow> {})"
| "reach h (TStruct ts) v =
     (case v of GStruct fs \<Rightarrow> \<Union>(n, t) \<in> set ts. reach h t (field_of fs n) | _ \<Rightarrow> {})"

lemma reach_nil [simp]: "reach h t GNil = {}"
  by (cases t) auto

text \<open>Everything depends only on the cells that are reached.\<close>

definition agrees :: "heap \<Rightarrow> heap \<Rightarrow> addr set \<Rightarrow> bool" where
  "agrees h h' A \<longleftrightarrow> (\<forall>a \<in> A. h' ! a = h ! a) \<and> length h \<le> length h'"

lemma agrees_simps [simp]:
  "agrees h h' (insert a A) \<longleftrightarrow> h' ! a = h ! a \<and> agrees h h' A"
  "agrees h h' (\<Union>x \<in> B. f x) \<longleftrightarrow> (\<forall>x \<in> B. agrees h h' (f x)) \<and> length h \<le> length h'"
  by (auto simp: agrees_def)

lemma agrees_length: "agrees h h' A \<Longrightarrow> length h \<le> length h'"
  by (simp add: agrees_def)

text \<open>Induction over the values of a type.\<close>

lemma typed_induct [consumes 1, case_names scalar nil ptr slice map struct]:
  assumes "has_type h t v"
    and "\<And>s. P TScalar (GScalar s)"
    and "\<And>t. t \<noteq> TScalar \<Longrightarrow> (\<And>ts. t \<noteq> TStruct ts) \<Longrightarrow> P t GNil"
    and "\<And>t a x. a < length h \<Longrightarrow> h ! a = CVar x \<Longrightarrow> has_type h t x \<Longrightarrow> P t x \<Longrightarrow> P (TPtr t) (GRef a)"
    and "\<And>t a xs. a < length h \<Longrightarrow> h ! a = CArray xs \<Longrightarrow>
      (\<And>x. x \<in> set xs \<Longrightarrow> has_type h t x \<and> P t x) \<Longrightarrow> P (TSlice t) (GRef a)"
    and "\<And>a m. a < length h \<Longrightarrow> h ! a = CMap m \<Longrightarrow> P TMap (GRef a)"
    and "\<And>ts fs. map fst fs = map fst ts \<Longrightarrow>
      (\<And>n t. (n, t) \<in> set ts \<Longrightarrow> has_type h t (field_of fs n) \<and> P t (field_of fs n)) \<Longrightarrow>
      P (TStruct ts) (GStruct fs)"
  shows "P t v"
  using assms(1)
proof (induction t arbitrary: v)
  case (TStruct ts)
  then obtain fs where fs: "v = GStruct fs" "map fst fs = map fst ts"
    "\<And>n t. (n, t) \<in> set ts \<Longrightarrow> has_type h t (field_of fs n)"
    by (cases v) fastforce+
  have "P t (field_of fs n)" if "(n, t) \<in> set ts" for n t
    using TStruct.IH [OF that, of t] fs(3) [OF that] by simp
  then show ?case using assms(7) fs by blast
qed (auto intro: assms(2-6) split: gval.splits cell.splits)

definition same :: "heap \<Rightarrow> heap \<Rightarrow> ty \<Rightarrow> gval \<Rightarrow> bool" where
  "same h h' t v \<longleftrightarrow> has_type h' t v \<and> view h' t v = view h t v \<and> reach h' t v = reach h t v"

lemma same_if_agrees: "has_type h t v \<Longrightarrow> agrees h h' (reach h t v) \<Longrightarrow> same h h' t v"
proof (induction rule: typed_induct)
  case (nil t)
  then show ?case by (cases t) (auto simp: same_def)
next
  case (slice t a xs)
  then have "same h h' t x" if "x \<in> set xs" for x
    using that by simp
  then show ?case
    using slice by (auto simp: same_def dest: agrees_length)
next
  case (struct ts fs)
  then have "same h h' t (field_of fs n)" if "(n, t) \<in> set ts" for n t
    using that by auto
  then show ?case
    using struct(1) by (auto simp: same_def)
qed (auto simp: same_def dest: agrees_length)

lemma reach_bound: "has_type h t v \<Longrightarrow> reach h t v \<subseteq> {..<length h}"
  by (induction rule: typed_induct) auto

lemma same_append: "has_type h t v \<Longrightarrow> same h (h @ e) t v"
  using reach_bound [of h t v] by (intro same_if_agrees) (auto simp: agrees_def nth_append)

lemma flat_reach: "has_type h t v \<Longrightarrow> flat t \<Longrightarrow> reach h t v = {}"
  by (induction rule: typed_induct) auto

section \<open>Copying\<close>

type_synonym copier = "gval \<Rightarrow> heap \<Rightarrow> gval \<times> heap"

definition alloc :: "cell \<Rightarrow> heap \<Rightarrow> gval \<times> heap" where
  "alloc c h = (GRef (length h), h @ [c])"

text \<open>\<open>*out = *in\<close> and nothing else.\<close>

definition copy_flat :: copier where
  "copy_flat v h = (v, h)"

text \<open>A pointer that is not \<open>nil\<close>: a new variable, filled from the old one.\<close>

definition copy_pointer :: "copier \<Rightarrow> copier" where
  "copy_pointer into v h =
     (case v of
        GRef a \<Rightarrow>
          (case h ! a of
             CVar x \<Rightarrow> (case into x h of (x', h') \<Rightarrow> alloc (CVar x') h')
           | _ \<Rightarrow> (v, h))
      | _ \<Rightarrow> (v, h))"

text \<open>The elements one after the other.\<close>

fun copy_elements :: "copier \<Rightarrow> gval list \<Rightarrow> heap \<Rightarrow> gval list \<times> heap" where
  "copy_elements into [] h = ([], h)"
| "copy_elements into (x # xs) h =
     (case into x h of (x', h1) \<Rightarrow> (case copy_elements into xs h1 of (xs', h2) \<Rightarrow> (x' # xs', h2)))"

definition copy_slice :: "copier \<Rightarrow> copier" where
  "copy_slice into v h =
     (case v of
        GRef a \<Rightarrow>
          (case h ! a of
             CArray xs \<Rightarrow> (case copy_elements into xs h of (xs', h') \<Rightarrow> alloc (CArray xs') h')
           | _ \<Rightarrow> (v, h))
      | _ \<Rightarrow> (v, h))"

definition copy_map :: copier where
  "copy_map v h =
     (case v of
        GRef a \<Rightarrow> (case h ! a of CMap m \<Rightarrow> alloc (CMap m) h | _ \<Rightarrow> (v, h))
      | _ \<Rightarrow> (v, h))"

text \<open>
  The body of a generated \<open>DeepCopyInto\<close>: after \<open>*out = *in\<close>, statements that set one field
  each, by assignment or with a copy of the field of \<open>in\<close>.
\<close>

datatype stmt = Assign string | Into string copier

definition set_field :: "string \<Rightarrow> gval \<Rightarrow> (string \<times> gval) list \<Rightarrow> (string \<times> gval) list" where
  "set_field n v fs = map (\<lambda>(m, x). (m, if m = n then v else x)) fs"

fun run_stmts ::
  "stmt list \<Rightarrow> (string \<times> gval) list \<Rightarrow> (string \<times> gval) list \<Rightarrow> heap \<Rightarrow> (string \<times> gval) list \<times> heap" where
  "run_stmts [] src out h = (out, h)"
| "run_stmts (Assign n # ss) src out h = run_stmts ss src (set_field n (field_of src n) out) h"
| "run_stmts (Into n into # ss) src out h =
     (case into (field_of src n) h of (x, h') \<Rightarrow> run_stmts ss src (set_field n x out) h')"

definition copy_struct :: "stmt list \<Rightarrow> copier" where
  "copy_struct ss v h =
     (case v of
        GStruct fs \<Rightarrow> (case run_stmts ss fs fs h of (out, h') \<Rightarrow> (GStruct out, h'))
      | _ \<Rightarrow> (v, h))"

text \<open>\<open>DeepCopy\<close>: \<open>nil\<close> stays \<open>nil\<close>, otherwise a new variable is filled.\<close>

definition deep_copy :: "copier \<Rightarrow> heap \<Rightarrow> addr option \<Rightarrow> addr option \<times> heap" where
  "deep_copy into h p =
     (case p of
        None \<Rightarrow> (None, h)
      | Some a \<Rightarrow>
          (case h ! a of
             CVar x \<Rightarrow> (case into x h of (x', h') \<Rightarrow> (Some (length h'), h' @ [CVar x']))
           | _ \<Rightarrow> (None, h)))"

text \<open>
  \<open>DeepCopyObject\<close>: the result is an interface value, a type and a pointer, and \<open>nil\<close> of no type
  for a \<open>nil\<close> receiver.
\<close>

definition as_object :: "string \<Rightarrow> addr option \<times> heap \<Rightarrow> (string \<times> addr) option \<times> heap" where
  "as_object name r = (case r of (c, h) \<Rightarrow> (case c of None \<Rightarrow> None | Some a \<Rightarrow> Some (name, a), h))"

section \<open>Deep copies\<close>

text \<open>
  A deep copy leaves the old cells alone, gives a value that reads like the old one, and all it
  refers to is new.
\<close>

definition copied :: "heap \<Rightarrow> heap \<Rightarrow> ty \<Rightarrow> gval \<Rightarrow> gval \<Rightarrow> bool" where
  "copied h h' t v v' \<longleftrightarrow>
     has_type h' t v' \<and> view h' t v' = view h t v \<and> reach h' t v' \<inter> {..<length h} = {}"

definition extends :: "heap \<Rightarrow> heap \<Rightarrow> bool" where
  "extends h h' \<longleftrightarrow> (\<exists>e. h' = h @ e)"

lemma extends_refl [simp]: "extends h h"
  by (simp add: extends_def)

lemma extends_trans: "extends a b \<Longrightarrow> extends b c \<Longrightarrow> extends a c"
  by (auto simp: extends_def)

lemma extends_snoc [simp]: "extends h (h @ e)"
  by (simp add: extends_def)

lemma extends_length: "extends h h' \<Longrightarrow> length h \<le> length h'"
  by (auto simp: extends_def)

lemma extends_nth: "extends h h' \<Longrightarrow> a < length h \<Longrightarrow> h' ! a = h ! a"
  by (auto simp: extends_def nth_append)

lemma extends_same: "extends h h' \<Longrightarrow> has_type h t v \<Longrightarrow> same h h' t v"
  by (auto simp: extends_def intro: same_append)

definition deep :: "ty \<Rightarrow> copier \<Rightarrow> bool" where
  "deep t into \<longleftrightarrow> (\<forall>v h v' h'. has_type h t v \<longrightarrow> into v h = (v', h') \<longrightarrow>
     extends h h' \<and> copied h h' t v v')"

lemma deepD:
  "deep t into \<Longrightarrow> has_type h t v \<Longrightarrow> into v h = (v', h') \<Longrightarrow> extends h h' \<and> copied h h' t v v'"
  by (simp add: deep_def)

lemma deepI:
  "(\<And>v h v' h'. has_type h t v \<Longrightarrow> into v h = (v', h') \<Longrightarrow> extends h h' \<and> copied h h' t v v') \<Longrightarrow>
   deep t into"
  by (simp add: deep_def)

text \<open>A copy stays one while the store grows, before and after.\<close>

lemma copied_later: "copied h h1 t v v' \<Longrightarrow> extends h1 h2 \<Longrightarrow> copied h h2 t v v'"
  using extends_same [of h1 h2 t v'] by (auto simp: copied_def same_def)

lemma copied_earlier:
  "has_type h t v \<Longrightarrow> extends h h1 \<Longrightarrow> copied h1 h2 t v v' \<Longrightarrow> copied h h2 t v v'"
  using extends_same [of h h1 t v] extends_length [of h h1] by (auto simp: copied_def same_def)

lemma copied_flat: "has_type h t v \<Longrightarrow> extends h h' \<Longrightarrow> flat t \<Longrightarrow> copied h h' t v v"
  using extends_same [of h h' t v] flat_reach [of h t v] by (auto simp: copied_def same_def)

lemma deep_flat: "flat t \<Longrightarrow> deep t copy_flat"
  by (rule deepI) (auto simp: copy_flat_def intro: copied_flat)

lemma copied_nil: "has_type h t GNil \<Longrightarrow> copied h h t GNil GNil"
  by (auto simp: copied_def)

lemma deep_pointer:
  assumes "deep t into"
  shows "deep (TPtr t) (copy_pointer into)"
proof (rule deepI)
  fix v h v' h'
  assume v: "has_type h (TPtr t) v" and run: "copy_pointer into v h = (v', h')"
  show "extends h h' \<and> copied h h' (TPtr t) v v'"
  proof (cases v)
    case (GRef a)
    with v obtain x where x: "h ! a = CVar x" "has_type h t x"
      by (auto split: cell.splits)
    obtain x' h1 where into: "into x h = (x', h1)" by force
    have c: "extends h h1" "copied h h1 t x x'"
      using deepD [OF assms x(2) into] by auto
    have res: "v' = GRef (length h1)" "h' = h1 @ [CVar x']"
      using run GRef x into by (auto simp: copy_pointer_def alloc_def)
    have "copied h h' t x x'"
      using copied_later [OF c(2)] res by simp
    then show ?thesis
      using c res GRef x extends_length [OF c(1)] by (auto simp: copied_def intro: extends_trans)
  qed (use v run in \<open>auto simp: copy_pointer_def copied_nil\<close>)
qed

lemma deep_map: "deep TMap copy_map"
proof (rule deepI)
  fix v h v' h'
  assume "has_type h TMap v" "copy_map v h = (v', h')"
  then show "extends h h' \<and> copied h h' TMap v v'"
    by (auto simp: copy_map_def alloc_def copied_def split: gval.splits cell.splits)
qed

lemma copy_elements_deep:
  assumes "deep t into" "\<forall>x \<in> set xs. has_type h t x" "copy_elements into xs h = (xs', h')"
  shows "extends h h' \<and> list_all2 (copied h h' t) xs xs'"
  using assms(2,3)
proof (induction xs arbitrary: h xs')
  case (Cons x xs)
  obtain x' h1 ys where into: "into x h = (x', h1)" "copy_elements into xs h1 = (ys, h')" "xs' = x' # ys"
    using Cons.prems(2) by (auto split: prod.splits)
  have c: "extends h h1" "copied h h1 t x x'"
    using deepD [OF assms(1) _ into(1)] Cons.prems(1) by auto
  have typed: "\<forall>x \<in> set xs. has_type h t x" using Cons.prems(1) by simp
  then have "\<forall>x \<in> set xs. has_type h1 t x"
    using extends_same [OF c(1)] by (auto simp: same_def)
  from Cons.IH [OF this into(2)] have rest: "extends h1 h'" "list_all2 (copied h1 h' t) xs ys"
    by auto
  have "list_all2 (copied h h' t) xs ys"
    using rest(2) by (rule list.rel_mono_strong) (use typed c(1) copied_earlier in blast)
  then show ?case
    using into(3) c rest(1) copied_later by (auto intro: extends_trans)
qed simp

lemma deep_slice:
  assumes "deep t into"
  shows "deep (TSlice t) (copy_slice into)"
proof (rule deepI)
  fix v h v' h'
  assume v: "has_type h (TSlice t) v" and run: "copy_slice into v h = (v', h')"
  show "extends h h' \<and> copied h h' (TSlice t) v v'"
  proof (cases v)
    case (GRef a)
    with v obtain xs where xs: "h ! a = CArray xs" "\<forall>x \<in> set xs. has_type h t x"
      by (auto split: cell.splits)
    obtain xs' h1 where els: "copy_elements into xs h = (xs', h1)" by force
    have c: "extends h h1" "list_all2 (copied h h1 t) xs xs'"
      using copy_elements_deep [OF assms xs(2) els] by auto
    have res: "v' = GRef (length h1)" "h' = h1 @ [CArray xs']"
      using run GRef xs els by (auto simp: copy_slice_def alloc_def)
    have all: "list_all2 (copied h h' t) xs xs'"
      using c(2) by (rule list_all2_mono) (use copied_later res in simp)
    then have "map (view h' t) xs' = map (view h t) xs"
      by (induction rule: list_all2_induct) (auto simp: copied_def)
    moreover have "has_type h' t x' \<and> reach h' t x' \<inter> {..<length h} = {}" if "x' \<in> set xs'" for x'
      using all that unfolding list_all2_conv_all_nth in_set_conv_nth by (auto simp: copied_def)
    ultimately show ?thesis
      using c res GRef xs extends_length [OF c(1)] by (auto simp: copied_def intro: extends_trans)
  qed (use v run in \<open>auto simp: copy_slice_def copied_nil\<close>)
qed

text \<open>The statements of a struct: every field with references is copied, the others may be assigned.\<close>

fun stmt_ok :: "(string \<times> ty) list \<Rightarrow> stmt \<Rightarrow> bool" where
  "stmt_ok ts (Assign n) \<longleftrightarrow> (\<exists>t. (n, t) \<in> set ts \<and> flat t)"
| "stmt_ok ts (Into n into) \<longleftrightarrow> (\<exists>t. (n, t) \<in> set ts \<and> deep t into)"

definition covers :: "(string \<times> ty) list \<Rightarrow> stmt list \<Rightarrow> bool" where
  "covers ts ss \<longleftrightarrow> distinct (map fst ts) \<and> (\<forall>st \<in> set ss. stmt_ok ts st) \<and>
     (\<forall>(n, t) \<in> set ts. flat t \<or> (\<exists>into. Into n into \<in> set ss))"

lemma set_field_names [simp]: "map fst (set_field n v fs) = map fst fs"
  by (induction fs) (auto simp: set_field_def)

lemma field_of_set [simp]:
  "m \<in> fst ` set fs \<Longrightarrow> field_of (set_field n v fs) m = (if m = n then v else field_of fs m)"
  by (induction fs) (auto simp: set_field_def field_of_def rev_image_eqI)

lemma run_stmts_deep:
  assumes "distinct (map fst ts)" "\<forall>st \<in> set ss. stmt_ok ts st"
    and "\<forall>(n, t) \<in> set ts. has_type h0 t (field_of src n)"
    and "extends h0 h" "map fst out = map fst ts"
    and "\<forall>(n, t) \<in> set ts. copied h0 h t (field_of src n) (field_of out n) \<or> (\<exists>into. Into n into \<in> set ss)"
    and "run_stmts ss src out h = (out', h')"
  shows "extends h0 h' \<and> map fst out' = map fst ts \<and>
    (\<forall>(n, t) \<in> set ts. copied h0 h' t (field_of src n) (field_of out' n))"
  using assms(2-)
proof (induction ss arbitrary: out h)
  case (Cons st ss)
  have named: "n \<in> fst ` set out" if "(n, t) \<in> set ts" for n t
    using that Cons.prems(4) by (metis fst_conv image_eqI image_set)
  show ?case
  proof (cases st)
    case (Assign n)
    with Cons.prems(1) obtain t where t: "(n, t) \<in> set ts" "flat t" by auto
    have "copied h0 h t (field_of src n) (field_of src n)"
      using t Cons.prems(2,3) by (auto intro: copied_flat)
    then have "copied h0 h u (field_of src m) (field_of (set_field n (field_of src n) out) m) \<or>
        (\<exists>into. Into m into \<in> set ss)" if "(m, u) \<in> set ts" for m u
      using Cons.prems(5) Assign that named [OF that] eq_key_imp_eq_value [OF assms(1) that, of t] t(1)
      by (cases "m = n") auto
    then show ?thesis
      using Cons.IH [of h "set_field n (field_of src n) out"] Cons.prems Assign by auto
  next
    case (Into n into)
    with Cons.prems(1) obtain t where t: "(n, t) \<in> set ts" "deep t into" by auto
    obtain x h1 where run: "into (field_of src n) h = (x, h1)" by force
    have typed: "has_type h0 t (field_of src n)" using t(1) Cons.prems(2) by auto
    then have "has_type h t (field_of src n)"
      using extends_same [OF Cons.prems(3)] by (simp add: same_def)
    from deepD [OF t(2) this run] have c: "extends h h1" "copied h h1 t (field_of src n) x" by auto
    have now: "copied h0 h1 t (field_of src n) x"
      using copied_earlier [OF typed Cons.prems(3) c(2)] .
    have "copied h0 h1 u (field_of src m) (field_of (set_field n x out) m) \<or>
        (\<exists>into. Into m into \<in> set ss)" if "(m, u) \<in> set ts" for m u
      using Cons.prems(5) Into that named [OF that] eq_key_imp_eq_value [OF assms(1) that, of t] t(1)
        now copied_later [OF _ c(1)]
      by (cases "m = n") auto
    then show ?thesis
      using Cons.IH [of h1 "set_field n x out"] Cons.prems Into run extends_trans [OF Cons.prems(3) c(1)]
      by auto
  qed
qed auto

lemma deep_struct:
  assumes "covers ts ss"
  shows "deep (TStruct ts) (copy_struct ss)"
proof (rule deepI)
  fix v h v' h'
  assume v: "has_type h (TStruct ts) v" and run: "copy_struct ss v h = (v', h')"
  from v obtain fs where fs: "v = GStruct fs" "map fst fs = map fst ts"
    "\<forall>(n, t) \<in> set ts. has_type h t (field_of fs n)"
    by (cases v) auto
  obtain out where out: "run_stmts ss fs fs h = (out, h')" "v' = GStruct out"
    using run fs(1) by (auto simp: copy_struct_def split: prod.splits)
  have "\<forall>(n, t) \<in> set ts. copied h h t (field_of fs n) (field_of fs n) \<or> (\<exists>into. Into n into \<in> set ss)"
    using assms fs(3) by (fastforce simp: covers_def intro: copied_flat)
  with run_stmts_deep [OF _ _ fs(3) extends_refl fs(2) _ out(1)] assms
  have "extends h h'" "map fst out = map fst ts"
    "\<forall>(n, t) \<in> set ts. copied h h' t (field_of fs n) (field_of out n)"
    by (auto simp: covers_def)
  then show "extends h h' \<and> copied h h' (TStruct ts) v v'"
    using fs out(2) by (fastforce simp: copied_def)
qed

end
