(* ===== verification/Deep_Copies.thy ===== *)
theory Deep_Copies
  imports Go_Heap
begin

text \<open>
  The generated deep copies of the API types, \<open>api/v1alpha1/zz_generated.deepcopy.go\<close>, over the
  structs of \<open>api/v1alpha1/*_types.go\<close>, and that they share nothing with what they copy:
  an object that controller-runtime takes from its cache may be changed at will by the reconciler
  that got a copy of it.
\<close>

section \<open>The types\<close>

text \<open>
  The types of the Kubernetes libraries, with their deep copies: \<open>metav1\<close> and
  \<open>apiextensionsv1\<close>. \<open>Time\<close> has a \<open>DeepCopy\<close> on pointers. The generated copies of the libraries are
  deep copies, and \<open>TypeMeta\<close> consists of two strings.
\<close>

record meta_lib =
  TypeMeta_type :: ty
  ObjectMeta_type :: ty
  ObjectMeta_DeepCopyInto :: copier
  ListMeta_type :: ty
  ListMeta_DeepCopyInto :: copier
  Condition_type :: ty
  Condition_DeepCopyInto :: copier
  Time_type :: ty
  Time_DeepCopy :: copier
  JSON_type :: ty
  JSON_DeepCopyInto :: copier

definition meta_ok :: "meta_lib \<Rightarrow> bool" where
  "meta_ok X \<longleftrightarrow> flat (TypeMeta_type X) \<and>
     deep (ObjectMeta_type X) (ObjectMeta_DeepCopyInto X) \<and>
     deep (ListMeta_type X) (ListMeta_DeepCopyInto X) \<and>
     deep (Condition_type X) (Condition_DeepCopyInto X) \<and>
     deep (TPtr (Time_type X)) (Time_DeepCopy X) \<and>
     deep (JSON_type X) (JSON_DeepCopyInto X)"

definition ty_AzureStorageConfig :: "ty" where
  "ty_AzureStorageConfig = TStruct
     [(''TenantID'', TScalar), (''MultiTenantAppName'', TScalar), (''ConsentURL'', TScalar)]"

definition ty_CABundleSecretRef :: "ty" where
  "ty_CABundleSecretRef = TStruct
     [(''Name'', TScalar), (''Key'', TScalar)]"

definition ty_CatalogRef :: "ty" where
  "ty_CatalogRef = TStruct
     [(''Name'', TScalar), (''Namespace'', TScalar)]"

definition ty_CatalogRoleRef :: "ty" where
  "ty_CatalogRoleRef = TStruct
     [(''Name'', TScalar), (''Namespace'', TScalar)]"

definition ty_ClientCredentialsSecretRef :: "ty" where
  "ty_ClientCredentialsSecretRef = TStruct
     [(''Name'', TScalar), (''ClientIdKey'', TScalar), (''ClientSecretKey'', TScalar)]"

definition ty_ConnectionRef :: "ty" where
  "ty_ConnectionRef = TStruct
     [(''Name'', TScalar), (''Namespace'', TScalar)]"

definition ty_GCSStorageConfig :: "ty" where
  "ty_GCSStorageConfig = TStruct
     [(''GCSServiceAccount'', TScalar)]"

definition ty_GeneratedCredentialsSecretRef :: "ty" where
  "ty_GeneratedCredentialsSecretRef = TStruct
     [(''Name'', TScalar)]"

definition ty_NamespaceRef :: "ty" where
  "ty_NamespaceRef = TStruct
     [(''Name'', TScalar), (''Namespace'', TScalar)]"

definition ty_TableRef :: "ty" where
  "ty_TableRef = TStruct
     [(''Name'', TScalar), (''Namespace'', TScalar)]"

definition ty_ViewRef :: "ty" where
  "ty_ViewRef = TStruct
     [(''Name'', TScalar), (''Namespace'', TScalar)]"

definition ty_GrantTarget :: "ty" where
  "ty_GrantTarget = TStruct
     [(''Type'', TScalar), (''NamespaceRef'', TPtr ty_NamespaceRef),
      (''TableRef'', TPtr ty_TableRef), (''ViewRef'', TPtr ty_ViewRef)]"

definition ty_IcebergField :: "ty" where
  "ty_IcebergField = TStruct
     [(''ID'', TScalar), (''Name'', TScalar), (''Type'', TScalar), (''Required'', TScalar),
      (''Doc'', TScalar)]"

definition ty_IcebergPartitionField :: "ty" where
  "ty_IcebergPartitionField = TStruct
     [(''SourceID'', TScalar), (''FieldID'', TScalar), (''Name'', TScalar),
      (''Transform'', TScalar)]"

definition ty_IcebergPartitionSpec :: "ty" where
  "ty_IcebergPartitionSpec = TStruct
     [(''Fields'', TSlice ty_IcebergPartitionField)]"

definition ty_IcebergSchema :: "ty" where
  "ty_IcebergSchema = TStruct
     [(''Fields'', TSlice ty_IcebergField), (''IdentifierFieldIds'', TSlice TScalar)]"

definition ty_S3StorageConfig :: "ty" where
  "ty_S3StorageConfig = TStruct
     [(''RoleARN'', TScalar), (''Region'', TScalar), (''ExternalID'', TScalar),
      (''UserARN'', TScalar)]"

definition ty_StorageConfig :: "ty" where
  "ty_StorageConfig = TStruct
     [(''StorageType'', TScalar), (''AllowedLocations'', TSlice TScalar),
      (''S3'', TPtr ty_S3StorageConfig), (''Azure'', TPtr ty_AzureStorageConfig),
      (''GCS'', TPtr ty_GCSStorageConfig)]"

definition ty_PolarisCatalogSpec :: "ty" where
  "ty_PolarisCatalogSpec = TStruct
     [(''ConnectionRef'', ty_ConnectionRef), (''Name'', TScalar), (''Type'', TScalar),
      (''DefaultBaseLocation'', TScalar), (''StorageConfig'', ty_StorageConfig),
      (''Properties'', TMap)]"

definition ty_PolarisCatalogStatus :: "meta_lib \<Rightarrow> ty" where
  "ty_PolarisCatalogStatus X = TStruct
     [(''ObservedGeneration'', TScalar), (''PolarisCatalogID'', TScalar),
      (''Conditions'', TSlice (Condition_type X))]"

definition ty_PolarisCatalog :: "meta_lib \<Rightarrow> ty" where
  "ty_PolarisCatalog X = TStruct
     [(''TypeMeta'', TypeMeta_type X), (''ObjectMeta'', ObjectMeta_type X),
      (''Spec'', ty_PolarisCatalogSpec), (''Status'', ty_PolarisCatalogStatus X)]"

definition ty_PolarisCatalogList :: "meta_lib \<Rightarrow> ty" where
  "ty_PolarisCatalogList X = TStruct
     [(''TypeMeta'', TypeMeta_type X), (''ListMeta'', ListMeta_type X),
      (''Items'', TSlice (ty_PolarisCatalog X))]"

definition ty_PolarisCatalogRoleSpec :: "ty" where
  "ty_PolarisCatalogRoleSpec = TStruct
     [(''CatalogRef'', ty_CatalogRef), (''Name'', TScalar), (''Properties'', TMap)]"

definition ty_PolarisCatalogRoleStatus :: "meta_lib \<Rightarrow> ty" where
  "ty_PolarisCatalogRoleStatus X = TStruct
     [(''ObservedGeneration'', TScalar), (''Conditions'', TSlice (Condition_type X))]"

definition ty_PolarisCatalogRole :: "meta_lib \<Rightarrow> ty" where
  "ty_PolarisCatalogRole X = TStruct
     [(''TypeMeta'', TypeMeta_type X), (''ObjectMeta'', ObjectMeta_type X),
      (''Spec'', ty_PolarisCatalogRoleSpec), (''Status'', ty_PolarisCatalogRoleStatus X)]"

definition ty_PrincipalRoleRef :: "ty" where
  "ty_PrincipalRoleRef = TStruct
     [(''Name'', TScalar), (''Namespace'', TScalar)]"

definition ty_PolarisCatalogRoleBindingSpec :: "ty" where
  "ty_PolarisCatalogRoleBindingSpec = TStruct
     [(''PrincipalRoleRef'', ty_PrincipalRoleRef), (''CatalogRoleRef'', ty_CatalogRoleRef)]"

definition ty_PolarisCatalogRoleBindingStatus :: "meta_lib \<Rightarrow> ty" where
  "ty_PolarisCatalogRoleBindingStatus X = TStruct
     [(''ObservedGeneration'', TScalar), (''Conditions'', TSlice (Condition_type X))]"

definition ty_PolarisCatalogRoleBinding :: "meta_lib \<Rightarrow> ty" where
  "ty_PolarisCatalogRoleBinding X = TStruct
     [(''TypeMeta'', TypeMeta_type X), (''ObjectMeta'', ObjectMeta_type X),
      (''Spec'', ty_PolarisCatalogRoleBindingSpec),
      (''Status'', ty_PolarisCatalogRoleBindingStatus X)]"

definition ty_PolarisCatalogRoleBindingList :: "meta_lib \<Rightarrow> ty" where
  "ty_PolarisCatalogRoleBindingList X = TStruct
     [(''TypeMeta'', TypeMeta_type X), (''ListMeta'', ListMeta_type X),
      (''Items'', TSlice (ty_PolarisCatalogRoleBinding X))]"

definition ty_PolarisCatalogRoleList :: "meta_lib \<Rightarrow> ty" where
  "ty_PolarisCatalogRoleList X = TStruct
     [(''TypeMeta'', TypeMeta_type X), (''ListMeta'', ListMeta_type X),
      (''Items'', TSlice (ty_PolarisCatalogRole X))]"

definition ty_PolarisConnectionSpec :: "ty" where
  "ty_PolarisConnectionSpec = TStruct
     [(''ServerURL'', TScalar), (''TokenPath'', TScalar), (''Scope'', TScalar),
      (''CredentialsSecretRef'', ty_ClientCredentialsSecretRef),
      (''CABundleSecretRef'', TPtr ty_CABundleSecretRef), (''InsecureSkipVerify'', TScalar)]"

definition ty_PolarisConnectionStatus :: "meta_lib \<Rightarrow> ty" where
  "ty_PolarisConnectionStatus X = TStruct
     [(''ObservedGeneration'', TScalar), (''ServerVersion'', TScalar),
      (''Conditions'', TSlice (Condition_type X))]"

definition ty_PolarisConnection :: "meta_lib \<Rightarrow> ty" where
  "ty_PolarisConnection X = TStruct
     [(''TypeMeta'', TypeMeta_type X), (''ObjectMeta'', ObjectMeta_type X),
      (''Spec'', ty_PolarisConnectionSpec), (''Status'', ty_PolarisConnectionStatus X)]"

definition ty_PolarisConnectionList :: "meta_lib \<Rightarrow> ty" where
  "ty_PolarisConnectionList X = TStruct
     [(''TypeMeta'', TypeMeta_type X), (''ListMeta'', ListMeta_type X),
      (''Items'', TSlice (ty_PolarisConnection X))]"

definition ty_PolarisGrantSpec :: "ty" where
  "ty_PolarisGrantSpec = TStruct
     [(''CatalogRoleRef'', ty_CatalogRoleRef), (''Privilege'', TScalar),
      (''Target'', ty_GrantTarget)]"

definition ty_PolarisGrantStatus :: "meta_lib \<Rightarrow> ty" where
  "ty_PolarisGrantStatus X = TStruct
     [(''ObservedGeneration'', TScalar), (''Conditions'', TSlice (Condition_type X))]"

definition ty_PolarisGrant :: "meta_lib \<Rightarrow> ty" where
  "ty_PolarisGrant X = TStruct
     [(''TypeMeta'', TypeMeta_type X), (''ObjectMeta'', ObjectMeta_type X),
      (''Spec'', ty_PolarisGrantSpec), (''Status'', ty_PolarisGrantStatus X)]"

definition ty_PolarisGrantList :: "meta_lib \<Rightarrow> ty" where
  "ty_PolarisGrantList X = TStruct
     [(''TypeMeta'', TypeMeta_type X), (''ListMeta'', ListMeta_type X),
      (''Items'', TSlice (ty_PolarisGrant X))]"

definition ty_PolarisNamespaceSpec :: "ty" where
  "ty_PolarisNamespaceSpec = TStruct
     [(''CatalogRef'', ty_CatalogRef), (''ParentRef'', TPtr ty_NamespaceRef),
      (''Name'', TScalar), (''Properties'', TMap)]"

definition ty_PolarisNamespaceStatus :: "meta_lib \<Rightarrow> ty" where
  "ty_PolarisNamespaceStatus X = TStruct
     [(''ObservedGeneration'', TScalar), (''FullPath'', TSlice TScalar),
      (''Conditions'', TSlice (Condition_type X))]"

definition ty_PolarisNamespace :: "meta_lib \<Rightarrow> ty" where
  "ty_PolarisNamespace X = TStruct
     [(''TypeMeta'', TypeMeta_type X), (''ObjectMeta'', ObjectMeta_type X),
      (''Spec'', ty_PolarisNamespaceSpec), (''Status'', ty_PolarisNamespaceStatus X)]"

definition ty_PolarisNamespaceList :: "meta_lib \<Rightarrow> ty" where
  "ty_PolarisNamespaceList X = TStruct
     [(''TypeMeta'', TypeMeta_type X), (''ListMeta'', ListMeta_type X),
      (''Items'', TSlice (ty_PolarisNamespace X))]"

definition ty_PolarisPolicySpec :: "meta_lib \<Rightarrow> ty" where
  "ty_PolarisPolicySpec X = TStruct
     [(''NamespaceRef'', ty_NamespaceRef), (''Name'', TScalar), (''Type'', TScalar),
      (''Description'', TScalar), (''Content'', JSON_type X)]"

definition ty_PolarisPolicyStatus :: "meta_lib \<Rightarrow> ty" where
  "ty_PolarisPolicyStatus X = TStruct
     [(''ObservedGeneration'', TScalar), (''Conditions'', TSlice (Condition_type X))]"

definition ty_PolarisPolicy :: "meta_lib \<Rightarrow> ty" where
  "ty_PolarisPolicy X = TStruct
     [(''TypeMeta'', TypeMeta_type X), (''ObjectMeta'', ObjectMeta_type X),
      (''Spec'', ty_PolarisPolicySpec X), (''Status'', ty_PolarisPolicyStatus X)]"

definition ty_PolarisPolicyList :: "meta_lib \<Rightarrow> ty" where
  "ty_PolarisPolicyList X = TStruct
     [(''TypeMeta'', TypeMeta_type X), (''ListMeta'', ListMeta_type X),
      (''Items'', TSlice (ty_PolarisPolicy X))]"

definition ty_PolarisPrincipalSpec :: "ty" where
  "ty_PolarisPrincipalSpec = TStruct
     [(''ConnectionRef'', ty_ConnectionRef), (''Name'', TScalar),
      (''CredentialRotationRequired'', TScalar), (''Properties'', TMap),
      (''CredentialsSecretRef'', ty_GeneratedCredentialsSecretRef)]"

definition ty_PolarisPrincipalStatus :: "meta_lib \<Rightarrow> ty" where
  "ty_PolarisPrincipalStatus X = TStruct
     [(''ObservedGeneration'', TScalar), (''PrincipalID'', TScalar),
      (''CredentialsLastRotated'', TPtr (Time_type X)),
      (''Conditions'', TSlice (Condition_type X))]"

definition ty_PolarisPrincipal :: "meta_lib \<Rightarrow> ty" where
  "ty_PolarisPrincipal X = TStruct
     [(''TypeMeta'', TypeMeta_type X), (''ObjectMeta'', ObjectMeta_type X),
      (''Spec'', ty_PolarisPrincipalSpec), (''Status'', ty_PolarisPrincipalStatus X)]"

definition ty_PolarisPrincipalList :: "meta_lib \<Rightarrow> ty" where
  "ty_PolarisPrincipalList X = TStruct
     [(''TypeMeta'', TypeMeta_type X), (''ListMeta'', ListMeta_type X),
      (''Items'', TSlice (ty_PolarisPrincipal X))]"

definition ty_PolarisPrincipalRoleSpec :: "ty" where
  "ty_PolarisPrincipalRoleSpec = TStruct
     [(''ConnectionRef'', ty_ConnectionRef), (''Name'', TScalar), (''Properties'', TMap)]"

definition ty_PolarisPrincipalRoleStatus :: "meta_lib \<Rightarrow> ty" where
  "ty_PolarisPrincipalRoleStatus X = TStruct
     [(''ObservedGeneration'', TScalar), (''Conditions'', TSlice (Condition_type X))]"

definition ty_PolarisPrincipalRole :: "meta_lib \<Rightarrow> ty" where
  "ty_PolarisPrincipalRole X = TStruct
     [(''TypeMeta'', TypeMeta_type X), (''ObjectMeta'', ObjectMeta_type X),
      (''Spec'', ty_PolarisPrincipalRoleSpec), (''Status'', ty_PolarisPrincipalRoleStatus X)]"

definition ty_PrincipalRef :: "ty" where
  "ty_PrincipalRef = TStruct
     [(''Name'', TScalar), (''Namespace'', TScalar)]"

definition ty_PolarisPrincipalRoleBindingSpec :: "ty" where
  "ty_PolarisPrincipalRoleBindingSpec = TStruct
     [(''PrincipalRef'', ty_PrincipalRef), (''PrincipalRoleRef'', ty_PrincipalRoleRef)]"

definition ty_PolarisPrincipalRoleBindingStatus :: "meta_lib \<Rightarrow> ty" where
  "ty_PolarisPrincipalRoleBindingStatus X = TStruct
     [(''ObservedGeneration'', TScalar), (''Conditions'', TSlice (Condition_type X))]"

definition ty_PolarisPrincipalRoleBinding :: "meta_lib \<Rightarrow> ty" where
  "ty_PolarisPrincipalRoleBinding X = TStruct
     [(''TypeMeta'', TypeMeta_type X), (''ObjectMeta'', ObjectMeta_type X),
      (''Spec'', ty_PolarisPrincipalRoleBindingSpec),
      (''Status'', ty_PolarisPrincipalRoleBindingStatus X)]"

definition ty_PolarisPrincipalRoleBindingList :: "meta_lib \<Rightarrow> ty" where
  "ty_PolarisPrincipalRoleBindingList X = TStruct
     [(''TypeMeta'', TypeMeta_type X), (''ListMeta'', ListMeta_type X),
      (''Items'', TSlice (ty_PolarisPrincipalRoleBinding X))]"

definition ty_PolarisPrincipalRoleList :: "meta_lib \<Rightarrow> ty" where
  "ty_PolarisPrincipalRoleList X = TStruct
     [(''TypeMeta'', TypeMeta_type X), (''ListMeta'', ListMeta_type X),
      (''Items'', TSlice (ty_PolarisPrincipalRole X))]"

definition ty_PolarisTableSpec :: "ty" where
  "ty_PolarisTableSpec = TStruct
     [(''NamespaceRef'', ty_NamespaceRef), (''Name'', TScalar), (''Schema'', ty_IcebergSchema),
      (''PartitionSpec'', TPtr ty_IcebergPartitionSpec), (''WriteFormat'', TScalar),
      (''Properties'', TMap)]"

definition ty_PolarisTableStatus :: "meta_lib \<Rightarrow> ty" where
  "ty_PolarisTableStatus X = TStruct
     [(''ObservedGeneration'', TScalar), (''Location'', TScalar), (''TableUUID'', TScalar),
      (''CurrentSnapshotID'', TScalar), (''Conditions'', TSlice (Condition_type X))]"

definition ty_PolarisTable :: "meta_lib \<Rightarrow> ty" where
  "ty_PolarisTable X = TStruct
     [(''TypeMeta'', TypeMeta_type X), (''ObjectMeta'', ObjectMeta_type X),
      (''Spec'', ty_PolarisTableSpec), (''Status'', ty_PolarisTableStatus X)]"

definition ty_PolarisTableList :: "meta_lib \<Rightarrow> ty" where
  "ty_PolarisTableList X = TStruct
     [(''TypeMeta'', TypeMeta_type X), (''ListMeta'', ListMeta_type X),
      (''Items'', TSlice (ty_PolarisTable X))]"

definition ty_PolarisViewSpec :: "ty" where
  "ty_PolarisViewSpec = TStruct
     [(''NamespaceRef'', ty_NamespaceRef), (''Name'', TScalar), (''Schema'', ty_IcebergSchema),
      (''SQL'', TScalar), (''Dialect'', TScalar), (''Properties'', TMap)]"

definition ty_PolarisViewStatus :: "meta_lib \<Rightarrow> ty" where
  "ty_PolarisViewStatus X = TStruct
     [(''ObservedGeneration'', TScalar), (''VersionID'', TScalar),
      (''Conditions'', TSlice (Condition_type X))]"

definition ty_PolarisView :: "meta_lib \<Rightarrow> ty" where
  "ty_PolarisView X = TStruct
     [(''TypeMeta'', TypeMeta_type X), (''ObjectMeta'', ObjectMeta_type X),
      (''Spec'', ty_PolarisViewSpec), (''Status'', ty_PolarisViewStatus X)]"

definition ty_PolarisViewList :: "meta_lib \<Rightarrow> ty" where
  "ty_PolarisViewList X = TStruct
     [(''TypeMeta'', TypeMeta_type X), (''ListMeta'', ListMeta_type X),
      (''Items'', TSlice (ty_PolarisView X))]"

section \<open>The copies\<close>

definition AzureStorageConfig_DeepCopyInto :: "copier" where
  "AzureStorageConfig_DeepCopyInto = copy_struct []"

definition AzureStorageConfig_DeepCopy :: "heap \<Rightarrow> addr option \<Rightarrow> addr option \<times> heap" where
  "AzureStorageConfig_DeepCopy = deep_copy AzureStorageConfig_DeepCopyInto"

definition CABundleSecretRef_DeepCopyInto :: "copier" where
  "CABundleSecretRef_DeepCopyInto = copy_struct []"

definition CABundleSecretRef_DeepCopy :: "heap \<Rightarrow> addr option \<Rightarrow> addr option \<times> heap" where
  "CABundleSecretRef_DeepCopy = deep_copy CABundleSecretRef_DeepCopyInto"

definition CatalogRef_DeepCopyInto :: "copier" where
  "CatalogRef_DeepCopyInto = copy_struct []"

definition CatalogRef_DeepCopy :: "heap \<Rightarrow> addr option \<Rightarrow> addr option \<times> heap" where
  "CatalogRef_DeepCopy = deep_copy CatalogRef_DeepCopyInto"

definition CatalogRoleRef_DeepCopyInto :: "copier" where
  "CatalogRoleRef_DeepCopyInto = copy_struct []"

definition CatalogRoleRef_DeepCopy :: "heap \<Rightarrow> addr option \<Rightarrow> addr option \<times> heap" where
  "CatalogRoleRef_DeepCopy = deep_copy CatalogRoleRef_DeepCopyInto"

definition ClientCredentialsSecretRef_DeepCopyInto :: "copier" where
  "ClientCredentialsSecretRef_DeepCopyInto = copy_struct []"

definition ClientCredentialsSecretRef_DeepCopy :: "heap \<Rightarrow> addr option \<Rightarrow> addr option \<times> heap" where
  "ClientCredentialsSecretRef_DeepCopy = deep_copy ClientCredentialsSecretRef_DeepCopyInto"

definition ConnectionRef_DeepCopyInto :: "copier" where
  "ConnectionRef_DeepCopyInto = copy_struct []"

definition ConnectionRef_DeepCopy :: "heap \<Rightarrow> addr option \<Rightarrow> addr option \<times> heap" where
  "ConnectionRef_DeepCopy = deep_copy ConnectionRef_DeepCopyInto"

definition GCSStorageConfig_DeepCopyInto :: "copier" where
  "GCSStorageConfig_DeepCopyInto = copy_struct []"

definition GCSStorageConfig_DeepCopy :: "heap \<Rightarrow> addr option \<Rightarrow> addr option \<times> heap" where
  "GCSStorageConfig_DeepCopy = deep_copy GCSStorageConfig_DeepCopyInto"

definition GeneratedCredentialsSecretRef_DeepCopyInto :: "copier" where
  "GeneratedCredentialsSecretRef_DeepCopyInto = copy_struct []"

definition GeneratedCredentialsSecretRef_DeepCopy :: "heap \<Rightarrow> addr option \<Rightarrow> addr option \<times> heap" where
  "GeneratedCredentialsSecretRef_DeepCopy = deep_copy GeneratedCredentialsSecretRef_DeepCopyInto"

definition NamespaceRef_DeepCopyInto :: "copier" where
  "NamespaceRef_DeepCopyInto = copy_struct []"

definition NamespaceRef_DeepCopy :: "heap \<Rightarrow> addr option \<Rightarrow> addr option \<times> heap" where
  "NamespaceRef_DeepCopy = deep_copy NamespaceRef_DeepCopyInto"

definition TableRef_DeepCopyInto :: "copier" where
  "TableRef_DeepCopyInto = copy_struct []"

definition TableRef_DeepCopy :: "heap \<Rightarrow> addr option \<Rightarrow> addr option \<times> heap" where
  "TableRef_DeepCopy = deep_copy TableRef_DeepCopyInto"

definition ViewRef_DeepCopyInto :: "copier" where
  "ViewRef_DeepCopyInto = copy_struct []"

definition ViewRef_DeepCopy :: "heap \<Rightarrow> addr option \<Rightarrow> addr option \<times> heap" where
  "ViewRef_DeepCopy = deep_copy ViewRef_DeepCopyInto"

definition GrantTarget_DeepCopyInto :: "copier" where
  "GrantTarget_DeepCopyInto = copy_struct
     [Into ''NamespaceRef'' (copy_pointer copy_flat), Into ''TableRef'' (copy_pointer copy_flat),
      Into ''ViewRef'' (copy_pointer copy_flat)]"

definition GrantTarget_DeepCopy :: "heap \<Rightarrow> addr option \<Rightarrow> addr option \<times> heap" where
  "GrantTarget_DeepCopy = deep_copy GrantTarget_DeepCopyInto"

definition IcebergField_DeepCopyInto :: "copier" where
  "IcebergField_DeepCopyInto = copy_struct []"

definition IcebergField_DeepCopy :: "heap \<Rightarrow> addr option \<Rightarrow> addr option \<times> heap" where
  "IcebergField_DeepCopy = deep_copy IcebergField_DeepCopyInto"

definition IcebergPartitionField_DeepCopyInto :: "copier" where
  "IcebergPartitionField_DeepCopyInto = copy_struct []"

definition IcebergPartitionField_DeepCopy :: "heap \<Rightarrow> addr option \<Rightarrow> addr option \<times> heap" where
  "IcebergPartitionField_DeepCopy = deep_copy IcebergPartitionField_DeepCopyInto"

definition IcebergPartitionSpec_DeepCopyInto :: "copier" where
  "IcebergPartitionSpec_DeepCopyInto = copy_struct
     [Into ''Fields'' (copy_slice copy_flat)]"

definition IcebergPartitionSpec_DeepCopy :: "heap \<Rightarrow> addr option \<Rightarrow> addr option \<times> heap" where
  "IcebergPartitionSpec_DeepCopy = deep_copy IcebergPartitionSpec_DeepCopyInto"

definition IcebergSchema_DeepCopyInto :: "copier" where
  "IcebergSchema_DeepCopyInto = copy_struct
     [Into ''Fields'' (copy_slice copy_flat), Into ''IdentifierFieldIds'' (copy_slice copy_flat)]"

definition IcebergSchema_DeepCopy :: "heap \<Rightarrow> addr option \<Rightarrow> addr option \<times> heap" where
  "IcebergSchema_DeepCopy = deep_copy IcebergSchema_DeepCopyInto"

definition S3StorageConfig_DeepCopyInto :: "copier" where
  "S3StorageConfig_DeepCopyInto = copy_struct []"

definition S3StorageConfig_DeepCopy :: "heap \<Rightarrow> addr option \<Rightarrow> addr option \<times> heap" where
  "S3StorageConfig_DeepCopy = deep_copy S3StorageConfig_DeepCopyInto"

definition StorageConfig_DeepCopyInto :: "copier" where
  "StorageConfig_DeepCopyInto = copy_struct
     [Into ''AllowedLocations'' (copy_slice copy_flat), Into ''S3'' (copy_pointer copy_flat),
      Into ''Azure'' (copy_pointer copy_flat), Into ''GCS'' (copy_pointer copy_flat)]"

definition StorageConfig_DeepCopy :: "heap \<Rightarrow> addr option \<Rightarrow> addr option \<times> heap" where
  "StorageConfig_DeepCopy = deep_copy StorageConfig_DeepCopyInto"

definition PolarisCatalogSpec_DeepCopyInto :: "copier" where
  "PolarisCatalogSpec_DeepCopyInto = copy_struct
     [Assign ''ConnectionRef'', Into ''StorageConfig'' StorageConfig_DeepCopyInto,
      Into ''Properties'' copy_map]"

definition PolarisCatalogSpec_DeepCopy :: "heap \<Rightarrow> addr option \<Rightarrow> addr option \<times> heap" where
  "PolarisCatalogSpec_DeepCopy = deep_copy PolarisCatalogSpec_DeepCopyInto"

definition PolarisCatalogStatus_DeepCopyInto :: "meta_lib \<Rightarrow> copier" where
  "PolarisCatalogStatus_DeepCopyInto X = copy_struct
     [Into ''Conditions'' (copy_slice (Condition_DeepCopyInto X))]"

definition PolarisCatalogStatus_DeepCopy :: "meta_lib \<Rightarrow> heap \<Rightarrow> addr option \<Rightarrow> addr option \<times> heap" where
  "PolarisCatalogStatus_DeepCopy X = deep_copy (PolarisCatalogStatus_DeepCopyInto X)"

definition PolarisCatalog_DeepCopyInto :: "meta_lib \<Rightarrow> copier" where
  "PolarisCatalog_DeepCopyInto X = copy_struct
     [Assign ''TypeMeta'', Into ''ObjectMeta'' (ObjectMeta_DeepCopyInto X),
      Into ''Spec'' PolarisCatalogSpec_DeepCopyInto,
      Into ''Status'' (PolarisCatalogStatus_DeepCopyInto X)]"

definition PolarisCatalog_DeepCopy :: "meta_lib \<Rightarrow> heap \<Rightarrow> addr option \<Rightarrow> addr option \<times> heap" where
  "PolarisCatalog_DeepCopy X = deep_copy (PolarisCatalog_DeepCopyInto X)"

definition PolarisCatalog_DeepCopyObject ::
  "meta_lib \<Rightarrow> heap \<Rightarrow> addr option \<Rightarrow> (string \<times> addr) option \<times> heap" where
  "PolarisCatalog_DeepCopyObject X h p = as_object ''PolarisCatalog'' (PolarisCatalog_DeepCopy X h p)"

definition PolarisCatalogList_DeepCopyInto :: "meta_lib \<Rightarrow> copier" where
  "PolarisCatalogList_DeepCopyInto X = copy_struct
     [Assign ''TypeMeta'', Into ''ListMeta'' (ListMeta_DeepCopyInto X),
      Into ''Items'' (copy_slice (PolarisCatalog_DeepCopyInto X))]"

definition PolarisCatalogList_DeepCopy :: "meta_lib \<Rightarrow> heap \<Rightarrow> addr option \<Rightarrow> addr option \<times> heap" where
  "PolarisCatalogList_DeepCopy X = deep_copy (PolarisCatalogList_DeepCopyInto X)"

definition PolarisCatalogList_DeepCopyObject ::
  "meta_lib \<Rightarrow> heap \<Rightarrow> addr option \<Rightarrow> (string \<times> addr) option \<times> heap" where
  "PolarisCatalogList_DeepCopyObject X h p = as_object ''PolarisCatalogList'' (PolarisCatalogList_DeepCopy X h p)"

definition PolarisCatalogRoleSpec_DeepCopyInto :: "copier" where
  "PolarisCatalogRoleSpec_DeepCopyInto = copy_struct
     [Assign ''CatalogRef'', Into ''Properties'' copy_map]"

definition PolarisCatalogRoleSpec_DeepCopy :: "heap \<Rightarrow> addr option \<Rightarrow> addr option \<times> heap" where
  "PolarisCatalogRoleSpec_DeepCopy = deep_copy PolarisCatalogRoleSpec_DeepCopyInto"

definition PolarisCatalogRoleStatus_DeepCopyInto :: "meta_lib \<Rightarrow> copier" where
  "PolarisCatalogRoleStatus_DeepCopyInto X = copy_struct
     [Into ''Conditions'' (copy_slice (Condition_DeepCopyInto X))]"

definition PolarisCatalogRoleStatus_DeepCopy :: "meta_lib \<Rightarrow> heap \<Rightarrow> addr option \<Rightarrow> addr option \<times> heap" where
  "PolarisCatalogRoleStatus_DeepCopy X = deep_copy (PolarisCatalogRoleStatus_DeepCopyInto X)"

definition PolarisCatalogRole_DeepCopyInto :: "meta_lib \<Rightarrow> copier" where
  "PolarisCatalogRole_DeepCopyInto X = copy_struct
     [Assign ''TypeMeta'', Into ''ObjectMeta'' (ObjectMeta_DeepCopyInto X),
      Into ''Spec'' PolarisCatalogRoleSpec_DeepCopyInto,
      Into ''Status'' (PolarisCatalogRoleStatus_DeepCopyInto X)]"

definition PolarisCatalogRole_DeepCopy :: "meta_lib \<Rightarrow> heap \<Rightarrow> addr option \<Rightarrow> addr option \<times> heap" where
  "PolarisCatalogRole_DeepCopy X = deep_copy (PolarisCatalogRole_DeepCopyInto X)"

definition PolarisCatalogRole_DeepCopyObject ::
  "meta_lib \<Rightarrow> heap \<Rightarrow> addr option \<Rightarrow> (string \<times> addr) option \<times> heap" where
  "PolarisCatalogRole_DeepCopyObject X h p = as_object ''PolarisCatalogRole'' (PolarisCatalogRole_DeepCopy X h p)"

definition PrincipalRoleRef_DeepCopyInto :: "copier" where
  "PrincipalRoleRef_DeepCopyInto = copy_struct []"

definition PrincipalRoleRef_DeepCopy :: "heap \<Rightarrow> addr option \<Rightarrow> addr option \<times> heap" where
  "PrincipalRoleRef_DeepCopy = deep_copy PrincipalRoleRef_DeepCopyInto"

definition PolarisCatalogRoleBindingSpec_DeepCopyInto :: "copier" where
  "PolarisCatalogRoleBindingSpec_DeepCopyInto = copy_struct
     [Assign ''PrincipalRoleRef'', Assign ''CatalogRoleRef'']"

definition PolarisCatalogRoleBindingSpec_DeepCopy :: "heap \<Rightarrow> addr option \<Rightarrow> addr option \<times> heap" where
  "PolarisCatalogRoleBindingSpec_DeepCopy = deep_copy PolarisCatalogRoleBindingSpec_DeepCopyInto"

definition PolarisCatalogRoleBindingStatus_DeepCopyInto :: "meta_lib \<Rightarrow> copier" where
  "PolarisCatalogRoleBindingStatus_DeepCopyInto X = copy_struct
     [Into ''Conditions'' (copy_slice (Condition_DeepCopyInto X))]"

definition PolarisCatalogRoleBindingStatus_DeepCopy :: "meta_lib \<Rightarrow> heap \<Rightarrow> addr option \<Rightarrow> addr option \<times> heap" where
  "PolarisCatalogRoleBindingStatus_DeepCopy X = deep_copy (PolarisCatalogRoleBindingStatus_DeepCopyInto X)"

definition PolarisCatalogRoleBinding_DeepCopyInto :: "meta_lib \<Rightarrow> copier" where
  "PolarisCatalogRoleBinding_DeepCopyInto X = copy_struct
     [Assign ''TypeMeta'', Into ''ObjectMeta'' (ObjectMeta_DeepCopyInto X), Assign ''Spec'',
      Into ''Status'' (PolarisCatalogRoleBindingStatus_DeepCopyInto X)]"

definition PolarisCatalogRoleBinding_DeepCopy :: "meta_lib \<Rightarrow> heap \<Rightarrow> addr option \<Rightarrow> addr option \<times> heap" where
  "PolarisCatalogRoleBinding_DeepCopy X = deep_copy (PolarisCatalogRoleBinding_DeepCopyInto X)"

definition PolarisCatalogRoleBinding_DeepCopyObject ::
  "meta_lib \<Rightarrow> heap \<Rightarrow> addr option \<Rightarrow> (string \<times> addr) option \<times> heap" where
  "PolarisCatalogRoleBinding_DeepCopyObject X h p = as_object ''PolarisCatalogRoleBinding'' (PolarisCatalogRoleBinding_DeepCopy X h p)"

definition PolarisCatalogRoleBindingList_DeepCopyInto :: "meta_lib \<Rightarrow> copier" where
  "PolarisCatalogRoleBindingList_DeepCopyInto X = copy_struct
     [Assign ''TypeMeta'', Into ''ListMeta'' (ListMeta_DeepCopyInto X),
      Into ''Items'' (copy_slice (PolarisCatalogRoleBinding_DeepCopyInto X))]"

definition PolarisCatalogRoleBindingList_DeepCopy :: "meta_lib \<Rightarrow> heap \<Rightarrow> addr option \<Rightarrow> addr option \<times> heap" where
  "PolarisCatalogRoleBindingList_DeepCopy X = deep_copy (PolarisCatalogRoleBindingList_DeepCopyInto X)"

definition PolarisCatalogRoleBindingList_DeepCopyObject ::
  "meta_lib \<Rightarrow> heap \<Rightarrow> addr option \<Rightarrow> (string \<times> addr) option \<times> heap" where
  "PolarisCatalogRoleBindingList_DeepCopyObject X h p = as_object ''PolarisCatalogRoleBindingList'' (PolarisCatalogRoleBindingList_DeepCopy X h p)"

definition PolarisCatalogRoleList_DeepCopyInto :: "meta_lib \<Rightarrow> copier" where
  "PolarisCatalogRoleList_DeepCopyInto X = copy_struct
     [Assign ''TypeMeta'', Into ''ListMeta'' (ListMeta_DeepCopyInto X),
      Into ''Items'' (copy_slice (PolarisCatalogRole_DeepCopyInto X))]"

definition PolarisCatalogRoleList_DeepCopy :: "meta_lib \<Rightarrow> heap \<Rightarrow> addr option \<Rightarrow> addr option \<times> heap" where
  "PolarisCatalogRoleList_DeepCopy X = deep_copy (PolarisCatalogRoleList_DeepCopyInto X)"

definition PolarisCatalogRoleList_DeepCopyObject ::
  "meta_lib \<Rightarrow> heap \<Rightarrow> addr option \<Rightarrow> (string \<times> addr) option \<times> heap" where
  "PolarisCatalogRoleList_DeepCopyObject X h p = as_object ''PolarisCatalogRoleList'' (PolarisCatalogRoleList_DeepCopy X h p)"

definition PolarisConnectionSpec_DeepCopyInto :: "copier" where
  "PolarisConnectionSpec_DeepCopyInto = copy_struct
     [Assign ''CredentialsSecretRef'', Into ''CABundleSecretRef'' (copy_pointer copy_flat)]"

definition PolarisConnectionSpec_DeepCopy :: "heap \<Rightarrow> addr option \<Rightarrow> addr option \<times> heap" where
  "PolarisConnectionSpec_DeepCopy = deep_copy PolarisConnectionSpec_DeepCopyInto"

definition PolarisConnectionStatus_DeepCopyInto :: "meta_lib \<Rightarrow> copier" where
  "PolarisConnectionStatus_DeepCopyInto X = copy_struct
     [Into ''Conditions'' (copy_slice (Condition_DeepCopyInto X))]"

definition PolarisConnectionStatus_DeepCopy :: "meta_lib \<Rightarrow> heap \<Rightarrow> addr option \<Rightarrow> addr option \<times> heap" where
  "PolarisConnectionStatus_DeepCopy X = deep_copy (PolarisConnectionStatus_DeepCopyInto X)"

definition PolarisConnection_DeepCopyInto :: "meta_lib \<Rightarrow> copier" where
  "PolarisConnection_DeepCopyInto X = copy_struct
     [Assign ''TypeMeta'', Into ''ObjectMeta'' (ObjectMeta_DeepCopyInto X),
      Into ''Spec'' PolarisConnectionSpec_DeepCopyInto,
      Into ''Status'' (PolarisConnectionStatus_DeepCopyInto X)]"

definition PolarisConnection_DeepCopy :: "meta_lib \<Rightarrow> heap \<Rightarrow> addr option \<Rightarrow> addr option \<times> heap" where
  "PolarisConnection_DeepCopy X = deep_copy (PolarisConnection_DeepCopyInto X)"

definition PolarisConnection_DeepCopyObject ::
  "meta_lib \<Rightarrow> heap \<Rightarrow> addr option \<Rightarrow> (string \<times> addr) option \<times> heap" where
  "PolarisConnection_DeepCopyObject X h p = as_object ''PolarisConnection'' (PolarisConnection_DeepCopy X h p)"

definition PolarisConnectionList_DeepCopyInto :: "meta_lib \<Rightarrow> copier" where
  "PolarisConnectionList_DeepCopyInto X = copy_struct
     [Assign ''TypeMeta'', Into ''ListMeta'' (ListMeta_DeepCopyInto X),
      Into ''Items'' (copy_slice (PolarisConnection_DeepCopyInto X))]"

definition PolarisConnectionList_DeepCopy :: "meta_lib \<Rightarrow> heap \<Rightarrow> addr option \<Rightarrow> addr option \<times> heap" where
  "PolarisConnectionList_DeepCopy X = deep_copy (PolarisConnectionList_DeepCopyInto X)"

definition PolarisConnectionList_DeepCopyObject ::
  "meta_lib \<Rightarrow> heap \<Rightarrow> addr option \<Rightarrow> (string \<times> addr) option \<times> heap" where
  "PolarisConnectionList_DeepCopyObject X h p = as_object ''PolarisConnectionList'' (PolarisConnectionList_DeepCopy X h p)"

definition PolarisGrantSpec_DeepCopyInto :: "copier" where
  "PolarisGrantSpec_DeepCopyInto = copy_struct
     [Assign ''CatalogRoleRef'', Into ''Target'' GrantTarget_DeepCopyInto]"

definition PolarisGrantSpec_DeepCopy :: "heap \<Rightarrow> addr option \<Rightarrow> addr option \<times> heap" where
  "PolarisGrantSpec_DeepCopy = deep_copy PolarisGrantSpec_DeepCopyInto"

definition PolarisGrantStatus_DeepCopyInto :: "meta_lib \<Rightarrow> copier" where
  "PolarisGrantStatus_DeepCopyInto X = copy_struct
     [Into ''Conditions'' (copy_slice (Condition_DeepCopyInto X))]"

definition PolarisGrantStatus_DeepCopy :: "meta_lib \<Rightarrow> heap \<Rightarrow> addr option \<Rightarrow> addr option \<times> heap" where
  "PolarisGrantStatus_DeepCopy X = deep_copy (PolarisGrantStatus_DeepCopyInto X)"

definition PolarisGrant_DeepCopyInto :: "meta_lib \<Rightarrow> copier" where
  "PolarisGrant_DeepCopyInto X = copy_struct
     [Assign ''TypeMeta'', Into ''ObjectMeta'' (ObjectMeta_DeepCopyInto X),
      Into ''Spec'' PolarisGrantSpec_DeepCopyInto,
      Into ''Status'' (PolarisGrantStatus_DeepCopyInto X)]"

definition PolarisGrant_DeepCopy :: "meta_lib \<Rightarrow> heap \<Rightarrow> addr option \<Rightarrow> addr option \<times> heap" where
  "PolarisGrant_DeepCopy X = deep_copy (PolarisGrant_DeepCopyInto X)"

definition PolarisGrant_DeepCopyObject ::
  "meta_lib \<Rightarrow> heap \<Rightarrow> addr option \<Rightarrow> (string \<times> addr) option \<times> heap" where
  "PolarisGrant_DeepCopyObject X h p = as_object ''PolarisGrant'' (PolarisGrant_DeepCopy X h p)"

definition PolarisGrantList_DeepCopyInto :: "meta_lib \<Rightarrow> copier" where
  "PolarisGrantList_DeepCopyInto X = copy_struct
     [Assign ''TypeMeta'', Into ''ListMeta'' (ListMeta_DeepCopyInto X),
      Into ''Items'' (copy_slice (PolarisGrant_DeepCopyInto X))]"

definition PolarisGrantList_DeepCopy :: "meta_lib \<Rightarrow> heap \<Rightarrow> addr option \<Rightarrow> addr option \<times> heap" where
  "PolarisGrantList_DeepCopy X = deep_copy (PolarisGrantList_DeepCopyInto X)"

definition PolarisGrantList_DeepCopyObject ::
  "meta_lib \<Rightarrow> heap \<Rightarrow> addr option \<Rightarrow> (string \<times> addr) option \<times> heap" where
  "PolarisGrantList_DeepCopyObject X h p = as_object ''PolarisGrantList'' (PolarisGrantList_DeepCopy X h p)"

definition PolarisNamespaceSpec_DeepCopyInto :: "copier" where
  "PolarisNamespaceSpec_DeepCopyInto = copy_struct
     [Assign ''CatalogRef'', Into ''ParentRef'' (copy_pointer copy_flat),
      Into ''Properties'' copy_map]"

definition PolarisNamespaceSpec_DeepCopy :: "heap \<Rightarrow> addr option \<Rightarrow> addr option \<times> heap" where
  "PolarisNamespaceSpec_DeepCopy = deep_copy PolarisNamespaceSpec_DeepCopyInto"

definition PolarisNamespaceStatus_DeepCopyInto :: "meta_lib \<Rightarrow> copier" where
  "PolarisNamespaceStatus_DeepCopyInto X = copy_struct
     [Into ''FullPath'' (copy_slice copy_flat),
      Into ''Conditions'' (copy_slice (Condition_DeepCopyInto X))]"

definition PolarisNamespaceStatus_DeepCopy :: "meta_lib \<Rightarrow> heap \<Rightarrow> addr option \<Rightarrow> addr option \<times> heap" where
  "PolarisNamespaceStatus_DeepCopy X = deep_copy (PolarisNamespaceStatus_DeepCopyInto X)"

definition PolarisNamespace_DeepCopyInto :: "meta_lib \<Rightarrow> copier" where
  "PolarisNamespace_DeepCopyInto X = copy_struct
     [Assign ''TypeMeta'', Into ''ObjectMeta'' (ObjectMeta_DeepCopyInto X),
      Into ''Spec'' PolarisNamespaceSpec_DeepCopyInto,
      Into ''Status'' (PolarisNamespaceStatus_DeepCopyInto X)]"

definition PolarisNamespace_DeepCopy :: "meta_lib \<Rightarrow> heap \<Rightarrow> addr option \<Rightarrow> addr option \<times> heap" where
  "PolarisNamespace_DeepCopy X = deep_copy (PolarisNamespace_DeepCopyInto X)"

definition PolarisNamespace_DeepCopyObject ::
  "meta_lib \<Rightarrow> heap \<Rightarrow> addr option \<Rightarrow> (string \<times> addr) option \<times> heap" where
  "PolarisNamespace_DeepCopyObject X h p = as_object ''PolarisNamespace'' (PolarisNamespace_DeepCopy X h p)"

definition PolarisNamespaceList_DeepCopyInto :: "meta_lib \<Rightarrow> copier" where
  "PolarisNamespaceList_DeepCopyInto X = copy_struct
     [Assign ''TypeMeta'', Into ''ListMeta'' (ListMeta_DeepCopyInto X),
      Into ''Items'' (copy_slice (PolarisNamespace_DeepCopyInto X))]"

definition PolarisNamespaceList_DeepCopy :: "meta_lib \<Rightarrow> heap \<Rightarrow> addr option \<Rightarrow> addr option \<times> heap" where
  "PolarisNamespaceList_DeepCopy X = deep_copy (PolarisNamespaceList_DeepCopyInto X)"

definition PolarisNamespaceList_DeepCopyObject ::
  "meta_lib \<Rightarrow> heap \<Rightarrow> addr option \<Rightarrow> (string \<times> addr) option \<times> heap" where
  "PolarisNamespaceList_DeepCopyObject X h p = as_object ''PolarisNamespaceList'' (PolarisNamespaceList_DeepCopy X h p)"

definition PolarisPolicySpec_DeepCopyInto :: "meta_lib \<Rightarrow> copier" where
  "PolarisPolicySpec_DeepCopyInto X = copy_struct
     [Assign ''NamespaceRef'', Into ''Content'' (JSON_DeepCopyInto X)]"

definition PolarisPolicySpec_DeepCopy :: "meta_lib \<Rightarrow> heap \<Rightarrow> addr option \<Rightarrow> addr option \<times> heap" where
  "PolarisPolicySpec_DeepCopy X = deep_copy (PolarisPolicySpec_DeepCopyInto X)"

definition PolarisPolicyStatus_DeepCopyInto :: "meta_lib \<Rightarrow> copier" where
  "PolarisPolicyStatus_DeepCopyInto X = copy_struct
     [Into ''Conditions'' (copy_slice (Condition_DeepCopyInto X))]"

definition PolarisPolicyStatus_DeepCopy :: "meta_lib \<Rightarrow> heap \<Rightarrow> addr option \<Rightarrow> addr option \<times> heap" where
  "PolarisPolicyStatus_DeepCopy X = deep_copy (PolarisPolicyStatus_DeepCopyInto X)"

definition PolarisPolicy_DeepCopyInto :: "meta_lib \<Rightarrow> copier" where
  "PolarisPolicy_DeepCopyInto X = copy_struct
     [Assign ''TypeMeta'', Into ''ObjectMeta'' (ObjectMeta_DeepCopyInto X),
      Into ''Spec'' (PolarisPolicySpec_DeepCopyInto X),
      Into ''Status'' (PolarisPolicyStatus_DeepCopyInto X)]"

definition PolarisPolicy_DeepCopy :: "meta_lib \<Rightarrow> heap \<Rightarrow> addr option \<Rightarrow> addr option \<times> heap" where
  "PolarisPolicy_DeepCopy X = deep_copy (PolarisPolicy_DeepCopyInto X)"

definition PolarisPolicy_DeepCopyObject ::
  "meta_lib \<Rightarrow> heap \<Rightarrow> addr option \<Rightarrow> (string \<times> addr) option \<times> heap" where
  "PolarisPolicy_DeepCopyObject X h p = as_object ''PolarisPolicy'' (PolarisPolicy_DeepCopy X h p)"

definition PolarisPolicyList_DeepCopyInto :: "meta_lib \<Rightarrow> copier" where
  "PolarisPolicyList_DeepCopyInto X = copy_struct
     [Assign ''TypeMeta'', Into ''ListMeta'' (ListMeta_DeepCopyInto X),
      Into ''Items'' (copy_slice (PolarisPolicy_DeepCopyInto X))]"

definition PolarisPolicyList_DeepCopy :: "meta_lib \<Rightarrow> heap \<Rightarrow> addr option \<Rightarrow> addr option \<times> heap" where
  "PolarisPolicyList_DeepCopy X = deep_copy (PolarisPolicyList_DeepCopyInto X)"

definition PolarisPolicyList_DeepCopyObject ::
  "meta_lib \<Rightarrow> heap \<Rightarrow> addr option \<Rightarrow> (string \<times> addr) option \<times> heap" where
  "PolarisPolicyList_DeepCopyObject X h p = as_object ''PolarisPolicyList'' (PolarisPolicyList_DeepCopy X h p)"

definition PolarisPrincipalSpec_DeepCopyInto :: "copier" where
  "PolarisPrincipalSpec_DeepCopyInto = copy_struct
     [Assign ''ConnectionRef'', Into ''Properties'' copy_map, Assign ''CredentialsSecretRef'']"

definition PolarisPrincipalSpec_DeepCopy :: "heap \<Rightarrow> addr option \<Rightarrow> addr option \<times> heap" where
  "PolarisPrincipalSpec_DeepCopy = deep_copy PolarisPrincipalSpec_DeepCopyInto"

definition PolarisPrincipalStatus_DeepCopyInto :: "meta_lib \<Rightarrow> copier" where
  "PolarisPrincipalStatus_DeepCopyInto X = copy_struct
     [Into ''CredentialsLastRotated'' (Time_DeepCopy X),
      Into ''Conditions'' (copy_slice (Condition_DeepCopyInto X))]"

definition PolarisPrincipalStatus_DeepCopy :: "meta_lib \<Rightarrow> heap \<Rightarrow> addr option \<Rightarrow> addr option \<times> heap" where
  "PolarisPrincipalStatus_DeepCopy X = deep_copy (PolarisPrincipalStatus_DeepCopyInto X)"

definition PolarisPrincipal_DeepCopyInto :: "meta_lib \<Rightarrow> copier" where
  "PolarisPrincipal_DeepCopyInto X = copy_struct
     [Assign ''TypeMeta'', Into ''ObjectMeta'' (ObjectMeta_DeepCopyInto X),
      Into ''Spec'' PolarisPrincipalSpec_DeepCopyInto,
      Into ''Status'' (PolarisPrincipalStatus_DeepCopyInto X)]"

definition PolarisPrincipal_DeepCopy :: "meta_lib \<Rightarrow> heap \<Rightarrow> addr option \<Rightarrow> addr option \<times> heap" where
  "PolarisPrincipal_DeepCopy X = deep_copy (PolarisPrincipal_DeepCopyInto X)"

definition PolarisPrincipal_DeepCopyObject ::
  "meta_lib \<Rightarrow> heap \<Rightarrow> addr option \<Rightarrow> (string \<times> addr) option \<times> heap" where
  "PolarisPrincipal_DeepCopyObject X h p = as_object ''PolarisPrincipal'' (PolarisPrincipal_DeepCopy X h p)"

definition PolarisPrincipalList_DeepCopyInto :: "meta_lib \<Rightarrow> copier" where
  "PolarisPrincipalList_DeepCopyInto X = copy_struct
     [Assign ''TypeMeta'', Into ''ListMeta'' (ListMeta_DeepCopyInto X),
      Into ''Items'' (copy_slice (PolarisPrincipal_DeepCopyInto X))]"

definition PolarisPrincipalList_DeepCopy :: "meta_lib \<Rightarrow> heap \<Rightarrow> addr option \<Rightarrow> addr option \<times> heap" where
  "PolarisPrincipalList_DeepCopy X = deep_copy (PolarisPrincipalList_DeepCopyInto X)"

definition PolarisPrincipalList_DeepCopyObject ::
  "meta_lib \<Rightarrow> heap \<Rightarrow> addr option \<Rightarrow> (string \<times> addr) option \<times> heap" where
  "PolarisPrincipalList_DeepCopyObject X h p = as_object ''PolarisPrincipalList'' (PolarisPrincipalList_DeepCopy X h p)"

definition PolarisPrincipalRoleSpec_DeepCopyInto :: "copier" where
  "PolarisPrincipalRoleSpec_DeepCopyInto = copy_struct
     [Assign ''ConnectionRef'', Into ''Properties'' copy_map]"

definition PolarisPrincipalRoleSpec_DeepCopy :: "heap \<Rightarrow> addr option \<Rightarrow> addr option \<times> heap" where
  "PolarisPrincipalRoleSpec_DeepCopy = deep_copy PolarisPrincipalRoleSpec_DeepCopyInto"

definition PolarisPrincipalRoleStatus_DeepCopyInto :: "meta_lib \<Rightarrow> copier" where
  "PolarisPrincipalRoleStatus_DeepCopyInto X = copy_struct
     [Into ''Conditions'' (copy_slice (Condition_DeepCopyInto X))]"

definition PolarisPrincipalRoleStatus_DeepCopy :: "meta_lib \<Rightarrow> heap \<Rightarrow> addr option \<Rightarrow> addr option \<times> heap" where
  "PolarisPrincipalRoleStatus_DeepCopy X = deep_copy (PolarisPrincipalRoleStatus_DeepCopyInto X)"

definition PolarisPrincipalRole_DeepCopyInto :: "meta_lib \<Rightarrow> copier" where
  "PolarisPrincipalRole_DeepCopyInto X = copy_struct
     [Assign ''TypeMeta'', Into ''ObjectMeta'' (ObjectMeta_DeepCopyInto X),
      Into ''Spec'' PolarisPrincipalRoleSpec_DeepCopyInto,
      Into ''Status'' (PolarisPrincipalRoleStatus_DeepCopyInto X)]"

definition PolarisPrincipalRole_DeepCopy :: "meta_lib \<Rightarrow> heap \<Rightarrow> addr option \<Rightarrow> addr option \<times> heap" where
  "PolarisPrincipalRole_DeepCopy X = deep_copy (PolarisPrincipalRole_DeepCopyInto X)"

definition PolarisPrincipalRole_DeepCopyObject ::
  "meta_lib \<Rightarrow> heap \<Rightarrow> addr option \<Rightarrow> (string \<times> addr) option \<times> heap" where
  "PolarisPrincipalRole_DeepCopyObject X h p = as_object ''PolarisPrincipalRole'' (PolarisPrincipalRole_DeepCopy X h p)"

definition PrincipalRef_DeepCopyInto :: "copier" where
  "PrincipalRef_DeepCopyInto = copy_struct []"

definition PrincipalRef_DeepCopy :: "heap \<Rightarrow> addr option \<Rightarrow> addr option \<times> heap" where
  "PrincipalRef_DeepCopy = deep_copy PrincipalRef_DeepCopyInto"

definition PolarisPrincipalRoleBindingSpec_DeepCopyInto :: "copier" where
  "PolarisPrincipalRoleBindingSpec_DeepCopyInto = copy_struct
     [Assign ''PrincipalRef'', Assign ''PrincipalRoleRef'']"

definition PolarisPrincipalRoleBindingSpec_DeepCopy :: "heap \<Rightarrow> addr option \<Rightarrow> addr option \<times> heap" where
  "PolarisPrincipalRoleBindingSpec_DeepCopy = deep_copy PolarisPrincipalRoleBindingSpec_DeepCopyInto"

definition PolarisPrincipalRoleBindingStatus_DeepCopyInto :: "meta_lib \<Rightarrow> copier" where
  "PolarisPrincipalRoleBindingStatus_DeepCopyInto X = copy_struct
     [Into ''Conditions'' (copy_slice (Condition_DeepCopyInto X))]"

definition PolarisPrincipalRoleBindingStatus_DeepCopy :: "meta_lib \<Rightarrow> heap \<Rightarrow> addr option \<Rightarrow> addr option \<times> heap" where
  "PolarisPrincipalRoleBindingStatus_DeepCopy X = deep_copy (PolarisPrincipalRoleBindingStatus_DeepCopyInto X)"

definition PolarisPrincipalRoleBinding_DeepCopyInto :: "meta_lib \<Rightarrow> copier" where
  "PolarisPrincipalRoleBinding_DeepCopyInto X = copy_struct
     [Assign ''TypeMeta'', Into ''ObjectMeta'' (ObjectMeta_DeepCopyInto X), Assign ''Spec'',
      Into ''Status'' (PolarisPrincipalRoleBindingStatus_DeepCopyInto X)]"

definition PolarisPrincipalRoleBinding_DeepCopy :: "meta_lib \<Rightarrow> heap \<Rightarrow> addr option \<Rightarrow> addr option \<times> heap" where
  "PolarisPrincipalRoleBinding_DeepCopy X = deep_copy (PolarisPrincipalRoleBinding_DeepCopyInto X)"

definition PolarisPrincipalRoleBinding_DeepCopyObject ::
  "meta_lib \<Rightarrow> heap \<Rightarrow> addr option \<Rightarrow> (string \<times> addr) option \<times> heap" where
  "PolarisPrincipalRoleBinding_DeepCopyObject X h p = as_object ''PolarisPrincipalRoleBinding'' (PolarisPrincipalRoleBinding_DeepCopy X h p)"

definition PolarisPrincipalRoleBindingList_DeepCopyInto :: "meta_lib \<Rightarrow> copier" where
  "PolarisPrincipalRoleBindingList_DeepCopyInto X = copy_struct
     [Assign ''TypeMeta'', Into ''ListMeta'' (ListMeta_DeepCopyInto X),
      Into ''Items'' (copy_slice (PolarisPrincipalRoleBinding_DeepCopyInto X))]"

definition PolarisPrincipalRoleBindingList_DeepCopy :: "meta_lib \<Rightarrow> heap \<Rightarrow> addr option \<Rightarrow> addr option \<times> heap" where
  "PolarisPrincipalRoleBindingList_DeepCopy X = deep_copy (PolarisPrincipalRoleBindingList_DeepCopyInto X)"

definition PolarisPrincipalRoleBindingList_DeepCopyObject ::
  "meta_lib \<Rightarrow> heap \<Rightarrow> addr option \<Rightarrow> (string \<times> addr) option \<times> heap" where
  "PolarisPrincipalRoleBindingList_DeepCopyObject X h p = as_object ''PolarisPrincipalRoleBindingList'' (PolarisPrincipalRoleBindingList_DeepCopy X h p)"

definition PolarisPrincipalRoleList_DeepCopyInto :: "meta_lib \<Rightarrow> copier" where
  "PolarisPrincipalRoleList_DeepCopyInto X = copy_struct
     [Assign ''TypeMeta'', Into ''ListMeta'' (ListMeta_DeepCopyInto X),
      Into ''Items'' (copy_slice (PolarisPrincipalRole_DeepCopyInto X))]"

definition PolarisPrincipalRoleList_DeepCopy :: "meta_lib \<Rightarrow> heap \<Rightarrow> addr option \<Rightarrow> addr option \<times> heap" where
  "PolarisPrincipalRoleList_DeepCopy X = deep_copy (PolarisPrincipalRoleList_DeepCopyInto X)"

definition PolarisPrincipalRoleList_DeepCopyObject ::
  "meta_lib \<Rightarrow> heap \<Rightarrow> addr option \<Rightarrow> (string \<times> addr) option \<times> heap" where
  "PolarisPrincipalRoleList_DeepCopyObject X h p = as_object ''PolarisPrincipalRoleList'' (PolarisPrincipalRoleList_DeepCopy X h p)"

definition PolarisTableSpec_DeepCopyInto :: "copier" where
  "PolarisTableSpec_DeepCopyInto = copy_struct
     [Assign ''NamespaceRef'', Into ''Schema'' IcebergSchema_DeepCopyInto,
      Into ''PartitionSpec'' (copy_pointer IcebergPartitionSpec_DeepCopyInto),
      Into ''Properties'' copy_map]"

definition PolarisTableSpec_DeepCopy :: "heap \<Rightarrow> addr option \<Rightarrow> addr option \<times> heap" where
  "PolarisTableSpec_DeepCopy = deep_copy PolarisTableSpec_DeepCopyInto"

definition PolarisTableStatus_DeepCopyInto :: "meta_lib \<Rightarrow> copier" where
  "PolarisTableStatus_DeepCopyInto X = copy_struct
     [Into ''Conditions'' (copy_slice (Condition_DeepCopyInto X))]"

definition PolarisTableStatus_DeepCopy :: "meta_lib \<Rightarrow> heap \<Rightarrow> addr option \<Rightarrow> addr option \<times> heap" where
  "PolarisTableStatus_DeepCopy X = deep_copy (PolarisTableStatus_DeepCopyInto X)"

definition PolarisTable_DeepCopyInto :: "meta_lib \<Rightarrow> copier" where
  "PolarisTable_DeepCopyInto X = copy_struct
     [Assign ''TypeMeta'', Into ''ObjectMeta'' (ObjectMeta_DeepCopyInto X),
      Into ''Spec'' PolarisTableSpec_DeepCopyInto,
      Into ''Status'' (PolarisTableStatus_DeepCopyInto X)]"

definition PolarisTable_DeepCopy :: "meta_lib \<Rightarrow> heap \<Rightarrow> addr option \<Rightarrow> addr option \<times> heap" where
  "PolarisTable_DeepCopy X = deep_copy (PolarisTable_DeepCopyInto X)"

definition PolarisTable_DeepCopyObject ::
  "meta_lib \<Rightarrow> heap \<Rightarrow> addr option \<Rightarrow> (string \<times> addr) option \<times> heap" where
  "PolarisTable_DeepCopyObject X h p = as_object ''PolarisTable'' (PolarisTable_DeepCopy X h p)"

definition PolarisTableList_DeepCopyInto :: "meta_lib \<Rightarrow> copier" where
  "PolarisTableList_DeepCopyInto X = copy_struct
     [Assign ''TypeMeta'', Into ''ListMeta'' (ListMeta_DeepCopyInto X),
      Into ''Items'' (copy_slice (PolarisTable_DeepCopyInto X))]"

definition PolarisTableList_DeepCopy :: "meta_lib \<Rightarrow> heap \<Rightarrow> addr option \<Rightarrow> addr option \<times> heap" where
  "PolarisTableList_DeepCopy X = deep_copy (PolarisTableList_DeepCopyInto X)"

definition PolarisTableList_DeepCopyObject ::
  "meta_lib \<Rightarrow> heap \<Rightarrow> addr option \<Rightarrow> (string \<times> addr) option \<times> heap" where
  "PolarisTableList_DeepCopyObject X h p = as_object ''PolarisTableList'' (PolarisTableList_DeepCopy X h p)"

definition PolarisViewSpec_DeepCopyInto :: "copier" where
  "PolarisViewSpec_DeepCopyInto = copy_struct
     [Assign ''NamespaceRef'', Into ''Schema'' IcebergSchema_DeepCopyInto,
      Into ''Properties'' copy_map]"

definition PolarisViewSpec_DeepCopy :: "heap \<Rightarrow> addr option \<Rightarrow> addr option \<times> heap" where
  "PolarisViewSpec_DeepCopy = deep_copy PolarisViewSpec_DeepCopyInto"

definition PolarisViewStatus_DeepCopyInto :: "meta_lib \<Rightarrow> copier" where
  "PolarisViewStatus_DeepCopyInto X = copy_struct
     [Into ''Conditions'' (copy_slice (Condition_DeepCopyInto X))]"

definition PolarisViewStatus_DeepCopy :: "meta_lib \<Rightarrow> heap \<Rightarrow> addr option \<Rightarrow> addr option \<times> heap" where
  "PolarisViewStatus_DeepCopy X = deep_copy (PolarisViewStatus_DeepCopyInto X)"

definition PolarisView_DeepCopyInto :: "meta_lib \<Rightarrow> copier" where
  "PolarisView_DeepCopyInto X = copy_struct
     [Assign ''TypeMeta'', Into ''ObjectMeta'' (ObjectMeta_DeepCopyInto X),
      Into ''Spec'' PolarisViewSpec_DeepCopyInto,
      Into ''Status'' (PolarisViewStatus_DeepCopyInto X)]"

definition PolarisView_DeepCopy :: "meta_lib \<Rightarrow> heap \<Rightarrow> addr option \<Rightarrow> addr option \<times> heap" where
  "PolarisView_DeepCopy X = deep_copy (PolarisView_DeepCopyInto X)"

definition PolarisView_DeepCopyObject ::
  "meta_lib \<Rightarrow> heap \<Rightarrow> addr option \<Rightarrow> (string \<times> addr) option \<times> heap" where
  "PolarisView_DeepCopyObject X h p = as_object ''PolarisView'' (PolarisView_DeepCopy X h p)"

definition PolarisViewList_DeepCopyInto :: "meta_lib \<Rightarrow> copier" where
  "PolarisViewList_DeepCopyInto X = copy_struct
     [Assign ''TypeMeta'', Into ''ListMeta'' (ListMeta_DeepCopyInto X),
      Into ''Items'' (copy_slice (PolarisView_DeepCopyInto X))]"

definition PolarisViewList_DeepCopy :: "meta_lib \<Rightarrow> heap \<Rightarrow> addr option \<Rightarrow> addr option \<times> heap" where
  "PolarisViewList_DeepCopy X = deep_copy (PolarisViewList_DeepCopyInto X)"

definition PolarisViewList_DeepCopyObject ::
  "meta_lib \<Rightarrow> heap \<Rightarrow> addr option \<Rightarrow> (string \<times> addr) option \<times> heap" where
  "PolarisViewList_DeepCopyObject X h p = as_object ''PolarisViewList'' (PolarisViewList_DeepCopy X h p)"

section \<open>They are deep\<close>

lemmas copier_rules [simp] = deep_flat deep_pointer deep_slice deep_map

lemma flat_types [simp]:
  "flat ty_AzureStorageConfig"
  "flat ty_CABundleSecretRef"
  "flat ty_CatalogRef"
  "flat ty_CatalogRoleRef"
  "flat ty_ClientCredentialsSecretRef"
  "flat ty_ConnectionRef"
  "flat ty_GCSStorageConfig"
  "flat ty_GeneratedCredentialsSecretRef"
  "flat ty_NamespaceRef"
  "flat ty_TableRef"
  "flat ty_ViewRef"
  "flat ty_IcebergField"
  "flat ty_IcebergPartitionField"
  "flat ty_S3StorageConfig"
  "flat ty_PrincipalRoleRef"
  "flat ty_PolarisCatalogRoleBindingSpec"
  "flat ty_PrincipalRef"
  "flat ty_PolarisPrincipalRoleBindingSpec"
  by (simp_all add: ty_AzureStorageConfig_def ty_CABundleSecretRef_def ty_CatalogRef_def
    ty_CatalogRoleRef_def ty_ClientCredentialsSecretRef_def ty_ConnectionRef_def
    ty_GCSStorageConfig_def ty_GeneratedCredentialsSecretRef_def ty_NamespaceRef_def
    ty_TableRef_def ty_ViewRef_def ty_IcebergField_def ty_IcebergPartitionField_def
    ty_S3StorageConfig_def ty_PrincipalRoleRef_def ty_PolarisCatalogRoleBindingSpec_def
    ty_PrincipalRef_def ty_PolarisPrincipalRoleBindingSpec_def)

lemma deep_AzureStorageConfig [simp]: "deep ty_AzureStorageConfig AzureStorageConfig_DeepCopyInto"
  unfolding ty_AzureStorageConfig_def AzureStorageConfig_DeepCopyInto_def
  by (rule deep_struct) (simp add: covers_def meta_ok_def)

lemma deep_CABundleSecretRef [simp]: "deep ty_CABundleSecretRef CABundleSecretRef_DeepCopyInto"
  unfolding ty_CABundleSecretRef_def CABundleSecretRef_DeepCopyInto_def
  by (rule deep_struct) (simp add: covers_def meta_ok_def)

lemma deep_CatalogRef [simp]: "deep ty_CatalogRef CatalogRef_DeepCopyInto"
  unfolding ty_CatalogRef_def CatalogRef_DeepCopyInto_def
  by (rule deep_struct) (simp add: covers_def meta_ok_def)

lemma deep_CatalogRoleRef [simp]: "deep ty_CatalogRoleRef CatalogRoleRef_DeepCopyInto"
  unfolding ty_CatalogRoleRef_def CatalogRoleRef_DeepCopyInto_def
  by (rule deep_struct) (simp add: covers_def meta_ok_def)

lemma deep_ClientCredentialsSecretRef [simp]: "deep ty_ClientCredentialsSecretRef ClientCredentialsSecretRef_DeepCopyInto"
  unfolding ty_ClientCredentialsSecretRef_def ClientCredentialsSecretRef_DeepCopyInto_def
  by (rule deep_struct) (simp add: covers_def meta_ok_def)

lemma deep_ConnectionRef [simp]: "deep ty_ConnectionRef ConnectionRef_DeepCopyInto"
  unfolding ty_ConnectionRef_def ConnectionRef_DeepCopyInto_def
  by (rule deep_struct) (simp add: covers_def meta_ok_def)

lemma deep_GCSStorageConfig [simp]: "deep ty_GCSStorageConfig GCSStorageConfig_DeepCopyInto"
  unfolding ty_GCSStorageConfig_def GCSStorageConfig_DeepCopyInto_def
  by (rule deep_struct) (simp add: covers_def meta_ok_def)

lemma deep_GeneratedCredentialsSecretRef [simp]: "deep ty_GeneratedCredentialsSecretRef GeneratedCredentialsSecretRef_DeepCopyInto"
  unfolding ty_GeneratedCredentialsSecretRef_def GeneratedCredentialsSecretRef_DeepCopyInto_def
  by (rule deep_struct) (simp add: covers_def meta_ok_def)

lemma deep_NamespaceRef [simp]: "deep ty_NamespaceRef NamespaceRef_DeepCopyInto"
  unfolding ty_NamespaceRef_def NamespaceRef_DeepCopyInto_def
  by (rule deep_struct) (simp add: covers_def meta_ok_def)

lemma deep_TableRef [simp]: "deep ty_TableRef TableRef_DeepCopyInto"
  unfolding ty_TableRef_def TableRef_DeepCopyInto_def
  by (rule deep_struct) (simp add: covers_def meta_ok_def)

lemma deep_ViewRef [simp]: "deep ty_ViewRef ViewRef_DeepCopyInto"
  unfolding ty_ViewRef_def ViewRef_DeepCopyInto_def
  by (rule deep_struct) (simp add: covers_def meta_ok_def)

lemma deep_GrantTarget [simp]: "deep ty_GrantTarget GrantTarget_DeepCopyInto"
  unfolding ty_GrantTarget_def GrantTarget_DeepCopyInto_def
  by (rule deep_struct) (simp add: covers_def meta_ok_def)

lemma deep_IcebergField [simp]: "deep ty_IcebergField IcebergField_DeepCopyInto"
  unfolding ty_IcebergField_def IcebergField_DeepCopyInto_def
  by (rule deep_struct) (simp add: covers_def meta_ok_def)

lemma deep_IcebergPartitionField [simp]: "deep ty_IcebergPartitionField IcebergPartitionField_DeepCopyInto"
  unfolding ty_IcebergPartitionField_def IcebergPartitionField_DeepCopyInto_def
  by (rule deep_struct) (simp add: covers_def meta_ok_def)

lemma deep_IcebergPartitionSpec [simp]: "deep ty_IcebergPartitionSpec IcebergPartitionSpec_DeepCopyInto"
  unfolding ty_IcebergPartitionSpec_def IcebergPartitionSpec_DeepCopyInto_def
  by (rule deep_struct) (simp add: covers_def meta_ok_def)

lemma deep_IcebergSchema [simp]: "deep ty_IcebergSchema IcebergSchema_DeepCopyInto"
  unfolding ty_IcebergSchema_def IcebergSchema_DeepCopyInto_def
  by (rule deep_struct) (simp add: covers_def meta_ok_def)

lemma deep_S3StorageConfig [simp]: "deep ty_S3StorageConfig S3StorageConfig_DeepCopyInto"
  unfolding ty_S3StorageConfig_def S3StorageConfig_DeepCopyInto_def
  by (rule deep_struct) (simp add: covers_def meta_ok_def)

lemma deep_StorageConfig [simp]: "deep ty_StorageConfig StorageConfig_DeepCopyInto"
  unfolding ty_StorageConfig_def StorageConfig_DeepCopyInto_def
  by (rule deep_struct) (simp add: covers_def meta_ok_def)

lemma deep_PolarisCatalogSpec [simp]: "deep ty_PolarisCatalogSpec PolarisCatalogSpec_DeepCopyInto"
  unfolding ty_PolarisCatalogSpec_def PolarisCatalogSpec_DeepCopyInto_def
  by (rule deep_struct) (simp add: covers_def meta_ok_def)

lemma deep_PolarisCatalogStatus [simp]: "meta_ok X \<Longrightarrow> deep (ty_PolarisCatalogStatus X) (PolarisCatalogStatus_DeepCopyInto X)"
  unfolding ty_PolarisCatalogStatus_def PolarisCatalogStatus_DeepCopyInto_def
  by (rule deep_struct) (simp add: covers_def meta_ok_def)

lemma deep_PolarisCatalog [simp]: "meta_ok X \<Longrightarrow> deep (ty_PolarisCatalog X) (PolarisCatalog_DeepCopyInto X)"
  unfolding ty_PolarisCatalog_def PolarisCatalog_DeepCopyInto_def
  by (rule deep_struct) (simp add: covers_def meta_ok_def)

lemma deep_PolarisCatalogList [simp]: "meta_ok X \<Longrightarrow> deep (ty_PolarisCatalogList X) (PolarisCatalogList_DeepCopyInto X)"
  unfolding ty_PolarisCatalogList_def PolarisCatalogList_DeepCopyInto_def
  by (rule deep_struct) (simp add: covers_def meta_ok_def)

lemma deep_PolarisCatalogRoleSpec [simp]: "deep ty_PolarisCatalogRoleSpec PolarisCatalogRoleSpec_DeepCopyInto"
  unfolding ty_PolarisCatalogRoleSpec_def PolarisCatalogRoleSpec_DeepCopyInto_def
  by (rule deep_struct) (simp add: covers_def meta_ok_def)

lemma deep_PolarisCatalogRoleStatus [simp]: "meta_ok X \<Longrightarrow> deep (ty_PolarisCatalogRoleStatus X) (PolarisCatalogRoleStatus_DeepCopyInto X)"
  unfolding ty_PolarisCatalogRoleStatus_def PolarisCatalogRoleStatus_DeepCopyInto_def
  by (rule deep_struct) (simp add: covers_def meta_ok_def)

lemma deep_PolarisCatalogRole [simp]: "meta_ok X \<Longrightarrow> deep (ty_PolarisCatalogRole X) (PolarisCatalogRole_DeepCopyInto X)"
  unfolding ty_PolarisCatalogRole_def PolarisCatalogRole_DeepCopyInto_def
  by (rule deep_struct) (simp add: covers_def meta_ok_def)

lemma deep_PrincipalRoleRef [simp]: "deep ty_PrincipalRoleRef PrincipalRoleRef_DeepCopyInto"
  unfolding ty_PrincipalRoleRef_def PrincipalRoleRef_DeepCopyInto_def
  by (rule deep_struct) (simp add: covers_def meta_ok_def)

lemma deep_PolarisCatalogRoleBindingSpec [simp]: "deep ty_PolarisCatalogRoleBindingSpec PolarisCatalogRoleBindingSpec_DeepCopyInto"
  unfolding ty_PolarisCatalogRoleBindingSpec_def PolarisCatalogRoleBindingSpec_DeepCopyInto_def
  by (rule deep_struct) (simp add: covers_def meta_ok_def)

lemma deep_PolarisCatalogRoleBindingStatus [simp]: "meta_ok X \<Longrightarrow> deep (ty_PolarisCatalogRoleBindingStatus X) (PolarisCatalogRoleBindingStatus_DeepCopyInto X)"
  unfolding ty_PolarisCatalogRoleBindingStatus_def PolarisCatalogRoleBindingStatus_DeepCopyInto_def
  by (rule deep_struct) (simp add: covers_def meta_ok_def)

lemma deep_PolarisCatalogRoleBinding [simp]: "meta_ok X \<Longrightarrow> deep (ty_PolarisCatalogRoleBinding X) (PolarisCatalogRoleBinding_DeepCopyInto X)"
  unfolding ty_PolarisCatalogRoleBinding_def PolarisCatalogRoleBinding_DeepCopyInto_def
  by (rule deep_struct) (simp add: covers_def meta_ok_def)

lemma deep_PolarisCatalogRoleBindingList [simp]: "meta_ok X \<Longrightarrow> deep (ty_PolarisCatalogRoleBindingList X) (PolarisCatalogRoleBindingList_DeepCopyInto X)"
  unfolding ty_PolarisCatalogRoleBindingList_def PolarisCatalogRoleBindingList_DeepCopyInto_def
  by (rule deep_struct) (simp add: covers_def meta_ok_def)

lemma deep_PolarisCatalogRoleList [simp]: "meta_ok X \<Longrightarrow> deep (ty_PolarisCatalogRoleList X) (PolarisCatalogRoleList_DeepCopyInto X)"
  unfolding ty_PolarisCatalogRoleList_def PolarisCatalogRoleList_DeepCopyInto_def
  by (rule deep_struct) (simp add: covers_def meta_ok_def)

lemma deep_PolarisConnectionSpec [simp]: "deep ty_PolarisConnectionSpec PolarisConnectionSpec_DeepCopyInto"
  unfolding ty_PolarisConnectionSpec_def PolarisConnectionSpec_DeepCopyInto_def
  by (rule deep_struct) (simp add: covers_def meta_ok_def)

lemma deep_PolarisConnectionStatus [simp]: "meta_ok X \<Longrightarrow> deep (ty_PolarisConnectionStatus X) (PolarisConnectionStatus_DeepCopyInto X)"
  unfolding ty_PolarisConnectionStatus_def PolarisConnectionStatus_DeepCopyInto_def
  by (rule deep_struct) (simp add: covers_def meta_ok_def)

lemma deep_PolarisConnection [simp]: "meta_ok X \<Longrightarrow> deep (ty_PolarisConnection X) (PolarisConnection_DeepCopyInto X)"
  unfolding ty_PolarisConnection_def PolarisConnection_DeepCopyInto_def
  by (rule deep_struct) (simp add: covers_def meta_ok_def)

lemma deep_PolarisConnectionList [simp]: "meta_ok X \<Longrightarrow> deep (ty_PolarisConnectionList X) (PolarisConnectionList_DeepCopyInto X)"
  unfolding ty_PolarisConnectionList_def PolarisConnectionList_DeepCopyInto_def
  by (rule deep_struct) (simp add: covers_def meta_ok_def)

lemma deep_PolarisGrantSpec [simp]: "deep ty_PolarisGrantSpec PolarisGrantSpec_DeepCopyInto"
  unfolding ty_PolarisGrantSpec_def PolarisGrantSpec_DeepCopyInto_def
  by (rule deep_struct) (simp add: covers_def meta_ok_def)

lemma deep_PolarisGrantStatus [simp]: "meta_ok X \<Longrightarrow> deep (ty_PolarisGrantStatus X) (PolarisGrantStatus_DeepCopyInto X)"
  unfolding ty_PolarisGrantStatus_def PolarisGrantStatus_DeepCopyInto_def
  by (rule deep_struct) (simp add: covers_def meta_ok_def)

lemma deep_PolarisGrant [simp]: "meta_ok X \<Longrightarrow> deep (ty_PolarisGrant X) (PolarisGrant_DeepCopyInto X)"
  unfolding ty_PolarisGrant_def PolarisGrant_DeepCopyInto_def
  by (rule deep_struct) (simp add: covers_def meta_ok_def)

lemma deep_PolarisGrantList [simp]: "meta_ok X \<Longrightarrow> deep (ty_PolarisGrantList X) (PolarisGrantList_DeepCopyInto X)"
  unfolding ty_PolarisGrantList_def PolarisGrantList_DeepCopyInto_def
  by (rule deep_struct) (simp add: covers_def meta_ok_def)

lemma deep_PolarisNamespaceSpec [simp]: "deep ty_PolarisNamespaceSpec PolarisNamespaceSpec_DeepCopyInto"
  unfolding ty_PolarisNamespaceSpec_def PolarisNamespaceSpec_DeepCopyInto_def
  by (rule deep_struct) (simp add: covers_def meta_ok_def)

lemma deep_PolarisNamespaceStatus [simp]: "meta_ok X \<Longrightarrow> deep (ty_PolarisNamespaceStatus X) (PolarisNamespaceStatus_DeepCopyInto X)"
  unfolding ty_PolarisNamespaceStatus_def PolarisNamespaceStatus_DeepCopyInto_def
  by (rule deep_struct) (simp add: covers_def meta_ok_def)

lemma deep_PolarisNamespace [simp]: "meta_ok X \<Longrightarrow> deep (ty_PolarisNamespace X) (PolarisNamespace_DeepCopyInto X)"
  unfolding ty_PolarisNamespace_def PolarisNamespace_DeepCopyInto_def
  by (rule deep_struct) (simp add: covers_def meta_ok_def)

lemma deep_PolarisNamespaceList [simp]: "meta_ok X \<Longrightarrow> deep (ty_PolarisNamespaceList X) (PolarisNamespaceList_DeepCopyInto X)"
  unfolding ty_PolarisNamespaceList_def PolarisNamespaceList_DeepCopyInto_def
  by (rule deep_struct) (simp add: covers_def meta_ok_def)

lemma deep_PolarisPolicySpec [simp]: "meta_ok X \<Longrightarrow> deep (ty_PolarisPolicySpec X) (PolarisPolicySpec_DeepCopyInto X)"
  unfolding ty_PolarisPolicySpec_def PolarisPolicySpec_DeepCopyInto_def
  by (rule deep_struct) (simp add: covers_def meta_ok_def)

lemma deep_PolarisPolicyStatus [simp]: "meta_ok X \<Longrightarrow> deep (ty_PolarisPolicyStatus X) (PolarisPolicyStatus_DeepCopyInto X)"
  unfolding ty_PolarisPolicyStatus_def PolarisPolicyStatus_DeepCopyInto_def
  by (rule deep_struct) (simp add: covers_def meta_ok_def)

lemma deep_PolarisPolicy [simp]: "meta_ok X \<Longrightarrow> deep (ty_PolarisPolicy X) (PolarisPolicy_DeepCopyInto X)"
  unfolding ty_PolarisPolicy_def PolarisPolicy_DeepCopyInto_def
  by (rule deep_struct) (simp add: covers_def meta_ok_def)

lemma deep_PolarisPolicyList [simp]: "meta_ok X \<Longrightarrow> deep (ty_PolarisPolicyList X) (PolarisPolicyList_DeepCopyInto X)"
  unfolding ty_PolarisPolicyList_def PolarisPolicyList_DeepCopyInto_def
  by (rule deep_struct) (simp add: covers_def meta_ok_def)

lemma deep_PolarisPrincipalSpec [simp]: "deep ty_PolarisPrincipalSpec PolarisPrincipalSpec_DeepCopyInto"
  unfolding ty_PolarisPrincipalSpec_def PolarisPrincipalSpec_DeepCopyInto_def
  by (rule deep_struct) (simp add: covers_def meta_ok_def)

lemma deep_PolarisPrincipalStatus [simp]: "meta_ok X \<Longrightarrow> deep (ty_PolarisPrincipalStatus X) (PolarisPrincipalStatus_DeepCopyInto X)"
  unfolding ty_PolarisPrincipalStatus_def PolarisPrincipalStatus_DeepCopyInto_def
  by (rule deep_struct) (simp add: covers_def meta_ok_def)

lemma deep_PolarisPrincipal [simp]: "meta_ok X \<Longrightarrow> deep (ty_PolarisPrincipal X) (PolarisPrincipal_DeepCopyInto X)"
  unfolding ty_PolarisPrincipal_def PolarisPrincipal_DeepCopyInto_def
  by (rule deep_struct) (simp add: covers_def meta_ok_def)

lemma deep_PolarisPrincipalList [simp]: "meta_ok X \<Longrightarrow> deep (ty_PolarisPrincipalList X) (PolarisPrincipalList_DeepCopyInto X)"
  unfolding ty_PolarisPrincipalList_def PolarisPrincipalList_DeepCopyInto_def
  by (rule deep_struct) (simp add: covers_def meta_ok_def)

lemma deep_PolarisPrincipalRoleSpec [simp]: "deep ty_PolarisPrincipalRoleSpec PolarisPrincipalRoleSpec_DeepCopyInto"
  unfolding ty_PolarisPrincipalRoleSpec_def PolarisPrincipalRoleSpec_DeepCopyInto_def
  by (rule deep_struct) (simp add: covers_def meta_ok_def)

lemma deep_PolarisPrincipalRoleStatus [simp]: "meta_ok X \<Longrightarrow> deep (ty_PolarisPrincipalRoleStatus X) (PolarisPrincipalRoleStatus_DeepCopyInto X)"
  unfolding ty_PolarisPrincipalRoleStatus_def PolarisPrincipalRoleStatus_DeepCopyInto_def
  by (rule deep_struct) (simp add: covers_def meta_ok_def)

lemma deep_PolarisPrincipalRole [simp]: "meta_ok X \<Longrightarrow> deep (ty_PolarisPrincipalRole X) (PolarisPrincipalRole_DeepCopyInto X)"
  unfolding ty_PolarisPrincipalRole_def PolarisPrincipalRole_DeepCopyInto_def
  by (rule deep_struct) (simp add: covers_def meta_ok_def)

lemma deep_PrincipalRef [simp]: "deep ty_PrincipalRef PrincipalRef_DeepCopyInto"
  unfolding ty_PrincipalRef_def PrincipalRef_DeepCopyInto_def
  by (rule deep_struct) (simp add: covers_def meta_ok_def)

lemma deep_PolarisPrincipalRoleBindingSpec [simp]: "deep ty_PolarisPrincipalRoleBindingSpec PolarisPrincipalRoleBindingSpec_DeepCopyInto"
  unfolding ty_PolarisPrincipalRoleBindingSpec_def PolarisPrincipalRoleBindingSpec_DeepCopyInto_def
  by (rule deep_struct) (simp add: covers_def meta_ok_def)

lemma deep_PolarisPrincipalRoleBindingStatus [simp]: "meta_ok X \<Longrightarrow> deep (ty_PolarisPrincipalRoleBindingStatus X) (PolarisPrincipalRoleBindingStatus_DeepCopyInto X)"
  unfolding ty_PolarisPrincipalRoleBindingStatus_def PolarisPrincipalRoleBindingStatus_DeepCopyInto_def
  by (rule deep_struct) (simp add: covers_def meta_ok_def)

lemma deep_PolarisPrincipalRoleBinding [simp]: "meta_ok X \<Longrightarrow> deep (ty_PolarisPrincipalRoleBinding X) (PolarisPrincipalRoleBinding_DeepCopyInto X)"
  unfolding ty_PolarisPrincipalRoleBinding_def PolarisPrincipalRoleBinding_DeepCopyInto_def
  by (rule deep_struct) (simp add: covers_def meta_ok_def)

lemma deep_PolarisPrincipalRoleBindingList [simp]: "meta_ok X \<Longrightarrow> deep (ty_PolarisPrincipalRoleBindingList X) (PolarisPrincipalRoleBindingList_DeepCopyInto X)"
  unfolding ty_PolarisPrincipalRoleBindingList_def PolarisPrincipalRoleBindingList_DeepCopyInto_def
  by (rule deep_struct) (simp add: covers_def meta_ok_def)

lemma deep_PolarisPrincipalRoleList [simp]: "meta_ok X \<Longrightarrow> deep (ty_PolarisPrincipalRoleList X) (PolarisPrincipalRoleList_DeepCopyInto X)"
  unfolding ty_PolarisPrincipalRoleList_def PolarisPrincipalRoleList_DeepCopyInto_def
  by (rule deep_struct) (simp add: covers_def meta_ok_def)

lemma deep_PolarisTableSpec [simp]: "deep ty_PolarisTableSpec PolarisTableSpec_DeepCopyInto"
  unfolding ty_PolarisTableSpec_def PolarisTableSpec_DeepCopyInto_def
  by (rule deep_struct) (simp add: covers_def meta_ok_def)

lemma deep_PolarisTableStatus [simp]: "meta_ok X \<Longrightarrow> deep (ty_PolarisTableStatus X) (PolarisTableStatus_DeepCopyInto X)"
  unfolding ty_PolarisTableStatus_def PolarisTableStatus_DeepCopyInto_def
  by (rule deep_struct) (simp add: covers_def meta_ok_def)

lemma deep_PolarisTable [simp]: "meta_ok X \<Longrightarrow> deep (ty_PolarisTable X) (PolarisTable_DeepCopyInto X)"
  unfolding ty_PolarisTable_def PolarisTable_DeepCopyInto_def
  by (rule deep_struct) (simp add: covers_def meta_ok_def)

lemma deep_PolarisTableList [simp]: "meta_ok X \<Longrightarrow> deep (ty_PolarisTableList X) (PolarisTableList_DeepCopyInto X)"
  unfolding ty_PolarisTableList_def PolarisTableList_DeepCopyInto_def
  by (rule deep_struct) (simp add: covers_def meta_ok_def)

lemma deep_PolarisViewSpec [simp]: "deep ty_PolarisViewSpec PolarisViewSpec_DeepCopyInto"
  unfolding ty_PolarisViewSpec_def PolarisViewSpec_DeepCopyInto_def
  by (rule deep_struct) (simp add: covers_def meta_ok_def)

lemma deep_PolarisViewStatus [simp]: "meta_ok X \<Longrightarrow> deep (ty_PolarisViewStatus X) (PolarisViewStatus_DeepCopyInto X)"
  unfolding ty_PolarisViewStatus_def PolarisViewStatus_DeepCopyInto_def
  by (rule deep_struct) (simp add: covers_def meta_ok_def)

lemma deep_PolarisView [simp]: "meta_ok X \<Longrightarrow> deep (ty_PolarisView X) (PolarisView_DeepCopyInto X)"
  unfolding ty_PolarisView_def PolarisView_DeepCopyInto_def
  by (rule deep_struct) (simp add: covers_def meta_ok_def)

lemma deep_PolarisViewList [simp]: "meta_ok X \<Longrightarrow> deep (ty_PolarisViewList X) (PolarisViewList_DeepCopyInto X)"
  unfolding ty_PolarisViewList_def PolarisViewList_DeepCopyInto_def
  by (rule deep_struct) (simp add: covers_def meta_ok_def)

text \<open>All of them, with the type they copy.\<close>

definition copies :: "meta_lib \<Rightarrow> (ty \<times> (heap \<Rightarrow> addr option \<Rightarrow> addr option \<times> heap)) list" where
  "copies X =
     [(ty_AzureStorageConfig, AzureStorageConfig_DeepCopy),
      (ty_CABundleSecretRef, CABundleSecretRef_DeepCopy), (ty_CatalogRef, CatalogRef_DeepCopy),
      (ty_CatalogRoleRef, CatalogRoleRef_DeepCopy),
      (ty_ClientCredentialsSecretRef, ClientCredentialsSecretRef_DeepCopy),
      (ty_ConnectionRef, ConnectionRef_DeepCopy),
      (ty_GCSStorageConfig, GCSStorageConfig_DeepCopy),
      (ty_GeneratedCredentialsSecretRef, GeneratedCredentialsSecretRef_DeepCopy),
      (ty_NamespaceRef, NamespaceRef_DeepCopy), (ty_TableRef, TableRef_DeepCopy),
      (ty_ViewRef, ViewRef_DeepCopy), (ty_GrantTarget, GrantTarget_DeepCopy),
      (ty_IcebergField, IcebergField_DeepCopy),
      (ty_IcebergPartitionField, IcebergPartitionField_DeepCopy),
      (ty_IcebergPartitionSpec, IcebergPartitionSpec_DeepCopy),
      (ty_IcebergSchema, IcebergSchema_DeepCopy), (ty_S3StorageConfig, S3StorageConfig_DeepCopy),
      (ty_StorageConfig, StorageConfig_DeepCopy),
      (ty_PolarisCatalogSpec, PolarisCatalogSpec_DeepCopy),
      (ty_PolarisCatalogStatus X, PolarisCatalogStatus_DeepCopy X),
      (ty_PolarisCatalog X, PolarisCatalog_DeepCopy X),
      (ty_PolarisCatalogList X, PolarisCatalogList_DeepCopy X),
      (ty_PolarisCatalogRoleSpec, PolarisCatalogRoleSpec_DeepCopy),
      (ty_PolarisCatalogRoleStatus X, PolarisCatalogRoleStatus_DeepCopy X),
      (ty_PolarisCatalogRole X, PolarisCatalogRole_DeepCopy X),
      (ty_PrincipalRoleRef, PrincipalRoleRef_DeepCopy),
      (ty_PolarisCatalogRoleBindingSpec, PolarisCatalogRoleBindingSpec_DeepCopy),
      (ty_PolarisCatalogRoleBindingStatus X, PolarisCatalogRoleBindingStatus_DeepCopy X),
      (ty_PolarisCatalogRoleBinding X, PolarisCatalogRoleBinding_DeepCopy X),
      (ty_PolarisCatalogRoleBindingList X, PolarisCatalogRoleBindingList_DeepCopy X),
      (ty_PolarisCatalogRoleList X, PolarisCatalogRoleList_DeepCopy X),
      (ty_PolarisConnectionSpec, PolarisConnectionSpec_DeepCopy),
      (ty_PolarisConnectionStatus X, PolarisConnectionStatus_DeepCopy X),
      (ty_PolarisConnection X, PolarisConnection_DeepCopy X),
      (ty_PolarisConnectionList X, PolarisConnectionList_DeepCopy X),
      (ty_PolarisGrantSpec, PolarisGrantSpec_DeepCopy),
      (ty_PolarisGrantStatus X, PolarisGrantStatus_DeepCopy X),
      (ty_PolarisGrant X, PolarisGrant_DeepCopy X),
      (ty_PolarisGrantList X, PolarisGrantList_DeepCopy X),
      (ty_PolarisNamespaceSpec, PolarisNamespaceSpec_DeepCopy),
      (ty_PolarisNamespaceStatus X, PolarisNamespaceStatus_DeepCopy X),
      (ty_PolarisNamespace X, PolarisNamespace_DeepCopy X),
      (ty_PolarisNamespaceList X, PolarisNamespaceList_DeepCopy X),
      (ty_PolarisPolicySpec X, PolarisPolicySpec_DeepCopy X),
      (ty_PolarisPolicyStatus X, PolarisPolicyStatus_DeepCopy X),
      (ty_PolarisPolicy X, PolarisPolicy_DeepCopy X),
      (ty_PolarisPolicyList X, PolarisPolicyList_DeepCopy X),
      (ty_PolarisPrincipalSpec, PolarisPrincipalSpec_DeepCopy),
      (ty_PolarisPrincipalStatus X, PolarisPrincipalStatus_DeepCopy X),
      (ty_PolarisPrincipal X, PolarisPrincipal_DeepCopy X),
      (ty_PolarisPrincipalList X, PolarisPrincipalList_DeepCopy X),
      (ty_PolarisPrincipalRoleSpec, PolarisPrincipalRoleSpec_DeepCopy),
      (ty_PolarisPrincipalRoleStatus X, PolarisPrincipalRoleStatus_DeepCopy X),
      (ty_PolarisPrincipalRole X, PolarisPrincipalRole_DeepCopy X),
      (ty_PrincipalRef, PrincipalRef_DeepCopy),
      (ty_PolarisPrincipalRoleBindingSpec, PolarisPrincipalRoleBindingSpec_DeepCopy),
      (ty_PolarisPrincipalRoleBindingStatus X, PolarisPrincipalRoleBindingStatus_DeepCopy X),
      (ty_PolarisPrincipalRoleBinding X, PolarisPrincipalRoleBinding_DeepCopy X),
      (ty_PolarisPrincipalRoleBindingList X, PolarisPrincipalRoleBindingList_DeepCopy X),
      (ty_PolarisPrincipalRoleList X, PolarisPrincipalRoleList_DeepCopy X),
      (ty_PolarisTableSpec, PolarisTableSpec_DeepCopy),
      (ty_PolarisTableStatus X, PolarisTableStatus_DeepCopy X),
      (ty_PolarisTable X, PolarisTable_DeepCopy X),
      (ty_PolarisTableList X, PolarisTableList_DeepCopy X),
      (ty_PolarisViewSpec, PolarisViewSpec_DeepCopy),
      (ty_PolarisViewStatus X, PolarisViewStatus_DeepCopy X),
      (ty_PolarisView X, PolarisView_DeepCopy X),
      (ty_PolarisViewList X, PolarisViewList_DeepCopy X)]"

definition object_copies ::
  "meta_lib \<Rightarrow> (string \<times> ty \<times> (heap \<Rightarrow> addr option \<Rightarrow> (string \<times> addr) option \<times> heap)) list" where
  "object_copies X =
     [(''PolarisCatalog'', ty_PolarisCatalog X, PolarisCatalog_DeepCopyObject X),
      (''PolarisCatalogList'', ty_PolarisCatalogList X, PolarisCatalogList_DeepCopyObject X),
      (''PolarisCatalogRole'', ty_PolarisCatalogRole X, PolarisCatalogRole_DeepCopyObject X),
      (''PolarisCatalogRoleBinding'', ty_PolarisCatalogRoleBinding X, PolarisCatalogRoleBinding_DeepCopyObject X),
      (''PolarisCatalogRoleBindingList'', ty_PolarisCatalogRoleBindingList X, PolarisCatalogRoleBindingList_DeepCopyObject X),
      (''PolarisCatalogRoleList'', ty_PolarisCatalogRoleList X, PolarisCatalogRoleList_DeepCopyObject X),
      (''PolarisConnection'', ty_PolarisConnection X, PolarisConnection_DeepCopyObject X),
      (''PolarisConnectionList'', ty_PolarisConnectionList X, PolarisConnectionList_DeepCopyObject X),
      (''PolarisGrant'', ty_PolarisGrant X, PolarisGrant_DeepCopyObject X),
      (''PolarisGrantList'', ty_PolarisGrantList X, PolarisGrantList_DeepCopyObject X),
      (''PolarisNamespace'', ty_PolarisNamespace X, PolarisNamespace_DeepCopyObject X),
      (''PolarisNamespaceList'', ty_PolarisNamespaceList X, PolarisNamespaceList_DeepCopyObject X),
      (''PolarisPolicy'', ty_PolarisPolicy X, PolarisPolicy_DeepCopyObject X),
      (''PolarisPolicyList'', ty_PolarisPolicyList X, PolarisPolicyList_DeepCopyObject X),
      (''PolarisPrincipal'', ty_PolarisPrincipal X, PolarisPrincipal_DeepCopyObject X),
      (''PolarisPrincipalList'', ty_PolarisPrincipalList X, PolarisPrincipalList_DeepCopyObject X),
      (''PolarisPrincipalRole'', ty_PolarisPrincipalRole X, PolarisPrincipalRole_DeepCopyObject X),
      (''PolarisPrincipalRoleBinding'', ty_PolarisPrincipalRoleBinding X, PolarisPrincipalRoleBinding_DeepCopyObject X),
      (''PolarisPrincipalRoleBindingList'', ty_PolarisPrincipalRoleBindingList X, PolarisPrincipalRoleBindingList_DeepCopyObject X),
      (''PolarisPrincipalRoleList'', ty_PolarisPrincipalRoleList X, PolarisPrincipalRoleList_DeepCopyObject X),
      (''PolarisTable'', ty_PolarisTable X, PolarisTable_DeepCopyObject X),
      (''PolarisTableList'', ty_PolarisTableList X, PolarisTableList_DeepCopyObject X),
      (''PolarisView'', ty_PolarisView X, PolarisView_DeepCopyObject X),
      (''PolarisViewList'', ty_PolarisViewList X, PolarisViewList_DeepCopyObject X)]"

lemmas copy_defs =
  AzureStorageConfig_DeepCopy_def CABundleSecretRef_DeepCopy_def CatalogRef_DeepCopy_def
  CatalogRoleRef_DeepCopy_def ClientCredentialsSecretRef_DeepCopy_def ConnectionRef_DeepCopy_def
  GCSStorageConfig_DeepCopy_def GeneratedCredentialsSecretRef_DeepCopy_def
  NamespaceRef_DeepCopy_def TableRef_DeepCopy_def ViewRef_DeepCopy_def GrantTarget_DeepCopy_def
  IcebergField_DeepCopy_def IcebergPartitionField_DeepCopy_def IcebergPartitionSpec_DeepCopy_def
  IcebergSchema_DeepCopy_def S3StorageConfig_DeepCopy_def StorageConfig_DeepCopy_def
  PolarisCatalogSpec_DeepCopy_def PolarisCatalogStatus_DeepCopy_def PolarisCatalog_DeepCopy_def
  PolarisCatalogList_DeepCopy_def PolarisCatalogRoleSpec_DeepCopy_def
  PolarisCatalogRoleStatus_DeepCopy_def PolarisCatalogRole_DeepCopy_def
  PrincipalRoleRef_DeepCopy_def PolarisCatalogRoleBindingSpec_DeepCopy_def
  PolarisCatalogRoleBindingStatus_DeepCopy_def PolarisCatalogRoleBinding_DeepCopy_def
  PolarisCatalogRoleBindingList_DeepCopy_def PolarisCatalogRoleList_DeepCopy_def
  PolarisConnectionSpec_DeepCopy_def PolarisConnectionStatus_DeepCopy_def
  PolarisConnection_DeepCopy_def PolarisConnectionList_DeepCopy_def PolarisGrantSpec_DeepCopy_def
  PolarisGrantStatus_DeepCopy_def PolarisGrant_DeepCopy_def PolarisGrantList_DeepCopy_def
  PolarisNamespaceSpec_DeepCopy_def PolarisNamespaceStatus_DeepCopy_def
  PolarisNamespace_DeepCopy_def PolarisNamespaceList_DeepCopy_def PolarisPolicySpec_DeepCopy_def
  PolarisPolicyStatus_DeepCopy_def PolarisPolicy_DeepCopy_def PolarisPolicyList_DeepCopy_def
  PolarisPrincipalSpec_DeepCopy_def PolarisPrincipalStatus_DeepCopy_def
  PolarisPrincipal_DeepCopy_def PolarisPrincipalList_DeepCopy_def
  PolarisPrincipalRoleSpec_DeepCopy_def PolarisPrincipalRoleStatus_DeepCopy_def
  PolarisPrincipalRole_DeepCopy_def PrincipalRef_DeepCopy_def
  PolarisPrincipalRoleBindingSpec_DeepCopy_def PolarisPrincipalRoleBindingStatus_DeepCopy_def
  PolarisPrincipalRoleBinding_DeepCopy_def PolarisPrincipalRoleBindingList_DeepCopy_def
  PolarisPrincipalRoleList_DeepCopy_def PolarisTableSpec_DeepCopy_def
  PolarisTableStatus_DeepCopy_def PolarisTable_DeepCopy_def PolarisTableList_DeepCopy_def
  PolarisViewSpec_DeepCopy_def PolarisViewStatus_DeepCopy_def PolarisView_DeepCopy_def
  PolarisViewList_DeepCopy_def

lemmas object_copy_defs =
  PolarisCatalog_DeepCopyObject_def PolarisCatalogList_DeepCopyObject_def
  PolarisCatalogRole_DeepCopyObject_def PolarisCatalogRoleBinding_DeepCopyObject_def
  PolarisCatalogRoleBindingList_DeepCopyObject_def PolarisCatalogRoleList_DeepCopyObject_def
  PolarisConnection_DeepCopyObject_def PolarisConnectionList_DeepCopyObject_def
  PolarisGrant_DeepCopyObject_def PolarisGrantList_DeepCopyObject_def
  PolarisNamespace_DeepCopyObject_def PolarisNamespaceList_DeepCopyObject_def
  PolarisPolicy_DeepCopyObject_def PolarisPolicyList_DeepCopyObject_def
  PolarisPrincipal_DeepCopyObject_def PolarisPrincipalList_DeepCopyObject_def
  PolarisPrincipalRole_DeepCopyObject_def PolarisPrincipalRoleBinding_DeepCopyObject_def
  PolarisPrincipalRoleBindingList_DeepCopyObject_def PolarisPrincipalRoleList_DeepCopyObject_def
  PolarisTable_DeepCopyObject_def PolarisTableList_DeepCopyObject_def
  PolarisView_DeepCopyObject_def PolarisViewList_DeepCopyObject_def

lemma copies_are_deep:
  assumes "meta_ok X" "(t, copy) \<in> set (copies X)"
  shows "\<exists>into. copy = deep_copy into \<and> deep t into"
proof -
  have "list_all (\<lambda>(t, copy). \<exists>into. copy = deep_copy into \<and> deep t into) (copies X)"
    unfolding copies_def copy_defs list.pred_inject prod.case
    by (intro conjI TrueI) ((rule exI, rule conjI [OF refl], simp add: assms(1))+, simp)
  then show ?thesis
    using assms(2) by (auto simp: list_all_iff)
qed

lemma deep_copy_spec:
  assumes "deep t into" "has_type h (TPtr t) (GRef a)" "deep_copy into h (Some a) = (p, h')"
  shows "\<exists>a'. p = Some a' \<and> extends h h' \<and> copied h h' (TPtr t) (GRef a) (GRef a')"
proof -
  obtain v h1 where "copy_pointer into (GRef a) h = (v, h1)" by force
  moreover from this have "v = GRef (the p)" "p \<noteq> None" "h1 = h'"
    using assms(2,3) by (auto simp: copy_pointer_def deep_copy_def alloc_def split: cell.splits prod.splits)
  ultimately show ?thesis
    using deepD [OF deep_pointer [OF assms(1)] assms(2)] by (cases p) auto
qed

lemma copies_copy:
  assumes "meta_ok X" "(t, copy) \<in> set (copies X)" "has_type h (TPtr t) (GRef a)"
    and "copy h (Some a) = (p, h')"
  shows "\<exists>a'. p = Some a' \<and> extends h h' \<and> copied h h' (TPtr t) (GRef a) (GRef a')"
  using copies_are_deep [OF assms(1,2)] deep_copy_spec assms(3,4) by blast

text \<open>A \<open>DeepCopyObject\<close> is the \<open>DeepCopy\<close> of its type, and \<open>nil\<close> is the interface without a type.\<close>

lemma object_copies_typed:
  "(name, t, ocopy) \<in> set (object_copies X) \<Longrightarrow>
   \<exists>copy. (t, copy) \<in> set (copies X) \<and> ocopy h None = (None, h) \<and>
     (\<forall>a a' h'. copy h (Some a) = (Some a', h') \<longrightarrow> ocopy h (Some a) = (Some (name, a'), h'))"
proof -
  assume "(name, t, ocopy) \<in> set (object_copies X)"
  moreover have "list_all (\<lambda>(name, t, ocopy). \<exists>copy. (t, copy) \<in> set (copies X) \<and>
      ocopy = (\<lambda>h p. as_object name (copy h p)) \<and> copy h None = (None, h)) (object_copies X)"
    unfolding object_copies_def list.pred_inject prod.case
    by (intro conjI TrueI)
      ((rule exI, rule conjI [rotated], rule conjI, (rule ext, rule ext, rule object_copy_defs),
        simp add: copy_defs deep_copy_def, simp add: copies_def)+, simp)
  ultimately show ?thesis
    by (fastforce simp: list_all_iff as_object_def)
qed

section \<open>A sample store\<close>

text \<open>A principal role with a label and one property, and libraries in the shape of the real ones.\<close>

definition sample_lib :: meta_lib where
  "sample_lib =
     \<lparr>TypeMeta_type = TStruct [(''Kind'', TScalar), (''APIVersion'', TScalar)],
      ObjectMeta_type = TStruct [(''Name'', TScalar), (''Labels'', TMap)],
      ObjectMeta_DeepCopyInto = copy_struct [Into ''Labels'' copy_map],
      ListMeta_type = TStruct [(''ResourceVersion'', TScalar)],
      ListMeta_DeepCopyInto = copy_struct [],
      Condition_type = TStruct [(''Type'', TScalar), (''Status'', TScalar)],
      Condition_DeepCopyInto = copy_struct [],
      Time_type = TStruct [(''wall'', TScalar)],
      Time_DeepCopy = copy_pointer copy_flat,
      JSON_type = TStruct [(''Raw'', TSlice TScalar)],
      JSON_DeepCopyInto = copy_struct [Into ''Raw'' (copy_slice copy_flat)]\<rparr>"

lemma sample_lib_ok: "meta_ok sample_lib"
  by (simp add: meta_ok_def sample_lib_def deep_struct covers_def)

definition sample_store :: heap where
  "sample_store =
     [CMap [(''team'', ''a'')], CMap [(''owner'', ''b'')],
      CVar (GStruct
        [(''TypeMeta'', GStruct [(''Kind'', GScalar (SString ''PolarisPrincipalRole'')),
                                 (''APIVersion'', GScalar (SString ''v1alpha1''))]),
         (''ObjectMeta'', GStruct [(''Name'', GScalar (SString ''r'')), (''Labels'', GRef 0)]),
         (''Spec'', GStruct
            [(''ConnectionRef'', GStruct [(''Name'', GScalar (SString ''c'')), (''Namespace'', GScalar (SString []))]),
             (''Name'', GScalar (SString ''r'')), (''Properties'', GRef 1)]),
         (''Status'', GStruct [(''ObservedGeneration'', GScalar (SInt 0)), (''Conditions'', GNil)])])]"

lemma sample_store_typed:
  "has_type sample_store (TPtr (ty_PolarisPrincipalRole sample_lib)) (GRef 2)"
  by code_simp

lemma sample_store_copy:
  "fst (PolarisPrincipalRole_DeepCopy sample_lib sample_store (Some 2)) = Some 5"
  "map (\<lambda>a. snd (PolarisPrincipalRole_DeepCopy sample_lib sample_store (Some 2)) ! a) [3, 4] =
     [CMap [(''team'', ''a'')], CMap [(''owner'', ''b'')]]"
  by code_simp+

lemma sample_store_reach:
  "3 \<in> reach (snd (PolarisPrincipalRole_DeepCopy sample_lib sample_store (Some 2)))
     (TPtr (ty_PolarisPrincipalRole sample_lib)) (GRef 5)"
  by code_simp

lemma sample_copy_listed:
  "(ty_PolarisPrincipalRole sample_lib, PolarisPrincipalRole_DeepCopy sample_lib) \<in> set (copies sample_lib)"
  by (simp add: copies_def)

section \<open>Properties\<close>

text \<open>
  C22. \<open>DeepCopy\<close> of each of the 68 API types, called on a pointer to a
  value of its type without dangling references, changes no cell that existed and returns a
  pointer to a value of the same type, which reads exactly like the original (through all its
  pointers, slices and maps, \<open>nil\<close> distinguished from empty) while every cell it refers to is
  new.
\<close>

theorem deep_copies_independent:
  assumes "meta_ok X" "(t, copy) \<in> set (copies X)" "has_type h (TPtr t) (GRef a)"
    and "copy h (Some a) = (p, h')"
  shows "\<exists>a'. p = Some a' \<and> take (length h) h' = h \<and> has_type h' (TPtr t) (GRef a') \<and>
    view h' (TPtr t) (GRef a') = view h (TPtr t) (GRef a) \<and>
    reach h' (TPtr t) (GRef a') \<inter> {..<length h} = {}"
  using copies_copy [OF assms] by (auto simp: copied_def extends_def)

theorem deep_copies_independent_witness:
  "\<exists>h'. PolarisPrincipalRole_DeepCopy sample_lib sample_store (Some 2) = (Some 5, h') \<and>
     view h' (TPtr (ty_PolarisPrincipalRole sample_lib)) (GRef 5) =
       view sample_store (TPtr (ty_PolarisPrincipalRole sample_lib)) (GRef 2)"
proof -
  obtain p h' where run: "PolarisPrincipalRole_DeepCopy sample_lib sample_store (Some 2) = (p, h')" by force
  have "p = Some 5" using sample_store_copy(1) run by simp
  with deep_copies_independent [OF sample_lib_ok sample_copy_listed sample_store_typed run] run
  show ?thesis by auto
qed

text \<open>
  C23. Neither side of a copy can be seen from the other. Whatever is written
  through the copy afterwards, every value that existed before the call, of whatever type,
  reads as before; and whatever is written to the cells that existed before, the copy
  reads as the original did when it was copied.
\<close>

theorem copies_isolated:
  assumes "meta_ok X" "(t, copy) \<in> set (copies X)" "has_type h (TPtr t) (GRef a)"
    and "copy h (Some a) = (Some a', h')" "length h' \<le> length k"
  shows "((\<forall>b. b \<notin> reach h' (TPtr t) (GRef a') \<longrightarrow> k ! b = h' ! b) \<longrightarrow>
      (\<forall>u w. has_type h u w \<longrightarrow> view k u w = view h u w)) \<and>
    ((\<forall>b. length h \<le> b \<longrightarrow> k ! b = h' ! b) \<longrightarrow>
      view k (TPtr t) (GRef a') = view h (TPtr t) (GRef a))"
proof -
  let ?copy = "reach h' (TPtr t) (GRef a')"
  have ext: "extends h h'" and c: "copied h h' (TPtr t) (GRef a) (GRef a')"
    using copies_copy [OF assms(1-4)] by auto
  have new: "length h \<le> b" if "b \<in> ?copy" for b
    using c that unfolding copied_def by (meson disjoint_iff lessThan_iff not_le)
  have "view k u w = view h u w"
    if others: "\<forall>b. b \<notin> ?copy \<longrightarrow> k ! b = h' ! b" and w: "has_type h u w" for u w
  proof -
    have "k ! b = h ! b" if "b \<in> reach h u w" for b
    proof -
      have old: "b < length h" using reach_bound [OF w] that by blast
      then have "b \<notin> ?copy" using new leD by blast
      then show ?thesis using others extends_nth [OF ext old] by simp
    qed
    then have "agrees h k (reach h u w)"
      using extends_length [OF ext] assms(5) by (simp add: agrees_def)
    then show ?thesis using same_if_agrees [OF w] by (simp add: same_def)
  qed
  moreover have "view k (TPtr t) (GRef a') = view h (TPtr t) (GRef a)"
    if fresh: "\<forall>b. length h \<le> b \<longrightarrow> k ! b = h' ! b"
  proof -
    have "agrees h' k ?copy"
      unfolding agrees_def using fresh new assms(5) by blast
    then show ?thesis
      using same_if_agrees [of h' "TPtr t" "GRef a'" k] c unfolding same_def copied_def by metis
  qed
  ultimately show ?thesis by blast
qed

theorem copies_isolated_witness:
  "\<exists>h'. PolarisPrincipalRole_DeepCopy sample_lib sample_store (Some 2) = (Some 5, h') \<and>
     view (h'[3 := CMap []]) (TPtr (ty_PolarisPrincipalRole sample_lib)) (GRef 2) =
       view sample_store (TPtr (ty_PolarisPrincipalRole sample_lib)) (GRef 2)"
proof -
  obtain p h' where run: "PolarisPrincipalRole_DeepCopy sample_lib sample_store (Some 2) = (p, h')" by force
  have p: "p = Some 5" using sample_store_copy(1) run by simp
  note iso = copies_isolated [OF sample_lib_ok sample_copy_listed sample_store_typed run [unfolded p],
      of "h'[3 := CMap []]", THEN conjunct1, rule_format]
  have "3 \<in> reach h' (TPtr (ty_PolarisPrincipalRole sample_lib)) (GRef 5)"
    using sample_store_reach unfolding run by simp
  then have others: "h'[3 := CMap []] ! b = h' ! b"
    if "b \<notin> reach h' (TPtr (ty_PolarisPrincipalRole sample_lib)) (GRef 5)" for b
    using that by (metis nth_list_update_neq)
  have "view (h'[3 := CMap []]) (TPtr (ty_PolarisPrincipalRole sample_lib)) (GRef 2) =
      view sample_store (TPtr (ty_PolarisPrincipalRole sample_lib)) (GRef 2)"
  proof (rule iso)
    show "length h' \<le> length (h'[3 := CMap []])" by simp
  qed (rule others sample_store_typed; assumption?)+
  with run p show ?thesis by blast
qed

end
