(* ===== verification/Operator_Runs.thy ===== *)
theory Operator_Runs
  imports Sample_Runs
begin

text \<open>
  One managed object over its whole life: created and edited by users, reconciled any number
  of times, deleted, and finally removed by the API server. A state machine over the passes of
  \<open>Manager\<close> and its reachable states; the properties of single passes become invariants.

  What the API server is taken to do is its documented behaviour: a write that succeeds stores
  what was sent, and was based on the stored object (a write based on an older one is refused,
  which is a step with a failed write); a change of the specification raises the generation;
  an object that still has a finalizer is marked as being deleted instead of being removed.
  Users leave the status and the operator's finalizer alone. Everything the pass reads besides
  the object itself may be anything.
\<close>

section \<open>States and steps\<close>

record entry =
  seen :: obj
  ended :: outcome
  did :: "effect list"

record life =
  stored :: "obj option"
  passes :: "entry list"

text \<open>The stored object after a write that was answered.\<close>

fun persist :: "effect \<Rightarrow> obj option \<Rightarrow> obj option" where
  "persist (Upd ob None) cur = Some ob"
| "persist (Stat ob None) cur = Some ob"
| "persist _ cur = cur"

definition has_finalizer :: "env \<Rightarrow> obj \<Rightarrow> bool" where
  "has_finalizer E ob \<longleftrightarrow> ContainsFinalizer E (obj_meta ob) PolarisFinalizer"

text \<open>What a user may turn an object into: a newer generation, or the same specification.\<close>

definition edited :: "env \<Rightarrow> obj \<Rightarrow> obj \<Rightarrow> bool" where
  "edited E ob ob' \<longleftrightarrow> kind_of ob' = kind_of ob \<and> obj_conds ob' = obj_conds ob \<and>
     obj_observed ob' = obj_observed ob \<and> has_finalizer E ob' = has_finalizer E ob \<and>
     (isDeleting (obj_meta ob) \<longrightarrow> isDeleting (obj_meta ob')) \<and>
     (gen_of ob < gen_of ob' \<or> gen_of ob = gen_of ob' \<and> same_spec ob ob')"

definition fresh :: "env \<Rightarrow> kind \<Rightarrow> obj \<Rightarrow> bool" where
  "fresh E k ob \<longleftrightarrow> kind_of ob = k \<and> ready_cond E (obj_conds ob) = None"

inductive life_step :: "env \<Rightarrow> kind \<Rightarrow> NamespacedName \<Rightarrow> life \<Rightarrow> life \<Rightarrow> bool" for E k key where
  edit: "stored L = Some ob \<Longrightarrow> edited E ob ob' \<Longrightarrow> life_step E k key L (L\<lparr>stored := Some ob'\<rparr>)"
| remove: "stored L = Some ob \<Longrightarrow> \<not> has_finalizer E ob \<Longrightarrow>
    life_step E k key L (L\<lparr>stored := None\<rparr>)"
| reconcile: "stored L = Some ob \<Longrightarrow> evs = trace (Reconcile E k key) s \<Longrightarrow>
    read_object evs = Some ob \<Longrightarrow>
    life_step E k key L
      (L\<lparr>stored := fold persist (effects evs) (Some ob),
         passes := passes L @ [\<lparr>seen = ob, ended = result (Reconcile E k key) s, did = effects evs\<rparr>]\<rparr>)"

inductive reachable :: "env \<Rightarrow> kind \<Rightarrow> NamespacedName \<Rightarrow> life \<Rightarrow> bool" for E k key where
  start: "fresh E k ob \<Longrightarrow> reachable E k key \<lparr>stored = Some ob, passes = []\<rparr>"
| step: "reachable E k key L \<Longrightarrow> life_step E k key L L' \<Longrightarrow> reachable E k key L'"

section \<open>The specification an object has\<close>

lemma same_spec_refl [simp]: "same_spec ob ob"
  by (cases ob) simp_all

lemma same_spec_trans: "same_spec a b \<Longrightarrow> same_spec b c \<Longrightarrow> same_spec a c"
  by (cases a; cases b; simp) (cases c; simp)+

lemma fold_persist_calls:
  "list_all (\<lambda>x. \<forall>ob e. x \<noteq> Upd ob e \<and> x \<noteq> Stat ob e) es \<Longrightarrow> fold persist es cur = cur"
proof (induction es arbitrary: cur)
  case (Cons x es)
  then show ?case by (cases x) auto
qed simp

lemma persist_status:
  assumes "list_all (\<lambda>x. \<not> is_status_write x) (butlast es)" "Stat ob e \<in> set es"
  shows "last es = Stat ob e"
  using assms by (induction es) (auto split: if_splits)

text \<open>The object after a pass was the one read, or what the last write that was accepted made of it.\<close>

lemma fold_persist_cases:
  obtains "fold persist es cur = cur" | ob where "fold persist es cur = Some ob"
    "Upd ob None \<in> set es \<or> Stat ob None \<in> set es"
proof (induction es arbitrary: cur thesis)
  case (Cons x es)
  show ?case
  proof (rule Cons.IH [of "persist x cur"])
    assume "fold persist es (persist x cur) = persist x cur"
    then show thesis
      using Cons.prems by (cases "(x, cur)" rule: persist.cases) auto
  qed (use Cons.prems in auto)
qed simp

section \<open>Ready is earned\<close>

text \<open>
  The invariant: the passes logged saw generations up to the present one, and at the present
  one the present specification; a true Ready condition names a generation that a logged pass
  has synchronised.
\<close>

definition synced_pass :: "entry \<Rightarrow> bool" where
  "synced_pass x \<longleftrightarrow> sync_run (butlast (did x))"

definition earned :: "env \<Rightarrow> kind \<Rightarrow> entry list \<Rightarrow> obj \<Rightarrow> bool" where
  "earned E k xs ob \<longleftrightarrow> kind_of ob = k \<and>
     (\<forall>x \<in> set xs. gen_of (seen x) \<le> gen_of ob \<and>
        (gen_of (seen x) = gen_of ob \<longrightarrow> same_spec (seen x) ob)) \<and>
     (\<forall>c. ready_cond E (obj_conds ob) = Some c \<longrightarrow>
        (\<exists>x \<in> set xs. synced_pass x \<and> gen_of (seen x) = condObservedGeneration c))"

lemma earned_edit: "earned E k xs ob \<Longrightarrow> edited E ob ob' \<Longrightarrow> earned E k xs ob'"
  unfolding earned_def edited_def by (auto intro: same_spec_trans order_trans)

lemma finalizer_meta:
  assumes "lib_ok E"
  shows "objGeneration (AddFinalizer E m f) = objGeneration m"
    "objGeneration (RemoveFinalizer E m f) = objGeneration m"
    "isDeleting (AddFinalizer E m f) = isDeleting m"
    "isDeleting (RemoveFinalizer E m f) = isDeleting m"
proof -
  have "(AddFinalizer E m f)\<lparr>objFinalizers := []\<rparr> = m\<lparr>objFinalizers := []\<rparr>"
    "(RemoveFinalizer E m f)\<lparr>objFinalizers := []\<rparr> = m\<lparr>objFinalizers := []\<rparr>"
    using assms by (auto simp: lib_ok_def)
  then show "objGeneration (AddFinalizer E m f) = objGeneration m"
    "objGeneration (RemoveFinalizer E m f) = objGeneration m"
    "isDeleting (AddFinalizer E m f) = isDeleting m"
    "isDeleting (RemoveFinalizer E m f) = isDeleting m"
    unfolding isDeleting_def by (metis objmeta.select_convs objmeta.surjective objmeta.update_convs(5))+
qed

lemma obj_meta_set [simp]: "obj_meta (set_obj_meta m ob) = m"
  by (cases ob) simp_all

text \<open>What one pass can do to the object it reads.\<close>

lemma pass_writes:
  assumes "k \<noteq> KConnection" "lib_ok E" and tr: "read_object (trace (Reconcile E k key) s) = Some ob"
    and "fold persist (effects (trace (Reconcile E k key) s)) (Some ob) = Some ob'"
  obtains (kept) "ob' = ob"
  | (finalizer) "Upd ob' None \<in> set (effects (trace (Reconcile E k key) s))" "same_spec ob ob'"
      "gen_of ob' = gen_of ob" "obj_conds ob' = obj_conds ob"
      "isDeleting (obj_meta ob') = isDeleting (obj_meta ob)"
  | (status) "Stat ob' None \<in> set (effects (trace (Reconcile E k key) s))" "same_spec ob ob'"
      "obj_meta ob' = obj_meta ob"
proof -
  let ?es = "effects (trace (Reconcile E k key) s)"
  note M = Reconcile_managed [OF assms(1)]
  consider "fold persist ?es (Some ob) = Some ob" | "Upd ob' None \<in> set ?es" | "Stat ob' None \<in> set ?es"
    using assms(4) by (cases rule: fold_persist_cases [of ?es "Some ob"]) auto
  then show thesis
  proof cases
    case 1
    then show thesis using assms(4) kept by simp
  next
    case 2
    then show thesis
      using managed_resource.spec_kept [OF M 2] managed_resource.finalizer_discipline [OF M 2] tr
        finalizer_meta [OF assms(2)] finalizer
      by (auto simp: gen_of_def split: if_splits)
  next
    case 3
    then show thesis using managed_resource.spec_kept [OF M 3] tr status by auto
  qed
qed

lemma earned_pass:
  assumes "k \<noteq> KConnection" "lib_ok E" "earned E k xs ob"
    and "read_object (trace (Reconcile E k key) s) = Some ob"
    and "fold persist (effects (trace (Reconcile E k key) s)) (Some ob) = Some ob'"
    and x: "seen x = ob" "did x = effects (trace (Reconcile E k key) s)"
  shows "earned E k (xs @ [x]) ob'"
proof (rule pass_writes [OF assms(1,2,4,5)])
  assume "ob' = ob"
  then show ?thesis using assms(3) x by (auto simp: earned_def)
next
  assume "same_spec ob ob'" "gen_of ob' = gen_of ob" "obj_conds ob' = obj_conds ob"
  then show ?thesis
    using assms(3) x by (auto simp: earned_def same_spec_kind intro: same_spec_trans)
next
  assume st: "Stat ob' None \<in> set (effects (trace (Reconcile E k key) s))"
    and same: "same_spec ob ob'" "obj_meta ob' = obj_meta ob"
  have "\<exists>y \<in> set (xs @ [x]). synced_pass y \<and> gen_of (seen y) = condObservedGeneration c"
    if "ready_cond E (obj_conds ob') = Some c" for c
    using managed_resource.ready_is_earned [OF Reconcile_managed [OF assms(1)] assms(2) st that]
      assms(3,4) x by (auto simp: synced_pass_def earned_def)
  then show ?thesis
    using assms(3) x same by (auto simp: earned_def gen_of_def same_spec_kind intro: same_spec_trans)
qed

lemma reachable_earned:
  assumes "reachable E k key L" "k \<noteq> KConnection" "lib_ok E"
  shows "stored L = Some ob \<Longrightarrow> earned E k (passes L) ob"
  using assms
proof (induction arbitrary: ob rule: reachable.induct)
  case (start ob0)
  then show ?case by (auto simp: fresh_def earned_def)
next
  case (step L L')
  from step.hyps(2) show ?case
  proof cases
    case (edit ob0 ob1)
    then show ?thesis using step.IH step.prems earned_edit by auto
  next
    case (reconcile ob0 evs s)
    then show ?thesis using step.IH step.prems earned_pass by auto
  qed (use step.prems in auto)
qed

section \<open>Nothing is left behind\<close>

text \<open>
  A pass that requested anything but a removal; and a pass that gave the object up: it removed
  the remote side, or could not resolve what it would need to remove it.
\<close>

definition acted :: "entry \<Rightarrow> bool" where
  "acted x \<longleftrightarrow> (\<exists>rq a. Api rq a \<in> set (did x) \<and> op_class (rqOp rq) \<noteq> Remove)"

definition released :: "entry \<Rightarrow> bool" where
  "released x \<longleftrightarrow> isDeleting (obj_meta (seen x)) \<and>
     (\<exists>ob. did x = [Upd ob None] \<or>
        (\<exists>rq raw. did x = [Api rq (Inr raw), Upd ob None] \<and> op_class (rqOp rq) = Remove \<and>
           tolerated [StatusNotFound] raw))"

lemma finalizer_after_pass:
  assumes "k \<noteq> KConnection" "lib_ok E" "read_object (trace (Reconcile E k key) s) = Some ob"
    and "fold persist (effects (trace (Reconcile E k key) s)) (Some ob) = Some ob'"
    and "has_finalizer E ob"
  shows "has_finalizer E ob' \<or>
    released \<lparr>seen = ob, ended = out, did = effects (trace (Reconcile E k key) s)\<rparr>"
proof (rule pass_writes [OF assms(1-4)])
  assume u: "Upd ob' None \<in> set (effects (trace (Reconcile E k key) s))"
  show ?thesis
    using managed_resource.finalizer_discipline [OF Reconcile_managed [OF assms(1)] u] assms(3,5)
    by (auto simp: released_def has_finalizer_def split: if_splits)
qed (use assms(5) in \<open>auto simp: has_finalizer_def\<close>)

lemma acting_pass:
  assumes "k \<noteq> KConnection" "read_object (trace (Reconcile E k key) s) = Some ob"
    and "acted \<lparr>seen = ob, ended = out, did = effects (trace (Reconcile E k key) s)\<rparr>"
  shows "has_finalizer E ob" "\<not> isDeleting (obj_meta ob)"
  using managed_resource.acts_only_when_ready [OF Reconcile_managed [OF assms(1)], of _ _ E key s]
    assms(2,3)
  by (auto simp: acted_def has_finalizer_def may_act_def)

text \<open>The invariant: after a pass that acted comes one that gave the object up, or the finalizer is on.\<close>

definition guarded :: "env \<Rightarrow> life \<Rightarrow> bool" where
  "guarded E L \<longleftrightarrow> (\<forall>a x b. passes L = a @ x # b \<longrightarrow> acted x \<longrightarrow>
     (\<exists>y \<in> set b. released y) \<or> (\<exists>ob. stored L = Some ob \<and> has_finalizer E ob))"

lemma persist_stores: "\<exists>ob'. fold persist es (Some ob) = Some ob'"
  by (cases rule: fold_persist_cases [of es "Some ob"]) auto

lemma reachable_guarded:
  assumes "reachable E k key L" "k \<noteq> KConnection" "lib_ok E"
  shows "guarded E L"
  using assms
proof (induction rule: reachable.induct)
  case (step L L')
  then have IH: "guarded E L" by simp
  from step.hyps(2) show ?case
  proof cases
    case (edit ob ob')
    then show ?thesis using IH by (auto simp: guarded_def edited_def)
  next
    case (remove ob)
    then show ?thesis using IH by (auto simp: guarded_def)
  next
    case (reconcile ob evs s)
    let ?x = "\<lparr>seen = ob, ended = result (Reconcile E k key) s, did = effects evs\<rparr>"
    obtain ob' where ob': "fold persist (effects evs) (Some ob) = Some ob'"
      using persist_stores by blast
    have keep: "has_finalizer E ob' \<or> released ?x" if "has_finalizer E ob"
      using finalizer_after_pass step.prems reconcile(3,4) ob' that by blast
    have new: "has_finalizer E ob'" if "acted ?x"
      using acting_pass [OF step.prems(1), of E key s ob] reconcile(3,4) keep that
      by (auto simp: released_def)
    show ?thesis
      unfolding guarded_def
    proof (intro allI impI)
      fix a x b
      assume split: "passes L' = a @ x # b" and act: "acted x"
      show "(\<exists>y \<in> set b. released y) \<or> (\<exists>ob. stored L' = Some ob \<and> has_finalizer E ob)"
      proof (cases b rule: rev_cases)
        case Nil
        then show ?thesis using split act new reconcile(1) ob' by simp
      next
        case (snoc b' y)
        then have "passes L = a @ x # b'" "y = ?x" using split reconcile(1) by auto
        then show ?thesis
          using IH act keep reconcile(1,2) ob' snoc unfolding guarded_def by fastforce
      qed
    qed
  qed
qed (simp add: guarded_def)

section \<open>A sample life\<close>

text \<open>
  A principal role that is created, synchronised, deleted by its user, removed from the server
  and dropped. The first pass starts with no history, the second with one.
\<close>

definition live_role :: PolarisPrincipalRole where
  "live_role = sample_role None [PolarisFinalizer]"

definition synced_role :: PolarisPrincipalRole where
  "synced_role = live_role\<lparr>crStatus :=
     \<lparr>observedGeneration = 2,
      conditions =
        [\<lparr>condType = ConditionSynced, condStatus = ConditionTrue, condObservedGeneration = 2,
          condReason = ReasonSynced, condMessage = ''principal role state matches spec''\<rparr>,
         \<lparr>condType = ConditionReady, condStatus = ConditionTrue, condObservedGeneration = 2,
          condReason = ReasonReady, condMessage = ''principal role is reconciled''\<rparr>]\<rparr>\<rparr>"

definition doomed_role :: PolarisPrincipalRole where
  "doomed_role = synced_role\<lparr>crMeta := sample_meta (Some 1) [PolarisFinalizer]\<rparr>"

definition dropped_role :: PolarisPrincipalRole where
  "dropped_role = synced_role\<lparr>crMeta := sample_meta (Some 1) []\<rparr>"

definition life_world :: env where
  "life_world = (sample_world True live_role
      (\<lambda>m. if m = ''GET'' then 404 else if m = ''DELETE'' then 204 else 201))
     \<lparr>get_PolarisPrincipalRole := \<lambda>h k. Inr (if h = [] then live_role else doomed_role)\<rparr>"

definition later :: mstate where
  "later = sample_start\<lparr>hist := [ENow 0]\<rparr>"

definition life_pass :: "mstate \<Rightarrow> PolarisPrincipalRole \<Rightarrow> entry" where
  "life_pass s ob =
     \<lparr>seen = OPrincipalRole ob, ended = result (Reconcile life_world KPrincipalRole sample_key) s,
      did = effects (trace (Reconcile life_world KPrincipalRole sample_key) s)\<rparr>"

lemma life_runs:
  "read_object (trace (Reconcile life_world KPrincipalRole sample_key) sample_start) =
     Some (OPrincipalRole live_role)"
  "read_object (trace (Reconcile life_world KPrincipalRole sample_key) later) =
     Some (OPrincipalRole doomed_role)"
  "fold persist (did (life_pass sample_start live_role)) (Some (OPrincipalRole live_role)) =
     Some (OPrincipalRole synced_role)"
  "fold persist (did (life_pass later doomed_role)) (Some (OPrincipalRole doomed_role)) =
     Some (OPrincipalRole dropped_role)"
  "fresh life_world KPrincipalRole (OPrincipalRole live_role)"
  "edited life_world (OPrincipalRole synced_role) (OPrincipalRole doomed_role)"
  "\<not> has_finalizer life_world (OPrincipalRole dropped_role)"
  by code_simp+

lemma lib_ok_life: "lib_ok life_world"
  using lib_ok_sample unfolding lib_ok_def by (simp add: life_world_def sample_world_def)

abbreviation pass1 :: entry where "pass1 \<equiv> life_pass sample_start live_role"
abbreviation pass2 :: entry where "pass2 \<equiv> life_pass later doomed_role"

lemma synced_life:
  "reachable life_world KPrincipalRole sample_key
     \<lparr>stored = Some (OPrincipalRole synced_role), passes = [pass1]\<rparr>"
  using step [OF start [OF life_runs(5)] reconcile [OF _ refl life_runs(1)]] life_runs(3)
  by (simp add: life_pass_def)

lemma dropped_life:
  "reachable life_world KPrincipalRole sample_key \<lparr>stored = None, passes = [pass1, pass2]\<rparr>"
proof -
  have "reachable life_world KPrincipalRole sample_key
      \<lparr>stored = Some (OPrincipalRole doomed_role), passes = [pass1]\<rparr>"
    using step [OF synced_life edit [OF _ life_runs(6)]] by simp
  then have "reachable life_world KPrincipalRole sample_key
      \<lparr>stored = Some (OPrincipalRole dropped_role), passes = [pass1, pass2]\<rparr>"
    using step [OF _ reconcile [OF _ refl life_runs(2)]] life_runs(4)
    by (fastforce simp: life_pass_def)
  from step [OF this remove [OF _ life_runs(7)]] show ?thesis by simp
qed

lemma pass1_acted: "acted pass1"
proof -
  have "list_ex (shows_call Create) (did pass1)" by code_simp
  then show ?thesis by (auto simp: acted_def list_ex_iff elim!: shows_call.elims)
qed

section \<open>Properties\<close>

text \<open>
  C3. In every reachable state of a managed object, a true Ready condition was earned
  for the generation it names: a past pass read the object at that generation and brought the
  server in line with accepted requests. If that is the present generation, the pass saw the
  very specification the object has now; it never names a later one.
\<close>

theorem ready_means_synced:
  assumes "reachable E k key L" "k \<noteq> KConnection" "lib_ok E"
    and "stored L = Some ob" "ready_cond E (obj_conds ob) = Some c"
  shows "\<exists>x \<in> set (passes L). synced_pass x \<and> gen_of (seen x) = condObservedGeneration c \<and>
    condObservedGeneration c \<le> gen_of ob \<and>
    (condObservedGeneration c = gen_of ob \<longrightarrow> same_spec (seen x) ob)"
  using reachable_earned [OF assms(1-3,4)] assms(5) unfolding earned_def by fastforce

theorem ready_means_synced_witness: "\<exists>x \<in> set [pass1]. synced_pass x \<and> gen_of (seen x) = 2"
proof -
  obtain c where c: "ready_cond life_world (obj_conds (OPrincipalRole synced_role)) = Some c"
    "condObservedGeneration c = 2"
    by (simp add: life_world_def sample_world_def sample_env_def ready_cond_def synced_role_def
        find_condition_def condition_types)
  show ?thesis
    using ready_means_synced [OF synced_life _ lib_ok_life, of "OPrincipalRole synced_role" c] c
    by auto
qed



end
