(* ===== verification/Start_Up.thy ===== *)
theory Start_Up
  imports Manager
begin

text \<open>
  \<open>cmd/main.go\<close>: the command line, the options of the servers and of the manager, and the
  sequence of calls that registers the controllers and starts the manager; with the
  \<open>SetupWithManager\<close> methods of \<open>internal/controller\<close> and the registration of the API types
  (the \<open>init\<close> functions of \<open>api/v1alpha1\<close>).
\<close>

section \<open>The scheme\<close>

text \<open>What each \<open>init\<close> hands to \<open>SchemeBuilder.Register\<close>.\<close>

definition PolarisConnection_init :: "string list" where
  "PolarisConnection_init = [''PolarisConnection'', ''PolarisConnectionList'']"

definition PolarisCatalog_init :: "string list" where
  "PolarisCatalog_init = [''PolarisCatalog'', ''PolarisCatalogList'']"

definition PolarisNamespace_init :: "string list" where
  "PolarisNamespace_init = [''PolarisNamespace'', ''PolarisNamespaceList'']"

definition PolarisTable_init :: "string list" where
  "PolarisTable_init = [''PolarisTable'', ''PolarisTableList'']"

definition PolarisView_init :: "string list" where
  "PolarisView_init = [''PolarisView'', ''PolarisViewList'']"

definition PolarisPolicy_init :: "string list" where
  "PolarisPolicy_init = [''PolarisPolicy'', ''PolarisPolicyList'']"

definition PolarisPrincipal_init :: "string list" where
  "PolarisPrincipal_init = [''PolarisPrincipal'', ''PolarisPrincipalList'']"

definition PolarisPrincipalRole_init :: "string list" where
  "PolarisPrincipalRole_init = [''PolarisPrincipalRole'', ''PolarisPrincipalRoleList'']"

definition PolarisCatalogRole_init :: "string list" where
  "PolarisCatalogRole_init = [''PolarisCatalogRole'', ''PolarisCatalogRoleList'']"

definition PolarisPrincipalRoleBinding_init :: "string list" where
  "PolarisPrincipalRoleBinding_init = [''PolarisPrincipalRoleBinding'', ''PolarisPrincipalRoleBindingList'']"

definition PolarisCatalogRoleBinding_init :: "string list" where
  "PolarisCatalogRoleBinding_init = [''PolarisCatalogRoleBinding'', ''PolarisCatalogRoleBindingList'']"

definition PolarisGrant_init :: "string list" where
  "PolarisGrant_init = [''PolarisGrant'', ''PolarisGrantList'']"

definition scheme_types :: "string list" where
  "scheme_types = PolarisConnection_init @
     PolarisCatalog_init @
     PolarisNamespace_init @
     PolarisTable_init @
     PolarisView_init @
     PolarisPolicy_init @
     PolarisPrincipal_init @
     PolarisPrincipalRole_init @
     PolarisCatalogRole_init @
     PolarisPrincipalRoleBinding_init @
     PolarisCatalogRoleBinding_init @
     PolarisGrant_init"

fun type_name :: "kind \<Rightarrow> string" where
  "type_name KConnection = ''PolarisConnection''"
| "type_name KCatalog = ''PolarisCatalog''"
| "type_name KNamespace = ''PolarisNamespace''"
| "type_name KTable = ''PolarisTable''"
| "type_name KView = ''PolarisView''"
| "type_name KPolicy = ''PolarisPolicy''"
| "type_name KPrincipal = ''PolarisPrincipal''"
| "type_name KPrincipalRole = ''PolarisPrincipalRole''"
| "type_name KCatalogRole = ''PolarisCatalogRole''"
| "type_name KPrincipalRoleBinding = ''PolarisPrincipalRoleBinding''"
| "type_name KCatalogRoleBinding = ''PolarisCatalogRoleBinding''"
| "type_name KGrant = ''PolarisGrant''"

section \<open>The controllers\<close>

text \<open>
  What a \<open>SetupWithManager\<close> tells controller-runtime: the kind that is watched, the predicates
  an update event has to pass, whether Secrets owned by an object are watched too, and the name of
  the controller, which must be unique in a process.
\<close>

datatype predicate = GenerationChangedPredicate

record controller =
  ctlFor :: kind
  ctlPredicates :: "predicate list"
  ctlOwnsSecrets :: bool
  ctlName :: string

definition PolarisConnection_SetupWithManager :: controller where
  "PolarisConnection_SetupWithManager =
     \<lparr>ctlFor = KConnection, ctlPredicates = [GenerationChangedPredicate], ctlOwnsSecrets = False,
      ctlName = ''polarisconnection''\<rparr>"

definition PolarisCatalog_SetupWithManager :: controller where
  "PolarisCatalog_SetupWithManager =
     \<lparr>ctlFor = KCatalog, ctlPredicates = [GenerationChangedPredicate], ctlOwnsSecrets = False,
      ctlName = ''polariscatalog''\<rparr>"

definition PolarisNamespace_SetupWithManager :: controller where
  "PolarisNamespace_SetupWithManager =
     \<lparr>ctlFor = KNamespace, ctlPredicates = [GenerationChangedPredicate], ctlOwnsSecrets = False,
      ctlName = ''polarisnamespace''\<rparr>"

definition PolarisTable_SetupWithManager :: controller where
  "PolarisTable_SetupWithManager =
     \<lparr>ctlFor = KTable, ctlPredicates = [GenerationChangedPredicate], ctlOwnsSecrets = False,
      ctlName = ''polaristable''\<rparr>"

definition PolarisView_SetupWithManager :: controller where
  "PolarisView_SetupWithManager =
     \<lparr>ctlFor = KView, ctlPredicates = [GenerationChangedPredicate], ctlOwnsSecrets = False,
      ctlName = ''polarisview''\<rparr>"

definition PolarisPolicy_SetupWithManager :: controller where
  "PolarisPolicy_SetupWithManager =
     \<lparr>ctlFor = KPolicy, ctlPredicates = [GenerationChangedPredicate], ctlOwnsSecrets = False,
      ctlName = ''polarispolicy''\<rparr>"

definition PolarisPrincipal_SetupWithManager :: controller where
  "PolarisPrincipal_SetupWithManager =
     \<lparr>ctlFor = KPrincipal, ctlPredicates = [GenerationChangedPredicate], ctlOwnsSecrets = True,
      ctlName = ''polarisprincipal''\<rparr>"

definition PolarisPrincipalRole_SetupWithManager :: controller where
  "PolarisPrincipalRole_SetupWithManager =
     \<lparr>ctlFor = KPrincipalRole, ctlPredicates = [GenerationChangedPredicate], ctlOwnsSecrets = False,
      ctlName = ''polarisprincipalrole''\<rparr>"

definition PolarisCatalogRole_SetupWithManager :: controller where
  "PolarisCatalogRole_SetupWithManager =
     \<lparr>ctlFor = KCatalogRole, ctlPredicates = [GenerationChangedPredicate], ctlOwnsSecrets = False,
      ctlName = ''polariscatalogrole''\<rparr>"

definition PolarisPrincipalRoleBinding_SetupWithManager :: controller where
  "PolarisPrincipalRoleBinding_SetupWithManager =
     \<lparr>ctlFor = KPrincipalRoleBinding, ctlPredicates = [GenerationChangedPredicate], ctlOwnsSecrets = False,
      ctlName = ''polarisprincipalrolebinding''\<rparr>"

definition PolarisCatalogRoleBinding_SetupWithManager :: controller where
  "PolarisCatalogRoleBinding_SetupWithManager =
     \<lparr>ctlFor = KCatalogRoleBinding, ctlPredicates = [GenerationChangedPredicate], ctlOwnsSecrets = False,
      ctlName = ''polariscatalogrolebinding''\<rparr>"

definition PolarisGrant_SetupWithManager :: controller where
  "PolarisGrant_SetupWithManager =
     \<lparr>ctlFor = KGrant, ctlPredicates = [GenerationChangedPredicate], ctlOwnsSecrets = False,
      ctlName = ''polarisgrant''\<rparr>"

section \<open>Flags\<close>

record flags =
  metricsAddr :: string
  probeAddr :: string
  enableLeaderElection :: bool
  secureMetrics :: bool
  webhookCertPath :: string
  webhookCertName :: string
  webhookCertKey :: string
  metricsCertPath :: string
  metricsCertName :: string
  metricsCertKey :: string
  enableHTTP2 :: bool

definition default_flags :: flags where
  "default_flags =
     \<lparr>metricsAddr = ''0'', probeAddr = '':8081'', enableLeaderElection = False, secureMetrics = True,
      webhookCertPath = [], webhookCertName = ''tls.crt'', webhookCertKey = ''tls.key'',
      metricsCertPath = [], metricsCertName = ''tls.crt'', metricsCertKey = ''tls.key'',
      enableHTTP2 = False\<rparr>"

text \<open>\<open>flag.StringVar\<close> and \<open>flag.BoolVar\<close>: how the value of a flag is stored.\<close>

datatype flag_var = StringVar "string \<Rightarrow> flags \<Rightarrow> flags" | BoolVar "bool \<Rightarrow> flags \<Rightarrow> flags"

definition flag_vars :: "(string \<times> flag_var) list" where
  "flag_vars =
     [(''metrics-bind-address'', StringVar (\<lambda>v f. f\<lparr>metricsAddr := v\<rparr>)),
      (''health-probe-bind-address'', StringVar (\<lambda>v f. f\<lparr>probeAddr := v\<rparr>)),
      (''leader-elect'', BoolVar (\<lambda>v f. f\<lparr>enableLeaderElection := v\<rparr>)),
      (''metrics-secure'', BoolVar (\<lambda>v f. f\<lparr>secureMetrics := v\<rparr>)),
      (''webhook-cert-path'', StringVar (\<lambda>v f. f\<lparr>webhookCertPath := v\<rparr>)),
      (''webhook-cert-name'', StringVar (\<lambda>v f. f\<lparr>webhookCertName := v\<rparr>)),
      (''webhook-cert-key'', StringVar (\<lambda>v f. f\<lparr>webhookCertKey := v\<rparr>)),
      (''metrics-cert-path'', StringVar (\<lambda>v f. f\<lparr>metricsCertPath := v\<rparr>)),
      (''metrics-cert-name'', StringVar (\<lambda>v f. f\<lparr>metricsCertName := v\<rparr>)),
      (''metrics-cert-key'', StringVar (\<lambda>v f. f\<lparr>metricsCertKey := v\<rparr>)),
      (''enable-http2'', BoolVar (\<lambda>v f. f\<lparr>enableHTTP2 := v\<rparr>))]"

text \<open>
  \<open>flag.Parse\<close> of the standard library. The flags that \<open>zap.Options.BindFlags\<close> adds are a
  parameter: for a name, whether it is a boolean flag and which values it accepts.
\<close>

type_synonym zap_flags = "string \<Rightarrow> (bool \<times> (string \<Rightarrow> bool)) option"

definition ParseBool :: "string \<Rightarrow> bool option" where
  "ParseBool s =
     (if s \<in> {''1'', ''t'', ''T'', ''TRUE'', ''true'', ''True''} then Some True
      else if s \<in> {''0'', ''f'', ''F'', ''FALSE'', ''false'', ''False''} then Some False
      else None)"

definition lookup_flag :: "zap_flags \<Rightarrow> string \<Rightarrow> (bool \<times> (string \<Rightarrow> flags \<Rightarrow> flags option)) option" where
  "lookup_flag Z name =
     (case map_of flag_vars name of
        Some (StringVar put) \<Rightarrow> Some (False, \<lambda>v f. Some (put v f))
      | Some (BoolVar put) \<Rightarrow> Some (True, \<lambda>v f. map_option (\<lambda>b. put b f) (ParseBool v))
      | None \<Rightarrow> map_option (\<lambda>(b, valid). (b, \<lambda>v f. if valid v then Some f else None)) (Z name))"

text \<open>One argument: not a flag, the terminator \<open>--\<close>, malformed, or a name with an optional value.\<close>

datatype argument = Operand | Terminator | Malformed | Named string "string option"

fun split_eq :: "string \<Rightarrow> string \<times> string option" where
  "split_eq [] = ([], None)"
| "split_eq (c # cs) =
     (if c = CHR ''='' then ([], Some cs) else (case split_eq cs of (n, v) \<Rightarrow> (c # n, v)))"

definition read_argument :: "string \<Rightarrow> argument" where
  "read_argument s =
     (if length s < 2 \<or> hd s \<noteq> CHR ''-'' then Operand
      else if s = ''--'' then Terminator
      else (let name = (if s ! 1 = CHR ''-'' then drop 2 s else drop 1 s) in
        if hd name = CHR ''-'' \<or> hd name = CHR ''='' then Malformed
        else (case split_eq name of (n, v) \<Rightarrow> Named n v)))"

datatype parsed = Parsed flags | Help | BadFlag

function parse_flags :: "zap_flags \<Rightarrow> string list \<Rightarrow> flags \<Rightarrow> parsed" where
  "parse_flags Z [] f = Parsed f"
| "parse_flags Z (s # args) f =
     (case read_argument s of
        Operand \<Rightarrow> Parsed f
      | Terminator \<Rightarrow> Parsed f
      | Malformed \<Rightarrow> BadFlag
      | Named name value \<Rightarrow>
          (case lookup_flag Z name of
             None \<Rightarrow> if name = ''help'' \<or> name = ''h'' then Help else BadFlag
           | Some (is_bool, put) \<Rightarrow>
               (case value of
                  Some v \<Rightarrow> (case put v f of None \<Rightarrow> BadFlag | Some f' \<Rightarrow> parse_flags Z args f')
                | None \<Rightarrow>
                    if is_bool then (case put ''true'' f of None \<Rightarrow> BadFlag | Some f' \<Rightarrow> parse_flags Z args f')
                    else (case args of
                            [] \<Rightarrow> BadFlag
                          | v # args' \<Rightarrow> (case put v f of None \<Rightarrow> BadFlag | Some f' \<Rightarrow> parse_flags Z args' f')))))"
  by pat_completeness auto

termination
  by (relation "measure (\<lambda>(Z, args, f). length args)") auto

section \<open>Options\<close>

text \<open>A \<open>tls.Config\<close>, as far as the program sets it.\<close>

record tls_config =
  NextProtos :: "string list"

record webhook_options =
  whTLSOpts :: "(tls_config \<Rightarrow> tls_config) list"
  whCertDir :: string
  whCertName :: string
  whKeyName :: string

record metrics_options =
  msBindAddress :: string
  msSecureServing :: bool
  msTLSOpts :: "(tls_config \<Rightarrow> tls_config) list"
  msAuthFilter :: bool
  msCertDir :: string
  msCertName :: string
  msKeyName :: string

record manager_options =
  moScheme :: "string list"
  moMetrics :: metrics_options
  moWebhook :: webhook_options
  moHealthProbeBindAddress :: string
  moLeaderElection :: bool
  moLeaderElectionID :: string

definition disableHTTP2 :: "tls_config \<Rightarrow> tls_config" where
  "disableHTTP2 c = c\<lparr>NextProtos := [''http/1.1'']\<rparr>"

definition tlsOpts :: "flags \<Rightarrow> (tls_config \<Rightarrow> tls_config) list" where
  "tlsOpts f = (if enableHTTP2 f then [] else [disableHTTP2])"

definition webhookServerOptions :: "flags \<Rightarrow> webhook_options" where
  "webhookServerOptions f =
     (let o0 = \<lparr>whTLSOpts = tlsOpts f, whCertDir = [], whCertName = [], whKeyName = []\<rparr> in
      if webhookCertPath f \<noteq> [] then
        o0\<lparr>whCertDir := webhookCertPath f, whCertName := webhookCertName f, whKeyName := webhookCertKey f\<rparr>
      else o0)"

definition metricsServerOptions :: "flags \<Rightarrow> metrics_options" where
  "metricsServerOptions f =
     (let o0 = \<lparr>msBindAddress = metricsAddr f, msSecureServing = secureMetrics f, msTLSOpts = tlsOpts f,
                msAuthFilter = False, msCertDir = [], msCertName = [], msKeyName = []\<rparr>;
          o1 = (if secureMetrics f then o0\<lparr>msAuthFilter := True\<rparr> else o0) in
      if metricsCertPath f \<noteq> [] then
        o1\<lparr>msCertDir := metricsCertPath f, msCertName := metricsCertName f, msKeyName := metricsCertKey f\<rparr>
      else o1)"

definition managerOptions :: "flags \<Rightarrow> manager_options" where
  "managerOptions f =
     \<lparr>moScheme = scheme_types, moMetrics = metricsServerOptions f, moWebhook = webhookServerOptions f,
      moHealthProbeBindAddress = probeAddr f, moLeaderElection = enableLeaderElection f,
      moLeaderElectionID = ''ed60e6be.k8s.calific.io''\<rparr>"

section \<open>The sequence of calls\<close>

datatype boot =
    GetConfig
  | NewManager manager_options
  | SetupController controller
  | AddHealthzCheck string
  | AddReadyzCheck string
  | StartManager

definition controllers :: "controller list" where
  "controllers =
     [PolarisConnection_SetupWithManager,
      PolarisCatalog_SetupWithManager,
      PolarisNamespace_SetupWithManager,
      PolarisTable_SetupWithManager,
      PolarisView_SetupWithManager,
      PolarisPolicy_SetupWithManager,
      PolarisPrincipal_SetupWithManager,
      PolarisPrincipalRole_SetupWithManager,
      PolarisCatalogRole_SetupWithManager,
      PolarisPrincipalRoleBinding_SetupWithManager,
      PolarisCatalogRoleBinding_SetupWithManager,
      PolarisGrant_SetupWithManager]"

definition boot_sequence :: "flags \<Rightarrow> boot list" where
  "boot_sequence f =
     [GetConfig, NewManager (managerOptions f)] @ map SetupController controllers @
     [AddHealthzCheck ''healthz'', AddReadyzCheck ''readyz'', StartManager]"

text \<open>
  Every call is tested; after an error the process ends with code 1. Whether a call succeeds
  depends on all calls before it. \<open>StartManager\<close> returns when the manager has stopped.
\<close>

fun run_boot :: "(boot list \<Rightarrow> boot \<Rightarrow> bool) \<Rightarrow> boot list \<Rightarrow> boot list \<Rightarrow> boot list \<times> int" where
  "run_boot ok past [] = (past, 0)"
| "run_boot ok past (b # bs) = (if ok past b then run_boot ok (past @ [b]) bs else (past @ [b], 1))"

definition main :: "zap_flags \<Rightarrow> (boot list \<Rightarrow> boot \<Rightarrow> bool) \<Rightarrow> string list \<Rightarrow> boot list \<times> int" where
  "main Z ok args =
     (case parse_flags Z args default_flags of
        Help \<Rightarrow> ([], 0)
      | BadFlag \<Rightarrow> ([], 2)
      | Parsed f \<Rightarrow> run_boot ok [] (boot_sequence f))"

section \<open>Facts\<close>

lemma run_boot_runs:
  "run_boot ok past bs = (steps, code) \<Longrightarrow>
   \<exists>us vs. bs = us @ vs \<and> steps = past @ us \<and>
     (\<forall>as b cs. us = as @ b # cs \<longrightarrow> cs \<noteq> [] \<longrightarrow> ok (past @ as) b) \<and>
     (code = 0 \<and> vs = [] \<or> code = 1 \<and> us \<noteq> [])"
proof (induction ok past bs rule: run_boot.induct)
  case (2 ok past b bs)
  show ?case
  proof (cases "ok past b")
    case True
    with 2 obtain us vs where u: "bs = us @ vs" "steps = past @ b # us"
      "\<forall>as b' cs. us = as @ b' # cs \<longrightarrow> cs \<noteq> [] \<longrightarrow> ok ((past @ [b]) @ as) b'"
      "code = 0 \<and> vs = [] \<or> code = 1 \<and> us \<noteq> []"
      by fastforce
    have "ok (past @ as) b'" if "b # us = as @ b' # cs" "cs \<noteq> []" for as b' cs
      using that u(3) True by (cases as) auto
    then show ?thesis
      using u by (intro exI [of _ "b # us"] exI [of _ vs]) auto
  next
    case False
    then show ?thesis
      using 2(2) by (intro exI [of _ "[b]"] exI [of _ bs]) (auto simp: Cons_eq_append_conv)
  qed
qed auto

lemma main_runs:
  assumes "main Z ok args = (steps, code)" "steps \<noteq> []"
  obtains f us vs where "parse_flags Z args default_flags = Parsed f" "boot_sequence f = us @ vs" "steps = us"
    "\<And>as b cs. us = as @ b # cs \<Longrightarrow> cs \<noteq> [] \<Longrightarrow> ok as b"
proof -
  obtain f where f: "parse_flags Z args default_flags = Parsed f" "run_boot ok [] (boot_sequence f) = (steps, code)"
    using assms by (auto simp: main_def split: parsed.splits)
  from run_boot_runs [OF f(2)] show thesis
    using that [OF f(1)] by auto
qed

fun registered :: "boot list \<Rightarrow> controller list" where
  "registered [] = []"
| "registered (SetupController c # bs) = c # registered bs"
| "registered (_ # bs) = registered bs"

lemmas setups =
  PolarisConnection_SetupWithManager_def PolarisCatalog_SetupWithManager_def
  PolarisNamespace_SetupWithManager_def PolarisTable_SetupWithManager_def
  PolarisView_SetupWithManager_def PolarisPolicy_SetupWithManager_def
  PolarisPrincipal_SetupWithManager_def PolarisPrincipalRole_SetupWithManager_def
  PolarisCatalogRole_SetupWithManager_def PolarisPrincipalRoleBinding_SetupWithManager_def
  PolarisCatalogRoleBinding_SetupWithManager_def PolarisGrant_SetupWithManager_def

lemma controllers_table:
  "distinct (map ctlFor controllers)" "distinct (map ctlName controllers)"
  "list_all (\<lambda>c. type_name (ctlFor c) \<in> set scheme_types) controllers"
  by code_simp+

lemma controllers_all: "set (map ctlFor controllers) = UNIV"
proof -
  have "k \<in> set (map ctlFor controllers)" for k
    by (cases k) (simp_all add: controllers_def setups)
  then show ?thesis by blast
qed

lemma registered_map: "registered (map SetupController cs @ bs) = cs @ registered bs"
  by (induction cs) auto

lemma registered_boot: "registered (boot_sequence f) = controllers"
  by (simp add: boot_sequence_def registered_map)

lemma start_is_last:
  assumes "boot_sequence f = us @ vs" "StartManager \<in> set us"
  shows "vs = []"
proof -
  obtain as cs where us: "us = as @ StartManager # cs"
    using assms(2) by (meson split_list)
  have "boot_sequence f = butlast (boot_sequence f) @ [StartManager]"
    "StartManager \<notin> set (butlast (boot_sequence f))"
    by (auto simp: boot_sequence_def butlast_append)
  then have "as @ StartManager # cs @ vs = butlast (boot_sequence f) @ [StartManager]"
    using assms(1) us by simp
  then show ?thesis
    using \<open>StartManager \<notin> set (butlast (boot_sequence f))\<close>
    by (metis append_Cons append_is_Nil_conv butlast_append butlast_snoc in_set_conv_decomp list.distinct(1))
qed

text \<open>A flag keeps its value unless an argument names it.\<close>

lemma lookup_keeps_http2:
  assumes "lookup_flag Z name = Some (b, put)" "put v f = Some f'" "name \<noteq> ''enable-http2''"
  shows "enableHTTP2 f' = enableHTTP2 f"
  using assms by (auto simp: lookup_flag_def flag_vars_def split: if_splits)

lemma parse_keeps_http2:
  "parse_flags Z args f = Parsed f' \<Longrightarrow> (\<forall>a \<in> set args. \<forall>v. read_argument a \<noteq> Named ''enable-http2'' v) \<Longrightarrow>
   enableHTTP2 f' = enableHTTP2 f"
proof (induction Z args f rule: parse_flags.induct)
  case (2 Z s args f)
  show ?case
  proof (cases "read_argument s")
    case (Named name arg)
    then have name: "name \<noteq> ''enable-http2''" using 2(5) by auto
    obtain b put where l: "lookup_flag Z name = Some (b, put)"
      using 2(4) Named by (auto split: option.splits if_splits)
    note keeps = lookup_keeps_http2 [OF l _ name]
    consider (given) v f1 where "arg = Some v" "put v f = Some f1" "parse_flags Z args f1 = Parsed f'"
      | (bool) f1 where "arg = None" "b" "put ''true'' f = Some f1" "parse_flags Z args f1 = Parsed f'"
      | (separate) v rest f1 where "arg = None" "\<not> b" "args = v # rest" "put v f = Some f1"
          "parse_flags Z rest f1 = Parsed f'"
      using 2(4) Named l by (auto split: option.splits if_splits list.splits)
    then show ?thesis
    proof cases
      case given
      then show ?thesis using 2(3) [OF Named l refl given(1,2,3)] 2(5) keeps by simp
    next
      case bool
      then show ?thesis using 2(1) [OF Named l refl bool(1,2,3,4)] 2(5) keeps by simp
    next
      case separate
      then show ?thesis using 2(2) [OF Named l refl separate(1,2,3,4,5)] 2(5) keeps by simp
    qed
  qed (use 2 in auto)
qed simp

lemma sample_main:
  "main (\<lambda>n. None) (\<lambda>p b. True) [''--leader-elect''] =
     (boot_sequence (default_flags\<lparr>enableLeaderElection := True\<rparr>), 0)"
proof -
  have "parse_flags (\<lambda>n. None) [''--leader-elect''] default_flags =
      Parsed (default_flags\<lparr>enableLeaderElection := True\<rparr>)"
    by (simp add: read_argument_def lookup_flag_def flag_vars_def ParseBool_def)
  moreover have "run_boot (\<lambda>p b. True) past bs = (past @ bs, 0)" for past bs
    by (induction bs arbitrary: past) auto
  ultimately show ?thesis by (simp add: main_def)
qed

section \<open>Properties\<close>



text \<open>
  C25. HTTP/2 is off unless the command line names the flag: whatever the other
  flags are, the options of both servers reduce the protocols of any TLS configuration to
  HTTP/1.1. The metrics endpoint is protected by authentication exactly when it is served securely.
\<close>

theorem servers_hardened:
  assumes "main Z ok args = (steps, code)" "NewManager opts \<in> set steps"
    and "\<forall>a \<in> set args. \<forall>v. read_argument a \<noteq> Named ''enable-http2'' v"
  shows "NextProtos (fold (\<lambda>g. g) (msTLSOpts (moMetrics opts)) c) = [''http/1.1''] \<and>
    NextProtos (fold (\<lambda>g. g) (whTLSOpts (moWebhook opts)) c) = [''http/1.1''] \<and>
    msAuthFilter (moMetrics opts) = msSecureServing (moMetrics opts)"
proof -
  obtain f us vs where m: "parse_flags Z args default_flags = Parsed f" "boot_sequence f = us @ vs" "steps = us"
    using main_runs [OF assms(1)] assms(2) by (metis empty_iff list.set(1))
  have "NewManager opts \<in> set (boot_sequence f)"
    using m assms(2) by simp
  then have "opts = managerOptions f"
    by (auto simp: boot_sequence_def)
  moreover have "\<not> enableHTTP2 f"
    using parse_keeps_http2 [OF m(1) assms(3)] by (simp add: default_flags_def)
  ultimately show ?thesis
    by (simp add: managerOptions_def metricsServerOptions_def webhookServerOptions_def Let_def tlsOpts_def
        disableHTTP2_def)
qed

theorem servers_hardened_witness:
  "NextProtos (fold (\<lambda>g. g)
     (msTLSOpts (moMetrics (managerOptions (default_flags\<lparr>enableLeaderElection := True\<rparr>))))
     \<lparr>NextProtos = [''h2'', ''http/1.1'']\<rparr>) = [''http/1.1'']"
proof -
  have "NewManager (managerOptions f) \<in> set (boot_sequence f)" for f
    by (simp add: boot_sequence_def)
  from servers_hardened [OF sample_main this] show ?thesis
    by (simp add: read_argument_def)
qed

end
