(* ===== verification/Watches.thy ===== *)
theory Watches
  imports Operator_Runs Start_Up
begin

text \<open>
  The work queue of a controller: which events make it look at an object, and that nothing is
  forgotten. The machine of \<open>Operator_Runs\<close> is extended by whether the key of the object is queued;
  a controller only runs a pass for a queued key.

  controller-runtime is taken to do what it documents: creation and deletion of an object
  queue its key, an update does if all predicates of the controller let it through; a pass that
  returns an error, panics or asks to be run again has its key queued again (at once, after a
  back-off or after the time it asked for). The key may be queued at any other time, too:
  by a Secret the object owns, by a restart, by a resynchronisation.
\<close>

section \<open>Events\<close>

fun SetupWithManager :: "kind \<Rightarrow> controller" where
  "SetupWithManager KConnection = PolarisConnection_SetupWithManager"
| "SetupWithManager KCatalog = PolarisCatalog_SetupWithManager"
| "SetupWithManager KNamespace = PolarisNamespace_SetupWithManager"
| "SetupWithManager KTable = PolarisTable_SetupWithManager"
| "SetupWithManager KView = PolarisView_SetupWithManager"
| "SetupWithManager KPolicy = PolarisPolicy_SetupWithManager"
| "SetupWithManager KPrincipal = PolarisPrincipal_SetupWithManager"
| "SetupWithManager KPrincipalRole = PolarisPrincipalRole_SetupWithManager"
| "SetupWithManager KCatalogRole = PolarisCatalogRole_SetupWithManager"
| "SetupWithManager KPrincipalRoleBinding = PolarisPrincipalRoleBinding_SetupWithManager"
| "SetupWithManager KCatalogRoleBinding = PolarisCatalogRoleBinding_SetupWithManager"
| "SetupWithManager KGrant = PolarisGrant_SetupWithManager"

text \<open>
  The predicates belong to controller-runtime; \<open>R p old new\<close> says whether \<open>p\<close> lets the update from
  \<open>old\<close> to \<open>new\<close> through. \<open>GenerationChangedPredicate\<close> skips updates that leave the generation.
\<close>

type_synonym filters = "predicate \<Rightarrow> obj \<Rightarrow> obj \<Rightarrow> bool"

definition generation_filter :: "filters \<Rightarrow> bool" where
  "generation_filter R \<longleftrightarrow> (\<forall>old new. R GenerationChangedPredicate old new \<longleftrightarrow> gen_of old \<noteq> gen_of new)"

definition notices :: "filters \<Rightarrow> controller \<Rightarrow> obj \<Rightarrow> obj \<Rightarrow> bool" where
  "notices R ctl old new \<longleftrightarrow> list_all (\<lambda>p. R p old new) (ctlPredicates ctl)"

fun requeued :: "outcome \<Rightarrow> bool" where
  "requeued (Returns res (Some err)) \<longleftrightarrow> True"
| "requeued (Returns res None) \<longleftrightarrow> res \<noteq> noResult"
| "requeued Panics \<longleftrightarrow> True"

lemma notices_generation: "generation_filter R \<Longrightarrow> notices R (SetupWithManager k) a b \<longleftrightarrow> gen_of a \<noteq> gen_of b"
  by (cases k) (simp_all add: notices_def generation_filter_def setups)

section \<open>The machine\<close>

record watched =
  cluster :: life
  queued :: bool

text \<open>
  A user's edit as in \<open>Operator_Runs\<close>; marking an object for deletion raises its generation.
\<close>

definition user_edit :: "env \<Rightarrow> obj \<Rightarrow> obj \<Rightarrow> bool" where
  "user_edit E ob ob' \<longleftrightarrow> edited E ob ob' \<and>
     (isDeleting (obj_meta ob') \<and> \<not> isDeleting (obj_meta ob) \<longrightarrow> gen_of ob < gen_of ob')"

definition run_entry :: "env \<Rightarrow> kind \<Rightarrow> NamespacedName \<Rightarrow> mstate \<Rightarrow> obj \<Rightarrow> entry" where
  "run_entry E k key s ob =
     \<lparr>seen = ob, ended = result (Reconcile E k key) s, did = effects (trace (Reconcile E k key) s)\<rparr>"

inductive watch_step :: "env \<Rightarrow> filters \<Rightarrow> kind \<Rightarrow> NamespacedName \<Rightarrow> watched \<Rightarrow> watched \<Rightarrow> bool"
  for E R k key where
  edit: "stored (cluster W) = Some ob \<Longrightarrow> user_edit E ob ob' \<Longrightarrow>
    watch_step E R k key W
      \<lparr>cluster = (cluster W)\<lparr>stored := Some ob'\<rparr>,
       queued = (queued W \<or> notices R (SetupWithManager k) ob ob')\<rparr>"
| remove: "stored (cluster W) = Some ob \<Longrightarrow> \<not> has_finalizer E ob \<Longrightarrow>
    watch_step E R k key W \<lparr>cluster = (cluster W)\<lparr>stored := None\<rparr>, queued = True\<rparr>"
| reconcile: "queued W \<Longrightarrow> stored (cluster W) = Some ob \<Longrightarrow>
    read_object (trace (Reconcile E k key) s) = Some ob \<Longrightarrow> x = run_entry E k key s ob \<Longrightarrow>
    fold persist (did x) (Some ob) = Some ob' \<Longrightarrow>
    watch_step E R k key W
      \<lparr>cluster = (cluster W)\<lparr>stored := Some ob', passes := passes (cluster W) @ [x]\<rparr>,
       queued = (requeued (ended x) \<or> notices R (SetupWithManager k) ob ob')\<rparr>"
| nudge: "watch_step E R k key W (W\<lparr>queued := True\<rparr>)"

inductive watch_reachable :: "env \<Rightarrow> filters \<Rightarrow> kind \<Rightarrow> NamespacedName \<Rightarrow> watched \<Rightarrow> bool"
  for E R k key where
  start: "fresh E k ob \<Longrightarrow>
    watch_reachable E R k key \<lparr>cluster = \<lparr>stored = Some ob, passes = []\<rparr>, queued = True\<rparr>"
| step: "watch_reachable E R k key W \<Longrightarrow> watch_step E R k key W W' \<Longrightarrow> watch_reachable E R k key W'"

text \<open>The queue does not add lives: what is reachable here is reachable without it.\<close>

lemma watch_life: "watch_reachable E R k key W \<Longrightarrow> reachable E k key (cluster W)"
proof (induction rule: watch_reachable.induct)
  case (start ob)
  then show ?case by (simp add: reachable.start)
next
  case (step W W')
  from step.hyps(2) show ?case
  proof cases
    case (edit ob ob')
    then show ?thesis
      using reachable.step [OF step.IH life_step.edit] by (auto simp: user_edit_def)
  next
    case (remove ob)
    then show ?thesis using reachable.step [OF step.IH life_step.remove] by auto
  next
    case (reconcile ob s x ob')
    then show ?thesis
      using reachable.step [OF step.IH life_step.reconcile [OF reconcile(3) refl reconcile(4)]]
      by (simp add: run_entry_def)
  qed (use step.IH in simp)
qed

section \<open>Nothing is forgotten\<close>

text \<open>What holds of an object whose controller has nothing to do.\<close>

definition settled_at :: "env \<Rightarrow> entry list \<Rightarrow> obj \<Rightarrow> bool" where
  "settled_at E xs ob \<longleftrightarrow>
     (if isDeleting (obj_meta ob) then \<not> has_finalizer E ob
      else (\<exists>x \<in> set xs. synced_pass x \<and> gen_of (seen x) = gen_of ob \<and> same_spec (seen x) ob) \<and>
        (\<exists>c. ready_cond E (obj_conds ob) = Some c \<and> condObservedGeneration c = gen_of ob))"

lemma settled_edit:
  assumes "settled_at E xs ob" "user_edit E ob ob'" "gen_of ob = gen_of ob'"
  shows "settled_at E xs ob'"
  using assms unfolding settled_at_def user_edit_def edited_def
  by (auto intro: same_spec_trans split: if_splits)

lemma own_writes_unnoticed:
  assumes "generation_filter R" "k \<noteq> KConnection" "lib_ok E"
    and "read_object (trace (Reconcile E k key) s) = Some ob"
    and "fold persist (effects (trace (Reconcile E k key) s)) (Some ob) = Some ob'"
  shows "\<not> notices R (SetupWithManager k) ob ob'"
  by (rule pass_writes [OF assms(2-5)]) (simp_all add: notices_generation [OF assms(1)] gen_of_def)

context managed_resource begin

lemma deletion_persists:
  assumes "result (reconcile E req) s = Returns noResult None"
    and "read_object (trace (reconcile E req) s) = Some ob" "isDeleting (obj_meta ob)"
  shows "fold persist (effects (trace (reconcile E req) s)) (Some ob) =
    Some (if has_finalizer E ob
          then set_obj_meta (RemoveFinalizer E (obj_meta ob) PolarisFinalizer) ob else ob)"
proof (cases rule: pass_cases [of E req s])
  case unread
  then show ?thesis using assms by simp
next
  case (read ob0 evs)
  then have "lifecycle E ob (Returns noResult None) evs" using assms by simp
  then show ?thesis
    using assms(3)
  proof (cases rule: lifecycle_deleted)
    case (dropped err)
    then show ?thesis
      using read(4) by (auto simp: finalizer_dropped_def has_finalizer_def split: if_splits option.splits)
  next
    case (removed rq raw es err)
    then show ?thesis
      using read(4) by (auto simp: finalizer_dropped_def has_finalizer_def split: if_splits option.splits)
  qed simp
qed

end

lemma quiet_pass_settles:
  assumes "k \<noteq> KConnection" "lib_ok E"
    and tr: "read_object (trace (Reconcile E k key) s) = Some ob"
    and st: "fold persist (effects (trace (Reconcile E k key) s)) (Some ob) = Some ob'"
    and out: "result (Reconcile E k key) s = Returns noResult None"
  shows "settled_at E (xs @ [run_entry E k key s ob]) ob'"
proof (cases "isDeleting (obj_meta ob)")
  case False
  note M = Reconcile_managed [OF assms(1)]
  obtain es ob1 cs msg where e: "effects (trace (Reconcile E k key) s) = es @ [Stat ob1 None]" "sync_run es"
      "obj_meta ob1 = obj_meta ob" "obj_conds ob1 = setReady E cs (gen_of ob) msg"
    using managed_resource.success_is_synced [OF M out tr False] by blast
  have ob': "ob' = ob1" using st e(1) by simp
  have "Stat ob1 None \<in> set (effects (trace (Reconcile E k key) s))" using e(1) by simp
  from managed_resource.spec_kept [OF M this, of ob1 None] tr have "same_spec ob ob1" by auto
  moreover have "synced_pass (run_entry E k key s ob)"
    using e(1,2) by (simp add: synced_pass_def run_entry_def)
  moreover have "seen (run_entry E k key s ob) = ob" by (simp add: run_entry_def)
  ultimately show ?thesis
    using e(3,4) ob' False ready_cond_set(1) [OF assms(2)]
    unfolding settled_at_def gen_of_def by simp
next
  case True
  then have "\<not> has_finalizer E ob' \<and> isDeleting (obj_meta ob')"
    using managed_resource.deletion_persists [OF Reconcile_managed [OF assms(1)] out tr True] st
      finalizer_meta [OF assms(2)] contains_remove [OF assms(2)]
    by (auto simp: has_finalizer_def split: if_splits)
  then show ?thesis by (simp add: settled_at_def)
qed

lemma requeued_False: "\<not> requeued out \<Longrightarrow> out = Returns noResult None"
  by (cases out rule: requeued.cases) auto

lemma watch_settled:
  assumes "watch_reachable E R k key W" "k \<noteq> KConnection" "lib_ok E" "generation_filter R"
  shows "\<not> queued W \<Longrightarrow> stored (cluster W) = Some ob \<Longrightarrow> settled_at E (passes (cluster W)) ob"
  using assms
proof (induction arbitrary: ob rule: watch_reachable.induct)
  case (step W W')
  from step.hyps(2) show ?case
  proof cases
    case (edit ob0 ob1)
    then show ?thesis
      using step settled_edit notices_generation [OF step.prems(5)] by auto
  next
    case (reconcile ob0 s x ob1)
    then have "ended x = Returns noResult None"
      using step.prems(1) requeued_False by auto
    then show ?thesis
      using quiet_pass_settles [OF step.prems(3,4) reconcile(4), of ob1] reconcile step.prems(2)
      by (auto simp: run_entry_def)
  qed (use step in auto)
qed simp

section \<open>A sample run\<close>

definition sample_filters :: filters where
  "sample_filters p a b \<longleftrightarrow> gen_of a \<noteq> gen_of b"

lemma first_pass:
  "result (Reconcile life_world KPrincipalRole sample_key) sample_start = Returns noResult None"
  "gen_of (OPrincipalRole live_role) = 2" "gen_of (OPrincipalRole synced_role) = 2"
  by code_simp+

lemma sample_idle:
  "watch_reachable life_world sample_filters KPrincipalRole sample_key
     \<lparr>cluster = \<lparr>stored = Some (OPrincipalRole synced_role), passes = [pass1]\<rparr>, queued = False\<rparr>"
proof -
  have entry: "run_entry life_world KPrincipalRole sample_key sample_start (OPrincipalRole live_role) = pass1"
    by (simp add: run_entry_def life_pass_def)
  have ended: "ended pass1 = Returns noResult None"
    using first_pass(1) unfolding life_pass_def by (simp only: entry.simps)
  have idle: "(requeued (ended pass1) \<or> notices sample_filters (SetupWithManager KPrincipalRole)
      (OPrincipalRole live_role) (OPrincipalRole synced_role)) = False"
    unfolding ended by (simp add: notices_def sample_filters_def first_pass(2,3) setups)
  let ?W = "\<lparr>cluster = \<lparr>stored = Some (OPrincipalRole live_role), passes = []\<rparr>, queued = True\<rparr>"
  have "watch_step life_world sample_filters KPrincipalRole sample_key ?W
      \<lparr>cluster = (cluster ?W)\<lparr>stored := Some (OPrincipalRole synced_role),
         passes := passes (cluster ?W) @ [pass1]\<rparr>, queued = False\<rparr>"
    using watch_step.reconcile [where R = sample_filters and W = ?W, OF _ _ life_runs(1) entry [symmetric] life_runs(3)]
    unfolding idle by (simp only: watched.simps life.simps simp_thms True_implies_equals)
  from watch_reachable.step [OF watch_reachable.start [OF life_runs(5)] this] show ?thesis
    by (simp only: watched.simps life.simps append.simps)
qed

section \<open>Properties\<close>

text \<open>
  C5. Nothing is forgotten. Whatever users edit, and however passes fail,
  wait or crash in between: when the key of an object is not queued and no pass is owed, the
  controller is done with it. A live object has then been brought in line by a pass
  over the very specification it has, and its Ready condition is true for its present
  generation; a deleted one no longer carries the finalizer. (An update that leaves the
  generation alone wakes no controller, so this rests on the predicate being enough.)
\<close>

theorem idle_means_settled:
  assumes "watch_reachable E R k key W" "k \<noteq> KConnection" "lib_ok E" "generation_filter R"
    and "\<not> queued W" "stored (cluster W) = Some ob"
  shows "if isDeleting (obj_meta ob) then \<not> has_finalizer E ob
    else (\<exists>x \<in> set (passes (cluster W)). synced_pass x \<and> gen_of (seen x) = gen_of ob \<and>
        same_spec (seen x) ob) \<and>
      (\<exists>c. ready_cond E (obj_conds ob) = Some c \<and> condObservedGeneration c = gen_of ob)"
  using watch_settled [OF assms(1-4) assms(5,6)] unfolding settled_at_def .

theorem idle_means_settled_witness: "synced_pass pass1 \<and> gen_of (seen pass1) = 2"
proof -
  have R: "generation_filter sample_filters"
    by (simp add: generation_filter_def sample_filters_def)
  have live: "\<not> isDeleting (obj_meta (OPrincipalRole synced_role))"
    by code_simp
  have "(if isDeleting (obj_meta (OPrincipalRole synced_role)) then \<not> has_finalizer life_world (OPrincipalRole synced_role)
    else (\<exists>x \<in> set [pass1]. synced_pass x \<and> gen_of (seen x) = gen_of (OPrincipalRole synced_role) \<and>
        same_spec (seen x) (OPrincipalRole synced_role)) \<and>
      (\<exists>c. ready_cond life_world (obj_conds (OPrincipalRole synced_role)) = Some c \<and>
        condObservedGeneration c = gen_of (OPrincipalRole synced_role)))"
    using idle_means_settled [OF sample_idle _ lib_ok_life R, of "OPrincipalRole synced_role"]
    by (simp only: watched.simps life.simps simp_thms kind.distinct True_implies_equals)
  then show ?thesis
    unfolding if_not_P [OF live] first_pass(3) by auto
qed

end
