(* ===== verification/Connection_Health.thy ===== *)
theory Connection_Health
  imports Sample_Runs
begin

text \<open>
  What a Ready connection means (\<open>internal/controller/polarisconnection_controller.go\<close>): the
  client a pass builds starts without a token, so \<open>Ping\<close> has to fetch one.
\<close>

lemma NewClient_forgets:
  "run_state (NewClient E cfg) s = (Inr pc, s') \<Longrightarrow> tokCached s' = [] \<and> hist s' = hist s"
  by (auto simp: NewClient_def Let_def split: option.splits sum.splits)

lemma buildPolarisClient_forgets:
  "run_state (buildPolarisClient E conn) s = (Inr pc, s') \<Longrightarrow> tokCached s' = []"
  by (auto simp: buildPolarisClient_def kget_secret_def Let_def split_beta
      dest!: NewClient_forgets split: option.splits sum.splits if_splits)


text \<open>A run of a computation that only extends the history.\<close>

lemma valid_run:
  assumes "valid m P" "run_state m s = (x, s')"
  obtains evs where "hist s' = hist s @ evs" "P x evs"
  using assms unfolding valid_def by (metis fst_conv snd_conv)

definition token_answer :: "env \<Rightarrow> event \<Rightarrow> bool" where
  "token_answer E ev \<longleftrightarrow>
     (\<exists>endpoint form raw tr. ev = EToken endpoint form (Inr raw) \<and> read_token E raw = Inr tr)"

lemma Ping_fetches:
  assumes "run_state (Ping E pc) s = (None, s')" "tokCached s = []"
  shows "\<exists>ev evs. hist s' = hist s @ ev # evs \<and> token_answer E ev"
  using assms
  by (auto simp: Ping_def token_def refresh_def fetch_def Now_def token_answer_def split_beta
      split: sum.splits option.splits)

lemma connection_pass_token:
  assumes "lib_ok E" "\<not> isDeleting (crMeta conn)"
    and run: "run_state (PolarisConnection_reconcileObject E production conn) s = (out, s')"
    and stat: "Stat ob' e \<in> set (effects evs)" "hist s' = hist s @ evs"
    and "parentReady E (obj_conds ob')"
  shows "list_ex (token_answer E) evs"
proof -
  obtain r s1 where b: "run_state (buildPolarisClient E conn) s = (r, s1)" by fastforce
  obtain evs1 where e1: "hist s1 = hist s @ evs1" "effects evs1 = []"
    using valid_run [OF quiet_buildPolarisClient [unfolded quiet_def] b] by blast
  show ?thesis
  proof (cases r)
    case (Inl err)
    then show ?thesis
      using run stat assms(2,6) b e1 parentReady_set [OF assms(1)]
      by (auto simp: PolarisConnection_reconcileObject_def builder_def production_def
          connection_failed_def Let_def Status_Update_def)
  next
    case (Inr pc)
    obtain p s2 where p: "run_state (Ping E pc) s1 = (p, s2)" by fastforce
    obtain evs2 where e2: "hist s2 = hist s1 @ evs2" "effects evs2 = []"
      using valid_run [OF quiet_Ping [unfolded quiet_def] p] by blast
    show ?thesis
    proof (cases p)
      case None
      then have "\<exists>ev evs. hist s2 = hist s1 @ ev # evs \<and> token_answer E ev"
        using Ping_fetches p buildPolarisClient_forgets [of E conn s pc s1] b Inr by blast
      then show ?thesis
        using run stat assms(2) b p e1 e2 Inr None
        by (auto simp: PolarisConnection_reconcileObject_def builder_def production_def
            Let_def Status_Update_def)
    next
      case (Some err)
      then show ?thesis
        using run stat assms(2,6) b p e1 e2 Inr parentReady_set [OF assms(1)]
        by (auto simp: PolarisConnection_reconcileObject_def builder_def production_def
            connection_failed_def Let_def Status_Update_def)
    qed
  qed
qed


lemma auth_valid_ready:
  assumes "lib_ok E"
  shows "IsStatusConditionTrue E (setReady E (setCondition E cs ConditionAuthValid ConditionTrue g r m) g msg)
    ConditionAuthValid"
  using assms by (simp add: is_true find_set setReady_def setCondition_def condition_types)

text \<open>
  C34. A connection is only reported Ready after a token was obtained in the same
  pass: the token endpoint answered a request of this pass with a usable token (no token is
  reused from an earlier pass); \<open>AuthValid\<close> is then true as well, the status write is the only
  effect, and the result is that of the write.
\<close>

theorem connection_ready_means_token:
  assumes "lib_ok E"
    and stat: "Stat ob' e \<in> set (effects (trace (Reconcile E KConnection req) s))"
    and ready: "parentReady E (obj_conds ob')"
  shows "list_ex (token_answer E) (trace (Reconcile E KConnection req) s) \<and>
    IsStatusConditionTrue E (obj_conds ob') ConditionAuthValid \<and>
    effects (trace (Reconcile E KConnection req) s) = [Stat ob' e] \<and>
    result (Reconcile E KConnection req) s = Returns noResult e"
proof (cases "get_PolarisConnection E (hist s) req")
  case (Inl err)
  then show ?thesis using stat
    by (auto simp: PolarisConnection_Reconcile_def reconcile_with_def trace_def kget_def)
next
  case (Inr conn)
  let ?s = "s\<lparr>hist := hist s @ [EGet req (Inr (OConnection conn))]\<rparr>"
  obtain out s' where run: "run_state (PolarisConnection_reconcileObject E production conn) ?s = (out, s')"
    by fastforce
  obtain evs where evs: "hist s' = hist ?s @ evs" "connection_pass E (OConnection conn) out evs"
    using valid_run [OF PolarisConnection_refines [OF quiet_production] run] by blast
  have r: "trace (Reconcile E KConnection req) s = EGet req (Inr (OConnection conn)) # evs"
    "result (Reconcile E KConnection req) s = out"
    using Inr run evs(1)
    by (simp_all add: PolarisConnection_Reconcile_def reconcile_with_def trace_def result_def kget_def)
  have live: "\<not> isDeleting (crMeta conn)"
    using evs(2) stat r by (auto simp: connection_pass_def finalizer_dropped_def split: if_splits)
  have "list_ex (token_answer E) evs"
    using connection_pass_token [OF assms(1) live run _ evs(1) ready] stat r by auto
  moreover have "IsStatusConditionTrue E (obj_conds ob') ConditionAuthValid \<and> effects evs = [Stat ob' e] \<and>
      out = Returns noResult e"
    using evs(2) live stat r ready parentReady_set [OF assms(1)] auth_valid_ready [OF assms(1)]
    by (auto simp: connection_pass_def)
  ultimately show ?thesis using r by auto
qed

lemma healthy_run:
  "list_ex (shows_status creating_world) (effects (trace (Reconcile creating_world KConnection sample_key) sample_start))"
  by code_simp

theorem connection_ready_means_token_witness:
  "list_ex (token_answer creating_world) (trace (Reconcile creating_world KConnection sample_key) sample_start)"
proof -
  obtain ob where "Stat ob None \<in> set (effects (trace (Reconcile creating_world KConnection sample_key) sample_start))"
    "parentReady creating_world (obj_conds ob)"
    using healthy_run by (auto simp: list_ex_iff elim!: shows_status.elims)
  then show ?thesis
    using connection_ready_means_token [of creating_world ob None sample_key sample_start] lib_ok_world
    by (simp add: creating_world_def)
qed

end
