(* ===== verification/Catalog_Drift.thy ===== *)
theory Catalog_Drift
  imports Sample_Runs Property_Sync
begin

text \<open>
  The bodies and the drift test of \<open>polariscatalog_controller.go\<close>: which storage
  configurations are accepted and what they send, which properties are sent, and whether a
  catalog that has just been created or updated is still seen as drifting.
\<close>

section \<open>Sets of locations\<close>

text \<open>
  The comparison of the allowed locations with those of the spec (a
  \<open>listType=set\<close>, hence without duplicates) decides whether they are the same set, each
  location once.
\<close>

theorem equalStringSet_correct:
  assumes "distinct b"
  shows "equalStringSet a b \<longleftrightarrow> distinct a \<and> set a = set b"
proof
  assume "equalStringSet a b"
  then have len: "length a = length b" and sub: "set b \<subseteq> set a"
    by (auto simp: equalStringSet_def Let_def list_all_iff split: if_splits)
  have "card (set a) \<le> card (set b)"
    using card_length [of a] distinct_card [OF assms] len by simp
  then have "set a = set b"
    using sub by (metis card_seteq finite_set)
  then show "distinct a \<and> set a = set b"
    using assms len by (metis card_distinct distinct_card)
next
  assume "distinct a \<and> set a = set b"
  then show "equalStringSet a b"
    using assms by (auto simp: equalStringSet_def Let_def list_all_iff dest!: distinct_card)
qed

theorem equalStringSet_correct_witness:
  "equalStringSet [''a'', ''b''] [''b'', ''a''] \<longleftrightarrow>
     distinct [''a'', ''b''] \<and> set [''a'', ''b''] = set [''b'', ''a'']"
  by (rule equalStringSet_correct) simp

section \<open>Storage\<close>

definition provider_keys :: "StorageType \<Rightarrow> string list" where
  "provider_keys t =
     (if t = StorageTypeS3 then [''roleArn'', ''region'', ''externalId'', ''userArn'']
      else if t = StorageTypeAzure then [''tenantId'', ''multiTenantAppName'', ''consentUrl'']
      else if t = StorageTypeGCS then [''gcsServiceAccount''] else [])"

definition provider_given :: "StorageConfig \<Rightarrow> bool" where
  "provider_given sc \<longleftrightarrow>
     scStorageType sc = StorageTypeS3 \<and> scS3 sc \<noteq> None \<or>
     scStorageType sc = StorageTypeAzure \<and> scAzure sc \<noteq> None \<or>
     scStorageType sc = StorageTypeGCS \<and> scGCS sc \<noteq> None \<or>
     scStorageType sc = StorageTypeFile"

lemma storage_types_distinct:
  "StorageTypeS3 \<noteq> StorageTypeAzure" "StorageTypeS3 \<noteq> StorageTypeGCS"
  "StorageTypeS3 \<noteq> StorageTypeFile" "StorageTypeAzure \<noteq> StorageTypeGCS"
  "StorageTypeAzure \<noteq> StorageTypeFile" "StorageTypeGCS \<noteq> StorageTypeFile"
  by (simp_all add: storage_types)

lemmas storage_cases = storage_types_distinct storage_types_distinct [symmetric]

definition provider_fields :: "storageBody \<Rightarrow> (string \<times> string) list" where
  "provider_fields b =
     [(''roleArn'', sbRoleARN b), (''region'', sbRegion b), (''externalId'', sbExternalID b),
      (''userArn'', sbUserARN b), (''tenantId'', sbTenantID b),
      (''multiTenantAppName'', sbMultiTenantAppName b), (''consentUrl'', sbConsentURL b),
      (''gcsServiceAccount'', sbGCSServiceAccount b)]"

lemma marshal_storageBody_fields:
  "marshal_storageBody b = JObject ([(''storageType'', JString (sbStorageType b))] @
     (if sbAllowedLocations b = [] then []
      else [(''allowedLocations'', jstrings (sbAllowedLocations b))]) @
     concat (map (\<lambda>(k, v). jomit_str k v) (provider_fields b)))"
  by (simp add: marshal_storageBody_def provider_fields_def)

lemma keys_jomit_str: "x \<in> fst ` set (jomit_str k s) \<longleftrightarrow> x = k \<and> s \<noteq> []"
  by (auto simp: jomit_str_def)

lemma keys_provider_fields:
  "x \<in> fst ` set (concat (map (\<lambda>(k, v). jomit_str k v) ps)) \<longleftrightarrow> (\<exists>v. v \<noteq> [] \<and> (x, v) \<in> set ps)"
proof (induction ps)
  case (Cons p ps)
  obtain k v where p: "p = (k, v)" by force
  have "x \<in> fst ` set (concat (map (\<lambda>(k, v). jomit_str k v) (p # ps))) \<longleftrightarrow>
    x \<in> fst ` set (jomit_str k v) \<or> x \<in> fst ` set (concat (map (\<lambda>(k, v). jomit_str k v) ps))"
    by (simp add: p image_Un)
  then show ?case unfolding Cons.IH keys_jomit_str using p by auto
qed simp

lemma provider_fields_given:
  assumes "buildStorageBody sc = Inr b" "(x, v) \<in> set (provider_fields b)" "v \<noteq> []"
  shows "x \<in> set (provider_keys (scStorageType sc))"
proof -
  consider "scStorageType sc = StorageTypeS3" | "scStorageType sc = StorageTypeAzure"
    | "scStorageType sc = StorageTypeGCS" | "scStorageType sc = StorageTypeFile"
    using assms(1) by (auto simp: buildStorageBody_def Let_def split: if_splits)
  then have b: "if scStorageType sc = StorageTypeS3
      then sbTenantID b = [] \<and> sbMultiTenantAppName b = [] \<and> sbConsentURL b = [] \<and> sbGCSServiceAccount b = []
      else if scStorageType sc = StorageTypeAzure
      then sbRoleARN b = [] \<and> sbRegion b = [] \<and> sbExternalID b = [] \<and> sbUserARN b = [] \<and>
        sbGCSServiceAccount b = []
      else sbRoleARN b = [] \<and> sbRegion b = [] \<and> sbExternalID b = [] \<and> sbUserARN b = [] \<and>
        sbTenantID b = [] \<and> sbMultiTenantAppName b = [] \<and> sbConsentURL b = [] \<and>
        (scStorageType sc \<noteq> StorageTypeGCS \<longrightarrow> sbGCSServiceAccount b = [])"
    using assms(1) by cases (auto simp: buildStorageBody_def Let_def storage_cases split: option.splits)
  then show ?thesis
    using assms(2,3) unfolding provider_fields_def provider_keys_def
    by (cases "scStorageType sc = StorageTypeS3"; cases "scStorageType sc = StorageTypeAzure";
        cases "scStorageType sc = StorageTypeGCS")
      (simp_all only: list.set insert_iff empty_iff prod.inject simp_thms if_True if_False storage_cases;
        blast)+
qed

section \<open>Properties sent\<close>

lemma map_of_catalog_props_loop:
  assumes "wf_map ps"
  shows "map_of (foldl (\<lambda>props (k, v). if k = key then props else AList.update k v props) m ps) x =
    (if x = key then map_of m x else case map_of ps x of None \<Rightarrow> map_of m x | Some v \<Rightarrow> Some v)"
  using assms
proof (induction ps arbitrary: m)
  case (Cons kv ps)
  obtain k v where kv: "kv = (k, v)" by force
  then have "map_of ps k = None" "wf_map ps" using Cons.prems
    by (simp_all add: wf_map_Cons map_of_eq_None_iff)
  then show ?case using Cons.IH kv
    by (auto simp: update_conv split: option.splits)
qed simp

lemma map_of_catalog_props:
  assumes "wf_map (catProperties (crSpec cat))"
  shows "map_of (catalog_props cat) =
    (map_of (catProperties (crSpec cat)))(base_location_key \<mapsto> catDefaultBaseLocation (crSpec cat))"
  by (rule ext) (auto simp: catalog_props_def map_of_catalog_props_loop [OF assms] split: option.splits)

lemma wf_catalog_props: "wf_map (catalog_props cat)"
proof -
  have "wf_map m \<Longrightarrow>
    wf_map (foldl (\<lambda>props (k, v). if k = key then props else AList.update k v props) m ps)"
    for m ps and key :: string
    by (induction ps arbitrary: m) auto
  from this [of "[(base_location_key, catDefaultBaseLocation (crSpec cat))]"] show ?thesis
    unfolding catalog_props_def by (simp add: wf_map_def)
qed

lemma foldl_update_wf:
  assumes "wf_map (m @ kvs)"
  shows "foldl (\<lambda>m (k, v). AList.update k v m) m kvs = m @ kvs"
  using assms
proof (induction kvs arbitrary: m)
  case (Cons kv kvs)
  obtain k v where kv: "kv = (k, v)" by force
  have "k \<notin> fst ` set m" using Cons.prems kv by (auto simp: wf_map_def)
  then have "AList.update k v m = m @ [(k, v)]" by (induction m) auto
  then show ?case using Cons kv by simp
qed simp

lemma dec_named_strings: "dec_named (map (\<lambda>(k, v). (k, JString v)) m) = Inr m"
  by (induction m) (auto simp: dec_string_def)

lemma decode_catalog_props:
  assumes "wf_map m"
  shows "Catalog_Properties_UnmarshalJSON (jstrmap m) = Inr
    \<lparr>cpDefaultBaseLocation = (case map_of m base_location_key of None \<Rightarrow> [] | Some v \<Rightarrow> v),
     cpAdditionalProperties = filter (\<lambda>(k, _). k \<noteq> base_location_key) m\<rparr>"
proof -
  let ?J = "map (\<lambda>(k, v). (k, JString v))"
  have "wf_map (?J m)" using assms by (simp add: wf_map_def comp_def split_beta)
  then have obj: "foldl (\<lambda>m (k, raw). AList.update k raw m) [] (?J m) = ?J m"
    using foldl_update_wf [of "[]" "?J m"] by simp
  have "filter (\<lambda>(k, _). k \<noteq> base_location_key) (?J m) = ?J (filter (\<lambda>(k, _). k \<noteq> base_location_key) m)"
    by (induction m) auto
  moreover have "map_of (?J m) base_location_key = map_option JString (map_of m base_location_key)"
    by (simp add: map_of_map)
  ultimately show ?thesis
    by (auto simp: Catalog_Properties_UnmarshalJSON_def jstrmap_def dec_fields_def obj dec_named_strings
        dec_string_def base_location_key_def split: option.splits)
qed

lemma field_append_other:
  "(\<And>k j. (k, j) \<in> set b \<Longrightarrow> \<not> same_field k n) \<Longrightarrow> field (a @ b) n = field a n"
  by (induction b rule: rev_induct) (force simp: field_def)+

lemma storage_fields:
  "list_all (\<lambda>k. \<not> same_field k ''storageType'' \<and> \<not> same_field k ''allowedLocations'')
    [''roleArn'', ''region'', ''externalId'', ''userArn'', ''tenantId'', ''multiTenantAppName'',
     ''consentUrl'', ''gcsServiceAccount'']"
  "same_field ''storageType'' ''storageType''" "\<not> same_field ''allowedLocations'' ''storageType''"
  "\<not> same_field ''storageType'' ''allowedLocations''"
  "same_field ''allowedLocations'' ''allowedLocations''"
  by code_simp+

lemma dec_strings_jstrings: "dec_strings (jstrings ss) = Inr ss"
proof -
  have "dec_list dec_string (map JString ss) = Inr ss" by (induction ss) (auto simp: dec_string_def)
  then show ?thesis by (simp add: dec_strings_def jstrings_def)
qed

lemma dec_ptr_simps: "dec_ptr d JNull = Inr None" "dec_ptr dec_strings (jstrings ss) = Inr (Some ss)"
  using dec_strings_jstrings [of ss] by (simp_all add: dec_ptr_def jstrings_def)

lemma decode_storage:
  "dec_StorageConfigInfo (marshal_storageBody b) =
    Inr \<lparr>sciAllowedLocations = (if sbAllowedLocations b = [] then None else Some (sbAllowedLocations b)),
         sciStorageType = sbStorageType b\<rparr>"
proof -
  let ?kvs = "[(''storageType'', JString (sbStorageType b))] @
    (if sbAllowedLocations b = [] then [] else [(''allowedLocations'', jstrings (sbAllowedLocations b))])"
  let ?rest = "concat (map (\<lambda>(k, v). jomit_str k v) (provider_fields b))"
  have "k \<in> set [''roleArn'', ''region'', ''externalId'', ''userArn'', ''tenantId'',
      ''multiTenantAppName'', ''consentUrl'', ''gcsServiceAccount'']" if "(k, j) \<in> set ?rest" for k j
    proof -
    have "k \<in> fst ` set ?rest" using that by force
    then show ?thesis unfolding keys_provider_fields provider_fields_def by auto
  qed
  then have fs: "field (?kvs @ ?rest) ''storageType'' = field ?kvs ''storageType''"
    "field (?kvs @ ?rest) ''allowedLocations'' = field ?kvs ''allowedLocations''"
    using storage_fields(1) unfolding list_all_iff by (intro field_append_other; blast)+
  have "field ?kvs ''storageType'' = JString (sbStorageType b)"
    "field ?kvs ''allowedLocations'' =
      (if sbAllowedLocations b = [] then JNull else jstrings (sbAllowedLocations b))"
    by (auto simp: field_def storage_fields)
  note fs [unfolded this]
  then show ?thesis
    unfolding marshal_storageBody_fields append.assoc [symmetric] dec_StorageConfigInfo_def dec_fields_def
    by (simp add: dec_string_def dec_ptr_simps)
qed

lemma equalStringSet_refl: "equalStringSet xs xs"
  by (simp add: equalStringSet_def Let_def list_all_iff)

lemma buildStorageBody_echo:
  assumes "buildStorageBody sc = Inr b"
  shows "sbStorageType b = scStorageType sc" "sbAllowedLocations b = scAllowedLocations sc"
  using assms by (auto simp: buildStorageBody_def Let_def split: if_splits option.splits)

text \<open>What a server stores and sends back that keeps the properties and the storage of a body.\<close>

definition echoes :: "json \<Rightarrow> Catalog \<Rightarrow> bool" where
  "echoes body c \<longleftrightarrow>
     (case body of JObject kvs \<Rightarrow>
        (\<exists>p sc. map_of kvs ''properties'' = Some p \<and> map_of kvs ''storageConfigInfo'' = Some sc \<and>
           Catalog_Properties_UnmarshalJSON p = Inr (mcProperties c) \<and>
           dec_StorageConfigInfo sc = Inr (mcStorageConfigInfo c))
      | _ \<Rightarrow> False)"

lemma driftsFrom_echo:
  assumes wf: "wf_map (catProperties (crSpec cat))"
    and b: "buildStorageBody (catStorageConfig (crSpec cat)) = Inr b"
    and p: "Catalog_Properties_UnmarshalJSON (jstrmap (catalog_props cat)) = Inr (mcProperties c)"
    and sc: "dec_StorageConfigInfo (marshal_storageBody b) = Inr (mcStorageConfigInfo c)"
  shows "PolarisCatalog_driftsFrom cat c \<longleftrightarrow> base_location_key \<in> dom (map_of (catProperties (crSpec cat)))"
proof -
  let ?ps = "catProperties (crSpec cat)"
  let ?rest = "filter (\<lambda>(k, _). k \<noteq> base_location_key) (catalog_props cat)"
  have props: "mcProperties c = \<lparr>cpDefaultBaseLocation = catDefaultBaseLocation (crSpec cat),
      cpAdditionalProperties = ?rest\<rparr>"
    using p decode_catalog_props [OF wf_catalog_props] by (simp add: map_of_catalog_props [OF wf])
  have "map_of ?rest = map_of ?ps \<longleftrightarrow> map_of ?ps base_location_key = None"
    by (auto simp: fun_eq_iff map_of_filter_key map_of_catalog_props [OF wf] split: if_splits)
  moreover have "wf_map ?rest" by (rule wf_map_filter [OF wf_catalog_props])
  ultimately have "equalProperties ?rest ?ps \<longleftrightarrow> map_of ?ps base_location_key = None"
    using wf by (simp add: equalProperties_iff)
  moreover have "mcStorageConfigInfo c = \<lparr>sciAllowedLocations =
      (if scAllowedLocations (catStorageConfig (crSpec cat)) = [] then None
       else Some (scAllowedLocations (catStorageConfig (crSpec cat)))),
      sciStorageType = scStorageType (catStorageConfig (crSpec cat))\<rparr>"
    using sc unfolding decode_storage buildStorageBody_echo [OF b] by simp
  ultimately show ?thesis
    by (auto simp: PolarisCatalog_driftsFrom_def props Let_def equalStringSet_refl)
qed

section \<open>Sample catalogs\<close>

text \<open>A catalog whose free properties name the base location as well, and a server's answer.\<close>

definition drifting_catalog :: PolarisCatalog where
  "drifting_catalog = sample_catalog\<lparr>crSpec := (crSpec sample_catalog)
     \<lparr>catProperties := [(''default-base-location'', ''file:///other'')]\<rparr>\<rparr>"

definition echoed :: Catalog where
  "echoed = \<lparr>mcEntityVersion = Some 1,
     mcProperties = \<lparr>cpDefaultBaseLocation = ''file:///w'', cpAdditionalProperties = []\<rparr>,
     mcStorageConfigInfo = \<lparr>sciAllowedLocations = None, sciStorageType = ''FILE''\<rparr>\<rparr>"

definition sample_storage :: storageBody where
  "sample_storage =
     \<lparr>sbStorageType = ''FILE'', sbAllowedLocations = [], sbRoleARN = [], sbRegion = [],
      sbExternalID = [], sbUserARN = [], sbTenantID = [], sbMultiTenantAppName = [],
      sbConsentURL = [], sbGCSServiceAccount = []\<rparr>"

lemma sample_echo:
  "echoes (JObject [(''name'', JString ''c''), (''type'', JString ''INTERNAL''),
     (''properties'', jstrmap (catalog_props drifting_catalog)),
     (''storageConfigInfo'', marshal_storageBody sample_storage)]) echoed"
  "echoes (JObject [(''currentEntityVersion'', jword 1),
     (''properties'', jstrmap (catalog_props drifting_catalog)),
     (''storageConfigInfo'', marshal_storageBody sample_storage)]) echoed"
proof -
  have "Catalog_Properties_UnmarshalJSON (jstrmap (catalog_props drifting_catalog)) = Inr (mcProperties echoed)"
    "dec_StorageConfigInfo (marshal_storageBody sample_storage) = Inr (mcStorageConfigInfo echoed)"
    by code_simp+
  then show "echoes (JObject [(''name'', JString ''c''), (''type'', JString ''INTERNAL''),
     (''properties'', jstrmap (catalog_props drifting_catalog)),
     (''storageConfigInfo'', marshal_storageBody sample_storage)]) echoed"
    "echoes (JObject [(''currentEntityVersion'', jword 1),
     (''properties'', jstrmap (catalog_props drifting_catalog)),
     (''storageConfigInfo'', marshal_storageBody sample_storage)]) echoed"
    by (simp_all add: echoes_def)
qed

section \<open>Properties\<close>

text \<open>
  A storage configuration is accepted exactly when its type is one of
  the four and, for the three cloud types, the section of that type is present; every other one is an
  error.
\<close>

theorem buildStorageBody_accepts:
  "(\<exists>b. buildStorageBody sc = Inr b) \<longleftrightarrow> provider_given sc"
  unfolding buildStorageBody_def provider_given_def Let_def
  by (simp add: storage_cases split: option.split)

text \<open>
  The JSON of an accepted configuration names its type and has no
  key of another provider.
\<close>

theorem buildStorageBody_keys:
  assumes "buildStorageBody sc = Inr b" "marshal_storageBody b = JObject kvs"
  shows "map_of kvs ''storageType'' = Some (JString (scStorageType sc)) \<and>
    fst ` set kvs \<subseteq> {''storageType'', ''allowedLocations''} \<union> set (provider_keys (scStorageType sc))"
proof -
  define rest where "rest = concat (map (\<lambda>(k, v). jomit_str k v) (provider_fields b))"
  have "kvs = [(''storageType'', JString (sbStorageType b))] @
     (if sbAllowedLocations b = [] then []
      else [(''allowedLocations'', jstrings (sbAllowedLocations b))]) @ rest"
    using assms(2) unfolding marshal_storageBody_fields rest_def by simp
  moreover have "sbStorageType b = scStorageType sc"
    using assms(1) by (auto simp: buildStorageBody_def Let_def split: if_splits option.splits)
  moreover have "fst ` set rest \<subseteq> set (provider_keys (scStorageType sc))"
    using provider_fields_given [OF assms(1)] unfolding rest_def subset_iff keys_provider_fields by blast
  ultimately show ?thesis by auto
qed

theorem buildStorageBody_keys_witness:
  "\<exists>kvs. marshal_storageBody sample_storage = JObject kvs \<and>
     map_of kvs ''storageType'' = Some (JString ''FILE'') \<and>
     fst ` set kvs \<subseteq> {''storageType'', ''allowedLocations''}"
proof -
  have "buildStorageBody (catStorageConfig (crSpec sample_catalog)) = Inr sample_storage"
    by code_simp
  from buildStorageBody_keys [OF this] show ?thesis
    by (simp add: marshal_storageBody_def sample_catalog_def provider_keys_def storage_types)
qed

text \<open>
  The properties sent are those of the spec with the
  default base location, which wins over a property of that name.
\<close>

theorem catalog_props_spec:
  assumes "wf_map (catProperties (crSpec cat))"
  shows "map_of (catalog_props cat) =
    (map_of (catProperties (crSpec cat)))(base_location_key \<mapsto> catDefaultBaseLocation (crSpec cat))"
  by (rule map_of_catalog_props [OF assms])

theorem catalog_props_spec_witness:
  "map_of (catalog_props drifting_catalog) =
     [''default-base-location'' \<mapsto> ''file:///w'']"
  using catalog_props_spec [of drifting_catalog]
  by (simp add: drifting_catalog_def sample_catalog_def base_location_key_def wf_map_def)

text \<open>
  A server that
  stores and sends back what the creation body says is seen as drifting exactly when the free
  properties of the spec contain the key of the default base location: without it the next pass sends
  no update, with it every pass does.
\<close>

theorem catalog_create_converges:
  assumes "wf_map (catProperties (crSpec cat))"
    and "buildCatalogCreateBody cat name = Inr (JObject [(''catalog'', body)])" "echoes body c"
  shows "PolarisCatalog_driftsFrom cat c \<longleftrightarrow> base_location_key \<in> dom (map_of (catProperties (crSpec cat)))"
proof -
  obtain b where "buildStorageBody (catStorageConfig (crSpec cat)) = Inr b"
    using assms(2) by (auto simp: buildCatalogCreateBody_def Let_def split: sum.splits)
  then show ?thesis
    using assms by (intro driftsFrom_echo [of cat b])
      (auto simp: buildCatalogCreateBody_def echoes_def Let_def)
qed

theorem catalog_create_converges_witness: "PolarisCatalog_driftsFrom drifting_catalog echoed"
proof -
  have "buildCatalogCreateBody drifting_catalog ''c'' = Inr (JObject [(''catalog'', JObject
    [(''name'', JString ''c''), (''type'', JString ''INTERNAL''),
     (''properties'', jstrmap (catalog_props drifting_catalog)),
     (''storageConfigInfo'', marshal_storageBody sample_storage)])])"
    by code_simp
  from catalog_create_converges [OF _ this sample_echo(1)] show ?thesis
    by (simp add: drifting_catalog_def base_location_key_def wf_map_def)
qed



end
