(* ===== verification/Table_Bodies.thy ===== *)
theory Table_Bodies
  imports Table_Controller
begin

text \<open>
  What \<open>buildCreateBody\<close> of \<open>internal/controller/polaristable_controller.go\<close> puts into the
  request that creates a table: schema, partition spec and properties.
\<close>

text \<open>Fields and partition fields as the user wrote them, and as the request has them.\<close>

definition field_view :: "IcebergField \<Rightarrow> int \<times> string \<times> bool \<times> json \<times> string option" where
  "field_view f = (sint (fieldID f), fieldName f, fieldRequired f, JString (fieldType f),
     if fieldDoc f = [] then None else Some (fieldDoc f))"

definition struct_field_view :: "StructField \<Rightarrow> int \<times> string \<times> bool \<times> json \<times> string option" where
  "struct_field_view f = (sint (sfId f), sfName f, sfRequired f, sfType f, sfDoc f)"

definition partition_view :: "IcebergPartitionField \<Rightarrow> int option \<times> int \<times> string \<times> string" where
  "partition_view f =
     (Some (sint (partFieldID f)), sint (partSourceID f), partName f, partTransform f)"

definition partition_field_view :: "PartitionField \<Rightarrow> int option \<times> int \<times> string \<times> string" where
  "partition_field_view f = (map_option sint (pfFieldId f), sint (pfSourceId f), pfName f, pfTransform f)"

definition schema_agrees :: "IcebergSchema \<Rightarrow> Schema \<Rightarrow> bool" where
  "schema_agrees s sch \<longleftrightarrow> schType sch = ''struct'' \<and>
     map struct_field_view (schFields sch) = map field_view (schemaFields s) \<and>
     (case schIdentifierFieldIds sch of None \<Rightarrow> [] | Some ids \<Rightarrow> map sint ids) =
       map sint (schemaIdentifierFieldIds s)"

lemma buildStructFields_views:
  "\<exists>sfs. buildStructFields fs = Inr sfs \<and> map struct_field_view sfs = map field_view fs"
  by (induction fs)
    (auto simp: buildStructField_def FromPrimitiveType_def struct_field_view_def field_view_def
      sint_int_of_int32)

lemma buildIcebergSchema_agrees: "\<exists>sch. buildIcebergSchema s = Inr sch \<and> schema_agrees s sch"
  using buildStructFields_views [of "schemaFields s"]
  by (auto simp: buildIcebergSchema_def schema_agrees_def sint_int_of_int32 comp_def)

lemma buildPartitionSpec_views:
  "map partition_field_view (psFields (buildPartitionSpec ps)) = map partition_view (partFields ps)"
  by (simp add: buildPartitionSpec_def partition_field_view_def partition_view_def
      sint_int_of_int32 comp_def)

text \<open>
  The body of a new table is always built, whatever the types of its columns, and says
  what the specification says: every column and every partition field in order with its ids as
  32-bit values, the identifier columns, and the properties with the write format as
  \<open>write.format.default\<close> when one is given. Properties are left out only when there is nothing
  to send.
\<close>

theorem table_body:
  "\<exists>body. PolarisTable_buildCreateBody tbl name = Inr body \<and> ctrName body = name \<and>
     schema_agrees (tblSchema (crSpec tbl)) (ctrSchema body) \<and>
     map_option (\<lambda>ps. map partition_field_view (psFields ps)) (ctrPartitionSpec body) =
       map_option (\<lambda>ps. map partition_view (partFields ps)) (tblPartitionSpec (crSpec tbl)) \<and>
     map_of (case ctrProperties body of None \<Rightarrow> [] | Some m \<Rightarrow> m) =
       (if tblWriteFormat (crSpec tbl) = [] then map_of (tblProperties (crSpec tbl))
        else (map_of (tblProperties (crSpec tbl)))(''write.format.default'' \<mapsto> tblWriteFormat (crSpec tbl))) \<and>
     (ctrProperties body = None \<longleftrightarrow> tblProperties (crSpec tbl) = [] \<and> tblWriteFormat (crSpec tbl) = [])"
proof -
  obtain sch where sch: "buildIcebergSchema (tblSchema (crSpec tbl)) = Inr sch"
    "schema_agrees (tblSchema (crSpec tbl)) sch"
    using buildIcebergSchema_agrees by blast
  then show ?thesis
    by (simp add: PolarisTable_buildCreateBody_def Let_def copyStringMap_def option.map_comp comp_def
        buildPartitionSpec_views AList.update_conv')
qed

end
