(* ===== verification/Go_Json.thy ===== *)
theory Go_Json
  imports Wire
begin

text \<open>
  \<open>encoding/json\<close> on the types of the generated clients: a description of a Go type
  (\<open>wtype\<close>), values of such types, \<open>json.Marshal\<close> and \<open>json.Unmarshal\<close> between values and
  JSON documents, the methods generated for structs with additional properties and for
  unions, and that a value survives the way to the wire and back.

  A described type stands for a Go type declaration; the struct declarations of the clients
  (theories Management_Types and Catalog_Types) are values of \<open>wtype\<close>. A union keeps the raw
  JSON of one of its variants, here the document. The order in which a map is written or
  ranged over is the order of its list.
\<close>

section \<open>Types and values\<close>

text \<open>
  \<open>WLib n\<close> is the type \<open>n\<close> of a library or of the language whose encoding is its own affair:
  floating-point numbers, \<open>[]byte\<close>, \<open>interface\<close>, \<open>openapi_types.UUID\<close> and \<open>Date\<close>.
  \<open>WProps\<close> is a struct of one named string field and \<open>AdditionalProperties\<close>; \<open>WUnion\<close> a
  struct \<open>{union json.RawMessage}\<close>; \<open>WTagged\<close> a union with one more string field.
\<close>

datatype wtype =
    WString
  | WBool
  | WInt
  | WLib string
  | WPtr wtype
  | WSlice wtype
  | WMap wtype
  | WStruct string "wfield list"
  | WProps string string string
  | WUnion string
  | WTagged string string string
and wfield =
    WField string string bool wtype

fun go_name :: "wfield \<Rightarrow> string" where
  "go_name (WField g k om T) = g"

fun json_name :: "wfield \<Rightarrow> string" where
  "json_name (WField g k om T) = k"

text \<open>\<open>VJson\<close> is a value known by its JSON form, or raw JSON; \<open>VNil\<close> every kind of nil.\<close>

datatype wval =
    VNil
  | VString string
  | VBool bool
  | VInt go_int
  | VJson json
  | VPtr wval
  | VSlice "wval list"
  | VMap "(string \<times> wval) list"
  | VStruct "(string \<times> wval) list"

definition vget :: "wval \<Rightarrow> string \<Rightarrow> wval" where
  "vget v g =
     (case v of VStruct fs \<Rightarrow> (case map_of fs g of Some x \<Rightarrow> x | None \<Rightarrow> VNil) | _ \<Rightarrow> VNil)"

definition vset :: "wval \<Rightarrow> string \<Rightarrow> wval \<Rightarrow> wval" where
  "vset v g x = (case v of VStruct fs \<Rightarrow> VStruct (AList.update g x fs) | _ \<Rightarrow> v)"

lemma vget_struct: "vget (VStruct fs) g = (case map_of fs g of Some x \<Rightarrow> x | None \<Rightarrow> VNil)"
  by (simp add: vget_def)

lemma vget_Cons [simp]:
  "vget (VStruct ((n, x) # fs)) g = (if n = g then x else vget (VStruct fs) g)"
  "vget (VStruct []) g = VNil"
  by (simp_all add: vget_def)

lemma vset_Cons [simp]:
  "vset (VStruct ((n, y) # fs)) g x =
     (if n = g then VStruct ((n, x) # fs)
      else case vset (VStruct fs) g x of VStruct fs' \<Rightarrow> VStruct ((n, y) # fs') | v \<Rightarrow> v)"
  by (simp add: vset_def)

lemma vget_vset: "vget (vset (VStruct fs) g x) h = (if h = g then x else vget (VStruct fs) h)"
  by (simp add: vget_def vset_def update_conv')

text \<open>The library side: zero value and decoder of a \<open>WLib\<close> type, and \<open>runtime.JSONMerge\<close>.\<close>

record jlib =
  lib_zero :: "string \<Rightarrow> json"
  lib_dec :: "string \<Rightarrow> json \<Rightarrow> json \<Rightarrow> goerr + json"
  JSONMerge :: "json option \<Rightarrow> json \<Rightarrow> goerr + json"

primrec zero :: "jlib \<Rightarrow> wtype \<Rightarrow> wval" and zero_field :: "jlib \<Rightarrow> wfield \<Rightarrow> string \<times> wval" where
  "zero L WString = VString []"
| "zero L WBool = VBool False"
| "zero L WInt = VInt 0"
| "zero L (WLib n) = VJson (lib_zero L n)"
| "zero L (WPtr T) = VNil"
| "zero L (WSlice T) = VNil"
| "zero L (WMap T) = VNil"
| "zero L (WStruct n fs) = VStruct (map (zero_field L) fs)"
| "zero L (WProps n f k) = VStruct [(f, VString []), (''AdditionalProperties'', VNil)]"
| "zero L (WUnion n) = VStruct [(''union'', VNil)]"
| "zero L (WTagged n f k) = VStruct [(f, VString []), (''union'', VNil)]"
| "zero_field L (WField g k om T) = (g, zero L T)"

section \<open>json.Marshal\<close>

fun traverse :: "('a \<Rightarrow> 'e + 'b) \<Rightarrow> 'a list \<Rightarrow> 'e + 'b list" where
  "traverse f [] = Inr []"
| "traverse f (x # xs) = sum_bind (f x) (\<lambda>y. sum_bind (traverse f xs) (\<lambda>ys. Inr (y # ys)))"

definition marshal_error :: "string \<Rightarrow> goerr" where
  "marshal_error n = ErrLib (''json: error calling MarshalJSON for type '' @ n)"

text \<open>The empty values of \<open>omitempty\<close>.\<close>

fun is_empty :: "wval \<Rightarrow> bool" where
  "is_empty VNil \<longleftrightarrow> True"
| "is_empty (VString s) \<longleftrightarrow> s = []"
| "is_empty (VBool b) \<longleftrightarrow> \<not> b"
| "is_empty (VInt i) \<longleftrightarrow> i = 0"
| "is_empty (VSlice xs) \<longleftrightarrow> xs = []"
| "is_empty (VMap m) \<longleftrightarrow> m = []"
| "is_empty _ \<longleftrightarrow> False"

text \<open>The generated \<open>MarshalJSON\<close> of a struct with additional properties.\<close>

definition marshal_string :: "wval \<Rightarrow> json" where
  "marshal_string v = (case v of VString s \<Rightarrow> JString s | _ \<Rightarrow> JNull)"

definition props_MarshalJSON :: "string \<Rightarrow> string \<Rightarrow> wval \<Rightarrow> goerr + json" where
  "props_MarshalJSON f key a =
     (let object = AList.update key (marshal_string (vget a f)) [] in
      Inr (JObject (foldl (\<lambda>m (fname, field). AList.update fname (marshal_string field) m)
        object (case vget a ''AdditionalProperties'' of VMap m \<Rightarrow> m | _ \<Rightarrow> []))))"

text \<open>
  The generated \<open>MarshalJSON\<close> of a union with a field of its own: the union must be an object,
  into which the field is put. A null union makes the map nil, and the assignment panics.
\<close>

definition raw_json :: "wval \<Rightarrow> json" where
  "raw_json u = (case u of VJson j \<Rightarrow> j | _ \<Rightarrow> JNull)"

definition tagged_MarshalJSON :: "string \<Rightarrow> string \<Rightarrow> string \<Rightarrow> wval \<Rightarrow> goerr + json" where
  "tagged_MarshalJSON n f key t =
     (case vget t ''union'' of
        VJson (JObject kvs) \<Rightarrow>
          Inr (JObject (AList.update key (marshal_string (vget t f))
            (foldl (\<lambda>m (k, raw). AList.update k raw m) [] kvs)))
      | VJson _ \<Rightarrow> Inl (marshal_error n)
      | _ \<Rightarrow> Inr (JObject [(key, marshal_string (vget t f))]))"

primrec marshal :: "wtype \<Rightarrow> wval \<Rightarrow> goerr + json"
  and marshal_field :: "wfield \<Rightarrow> wval \<Rightarrow> goerr + (string \<times> json) list" where
  "marshal WString v = Inr (marshal_string v)"
| "marshal WBool v = Inr (case v of VBool b \<Rightarrow> JBool b | _ \<Rightarrow> JNull)"
| "marshal WInt v = Inr (case v of VInt i \<Rightarrow> jword i | _ \<Rightarrow> JNull)"
| "marshal (WLib n) v = Inr (raw_json v)"
| "marshal (WPtr T) v = (case v of VPtr x \<Rightarrow> marshal T x | _ \<Rightarrow> Inr JNull)"
| "marshal (WSlice T) v =
     (case v of VSlice xs \<Rightarrow> sum_bind (traverse (marshal T) xs) (\<lambda>js. Inr (JArray js))
      | _ \<Rightarrow> Inr JNull)"
| "marshal (WMap T) v =
     (case v of
        VMap m \<Rightarrow>
          sum_bind (traverse (\<lambda>(k, x). sum_bind (marshal T x) (\<lambda>j. Inr (k, j))) m) (\<lambda>kvs.
            Inr (JObject kvs))
      | _ \<Rightarrow> Inr JNull)"
| "marshal (WStruct n fs) v =
     sum_bind (traverse (\<lambda>m. m v) (map marshal_field fs)) (\<lambda>kvss. Inr (JObject (concat kvss)))"
| "marshal (WProps n f k) v = props_MarshalJSON f k v"
| "marshal (WUnion n) v = Inr (raw_json (vget v ''union''))"
| "marshal (WTagged n f k) v = tagged_MarshalJSON n f k v"
| "marshal_field (WField g k om T) v =
     (if om \<and> is_empty (vget v g) then Inr []
      else sum_bind (marshal T (vget v g)) (\<lambda>j. Inr [(k, j)]))"

section \<open>json.Unmarshal\<close>

text \<open>
  A document is decoded into a value that is there already: the zero value, or what an
  earlier occurrence of the same key has left. Null leaves a string, number or struct as it is.
\<close>

type_synonym decoder = "wval \<Rightarrow> json \<Rightarrow> goerr + wval"

fun dec_array :: "decoder \<Rightarrow> wval \<Rightarrow> wval list \<Rightarrow> json list \<Rightarrow> goerr + wval list" where
  "dec_array d z olds [] = Inr []"
| "dec_array d z olds (j # js) =
     sum_bind (d (case olds of [] \<Rightarrow> z | v # _ \<Rightarrow> v) j) (\<lambda>x.
     sum_bind (dec_array d z (tl olds) js) (\<lambda>xs. Inr (x # xs)))"

fun dec_map :: "decoder \<Rightarrow> wval \<Rightarrow> (string \<times> json) list \<Rightarrow> (string \<times> wval) list \<Rightarrow>
    goerr + (string \<times> wval) list" where
  "dec_map d z [] m = Inr m"
| "dec_map d z ((k, j) # kvs) m = sum_bind (d z j) (\<lambda>x. dec_map d z kvs (AList.update k x m))"

text \<open>A key names a field exactly, or else up to ASCII case; other keys are skipped.\<close>

definition find_field ::
  "(string \<times> string \<times> decoder) list \<Rightarrow> string \<Rightarrow> (string \<times> decoder) option" where
  "find_field decs key =
     (case find (\<lambda>(k, _). k = key) decs of
        Some (_, p) \<Rightarrow> Some p
      | None \<Rightarrow> map_option snd (find (\<lambda>(k, _). same_field k key) decs))"

fun dec_struct :: "(string \<times> string \<times> decoder) list \<Rightarrow> wval \<Rightarrow> (string \<times> json) list \<Rightarrow>
    goerr + wval" where
  "dec_struct decs old [] = Inr old"
| "dec_struct decs old ((key, j) # kvs) =
     (case find_field decs key of
        None \<Rightarrow> dec_struct decs old kvs
      | Some (g, d) \<Rightarrow>
          sum_bind (d (vget old g) j) (\<lambda>x. dec_struct decs (vset old g x) kvs))"

definition dec_str :: decoder where
  "dec_str old j =
     (case j of JString s \<Rightarrow> Inr (VString s) | JNull \<Rightarrow> Inr old | _ \<Rightarrow> Inl (json_error ''string''))"

definition dec_word :: decoder where
  "dec_word old j =
     (case j of
        JInt i \<Rightarrow> if - (2 ^ 63) \<le> i \<and> i < 2 ^ 63 then Inr (VInt (word_of_int i))
                  else Inl (json_error ''int'')
      | JNull \<Rightarrow> Inr old
      | _ \<Rightarrow> Inl (json_error ''int''))"

text \<open>Decoding into a \<open>map[string]json.RawMessage\<close>.\<close>

definition raw_map :: "json \<Rightarrow> goerr + (string \<times> json) list" where
  "raw_map j =
     (case j of JObject kvs \<Rightarrow> Inr (foldl (\<lambda>m (k, raw). AList.update k raw m) [] kvs)
      | JNull \<Rightarrow> Inr [] | _ \<Rightarrow> Inl (json_error ''map[string]json.RawMessage''))"

definition reading :: "string \<Rightarrow> goerr \<Rightarrow> goerr" where
  "reading key e = ErrWrap (''error reading '' @ [CHR 0x27] @ key @ [CHR 0x27] @ '': '') e"

text \<open>The generated \<open>UnmarshalJSON\<close> of a struct with additional properties.\<close>

definition props_UnmarshalJSON :: "string \<Rightarrow> string \<Rightarrow> decoder" where
  "props_UnmarshalJSON f key a b =
     sum_bind (raw_map b) (\<lambda>object.
     sum_bind
       (case map_of object key of
          None \<Rightarrow> Inr a
        | Some raw \<Rightarrow>
            (case dec_str (vget a f) raw of
               Inl e \<Rightarrow> Inl (reading key e)
             | Inr s \<Rightarrow> Inr (vset a f s))) (\<lambda>a.
     let object = filter (\<lambda>(k, _). k \<noteq> key) object in
     if object = [] then Inr a
     else
       sum_bind (traverse (\<lambda>(fname, buf).
           case dec_str (VString []) buf of
             Inl e \<Rightarrow> Inl (ErrWrap (''error unmarshaling field '' @ fname @ '': '') e)
           | Inr val \<Rightarrow> Inr (fname, val)) object) (\<lambda>m.
         Inr (vset a ''AdditionalProperties'' (VMap m)))))"

text \<open>The generated \<open>UnmarshalJSON\<close> of a union with a field of its own.\<close>

definition tagged_UnmarshalJSON :: "string \<Rightarrow> string \<Rightarrow> decoder" where
  "tagged_UnmarshalJSON f key t b =
     (let t = vset t ''union'' (VJson b) in
      sum_bind (raw_map b) (\<lambda>object.
      case map_of object key of
        None \<Rightarrow> Inr t
      | Some raw \<Rightarrow>
          (case dec_str (vget t f) raw of
             Inl e \<Rightarrow> Inl (reading key e)
           | Inr s \<Rightarrow> Inr (vset t f s))))"

primrec unmarshal :: "jlib \<Rightarrow> wtype \<Rightarrow> decoder"
  and unmarshal_field :: "jlib \<Rightarrow> wfield \<Rightarrow> string \<times> string \<times> decoder" where
  "unmarshal L WString = dec_str"
| "unmarshal L WBool =
     (\<lambda>old j. case j of JBool b \<Rightarrow> Inr (VBool b) | JNull \<Rightarrow> Inr old | _ \<Rightarrow> Inl (json_error ''bool''))"
| "unmarshal L WInt = dec_word"
| "unmarshal L (WLib n) =
     (\<lambda>old j. sum_bind (lib_dec L n (raw_json old) j) (\<lambda>x. Inr (VJson x)))"
| "unmarshal L (WPtr T) =
     (\<lambda>old j. case j of JNull \<Rightarrow> Inr VNil
      | _ \<Rightarrow> sum_bind (unmarshal L T (case old of VPtr x \<Rightarrow> x | _ \<Rightarrow> zero L T) j) (\<lambda>x. Inr (VPtr x)))"
| "unmarshal L (WSlice T) =
     (\<lambda>old j. case j of
        JArray js \<Rightarrow>
          sum_bind (dec_array (unmarshal L T) (zero L T) (case old of VSlice xs \<Rightarrow> xs | _ \<Rightarrow> []) js)
            (\<lambda>xs. Inr (VSlice xs))
      | JNull \<Rightarrow> Inr VNil
      | _ \<Rightarrow> Inl (json_error ''slice''))"
| "unmarshal L (WMap T) =
     (\<lambda>old j. case j of
        JObject kvs \<Rightarrow>
          sum_bind (dec_map (unmarshal L T) (zero L T) kvs (case old of VMap m \<Rightarrow> m | _ \<Rightarrow> []))
            (\<lambda>m. Inr (VMap m))
      | JNull \<Rightarrow> Inr VNil
      | _ \<Rightarrow> Inl (json_error ''map''))"
| "unmarshal L (WStruct n fs) =
     (\<lambda>old j. case j of
        JObject kvs \<Rightarrow> dec_struct (map (unmarshal_field L) fs) old kvs
      | JNull \<Rightarrow> Inr old
      | _ \<Rightarrow> Inl (json_error n))"
| "unmarshal L (WProps n f k) = props_UnmarshalJSON f k"
| "unmarshal L (WUnion n) = (\<lambda>old j. Inr (vset old ''union'' (VJson j)))"
| "unmarshal L (WTagged n f k) = tagged_UnmarshalJSON f k"
| "unmarshal_field L (WField g k om T) = (k, g, unmarshal L T)"

text \<open>\<open>json.Unmarshal(bytes, &dest)\<close> for a fresh \<open>dest\<close>.\<close>

definition json_Unmarshal ::
  "(string \<Rightarrow> goerr + json) \<Rightarrow> jlib \<Rightarrow> wtype \<Rightarrow> string \<Rightarrow> goerr + wval" where
  "json_Unmarshal parse L T b = sum_bind (parse b) (unmarshal L T (zero L T))"

section \<open>Generated methods\<close>

text \<open>\<open>Get\<close> and \<open>Set\<close> of a struct with additional properties.\<close>

definition props_Get :: "wval \<Rightarrow> string \<Rightarrow> wval \<times> bool" where
  "props_Get a fname =
     (case vget a ''AdditionalProperties'' of
        VMap m \<Rightarrow> (case map_of m fname of Some v \<Rightarrow> (v, True) | None \<Rightarrow> (VString [], False))
      | _ \<Rightarrow> (VString [], False))"

definition props_Set :: "wval \<Rightarrow> string \<Rightarrow> wval \<Rightarrow> wval" where
  "props_Set a fname v =
     vset a ''AdditionalProperties''
       (VMap (AList.update fname v
         (case vget a ''AdditionalProperties'' of VMap m \<Rightarrow> m | _ \<Rightarrow> [])))"

text \<open>
  The accessors of a union: \<open>As...\<close> decodes the raw JSON as one variant (nil is not JSON),
  \<open>From...\<close> overwrites it, \<open>Merge...\<close> merges a variant into it. A failure of the encoder or of
  the merge empties the union.
\<close>

definition union_As :: "jlib \<Rightarrow> wtype \<Rightarrow> wval \<Rightarrow> goerr + wval" where
  "union_As L T t =
     (case vget t ''union'' of
        VJson j \<Rightarrow> unmarshal L T (zero L T) j
      | _ \<Rightarrow> Inl (ErrLib ''unexpected end of JSON input''))"

definition union_From :: "wtype \<Rightarrow> wval \<Rightarrow> wval \<Rightarrow> goerr option \<times> wval" where
  "union_From T t v =
     (case marshal T v of
        Inl err \<Rightarrow> (Some err, vset t ''union'' VNil)
      | Inr b \<Rightarrow> (None, vset t ''union'' (VJson b)))"

definition union_Merge :: "jlib \<Rightarrow> wtype \<Rightarrow> wval \<Rightarrow> wval \<Rightarrow> goerr option \<times> wval" where
  "union_Merge L T t v =
     (case marshal T v of
        Inl err \<Rightarrow> (Some err, t)
      | Inr b \<Rightarrow>
          (case JSONMerge L (case vget t ''union'' of VJson j \<Rightarrow> Some j | _ \<Rightarrow> None) b of
             Inl err \<Rightarrow> (Some err, vset t ''union'' VNil)
           | Inr merged \<Rightarrow> (None, vset t ''union'' (VJson merged))))"

section \<open>Well-typed values\<close>

text \<open>Types whose field names a decoder can tell apart.\<close>

primrec wf_type :: "wtype \<Rightarrow> bool" and wf_field :: "wfield \<Rightarrow> bool" where
  "wf_type WString \<longleftrightarrow> True"
| "wf_type WBool \<longleftrightarrow> True"
| "wf_type WInt \<longleftrightarrow> True"
| "wf_type (WLib n) \<longleftrightarrow> True"
| "wf_type (WPtr T) \<longleftrightarrow> wf_type T"
| "wf_type (WSlice T) \<longleftrightarrow> wf_type T"
| "wf_type (WMap T) \<longleftrightarrow> wf_type T"
| "wf_type (WStruct n fs) \<longleftrightarrow>
     distinct (map go_name fs) \<and> distinct (map (map lower_char) (map json_name fs)) \<and>
     list_all id (map wf_field fs)"
| "wf_type (WProps n f k) \<longleftrightarrow> f \<noteq> ''AdditionalProperties''"
| "wf_type (WUnion n) \<longleftrightarrow> True"
| "wf_type (WTagged n f k) \<longleftrightarrow> f \<noteq> ''union''"
| "wf_field (WField g k om T) \<longleftrightarrow> wf_type T"

text \<open>
  \<open>typed L T v\<close>: \<open>v\<close> is a value of type \<open>T\<close> that has a JSON form of its own. What encoding
  identifies is left out: a pointer to something that is written as null, an empty but non-nil
  value under \<open>omitempty\<close>, an empty but non-nil map of additional properties, an additional
  property with the name of a field, and a union that has never been set.
\<close>

fun is_string :: "wval \<Rightarrow> bool" where
  "is_string (VString s) \<longleftrightarrow> True"
| "is_string _ \<longleftrightarrow> False"

fun is_json :: "wval \<Rightarrow> bool" where
  "is_json (VJson j) \<longleftrightarrow> True"
| "is_json _ \<longleftrightarrow> False"

fun props_typed :: "string \<Rightarrow> wval \<Rightarrow> bool" where
  "props_typed k VNil \<longleftrightarrow> True"
| "props_typed k (VMap es) \<longleftrightarrow>
     es \<noteq> [] \<and> wf_map es \<and> k \<notin> fst ` set es \<and> list_all (\<lambda>e. is_string (snd e)) es"
| "props_typed k _ \<longleftrightarrow> False"

fun tagged_typed :: "string \<Rightarrow> json \<Rightarrow> json \<Rightarrow> bool" where
  "tagged_typed k tag (JObject kvs) \<longleftrightarrow> wf_map kvs \<and> map_of kvs k = Some tag"
| "tagged_typed k tag _ \<longleftrightarrow> False"

lemma is_string_iff: "is_string v \<longleftrightarrow> (\<exists>s. v = VString s)"
  by (cases v) auto

lemma is_json_iff: "is_json v \<longleftrightarrow> (\<exists>j. v = VJson j)"
  by (cases v) auto

primrec typed :: "jlib \<Rightarrow> wtype \<Rightarrow> wval \<Rightarrow> bool" and typed_field :: "jlib \<Rightarrow> wfield \<Rightarrow> wval \<Rightarrow> bool"
  where
  "typed L WString v \<longleftrightarrow> (case v of VString s \<Rightarrow> True | _ \<Rightarrow> False)"
| "typed L WBool v \<longleftrightarrow> (case v of VBool b \<Rightarrow> True | _ \<Rightarrow> False)"
| "typed L WInt v \<longleftrightarrow> (case v of VInt i \<Rightarrow> True | _ \<Rightarrow> False)"
| "typed L (WLib n) v \<longleftrightarrow> (case v of VJson j \<Rightarrow> lib_dec L n (lib_zero L n) j = Inr j | _ \<Rightarrow> False)"
| "typed L (WPtr T) v \<longleftrightarrow>
     (case v of VNil \<Rightarrow> True | VPtr x \<Rightarrow> typed L T x \<and> marshal T x \<noteq> Inr JNull | _ \<Rightarrow> False)"
| "typed L (WSlice T) v \<longleftrightarrow>
     (case v of VNil \<Rightarrow> True | VSlice xs \<Rightarrow> list_all (typed L T) xs | _ \<Rightarrow> False)"
| "typed L (WMap T) v \<longleftrightarrow>
     (case v of VNil \<Rightarrow> True | VMap m \<Rightarrow> wf_map m \<and> list_all (typed L T) (map snd m) | _ \<Rightarrow> False)"
| "typed L (WStruct n fs) v \<longleftrightarrow>
     (case v of VStruct vs \<Rightarrow> map fst vs = map go_name fs | _ \<Rightarrow> False) \<and>
     list_all (\<lambda>t. t v) (map (typed_field L) fs)"
| "typed L (WProps n f k) v \<longleftrightarrow>
     v = VStruct [(f, vget v f), (''AdditionalProperties'', vget v ''AdditionalProperties'')] \<and>
     is_string (vget v f) \<and> props_typed k (vget v ''AdditionalProperties'')"
| "typed L (WUnion n) v \<longleftrightarrow>
     v = VStruct [(''union'', vget v ''union'')] \<and> is_json (vget v ''union'')"
| "typed L (WTagged n f k) v \<longleftrightarrow>
     v = VStruct [(f, vget v f), (''union'', vget v ''union'')] \<and>
     is_string (vget v f) \<and> is_json (vget v ''union'') \<and>
     tagged_typed k (marshal_string (vget v f)) (raw_json (vget v ''union''))"
| "typed_field L (WField g k om T) v \<longleftrightarrow>
     typed L T (vget v g) \<and> (om \<and> is_empty (vget v g) \<longrightarrow> vget v g = zero L T)"

section \<open>To the wire and back\<close>

lemma find_key: "distinct (map fst decs) \<Longrightarrow> (k, p) \<in> set decs \<Longrightarrow> find (\<lambda>(k', _). k' = k) decs = Some (k, p)"
  by (induction decs) (auto simp: image_iff)

lemma find_field_mem: "distinct (map fst decs) \<Longrightarrow> (k, p) \<in> set decs \<Longrightarrow> find_field decs k = Some p"
  by (simp add: find_field_def find_key)

lemma update_new: "k \<notin> fst ` set m \<Longrightarrow> AList.update k x m = m @ [(k, x)]"
  by (induction m) auto

lemma dec_struct_append:
  "dec_struct decs cur (as @ bs) = sum_bind (dec_struct decs cur as) (\<lambda>x. dec_struct decs x bs)"
  by (induction decs cur as rule: dec_struct.induct)
    (auto simp: sum_bind_def split: option.splits sum.splits)

lemma vset_shape:
  assumes "g \<in> fst ` set cs"
  obtains cs' where "vset (VStruct cs) g x = VStruct cs'" "map fst cs' = map fst cs"
  using that assms by (simp add: vset_def update_keys)

lemma struct_eqI:
  assumes "map fst as = map fst bs" "distinct (map fst as)"
    and "\<And>g. g \<in> fst ` set as \<Longrightarrow> vget (VStruct as) g = vget (VStruct bs) g"
  shows "as = bs"
proof (rule nth_equalityI)
  show len: "length as = length bs" using assms(1) by (metis length_map)
  fix i
  assume i: "i < length as"
  have fst_eq: "fst (as ! i) = fst (bs ! i)"
    using assms(1) i len by (metis nth_map)
  have "map_of as (fst (as ! i)) = Some (snd (as ! i))"
    using assms(2) i by (simp add: map_of_eq_Some_iff)
  moreover have "map_of bs (fst (bs ! i)) = Some (snd (bs ! i))"
    using assms(1,2) i len by (simp add: map_of_eq_Some_iff)
  moreover have "vget (VStruct as) (fst (as ! i)) = vget (VStruct bs) (fst (as ! i))"
    using assms(3) i by simp
  ultimately show "as ! i = bs ! i"
    using fst_eq by (simp add: vget_struct prod_eq_iff)
qed

text \<open>What the encoding of one field gives, and what decoding it does.\<close>

definition field_wire :: "jlib \<Rightarrow> wfield \<Rightarrow> wval \<Rightarrow> (string \<times> json) list \<Rightarrow> bool" where
  "field_wire L F v kvs \<longleftrightarrow>
     kvs = [] \<and> vget v (go_name F) = snd (zero_field L F) \<or>
     (\<exists>j. kvs = [(json_name F, j)] \<and>
        snd (snd (unmarshal_field L F)) (snd (zero_field L F)) j = Inr (vget v (go_name F)))"

lemma unmarshal_field_parts:
  "unmarshal_field L F = (json_name F, go_name F, snd (snd (unmarshal_field L F)))"
  by (cases F) simp

lemma fst_unmarshal_field: "fst (unmarshal_field L F) = json_name F"
  by (cases F) simp

lemma fst_zero_field: "fst (zero_field L F) = go_name F"
  by (cases F) simp

lemma dec_struct_fields:
  assumes fs: "distinct (map go_name fs)" "distinct (map json_name fs)" "set rest \<subseteq> set fs"
    and rest: "distinct (map go_name rest)" "list_all2 (\<lambda>F kvs. field_wire L F v kvs) rest kvss"
    and cur: "map fst cs = map go_name fs"
      "\<And>F. F \<in> set rest \<Longrightarrow> vget (VStruct cs) (go_name F) = snd (zero_field L F)"
  shows "\<exists>cs'. dec_struct (map (unmarshal_field L) fs) (VStruct cs) (concat kvss) = Inr (VStruct cs') \<and>
    map fst cs' = map go_name fs \<and>
    (\<forall>g. vget (VStruct cs') g =
       (if g \<in> go_name ` set rest then vget v g else vget (VStruct cs) g))"
  using rest cur fs(3)
proof (induction rest arbitrary: kvss cs)
  case Nil
  then show ?case by simp
next
  case (Cons F rest)
  let ?decs = "map (unmarshal_field L) fs"
  obtain kvs kvss' where k: "kvss = kvs # kvss'" "field_wire L F v kvs"
    "list_all2 (\<lambda>F kvs. field_wire L F v kvs) rest kvss'"
    using Cons.prems(2) by (auto simp: list_all2_Cons1)
  have keys: "map fst ?decs = map json_name fs"
    by (simp add: fst_unmarshal_field)
  have mem: "find_field ?decs (json_name F) = Some (go_name F, snd (snd (unmarshal_field L F)))"
  proof (rule find_field_mem)
    show "distinct (map fst ?decs)" unfolding keys by (rule fs(2))
    have "unmarshal_field L F \<in> set ?decs" using Cons.prems(5) by simp
    then show "(json_name F, go_name F, snd (snd (unmarshal_field L F))) \<in> set ?decs"
      using unmarshal_field_parts [of L F] by metis
  qed
  have g: "go_name F \<in> fst ` set cs"
    using Cons.prems(3,5) by (metis image_eqI list.set_intros(1) list.set_map subsetD)
  obtain cs1 where cs1: "dec_struct ?decs (VStruct cs) kvs = Inr (VStruct cs1)"
    "map fst cs1 = map go_name fs"
    "\<And>h. vget (VStruct cs1) h = (if h = go_name F then vget v h else vget (VStruct cs) h)"
  proof (cases "kvs = []")
    case True
    then show ?thesis
      using that k(2) Cons.prems(3,4) by (auto simp: field_wire_def)
  next
    case False
    then obtain j where j: "kvs = [(json_name F, j)]"
      "snd (snd (unmarshal_field L F)) (snd (zero_field L F)) j = Inr (vget v (go_name F))"
      using k(2) by (auto simp: field_wire_def)
    obtain cs1 where "vset (VStruct cs) (go_name F) (vget v (go_name F)) = VStruct cs1"
      "map fst cs1 = map fst cs"
      using vset_shape [OF g] by blast
    then show ?thesis
      using that [of cs1] j mem Cons.prems(3,4) vget_vset [of cs "go_name F" "vget v (go_name F)"]
      by simp
  qed
  have zero: "vget (VStruct cs1) (go_name G) = snd (zero_field L G)" if "G \<in> set rest" for G
    using that Cons.prems(1,4) cs1(3) by (auto simp: image_iff)
  obtain cs' where "dec_struct ?decs (VStruct cs1) (concat kvss') = Inr (VStruct cs')"
    "map fst cs' = map go_name fs"
    "\<forall>h. vget (VStruct cs') h = (if h \<in> go_name ` set rest then vget v h else vget (VStruct cs1) h)"
    using Cons.IH [OF _ k(3) cs1(2) zero] Cons.prems(1,5) by auto
  then show ?case
    using k(1) cs1 by (auto simp: dec_struct_append)
qed

lemma traverse_wire:
  assumes "\<And>x. x \<in> set xs \<Longrightarrow> \<exists>y. f x = Inr y \<and> P x y"
  shows "\<exists>ys. traverse f xs = Inr ys \<and> list_all2 P xs ys"
  using assms
proof (induction xs)
  case (Cons x xs)
  then obtain y ys where "f x = Inr y" "P x y" "traverse f xs = Inr ys" "list_all2 P xs ys"
    by fastforce
  then show ?case by auto
qed simp

lemma traverse_map: "traverse f (map g xs) = traverse (\<lambda>x. f (g x)) xs"
  by (induction xs) simp_all

lemma dec_array_wire:
  "list_all2 (\<lambda>x j. d z j = Inr x) xs js \<Longrightarrow> dec_array d z [] js = Inr xs"
  by (induction rule: list_all2_induct) auto

lemma dec_map_wire:
  "list_all2 (\<lambda>(k, x) (k', j). k' = k \<and> d z j = Inr x) es kvs \<Longrightarrow> wf_map (m @ es) \<Longrightarrow>
   dec_map d z kvs m = Inr (m @ es)"
proof (induction arbitrary: m rule: list_all2_induct)
  case (Cons e es kv kvs)
  obtain k x j where e: "e = (k, x)" "kv = (k, j)" "d z j = Inr x"
    using Cons.hyps(1) by (cases e; cases kv) auto
  have "AList.update k x m = m @ [(k, x)]"
    using Cons.prems e(1) by (intro update_new) (auto simp: wf_map_def)
  then show ?case
    using Cons.IH [of "m @ [(k, x)]"] Cons.prems e by simp
qed simp

text \<open>Structs with additional properties and unions, whose methods are generated.\<close>

lemma foldl_update_new:
  "distinct (map fst m @ map fst kvs) \<Longrightarrow>
   foldl (\<lambda>m (k, x). AList.update k (h x) m) m kvs = m @ map (\<lambda>(k, x). (k, h x)) kvs"
proof (induction kvs arbitrary: m)
  case (Cons kv kvs)
  obtain k x where kv: "kv = (k, x)" by (cases kv)
  have "AList.update k (h x) m = m @ [(k, h x)]"
    using Cons.prems kv by (intro update_new) auto
  moreover have "distinct (map fst (m @ [(k, h x)]) @ map fst kvs)"
    using Cons.prems kv by auto
  ultimately show ?case using Cons.IH [of "m @ [(k, h x)]"] kv by simp
qed simp

lemma foldl_update_id: "wf_map kvs \<Longrightarrow> foldl (\<lambda>m (k, x). AList.update k x m) [] kvs = kvs"
  using foldl_update_new [of "[]" kvs "\<lambda>x. x"] by (simp add: wf_map_def case_prod_beta)

lemma props_roundtrip:
  assumes "wf_type (WProps n f k)" "typed L (WProps n f k) v"
  shows "\<exists>j. marshal (WProps n f k) v = Inr j \<and>
    unmarshal L (WProps n f k) (zero L (WProps n f k)) j = Inr v"
proof -
  obtain s m where v: "v = VStruct [(f, VString s), (''AdditionalProperties'', m)]"
    and m: "props_typed k m"
    using assms(2) unfolding typed.simps is_string_iff by metis
  have f: "f \<noteq> ''AdditionalProperties''" using assms(1) by simp
  consider "m = VNil"
    | es where "m = VMap es" "es \<noteq> []" "wf_map es" "k \<notin> fst ` set es"
      "\<forall>e \<in> set es. is_string (snd e)"
    using m by (cases "(k, m)" rule: props_typed.cases) (auto simp: list_all_iff)
  then show ?thesis
  proof cases
    case 1
    then show ?thesis
      using f v by (simp add: props_MarshalJSON_def marshal_string_def props_UnmarshalJSON_def
          raw_map_def dec_str_def)
  next
    case (2 es)
    note es = this
    let ?kvs = "map (\<lambda>(g, x). (g, marshal_string x)) es"
    have wf: "wf_map ((k, JString s) # ?kvs)"
      using es(3,4) by (auto simp: wf_map_def comp_def case_prod_beta)
    have "marshal (WProps n f k) v = Inr (JObject ((k, JString s) # ?kvs))"
      using foldl_update_new [of "[(k, JString s)]" es marshal_string] es f v
      by (simp add: props_MarshalJSON_def marshal_string_def wf_map_def case_prod_beta comp_def)
    moreover have "filter (\<lambda>(g, x). g \<noteq> k) ?kvs = ?kvs"
      using es(4) by (force simp: filter_id_conv)
    moreover have "traverse (\<lambda>(fname, buf). case dec_str (VString []) buf of
           Inl e \<Rightarrow> Inl (ErrWrap (''error unmarshaling field '' @ fname @ '': '') e)
         | Inr val \<Rightarrow> Inr (fname, val)) ?kvs = Inr es"
      using es(5)
    proof (induction es)
      case (Cons e es)
      then show ?case by (cases e) (auto simp: marshal_string_def dec_str_def is_string_iff)
    qed simp
    ultimately show ?thesis
      using foldl_update_id [OF wf] es f v
      by (simp add: props_UnmarshalJSON_def raw_map_def dec_str_def Let_def)
  qed
qed

lemma update_same: "wf_map m \<Longrightarrow> map_of m k = Some x \<Longrightarrow> AList.update k x m = m"
  by (induction m) (auto simp: wf_map_def split: if_splits)

lemma tagged_roundtrip:
  assumes "wf_type (WTagged n f k)" "typed L (WTagged n f k) v"
  shows "\<exists>j. marshal (WTagged n f k) v = Inr j \<and>
    unmarshal L (WTagged n f k) (zero L (WTagged n f k)) j = Inr v"
proof -
  have f: "f \<noteq> ''union''" using assms(1) by simp
  obtain s j where g: "vget v f = VString s" "vget v ''union'' = VJson j"
    using assms(2) unfolding typed.simps is_string_iff is_json_iff by blast
  have v: "v = VStruct [(f, VString s), (''union'', VJson j)]"
    using assms(2) unfolding typed.simps g by blast
  have "tagged_typed k (JString s) j"
    using assms(2) unfolding typed.simps g by (simp add: marshal_string_def raw_json_def)
  then obtain kvs where "j = JObject kvs" "wf_map kvs" "map_of kvs k = Some (JString s)"
    by (cases "(k, JString s, j)" rule: tagged_typed.cases) auto
  then show ?thesis
    using f v
    by (simp add: tagged_MarshalJSON_def marshal_string_def foldl_update_id update_same
        tagged_UnmarshalJSON_def raw_map_def dec_str_def Let_def)
qed

lemma marshal_slice_wire:
  assumes "\<And>x. x \<in> set xs \<Longrightarrow> \<exists>j. marshal T x = Inr j \<and> unmarshal L T (zero L T) j = Inr x"
  shows "\<exists>js. traverse (marshal T) xs = Inr js \<and>
    dec_array (unmarshal L T) (zero L T) [] js = Inr xs"
  using traverse_wire [of xs "marshal T" "\<lambda>x j. unmarshal L T (zero L T) j = Inr x"] assms
    dec_array_wire by fastforce

lemma marshal_map_wire:
  assumes "\<And>x. x \<in> snd ` set m \<Longrightarrow> \<exists>j. marshal T x = Inr j \<and> unmarshal L T (zero L T) j = Inr x"
    and "wf_map m"
  shows "\<exists>kvs. traverse (\<lambda>(k, x). sum_bind (marshal T x) (\<lambda>j. Inr (k, j))) m = Inr kvs \<and>
    dec_map (unmarshal L T) (zero L T) kvs [] = Inr m"
proof -
  have "\<exists>kj. (\<lambda>(k, x). sum_bind (marshal T x) (\<lambda>j. Inr (k, j))) e = Inr kj \<and>
      (\<lambda>(k, x) (k', j). k' = k \<and> unmarshal L T (zero L T) j = Inr x) e kj" if "e \<in> set m" for e
    using assms(1) [of "snd e"] that by (cases e) force
  then obtain kvs where "traverse (\<lambda>(k, x). sum_bind (marshal T x) (\<lambda>j. Inr (k, j))) m = Inr kvs"
    "list_all2 (\<lambda>(k, x) (k', j). k' = k \<and> unmarshal L T (zero L T) j = Inr x) m kvs"
    using traverse_wire [of m "\<lambda>(k, x). sum_bind (marshal T x) (\<lambda>j. Inr (k, j))"
        "\<lambda>(k, x) (k', j). k' = k \<and> unmarshal L T (zero L T) j = Inr x"] by blast
  then show ?thesis using dec_map_wire [of _ _ m kvs "[]"] assms(2) by auto
qed

lemma marshal_field_wire:
  assumes "\<exists>j. marshal T (vget v g) = Inr j \<and> unmarshal L T (zero L T) j = Inr (vget v g)"
    and "typed_field L (WField g k om T) v"
  shows "\<exists>kvs. marshal_field (WField g k om T) v = Inr kvs \<and> field_wire L (WField g k om T) v kvs"
  using assms by (auto simp: field_wire_def)

lemma marshal_struct_wire:
  assumes wf: "wf_type (WStruct n fs)" and v: "typed L (WStruct n fs) v"
    and fields: "\<And>F. F \<in> set fs \<Longrightarrow> \<exists>kvs. marshal_field F v = Inr kvs \<and> field_wire L F v kvs"
  shows "\<exists>j. marshal (WStruct n fs) v = Inr j \<and>
    unmarshal L (WStruct n fs) (zero L (WStruct n fs)) j = Inr v"
proof -
  obtain vs where vs: "v = VStruct vs" "map fst vs = map go_name fs"
    using v by (cases v) auto
  have names: "distinct (map go_name fs)" "distinct (map json_name fs)"
    using wf unfolding wf_type.simps by (metis distinct_map)+
  have "\<exists>kvss. traverse (\<lambda>m. m v) (map marshal_field fs) = Inr kvss \<and>
      list_all2 (\<lambda>F kvs. field_wire L F v kvs) fs kvss"
    using traverse_wire [of fs "\<lambda>F. marshal_field F v" "\<lambda>F kvs. field_wire L F v kvs"] fields
    by (simp add: traverse_map)
  then obtain kvss where kvss: "traverse (\<lambda>m. m v) (map marshal_field fs) = Inr kvss"
    "list_all2 (\<lambda>F kvs. field_wire L F v kvs) fs kvss" by blast
  have zeros: "map fst (map (zero_field L) fs) = map go_name fs"
    by (simp add: fst_zero_field)
  have zero_of: "vget (VStruct (map (zero_field L) fs)) (go_name F) = snd (zero_field L F)"
    if "F \<in> set fs" for F
  proof -
    have "map_of (map (zero_field L) fs) (go_name F) = Some (snd (zero_field L F))"
    proof (rule map_of_is_SomeI)
      show "distinct (map fst (map (zero_field L) fs))" unfolding zeros by (rule names)
      show "(go_name F, snd (zero_field L F)) \<in> set (map (zero_field L) fs)"
        using that fst_zero_field [of L F] by (metis image_eqI list.set_map prod.collapse)
    qed
    then show ?thesis by (simp add: vget_struct)
  qed
  obtain cs where cs: "dec_struct (map (unmarshal_field L) fs) (VStruct (map (zero_field L) fs))
      (concat kvss) = Inr (VStruct cs)" "map fst cs = map go_name fs"
    "\<And>g. g \<in> go_name ` set fs \<Longrightarrow> vget (VStruct cs) g = vget v g"
    using dec_struct_fields [OF names subset_refl names(1) kvss(2) zeros zero_of] by auto
  have "cs = vs"
  proof (rule struct_eqI)
    show "map fst cs = map fst vs" using cs(2) vs(2) by simp
    show "distinct (map fst cs)" unfolding cs(2) by (rule names)
    fix g assume "g \<in> fst ` set cs"
    then have "g \<in> go_name ` set fs" using cs(2) by (metis list.set_map)
    then show "vget (VStruct cs) g = vget (VStruct vs) g" using cs(3) vs(1) by simp
  qed
  then show ?thesis using kvss(1) cs(1) vs(1) by simp
qed

lemma type_roundtrip:
  fixes T :: wtype and F :: wfield
  shows "wf_type T \<Longrightarrow> typed L T v \<Longrightarrow>
      \<exists>j. marshal T v = Inr j \<and> unmarshal L T (zero L T) j = Inr v"
    and "wf_field F \<Longrightarrow> typed_field L F w \<Longrightarrow>
      \<exists>kvs. marshal_field F w = Inr kvs \<and> field_wire L F w kvs"
proof (induction T and F arbitrary: v and w)
  case WString
  then show ?case by (cases v) (auto simp: marshal_string_def dec_str_def)
next
  case WBool
  then show ?case by (cases v) auto
next
  case WInt
  then show ?case
    using sint_greater_eq [of "x :: go_int" for x] sint_less [of "x :: go_int" for x]
    by (cases v) (auto simp: jword_def dec_word_def)
next
  case (WLib n)
  then show ?case by (cases v) (auto simp: raw_json_def)
next
  case (WPtr T)
  then show ?case by (cases v) (fastforce split: json.splits)+
next
  case (WSlice T)
  then show ?case
    using marshal_slice_wire [of _ T L] by (cases v) (fastforce simp: list_all_iff)+
next
  case (WMap T)
  then show ?case
    using marshal_map_wire [of _ T L] by (cases v) (fastforce simp: list_all_iff)+
next
  case (WStruct n fs)
  show ?case
    using WStruct by (intro marshal_struct_wire) (auto simp: list_all_iff)
next
  case (WProps n f k)
  then show ?case by (rule props_roundtrip)
next
  case (WUnion n)
  then show ?case by (auto simp: is_json_iff raw_json_def)
next
  case (WTagged n f k)
  then show ?case by (rule tagged_roundtrip)
next
  case (WField g k om T)
  then show ?case by (intro marshal_field_wire) auto
qed

end
