(* ===== verification/Json_Typing.thy ===== *)
theory Json_Typing
  imports Go_Json
begin

text \<open>
  Whatever document arrives, decoding it into a value of a described type gives a value of
  that type again: the shape of a value, and that \<open>unmarshal\<close> keeps it.
\<close>

section \<open>Decoding gives values of the declared type\<close>

primrec shaped :: "wtype \<Rightarrow> wval \<Rightarrow> bool" and shaped_field :: "wfield \<Rightarrow> wval \<Rightarrow> bool" where
  "shaped WString v \<longleftrightarrow> is_string v"
| "shaped WBool v \<longleftrightarrow> (case v of VBool b \<Rightarrow> True | _ \<Rightarrow> False)"
| "shaped WInt v \<longleftrightarrow> (case v of VInt i \<Rightarrow> True | _ \<Rightarrow> False)"
| "shaped (WLib n) v \<longleftrightarrow> is_json v"
| "shaped (WPtr T) v \<longleftrightarrow> (case v of VNil \<Rightarrow> True | VPtr x \<Rightarrow> shaped T x | _ \<Rightarrow> False)"
| "shaped (WSlice T) v \<longleftrightarrow> (case v of VNil \<Rightarrow> True | VSlice xs \<Rightarrow> list_all (shaped T) xs | _ \<Rightarrow> False)"
| "shaped (WMap T) v \<longleftrightarrow>
     (case v of VNil \<Rightarrow> True | VMap m \<Rightarrow> wf_map m \<and> list_all (shaped T) (map snd m) | _ \<Rightarrow> False)"
| "shaped (WStruct n fs) v \<longleftrightarrow>
     (case v of VStruct vs \<Rightarrow> map fst vs = map go_name fs | _ \<Rightarrow> False) \<and>
     list_all (\<lambda>t. t v) (map shaped_field fs)"
| "shaped (WProps n f k) v \<longleftrightarrow>
     v = VStruct [(f, vget v f), (''AdditionalProperties'', vget v ''AdditionalProperties'')] \<and>
     is_string (vget v f) \<and>
     (case vget v ''AdditionalProperties'' of
        VNil \<Rightarrow> True | VMap m \<Rightarrow> wf_map m \<and> list_all (\<lambda>e. is_string (snd e)) m | _ \<Rightarrow> False)"
| "shaped (WUnion n) v \<longleftrightarrow>
     v = VStruct [(''union'', vget v ''union'')] \<and> (vget v ''union'' = VNil \<or> is_json (vget v ''union''))"
| "shaped (WTagged n f k) v \<longleftrightarrow>
     v = VStruct [(f, vget v f), (''union'', vget v ''union'')] \<and> is_string (vget v f) \<and>
     (vget v ''union'' = VNil \<or> is_json (vget v ''union''))"
| "shaped_field (WField g k om T) v \<longleftrightarrow> shaped T (vget v g)"

lemma zero_shaped:
  shows "wf_type T \<Longrightarrow> shaped T (zero L T)"
    and "wf_field F \<Longrightarrow> shaped_field F (VStruct [zero_field L F])"
proof (induction T and F)
  case (WStruct n fs)
  let ?zs = "map (zero_field L) fs"
  have zeros: "map fst ?zs = map go_name fs" by (simp add: fst_zero_field)
  have "shaped_field F (VStruct ?zs)" if F: "F \<in> set fs" for F
  proof -
    have "map_of ?zs (go_name F) = Some (snd (zero_field L F))"
    proof (rule map_of_is_SomeI)
      show "distinct (map fst ?zs)" unfolding zeros using WStruct.prems by simp
      show "(go_name F, snd (zero_field L F)) \<in> set ?zs"
        using F fst_zero_field [of L F] by (metis image_eqI list.set_map prod.collapse)
    qed
    moreover have "shaped_field F (VStruct [zero_field L F])"
      using WStruct F by (auto simp: list_all_iff)
    ultimately show ?thesis
      by (cases F) (auto simp: vget_struct)
  qed
  then show ?case using zeros by (auto simp: list_all_iff)
qed auto

lemma dec_array_shaped:
  assumes d: "\<And>old j v. P old \<Longrightarrow> d old j = Inr v \<Longrightarrow> P v" and z: "P z"
  shows "list_all P olds \<Longrightarrow> dec_array d z olds js = Inr xs \<Longrightarrow> list_all P xs"
proof (induction js arbitrary: olds xs)
  case (Cons j js)
  have "P (case olds of [] \<Rightarrow> z | v # _ \<Rightarrow> v)" "list_all P (tl olds)"
    using Cons.prems(1) z by (cases olds; simp)+
  then show ?case
    using Cons.prems(2) Cons.IH d by (fastforce simp: sum_bind_def split: sum.splits)
qed simp

lemma dec_map_shaped:
  assumes d: "\<And>j v. d z j = Inr v \<Longrightarrow> P v"
  shows "wf_map m \<Longrightarrow> list_all P (map snd m) \<Longrightarrow> dec_map d z kvs m = Inr m' \<Longrightarrow>
    wf_map m' \<and> list_all P (map snd m')"
proof (induction kvs arbitrary: m)
  case (Cons kj kvs)
  obtain k j where kj: "kj = (k, j)" by (cases kj)
  then obtain x where x: "d z j = Inr x" "dec_map d z kvs (AList.update k x m) = Inr m'"
    using Cons.prems(3) by (auto simp: sum_bind_def split: sum.splits)
  have "list_all P (map snd (AList.update k x m))"
    using Cons.prems(2) d [OF x(1)] by (induction m) auto
  then show ?case
    using Cons.IH [OF wf_map_update [OF Cons.prems(1)] _ x(2)] kj by simp
qed simp

lemma find_in: "find Q xs = Some x \<Longrightarrow> x \<in> set xs"
  by (induction xs) (auto split: if_splits)

lemma find_field_in: "find_field decs key = Some p \<Longrightarrow> \<exists>k. (k, p) \<in> set decs"
  by (auto simp: find_field_def split: option.splits dest!: find_in)

lemma dec_struct_shaped:
  assumes fs: "distinct (map go_name fs)"
    and d: "\<And>F old j v. F \<in> set fs \<Longrightarrow> shaped_field F (VStruct [(go_name F, old)]) \<Longrightarrow>
      snd (snd (unmarshal_field L F)) old j = Inr v \<Longrightarrow> shaped_field F (VStruct [(go_name F, v)])"
  shows "shaped (WStruct n fs) old \<Longrightarrow>
    dec_struct (map (unmarshal_field L) fs) old kvs = Inr v \<Longrightarrow> shaped (WStruct n fs) v"
proof (induction kvs arbitrary: old)
  case (Cons kj kvs)
  obtain key j where kj: "kj = (key, j)" by (cases kj)
  show ?case
  proof (cases "find_field (map (unmarshal_field L) fs) key")
    case None
    then show ?thesis using Cons kj by simp
  next
    case (Some p)
    obtain F where F: "F \<in> set fs" "p = (go_name F, snd (snd (unmarshal_field L F)))"
      using find_field_in [OF Some] unmarshal_field_parts by (auto simp: image_iff) (metis snd_conv)
    obtain x where x: "snd (snd (unmarshal_field L F)) (vget old (go_name F)) j = Inr x"
      "dec_struct (map (unmarshal_field L) fs) (vset old (go_name F) x) kvs = Inr v"
      using Cons.prems(2) kj Some F by (auto simp: sum_bind_def split: sum.splits)
    obtain os where os: "old = VStruct os" "map fst os = map go_name fs"
      "\<And>G. G \<in> set fs \<Longrightarrow> shaped_field G old"
      using Cons.prems(1) by (cases old) (auto simp: list_all_iff)
    have "go_name F \<in> fst ` set os"
      using F(1) os(2) by (metis image_eqI list.set_map)
    then obtain os' where os': "vset old (go_name F) x = VStruct os'" "map fst os' = map go_name fs"
      using vset_shape os(1,2) by metis
    have eq: "vget (VStruct os') h = (if h = go_name F then x else vget old h)" for h
      using vget_vset [of os "go_name F" x h] os'(1) os(1) by simp
    have one: "shaped_field G w \<longleftrightarrow> shaped_field G (VStruct [(go_name G, vget w (go_name G))])" for G w
      by (cases G) simp
    have "shaped_field G (VStruct os')" if G: "G \<in> set fs" for G
    proof (cases "go_name G = go_name F")
      case True
      then have "G = F" using fs G F(1) by (metis distinct_map inj_onD)
      then show ?thesis
        using d [OF F(1) _ x(1)] os(3) [OF F(1)] one [of F old] one [of F "VStruct os'"] eq by simp
    next
      case False
      then show ?thesis
        using os(3) [OF G] one [of G old] one [of G "VStruct os'"] eq by simp
    qed
    then have "shaped (WStruct n fs) (vset old (go_name F) x)"
      using os' by (auto simp: list_all_iff)
    then show ?thesis using Cons.IH x(2) by blast
  qed
qed simp

lemma props_shaped:
  assumes wf: "wf_type (WProps n f k)" and old: "shaped (WProps n f k) a"
    and dec: "props_UnmarshalJSON f k a b = Inr v"
  shows "shaped (WProps n f k) v"
proof -
  let ?AP = "''AdditionalProperties''"
  have f: "f \<noteq> ?AP" using wf by simp
  obtain s m where a: "a = VStruct [(f, VString s), (?AP, m)]" "m = VNil \<or> (\<exists>es. m = VMap es)"
      "shaped (WProps n f k) (VStruct [(f, VString s), (?AP, m)])"
    using old by (auto simp: is_string_iff split: wval.splits)
  obtain kvs where kvs: "raw_map b = Inr kvs"
    using dec by (auto simp: props_UnmarshalJSON_def sum_bind_def split: sum.splits)
  have wfk: "wf_map kvs"
    using kvs by (auto simp: raw_map_def wf_map_foldl_update split: json.splits)
  obtain s' where s': "(case map_of kvs k of None \<Rightarrow> Inr a
        | Some raw \<Rightarrow> (case dec_str (vget a f) raw of Inl e \<Rightarrow> Inl (reading k e)
             | Inr s \<Rightarrow> Inr (vset a f s))) = Inr (VStruct [(f, VString s'), (?AP, m)])"
    using dec kvs a(1) f
    by (auto simp: props_UnmarshalJSON_def dec_str_def sum_bind_def
        split: option.splits sum.splits json.splits)
  let ?kvs = "filter (\<lambda>(k', _). k' \<noteq> k) kvs"
  let ?dec = "\<lambda>(fname, buf). case dec_str (VString []) buf of
       Inl e \<Rightarrow> Inl (ErrWrap (''error unmarshaling field '' @ fname @ '': '') e)
     | Inr val \<Rightarrow> Inr (fname, val)"
  have entries: "map fst m' = map fst kvs' \<and> list_all (\<lambda>e. is_string (snd e)) m'"
    if "traverse ?dec kvs' = Inr m'" for kvs' m'
    using that
    by (induction kvs' arbitrary: m')
      (auto simp: sum_bind_def dec_str_def split: sum.splits json.splits prod.splits)
  show ?thesis
  proof (cases "?kvs = []")
    case True
    then have "v = VStruct [(f, VString s'), (?AP, m)]"
      using dec kvs s' by (simp add: props_UnmarshalJSON_def Let_def)
    then show ?thesis using a(3) f by simp
  next
    case False
    then obtain m' where m': "traverse ?dec ?kvs = Inr m'" "v = VStruct [(f, VString s'), (?AP, VMap m')]"
      using dec kvs s' f by (auto simp: props_UnmarshalJSON_def Let_def sum_bind_def split: sum.splits)
    have "wf_map m'"
      using entries [OF m'(1)] wf_map_filter [OF wfk] by (simp add: wf_map_def)
    then show ?thesis using m'(2) entries [OF m'(1)] f by simp
  qed
qed

lemma tagged_shaped:
  assumes "wf_type (WTagged n f k)" "shaped (WTagged n f k) t" "tagged_UnmarshalJSON f k t b = Inr v"
  shows "shaped (WTagged n f k) v"
proof -
  have f: "f \<noteq> ''union''" using assms(1) by simp
  obtain s u where t: "t = VStruct [(f, VString s), (''union'', u)]"
    using assms(2) by (auto simp: is_string_iff)
  have "\<exists>s'. v = VStruct [(f, VString s'), (''union'', VJson b)]"
    using assms(3) f unfolding t
    by (auto simp: tagged_UnmarshalJSON_def Let_def sum_bind_def dec_str_def
        split: sum.splits option.splits json.splits)
  then show ?thesis using f by auto
qed

lemma unmarshal_shaped:
  shows "wf_type T \<Longrightarrow> shaped T old \<Longrightarrow> unmarshal L T old j = Inr v \<Longrightarrow> shaped T v"
    and "wf_field F \<Longrightarrow> shaped_field F (VStruct [(go_name F, old)]) \<Longrightarrow>
      snd (snd (unmarshal_field L F)) old j = Inr v \<Longrightarrow> shaped_field F (VStruct [(go_name F, v)])"
proof (induction T and F arbitrary: old j v and old j v)
  case WString
  then show ?case by (auto simp: dec_str_def split: json.splits)
next
  case WBool
  then show ?case by (auto split: json.splits)
next
  case WInt
  then show ?case by (auto simp: dec_word_def split: json.splits if_splits)
next
  case (WLib n)
  then show ?case by (auto simp: sum_bind_def split: sum.splits)
next
  case (WPtr T)
  have z: "shaped T (zero L T)" using WPtr.prems(1) zero_shaped(1) by simp
  show ?case
    using WPtr z by (fastforce simp: sum_bind_def split: json.splits sum.splits wval.splits)
next
  case (WSlice T)
  have z: "shaped T (zero L T)" using WSlice.prems(1) zero_shaped(1) by simp
  have arr: "list_all (shaped T) xs"
    if "list_all (shaped T) olds" "dec_array (unmarshal L T) (zero L T) olds js = Inr xs" for olds js xs
    by (rule dec_array_shaped [OF _ z that]) (use WSlice.IH WSlice.prems(1) in simp)
  show ?case
    using WSlice.prems arr [of "case old of VSlice xs \<Rightarrow> xs | _ \<Rightarrow> []"]
    by (auto simp: sum_bind_def split: json.splits sum.splits wval.splits)
next
  case (WMap T)
  have z: "shaped T (zero L T)" using WMap.prems(1) zero_shaped(1) by simp
  have m: "wf_map m' \<and> list_all (shaped T) (map snd m')"
    if "wf_map m" "list_all (shaped T) (map snd m)"
      "dec_map (unmarshal L T) (zero L T) kvs m = Inr m'" for m kvs m'
    by (rule dec_map_shaped [OF _ that]) (use WMap.IH WMap.prems(1) z in simp)
  show ?case
    using WMap.prems m [of "case old of VMap m \<Rightarrow> m | _ \<Rightarrow> []"]
    by (auto simp: sum_bind_def split: json.splits sum.splits wval.splits)
next
  case (WStruct n fs)
  have d: "shaped_field F (VStruct [(go_name F, w)])"
    if "F \<in> set fs" "shaped_field F (VStruct [(go_name F, x)])"
      "snd (snd (unmarshal_field L F)) x i = Inr w" for F x i w
    using WStruct.IH [OF that(1) _ that(2,3)] WStruct.prems(1) that(1) by (auto simp: list_all_iff)
  have "shaped (WStruct n fs) w" if "dec_struct (map (unmarshal_field L) fs) old kvs = Inr w" for kvs w
  proof (rule dec_struct_shaped [OF _ _ WStruct.prems(2) that])
    show "distinct (map go_name fs)" using WStruct.prems(1) by simp
  qed (rule d)
  then show ?case
    using WStruct.prems(2,3) by (cases j) (auto simp del: shaped.simps)
next
  case (WProps n f k)
  show ?case
    by (rule props_shaped [OF WProps.prems(1,2)]) (use WProps.prems(3) in \<open>simp only: unmarshal.simps\<close>)
next
  case (WUnion n)
  obtain u where "old = VStruct [(''union'', u)]"
    using WUnion.prems(2) unfolding shaped.simps by blast
  then show ?case using WUnion.prems(3) by auto
next
  case (WTagged n f k)
  show ?case
    by (rule tagged_shaped [OF WTagged.prems(1,2)]) (use WTagged.prems(3) in \<open>simp only: unmarshal.simps\<close>)
next
  case (WField g k om T)
  then show ?case by simp
qed

end
