(* ===== verification/Management_Types.thy ===== *)
theory Management_Types
  imports Go_Json
begin

text \<open>
  The types of the generated management client, \<open>internal/polaris/management/zz_generated.gen.go\<close>,
  as descriptions (theory Go_Json): one definition \<open>mgmt_T\<close> for every type \<open>T\<close> of the package in an
  order in which a type comes after the types it mentions, the values of each enumeration with
  its \<open>Valid\<close>, and the methods of \<open>Catalog_Properties\<close>.
\<close>

definition mgmt_GrantResourceType :: wtype where
  "mgmt_GrantResourceType = WString"

definition mgmt_GrantResource :: wtype where
  "mgmt_GrantResource =
     WStruct ''GrantResource''
     [WField ''Type'' ''type'' False mgmt_GrantResourceType]"

definition mgmt_AddGrantRequest :: wtype where
  "mgmt_AddGrantRequest =
     WStruct ''AddGrantRequest''
     [WField ''Grant'' ''grant'' True (WPtr mgmt_GrantResource)]"

definition mgmt_Catalog_Properties :: wtype where
  "mgmt_Catalog_Properties = WProps ''Catalog_Properties'' ''DefaultBaseLocation'' ''default-base-location''"

definition mgmt_CatalogType :: wtype where
  "mgmt_CatalogType = WString"

definition mgmt_StorageConfigInfoStorageType :: wtype where
  "mgmt_StorageConfigInfoStorageType = WString"

definition mgmt_StorageConfigInfo :: wtype where
  "mgmt_StorageConfigInfo =
     WStruct ''StorageConfigInfo''
     [WField ''AllowedLocations'' ''allowedLocations'' True (WPtr (WSlice WString)),
      WField ''StorageName'' ''storageName'' True (WPtr WString),
      WField ''StorageType'' ''storageType'' False mgmt_StorageConfigInfoStorageType]"

definition mgmt_Catalog :: wtype where
  "mgmt_Catalog =
     WStruct ''Catalog''
     [WField ''CreateTimestamp'' ''createTimestamp'' True (WPtr WInt),
      WField ''EntityVersion'' ''entityVersion'' True (WPtr WInt),
      WField ''LastUpdateTimestamp'' ''lastUpdateTimestamp'' True (WPtr WInt),
      WField ''Name'' ''name'' False WString,
      WField ''Properties'' ''properties'' False mgmt_Catalog_Properties,
      WField ''StorageConfigInfo'' ''storageConfigInfo'' False mgmt_StorageConfigInfo,
      WField ''Type'' ''type'' False mgmt_CatalogType]"

definition mgmt_CatalogRole :: wtype where
  "mgmt_CatalogRole =
     WStruct ''CatalogRole''
     [WField ''CreateTimestamp'' ''createTimestamp'' True (WPtr WInt),
      WField ''EntityVersion'' ''entityVersion'' True (WPtr WInt),
      WField ''LastUpdateTimestamp'' ''lastUpdateTimestamp'' True (WPtr WInt),
      WField ''Name'' ''name'' False WString,
      WField ''Properties'' ''properties'' True (WPtr (WMap WString))]"

definition mgmt_CatalogRoles :: wtype where
  "mgmt_CatalogRoles =
     WStruct ''CatalogRoles''
     [WField ''Roles'' ''roles'' False (WSlice mgmt_CatalogRole)]"

definition mgmt_Catalogs :: wtype where
  "mgmt_Catalogs =
     WStruct ''Catalogs''
     [WField ''Catalogs'' ''catalogs'' False (WSlice mgmt_Catalog)]"

definition mgmt_CreateCatalogRequest :: wtype where
  "mgmt_CreateCatalogRequest =
     WStruct ''CreateCatalogRequest''
     [WField ''Catalog'' ''catalog'' False mgmt_Catalog]"

definition mgmt_CreateCatalogRoleRequest :: wtype where
  "mgmt_CreateCatalogRoleRequest =
     WStruct ''CreateCatalogRoleRequest''
     [WField ''CatalogRole'' ''catalogRole'' True (WPtr mgmt_CatalogRole)]"

definition mgmt_Principal :: wtype where
  "mgmt_Principal =
     WStruct ''Principal''
     [WField ''ClientId'' ''clientId'' True (WPtr WString),
      WField ''CreateTimestamp'' ''createTimestamp'' True (WPtr WInt),
      WField ''EntityVersion'' ''entityVersion'' True (WPtr WInt),
      WField ''LastUpdateTimestamp'' ''lastUpdateTimestamp'' True (WPtr WInt),
      WField ''Name'' ''name'' False WString,
      WField ''Properties'' ''properties'' True (WPtr (WMap WString))]"

definition mgmt_CreatePrincipalRequest :: wtype where
  "mgmt_CreatePrincipalRequest =
     WStruct ''CreatePrincipalRequest''
     [WField ''CredentialRotationRequired'' ''credentialRotationRequired'' True (WPtr WBool),
      WField ''Principal'' ''principal'' True (WPtr mgmt_Principal)]"

definition mgmt_PrincipalRole :: wtype where
  "mgmt_PrincipalRole =
     WStruct ''PrincipalRole''
     [WField ''CreateTimestamp'' ''createTimestamp'' True (WPtr WInt),
      WField ''EntityVersion'' ''entityVersion'' True (WPtr WInt),
      WField ''Federated'' ''federated'' True (WPtr WBool),
      WField ''LastUpdateTimestamp'' ''lastUpdateTimestamp'' True (WPtr WInt),
      WField ''Name'' ''name'' False WString,
      WField ''Properties'' ''properties'' True (WPtr (WMap WString))]"

definition mgmt_CreatePrincipalRoleRequest :: wtype where
  "mgmt_CreatePrincipalRoleRequest =
     WStruct ''CreatePrincipalRoleRequest''
     [WField ''PrincipalRole'' ''principalRole'' True (WPtr mgmt_PrincipalRole)]"

definition mgmt_GrantCatalogRoleRequest :: wtype where
  "mgmt_GrantCatalogRoleRequest =
     WStruct ''GrantCatalogRoleRequest''
     [WField ''CatalogRole'' ''catalogRole'' True (WPtr mgmt_CatalogRole)]"

definition mgmt_GrantPrincipalRoleRequest :: wtype where
  "mgmt_GrantPrincipalRoleRequest =
     WStruct ''GrantPrincipalRoleRequest''
     [WField ''PrincipalRole'' ''principalRole'' True (WPtr mgmt_PrincipalRole)]"

definition mgmt_GrantResources :: wtype where
  "mgmt_GrantResources =
     WStruct ''GrantResources''
     [WField ''Grants'' ''grants'' False (WSlice mgmt_GrantResource)]"

definition mgmt_PrincipalRoles :: wtype where
  "mgmt_PrincipalRoles =
     WStruct ''PrincipalRoles''
     [WField ''Roles'' ''roles'' False (WSlice mgmt_PrincipalRole)]"

definition mgmt_PrincipalWithCredentials :: wtype where
  "mgmt_PrincipalWithCredentials =
     WStruct ''PrincipalWithCredentials''
     [WField ''Credentials'' ''credentials'' False (WStruct ''PrincipalWithCredentials.Credentials'' [WField ''ClientId'' ''clientId'' True (WPtr WString),
      WField ''ClientSecret'' ''clientSecret'' True (WPtr WString)]),
      WField ''Principal'' ''principal'' False mgmt_Principal]"

definition mgmt_Principals :: wtype where
  "mgmt_Principals =
     WStruct ''Principals''
     [WField ''Principals'' ''principals'' False (WSlice mgmt_Principal)]"

definition mgmt_ResetPrincipalRequest :: wtype where
  "mgmt_ResetPrincipalRequest =
     WStruct ''ResetPrincipalRequest''
     [WField ''ClientId'' ''clientId'' True (WPtr WString),
      WField ''ClientSecret'' ''clientSecret'' True (WPtr WString)]"

definition mgmt_RevokeGrantRequest :: wtype where
  "mgmt_RevokeGrantRequest =
     WStruct ''RevokeGrantRequest''
     [WField ''Grant'' ''grant'' True (WPtr mgmt_GrantResource)]"

definition mgmt_UpdateCatalogRequest :: wtype where
  "mgmt_UpdateCatalogRequest =
     WStruct ''UpdateCatalogRequest''
     [WField ''CurrentEntityVersion'' ''currentEntityVersion'' True (WPtr WInt),
      WField ''Properties'' ''properties'' True (WPtr (WMap WString)),
      WField ''StorageConfigInfo'' ''storageConfigInfo'' True (WPtr mgmt_StorageConfigInfo)]"

definition mgmt_UpdateCatalogRoleRequest :: wtype where
  "mgmt_UpdateCatalogRoleRequest =
     WStruct ''UpdateCatalogRoleRequest''
     [WField ''CurrentEntityVersion'' ''currentEntityVersion'' False WInt,
      WField ''Properties'' ''properties'' False (WMap WString)]"

definition mgmt_UpdatePrincipalRequest :: wtype where
  "mgmt_UpdatePrincipalRequest =
     WStruct ''UpdatePrincipalRequest''
     [WField ''CurrentEntityVersion'' ''currentEntityVersion'' False WInt,
      WField ''Properties'' ''properties'' False (WMap WString)]"

definition mgmt_UpdatePrincipalRoleRequest :: wtype where
  "mgmt_UpdatePrincipalRoleRequest =
     WStruct ''UpdatePrincipalRoleRequest''
     [WField ''CurrentEntityVersion'' ''currentEntityVersion'' False WInt,
      WField ''Properties'' ''properties'' False (WMap WString)]"

definition mgmt_RevokeGrantFromCatalogRoleParams :: wtype where
  "mgmt_RevokeGrantFromCatalogRoleParams =
     WStruct ''RevokeGrantFromCatalogRoleParams''
     [WField ''Cascade'' ''cascade'' True (WPtr WBool)]"

definition mgmt_CreateCatalogJSONRequestBody :: wtype where
  "mgmt_CreateCatalogJSONRequestBody = mgmt_CreateCatalogRequest"

definition mgmt_UpdateCatalogJSONRequestBody :: wtype where
  "mgmt_UpdateCatalogJSONRequestBody = mgmt_UpdateCatalogRequest"

definition mgmt_CreateCatalogRoleJSONRequestBody :: wtype where
  "mgmt_CreateCatalogRoleJSONRequestBody = mgmt_CreateCatalogRoleRequest"

definition mgmt_UpdateCatalogRoleJSONRequestBody :: wtype where
  "mgmt_UpdateCatalogRoleJSONRequestBody = mgmt_UpdateCatalogRoleRequest"

definition mgmt_RevokeGrantFromCatalogRoleJSONRequestBody :: wtype where
  "mgmt_RevokeGrantFromCatalogRoleJSONRequestBody = mgmt_RevokeGrantRequest"

definition mgmt_AddGrantToCatalogRoleJSONRequestBody :: wtype where
  "mgmt_AddGrantToCatalogRoleJSONRequestBody = mgmt_AddGrantRequest"

definition mgmt_CreatePrincipalRoleJSONRequestBody :: wtype where
  "mgmt_CreatePrincipalRoleJSONRequestBody = mgmt_CreatePrincipalRoleRequest"

definition mgmt_UpdatePrincipalRoleJSONRequestBody :: wtype where
  "mgmt_UpdatePrincipalRoleJSONRequestBody = mgmt_UpdatePrincipalRoleRequest"

definition mgmt_AssignCatalogRoleToPrincipalRoleJSONRequestBody :: wtype where
  "mgmt_AssignCatalogRoleToPrincipalRoleJSONRequestBody = mgmt_GrantCatalogRoleRequest"

definition mgmt_CreatePrincipalJSONRequestBody :: wtype where
  "mgmt_CreatePrincipalJSONRequestBody = mgmt_CreatePrincipalRequest"

definition mgmt_UpdatePrincipalJSONRequestBody :: wtype where
  "mgmt_UpdatePrincipalJSONRequestBody = mgmt_UpdatePrincipalRequest"

definition mgmt_AssignPrincipalRoleJSONRequestBody :: wtype where
  "mgmt_AssignPrincipalRoleJSONRequestBody = mgmt_GrantPrincipalRoleRequest"

definition mgmt_ResetCredentialsJSONRequestBody :: wtype where
  "mgmt_ResetCredentialsJSONRequestBody = mgmt_ResetPrincipalRequest"

definition mgmt_CatalogType_values :: "string list" where
  "mgmt_CatalogType_values =
     [''EXTERNAL'',
      ''INTERNAL'']"

definition mgmt_CatalogType_Valid :: "string \<Rightarrow> bool" where
  "mgmt_CatalogType_Valid e =
     (if e = ''EXTERNAL'' then True else
      if e = ''INTERNAL'' then True else False)"

definition mgmt_GrantResourceType_values :: "string list" where
  "mgmt_GrantResourceType_values =
     [''catalog'',
      ''namespace'',
      ''policy'',
      ''table'',
      ''view'']"

definition mgmt_GrantResourceType_Valid :: "string \<Rightarrow> bool" where
  "mgmt_GrantResourceType_Valid e =
     (if e = ''catalog'' then True else
      if e = ''namespace'' then True else
      if e = ''policy'' then True else
      if e = ''table'' then True else
      if e = ''view'' then True else False)"

definition mgmt_StorageConfigInfoStorageType_values :: "string list" where
  "mgmt_StorageConfigInfoStorageType_values =
     [''AZURE'',
      ''FILE'',
      ''GCS'',
      ''S3'']"

definition mgmt_StorageConfigInfoStorageType_Valid :: "string \<Rightarrow> bool" where
  "mgmt_StorageConfigInfoStorageType_Valid e =
     (if e = ''AZURE'' then True else
      if e = ''FILE'' then True else
      if e = ''GCS'' then True else
      if e = ''S3'' then True else False)"

definition mgmt_Catalog_Properties_Get :: "wval \<Rightarrow> string \<Rightarrow> wval \<times> bool" where
  "mgmt_Catalog_Properties_Get a fieldn = props_Get a fieldn"

definition mgmt_Catalog_Properties_Set :: "wval \<Rightarrow> string \<Rightarrow> wval \<Rightarrow> wval" where
  "mgmt_Catalog_Properties_Set a fieldn v = props_Set a fieldn v"

definition mgmt_Catalog_Properties_UnmarshalJSON :: decoder where
  "mgmt_Catalog_Properties_UnmarshalJSON = props_UnmarshalJSON ''DefaultBaseLocation'' ''default-base-location''"

definition mgmt_Catalog_Properties_MarshalJSON :: "wval \<Rightarrow> goerr + json" where
  "mgmt_Catalog_Properties_MarshalJSON = props_MarshalJSON ''DefaultBaseLocation'' ''default-base-location''"

end
