(* ===== verification/Catalog_Types.thy ===== *)
theory Catalog_Types
  imports Go_Json
begin

text \<open>
  The types of the generated catalog client, \<open>internal/polaris/catalog/zz_generated.gen.go\<close>, as
  descriptions (theory Go_Json): one definition \<open>cat_T\<close> for every type \<open>T\<close> of the package in an
  order in which a type comes after the types it mentions, the values of each enumeration with
  its \<open>Valid\<close>, and the methods of \<open>Snapshot_Summary\<close>.
\<close>

definition cat_BaseUpdate :: wtype where
  "cat_BaseUpdate =
     WStruct ''BaseUpdate''
     [WField ''Action'' ''action'' False WString]"

definition cat_AddEncryptionKeyUpdate :: wtype where
  "cat_AddEncryptionKeyUpdate = cat_BaseUpdate"

definition cat_AddPartitionSpecUpdate :: wtype where
  "cat_AddPartitionSpecUpdate = cat_BaseUpdate"

definition cat_AddSchemaUpdate :: wtype where
  "cat_AddSchemaUpdate = cat_BaseUpdate"

definition cat_AddSnapshotUpdate :: wtype where
  "cat_AddSnapshotUpdate = cat_BaseUpdate"

definition cat_AddSortOrderUpdate :: wtype where
  "cat_AddSortOrderUpdate = cat_BaseUpdate"

definition cat_AddViewVersionUpdate :: wtype where
  "cat_AddViewVersionUpdate = cat_BaseUpdate"

definition cat_Expression :: wtype where
  "cat_Expression = WUnion ''Expression''"

definition cat_ExpressionType :: wtype where
  "cat_ExpressionType = WString"

definition cat_AndOrExpression :: wtype where
  "cat_AndOrExpression =
     WStruct ''AndOrExpression''
     [WField ''Left'' ''left'' False cat_Expression,
      WField ''Right'' ''right'' False cat_Expression,
      WField ''Type'' ''type'' False cat_ExpressionType]"

definition cat_Namespace :: wtype where
  "cat_Namespace = WSlice WString"

definition cat_PolicyName :: wtype where
  "cat_PolicyName = WString"

definition cat_ApplicablePolicy :: wtype where
  "cat_ApplicablePolicy =
     WStruct ''ApplicablePolicy''
     [WField ''Content'' ''content'' True (WPtr WString),
      WField ''Description'' ''description'' True (WPtr WString),
      WField ''Inheritable'' ''inheritable'' False WBool,
      WField ''Inherited'' ''inherited'' False WBool,
      WField ''Name'' ''name'' False cat_PolicyName,
      WField ''Namespace'' ''namespace'' False cat_Namespace,
      WField ''PolicyType'' ''policy-type'' False WString,
      WField ''Version'' ''version'' False WInt]"

definition cat_AssertViewUUID :: wtype where
  "cat_AssertViewUUID =
     WStruct ''AssertViewUUID''
     [WField ''Type'' ''type'' False WString,
      WField ''Uuid'' ''uuid'' False WString]"

definition cat_AssignUUIDUpdate :: wtype where
  "cat_AssignUUIDUpdate = cat_BaseUpdate"

definition cat_PolicyAttachmentTargetType :: wtype where
  "cat_PolicyAttachmentTargetType = WString"

definition cat_PolicyAttachmentTarget :: wtype where
  "cat_PolicyAttachmentTarget =
     WStruct ''PolicyAttachmentTarget''
     [WField ''Path'' ''path'' True (WPtr (WSlice WString)),
      WField ''Type'' ''type'' False cat_PolicyAttachmentTargetType]"

definition cat_AttachPolicyRequest :: wtype where
  "cat_AttachPolicyRequest =
     WStruct ''AttachPolicyRequest''
     [WField ''Parameters'' ''parameters'' True (WPtr (WMap WString)),
      WField ''Target'' ''target'' False cat_PolicyAttachmentTarget]"

definition cat_BinaryTypeValue :: wtype where
  "cat_BinaryTypeValue = WString"

definition cat_BlobMetadata :: wtype where
  "cat_BlobMetadata =
     WStruct ''BlobMetadata''
     [WField ''Fields'' ''fields'' False (WSlice WInt),
      WField ''Properties'' ''properties'' True (WPtr (WMap WString)),
      WField ''SequenceNumber'' ''sequence-number'' False WInt,
      WField ''SnapshotId'' ''snapshot-id'' False WInt,
      WField ''Type'' ''type'' False WString]"

definition cat_BooleanTypeValue :: wtype where
  "cat_BooleanTypeValue = WBool"

definition cat_CatalogConfig :: wtype where
  "cat_CatalogConfig =
     WStruct ''CatalogConfig''
     [WField ''Defaults'' ''defaults'' False (WMap WString),
      WField ''Endpoints'' ''endpoints'' True (WPtr (WSlice WString)),
      WField ''Overrides'' ''overrides'' False (WMap WString)]"

definition cat_MetricResult :: wtype where
  "cat_MetricResult = WUnion ''MetricResult''"

definition cat_Metrics :: wtype where
  "cat_Metrics = WMap cat_MetricResult"

definition cat_CommitReport :: wtype where
  "cat_CommitReport =
     WStruct ''CommitReport''
     [WField ''Metadata'' ''metadata'' True (WPtr (WMap WString)),
      WField ''Metrics'' ''metrics'' False cat_Metrics,
      WField ''Operation'' ''operation'' False WString,
      WField ''SequenceNumber'' ''sequence-number'' False WInt,
      WField ''SnapshotId'' ''snapshot-id'' False WInt,
      WField ''TableName'' ''table-name'' False WString]"

definition cat_TableIdentifier :: wtype where
  "cat_TableIdentifier =
     WStruct ''TableIdentifier''
     [WField ''Name'' ''name'' False WString,
      WField ''Namespace'' ''namespace'' False cat_Namespace]"

definition cat_TableRequirement :: wtype where
  "cat_TableRequirement =
     WStruct ''TableRequirement''
     [WField ''Type'' ''type'' False WString]"

definition cat_TableUpdate :: wtype where
  "cat_TableUpdate = WUnion ''TableUpdate''"

definition cat_CommitTableRequest :: wtype where
  "cat_CommitTableRequest =
     WStruct ''CommitTableRequest''
     [WField ''Identifier'' ''identifier'' True (WPtr cat_TableIdentifier),
      WField ''Requirements'' ''requirements'' False (WSlice cat_TableRequirement),
      WField ''Updates'' ''updates'' False (WSlice cat_TableUpdate)]"

definition cat_EncryptedKey :: wtype where
  "cat_EncryptedKey =
     WStruct ''EncryptedKey''
     [WField ''EncryptedById'' ''encrypted-by-id'' True (WPtr WString),
      WField ''EncryptedKeyMetadata'' ''encrypted-key-metadata'' False (WLib ''[]byte''),
      WField ''KeyId'' ''key-id'' False WString,
      WField ''Properties'' ''properties'' True (WPtr (WMap WString))]"

definition cat_MetadataLog :: wtype where
  "cat_MetadataLog =
     WSlice (WStruct ''MetadataLog''
     [WField ''MetadataFile'' ''metadata-file'' False WString,
      WField ''TimestampMs'' ''timestamp-ms'' False WInt])"

definition cat_Transform :: wtype where
  "cat_Transform = WString"

definition cat_PartitionField :: wtype where
  "cat_PartitionField =
     WStruct ''PartitionField''
     [WField ''FieldId'' ''field-id'' True (WPtr WInt),
      WField ''Name'' ''name'' False WString,
      WField ''SourceId'' ''source-id'' False WInt,
      WField ''Transform'' ''transform'' False cat_Transform]"

definition cat_PartitionSpec :: wtype where
  "cat_PartitionSpec =
     WStruct ''PartitionSpec''
     [WField ''Fields'' ''fields'' False (WSlice cat_PartitionField),
      WField ''SpecId'' ''spec-id'' True (WPtr WInt)]"

definition cat_PartitionStatisticsFile :: wtype where
  "cat_PartitionStatisticsFile =
     WStruct ''PartitionStatisticsFile''
     [WField ''FileSizeInBytes'' ''file-size-in-bytes'' False WInt,
      WField ''SnapshotId'' ''snapshot-id'' False WInt,
      WField ''StatisticsPath'' ''statistics-path'' False WString]"

definition cat_PrimitiveTypeValue :: wtype where
  "cat_PrimitiveTypeValue = WUnion ''PrimitiveTypeValue''"

definition cat_Type :: wtype where
  "cat_Type = WUnion ''Type''"

definition cat_StructField :: wtype where
  "cat_StructField =
     WStruct ''StructField''
     [WField ''Doc'' ''doc'' True (WPtr WString),
      WField ''Id'' ''id'' False WInt,
      WField ''InitialDefault'' ''initial-default'' True (WPtr cat_PrimitiveTypeValue),
      WField ''Name'' ''name'' False WString,
      WField ''Required'' ''required'' False WBool,
      WField ''Type'' ''type'' False cat_Type,
      WField ''WriteDefault'' ''write-default'' True (WPtr cat_PrimitiveTypeValue)]"

definition cat_Schema :: wtype where
  "cat_Schema =
     WStruct ''Schema''
     [WField ''Fields'' ''fields'' False (WSlice cat_StructField),
      WField ''IdentifierFieldIds'' ''identifier-field-ids'' True (WPtr (WSlice WInt)),
      WField ''SchemaId'' ''schema-id'' True (WPtr WInt),
      WField ''Type'' ''type'' False WString]"

definition cat_SnapshotSummaryOperation :: wtype where
  "cat_SnapshotSummaryOperation = WString"

definition cat_Snapshot_Summary :: wtype where
  "cat_Snapshot_Summary = WProps ''Snapshot_Summary'' ''Operation'' ''operation''"

definition cat_Snapshot :: wtype where
  "cat_Snapshot =
     WStruct ''Snapshot''
     [WField ''FirstRowId'' ''first-row-id'' True (WPtr WInt),
      WField ''ManifestList'' ''manifest-list'' False WString,
      WField ''ParentSnapshotId'' ''parent-snapshot-id'' True (WPtr WInt),
      WField ''SchemaId'' ''schema-id'' True (WPtr WInt),
      WField ''SequenceNumber'' ''sequence-number'' True (WPtr WInt),
      WField ''SnapshotId'' ''snapshot-id'' False WInt,
      WField ''Summary'' ''summary'' False cat_Snapshot_Summary,
      WField ''TimestampMs'' ''timestamp-ms'' False WInt]"

definition cat_SnapshotLog :: wtype where
  "cat_SnapshotLog =
     WSlice (WStruct ''SnapshotLog''
     [WField ''SnapshotId'' ''snapshot-id'' False WInt,
      WField ''TimestampMs'' ''timestamp-ms'' False WInt])"

definition cat_SnapshotReferenceType :: wtype where
  "cat_SnapshotReferenceType = WString"

definition cat_SnapshotReference :: wtype where
  "cat_SnapshotReference =
     WStruct ''SnapshotReference''
     [WField ''MaxRefAgeMs'' ''max-ref-age-ms'' True (WPtr WInt),
      WField ''MaxSnapshotAgeMs'' ''max-snapshot-age-ms'' True (WPtr WInt),
      WField ''MinSnapshotsToKeep'' ''min-snapshots-to-keep'' True (WPtr WInt),
      WField ''SnapshotId'' ''snapshot-id'' False WInt,
      WField ''Type'' ''type'' False cat_SnapshotReferenceType]"

definition cat_SnapshotReferences :: wtype where
  "cat_SnapshotReferences = WMap cat_SnapshotReference"

definition cat_NullOrder :: wtype where
  "cat_NullOrder = WString"

definition cat_SortDirection :: wtype where
  "cat_SortDirection = WString"

definition cat_SortField :: wtype where
  "cat_SortField =
     WStruct ''SortField''
     [WField ''Direction'' ''direction'' False cat_SortDirection,
      WField ''NullOrder'' ''null-order'' False cat_NullOrder,
      WField ''SourceId'' ''source-id'' False WInt,
      WField ''Transform'' ''transform'' False cat_Transform]"

definition cat_SortOrder :: wtype where
  "cat_SortOrder =
     WStruct ''SortOrder''
     [WField ''Fields'' ''fields'' False (WSlice cat_SortField),
      WField ''OrderId'' ''order-id'' True (WPtr WInt)]"

definition cat_StatisticsFile :: wtype where
  "cat_StatisticsFile =
     WStruct ''StatisticsFile''
     [WField ''BlobMetadata'' ''blob-metadata'' False (WSlice cat_BlobMetadata),
      WField ''FileFooterSizeInBytes'' ''file-footer-size-in-bytes'' False WInt,
      WField ''FileSizeInBytes'' ''file-size-in-bytes'' False WInt,
      WField ''SnapshotId'' ''snapshot-id'' False WInt,
      WField ''StatisticsPath'' ''statistics-path'' False WString]"

definition cat_TableMetadata :: wtype where
  "cat_TableMetadata =
     WStruct ''TableMetadata''
     [WField ''CurrentSchemaId'' ''current-schema-id'' True (WPtr WInt),
      WField ''CurrentSnapshotId'' ''current-snapshot-id'' True (WPtr WInt),
      WField ''DefaultSortOrderId'' ''default-sort-order-id'' True (WPtr WInt),
      WField ''DefaultSpecId'' ''default-spec-id'' True (WPtr WInt),
      WField ''EncryptionKeys'' ''encryption-keys'' True (WPtr (WSlice cat_EncryptedKey)),
      WField ''FormatVersion'' ''format-version'' False WInt,
      WField ''LastColumnId'' ''last-column-id'' True (WPtr WInt),
      WField ''LastPartitionId'' ''last-partition-id'' True (WPtr WInt),
      WField ''LastSequenceNumber'' ''last-sequence-number'' True (WPtr WInt),
      WField ''LastUpdatedMs'' ''last-updated-ms'' True (WPtr WInt),
      WField ''Location'' ''location'' True (WPtr WString),
      WField ''MetadataLog'' ''metadata-log'' True (WPtr cat_MetadataLog),
      WField ''NextRowId'' ''next-row-id'' True (WPtr WInt),
      WField ''PartitionSpecs'' ''partition-specs'' True (WPtr (WSlice cat_PartitionSpec)),
      WField ''PartitionStatistics'' ''partition-statistics'' True (WPtr (WSlice cat_PartitionStatisticsFile)),
      WField ''Properties'' ''properties'' True (WPtr (WMap WString)),
      WField ''Refs'' ''refs'' True (WPtr cat_SnapshotReferences),
      WField ''Schemas'' ''schemas'' True (WPtr (WSlice cat_Schema)),
      WField ''SnapshotLog'' ''snapshot-log'' True (WPtr cat_SnapshotLog),
      WField ''Snapshots'' ''snapshots'' True (WPtr (WSlice cat_Snapshot)),
      WField ''SortOrders'' ''sort-orders'' True (WPtr (WSlice cat_SortOrder)),
      WField ''Statistics'' ''statistics'' True (WPtr (WSlice cat_StatisticsFile)),
      WField ''TableUuid'' ''table-uuid'' False WString]"

definition cat_CommitTableResponse :: wtype where
  "cat_CommitTableResponse =
     WStruct ''CommitTableResponse''
     [WField ''Metadata'' ''metadata'' False cat_TableMetadata,
      WField ''MetadataLocation'' ''metadata-location'' False WString]"

definition cat_CommitTransactionRequest :: wtype where
  "cat_CommitTransactionRequest =
     WStruct ''CommitTransactionRequest''
     [WField ''TableChanges'' ''table-changes'' False (WSlice cat_CommitTableRequest)]"

definition cat_ViewRequirement :: wtype where
  "cat_ViewRequirement = WUnion ''ViewRequirement''"

definition cat_ViewUpdate :: wtype where
  "cat_ViewUpdate = WUnion ''ViewUpdate''"

definition cat_CommitViewRequest :: wtype where
  "cat_CommitViewRequest =
     WStruct ''CommitViewRequest''
     [WField ''Identifier'' ''identifier'' True (WPtr cat_TableIdentifier),
      WField ''Requirements'' ''requirements'' True (WPtr (WSlice cat_ViewRequirement)),
      WField ''Updates'' ''updates'' False (WSlice cat_ViewUpdate)]"

definition cat_CounterResult :: wtype where
  "cat_CounterResult =
     WStruct ''CounterResult''
     [WField ''Unit'' ''unit'' False WString,
      WField ''Value'' ''value'' False WInt]"

definition cat_CreateNamespaceRequest :: wtype where
  "cat_CreateNamespaceRequest =
     WStruct ''CreateNamespaceRequest''
     [WField ''Namespace'' ''namespace'' False cat_Namespace,
      WField ''Properties'' ''properties'' True (WPtr (WMap WString))]"

definition cat_CreateNamespaceResponse :: wtype where
  "cat_CreateNamespaceResponse =
     WStruct ''CreateNamespaceResponse''
     [WField ''Namespace'' ''namespace'' False cat_Namespace,
      WField ''Properties'' ''properties'' True (WPtr (WMap WString))]"

definition cat_CreatePolicyRequest :: wtype where
  "cat_CreatePolicyRequest =
     WStruct ''CreatePolicyRequest''
     [WField ''Content'' ''content'' True (WPtr WString),
      WField ''Description'' ''description'' True (WPtr WString),
      WField ''Name'' ''name'' False cat_PolicyName,
      WField ''Type'' ''type'' False WString]"

definition cat_CreateTableRequest :: wtype where
  "cat_CreateTableRequest =
     WStruct ''CreateTableRequest''
     [WField ''Location'' ''location'' True (WPtr WString),
      WField ''Name'' ''name'' False WString,
      WField ''PartitionSpec'' ''partition-spec'' True (WPtr cat_PartitionSpec),
      WField ''Properties'' ''properties'' True (WPtr (WMap WString)),
      WField ''Schema'' ''schema'' False cat_Schema,
      WField ''StageCreate'' ''stage-create'' True (WPtr WBool),
      WField ''WriteOrder'' ''write-order'' True (WPtr cat_SortOrder)]"

definition cat_ViewRepresentation :: wtype where
  "cat_ViewRepresentation = WUnion ''ViewRepresentation''"

definition cat_ViewVersion :: wtype where
  "cat_ViewVersion =
     WStruct ''ViewVersion''
     [WField ''DefaultCatalog'' ''default-catalog'' True (WPtr WString),
      WField ''DefaultNamespace'' ''default-namespace'' False cat_Namespace,
      WField ''Representations'' ''representations'' False (WSlice cat_ViewRepresentation),
      WField ''SchemaId'' ''schema-id'' False WInt,
      WField ''Summary'' ''summary'' False (WMap WString),
      WField ''TimestampMs'' ''timestamp-ms'' False WInt,
      WField ''VersionId'' ''version-id'' False WInt]"

definition cat_CreateViewRequest :: wtype where
  "cat_CreateViewRequest =
     WStruct ''CreateViewRequest''
     [WField ''Location'' ''location'' True (WPtr WString),
      WField ''Name'' ''name'' False WString,
      WField ''Properties'' ''properties'' False (WMap WString),
      WField ''Schema'' ''schema'' False cat_Schema,
      WField ''ViewVersion'' ''view-version'' False cat_ViewVersion]"

definition cat_DateTypeValue :: wtype where
  "cat_DateTypeValue = WLib ''openapi_types.Date''"

definition cat_DecimalTypeValue :: wtype where
  "cat_DecimalTypeValue = WString"

definition cat_DetachPolicyRequest :: wtype where
  "cat_DetachPolicyRequest =
     WStruct ''DetachPolicyRequest''
     [WField ''Target'' ''target'' False cat_PolicyAttachmentTarget]"

definition cat_DoubleTypeValue :: wtype where
  "cat_DoubleTypeValue = WLib ''float64''"

definition cat_ErrorModel :: wtype where
  "cat_ErrorModel =
     WStruct ''ErrorModel''
     [WField ''Code'' ''code'' False WInt,
      WField ''Message'' ''message'' False WString,
      WField ''Stack'' ''stack'' True (WPtr (WSlice WString)),
      WField ''Type'' ''type'' False WString]"

definition cat_FalseExpression :: wtype where
  "cat_FalseExpression =
     WStruct ''FalseExpression''
     [WField ''Type'' ''type'' False cat_ExpressionType]"

definition cat_FixedTypeValue :: wtype where
  "cat_FixedTypeValue = WString"

definition cat_FloatTypeValue :: wtype where
  "cat_FloatTypeValue = WLib ''float32''"

definition cat_PageToken :: wtype where
  "cat_PageToken = WString"

definition cat_GetApplicablePoliciesResponse :: wtype where
  "cat_GetApplicablePoliciesResponse =
     WStruct ''GetApplicablePoliciesResponse''
     [WField ''ApplicablePolicies'' ''applicable-policies'' False (WSlice cat_ApplicablePolicy),
      WField ''NextPageToken'' ''next-page-token'' True (WPtr cat_PageToken)]"

definition cat_GetNamespaceResponse :: wtype where
  "cat_GetNamespaceResponse =
     WStruct ''GetNamespaceResponse''
     [WField ''Namespace'' ''namespace'' False cat_Namespace,
      WField ''Properties'' ''properties'' True (WPtr (WMap WString))]"

definition cat_IcebergErrorResponse :: wtype where
  "cat_IcebergErrorResponse =
     WStruct ''IcebergErrorResponse''
     [WField ''Error'' ''error'' False cat_ErrorModel]"

definition cat_IntegerTypeValue :: wtype where
  "cat_IntegerTypeValue = WInt"

definition cat_ListNamespacesResponse :: wtype where
  "cat_ListNamespacesResponse =
     WStruct ''ListNamespacesResponse''
     [WField ''Namespaces'' ''namespaces'' True (WPtr (WSlice cat_Namespace)),
      WField ''NextPageToken'' ''next-page-token'' True (WPtr cat_PageToken)]"

definition cat_PolicyIdentifier :: wtype where
  "cat_PolicyIdentifier =
     WStruct ''PolicyIdentifier''
     [WField ''Name'' ''name'' False WString,
      WField ''Namespace'' ''namespace'' False cat_Namespace]"

definition cat_ListPoliciesResponse :: wtype where
  "cat_ListPoliciesResponse =
     WStruct ''ListPoliciesResponse''
     [WField ''Identifiers'' ''identifiers'' True (WPtr (WSlice cat_PolicyIdentifier)),
      WField ''NextPageToken'' ''next-page-token'' True (WPtr cat_PageToken)]"

definition cat_ListTablesResponse :: wtype where
  "cat_ListTablesResponse =
     WStruct ''ListTablesResponse''
     [WField ''Identifiers'' ''identifiers'' True (WPtr (WSlice cat_TableIdentifier)),
      WField ''NextPageToken'' ''next-page-token'' True (WPtr cat_PageToken)]"

definition cat_ListType :: wtype where
  "cat_ListType =
     WStruct ''ListType''
     [WField ''Element'' ''element'' False cat_Type,
      WField ''ElementId'' ''element-id'' False WInt,
      WField ''ElementRequired'' ''element-required'' False WBool,
      WField ''Type'' ''type'' False WString]"

definition cat_Term :: wtype where
  "cat_Term = WUnion ''Term''"

definition cat_LiteralExpression :: wtype where
  "cat_LiteralExpression =
     WStruct ''LiteralExpression''
     [WField ''Term'' ''term'' False cat_Term,
      WField ''Type'' ''type'' False cat_ExpressionType,
      WField ''Value'' ''value'' False (WMap (WLib ''interface {}''))]"

definition cat_StorageCredential :: wtype where
  "cat_StorageCredential =
     WStruct ''StorageCredential''
     [WField ''Config'' ''config'' False (WMap WString),
      WField ''Prefix'' ''prefix'' False WString]"

definition cat_LoadCredentialsResponse :: wtype where
  "cat_LoadCredentialsResponse =
     WStruct ''LoadCredentialsResponse''
     [WField ''StorageCredentials'' ''storage-credentials'' False (WSlice cat_StorageCredential)]"

definition cat_Policy :: wtype where
  "cat_Policy =
     WStruct ''Policy''
     [WField ''Content'' ''content'' True (WPtr WString),
      WField ''Description'' ''description'' True (WPtr WString),
      WField ''Inheritable'' ''inheritable'' False WBool,
      WField ''Name'' ''name'' False cat_PolicyName,
      WField ''PolicyType'' ''policy-type'' False WString,
      WField ''Version'' ''version'' False WInt]"

definition cat_LoadPolicyResponse :: wtype where
  "cat_LoadPolicyResponse =
     WStruct ''LoadPolicyResponse''
     [WField ''Policy'' ''policy'' True (WPtr cat_Policy)]"

definition cat_LoadTableResult :: wtype where
  "cat_LoadTableResult =
     WStruct ''LoadTableResult''
     [WField ''Config'' ''config'' True (WPtr (WMap WString)),
      WField ''Metadata'' ''metadata'' False cat_TableMetadata,
      WField ''MetadataLocation'' ''metadata-location'' True (WPtr WString),
      WField ''StorageCredentials'' ''storage-credentials'' True (WPtr (WSlice cat_StorageCredential))]"

definition cat_ViewHistoryEntry :: wtype where
  "cat_ViewHistoryEntry =
     WStruct ''ViewHistoryEntry''
     [WField ''TimestampMs'' ''timestamp-ms'' False WInt,
      WField ''VersionId'' ''version-id'' False WInt]"

definition cat_ViewMetadata :: wtype where
  "cat_ViewMetadata =
     WStruct ''ViewMetadata''
     [WField ''CurrentVersionId'' ''current-version-id'' False WInt,
      WField ''FormatVersion'' ''format-version'' False WInt,
      WField ''Location'' ''location'' False WString,
      WField ''Properties'' ''properties'' True (WPtr (WMap WString)),
      WField ''Schemas'' ''schemas'' False (WSlice cat_Schema),
      WField ''VersionLog'' ''version-log'' False (WSlice cat_ViewHistoryEntry),
      WField ''Versions'' ''versions'' False (WSlice cat_ViewVersion),
      WField ''ViewUuid'' ''view-uuid'' False WString]"

definition cat_LoadViewResult :: wtype where
  "cat_LoadViewResult =
     WStruct ''LoadViewResult''
     [WField ''Config'' ''config'' True (WPtr (WMap WString)),
      WField ''Metadata'' ''metadata'' False cat_ViewMetadata,
      WField ''MetadataLocation'' ''metadata-location'' False WString]"

definition cat_LongTypeValue :: wtype where
  "cat_LongTypeValue = WInt"

definition cat_MapType :: wtype where
  "cat_MapType =
     WStruct ''MapType''
     [WField ''Key'' ''key'' False cat_Type,
      WField ''KeyId'' ''key-id'' False WInt,
      WField ''Type'' ''type'' False WString,
      WField ''Value'' ''value'' False cat_Type,
      WField ''ValueId'' ''value-id'' False WInt,
      WField ''ValueRequired'' ''value-required'' False WBool]"

definition cat_NotExpression :: wtype where
  "cat_NotExpression =
     WStruct ''NotExpression''
     [WField ''Child'' ''child'' False cat_Expression,
      WField ''Type'' ''type'' False cat_ExpressionType]"

definition cat_NotificationType :: wtype where
  "cat_NotificationType = WString"

definition cat_TableUpdateNotification :: wtype where
  "cat_TableUpdateNotification =
     WStruct ''TableUpdateNotification''
     [WField ''Metadata'' ''metadata'' True (WPtr cat_TableMetadata),
      WField ''MetadataLocation'' ''metadata-location'' False WString,
      WField ''TableName'' ''table-name'' False WString,
      WField ''TableUuid'' ''table-uuid'' False WString,
      WField ''Timestamp'' ''timestamp'' False WInt]"

definition cat_NotificationRequest :: wtype where
  "cat_NotificationRequest =
     WStruct ''NotificationRequest''
     [WField ''NotificationType'' ''notification-type'' False cat_NotificationType,
      WField ''Payload'' ''payload'' False cat_TableUpdateNotification]"

definition cat_OAuthClientCredentialsRequestGrantType :: wtype where
  "cat_OAuthClientCredentialsRequestGrantType = WString"

definition cat_OAuthClientCredentialsRequest :: wtype where
  "cat_OAuthClientCredentialsRequest =
     WStruct ''OAuthClientCredentialsRequest''
     [WField ''ClientId'' ''client_id'' False WString,
      WField ''ClientSecret'' ''client_secret'' False WString,
      WField ''GrantType'' ''grant_type'' False cat_OAuthClientCredentialsRequestGrantType,
      WField ''Scope'' ''scope'' True (WPtr WString)]"

definition cat_OAuthErrorError :: wtype where
  "cat_OAuthErrorError = WString"

definition cat_OAuthError :: wtype where
  "cat_OAuthError =
     WStruct ''OAuthError''
     [WField ''Error'' ''error'' False cat_OAuthErrorError,
      WField ''ErrorDescription'' ''error_description'' True (WPtr WString),
      WField ''ErrorUri'' ''error_uri'' True (WPtr WString)]"

definition cat_OAuthTokenExchangeRequestGrantType :: wtype where
  "cat_OAuthTokenExchangeRequestGrantType = WString"

definition cat_TokenType :: wtype where
  "cat_TokenType = WString"

definition cat_OAuthTokenExchangeRequest :: wtype where
  "cat_OAuthTokenExchangeRequest =
     WStruct ''OAuthTokenExchangeRequest''
     [WField ''ActorToken'' ''actor_token'' True (WPtr WString),
      WField ''ActorTokenType'' ''actor_token_type'' True (WPtr cat_TokenType),
      WField ''GrantType'' ''grant_type'' False cat_OAuthTokenExchangeRequestGrantType,
      WField ''RequestedTokenType'' ''requested_token_type'' True (WPtr cat_TokenType),
      WField ''Scope'' ''scope'' True (WPtr WString),
      WField ''SubjectToken'' ''subject_token'' False WString,
      WField ''SubjectTokenType'' ''subject_token_type'' False cat_TokenType]"

definition cat_OAuthTokenRequest :: wtype where
  "cat_OAuthTokenRequest = WUnion ''OAuthTokenRequest''"

definition cat_OAuthTokenResponseTokenType :: wtype where
  "cat_OAuthTokenResponseTokenType = WString"

definition cat_OAuthTokenResponse :: wtype where
  "cat_OAuthTokenResponse =
     WStruct ''OAuthTokenResponse''
     [WField ''AccessToken'' ''access_token'' False WString,
      WField ''ExpiresIn'' ''expires_in'' True (WPtr WInt),
      WField ''IssuedTokenType'' ''issued_token_type'' True (WPtr cat_TokenType),
      WField ''RefreshToken'' ''refresh_token'' True (WPtr WString),
      WField ''Scope'' ''scope'' True (WPtr WString),
      WField ''TokenType'' ''token_type'' False cat_OAuthTokenResponseTokenType]"

definition cat_PolicyType :: wtype where
  "cat_PolicyType = WString"

definition cat_PrimitiveType :: wtype where
  "cat_PrimitiveType = WString"

definition cat_Reference :: wtype where
  "cat_Reference = WString"

definition cat_RegisterTableRequest :: wtype where
  "cat_RegisterTableRequest =
     WStruct ''RegisterTableRequest''
     [WField ''MetadataLocation'' ''metadata-location'' False WString,
      WField ''Name'' ''name'' False WString,
      WField ''Overwrite'' ''overwrite'' True (WPtr WBool)]"

definition cat_RemoveEncryptionKeyUpdate :: wtype where
  "cat_RemoveEncryptionKeyUpdate = cat_BaseUpdate"

definition cat_RemovePartitionSpecsUpdate :: wtype where
  "cat_RemovePartitionSpecsUpdate = cat_BaseUpdate"

definition cat_RemovePropertiesUpdate :: wtype where
  "cat_RemovePropertiesUpdate = cat_BaseUpdate"

definition cat_RemoveSchemasUpdate :: wtype where
  "cat_RemoveSchemasUpdate = cat_BaseUpdate"

definition cat_RemoveSnapshotRefUpdate :: wtype where
  "cat_RemoveSnapshotRefUpdate = cat_BaseUpdate"

definition cat_RemoveSnapshotsUpdate :: wtype where
  "cat_RemoveSnapshotsUpdate = cat_BaseUpdate"

definition cat_RemoveStatisticsUpdate :: wtype where
  "cat_RemoveStatisticsUpdate = cat_BaseUpdate"

definition cat_RenameTableRequest :: wtype where
  "cat_RenameTableRequest =
     WStruct ''RenameTableRequest''
     [WField ''Destination'' ''destination'' False cat_TableIdentifier,
      WField ''Source'' ''source'' False cat_TableIdentifier]"

definition cat_ReportMetricsRequest :: wtype where
  "cat_ReportMetricsRequest = WTagged ''ReportMetricsRequest'' ''ReportType'' ''report-type''"

definition cat_SQLViewRepresentation :: wtype where
  "cat_SQLViewRepresentation =
     WStruct ''SQLViewRepresentation''
     [WField ''Dialect'' ''dialect'' False WString,
      WField ''Sql'' ''sql'' False WString,
      WField ''Type'' ''type'' False WString]"

definition cat_ScanReport :: wtype where
  "cat_ScanReport =
     WStruct ''ScanReport''
     [WField ''Filter'' ''filter'' False cat_Expression,
      WField ''Metadata'' ''metadata'' True (WPtr (WMap WString)),
      WField ''Metrics'' ''metrics'' False cat_Metrics,
      WField ''ProjectedFieldIds'' ''projected-field-ids'' False (WSlice WInt),
      WField ''ProjectedFieldNames'' ''projected-field-names'' False (WSlice WString),
      WField ''SchemaId'' ''schema-id'' False WInt,
      WField ''SnapshotId'' ''snapshot-id'' False WInt,
      WField ''TableName'' ''table-name'' False WString]"

definition cat_SetCurrentSchemaUpdate :: wtype where
  "cat_SetCurrentSchemaUpdate = cat_BaseUpdate"

definition cat_SetCurrentViewVersionUpdate :: wtype where
  "cat_SetCurrentViewVersionUpdate = cat_BaseUpdate"

definition cat_SetDefaultSortOrderUpdate :: wtype where
  "cat_SetDefaultSortOrderUpdate = cat_BaseUpdate"

definition cat_SetDefaultSpecUpdate :: wtype where
  "cat_SetDefaultSpecUpdate = cat_BaseUpdate"

definition cat_SetExpression :: wtype where
  "cat_SetExpression =
     WStruct ''SetExpression''
     [WField ''Term'' ''term'' False cat_Term,
      WField ''Type'' ''type'' False cat_ExpressionType,
      WField ''Values'' ''values'' False (WSlice (WMap (WLib ''interface {}'')))]"

definition cat_SetLocationUpdate :: wtype where
  "cat_SetLocationUpdate = cat_BaseUpdate"

definition cat_SetPropertiesUpdate :: wtype where
  "cat_SetPropertiesUpdate = cat_BaseUpdate"

definition cat_SetSnapshotRefUpdateType :: wtype where
  "cat_SetSnapshotRefUpdateType = WString"

definition cat_SetSnapshotRefUpdate :: wtype where
  "cat_SetSnapshotRefUpdate =
     WStruct ''SetSnapshotRefUpdate''
     [WField ''Action'' ''action'' False WString,
      WField ''MaxRefAgeMs'' ''max-ref-age-ms'' True (WPtr WInt),
      WField ''MaxSnapshotAgeMs'' ''max-snapshot-age-ms'' True (WPtr WInt),
      WField ''MinSnapshotsToKeep'' ''min-snapshots-to-keep'' True (WPtr WInt),
      WField ''SnapshotId'' ''snapshot-id'' False WInt,
      WField ''Type'' ''type'' False cat_SetSnapshotRefUpdateType]"

definition cat_SetStatisticsUpdate :: wtype where
  "cat_SetStatisticsUpdate = cat_BaseUpdate"

definition cat_StringTypeValue :: wtype where
  "cat_StringTypeValue = WString"

definition cat_StructType :: wtype where
  "cat_StructType =
     WStruct ''StructType''
     [WField ''Fields'' ''fields'' False (WSlice cat_StructField),
      WField ''Type'' ''type'' False WString]"

definition cat_TimeTypeValue :: wtype where
  "cat_TimeTypeValue = WString"

definition cat_TimerResult :: wtype where
  "cat_TimerResult =
     WStruct ''TimerResult''
     [WField ''Count'' ''count'' False WInt,
      WField ''TimeUnit'' ''time-unit'' False WString,
      WField ''TotalDuration'' ''total-duration'' False WInt]"

definition cat_TimestampNanoTypeValue :: wtype where
  "cat_TimestampNanoTypeValue = WString"

definition cat_TimestampTypeValue :: wtype where
  "cat_TimestampTypeValue = WString"

definition cat_TimestampTzNanoTypeValue :: wtype where
  "cat_TimestampTzNanoTypeValue = WString"

definition cat_TimestampTzTypeValue :: wtype where
  "cat_TimestampTzTypeValue = WString"

definition cat_TransformTerm :: wtype where
  "cat_TransformTerm =
     WStruct ''TransformTerm''
     [WField ''Term'' ''term'' False cat_Reference,
      WField ''Transform'' ''transform'' False cat_Transform,
      WField ''Type'' ''type'' False WString]"

definition cat_TrueExpression :: wtype where
  "cat_TrueExpression =
     WStruct ''TrueExpression''
     [WField ''Type'' ''type'' False cat_ExpressionType]"

definition cat_UUIDTypeValue :: wtype where
  "cat_UUIDTypeValue = WLib ''openapi_types.UUID''"

definition cat_UnaryExpression :: wtype where
  "cat_UnaryExpression =
     WStruct ''UnaryExpression''
     [WField ''Term'' ''term'' False cat_Term,
      WField ''Type'' ''type'' False cat_ExpressionType,
      WField ''Value'' ''value'' False (WMap (WLib ''interface {}''))]"

definition cat_UpdateNamespacePropertiesRequest :: wtype where
  "cat_UpdateNamespacePropertiesRequest =
     WStruct ''UpdateNamespacePropertiesRequest''
     [WField ''Removals'' ''removals'' True (WPtr (WSlice WString)),
      WField ''Updates'' ''updates'' True (WPtr (WMap WString))]"

definition cat_UpdateNamespacePropertiesResponse :: wtype where
  "cat_UpdateNamespacePropertiesResponse =
     WStruct ''UpdateNamespacePropertiesResponse''
     [WField ''Missing'' ''missing'' True (WPtr (WSlice WString)),
      WField ''Removed'' ''removed'' False (WSlice WString),
      WField ''Updated'' ''updated'' False (WSlice WString)]"

definition cat_UpdatePolicyRequest :: wtype where
  "cat_UpdatePolicyRequest =
     WStruct ''UpdatePolicyRequest''
     [WField ''Content'' ''content'' True (WPtr WString),
      WField ''CurrentPolicyVersion'' ''current-policy-version'' True (WPtr WInt),
      WField ''Description'' ''description'' True (WPtr WString)]"

definition cat_UpgradeFormatVersionUpdate :: wtype where
  "cat_UpgradeFormatVersionUpdate = cat_BaseUpdate"

definition cat_DataAccess :: wtype where
  "cat_DataAccess = WString"

definition cat_GenericTable :: wtype where
  "cat_GenericTable = WString"

definition cat_NsParam :: wtype where
  "cat_NsParam = WString"

definition cat_PageSize :: wtype where
  "cat_PageSize = WInt"

definition cat_Prefix :: wtype where
  "cat_Prefix = WString"

definition cat_Table :: wtype where
  "cat_Table = WString"

definition cat_View :: wtype where
  "cat_View = WString"

definition cat_AuthenticationTimeoutResponse :: wtype where
  "cat_AuthenticationTimeoutResponse = cat_IcebergErrorResponse"

definition cat_BadRequestErrorResponse :: wtype where
  "cat_BadRequestErrorResponse = cat_IcebergErrorResponse"

definition cat_CreatePolicyResponse :: wtype where
  "cat_CreatePolicyResponse = cat_LoadPolicyResponse"

definition cat_CreateTableResponse :: wtype where
  "cat_CreateTableResponse = cat_LoadTableResult"

definition cat_ForbiddenResponse :: wtype where
  "cat_ForbiddenResponse = cat_IcebergErrorResponse"

definition cat_LoadTableResponse :: wtype where
  "cat_LoadTableResponse = cat_LoadTableResult"

definition cat_LoadViewResponse :: wtype where
  "cat_LoadViewResponse = cat_LoadViewResult"

definition cat_OAuthErrorResponse :: wtype where
  "cat_OAuthErrorResponse = cat_OAuthError"

definition cat_ServerErrorResponse :: wtype where
  "cat_ServerErrorResponse = cat_IcebergErrorResponse"

definition cat_ServiceUnavailableResponse :: wtype where
  "cat_ServiceUnavailableResponse = cat_IcebergErrorResponse"

definition cat_UnauthorizedResponse :: wtype where
  "cat_UnauthorizedResponse = cat_IcebergErrorResponse"

definition cat_UnsupportedOperationResponse :: wtype where
  "cat_UnsupportedOperationResponse = cat_ErrorModel"

definition cat_UpdatePolicyResponse :: wtype where
  "cat_UpdatePolicyResponse = cat_LoadPolicyResponse"

definition cat_GetApplicablePoliciesParams :: wtype where
  "cat_GetApplicablePoliciesParams =
     WStruct ''GetApplicablePoliciesParams''
     [WField ''PageToken'' ''pageToken'' True (WPtr cat_PageToken),
      WField ''PageSize'' ''pageSize'' True (WPtr cat_PageSize),
      WField ''Namespace'' ''namespace'' True (WPtr WString),
      WField ''TargetName'' ''target-name'' True (WPtr WString),
      WField ''PolicyType'' ''policyType'' True (WPtr cat_PolicyType)]"

definition cat_ListPoliciesParams :: wtype where
  "cat_ListPoliciesParams =
     WStruct ''ListPoliciesParams''
     [WField ''PageToken'' ''pageToken'' True (WPtr cat_PageToken),
      WField ''PageSize'' ''pageSize'' True (WPtr cat_PageSize),
      WField ''PolicyType'' ''policyType'' True (WPtr cat_PolicyType)]"

definition cat_DropPolicyParams :: wtype where
  "cat_DropPolicyParams =
     WStruct ''DropPolicyParams''
     [WField ''DetachAll'' ''detach-all'' True (WPtr WBool)]"

definition cat_GetConfigParams :: wtype where
  "cat_GetConfigParams =
     WStruct ''GetConfigParams''
     [WField ''Warehouse'' ''warehouse'' True (WPtr WString)]"

definition cat_GetTokenParams :: wtype where
  "cat_GetTokenParams =
     WStruct ''GetTokenParams''
     [WField ''Authorization'' ''Authorization'' True (WPtr WString)]"

definition cat_ListNamespacesParams :: wtype where
  "cat_ListNamespacesParams =
     WStruct ''ListNamespacesParams''
     [WField ''PageToken'' ''pageToken'' True (WPtr cat_PageToken),
      WField ''PageSize'' ''pageSize'' True (WPtr cat_PageSize),
      WField ''Parent'' ''parent'' True (WPtr WString)]"

definition cat_ListTablesParams :: wtype where
  "cat_ListTablesParams =
     WStruct ''ListTablesParams''
     [WField ''PageToken'' ''pageToken'' True (WPtr cat_PageToken),
      WField ''PageSize'' ''pageSize'' True (WPtr cat_PageSize)]"

definition cat_CreateTableParamsXIcebergAccessDelegation :: wtype where
  "cat_CreateTableParamsXIcebergAccessDelegation = WString"

definition cat_CreateTableParams :: wtype where
  "cat_CreateTableParams =
     WStruct ''CreateTableParams''
     [WField ''XIcebergAccessDelegation'' ''X-Iceberg-Access-Delegation'' True (WPtr cat_CreateTableParamsXIcebergAccessDelegation)]"

definition cat_DropTableParams :: wtype where
  "cat_DropTableParams =
     WStruct ''DropTableParams''
     [WField ''PurgeRequested'' ''purgeRequested'' True (WPtr WBool)]"

definition cat_LoadTableParamsSnapshots :: wtype where
  "cat_LoadTableParamsSnapshots = WString"

definition cat_LoadTableParamsXIcebergAccessDelegation :: wtype where
  "cat_LoadTableParamsXIcebergAccessDelegation = WString"

definition cat_LoadTableParams :: wtype where
  "cat_LoadTableParams =
     WStruct ''LoadTableParams''
     [WField ''Snapshots'' ''snapshots'' True (WPtr cat_LoadTableParamsSnapshots),
      WField ''XIcebergAccessDelegation'' ''X-Iceberg-Access-Delegation'' True (WPtr cat_LoadTableParamsXIcebergAccessDelegation),
      WField ''IfNoneMatch'' ''If-None-Match'' True (WPtr WString)]"

definition cat_ListViewsParams :: wtype where
  "cat_ListViewsParams =
     WStruct ''ListViewsParams''
     [WField ''PageToken'' ''pageToken'' True (WPtr cat_PageToken),
      WField ''PageSize'' ''pageSize'' True (WPtr cat_PageSize)]"

definition cat_CreatePolicyJSONRequestBody :: wtype where
  "cat_CreatePolicyJSONRequestBody = cat_CreatePolicyRequest"

definition cat_UpdatePolicyJSONRequestBody :: wtype where
  "cat_UpdatePolicyJSONRequestBody = cat_UpdatePolicyRequest"

definition cat_DetachPolicyJSONRequestBody :: wtype where
  "cat_DetachPolicyJSONRequestBody = cat_DetachPolicyRequest"

definition cat_AttachPolicyJSONRequestBody :: wtype where
  "cat_AttachPolicyJSONRequestBody = cat_AttachPolicyRequest"

definition cat_GetTokenFormdataRequestBody :: wtype where
  "cat_GetTokenFormdataRequestBody = cat_OAuthTokenRequest"

definition cat_CreateNamespaceJSONRequestBody :: wtype where
  "cat_CreateNamespaceJSONRequestBody = cat_CreateNamespaceRequest"

definition cat_UpdatePropertiesJSONRequestBody :: wtype where
  "cat_UpdatePropertiesJSONRequestBody = cat_UpdateNamespacePropertiesRequest"

definition cat_RegisterTableJSONRequestBody :: wtype where
  "cat_RegisterTableJSONRequestBody = cat_RegisterTableRequest"

definition cat_CreateTableJSONRequestBody :: wtype where
  "cat_CreateTableJSONRequestBody = cat_CreateTableRequest"

definition cat_UpdateTableJSONRequestBody :: wtype where
  "cat_UpdateTableJSONRequestBody = cat_CommitTableRequest"

definition cat_ReportMetricsJSONRequestBody :: wtype where
  "cat_ReportMetricsJSONRequestBody = cat_ReportMetricsRequest"

definition cat_SendNotificationJSONRequestBody :: wtype where
  "cat_SendNotificationJSONRequestBody = cat_NotificationRequest"

definition cat_CreateViewJSONRequestBody :: wtype where
  "cat_CreateViewJSONRequestBody = cat_CreateViewRequest"

definition cat_ReplaceViewJSONRequestBody :: wtype where
  "cat_ReplaceViewJSONRequestBody = cat_CommitViewRequest"

definition cat_RenameTableJSONRequestBody :: wtype where
  "cat_RenameTableJSONRequestBody = cat_RenameTableRequest"

definition cat_CommitTransactionJSONRequestBody :: wtype where
  "cat_CommitTransactionJSONRequestBody = cat_CommitTransactionRequest"

definition cat_RenameViewJSONRequestBody :: wtype where
  "cat_RenameViewJSONRequestBody = cat_RenameTableRequest"

definition cat_NotificationType_values :: "string list" where
  "cat_NotificationType_values =
     [''CREATE'',
      ''DROP'',
      ''UNKNOWN'',
      ''UPDATE'',
      ''VALIDATE'']"

definition cat_NotificationType_Valid :: "string \<Rightarrow> bool" where
  "cat_NotificationType_Valid e =
     (if e = ''CREATE'' then True else
      if e = ''DROP'' then True else
      if e = ''UNKNOWN'' then True else
      if e = ''UPDATE'' then True else
      if e = ''VALIDATE'' then True else False)"

definition cat_NullOrder_values :: "string list" where
  "cat_NullOrder_values =
     [''nulls-first'',
      ''nulls-last'']"

definition cat_NullOrder_Valid :: "string \<Rightarrow> bool" where
  "cat_NullOrder_Valid e =
     (if e = ''nulls-first'' then True else
      if e = ''nulls-last'' then True else False)"

definition cat_OAuthClientCredentialsRequestGrantType_values :: "string list" where
  "cat_OAuthClientCredentialsRequestGrantType_values =
     [''client_credentials'']"

definition cat_OAuthClientCredentialsRequestGrantType_Valid :: "string \<Rightarrow> bool" where
  "cat_OAuthClientCredentialsRequestGrantType_Valid e =
     (if e = ''client_credentials'' then True else False)"

definition cat_OAuthErrorError_values :: "string list" where
  "cat_OAuthErrorError_values =
     [''invalid_client'',
      ''invalid_grant'',
      ''invalid_request'',
      ''invalid_scope'',
      ''unauthorized_client'',
      ''unsupported_grant_type'']"

definition cat_OAuthErrorError_Valid :: "string \<Rightarrow> bool" where
  "cat_OAuthErrorError_Valid e =
     (if e = ''invalid_client'' then True else
      if e = ''invalid_grant'' then True else
      if e = ''invalid_request'' then True else
      if e = ''invalid_scope'' then True else
      if e = ''unauthorized_client'' then True else
      if e = ''unsupported_grant_type'' then True else False)"

definition cat_OAuthTokenExchangeRequestGrantType_values :: "string list" where
  "cat_OAuthTokenExchangeRequestGrantType_values =
     [''urn:ietf:params:oauth:grant-type:token-exchange'']"

definition cat_OAuthTokenExchangeRequestGrantType_Valid :: "string \<Rightarrow> bool" where
  "cat_OAuthTokenExchangeRequestGrantType_Valid e =
     (if e = ''urn:ietf:params:oauth:grant-type:token-exchange'' then True else False)"

definition cat_OAuthTokenResponseTokenType_values :: "string list" where
  "cat_OAuthTokenResponseTokenType_values =
     [''bearer'',
      ''mac'',
      ''N_A'']"

definition cat_OAuthTokenResponseTokenType_Valid :: "string \<Rightarrow> bool" where
  "cat_OAuthTokenResponseTokenType_Valid e =
     (if e = ''bearer'' then True else
      if e = ''mac'' then True else
      if e = ''N_A'' then True else False)"

definition cat_PolicyAttachmentTargetType_values :: "string list" where
  "cat_PolicyAttachmentTargetType_values =
     [''catalog'',
      ''namespace'',
      ''table-like'']"

definition cat_PolicyAttachmentTargetType_Valid :: "string \<Rightarrow> bool" where
  "cat_PolicyAttachmentTargetType_Valid e =
     (if e = ''catalog'' then True else
      if e = ''namespace'' then True else
      if e = ''table-like'' then True else False)"

definition cat_SetSnapshotRefUpdateType_values :: "string list" where
  "cat_SetSnapshotRefUpdateType_values =
     [''branch'',
      ''tag'']"

definition cat_SetSnapshotRefUpdateType_Valid :: "string \<Rightarrow> bool" where
  "cat_SetSnapshotRefUpdateType_Valid e =
     (if e = ''branch'' then True else
      if e = ''tag'' then True else False)"

definition cat_SnapshotSummaryOperation_values :: "string list" where
  "cat_SnapshotSummaryOperation_values =
     [''append'',
      ''delete'',
      ''overwrite'',
      ''replace'']"

definition cat_SnapshotSummaryOperation_Valid :: "string \<Rightarrow> bool" where
  "cat_SnapshotSummaryOperation_Valid e =
     (if e = ''append'' then True else
      if e = ''delete'' then True else
      if e = ''overwrite'' then True else
      if e = ''replace'' then True else False)"

definition cat_SnapshotReferenceType_values :: "string list" where
  "cat_SnapshotReferenceType_values =
     [''branch'',
      ''tag'']"

definition cat_SnapshotReferenceType_Valid :: "string \<Rightarrow> bool" where
  "cat_SnapshotReferenceType_Valid e =
     (if e = ''branch'' then True else
      if e = ''tag'' then True else False)"

definition cat_SortDirection_values :: "string list" where
  "cat_SortDirection_values =
     [''asc'',
      ''desc'']"

definition cat_SortDirection_Valid :: "string \<Rightarrow> bool" where
  "cat_SortDirection_Valid e =
     (if e = ''asc'' then True else
      if e = ''desc'' then True else False)"

definition cat_TokenType_values :: "string list" where
  "cat_TokenType_values =
     [''urn:ietf:params:oauth:token-type:access_token'',
      ''urn:ietf:params:oauth:token-type:id_token'',
      ''urn:ietf:params:oauth:token-type:jwt'',
      ''urn:ietf:params:oauth:token-type:refresh_token'',
      ''urn:ietf:params:oauth:token-type:saml1'',
      ''urn:ietf:params:oauth:token-type:saml2'']"

definition cat_TokenType_Valid :: "string \<Rightarrow> bool" where
  "cat_TokenType_Valid e =
     (if e = ''urn:ietf:params:oauth:token-type:access_token'' then True else
      if e = ''urn:ietf:params:oauth:token-type:id_token'' then True else
      if e = ''urn:ietf:params:oauth:token-type:jwt'' then True else
      if e = ''urn:ietf:params:oauth:token-type:refresh_token'' then True else
      if e = ''urn:ietf:params:oauth:token-type:saml1'' then True else
      if e = ''urn:ietf:params:oauth:token-type:saml2'' then True else False)"

definition cat_DataAccess_values :: "string list" where
  "cat_DataAccess_values =
     [''remote-signing'',
      ''vended-credentials'']"

definition cat_DataAccess_Valid :: "string \<Rightarrow> bool" where
  "cat_DataAccess_Valid e =
     (if e = ''remote-signing'' then True else
      if e = ''vended-credentials'' then True else False)"

definition cat_CreateTableParamsXIcebergAccessDelegation_values :: "string list" where
  "cat_CreateTableParamsXIcebergAccessDelegation_values =
     [''remote-signing'',
      ''vended-credentials'']"

definition cat_CreateTableParamsXIcebergAccessDelegation_Valid :: "string \<Rightarrow> bool" where
  "cat_CreateTableParamsXIcebergAccessDelegation_Valid e =
     (if e = ''remote-signing'' then True else
      if e = ''vended-credentials'' then True else False)"

definition cat_LoadTableParamsSnapshots_values :: "string list" where
  "cat_LoadTableParamsSnapshots_values =
     [''all'',
      ''refs'']"

definition cat_LoadTableParamsSnapshots_Valid :: "string \<Rightarrow> bool" where
  "cat_LoadTableParamsSnapshots_Valid e =
     (if e = ''all'' then True else
      if e = ''refs'' then True else False)"

definition cat_LoadTableParamsXIcebergAccessDelegation_values :: "string list" where
  "cat_LoadTableParamsXIcebergAccessDelegation_values =
     [''remote-signing'',
      ''vended-credentials'']"

definition cat_LoadTableParamsXIcebergAccessDelegation_Valid :: "string \<Rightarrow> bool" where
  "cat_LoadTableParamsXIcebergAccessDelegation_Valid e =
     (if e = ''remote-signing'' then True else
      if e = ''vended-credentials'' then True else False)"

definition cat_Snapshot_Summary_Get :: "wval \<Rightarrow> string \<Rightarrow> wval \<times> bool" where
  "cat_Snapshot_Summary_Get a fieldn = props_Get a fieldn"

definition cat_Snapshot_Summary_Set :: "wval \<Rightarrow> string \<Rightarrow> wval \<Rightarrow> wval" where
  "cat_Snapshot_Summary_Set a fieldn v = props_Set a fieldn v"

definition cat_Snapshot_Summary_UnmarshalJSON :: decoder where
  "cat_Snapshot_Summary_UnmarshalJSON = props_UnmarshalJSON ''Operation'' ''operation''"

definition cat_Snapshot_Summary_MarshalJSON :: "wval \<Rightarrow> goerr + json" where
  "cat_Snapshot_Summary_MarshalJSON = props_MarshalJSON ''Operation'' ''operation''"

end
