(* ===== verification/Catalog_Unions.thy ===== *)
theory Catalog_Unions
  imports Catalog_Types
begin

text \<open>
  The accessors of the unions of \<open>internal/polaris/catalog/zz_generated.gen.go\<close>: a union \<open>T\<close> with a
  variant \<open>V\<close> has \<open>cat_T_AsV\<close>, \<open>cat_T_FromV\<close> and \<open>cat_T_MergeV\<close>; then its JSON methods.
\<close>

definition cat_Expression_AsTrueExpression :: "jlib \<Rightarrow> wval \<Rightarrow> goerr + wval" where
  "cat_Expression_AsTrueExpression L t = union_As L cat_TrueExpression t"

definition cat_Expression_FromTrueExpression :: "wval \<Rightarrow> wval \<Rightarrow> goerr option \<times> wval" where
  "cat_Expression_FromTrueExpression t v = union_From cat_TrueExpression t v"

definition cat_Expression_MergeTrueExpression :: "jlib \<Rightarrow> wval \<Rightarrow> wval \<Rightarrow> goerr option \<times> wval" where
  "cat_Expression_MergeTrueExpression L t v = union_Merge L cat_TrueExpression t v"

definition cat_Expression_AsFalseExpression :: "jlib \<Rightarrow> wval \<Rightarrow> goerr + wval" where
  "cat_Expression_AsFalseExpression L t = union_As L cat_FalseExpression t"

definition cat_Expression_FromFalseExpression :: "wval \<Rightarrow> wval \<Rightarrow> goerr option \<times> wval" where
  "cat_Expression_FromFalseExpression t v = union_From cat_FalseExpression t v"

definition cat_Expression_MergeFalseExpression :: "jlib \<Rightarrow> wval \<Rightarrow> wval \<Rightarrow> goerr option \<times> wval" where
  "cat_Expression_MergeFalseExpression L t v = union_Merge L cat_FalseExpression t v"

definition cat_Expression_AsAndOrExpression :: "jlib \<Rightarrow> wval \<Rightarrow> goerr + wval" where
  "cat_Expression_AsAndOrExpression L t = union_As L cat_AndOrExpression t"

definition cat_Expression_FromAndOrExpression :: "wval \<Rightarrow> wval \<Rightarrow> goerr option \<times> wval" where
  "cat_Expression_FromAndOrExpression t v = union_From cat_AndOrExpression t v"

definition cat_Expression_MergeAndOrExpression :: "jlib \<Rightarrow> wval \<Rightarrow> wval \<Rightarrow> goerr option \<times> wval" where
  "cat_Expression_MergeAndOrExpression L t v = union_Merge L cat_AndOrExpression t v"

definition cat_Expression_AsNotExpression :: "jlib \<Rightarrow> wval \<Rightarrow> goerr + wval" where
  "cat_Expression_AsNotExpression L t = union_As L cat_NotExpression t"

definition cat_Expression_FromNotExpression :: "wval \<Rightarrow> wval \<Rightarrow> goerr option \<times> wval" where
  "cat_Expression_FromNotExpression t v = union_From cat_NotExpression t v"

definition cat_Expression_MergeNotExpression :: "jlib \<Rightarrow> wval \<Rightarrow> wval \<Rightarrow> goerr option \<times> wval" where
  "cat_Expression_MergeNotExpression L t v = union_Merge L cat_NotExpression t v"

definition cat_Expression_AsSetExpression :: "jlib \<Rightarrow> wval \<Rightarrow> goerr + wval" where
  "cat_Expression_AsSetExpression L t = union_As L cat_SetExpression t"

definition cat_Expression_FromSetExpression :: "wval \<Rightarrow> wval \<Rightarrow> goerr option \<times> wval" where
  "cat_Expression_FromSetExpression t v = union_From cat_SetExpression t v"

definition cat_Expression_MergeSetExpression :: "jlib \<Rightarrow> wval \<Rightarrow> wval \<Rightarrow> goerr option \<times> wval" where
  "cat_Expression_MergeSetExpression L t v = union_Merge L cat_SetExpression t v"

definition cat_Expression_AsLiteralExpression :: "jlib \<Rightarrow> wval \<Rightarrow> goerr + wval" where
  "cat_Expression_AsLiteralExpression L t = union_As L cat_LiteralExpression t"

definition cat_Expression_FromLiteralExpression :: "wval \<Rightarrow> wval \<Rightarrow> goerr option \<times> wval" where
  "cat_Expression_FromLiteralExpression t v = union_From cat_LiteralExpression t v"

definition cat_Expression_MergeLiteralExpression :: "jlib \<Rightarrow> wval \<Rightarrow> wval \<Rightarrow> goerr option \<times> wval" where
  "cat_Expression_MergeLiteralExpression L t v = union_Merge L cat_LiteralExpression t v"

definition cat_Expression_AsUnaryExpression :: "jlib \<Rightarrow> wval \<Rightarrow> goerr + wval" where
  "cat_Expression_AsUnaryExpression L t = union_As L cat_UnaryExpression t"

definition cat_Expression_FromUnaryExpression :: "wval \<Rightarrow> wval \<Rightarrow> goerr option \<times> wval" where
  "cat_Expression_FromUnaryExpression t v = union_From cat_UnaryExpression t v"

definition cat_Expression_MergeUnaryExpression :: "jlib \<Rightarrow> wval \<Rightarrow> wval \<Rightarrow> goerr option \<times> wval" where
  "cat_Expression_MergeUnaryExpression L t v = union_Merge L cat_UnaryExpression t v"

definition cat_Expression_MarshalJSON :: "wval \<Rightarrow> goerr + json" where
  "cat_Expression_MarshalJSON t = Inr (raw_json (vget t ''union''))"

definition cat_Expression_UnmarshalJSON :: decoder where
  "cat_Expression_UnmarshalJSON t b = Inr (vset t ''union'' (VJson b))"

definition cat_MetricResult_AsCounterResult :: "jlib \<Rightarrow> wval \<Rightarrow> goerr + wval" where
  "cat_MetricResult_AsCounterResult L t = union_As L cat_CounterResult t"

definition cat_MetricResult_FromCounterResult :: "wval \<Rightarrow> wval \<Rightarrow> goerr option \<times> wval" where
  "cat_MetricResult_FromCounterResult t v = union_From cat_CounterResult t v"

definition cat_MetricResult_MergeCounterResult :: "jlib \<Rightarrow> wval \<Rightarrow> wval \<Rightarrow> goerr option \<times> wval" where
  "cat_MetricResult_MergeCounterResult L t v = union_Merge L cat_CounterResult t v"

definition cat_MetricResult_AsTimerResult :: "jlib \<Rightarrow> wval \<Rightarrow> goerr + wval" where
  "cat_MetricResult_AsTimerResult L t = union_As L cat_TimerResult t"

definition cat_MetricResult_FromTimerResult :: "wval \<Rightarrow> wval \<Rightarrow> goerr option \<times> wval" where
  "cat_MetricResult_FromTimerResult t v = union_From cat_TimerResult t v"

definition cat_MetricResult_MergeTimerResult :: "jlib \<Rightarrow> wval \<Rightarrow> wval \<Rightarrow> goerr option \<times> wval" where
  "cat_MetricResult_MergeTimerResult L t v = union_Merge L cat_TimerResult t v"

definition cat_MetricResult_MarshalJSON :: "wval \<Rightarrow> goerr + json" where
  "cat_MetricResult_MarshalJSON t = Inr (raw_json (vget t ''union''))"

definition cat_MetricResult_UnmarshalJSON :: decoder where
  "cat_MetricResult_UnmarshalJSON t b = Inr (vset t ''union'' (VJson b))"

definition cat_OAuthTokenRequest_AsOAuthClientCredentialsRequest :: "jlib \<Rightarrow> wval \<Rightarrow> goerr + wval" where
  "cat_OAuthTokenRequest_AsOAuthClientCredentialsRequest L t = union_As L cat_OAuthClientCredentialsRequest t"

definition cat_OAuthTokenRequest_FromOAuthClientCredentialsRequest :: "wval \<Rightarrow> wval \<Rightarrow> goerr option \<times> wval" where
  "cat_OAuthTokenRequest_FromOAuthClientCredentialsRequest t v = union_From cat_OAuthClientCredentialsRequest t v"

definition cat_OAuthTokenRequest_MergeOAuthClientCredentialsRequest :: "jlib \<Rightarrow> wval \<Rightarrow> wval \<Rightarrow> goerr option \<times> wval" where
  "cat_OAuthTokenRequest_MergeOAuthClientCredentialsRequest L t v = union_Merge L cat_OAuthClientCredentialsRequest t v"

definition cat_OAuthTokenRequest_AsOAuthTokenExchangeRequest :: "jlib \<Rightarrow> wval \<Rightarrow> goerr + wval" where
  "cat_OAuthTokenRequest_AsOAuthTokenExchangeRequest L t = union_As L cat_OAuthTokenExchangeRequest t"

definition cat_OAuthTokenRequest_FromOAuthTokenExchangeRequest :: "wval \<Rightarrow> wval \<Rightarrow> goerr option \<times> wval" where
  "cat_OAuthTokenRequest_FromOAuthTokenExchangeRequest t v = union_From cat_OAuthTokenExchangeRequest t v"

definition cat_OAuthTokenRequest_MergeOAuthTokenExchangeRequest :: "jlib \<Rightarrow> wval \<Rightarrow> wval \<Rightarrow> goerr option \<times> wval" where
  "cat_OAuthTokenRequest_MergeOAuthTokenExchangeRequest L t v = union_Merge L cat_OAuthTokenExchangeRequest t v"

definition cat_OAuthTokenRequest_MarshalJSON :: "wval \<Rightarrow> goerr + json" where
  "cat_OAuthTokenRequest_MarshalJSON t = Inr (raw_json (vget t ''union''))"

definition cat_OAuthTokenRequest_UnmarshalJSON :: decoder where
  "cat_OAuthTokenRequest_UnmarshalJSON t b = Inr (vset t ''union'' (VJson b))"

definition cat_PrimitiveTypeValue_AsBooleanTypeValue :: "jlib \<Rightarrow> wval \<Rightarrow> goerr + wval" where
  "cat_PrimitiveTypeValue_AsBooleanTypeValue L t = union_As L cat_BooleanTypeValue t"

definition cat_PrimitiveTypeValue_FromBooleanTypeValue :: "wval \<Rightarrow> wval \<Rightarrow> goerr option \<times> wval" where
  "cat_PrimitiveTypeValue_FromBooleanTypeValue t v = union_From cat_BooleanTypeValue t v"

definition cat_PrimitiveTypeValue_MergeBooleanTypeValue :: "jlib \<Rightarrow> wval \<Rightarrow> wval \<Rightarrow> goerr option \<times> wval" where
  "cat_PrimitiveTypeValue_MergeBooleanTypeValue L t v = union_Merge L cat_BooleanTypeValue t v"

definition cat_PrimitiveTypeValue_AsIntegerTypeValue :: "jlib \<Rightarrow> wval \<Rightarrow> goerr + wval" where
  "cat_PrimitiveTypeValue_AsIntegerTypeValue L t = union_As L cat_IntegerTypeValue t"

definition cat_PrimitiveTypeValue_FromIntegerTypeValue :: "wval \<Rightarrow> wval \<Rightarrow> goerr option \<times> wval" where
  "cat_PrimitiveTypeValue_FromIntegerTypeValue t v = union_From cat_IntegerTypeValue t v"

definition cat_PrimitiveTypeValue_MergeIntegerTypeValue :: "jlib \<Rightarrow> wval \<Rightarrow> wval \<Rightarrow> goerr option \<times> wval" where
  "cat_PrimitiveTypeValue_MergeIntegerTypeValue L t v = union_Merge L cat_IntegerTypeValue t v"

definition cat_PrimitiveTypeValue_AsLongTypeValue :: "jlib \<Rightarrow> wval \<Rightarrow> goerr + wval" where
  "cat_PrimitiveTypeValue_AsLongTypeValue L t = union_As L cat_LongTypeValue t"

definition cat_PrimitiveTypeValue_FromLongTypeValue :: "wval \<Rightarrow> wval \<Rightarrow> goerr option \<times> wval" where
  "cat_PrimitiveTypeValue_FromLongTypeValue t v = union_From cat_LongTypeValue t v"

definition cat_PrimitiveTypeValue_MergeLongTypeValue :: "jlib \<Rightarrow> wval \<Rightarrow> wval \<Rightarrow> goerr option \<times> wval" where
  "cat_PrimitiveTypeValue_MergeLongTypeValue L t v = union_Merge L cat_LongTypeValue t v"

definition cat_PrimitiveTypeValue_AsFloatTypeValue :: "jlib \<Rightarrow> wval \<Rightarrow> goerr + wval" where
  "cat_PrimitiveTypeValue_AsFloatTypeValue L t = union_As L cat_FloatTypeValue t"

definition cat_PrimitiveTypeValue_FromFloatTypeValue :: "wval \<Rightarrow> wval \<Rightarrow> goerr option \<times> wval" where
  "cat_PrimitiveTypeValue_FromFloatTypeValue t v = union_From cat_FloatTypeValue t v"

definition cat_PrimitiveTypeValue_MergeFloatTypeValue :: "jlib \<Rightarrow> wval \<Rightarrow> wval \<Rightarrow> goerr option \<times> wval" where
  "cat_PrimitiveTypeValue_MergeFloatTypeValue L t v = union_Merge L cat_FloatTypeValue t v"

definition cat_PrimitiveTypeValue_AsDoubleTypeValue :: "jlib \<Rightarrow> wval \<Rightarrow> goerr + wval" where
  "cat_PrimitiveTypeValue_AsDoubleTypeValue L t = union_As L cat_DoubleTypeValue t"

definition cat_PrimitiveTypeValue_FromDoubleTypeValue :: "wval \<Rightarrow> wval \<Rightarrow> goerr option \<times> wval" where
  "cat_PrimitiveTypeValue_FromDoubleTypeValue t v = union_From cat_DoubleTypeValue t v"

definition cat_PrimitiveTypeValue_MergeDoubleTypeValue :: "jlib \<Rightarrow> wval \<Rightarrow> wval \<Rightarrow> goerr option \<times> wval" where
  "cat_PrimitiveTypeValue_MergeDoubleTypeValue L t v = union_Merge L cat_DoubleTypeValue t v"

definition cat_PrimitiveTypeValue_AsDecimalTypeValue :: "jlib \<Rightarrow> wval \<Rightarrow> goerr + wval" where
  "cat_PrimitiveTypeValue_AsDecimalTypeValue L t = union_As L cat_DecimalTypeValue t"

definition cat_PrimitiveTypeValue_FromDecimalTypeValue :: "wval \<Rightarrow> wval \<Rightarrow> goerr option \<times> wval" where
  "cat_PrimitiveTypeValue_FromDecimalTypeValue t v = union_From cat_DecimalTypeValue t v"

definition cat_PrimitiveTypeValue_MergeDecimalTypeValue :: "jlib \<Rightarrow> wval \<Rightarrow> wval \<Rightarrow> goerr option \<times> wval" where
  "cat_PrimitiveTypeValue_MergeDecimalTypeValue L t v = union_Merge L cat_DecimalTypeValue t v"

definition cat_PrimitiveTypeValue_AsStringTypeValue :: "jlib \<Rightarrow> wval \<Rightarrow> goerr + wval" where
  "cat_PrimitiveTypeValue_AsStringTypeValue L t = union_As L cat_StringTypeValue t"

definition cat_PrimitiveTypeValue_FromStringTypeValue :: "wval \<Rightarrow> wval \<Rightarrow> goerr option \<times> wval" where
  "cat_PrimitiveTypeValue_FromStringTypeValue t v = union_From cat_StringTypeValue t v"

definition cat_PrimitiveTypeValue_MergeStringTypeValue :: "jlib \<Rightarrow> wval \<Rightarrow> wval \<Rightarrow> goerr option \<times> wval" where
  "cat_PrimitiveTypeValue_MergeStringTypeValue L t v = union_Merge L cat_StringTypeValue t v"

definition cat_PrimitiveTypeValue_AsUUIDTypeValue :: "jlib \<Rightarrow> wval \<Rightarrow> goerr + wval" where
  "cat_PrimitiveTypeValue_AsUUIDTypeValue L t = union_As L cat_UUIDTypeValue t"

definition cat_PrimitiveTypeValue_FromUUIDTypeValue :: "wval \<Rightarrow> wval \<Rightarrow> goerr option \<times> wval" where
  "cat_PrimitiveTypeValue_FromUUIDTypeValue t v = union_From cat_UUIDTypeValue t v"

definition cat_PrimitiveTypeValue_MergeUUIDTypeValue :: "jlib \<Rightarrow> wval \<Rightarrow> wval \<Rightarrow> goerr option \<times> wval" where
  "cat_PrimitiveTypeValue_MergeUUIDTypeValue L t v = union_Merge L cat_UUIDTypeValue t v"

definition cat_PrimitiveTypeValue_AsDateTypeValue :: "jlib \<Rightarrow> wval \<Rightarrow> goerr + wval" where
  "cat_PrimitiveTypeValue_AsDateTypeValue L t = union_As L cat_DateTypeValue t"

definition cat_PrimitiveTypeValue_FromDateTypeValue :: "wval \<Rightarrow> wval \<Rightarrow> goerr option \<times> wval" where
  "cat_PrimitiveTypeValue_FromDateTypeValue t v = union_From cat_DateTypeValue t v"

definition cat_PrimitiveTypeValue_MergeDateTypeValue :: "jlib \<Rightarrow> wval \<Rightarrow> wval \<Rightarrow> goerr option \<times> wval" where
  "cat_PrimitiveTypeValue_MergeDateTypeValue L t v = union_Merge L cat_DateTypeValue t v"

definition cat_PrimitiveTypeValue_AsTimeTypeValue :: "jlib \<Rightarrow> wval \<Rightarrow> goerr + wval" where
  "cat_PrimitiveTypeValue_AsTimeTypeValue L t = union_As L cat_TimeTypeValue t"

definition cat_PrimitiveTypeValue_FromTimeTypeValue :: "wval \<Rightarrow> wval \<Rightarrow> goerr option \<times> wval" where
  "cat_PrimitiveTypeValue_FromTimeTypeValue t v = union_From cat_TimeTypeValue t v"

definition cat_PrimitiveTypeValue_MergeTimeTypeValue :: "jlib \<Rightarrow> wval \<Rightarrow> wval \<Rightarrow> goerr option \<times> wval" where
  "cat_PrimitiveTypeValue_MergeTimeTypeValue L t v = union_Merge L cat_TimeTypeValue t v"

definition cat_PrimitiveTypeValue_AsTimestampTypeValue :: "jlib \<Rightarrow> wval \<Rightarrow> goerr + wval" where
  "cat_PrimitiveTypeValue_AsTimestampTypeValue L t = union_As L cat_TimestampTypeValue t"

definition cat_PrimitiveTypeValue_FromTimestampTypeValue :: "wval \<Rightarrow> wval \<Rightarrow> goerr option \<times> wval" where
  "cat_PrimitiveTypeValue_FromTimestampTypeValue t v = union_From cat_TimestampTypeValue t v"

definition cat_PrimitiveTypeValue_MergeTimestampTypeValue :: "jlib \<Rightarrow> wval \<Rightarrow> wval \<Rightarrow> goerr option \<times> wval" where
  "cat_PrimitiveTypeValue_MergeTimestampTypeValue L t v = union_Merge L cat_TimestampTypeValue t v"

definition cat_PrimitiveTypeValue_AsTimestampTzTypeValue :: "jlib \<Rightarrow> wval \<Rightarrow> goerr + wval" where
  "cat_PrimitiveTypeValue_AsTimestampTzTypeValue L t = union_As L cat_TimestampTzTypeValue t"

definition cat_PrimitiveTypeValue_FromTimestampTzTypeValue :: "wval \<Rightarrow> wval \<Rightarrow> goerr option \<times> wval" where
  "cat_PrimitiveTypeValue_FromTimestampTzTypeValue t v = union_From cat_TimestampTzTypeValue t v"

definition cat_PrimitiveTypeValue_MergeTimestampTzTypeValue :: "jlib \<Rightarrow> wval \<Rightarrow> wval \<Rightarrow> goerr option \<times> wval" where
  "cat_PrimitiveTypeValue_MergeTimestampTzTypeValue L t v = union_Merge L cat_TimestampTzTypeValue t v"

definition cat_PrimitiveTypeValue_AsTimestampNanoTypeValue :: "jlib \<Rightarrow> wval \<Rightarrow> goerr + wval" where
  "cat_PrimitiveTypeValue_AsTimestampNanoTypeValue L t = union_As L cat_TimestampNanoTypeValue t"

definition cat_PrimitiveTypeValue_FromTimestampNanoTypeValue :: "wval \<Rightarrow> wval \<Rightarrow> goerr option \<times> wval" where
  "cat_PrimitiveTypeValue_FromTimestampNanoTypeValue t v = union_From cat_TimestampNanoTypeValue t v"

definition cat_PrimitiveTypeValue_MergeTimestampNanoTypeValue :: "jlib \<Rightarrow> wval \<Rightarrow> wval \<Rightarrow> goerr option \<times> wval" where
  "cat_PrimitiveTypeValue_MergeTimestampNanoTypeValue L t v = union_Merge L cat_TimestampNanoTypeValue t v"

definition cat_PrimitiveTypeValue_AsTimestampTzNanoTypeValue :: "jlib \<Rightarrow> wval \<Rightarrow> goerr + wval" where
  "cat_PrimitiveTypeValue_AsTimestampTzNanoTypeValue L t = union_As L cat_TimestampTzNanoTypeValue t"

definition cat_PrimitiveTypeValue_FromTimestampTzNanoTypeValue :: "wval \<Rightarrow> wval \<Rightarrow> goerr option \<times> wval" where
  "cat_PrimitiveTypeValue_FromTimestampTzNanoTypeValue t v = union_From cat_TimestampTzNanoTypeValue t v"

definition cat_PrimitiveTypeValue_MergeTimestampTzNanoTypeValue :: "jlib \<Rightarrow> wval \<Rightarrow> wval \<Rightarrow> goerr option \<times> wval" where
  "cat_PrimitiveTypeValue_MergeTimestampTzNanoTypeValue L t v = union_Merge L cat_TimestampTzNanoTypeValue t v"

definition cat_PrimitiveTypeValue_AsFixedTypeValue :: "jlib \<Rightarrow> wval \<Rightarrow> goerr + wval" where
  "cat_PrimitiveTypeValue_AsFixedTypeValue L t = union_As L cat_FixedTypeValue t"

definition cat_PrimitiveTypeValue_FromFixedTypeValue :: "wval \<Rightarrow> wval \<Rightarrow> goerr option \<times> wval" where
  "cat_PrimitiveTypeValue_FromFixedTypeValue t v = union_From cat_FixedTypeValue t v"

definition cat_PrimitiveTypeValue_MergeFixedTypeValue :: "jlib \<Rightarrow> wval \<Rightarrow> wval \<Rightarrow> goerr option \<times> wval" where
  "cat_PrimitiveTypeValue_MergeFixedTypeValue L t v = union_Merge L cat_FixedTypeValue t v"

definition cat_PrimitiveTypeValue_AsBinaryTypeValue :: "jlib \<Rightarrow> wval \<Rightarrow> goerr + wval" where
  "cat_PrimitiveTypeValue_AsBinaryTypeValue L t = union_As L cat_BinaryTypeValue t"

definition cat_PrimitiveTypeValue_FromBinaryTypeValue :: "wval \<Rightarrow> wval \<Rightarrow> goerr option \<times> wval" where
  "cat_PrimitiveTypeValue_FromBinaryTypeValue t v = union_From cat_BinaryTypeValue t v"

definition cat_PrimitiveTypeValue_MergeBinaryTypeValue :: "jlib \<Rightarrow> wval \<Rightarrow> wval \<Rightarrow> goerr option \<times> wval" where
  "cat_PrimitiveTypeValue_MergeBinaryTypeValue L t v = union_Merge L cat_BinaryTypeValue t v"

definition cat_PrimitiveTypeValue_MarshalJSON :: "wval \<Rightarrow> goerr + json" where
  "cat_PrimitiveTypeValue_MarshalJSON t = Inr (raw_json (vget t ''union''))"

definition cat_PrimitiveTypeValue_UnmarshalJSON :: decoder where
  "cat_PrimitiveTypeValue_UnmarshalJSON t b = Inr (vset t ''union'' (VJson b))"

definition cat_ReportMetricsRequest_AsScanReport :: "jlib \<Rightarrow> wval \<Rightarrow> goerr + wval" where
  "cat_ReportMetricsRequest_AsScanReport L t = union_As L cat_ScanReport t"

definition cat_ReportMetricsRequest_FromScanReport :: "wval \<Rightarrow> wval \<Rightarrow> goerr option \<times> wval" where
  "cat_ReportMetricsRequest_FromScanReport t v = union_From cat_ScanReport t v"

definition cat_ReportMetricsRequest_MergeScanReport :: "jlib \<Rightarrow> wval \<Rightarrow> wval \<Rightarrow> goerr option \<times> wval" where
  "cat_ReportMetricsRequest_MergeScanReport L t v = union_Merge L cat_ScanReport t v"

definition cat_ReportMetricsRequest_AsCommitReport :: "jlib \<Rightarrow> wval \<Rightarrow> goerr + wval" where
  "cat_ReportMetricsRequest_AsCommitReport L t = union_As L cat_CommitReport t"

definition cat_ReportMetricsRequest_FromCommitReport :: "wval \<Rightarrow> wval \<Rightarrow> goerr option \<times> wval" where
  "cat_ReportMetricsRequest_FromCommitReport t v = union_From cat_CommitReport t v"

definition cat_ReportMetricsRequest_MergeCommitReport :: "jlib \<Rightarrow> wval \<Rightarrow> wval \<Rightarrow> goerr option \<times> wval" where
  "cat_ReportMetricsRequest_MergeCommitReport L t v = union_Merge L cat_CommitReport t v"

definition cat_ReportMetricsRequest_MarshalJSON :: "wval \<Rightarrow> goerr + json" where
  "cat_ReportMetricsRequest_MarshalJSON t = tagged_MarshalJSON ''ReportMetricsRequest'' ''ReportType'' ''report-type'' t"

definition cat_ReportMetricsRequest_UnmarshalJSON :: decoder where
  "cat_ReportMetricsRequest_UnmarshalJSON t b = tagged_UnmarshalJSON ''ReportType'' ''report-type'' t b"

definition cat_TableUpdate_AsAssignUUIDUpdate :: "jlib \<Rightarrow> wval \<Rightarrow> goerr + wval" where
  "cat_TableUpdate_AsAssignUUIDUpdate L t = union_As L cat_AssignUUIDUpdate t"

definition cat_TableUpdate_FromAssignUUIDUpdate :: "wval \<Rightarrow> wval \<Rightarrow> goerr option \<times> wval" where
  "cat_TableUpdate_FromAssignUUIDUpdate t v = union_From cat_AssignUUIDUpdate t v"

definition cat_TableUpdate_MergeAssignUUIDUpdate :: "jlib \<Rightarrow> wval \<Rightarrow> wval \<Rightarrow> goerr option \<times> wval" where
  "cat_TableUpdate_MergeAssignUUIDUpdate L t v = union_Merge L cat_AssignUUIDUpdate t v"

definition cat_TableUpdate_AsUpgradeFormatVersionUpdate :: "jlib \<Rightarrow> wval \<Rightarrow> goerr + wval" where
  "cat_TableUpdate_AsUpgradeFormatVersionUpdate L t = union_As L cat_UpgradeFormatVersionUpdate t"

definition cat_TableUpdate_FromUpgradeFormatVersionUpdate :: "wval \<Rightarrow> wval \<Rightarrow> goerr option \<times> wval" where
  "cat_TableUpdate_FromUpgradeFormatVersionUpdate t v = union_From cat_UpgradeFormatVersionUpdate t v"

definition cat_TableUpdate_MergeUpgradeFormatVersionUpdate :: "jlib \<Rightarrow> wval \<Rightarrow> wval \<Rightarrow> goerr option \<times> wval" where
  "cat_TableUpdate_MergeUpgradeFormatVersionUpdate L t v = union_Merge L cat_UpgradeFormatVersionUpdate t v"

definition cat_TableUpdate_AsAddSchemaUpdate :: "jlib \<Rightarrow> wval \<Rightarrow> goerr + wval" where
  "cat_TableUpdate_AsAddSchemaUpdate L t = union_As L cat_AddSchemaUpdate t"

definition cat_TableUpdate_FromAddSchemaUpdate :: "wval \<Rightarrow> wval \<Rightarrow> goerr option \<times> wval" where
  "cat_TableUpdate_FromAddSchemaUpdate t v = union_From cat_AddSchemaUpdate t v"

definition cat_TableUpdate_MergeAddSchemaUpdate :: "jlib \<Rightarrow> wval \<Rightarrow> wval \<Rightarrow> goerr option \<times> wval" where
  "cat_TableUpdate_MergeAddSchemaUpdate L t v = union_Merge L cat_AddSchemaUpdate t v"

definition cat_TableUpdate_AsSetCurrentSchemaUpdate :: "jlib \<Rightarrow> wval \<Rightarrow> goerr + wval" where
  "cat_TableUpdate_AsSetCurrentSchemaUpdate L t = union_As L cat_SetCurrentSchemaUpdate t"

definition cat_TableUpdate_FromSetCurrentSchemaUpdate :: "wval \<Rightarrow> wval \<Rightarrow> goerr option \<times> wval" where
  "cat_TableUpdate_FromSetCurrentSchemaUpdate t v = union_From cat_SetCurrentSchemaUpdate t v"

definition cat_TableUpdate_MergeSetCurrentSchemaUpdate :: "jlib \<Rightarrow> wval \<Rightarrow> wval \<Rightarrow> goerr option \<times> wval" where
  "cat_TableUpdate_MergeSetCurrentSchemaUpdate L t v = union_Merge L cat_SetCurrentSchemaUpdate t v"

definition cat_TableUpdate_AsAddPartitionSpecUpdate :: "jlib \<Rightarrow> wval \<Rightarrow> goerr + wval" where
  "cat_TableUpdate_AsAddPartitionSpecUpdate L t = union_As L cat_AddPartitionSpecUpdate t"

definition cat_TableUpdate_FromAddPartitionSpecUpdate :: "wval \<Rightarrow> wval \<Rightarrow> goerr option \<times> wval" where
  "cat_TableUpdate_FromAddPartitionSpecUpdate t v = union_From cat_AddPartitionSpecUpdate t v"

definition cat_TableUpdate_MergeAddPartitionSpecUpdate :: "jlib \<Rightarrow> wval \<Rightarrow> wval \<Rightarrow> goerr option \<times> wval" where
  "cat_TableUpdate_MergeAddPartitionSpecUpdate L t v = union_Merge L cat_AddPartitionSpecUpdate t v"

definition cat_TableUpdate_AsSetDefaultSpecUpdate :: "jlib \<Rightarrow> wval \<Rightarrow> goerr + wval" where
  "cat_TableUpdate_AsSetDefaultSpecUpdate L t = union_As L cat_SetDefaultSpecUpdate t"

definition cat_TableUpdate_FromSetDefaultSpecUpdate :: "wval \<Rightarrow> wval \<Rightarrow> goerr option \<times> wval" where
  "cat_TableUpdate_FromSetDefaultSpecUpdate t v = union_From cat_SetDefaultSpecUpdate t v"

definition cat_TableUpdate_MergeSetDefaultSpecUpdate :: "jlib \<Rightarrow> wval \<Rightarrow> wval \<Rightarrow> goerr option \<times> wval" where
  "cat_TableUpdate_MergeSetDefaultSpecUpdate L t v = union_Merge L cat_SetDefaultSpecUpdate t v"

definition cat_TableUpdate_AsAddSortOrderUpdate :: "jlib \<Rightarrow> wval \<Rightarrow> goerr + wval" where
  "cat_TableUpdate_AsAddSortOrderUpdate L t = union_As L cat_AddSortOrderUpdate t"

definition cat_TableUpdate_FromAddSortOrderUpdate :: "wval \<Rightarrow> wval \<Rightarrow> goerr option \<times> wval" where
  "cat_TableUpdate_FromAddSortOrderUpdate t v = union_From cat_AddSortOrderUpdate t v"

definition cat_TableUpdate_MergeAddSortOrderUpdate :: "jlib \<Rightarrow> wval \<Rightarrow> wval \<Rightarrow> goerr option \<times> wval" where
  "cat_TableUpdate_MergeAddSortOrderUpdate L t v = union_Merge L cat_AddSortOrderUpdate t v"

definition cat_TableUpdate_AsSetDefaultSortOrderUpdate :: "jlib \<Rightarrow> wval \<Rightarrow> goerr + wval" where
  "cat_TableUpdate_AsSetDefaultSortOrderUpdate L t = union_As L cat_SetDefaultSortOrderUpdate t"

definition cat_TableUpdate_FromSetDefaultSortOrderUpdate :: "wval \<Rightarrow> wval \<Rightarrow> goerr option \<times> wval" where
  "cat_TableUpdate_FromSetDefaultSortOrderUpdate t v = union_From cat_SetDefaultSortOrderUpdate t v"

definition cat_TableUpdate_MergeSetDefaultSortOrderUpdate :: "jlib \<Rightarrow> wval \<Rightarrow> wval \<Rightarrow> goerr option \<times> wval" where
  "cat_TableUpdate_MergeSetDefaultSortOrderUpdate L t v = union_Merge L cat_SetDefaultSortOrderUpdate t v"

definition cat_TableUpdate_AsAddSnapshotUpdate :: "jlib \<Rightarrow> wval \<Rightarrow> goerr + wval" where
  "cat_TableUpdate_AsAddSnapshotUpdate L t = union_As L cat_AddSnapshotUpdate t"

definition cat_TableUpdate_FromAddSnapshotUpdate :: "wval \<Rightarrow> wval \<Rightarrow> goerr option \<times> wval" where
  "cat_TableUpdate_FromAddSnapshotUpdate t v = union_From cat_AddSnapshotUpdate t v"

definition cat_TableUpdate_MergeAddSnapshotUpdate :: "jlib \<Rightarrow> wval \<Rightarrow> wval \<Rightarrow> goerr option \<times> wval" where
  "cat_TableUpdate_MergeAddSnapshotUpdate L t v = union_Merge L cat_AddSnapshotUpdate t v"

definition cat_TableUpdate_AsSetSnapshotRefUpdate :: "jlib \<Rightarrow> wval \<Rightarrow> goerr + wval" where
  "cat_TableUpdate_AsSetSnapshotRefUpdate L t = union_As L cat_SetSnapshotRefUpdate t"

definition cat_TableUpdate_FromSetSnapshotRefUpdate :: "wval \<Rightarrow> wval \<Rightarrow> goerr option \<times> wval" where
  "cat_TableUpdate_FromSetSnapshotRefUpdate t v = union_From cat_SetSnapshotRefUpdate t v"

definition cat_TableUpdate_MergeSetSnapshotRefUpdate :: "jlib \<Rightarrow> wval \<Rightarrow> wval \<Rightarrow> goerr option \<times> wval" where
  "cat_TableUpdate_MergeSetSnapshotRefUpdate L t v = union_Merge L cat_SetSnapshotRefUpdate t v"

definition cat_TableUpdate_AsRemoveSnapshotsUpdate :: "jlib \<Rightarrow> wval \<Rightarrow> goerr + wval" where
  "cat_TableUpdate_AsRemoveSnapshotsUpdate L t = union_As L cat_RemoveSnapshotsUpdate t"

definition cat_TableUpdate_FromRemoveSnapshotsUpdate :: "wval \<Rightarrow> wval \<Rightarrow> goerr option \<times> wval" where
  "cat_TableUpdate_FromRemoveSnapshotsUpdate t v = union_From cat_RemoveSnapshotsUpdate t v"

definition cat_TableUpdate_MergeRemoveSnapshotsUpdate :: "jlib \<Rightarrow> wval \<Rightarrow> wval \<Rightarrow> goerr option \<times> wval" where
  "cat_TableUpdate_MergeRemoveSnapshotsUpdate L t v = union_Merge L cat_RemoveSnapshotsUpdate t v"

definition cat_TableUpdate_AsRemoveSnapshotRefUpdate :: "jlib \<Rightarrow> wval \<Rightarrow> goerr + wval" where
  "cat_TableUpdate_AsRemoveSnapshotRefUpdate L t = union_As L cat_RemoveSnapshotRefUpdate t"

definition cat_TableUpdate_FromRemoveSnapshotRefUpdate :: "wval \<Rightarrow> wval \<Rightarrow> goerr option \<times> wval" where
  "cat_TableUpdate_FromRemoveSnapshotRefUpdate t v = union_From cat_RemoveSnapshotRefUpdate t v"

definition cat_TableUpdate_MergeRemoveSnapshotRefUpdate :: "jlib \<Rightarrow> wval \<Rightarrow> wval \<Rightarrow> goerr option \<times> wval" where
  "cat_TableUpdate_MergeRemoveSnapshotRefUpdate L t v = union_Merge L cat_RemoveSnapshotRefUpdate t v"

definition cat_TableUpdate_AsSetLocationUpdate :: "jlib \<Rightarrow> wval \<Rightarrow> goerr + wval" where
  "cat_TableUpdate_AsSetLocationUpdate L t = union_As L cat_SetLocationUpdate t"

definition cat_TableUpdate_FromSetLocationUpdate :: "wval \<Rightarrow> wval \<Rightarrow> goerr option \<times> wval" where
  "cat_TableUpdate_FromSetLocationUpdate t v = union_From cat_SetLocationUpdate t v"

definition cat_TableUpdate_MergeSetLocationUpdate :: "jlib \<Rightarrow> wval \<Rightarrow> wval \<Rightarrow> goerr option \<times> wval" where
  "cat_TableUpdate_MergeSetLocationUpdate L t v = union_Merge L cat_SetLocationUpdate t v"

definition cat_TableUpdate_AsSetPropertiesUpdate :: "jlib \<Rightarrow> wval \<Rightarrow> goerr + wval" where
  "cat_TableUpdate_AsSetPropertiesUpdate L t = union_As L cat_SetPropertiesUpdate t"

definition cat_TableUpdate_FromSetPropertiesUpdate :: "wval \<Rightarrow> wval \<Rightarrow> goerr option \<times> wval" where
  "cat_TableUpdate_FromSetPropertiesUpdate t v = union_From cat_SetPropertiesUpdate t v"

definition cat_TableUpdate_MergeSetPropertiesUpdate :: "jlib \<Rightarrow> wval \<Rightarrow> wval \<Rightarrow> goerr option \<times> wval" where
  "cat_TableUpdate_MergeSetPropertiesUpdate L t v = union_Merge L cat_SetPropertiesUpdate t v"

definition cat_TableUpdate_AsRemovePropertiesUpdate :: "jlib \<Rightarrow> wval \<Rightarrow> goerr + wval" where
  "cat_TableUpdate_AsRemovePropertiesUpdate L t = union_As L cat_RemovePropertiesUpdate t"

definition cat_TableUpdate_FromRemovePropertiesUpdate :: "wval \<Rightarrow> wval \<Rightarrow> goerr option \<times> wval" where
  "cat_TableUpdate_FromRemovePropertiesUpdate t v = union_From cat_RemovePropertiesUpdate t v"

definition cat_TableUpdate_MergeRemovePropertiesUpdate :: "jlib \<Rightarrow> wval \<Rightarrow> wval \<Rightarrow> goerr option \<times> wval" where
  "cat_TableUpdate_MergeRemovePropertiesUpdate L t v = union_Merge L cat_RemovePropertiesUpdate t v"

definition cat_TableUpdate_AsSetStatisticsUpdate :: "jlib \<Rightarrow> wval \<Rightarrow> goerr + wval" where
  "cat_TableUpdate_AsSetStatisticsUpdate L t = union_As L cat_SetStatisticsUpdate t"

definition cat_TableUpdate_FromSetStatisticsUpdate :: "wval \<Rightarrow> wval \<Rightarrow> goerr option \<times> wval" where
  "cat_TableUpdate_FromSetStatisticsUpdate t v = union_From cat_SetStatisticsUpdate t v"

definition cat_TableUpdate_MergeSetStatisticsUpdate :: "jlib \<Rightarrow> wval \<Rightarrow> wval \<Rightarrow> goerr option \<times> wval" where
  "cat_TableUpdate_MergeSetStatisticsUpdate L t v = union_Merge L cat_SetStatisticsUpdate t v"

definition cat_TableUpdate_AsRemoveStatisticsUpdate :: "jlib \<Rightarrow> wval \<Rightarrow> goerr + wval" where
  "cat_TableUpdate_AsRemoveStatisticsUpdate L t = union_As L cat_RemoveStatisticsUpdate t"

definition cat_TableUpdate_FromRemoveStatisticsUpdate :: "wval \<Rightarrow> wval \<Rightarrow> goerr option \<times> wval" where
  "cat_TableUpdate_FromRemoveStatisticsUpdate t v = union_From cat_RemoveStatisticsUpdate t v"

definition cat_TableUpdate_MergeRemoveStatisticsUpdate :: "jlib \<Rightarrow> wval \<Rightarrow> wval \<Rightarrow> goerr option \<times> wval" where
  "cat_TableUpdate_MergeRemoveStatisticsUpdate L t v = union_Merge L cat_RemoveStatisticsUpdate t v"

definition cat_TableUpdate_AsRemovePartitionSpecsUpdate :: "jlib \<Rightarrow> wval \<Rightarrow> goerr + wval" where
  "cat_TableUpdate_AsRemovePartitionSpecsUpdate L t = union_As L cat_RemovePartitionSpecsUpdate t"

definition cat_TableUpdate_FromRemovePartitionSpecsUpdate :: "wval \<Rightarrow> wval \<Rightarrow> goerr option \<times> wval" where
  "cat_TableUpdate_FromRemovePartitionSpecsUpdate t v = union_From cat_RemovePartitionSpecsUpdate t v"

definition cat_TableUpdate_MergeRemovePartitionSpecsUpdate :: "jlib \<Rightarrow> wval \<Rightarrow> wval \<Rightarrow> goerr option \<times> wval" where
  "cat_TableUpdate_MergeRemovePartitionSpecsUpdate L t v = union_Merge L cat_RemovePartitionSpecsUpdate t v"

definition cat_TableUpdate_AsRemoveSchemasUpdate :: "jlib \<Rightarrow> wval \<Rightarrow> goerr + wval" where
  "cat_TableUpdate_AsRemoveSchemasUpdate L t = union_As L cat_RemoveSchemasUpdate t"

definition cat_TableUpdate_FromRemoveSchemasUpdate :: "wval \<Rightarrow> wval \<Rightarrow> goerr option \<times> wval" where
  "cat_TableUpdate_FromRemoveSchemasUpdate t v = union_From cat_RemoveSchemasUpdate t v"

definition cat_TableUpdate_MergeRemoveSchemasUpdate :: "jlib \<Rightarrow> wval \<Rightarrow> wval \<Rightarrow> goerr option \<times> wval" where
  "cat_TableUpdate_MergeRemoveSchemasUpdate L t v = union_Merge L cat_RemoveSchemasUpdate t v"

definition cat_TableUpdate_AsAddEncryptionKeyUpdate :: "jlib \<Rightarrow> wval \<Rightarrow> goerr + wval" where
  "cat_TableUpdate_AsAddEncryptionKeyUpdate L t = union_As L cat_AddEncryptionKeyUpdate t"

definition cat_TableUpdate_FromAddEncryptionKeyUpdate :: "wval \<Rightarrow> wval \<Rightarrow> goerr option \<times> wval" where
  "cat_TableUpdate_FromAddEncryptionKeyUpdate t v = union_From cat_AddEncryptionKeyUpdate t v"

definition cat_TableUpdate_MergeAddEncryptionKeyUpdate :: "jlib \<Rightarrow> wval \<Rightarrow> wval \<Rightarrow> goerr option \<times> wval" where
  "cat_TableUpdate_MergeAddEncryptionKeyUpdate L t v = union_Merge L cat_AddEncryptionKeyUpdate t v"

definition cat_TableUpdate_AsRemoveEncryptionKeyUpdate :: "jlib \<Rightarrow> wval \<Rightarrow> goerr + wval" where
  "cat_TableUpdate_AsRemoveEncryptionKeyUpdate L t = union_As L cat_RemoveEncryptionKeyUpdate t"

definition cat_TableUpdate_FromRemoveEncryptionKeyUpdate :: "wval \<Rightarrow> wval \<Rightarrow> goerr option \<times> wval" where
  "cat_TableUpdate_FromRemoveEncryptionKeyUpdate t v = union_From cat_RemoveEncryptionKeyUpdate t v"

definition cat_TableUpdate_MergeRemoveEncryptionKeyUpdate :: "jlib \<Rightarrow> wval \<Rightarrow> wval \<Rightarrow> goerr option \<times> wval" where
  "cat_TableUpdate_MergeRemoveEncryptionKeyUpdate L t v = union_Merge L cat_RemoveEncryptionKeyUpdate t v"

definition cat_TableUpdate_MarshalJSON :: "wval \<Rightarrow> goerr + json" where
  "cat_TableUpdate_MarshalJSON t = Inr (raw_json (vget t ''union''))"

definition cat_TableUpdate_UnmarshalJSON :: decoder where
  "cat_TableUpdate_UnmarshalJSON t b = Inr (vset t ''union'' (VJson b))"

definition cat_Term_AsReference :: "jlib \<Rightarrow> wval \<Rightarrow> goerr + wval" where
  "cat_Term_AsReference L t = union_As L cat_Reference t"

definition cat_Term_FromReference :: "wval \<Rightarrow> wval \<Rightarrow> goerr option \<times> wval" where
  "cat_Term_FromReference t v = union_From cat_Reference t v"

definition cat_Term_MergeReference :: "jlib \<Rightarrow> wval \<Rightarrow> wval \<Rightarrow> goerr option \<times> wval" where
  "cat_Term_MergeReference L t v = union_Merge L cat_Reference t v"

definition cat_Term_AsTransformTerm :: "jlib \<Rightarrow> wval \<Rightarrow> goerr + wval" where
  "cat_Term_AsTransformTerm L t = union_As L cat_TransformTerm t"

definition cat_Term_FromTransformTerm :: "wval \<Rightarrow> wval \<Rightarrow> goerr option \<times> wval" where
  "cat_Term_FromTransformTerm t v = union_From cat_TransformTerm t v"

definition cat_Term_MergeTransformTerm :: "jlib \<Rightarrow> wval \<Rightarrow> wval \<Rightarrow> goerr option \<times> wval" where
  "cat_Term_MergeTransformTerm L t v = union_Merge L cat_TransformTerm t v"

definition cat_Term_MarshalJSON :: "wval \<Rightarrow> goerr + json" where
  "cat_Term_MarshalJSON t = Inr (raw_json (vget t ''union''))"

definition cat_Term_UnmarshalJSON :: decoder where
  "cat_Term_UnmarshalJSON t b = Inr (vset t ''union'' (VJson b))"

definition cat_Type_AsPrimitiveType :: "jlib \<Rightarrow> wval \<Rightarrow> goerr + wval" where
  "cat_Type_AsPrimitiveType L t = union_As L cat_PrimitiveType t"

definition cat_Type_FromPrimitiveType :: "wval \<Rightarrow> wval \<Rightarrow> goerr option \<times> wval" where
  "cat_Type_FromPrimitiveType t v = union_From cat_PrimitiveType t v"

definition cat_Type_MergePrimitiveType :: "jlib \<Rightarrow> wval \<Rightarrow> wval \<Rightarrow> goerr option \<times> wval" where
  "cat_Type_MergePrimitiveType L t v = union_Merge L cat_PrimitiveType t v"

definition cat_Type_AsStructType :: "jlib \<Rightarrow> wval \<Rightarrow> goerr + wval" where
  "cat_Type_AsStructType L t = union_As L cat_StructType t"

definition cat_Type_FromStructType :: "wval \<Rightarrow> wval \<Rightarrow> goerr option \<times> wval" where
  "cat_Type_FromStructType t v = union_From cat_StructType t v"

definition cat_Type_MergeStructType :: "jlib \<Rightarrow> wval \<Rightarrow> wval \<Rightarrow> goerr option \<times> wval" where
  "cat_Type_MergeStructType L t v = union_Merge L cat_StructType t v"

definition cat_Type_AsListType :: "jlib \<Rightarrow> wval \<Rightarrow> goerr + wval" where
  "cat_Type_AsListType L t = union_As L cat_ListType t"

definition cat_Type_FromListType :: "wval \<Rightarrow> wval \<Rightarrow> goerr option \<times> wval" where
  "cat_Type_FromListType t v = union_From cat_ListType t v"

definition cat_Type_MergeListType :: "jlib \<Rightarrow> wval \<Rightarrow> wval \<Rightarrow> goerr option \<times> wval" where
  "cat_Type_MergeListType L t v = union_Merge L cat_ListType t v"

definition cat_Type_AsMapType :: "jlib \<Rightarrow> wval \<Rightarrow> goerr + wval" where
  "cat_Type_AsMapType L t = union_As L cat_MapType t"

definition cat_Type_FromMapType :: "wval \<Rightarrow> wval \<Rightarrow> goerr option \<times> wval" where
  "cat_Type_FromMapType t v = union_From cat_MapType t v"

definition cat_Type_MergeMapType :: "jlib \<Rightarrow> wval \<Rightarrow> wval \<Rightarrow> goerr option \<times> wval" where
  "cat_Type_MergeMapType L t v = union_Merge L cat_MapType t v"

definition cat_Type_MarshalJSON :: "wval \<Rightarrow> goerr + json" where
  "cat_Type_MarshalJSON t = Inr (raw_json (vget t ''union''))"

definition cat_Type_UnmarshalJSON :: decoder where
  "cat_Type_UnmarshalJSON t b = Inr (vset t ''union'' (VJson b))"

definition cat_ViewRepresentation_AsSQLViewRepresentation :: "jlib \<Rightarrow> wval \<Rightarrow> goerr + wval" where
  "cat_ViewRepresentation_AsSQLViewRepresentation L t = union_As L cat_SQLViewRepresentation t"

definition cat_ViewRepresentation_FromSQLViewRepresentation :: "wval \<Rightarrow> wval \<Rightarrow> goerr option \<times> wval" where
  "cat_ViewRepresentation_FromSQLViewRepresentation t v = union_From cat_SQLViewRepresentation t v"

definition cat_ViewRepresentation_MergeSQLViewRepresentation :: "jlib \<Rightarrow> wval \<Rightarrow> wval \<Rightarrow> goerr option \<times> wval" where
  "cat_ViewRepresentation_MergeSQLViewRepresentation L t v = union_Merge L cat_SQLViewRepresentation t v"

definition cat_ViewRepresentation_MarshalJSON :: "wval \<Rightarrow> goerr + json" where
  "cat_ViewRepresentation_MarshalJSON t = Inr (raw_json (vget t ''union''))"

definition cat_ViewRepresentation_UnmarshalJSON :: decoder where
  "cat_ViewRepresentation_UnmarshalJSON t b = Inr (vset t ''union'' (VJson b))"

definition cat_ViewRequirement_AsAssertViewUUID :: "jlib \<Rightarrow> wval \<Rightarrow> goerr + wval" where
  "cat_ViewRequirement_AsAssertViewUUID L t = union_As L cat_AssertViewUUID t"

definition cat_ViewRequirement_FromAssertViewUUID :: "wval \<Rightarrow> wval \<Rightarrow> goerr option \<times> wval" where
  "cat_ViewRequirement_FromAssertViewUUID t v = union_From cat_AssertViewUUID t (vset v ''Type'' (VString ''assert-view-uuid''))"

definition cat_ViewRequirement_MergeAssertViewUUID :: "jlib \<Rightarrow> wval \<Rightarrow> wval \<Rightarrow> goerr option \<times> wval" where
  "cat_ViewRequirement_MergeAssertViewUUID L t v = union_Merge L cat_AssertViewUUID t (vset v ''Type'' (VString ''assert-view-uuid''))"

definition cat_ViewRequirement_Discriminator :: "jlib \<Rightarrow> wval \<Rightarrow> goerr + wval" where
  "cat_ViewRequirement_Discriminator L t =
     sum_bind (union_As L (WStruct [] [WField ''Discriminator'' ''type'' False WString]) t) (\<lambda>discriminator.
       Inr (vget discriminator ''Discriminator''))"

definition cat_ViewRequirement_ValueByDiscriminator :: "jlib \<Rightarrow> wval \<Rightarrow> goerr + wval" where
  "cat_ViewRequirement_ValueByDiscriminator L t =
     sum_bind (cat_ViewRequirement_Discriminator L t) (\<lambda>discriminator.
       if discriminator = VString ''assert-view-uuid'' then cat_ViewRequirement_AsAssertViewUUID L t
       else Inl (ErrNew (''unknown discriminator value: '' @
         (case discriminator of VString s \<Rightarrow> s | _ \<Rightarrow> []))))"

definition cat_ViewRequirement_MarshalJSON :: "wval \<Rightarrow> goerr + json" where
  "cat_ViewRequirement_MarshalJSON t = Inr (raw_json (vget t ''union''))"

definition cat_ViewRequirement_UnmarshalJSON :: decoder where
  "cat_ViewRequirement_UnmarshalJSON t b = Inr (vset t ''union'' (VJson b))"

definition cat_ViewUpdate_AsAssignUUIDUpdate :: "jlib \<Rightarrow> wval \<Rightarrow> goerr + wval" where
  "cat_ViewUpdate_AsAssignUUIDUpdate L t = union_As L cat_AssignUUIDUpdate t"

definition cat_ViewUpdate_FromAssignUUIDUpdate :: "wval \<Rightarrow> wval \<Rightarrow> goerr option \<times> wval" where
  "cat_ViewUpdate_FromAssignUUIDUpdate t v = union_From cat_AssignUUIDUpdate t v"

definition cat_ViewUpdate_MergeAssignUUIDUpdate :: "jlib \<Rightarrow> wval \<Rightarrow> wval \<Rightarrow> goerr option \<times> wval" where
  "cat_ViewUpdate_MergeAssignUUIDUpdate L t v = union_Merge L cat_AssignUUIDUpdate t v"

definition cat_ViewUpdate_AsUpgradeFormatVersionUpdate :: "jlib \<Rightarrow> wval \<Rightarrow> goerr + wval" where
  "cat_ViewUpdate_AsUpgradeFormatVersionUpdate L t = union_As L cat_UpgradeFormatVersionUpdate t"

definition cat_ViewUpdate_FromUpgradeFormatVersionUpdate :: "wval \<Rightarrow> wval \<Rightarrow> goerr option \<times> wval" where
  "cat_ViewUpdate_FromUpgradeFormatVersionUpdate t v = union_From cat_UpgradeFormatVersionUpdate t v"

definition cat_ViewUpdate_MergeUpgradeFormatVersionUpdate :: "jlib \<Rightarrow> wval \<Rightarrow> wval \<Rightarrow> goerr option \<times> wval" where
  "cat_ViewUpdate_MergeUpgradeFormatVersionUpdate L t v = union_Merge L cat_UpgradeFormatVersionUpdate t v"

definition cat_ViewUpdate_AsAddSchemaUpdate :: "jlib \<Rightarrow> wval \<Rightarrow> goerr + wval" where
  "cat_ViewUpdate_AsAddSchemaUpdate L t = union_As L cat_AddSchemaUpdate t"

definition cat_ViewUpdate_FromAddSchemaUpdate :: "wval \<Rightarrow> wval \<Rightarrow> goerr option \<times> wval" where
  "cat_ViewUpdate_FromAddSchemaUpdate t v = union_From cat_AddSchemaUpdate t v"

definition cat_ViewUpdate_MergeAddSchemaUpdate :: "jlib \<Rightarrow> wval \<Rightarrow> wval \<Rightarrow> goerr option \<times> wval" where
  "cat_ViewUpdate_MergeAddSchemaUpdate L t v = union_Merge L cat_AddSchemaUpdate t v"

definition cat_ViewUpdate_AsSetLocationUpdate :: "jlib \<Rightarrow> wval \<Rightarrow> goerr + wval" where
  "cat_ViewUpdate_AsSetLocationUpdate L t = union_As L cat_SetLocationUpdate t"

definition cat_ViewUpdate_FromSetLocationUpdate :: "wval \<Rightarrow> wval \<Rightarrow> goerr option \<times> wval" where
  "cat_ViewUpdate_FromSetLocationUpdate t v = union_From cat_SetLocationUpdate t v"

definition cat_ViewUpdate_MergeSetLocationUpdate :: "jlib \<Rightarrow> wval \<Rightarrow> wval \<Rightarrow> goerr option \<times> wval" where
  "cat_ViewUpdate_MergeSetLocationUpdate L t v = union_Merge L cat_SetLocationUpdate t v"

definition cat_ViewUpdate_AsSetPropertiesUpdate :: "jlib \<Rightarrow> wval \<Rightarrow> goerr + wval" where
  "cat_ViewUpdate_AsSetPropertiesUpdate L t = union_As L cat_SetPropertiesUpdate t"

definition cat_ViewUpdate_FromSetPropertiesUpdate :: "wval \<Rightarrow> wval \<Rightarrow> goerr option \<times> wval" where
  "cat_ViewUpdate_FromSetPropertiesUpdate t v = union_From cat_SetPropertiesUpdate t v"

definition cat_ViewUpdate_MergeSetPropertiesUpdate :: "jlib \<Rightarrow> wval \<Rightarrow> wval \<Rightarrow> goerr option \<times> wval" where
  "cat_ViewUpdate_MergeSetPropertiesUpdate L t v = union_Merge L cat_SetPropertiesUpdate t v"

definition cat_ViewUpdate_AsRemovePropertiesUpdate :: "jlib \<Rightarrow> wval \<Rightarrow> goerr + wval" where
  "cat_ViewUpdate_AsRemovePropertiesUpdate L t = union_As L cat_RemovePropertiesUpdate t"

definition cat_ViewUpdate_FromRemovePropertiesUpdate :: "wval \<Rightarrow> wval \<Rightarrow> goerr option \<times> wval" where
  "cat_ViewUpdate_FromRemovePropertiesUpdate t v = union_From cat_RemovePropertiesUpdate t v"

definition cat_ViewUpdate_MergeRemovePropertiesUpdate :: "jlib \<Rightarrow> wval \<Rightarrow> wval \<Rightarrow> goerr option \<times> wval" where
  "cat_ViewUpdate_MergeRemovePropertiesUpdate L t v = union_Merge L cat_RemovePropertiesUpdate t v"

definition cat_ViewUpdate_AsAddViewVersionUpdate :: "jlib \<Rightarrow> wval \<Rightarrow> goerr + wval" where
  "cat_ViewUpdate_AsAddViewVersionUpdate L t = union_As L cat_AddViewVersionUpdate t"

definition cat_ViewUpdate_FromAddViewVersionUpdate :: "wval \<Rightarrow> wval \<Rightarrow> goerr option \<times> wval" where
  "cat_ViewUpdate_FromAddViewVersionUpdate t v = union_From cat_AddViewVersionUpdate t v"

definition cat_ViewUpdate_MergeAddViewVersionUpdate :: "jlib \<Rightarrow> wval \<Rightarrow> wval \<Rightarrow> goerr option \<times> wval" where
  "cat_ViewUpdate_MergeAddViewVersionUpdate L t v = union_Merge L cat_AddViewVersionUpdate t v"

definition cat_ViewUpdate_AsSetCurrentViewVersionUpdate :: "jlib \<Rightarrow> wval \<Rightarrow> goerr + wval" where
  "cat_ViewUpdate_AsSetCurrentViewVersionUpdate L t = union_As L cat_SetCurrentViewVersionUpdate t"

definition cat_ViewUpdate_FromSetCurrentViewVersionUpdate :: "wval \<Rightarrow> wval \<Rightarrow> goerr option \<times> wval" where
  "cat_ViewUpdate_FromSetCurrentViewVersionUpdate t v = union_From cat_SetCurrentViewVersionUpdate t v"

definition cat_ViewUpdate_MergeSetCurrentViewVersionUpdate :: "jlib \<Rightarrow> wval \<Rightarrow> wval \<Rightarrow> goerr option \<times> wval" where
  "cat_ViewUpdate_MergeSetCurrentViewVersionUpdate L t v = union_Merge L cat_SetCurrentViewVersionUpdate t v"

definition cat_ViewUpdate_MarshalJSON :: "wval \<Rightarrow> goerr + json" where
  "cat_ViewUpdate_MarshalJSON t = Inr (raw_json (vget t ''union''))"

definition cat_ViewUpdate_UnmarshalJSON :: decoder where
  "cat_ViewUpdate_UnmarshalJSON t b = Inr (vset t ''union'' (VJson b))"

end
