(* ===== verification/Wire_Types.thy ===== *)
theory Wire_Types
  imports Json_Typing Management_Types Catalog_Unions
begin

text \<open>
  The types of the two generated clients as tables, and what holds of all of them: a value
  survives the way to the wire and back, and so does a variant that is put into a union.
\<close>

section \<open>The types\<close>

definition mgmt_types :: "wtype list" where
  "mgmt_types =
    [mgmt_GrantResourceType, mgmt_GrantResource, mgmt_AddGrantRequest, mgmt_Catalog_Properties,
     mgmt_CatalogType, mgmt_StorageConfigInfoStorageType, mgmt_StorageConfigInfo, mgmt_Catalog,
     mgmt_CatalogRole, mgmt_CatalogRoles, mgmt_Catalogs, mgmt_CreateCatalogRequest,
     mgmt_CreateCatalogRoleRequest, mgmt_Principal, mgmt_CreatePrincipalRequest,
     mgmt_PrincipalRole, mgmt_CreatePrincipalRoleRequest, mgmt_GrantCatalogRoleRequest,
     mgmt_GrantPrincipalRoleRequest, mgmt_GrantResources, mgmt_PrincipalRoles,
     mgmt_PrincipalWithCredentials, mgmt_Principals, mgmt_ResetPrincipalRequest,
     mgmt_RevokeGrantRequest, mgmt_UpdateCatalogRequest, mgmt_UpdateCatalogRoleRequest,
     mgmt_UpdatePrincipalRequest, mgmt_UpdatePrincipalRoleRequest,
     mgmt_RevokeGrantFromCatalogRoleParams, mgmt_CreateCatalogJSONRequestBody,
     mgmt_UpdateCatalogJSONRequestBody, mgmt_CreateCatalogRoleJSONRequestBody,
     mgmt_UpdateCatalogRoleJSONRequestBody, mgmt_RevokeGrantFromCatalogRoleJSONRequestBody,
     mgmt_AddGrantToCatalogRoleJSONRequestBody, mgmt_CreatePrincipalRoleJSONRequestBody,
     mgmt_UpdatePrincipalRoleJSONRequestBody,
     mgmt_AssignCatalogRoleToPrincipalRoleJSONRequestBody, mgmt_CreatePrincipalJSONRequestBody,
     mgmt_UpdatePrincipalJSONRequestBody, mgmt_AssignPrincipalRoleJSONRequestBody,
     mgmt_ResetCredentialsJSONRequestBody]"

definition cat_types :: "wtype list" where
  "cat_types =
    [cat_BaseUpdate, cat_AddEncryptionKeyUpdate, cat_AddPartitionSpecUpdate,
     cat_AddSchemaUpdate, cat_AddSnapshotUpdate, cat_AddSortOrderUpdate,
     cat_AddViewVersionUpdate, cat_Expression, cat_ExpressionType, cat_AndOrExpression,
     cat_Namespace, cat_PolicyName, cat_ApplicablePolicy, cat_AssertViewUUID,
     cat_AssignUUIDUpdate, cat_PolicyAttachmentTargetType, cat_PolicyAttachmentTarget,
     cat_AttachPolicyRequest, cat_BinaryTypeValue, cat_BlobMetadata, cat_BooleanTypeValue,
     cat_CatalogConfig, cat_MetricResult, cat_Metrics, cat_CommitReport, cat_TableIdentifier,
     cat_TableRequirement, cat_TableUpdate, cat_CommitTableRequest, cat_EncryptedKey,
     cat_MetadataLog, cat_Transform, cat_PartitionField, cat_PartitionSpec,
     cat_PartitionStatisticsFile, cat_PrimitiveTypeValue, cat_Type, cat_StructField,
     cat_Schema, cat_SnapshotSummaryOperation, cat_Snapshot_Summary, cat_Snapshot,
     cat_SnapshotLog, cat_SnapshotReferenceType, cat_SnapshotReference, cat_SnapshotReferences,
     cat_NullOrder, cat_SortDirection, cat_SortField, cat_SortOrder, cat_StatisticsFile,
     cat_TableMetadata, cat_CommitTableResponse, cat_CommitTransactionRequest,
     cat_ViewRequirement, cat_ViewUpdate, cat_CommitViewRequest, cat_CounterResult,
     cat_CreateNamespaceRequest, cat_CreateNamespaceResponse, cat_CreatePolicyRequest,
     cat_CreateTableRequest, cat_ViewRepresentation, cat_ViewVersion, cat_CreateViewRequest,
     cat_DateTypeValue, cat_DecimalTypeValue, cat_DetachPolicyRequest, cat_DoubleTypeValue,
     cat_ErrorModel, cat_FalseExpression, cat_FixedTypeValue, cat_FloatTypeValue,
     cat_PageToken, cat_GetApplicablePoliciesResponse, cat_GetNamespaceResponse,
     cat_IcebergErrorResponse, cat_IntegerTypeValue, cat_ListNamespacesResponse,
     cat_PolicyIdentifier, cat_ListPoliciesResponse, cat_ListTablesResponse, cat_ListType,
     cat_Term, cat_LiteralExpression, cat_StorageCredential, cat_LoadCredentialsResponse,
     cat_Policy, cat_LoadPolicyResponse, cat_LoadTableResult, cat_ViewHistoryEntry,
     cat_ViewMetadata, cat_LoadViewResult, cat_LongTypeValue, cat_MapType, cat_NotExpression,
     cat_NotificationType, cat_TableUpdateNotification, cat_NotificationRequest,
     cat_OAuthClientCredentialsRequestGrantType, cat_OAuthClientCredentialsRequest,
     cat_OAuthErrorError, cat_OAuthError, cat_OAuthTokenExchangeRequestGrantType,
     cat_TokenType, cat_OAuthTokenExchangeRequest, cat_OAuthTokenRequest,
     cat_OAuthTokenResponseTokenType, cat_OAuthTokenResponse, cat_PolicyType,
     cat_PrimitiveType, cat_Reference, cat_RegisterTableRequest, cat_RemoveEncryptionKeyUpdate,
     cat_RemovePartitionSpecsUpdate, cat_RemovePropertiesUpdate, cat_RemoveSchemasUpdate,
     cat_RemoveSnapshotRefUpdate, cat_RemoveSnapshotsUpdate, cat_RemoveStatisticsUpdate,
     cat_RenameTableRequest, cat_ReportMetricsRequest, cat_SQLViewRepresentation,
     cat_ScanReport, cat_SetCurrentSchemaUpdate, cat_SetCurrentViewVersionUpdate,
     cat_SetDefaultSortOrderUpdate, cat_SetDefaultSpecUpdate, cat_SetExpression,
     cat_SetLocationUpdate, cat_SetPropertiesUpdate, cat_SetSnapshotRefUpdateType,
     cat_SetSnapshotRefUpdate, cat_SetStatisticsUpdate, cat_StringTypeValue, cat_StructType,
     cat_TimeTypeValue, cat_TimerResult, cat_TimestampNanoTypeValue, cat_TimestampTypeValue,
     cat_TimestampTzNanoTypeValue, cat_TimestampTzTypeValue, cat_TransformTerm,
     cat_TrueExpression, cat_UUIDTypeValue, cat_UnaryExpression,
     cat_UpdateNamespacePropertiesRequest, cat_UpdateNamespacePropertiesResponse,
     cat_UpdatePolicyRequest, cat_UpgradeFormatVersionUpdate, cat_DataAccess, cat_GenericTable,
     cat_NsParam, cat_PageSize, cat_Prefix, cat_Table, cat_View,
     cat_AuthenticationTimeoutResponse, cat_BadRequestErrorResponse, cat_CreatePolicyResponse,
     cat_CreateTableResponse, cat_ForbiddenResponse, cat_LoadTableResponse,
     cat_LoadViewResponse, cat_OAuthErrorResponse, cat_ServerErrorResponse,
     cat_ServiceUnavailableResponse, cat_UnauthorizedResponse,
     cat_UnsupportedOperationResponse, cat_UpdatePolicyResponse,
     cat_GetApplicablePoliciesParams, cat_ListPoliciesParams, cat_DropPolicyParams,
     cat_GetConfigParams, cat_GetTokenParams, cat_ListNamespacesParams, cat_ListTablesParams,
     cat_CreateTableParamsXIcebergAccessDelegation, cat_CreateTableParams, cat_DropTableParams,
     cat_LoadTableParamsSnapshots, cat_LoadTableParamsXIcebergAccessDelegation,
     cat_LoadTableParams, cat_ListViewsParams, cat_CreatePolicyJSONRequestBody,
     cat_UpdatePolicyJSONRequestBody, cat_DetachPolicyJSONRequestBody,
     cat_AttachPolicyJSONRequestBody, cat_GetTokenFormdataRequestBody,
     cat_CreateNamespaceJSONRequestBody, cat_UpdatePropertiesJSONRequestBody,
     cat_RegisterTableJSONRequestBody, cat_CreateTableJSONRequestBody,
     cat_UpdateTableJSONRequestBody, cat_ReportMetricsJSONRequestBody,
     cat_SendNotificationJSONRequestBody, cat_CreateViewJSONRequestBody,
     cat_ReplaceViewJSONRequestBody, cat_RenameTableJSONRequestBody,
     cat_CommitTransactionJSONRequestBody, cat_RenameViewJSONRequestBody]"

lemma mgmt_wf_1 [simp]:
  "wf_type mgmt_GrantResourceType" "wf_type mgmt_Catalog_Properties" "wf_type mgmt_CatalogType"
  "wf_type mgmt_StorageConfigInfoStorageType" "wf_type mgmt_CatalogRole"
  "wf_type mgmt_Principal" "wf_type mgmt_PrincipalRole" "wf_type mgmt_ResetPrincipalRequest"
  "wf_type mgmt_UpdateCatalogRoleRequest" "wf_type mgmt_UpdatePrincipalRequest"
  "wf_type mgmt_UpdatePrincipalRoleRequest" "wf_type mgmt_RevokeGrantFromCatalogRoleParams"
  by (simp_all add: lower_char_def
    mgmt_GrantResourceType_def mgmt_Catalog_Properties_def mgmt_CatalogType_def
    mgmt_StorageConfigInfoStorageType_def mgmt_CatalogRole_def mgmt_Principal_def
    mgmt_PrincipalRole_def mgmt_ResetPrincipalRequest_def mgmt_UpdateCatalogRoleRequest_def
    mgmt_UpdatePrincipalRequest_def mgmt_UpdatePrincipalRoleRequest_def
    mgmt_RevokeGrantFromCatalogRoleParams_def)

lemma mgmt_wf_2 [simp]:
  "wf_type mgmt_GrantResource" "wf_type mgmt_StorageConfigInfo" "wf_type mgmt_CatalogRoles"
  "wf_type mgmt_CreateCatalogRoleRequest" "wf_type mgmt_CreatePrincipalRequest"
  "wf_type mgmt_CreatePrincipalRoleRequest" "wf_type mgmt_GrantCatalogRoleRequest"
  "wf_type mgmt_GrantPrincipalRoleRequest" "wf_type mgmt_PrincipalRoles"
  "wf_type mgmt_PrincipalWithCredentials" "wf_type mgmt_Principals"
  "wf_type mgmt_UpdateCatalogRoleJSONRequestBody"
  "wf_type mgmt_UpdatePrincipalRoleJSONRequestBody"
  "wf_type mgmt_UpdatePrincipalJSONRequestBody" "wf_type mgmt_ResetCredentialsJSONRequestBody"
  by (simp_all add: lower_char_def
    mgmt_GrantResource_def mgmt_StorageConfigInfo_def mgmt_CatalogRoles_def
    mgmt_CreateCatalogRoleRequest_def mgmt_CreatePrincipalRequest_def
    mgmt_CreatePrincipalRoleRequest_def mgmt_GrantCatalogRoleRequest_def
    mgmt_GrantPrincipalRoleRequest_def mgmt_PrincipalRoles_def
    mgmt_PrincipalWithCredentials_def mgmt_Principals_def
    mgmt_UpdateCatalogRoleJSONRequestBody_def mgmt_UpdatePrincipalRoleJSONRequestBody_def
    mgmt_UpdatePrincipalJSONRequestBody_def mgmt_ResetCredentialsJSONRequestBody_def)

lemma mgmt_wf_3 [simp]:
  "wf_type mgmt_AddGrantRequest" "wf_type mgmt_Catalog" "wf_type mgmt_GrantResources"
  "wf_type mgmt_RevokeGrantRequest" "wf_type mgmt_UpdateCatalogRequest"
  "wf_type mgmt_CreateCatalogRoleJSONRequestBody"
  "wf_type mgmt_CreatePrincipalRoleJSONRequestBody"
  "wf_type mgmt_AssignCatalogRoleToPrincipalRoleJSONRequestBody"
  "wf_type mgmt_CreatePrincipalJSONRequestBody"
  "wf_type mgmt_AssignPrincipalRoleJSONRequestBody"
  by (simp_all add: lower_char_def
    mgmt_AddGrantRequest_def mgmt_Catalog_def mgmt_GrantResources_def
    mgmt_RevokeGrantRequest_def mgmt_UpdateCatalogRequest_def
    mgmt_CreateCatalogRoleJSONRequestBody_def mgmt_CreatePrincipalRoleJSONRequestBody_def
    mgmt_AssignCatalogRoleToPrincipalRoleJSONRequestBody_def
    mgmt_CreatePrincipalJSONRequestBody_def mgmt_AssignPrincipalRoleJSONRequestBody_def)

lemma mgmt_wf_4 [simp]:
  "wf_type mgmt_Catalogs" "wf_type mgmt_CreateCatalogRequest"
  "wf_type mgmt_UpdateCatalogJSONRequestBody"
  "wf_type mgmt_RevokeGrantFromCatalogRoleJSONRequestBody"
  "wf_type mgmt_AddGrantToCatalogRoleJSONRequestBody"
  by (simp_all add: lower_char_def
    mgmt_Catalogs_def mgmt_CreateCatalogRequest_def mgmt_UpdateCatalogJSONRequestBody_def
    mgmt_RevokeGrantFromCatalogRoleJSONRequestBody_def
    mgmt_AddGrantToCatalogRoleJSONRequestBody_def)

lemma mgmt_wf_5 [simp]:
  "wf_type mgmt_CreateCatalogJSONRequestBody"
  by (simp_all add: lower_char_def
    mgmt_CreateCatalogJSONRequestBody_def)

lemma cat_wf_1 [simp]:
  "wf_type cat_BaseUpdate" "wf_type cat_Expression" "wf_type cat_ExpressionType"
  "wf_type cat_Namespace" "wf_type cat_PolicyName" "wf_type cat_AssertViewUUID"
  "wf_type cat_PolicyAttachmentTargetType" "wf_type cat_BinaryTypeValue"
  "wf_type cat_BlobMetadata" "wf_type cat_BooleanTypeValue" "wf_type cat_CatalogConfig"
  "wf_type cat_MetricResult" "wf_type cat_TableRequirement" "wf_type cat_TableUpdate"
  "wf_type cat_EncryptedKey" "wf_type cat_MetadataLog" "wf_type cat_Transform"
  "wf_type cat_PartitionStatisticsFile" "wf_type cat_PrimitiveTypeValue" "wf_type cat_Type"
  "wf_type cat_SnapshotSummaryOperation" "wf_type cat_Snapshot_Summary"
  "wf_type cat_SnapshotLog" "wf_type cat_SnapshotReferenceType" "wf_type cat_NullOrder"
  "wf_type cat_SortDirection" "wf_type cat_ViewRequirement" "wf_type cat_ViewUpdate"
  "wf_type cat_CounterResult" "wf_type cat_ViewRepresentation" "wf_type cat_DateTypeValue"
  "wf_type cat_DecimalTypeValue" "wf_type cat_DoubleTypeValue" "wf_type cat_ErrorModel"
  "wf_type cat_FixedTypeValue" "wf_type cat_FloatTypeValue" "wf_type cat_PageToken"
  "wf_type cat_IntegerTypeValue" "wf_type cat_Term" "wf_type cat_StorageCredential"
  "wf_type cat_ViewHistoryEntry" "wf_type cat_LongTypeValue" "wf_type cat_NotificationType"
  "wf_type cat_OAuthClientCredentialsRequestGrantType" "wf_type cat_OAuthErrorError"
  "wf_type cat_OAuthTokenExchangeRequestGrantType" "wf_type cat_TokenType"
  "wf_type cat_OAuthTokenRequest" "wf_type cat_OAuthTokenResponseTokenType"
  "wf_type cat_PolicyType" "wf_type cat_PrimitiveType" "wf_type cat_Reference"
  "wf_type cat_RegisterTableRequest" "wf_type cat_ReportMetricsRequest"
  "wf_type cat_SQLViewRepresentation" "wf_type cat_SetSnapshotRefUpdateType"
  "wf_type cat_StringTypeValue" "wf_type cat_TimeTypeValue" "wf_type cat_TimerResult"
  "wf_type cat_TimestampNanoTypeValue" "wf_type cat_TimestampTypeValue"
  "wf_type cat_TimestampTzNanoTypeValue" "wf_type cat_TimestampTzTypeValue"
  "wf_type cat_UUIDTypeValue" "wf_type cat_UpdateNamespacePropertiesRequest"
  "wf_type cat_UpdateNamespacePropertiesResponse" "wf_type cat_UpdatePolicyRequest"
  "wf_type cat_DataAccess" "wf_type cat_GenericTable" "wf_type cat_NsParam"
  "wf_type cat_PageSize" "wf_type cat_Prefix" "wf_type cat_Table" "wf_type cat_View"
  "wf_type cat_DropPolicyParams" "wf_type cat_GetConfigParams" "wf_type cat_GetTokenParams"
  "wf_type cat_CreateTableParamsXIcebergAccessDelegation" "wf_type cat_DropTableParams"
  "wf_type cat_LoadTableParamsSnapshots" "wf_type cat_LoadTableParamsXIcebergAccessDelegation"
  by (simp_all add: lower_char_def
    cat_BaseUpdate_def cat_Expression_def cat_ExpressionType_def cat_Namespace_def
    cat_PolicyName_def cat_AssertViewUUID_def cat_PolicyAttachmentTargetType_def
    cat_BinaryTypeValue_def cat_BlobMetadata_def cat_BooleanTypeValue_def cat_CatalogConfig_def
    cat_MetricResult_def cat_TableRequirement_def cat_TableUpdate_def cat_EncryptedKey_def
    cat_MetadataLog_def cat_Transform_def cat_PartitionStatisticsFile_def
    cat_PrimitiveTypeValue_def cat_Type_def cat_SnapshotSummaryOperation_def
    cat_Snapshot_Summary_def cat_SnapshotLog_def cat_SnapshotReferenceType_def
    cat_NullOrder_def cat_SortDirection_def cat_ViewRequirement_def cat_ViewUpdate_def
    cat_CounterResult_def cat_ViewRepresentation_def cat_DateTypeValue_def
    cat_DecimalTypeValue_def cat_DoubleTypeValue_def cat_ErrorModel_def cat_FixedTypeValue_def
    cat_FloatTypeValue_def cat_PageToken_def cat_IntegerTypeValue_def cat_Term_def
    cat_StorageCredential_def cat_ViewHistoryEntry_def cat_LongTypeValue_def
    cat_NotificationType_def cat_OAuthClientCredentialsRequestGrantType_def
    cat_OAuthErrorError_def cat_OAuthTokenExchangeRequestGrantType_def cat_TokenType_def
    cat_OAuthTokenRequest_def cat_OAuthTokenResponseTokenType_def cat_PolicyType_def
    cat_PrimitiveType_def cat_Reference_def cat_RegisterTableRequest_def
    cat_ReportMetricsRequest_def cat_SQLViewRepresentation_def cat_SetSnapshotRefUpdateType_def
    cat_StringTypeValue_def cat_TimeTypeValue_def cat_TimerResult_def
    cat_TimestampNanoTypeValue_def cat_TimestampTypeValue_def cat_TimestampTzNanoTypeValue_def
    cat_TimestampTzTypeValue_def cat_UUIDTypeValue_def cat_UpdateNamespacePropertiesRequest_def
    cat_UpdateNamespacePropertiesResponse_def cat_UpdatePolicyRequest_def cat_DataAccess_def
    cat_GenericTable_def cat_NsParam_def cat_PageSize_def cat_Prefix_def cat_Table_def
    cat_View_def cat_DropPolicyParams_def cat_GetConfigParams_def cat_GetTokenParams_def
    cat_CreateTableParamsXIcebergAccessDelegation_def cat_DropTableParams_def
    cat_LoadTableParamsSnapshots_def cat_LoadTableParamsXIcebergAccessDelegation_def)

lemma cat_wf_2 [simp]:
  "wf_type cat_AddEncryptionKeyUpdate" "wf_type cat_AddPartitionSpecUpdate"
  "wf_type cat_AddSchemaUpdate" "wf_type cat_AddSnapshotUpdate"
  "wf_type cat_AddSortOrderUpdate" "wf_type cat_AddViewVersionUpdate"
  "wf_type cat_AndOrExpression" "wf_type cat_ApplicablePolicy" "wf_type cat_AssignUUIDUpdate"
  "wf_type cat_PolicyAttachmentTarget" "wf_type cat_Metrics" "wf_type cat_TableIdentifier"
  "wf_type cat_PartitionField" "wf_type cat_StructField" "wf_type cat_Snapshot"
  "wf_type cat_SnapshotReference" "wf_type cat_SortField" "wf_type cat_StatisticsFile"
  "wf_type cat_CreateNamespaceRequest" "wf_type cat_CreateNamespaceResponse"
  "wf_type cat_CreatePolicyRequest" "wf_type cat_ViewVersion" "wf_type cat_FalseExpression"
  "wf_type cat_GetNamespaceResponse" "wf_type cat_IcebergErrorResponse"
  "wf_type cat_ListNamespacesResponse" "wf_type cat_PolicyIdentifier" "wf_type cat_ListType"
  "wf_type cat_LiteralExpression" "wf_type cat_LoadCredentialsResponse" "wf_type cat_Policy"
  "wf_type cat_MapType" "wf_type cat_NotExpression" "wf_type cat_OAuthClientCredentialsRequest"
  "wf_type cat_OAuthError" "wf_type cat_OAuthTokenExchangeRequest"
  "wf_type cat_OAuthTokenResponse" "wf_type cat_RemoveEncryptionKeyUpdate"
  "wf_type cat_RemovePartitionSpecsUpdate" "wf_type cat_RemovePropertiesUpdate"
  "wf_type cat_RemoveSchemasUpdate" "wf_type cat_RemoveSnapshotRefUpdate"
  "wf_type cat_RemoveSnapshotsUpdate" "wf_type cat_RemoveStatisticsUpdate"
  "wf_type cat_SetCurrentSchemaUpdate" "wf_type cat_SetCurrentViewVersionUpdate"
  "wf_type cat_SetDefaultSortOrderUpdate" "wf_type cat_SetDefaultSpecUpdate"
  "wf_type cat_SetExpression" "wf_type cat_SetLocationUpdate" "wf_type cat_SetPropertiesUpdate"
  "wf_type cat_SetSnapshotRefUpdate" "wf_type cat_SetStatisticsUpdate"
  "wf_type cat_TransformTerm" "wf_type cat_TrueExpression" "wf_type cat_UnaryExpression"
  "wf_type cat_UpgradeFormatVersionUpdate" "wf_type cat_UnsupportedOperationResponse"
  "wf_type cat_GetApplicablePoliciesParams" "wf_type cat_ListPoliciesParams"
  "wf_type cat_ListNamespacesParams" "wf_type cat_ListTablesParams"
  "wf_type cat_CreateTableParams" "wf_type cat_LoadTableParams" "wf_type cat_ListViewsParams"
  "wf_type cat_UpdatePolicyJSONRequestBody" "wf_type cat_GetTokenFormdataRequestBody"
  "wf_type cat_UpdatePropertiesJSONRequestBody" "wf_type cat_RegisterTableJSONRequestBody"
  "wf_type cat_ReportMetricsJSONRequestBody"
  by (simp_all add: lower_char_def
    cat_AddEncryptionKeyUpdate_def cat_AddPartitionSpecUpdate_def cat_AddSchemaUpdate_def
    cat_AddSnapshotUpdate_def cat_AddSortOrderUpdate_def cat_AddViewVersionUpdate_def
    cat_AndOrExpression_def cat_ApplicablePolicy_def cat_AssignUUIDUpdate_def
    cat_PolicyAttachmentTarget_def cat_Metrics_def cat_TableIdentifier_def
    cat_PartitionField_def cat_StructField_def cat_Snapshot_def cat_SnapshotReference_def
    cat_SortField_def cat_StatisticsFile_def cat_CreateNamespaceRequest_def
    cat_CreateNamespaceResponse_def cat_CreatePolicyRequest_def cat_ViewVersion_def
    cat_FalseExpression_def cat_GetNamespaceResponse_def cat_IcebergErrorResponse_def
    cat_ListNamespacesResponse_def cat_PolicyIdentifier_def cat_ListType_def
    cat_LiteralExpression_def cat_LoadCredentialsResponse_def cat_Policy_def cat_MapType_def
    cat_NotExpression_def cat_OAuthClientCredentialsRequest_def cat_OAuthError_def
    cat_OAuthTokenExchangeRequest_def cat_OAuthTokenResponse_def
    cat_RemoveEncryptionKeyUpdate_def cat_RemovePartitionSpecsUpdate_def
    cat_RemovePropertiesUpdate_def cat_RemoveSchemasUpdate_def cat_RemoveSnapshotRefUpdate_def
    cat_RemoveSnapshotsUpdate_def cat_RemoveStatisticsUpdate_def cat_SetCurrentSchemaUpdate_def
    cat_SetCurrentViewVersionUpdate_def cat_SetDefaultSortOrderUpdate_def
    cat_SetDefaultSpecUpdate_def cat_SetExpression_def cat_SetLocationUpdate_def
    cat_SetPropertiesUpdate_def cat_SetSnapshotRefUpdate_def cat_SetStatisticsUpdate_def
    cat_TransformTerm_def cat_TrueExpression_def cat_UnaryExpression_def
    cat_UpgradeFormatVersionUpdate_def cat_UnsupportedOperationResponse_def
    cat_GetApplicablePoliciesParams_def cat_ListPoliciesParams_def cat_ListNamespacesParams_def
    cat_ListTablesParams_def cat_CreateTableParams_def cat_LoadTableParams_def
    cat_ListViewsParams_def cat_UpdatePolicyJSONRequestBody_def
    cat_GetTokenFormdataRequestBody_def cat_UpdatePropertiesJSONRequestBody_def
    cat_RegisterTableJSONRequestBody_def cat_ReportMetricsJSONRequestBody_def)

lemma cat_wf_3 [simp]:
  "wf_type cat_AttachPolicyRequest" "wf_type cat_CommitReport" "wf_type cat_CommitTableRequest"
  "wf_type cat_PartitionSpec" "wf_type cat_Schema" "wf_type cat_SnapshotReferences"
  "wf_type cat_SortOrder" "wf_type cat_CommitViewRequest" "wf_type cat_DetachPolicyRequest"
  "wf_type cat_GetApplicablePoliciesResponse" "wf_type cat_ListPoliciesResponse"
  "wf_type cat_ListTablesResponse" "wf_type cat_LoadPolicyResponse"
  "wf_type cat_RenameTableRequest" "wf_type cat_ScanReport" "wf_type cat_StructType"
  "wf_type cat_AuthenticationTimeoutResponse" "wf_type cat_BadRequestErrorResponse"
  "wf_type cat_ForbiddenResponse" "wf_type cat_OAuthErrorResponse"
  "wf_type cat_ServerErrorResponse" "wf_type cat_ServiceUnavailableResponse"
  "wf_type cat_UnauthorizedResponse" "wf_type cat_CreatePolicyJSONRequestBody"
  "wf_type cat_CreateNamespaceJSONRequestBody"
  by (simp_all add: lower_char_def
    cat_AttachPolicyRequest_def cat_CommitReport_def cat_CommitTableRequest_def
    cat_PartitionSpec_def cat_Schema_def cat_SnapshotReferences_def cat_SortOrder_def
    cat_CommitViewRequest_def cat_DetachPolicyRequest_def cat_GetApplicablePoliciesResponse_def
    cat_ListPoliciesResponse_def cat_ListTablesResponse_def cat_LoadPolicyResponse_def
    cat_RenameTableRequest_def cat_ScanReport_def cat_StructType_def
    cat_AuthenticationTimeoutResponse_def cat_BadRequestErrorResponse_def
    cat_ForbiddenResponse_def cat_OAuthErrorResponse_def cat_ServerErrorResponse_def
    cat_ServiceUnavailableResponse_def cat_UnauthorizedResponse_def
    cat_CreatePolicyJSONRequestBody_def cat_CreateNamespaceJSONRequestBody_def)

lemma cat_wf_4 [simp]:
  "wf_type cat_TableMetadata" "wf_type cat_CommitTransactionRequest"
  "wf_type cat_CreateTableRequest" "wf_type cat_CreateViewRequest" "wf_type cat_ViewMetadata"
  "wf_type cat_CreatePolicyResponse" "wf_type cat_UpdatePolicyResponse"
  "wf_type cat_DetachPolicyJSONRequestBody" "wf_type cat_AttachPolicyJSONRequestBody"
  "wf_type cat_UpdateTableJSONRequestBody" "wf_type cat_ReplaceViewJSONRequestBody"
  "wf_type cat_RenameTableJSONRequestBody" "wf_type cat_RenameViewJSONRequestBody"
  by (simp_all add: lower_char_def
    cat_TableMetadata_def cat_CommitTransactionRequest_def cat_CreateTableRequest_def
    cat_CreateViewRequest_def cat_ViewMetadata_def cat_CreatePolicyResponse_def
    cat_UpdatePolicyResponse_def cat_DetachPolicyJSONRequestBody_def
    cat_AttachPolicyJSONRequestBody_def cat_UpdateTableJSONRequestBody_def
    cat_ReplaceViewJSONRequestBody_def cat_RenameTableJSONRequestBody_def
    cat_RenameViewJSONRequestBody_def)

lemma cat_wf_5 [simp]:
  "wf_type cat_CommitTableResponse" "wf_type cat_LoadTableResult" "wf_type cat_LoadViewResult"
  "wf_type cat_TableUpdateNotification" "wf_type cat_CreateTableJSONRequestBody"
  "wf_type cat_CreateViewJSONRequestBody" "wf_type cat_CommitTransactionJSONRequestBody"
  by (simp_all add: lower_char_def
    cat_CommitTableResponse_def cat_LoadTableResult_def cat_LoadViewResult_def
    cat_TableUpdateNotification_def cat_CreateTableJSONRequestBody_def
    cat_CreateViewJSONRequestBody_def cat_CommitTransactionJSONRequestBody_def)

lemma cat_wf_6 [simp]:
  "wf_type cat_NotificationRequest" "wf_type cat_CreateTableResponse"
  "wf_type cat_LoadTableResponse" "wf_type cat_LoadViewResponse"
  by (simp_all add: lower_char_def
    cat_NotificationRequest_def cat_CreateTableResponse_def cat_LoadTableResponse_def
    cat_LoadViewResponse_def)

lemma cat_wf_7 [simp]:
  "wf_type cat_SendNotificationJSONRequestBody"
  by (simp_all add: lower_char_def
    cat_SendNotificationJSONRequestBody_def)

lemma types_wf: "list_all wf_type mgmt_types" "list_all wf_type cat_types"
  by (simp_all add: mgmt_types_def cat_types_def)

section \<open>The unions\<close>

text \<open>
  A row holds the union, a variant, its \<open>As\<close> and \<open>From\<close>, and what \<open>From\<close> does to the value
  first: the variant of \<open>ViewRequirement\<close> has its \<open>Type\<close> set.
\<close>

definition cat_unions ::
  "(wtype \<times> wtype \<times> (jlib \<Rightarrow> wval \<Rightarrow> goerr + wval) \<times> (wval \<Rightarrow> wval \<Rightarrow> goerr option \<times> wval) \<times>
    (wval \<Rightarrow> wval)) list" where
  "cat_unions =
     [(cat_Expression, cat_TrueExpression, cat_Expression_AsTrueExpression, cat_Expression_FromTrueExpression,
       \<lambda>v. v),
      (cat_Expression, cat_FalseExpression, cat_Expression_AsFalseExpression, cat_Expression_FromFalseExpression,
       \<lambda>v. v),
      (cat_Expression, cat_AndOrExpression, cat_Expression_AsAndOrExpression, cat_Expression_FromAndOrExpression,
       \<lambda>v. v),
      (cat_Expression, cat_NotExpression, cat_Expression_AsNotExpression, cat_Expression_FromNotExpression,
       \<lambda>v. v),
      (cat_Expression, cat_SetExpression, cat_Expression_AsSetExpression, cat_Expression_FromSetExpression,
       \<lambda>v. v),
      (cat_Expression, cat_LiteralExpression, cat_Expression_AsLiteralExpression, cat_Expression_FromLiteralExpression,
       \<lambda>v. v),
      (cat_Expression, cat_UnaryExpression, cat_Expression_AsUnaryExpression, cat_Expression_FromUnaryExpression,
       \<lambda>v. v),
      (cat_MetricResult, cat_CounterResult, cat_MetricResult_AsCounterResult, cat_MetricResult_FromCounterResult,
       \<lambda>v. v),
      (cat_MetricResult, cat_TimerResult, cat_MetricResult_AsTimerResult, cat_MetricResult_FromTimerResult,
       \<lambda>v. v),
      (cat_OAuthTokenRequest, cat_OAuthClientCredentialsRequest, cat_OAuthTokenRequest_AsOAuthClientCredentialsRequest, cat_OAuthTokenRequest_FromOAuthClientCredentialsRequest,
       \<lambda>v. v),
      (cat_OAuthTokenRequest, cat_OAuthTokenExchangeRequest, cat_OAuthTokenRequest_AsOAuthTokenExchangeRequest, cat_OAuthTokenRequest_FromOAuthTokenExchangeRequest,
       \<lambda>v. v),
      (cat_PrimitiveTypeValue, cat_BooleanTypeValue, cat_PrimitiveTypeValue_AsBooleanTypeValue, cat_PrimitiveTypeValue_FromBooleanTypeValue,
       \<lambda>v. v),
      (cat_PrimitiveTypeValue, cat_IntegerTypeValue, cat_PrimitiveTypeValue_AsIntegerTypeValue, cat_PrimitiveTypeValue_FromIntegerTypeValue,
       \<lambda>v. v),
      (cat_PrimitiveTypeValue, cat_LongTypeValue, cat_PrimitiveTypeValue_AsLongTypeValue, cat_PrimitiveTypeValue_FromLongTypeValue,
       \<lambda>v. v),
      (cat_PrimitiveTypeValue, cat_FloatTypeValue, cat_PrimitiveTypeValue_AsFloatTypeValue, cat_PrimitiveTypeValue_FromFloatTypeValue,
       \<lambda>v. v),
      (cat_PrimitiveTypeValue, cat_DoubleTypeValue, cat_PrimitiveTypeValue_AsDoubleTypeValue, cat_PrimitiveTypeValue_FromDoubleTypeValue,
       \<lambda>v. v),
      (cat_PrimitiveTypeValue, cat_DecimalTypeValue, cat_PrimitiveTypeValue_AsDecimalTypeValue, cat_PrimitiveTypeValue_FromDecimalTypeValue,
       \<lambda>v. v),
      (cat_PrimitiveTypeValue, cat_StringTypeValue, cat_PrimitiveTypeValue_AsStringTypeValue, cat_PrimitiveTypeValue_FromStringTypeValue,
       \<lambda>v. v),
      (cat_PrimitiveTypeValue, cat_UUIDTypeValue, cat_PrimitiveTypeValue_AsUUIDTypeValue, cat_PrimitiveTypeValue_FromUUIDTypeValue,
       \<lambda>v. v),
      (cat_PrimitiveTypeValue, cat_DateTypeValue, cat_PrimitiveTypeValue_AsDateTypeValue, cat_PrimitiveTypeValue_FromDateTypeValue,
       \<lambda>v. v),
      (cat_PrimitiveTypeValue, cat_TimeTypeValue, cat_PrimitiveTypeValue_AsTimeTypeValue, cat_PrimitiveTypeValue_FromTimeTypeValue,
       \<lambda>v. v),
      (cat_PrimitiveTypeValue, cat_TimestampTypeValue, cat_PrimitiveTypeValue_AsTimestampTypeValue, cat_PrimitiveTypeValue_FromTimestampTypeValue,
       \<lambda>v. v),
      (cat_PrimitiveTypeValue, cat_TimestampTzTypeValue, cat_PrimitiveTypeValue_AsTimestampTzTypeValue, cat_PrimitiveTypeValue_FromTimestampTzTypeValue,
       \<lambda>v. v),
      (cat_PrimitiveTypeValue, cat_TimestampNanoTypeValue, cat_PrimitiveTypeValue_AsTimestampNanoTypeValue, cat_PrimitiveTypeValue_FromTimestampNanoTypeValue,
       \<lambda>v. v),
      (cat_PrimitiveTypeValue, cat_TimestampTzNanoTypeValue, cat_PrimitiveTypeValue_AsTimestampTzNanoTypeValue, cat_PrimitiveTypeValue_FromTimestampTzNanoTypeValue,
       \<lambda>v. v),
      (cat_PrimitiveTypeValue, cat_FixedTypeValue, cat_PrimitiveTypeValue_AsFixedTypeValue, cat_PrimitiveTypeValue_FromFixedTypeValue,
       \<lambda>v. v),
      (cat_PrimitiveTypeValue, cat_BinaryTypeValue, cat_PrimitiveTypeValue_AsBinaryTypeValue, cat_PrimitiveTypeValue_FromBinaryTypeValue,
       \<lambda>v. v),
      (cat_ReportMetricsRequest, cat_ScanReport, cat_ReportMetricsRequest_AsScanReport, cat_ReportMetricsRequest_FromScanReport,
       \<lambda>v. v),
      (cat_ReportMetricsRequest, cat_CommitReport, cat_ReportMetricsRequest_AsCommitReport, cat_ReportMetricsRequest_FromCommitReport,
       \<lambda>v. v),
      (cat_TableUpdate, cat_AssignUUIDUpdate, cat_TableUpdate_AsAssignUUIDUpdate, cat_TableUpdate_FromAssignUUIDUpdate,
       \<lambda>v. v),
      (cat_TableUpdate, cat_UpgradeFormatVersionUpdate, cat_TableUpdate_AsUpgradeFormatVersionUpdate, cat_TableUpdate_FromUpgradeFormatVersionUpdate,
       \<lambda>v. v),
      (cat_TableUpdate, cat_AddSchemaUpdate, cat_TableUpdate_AsAddSchemaUpdate, cat_TableUpdate_FromAddSchemaUpdate,
       \<lambda>v. v),
      (cat_TableUpdate, cat_SetCurrentSchemaUpdate, cat_TableUpdate_AsSetCurrentSchemaUpdate, cat_TableUpdate_FromSetCurrentSchemaUpdate,
       \<lambda>v. v),
      (cat_TableUpdate, cat_AddPartitionSpecUpdate, cat_TableUpdate_AsAddPartitionSpecUpdate, cat_TableUpdate_FromAddPartitionSpecUpdate,
       \<lambda>v. v),
      (cat_TableUpdate, cat_SetDefaultSpecUpdate, cat_TableUpdate_AsSetDefaultSpecUpdate, cat_TableUpdate_FromSetDefaultSpecUpdate,
       \<lambda>v. v),
      (cat_TableUpdate, cat_AddSortOrderUpdate, cat_TableUpdate_AsAddSortOrderUpdate, cat_TableUpdate_FromAddSortOrderUpdate,
       \<lambda>v. v),
      (cat_TableUpdate, cat_SetDefaultSortOrderUpdate, cat_TableUpdate_AsSetDefaultSortOrderUpdate, cat_TableUpdate_FromSetDefaultSortOrderUpdate,
       \<lambda>v. v),
      (cat_TableUpdate, cat_AddSnapshotUpdate, cat_TableUpdate_AsAddSnapshotUpdate, cat_TableUpdate_FromAddSnapshotUpdate,
       \<lambda>v. v),
      (cat_TableUpdate, cat_SetSnapshotRefUpdate, cat_TableUpdate_AsSetSnapshotRefUpdate, cat_TableUpdate_FromSetSnapshotRefUpdate,
       \<lambda>v. v),
      (cat_TableUpdate, cat_RemoveSnapshotsUpdate, cat_TableUpdate_AsRemoveSnapshotsUpdate, cat_TableUpdate_FromRemoveSnapshotsUpdate,
       \<lambda>v. v),
      (cat_TableUpdate, cat_RemoveSnapshotRefUpdate, cat_TableUpdate_AsRemoveSnapshotRefUpdate, cat_TableUpdate_FromRemoveSnapshotRefUpdate,
       \<lambda>v. v),
      (cat_TableUpdate, cat_SetLocationUpdate, cat_TableUpdate_AsSetLocationUpdate, cat_TableUpdate_FromSetLocationUpdate,
       \<lambda>v. v),
      (cat_TableUpdate, cat_SetPropertiesUpdate, cat_TableUpdate_AsSetPropertiesUpdate, cat_TableUpdate_FromSetPropertiesUpdate,
       \<lambda>v. v),
      (cat_TableUpdate, cat_RemovePropertiesUpdate, cat_TableUpdate_AsRemovePropertiesUpdate, cat_TableUpdate_FromRemovePropertiesUpdate,
       \<lambda>v. v),
      (cat_TableUpdate, cat_SetStatisticsUpdate, cat_TableUpdate_AsSetStatisticsUpdate, cat_TableUpdate_FromSetStatisticsUpdate,
       \<lambda>v. v),
      (cat_TableUpdate, cat_RemoveStatisticsUpdate, cat_TableUpdate_AsRemoveStatisticsUpdate, cat_TableUpdate_FromRemoveStatisticsUpdate,
       \<lambda>v. v),
      (cat_TableUpdate, cat_RemovePartitionSpecsUpdate, cat_TableUpdate_AsRemovePartitionSpecsUpdate, cat_TableUpdate_FromRemovePartitionSpecsUpdate,
       \<lambda>v. v),
      (cat_TableUpdate, cat_RemoveSchemasUpdate, cat_TableUpdate_AsRemoveSchemasUpdate, cat_TableUpdate_FromRemoveSchemasUpdate,
       \<lambda>v. v),
      (cat_TableUpdate, cat_AddEncryptionKeyUpdate, cat_TableUpdate_AsAddEncryptionKeyUpdate, cat_TableUpdate_FromAddEncryptionKeyUpdate,
       \<lambda>v. v),
      (cat_TableUpdate, cat_RemoveEncryptionKeyUpdate, cat_TableUpdate_AsRemoveEncryptionKeyUpdate, cat_TableUpdate_FromRemoveEncryptionKeyUpdate,
       \<lambda>v. v),
      (cat_Term, cat_Reference, cat_Term_AsReference, cat_Term_FromReference,
       \<lambda>v. v),
      (cat_Term, cat_TransformTerm, cat_Term_AsTransformTerm, cat_Term_FromTransformTerm,
       \<lambda>v. v),
      (cat_Type, cat_PrimitiveType, cat_Type_AsPrimitiveType, cat_Type_FromPrimitiveType,
       \<lambda>v. v),
      (cat_Type, cat_StructType, cat_Type_AsStructType, cat_Type_FromStructType,
       \<lambda>v. v),
      (cat_Type, cat_ListType, cat_Type_AsListType, cat_Type_FromListType,
       \<lambda>v. v),
      (cat_Type, cat_MapType, cat_Type_AsMapType, cat_Type_FromMapType,
       \<lambda>v. v),
      (cat_ViewRepresentation, cat_SQLViewRepresentation, cat_ViewRepresentation_AsSQLViewRepresentation, cat_ViewRepresentation_FromSQLViewRepresentation,
       \<lambda>v. v),
      (cat_ViewRequirement, cat_AssertViewUUID, cat_ViewRequirement_AsAssertViewUUID, cat_ViewRequirement_FromAssertViewUUID,
       \<lambda>v. vset v ''Type'' (VString ''assert-view-uuid'')),
      (cat_ViewUpdate, cat_AssignUUIDUpdate, cat_ViewUpdate_AsAssignUUIDUpdate, cat_ViewUpdate_FromAssignUUIDUpdate,
       \<lambda>v. v),
      (cat_ViewUpdate, cat_UpgradeFormatVersionUpdate, cat_ViewUpdate_AsUpgradeFormatVersionUpdate, cat_ViewUpdate_FromUpgradeFormatVersionUpdate,
       \<lambda>v. v),
      (cat_ViewUpdate, cat_AddSchemaUpdate, cat_ViewUpdate_AsAddSchemaUpdate, cat_ViewUpdate_FromAddSchemaUpdate,
       \<lambda>v. v),
      (cat_ViewUpdate, cat_SetLocationUpdate, cat_ViewUpdate_AsSetLocationUpdate, cat_ViewUpdate_FromSetLocationUpdate,
       \<lambda>v. v),
      (cat_ViewUpdate, cat_SetPropertiesUpdate, cat_ViewUpdate_AsSetPropertiesUpdate, cat_ViewUpdate_FromSetPropertiesUpdate,
       \<lambda>v. v),
      (cat_ViewUpdate, cat_RemovePropertiesUpdate, cat_ViewUpdate_AsRemovePropertiesUpdate, cat_ViewUpdate_FromRemovePropertiesUpdate,
       \<lambda>v. v),
      (cat_ViewUpdate, cat_AddViewVersionUpdate, cat_ViewUpdate_AsAddViewVersionUpdate, cat_ViewUpdate_FromAddViewVersionUpdate,
       \<lambda>v. v),
      (cat_ViewUpdate, cat_SetCurrentViewVersionUpdate, cat_ViewUpdate_AsSetCurrentViewVersionUpdate, cat_ViewUpdate_FromSetCurrentViewVersionUpdate,
       \<lambda>v. v)]"

lemmas union_accessors =
    cat_Expression_AsTrueExpression_def cat_Expression_FromTrueExpression_def
    cat_Expression_AsFalseExpression_def cat_Expression_FromFalseExpression_def
    cat_Expression_AsAndOrExpression_def cat_Expression_FromAndOrExpression_def
    cat_Expression_AsNotExpression_def cat_Expression_FromNotExpression_def
    cat_Expression_AsSetExpression_def cat_Expression_FromSetExpression_def
    cat_Expression_AsLiteralExpression_def cat_Expression_FromLiteralExpression_def
    cat_Expression_AsUnaryExpression_def cat_Expression_FromUnaryExpression_def
    cat_MetricResult_AsCounterResult_def cat_MetricResult_FromCounterResult_def
    cat_MetricResult_AsTimerResult_def cat_MetricResult_FromTimerResult_def
    cat_OAuthTokenRequest_AsOAuthClientCredentialsRequest_def
    cat_OAuthTokenRequest_FromOAuthClientCredentialsRequest_def
    cat_OAuthTokenRequest_AsOAuthTokenExchangeRequest_def
    cat_OAuthTokenRequest_FromOAuthTokenExchangeRequest_def
    cat_PrimitiveTypeValue_AsBooleanTypeValue_def
    cat_PrimitiveTypeValue_FromBooleanTypeValue_def
    cat_PrimitiveTypeValue_AsIntegerTypeValue_def
    cat_PrimitiveTypeValue_FromIntegerTypeValue_def cat_PrimitiveTypeValue_AsLongTypeValue_def
    cat_PrimitiveTypeValue_FromLongTypeValue_def cat_PrimitiveTypeValue_AsFloatTypeValue_def
    cat_PrimitiveTypeValue_FromFloatTypeValue_def cat_PrimitiveTypeValue_AsDoubleTypeValue_def
    cat_PrimitiveTypeValue_FromDoubleTypeValue_def
    cat_PrimitiveTypeValue_AsDecimalTypeValue_def
    cat_PrimitiveTypeValue_FromDecimalTypeValue_def
    cat_PrimitiveTypeValue_AsStringTypeValue_def cat_PrimitiveTypeValue_FromStringTypeValue_def
    cat_PrimitiveTypeValue_AsUUIDTypeValue_def cat_PrimitiveTypeValue_FromUUIDTypeValue_def
    cat_PrimitiveTypeValue_AsDateTypeValue_def cat_PrimitiveTypeValue_FromDateTypeValue_def
    cat_PrimitiveTypeValue_AsTimeTypeValue_def cat_PrimitiveTypeValue_FromTimeTypeValue_def
    cat_PrimitiveTypeValue_AsTimestampTypeValue_def
    cat_PrimitiveTypeValue_FromTimestampTypeValue_def
    cat_PrimitiveTypeValue_AsTimestampTzTypeValue_def
    cat_PrimitiveTypeValue_FromTimestampTzTypeValue_def
    cat_PrimitiveTypeValue_AsTimestampNanoTypeValue_def
    cat_PrimitiveTypeValue_FromTimestampNanoTypeValue_def
    cat_PrimitiveTypeValue_AsTimestampTzNanoTypeValue_def
    cat_PrimitiveTypeValue_FromTimestampTzNanoTypeValue_def
    cat_PrimitiveTypeValue_AsFixedTypeValue_def cat_PrimitiveTypeValue_FromFixedTypeValue_def
    cat_PrimitiveTypeValue_AsBinaryTypeValue_def cat_PrimitiveTypeValue_FromBinaryTypeValue_def
    cat_ReportMetricsRequest_AsScanReport_def cat_ReportMetricsRequest_FromScanReport_def
    cat_ReportMetricsRequest_AsCommitReport_def cat_ReportMetricsRequest_FromCommitReport_def
    cat_TableUpdate_AsAssignUUIDUpdate_def cat_TableUpdate_FromAssignUUIDUpdate_def
    cat_TableUpdate_AsUpgradeFormatVersionUpdate_def
    cat_TableUpdate_FromUpgradeFormatVersionUpdate_def cat_TableUpdate_AsAddSchemaUpdate_def
    cat_TableUpdate_FromAddSchemaUpdate_def cat_TableUpdate_AsSetCurrentSchemaUpdate_def
    cat_TableUpdate_FromSetCurrentSchemaUpdate_def cat_TableUpdate_AsAddPartitionSpecUpdate_def
    cat_TableUpdate_FromAddPartitionSpecUpdate_def cat_TableUpdate_AsSetDefaultSpecUpdate_def
    cat_TableUpdate_FromSetDefaultSpecUpdate_def cat_TableUpdate_AsAddSortOrderUpdate_def
    cat_TableUpdate_FromAddSortOrderUpdate_def cat_TableUpdate_AsSetDefaultSortOrderUpdate_def
    cat_TableUpdate_FromSetDefaultSortOrderUpdate_def cat_TableUpdate_AsAddSnapshotUpdate_def
    cat_TableUpdate_FromAddSnapshotUpdate_def cat_TableUpdate_AsSetSnapshotRefUpdate_def
    cat_TableUpdate_FromSetSnapshotRefUpdate_def cat_TableUpdate_AsRemoveSnapshotsUpdate_def
    cat_TableUpdate_FromRemoveSnapshotsUpdate_def cat_TableUpdate_AsRemoveSnapshotRefUpdate_def
    cat_TableUpdate_FromRemoveSnapshotRefUpdate_def cat_TableUpdate_AsSetLocationUpdate_def
    cat_TableUpdate_FromSetLocationUpdate_def cat_TableUpdate_AsSetPropertiesUpdate_def
    cat_TableUpdate_FromSetPropertiesUpdate_def cat_TableUpdate_AsRemovePropertiesUpdate_def
    cat_TableUpdate_FromRemovePropertiesUpdate_def cat_TableUpdate_AsSetStatisticsUpdate_def
    cat_TableUpdate_FromSetStatisticsUpdate_def cat_TableUpdate_AsRemoveStatisticsUpdate_def
    cat_TableUpdate_FromRemoveStatisticsUpdate_def
    cat_TableUpdate_AsRemovePartitionSpecsUpdate_def
    cat_TableUpdate_FromRemovePartitionSpecsUpdate_def
    cat_TableUpdate_AsRemoveSchemasUpdate_def cat_TableUpdate_FromRemoveSchemasUpdate_def
    cat_TableUpdate_AsAddEncryptionKeyUpdate_def cat_TableUpdate_FromAddEncryptionKeyUpdate_def
    cat_TableUpdate_AsRemoveEncryptionKeyUpdate_def
    cat_TableUpdate_FromRemoveEncryptionKeyUpdate_def cat_Term_AsReference_def
    cat_Term_FromReference_def cat_Term_AsTransformTerm_def cat_Term_FromTransformTerm_def
    cat_Type_AsPrimitiveType_def cat_Type_FromPrimitiveType_def cat_Type_AsStructType_def
    cat_Type_FromStructType_def cat_Type_AsListType_def cat_Type_FromListType_def
    cat_Type_AsMapType_def cat_Type_FromMapType_def
    cat_ViewRepresentation_AsSQLViewRepresentation_def
    cat_ViewRepresentation_FromSQLViewRepresentation_def
    cat_ViewRequirement_AsAssertViewUUID_def cat_ViewRequirement_FromAssertViewUUID_def
    cat_ViewUpdate_AsAssignUUIDUpdate_def cat_ViewUpdate_FromAssignUUIDUpdate_def
    cat_ViewUpdate_AsUpgradeFormatVersionUpdate_def
    cat_ViewUpdate_FromUpgradeFormatVersionUpdate_def cat_ViewUpdate_AsAddSchemaUpdate_def
    cat_ViewUpdate_FromAddSchemaUpdate_def cat_ViewUpdate_AsSetLocationUpdate_def
    cat_ViewUpdate_FromSetLocationUpdate_def cat_ViewUpdate_AsSetPropertiesUpdate_def
    cat_ViewUpdate_FromSetPropertiesUpdate_def cat_ViewUpdate_AsRemovePropertiesUpdate_def
    cat_ViewUpdate_FromRemovePropertiesUpdate_def cat_ViewUpdate_AsAddViewVersionUpdate_def
    cat_ViewUpdate_FromAddViewVersionUpdate_def
    cat_ViewUpdate_AsSetCurrentViewVersionUpdate_def
    cat_ViewUpdate_FromSetCurrentViewVersionUpdate_def

lemma cat_unions_rows:
  "list_all (\<lambda>(U, V, dec, enc, prep).
     dec = (\<lambda>L. union_As L V) \<and> enc = (\<lambda>t v. union_From V t (prep v))) cat_unions"
  by (simp add: cat_unions_def fun_eq_iff union_accessors)

fun is_union :: "wtype \<Rightarrow> bool" where
  "is_union (WUnion n) \<longleftrightarrow> True"
| "is_union (WTagged n f k) \<longleftrightarrow> True"
| "is_union _ \<longleftrightarrow> False"

lemma cat_unions_types: "list_all (\<lambda>(U, V, _). is_union U \<and> wf_type V) cat_unions"
  by (simp add: cat_unions_def 
    cat_Expression_def cat_MetricResult_def cat_TableUpdate_def cat_PrimitiveTypeValue_def
    cat_Type_def cat_ViewRequirement_def cat_ViewUpdate_def cat_ViewRepresentation_def
    cat_Term_def cat_OAuthTokenRequest_def cat_ReportMetricsRequest_def)

end
