(* ===== verification/Operator_Bodies.thy ===== *)
theory Operator_Bodies
  imports Wire_Types Rest_Api
begin

text \<open>
  The request bodies the operator sends, as values of the generated Go types: for each record of
  theory Wire that is a request body, the struct value it stands for (the fields the operator
  never sets are nil), and that \<open>json.Marshal\<close> on the struct writes the document that theory
  Rest_Api writes for the record.
\<close>

section \<open>Documents without repeated keys\<close>

primrec json_wf :: "json \<Rightarrow> bool" where
  "json_wf JNull \<longleftrightarrow> True"
| "json_wf (JBool b) \<longleftrightarrow> True"
| "json_wf (JInt i) \<longleftrightarrow> True"
| "json_wf (JFraction s) \<longleftrightarrow> True"
| "json_wf (JString s) \<longleftrightarrow> True"
| "json_wf (JArray js) \<longleftrightarrow> list_all id (map json_wf js)"
| "json_wf (JObject kvs) \<longleftrightarrow> wf_map kvs \<and> list_all snd (map (map_prod id json_wf) kvs)"

section \<open>Encoders\<close>

definition enc_opt :: "('a \<Rightarrow> wval) \<Rightarrow> 'a option \<Rightarrow> wval" where
  "enc_opt f x = (case x of None \<Rightarrow> VNil | Some y \<Rightarrow> VPtr (f y))"

definition enc_strmap :: "strmap \<Rightarrow> wval" where
  "enc_strmap m = VMap (map (\<lambda>(k, v). (k, VString v)) m)"

definition enc_strings :: "string list \<Rightarrow> wval" where
  "enc_strings ss = VSlice (map VString ss)"

definition enc_slice :: "('a \<Rightarrow> wval) \<Rightarrow> 'a list \<Rightarrow> wval" where
  "enc_slice f xs = (if xs = [] then VNil else VSlice (map f xs))"

definition enc_union :: "json \<Rightarrow> wval" where
  "enc_union j = VStruct [(''union'', VJson j)]"

lemma traverse_docs: "(\<And>x. f (g x) = Inr (h x)) \<Longrightarrow> traverse f (map g xs) = Inr (map h xs)"
  by (induction xs) (simp_all add: sum_bind_def)

lemma typed_list:
  "list_all id (map json_wf (map d xs)) \<Longrightarrow> (\<And>x. json_wf (d x) \<Longrightarrow> P (e x)) \<Longrightarrow> list_all P (map e xs)"
  by (induction xs) auto

lemma wf_keys_kept [simp]: "wf_map (map (\<lambda>(k, v). (k, f v)) m) \<longleftrightarrow> wf_map m"
  by (simp add: wf_map_def comp_def split_def)

lemma enc_strmap [simp]:
  "traverse (\<lambda>(k, x). Inr (k, marshal_string x)) (map (\<lambda>(k, v). (k, VString v)) m) =
     Inr (map (\<lambda>(k, v). (k, JString v)) m)"
  "list_all (typed L WString) (map (snd \<circ> (\<lambda>(k, v). (k, VString v))) m)"
  by (induction m) (auto simp: marshal_string_def)

lemma enc_strings [simp]:
  "traverse (marshal WString) (map VString ss) = Inr (map JString ss)"
  "list_all (typed L WString) (map VString ss)"
  by (simp_all add: traverse_docs [of _ VString JString] marshal_string_def list_all_iff)

lemma enc_ints [simp]:
  "traverse (marshal WInt) (map VInt is) = Inr (map jword is)"
  "list_all (typed L WInt) (map VInt is)"
  by (simp_all add: traverse_docs [of _ VInt jword] list_all_iff)

lemma plain_documents [simp]:
  "marshal_string (VString s) = JString s"
  "jword w \<noteq> JNull" "json_wf (jword w)"
  by (simp_all add: marshal_string_def jword_def)

lemma enc_unions [simp]:
  "traverse (marshal (WUnion n)) (map enc_union js) = Inr js"
  "list_all (typed L (WUnion n)) (map enc_union js)"
  using traverse_docs [of "marshal (WUnion n)" enc_union "\<lambda>j. j" js]
  by (simp_all add: enc_union_def raw_json_def list_all_iff)

lemmas body_simps = enc_opt_def jomit_def enc_slice_def jslice_def enc_union_def raw_json_def
  enc_strmap_def jstrmap_def enc_strings_def jstrings_def wf_map_Cons cat_Namespace_def
  cat_Transform_def cat_PolicyName_def cat_Type_def cat_ViewRepresentation_def

definition enc_Principal :: "Principal \<Rightarrow> wval" where
  "enc_Principal p =
     VStruct [(''ClientId'', enc_opt VString (mpClientId p)),
       (''CreateTimestamp'', VNil),
       (''EntityVersion'', enc_opt VInt (mpEntityVersion p)),
       (''LastUpdateTimestamp'', VNil),
       (''Name'', VString (mpName p)),
       (''Properties'', enc_opt enc_strmap (mpProperties p))]"

lemma enc_Principal [simp]:
  "marshal mgmt_Principal (enc_Principal p) = Inr (marshal_Principal p)"
  "json_wf (marshal_Principal p) \<Longrightarrow> typed L mgmt_Principal (enc_Principal p)"
  "marshal_Principal p \<noteq> JNull"
  by (simp_all add: mgmt_Principal_def enc_Principal_def marshal_Principal_def body_simps split: option.splits if_splits)

definition enc_PrincipalRole :: "PrincipalRole \<Rightarrow> wval" where
  "enc_PrincipalRole p =
     VStruct [(''CreateTimestamp'', VNil),
       (''EntityVersion'', enc_opt VInt (mprEntityVersion p)),
       (''Federated'', VNil),
       (''LastUpdateTimestamp'', VNil),
       (''Name'', VString (mprName p)),
       (''Properties'', enc_opt enc_strmap (mprProperties p))]"

lemma enc_PrincipalRole [simp]:
  "marshal mgmt_PrincipalRole (enc_PrincipalRole p) = Inr (marshal_PrincipalRole p)"
  "json_wf (marshal_PrincipalRole p) \<Longrightarrow> typed L mgmt_PrincipalRole (enc_PrincipalRole p)"
  "marshal_PrincipalRole p \<noteq> JNull"
  by (simp_all add: mgmt_PrincipalRole_def enc_PrincipalRole_def marshal_PrincipalRole_def body_simps split: option.splits if_splits)

definition enc_CatalogRole :: "CatalogRole \<Rightarrow> wval" where
  "enc_CatalogRole p =
     VStruct [(''CreateTimestamp'', VNil),
       (''EntityVersion'', enc_opt VInt (mcrEntityVersion p)),
       (''LastUpdateTimestamp'', VNil),
       (''Name'', VString (mcrName p)),
       (''Properties'', enc_opt enc_strmap (mcrProperties p))]"

lemma enc_CatalogRole [simp]:
  "marshal mgmt_CatalogRole (enc_CatalogRole p) = Inr (marshal_CatalogRole p)"
  "json_wf (marshal_CatalogRole p) \<Longrightarrow> typed L mgmt_CatalogRole (enc_CatalogRole p)"
  "marshal_CatalogRole p \<noteq> JNull"
  by (simp_all add: mgmt_CatalogRole_def enc_CatalogRole_def marshal_CatalogRole_def body_simps split: option.splits if_splits)

definition enc_CreatePrincipalRequest :: "CreatePrincipalRequest \<Rightarrow> wval" where
  "enc_CreatePrincipalRequest b =
     VStruct [(''CredentialRotationRequired'', enc_opt VBool (cprCredentialRotationRequired b)),
       (''Principal'', enc_opt enc_Principal (cprPrincipal b))]"

lemma enc_CreatePrincipalRequest [simp]:
  "marshal mgmt_CreatePrincipalRequest (enc_CreatePrincipalRequest b) = Inr (marshal_CreatePrincipalRequest b)"
  "json_wf (marshal_CreatePrincipalRequest b) \<Longrightarrow> typed L mgmt_CreatePrincipalRequest (enc_CreatePrincipalRequest b)"
  "marshal_CreatePrincipalRequest b \<noteq> JNull"
  by (simp_all add: mgmt_CreatePrincipalRequest_def enc_CreatePrincipalRequest_def marshal_CreatePrincipalRequest_def body_simps split: option.splits if_splits)

definition enc_UpdateRequest :: "UpdateRequest \<Rightarrow> wval" where
  "enc_UpdateRequest b =
     VStruct [(''CurrentEntityVersion'', VInt (urCurrentEntityVersion b)),
       (''Properties'', enc_strmap (urProperties b))]"

lemma enc_UpdateRequest [simp]:
  "marshal mgmt_UpdatePrincipalRequest (enc_UpdateRequest b) = Inr (marshal_UpdateRequest b)"
  "json_wf (marshal_UpdateRequest b) \<Longrightarrow> typed L mgmt_UpdatePrincipalRequest (enc_UpdateRequest b)"
  "marshal mgmt_UpdatePrincipalRoleRequest (enc_UpdateRequest b) = Inr (marshal_UpdateRequest b)"
  "json_wf (marshal_UpdateRequest b) \<Longrightarrow> typed L mgmt_UpdatePrincipalRoleRequest (enc_UpdateRequest b)"
  "marshal mgmt_UpdateCatalogRoleRequest (enc_UpdateRequest b) = Inr (marshal_UpdateRequest b)"
  "json_wf (marshal_UpdateRequest b) \<Longrightarrow> typed L mgmt_UpdateCatalogRoleRequest (enc_UpdateRequest b)"
  "marshal_UpdateRequest b \<noteq> JNull"
  by (simp_all add: mgmt_UpdatePrincipalRequest_def mgmt_UpdatePrincipalRoleRequest_def mgmt_UpdateCatalogRoleRequest_def enc_UpdateRequest_def marshal_UpdateRequest_def body_simps split: option.splits if_splits)

definition enc_PrincipalRoleRequest :: "PrincipalRoleRequest \<Rightarrow> wval" where
  "enc_PrincipalRoleRequest b =
     VStruct [(''PrincipalRole'', enc_opt enc_PrincipalRole (prqPrincipalRole b))]"

lemma enc_PrincipalRoleRequest [simp]:
  "marshal mgmt_CreatePrincipalRoleRequest (enc_PrincipalRoleRequest b) = Inr (marshal_PrincipalRoleRequest b)"
  "json_wf (marshal_PrincipalRoleRequest b) \<Longrightarrow> typed L mgmt_CreatePrincipalRoleRequest (enc_PrincipalRoleRequest b)"
  "marshal mgmt_GrantPrincipalRoleRequest (enc_PrincipalRoleRequest b) = Inr (marshal_PrincipalRoleRequest b)"
  "json_wf (marshal_PrincipalRoleRequest b) \<Longrightarrow> typed L mgmt_GrantPrincipalRoleRequest (enc_PrincipalRoleRequest b)"
  "marshal_PrincipalRoleRequest b \<noteq> JNull"
  by (simp_all add: mgmt_CreatePrincipalRoleRequest_def mgmt_GrantPrincipalRoleRequest_def enc_PrincipalRoleRequest_def marshal_PrincipalRoleRequest_def body_simps split: option.splits if_splits)

definition enc_CatalogRoleRequest :: "CatalogRoleRequest \<Rightarrow> wval" where
  "enc_CatalogRoleRequest b =
     VStruct [(''CatalogRole'', enc_opt enc_CatalogRole (crqCatalogRole b))]"

lemma enc_CatalogRoleRequest [simp]:
  "marshal mgmt_CreateCatalogRoleRequest (enc_CatalogRoleRequest b) = Inr (marshal_CatalogRoleRequest b)"
  "json_wf (marshal_CatalogRoleRequest b) \<Longrightarrow> typed L mgmt_CreateCatalogRoleRequest (enc_CatalogRoleRequest b)"
  "marshal mgmt_GrantCatalogRoleRequest (enc_CatalogRoleRequest b) = Inr (marshal_CatalogRoleRequest b)"
  "json_wf (marshal_CatalogRoleRequest b) \<Longrightarrow> typed L mgmt_GrantCatalogRoleRequest (enc_CatalogRoleRequest b)"
  "marshal_CatalogRoleRequest b \<noteq> JNull"
  by (simp_all add: mgmt_CreateCatalogRoleRequest_def mgmt_GrantCatalogRoleRequest_def enc_CatalogRoleRequest_def marshal_CatalogRoleRequest_def body_simps split: option.splits if_splits)

definition enc_CreateNamespaceRequest :: "CreateNamespaceRequest \<Rightarrow> wval" where
  "enc_CreateNamespaceRequest b =
     VStruct [(''Namespace'', enc_strings (cnrNamespace b)),
       (''Properties'', enc_opt enc_strmap (cnrProperties b))]"

lemma enc_CreateNamespaceRequest [simp]:
  "marshal cat_CreateNamespaceRequest (enc_CreateNamespaceRequest b) = Inr (marshal_CreateNamespaceRequest b)"
  "json_wf (marshal_CreateNamespaceRequest b) \<Longrightarrow> typed L cat_CreateNamespaceRequest (enc_CreateNamespaceRequest b)"
  "marshal_CreateNamespaceRequest b \<noteq> JNull"
  by (simp_all add: cat_CreateNamespaceRequest_def enc_CreateNamespaceRequest_def marshal_CreateNamespaceRequest_def body_simps split: option.splits if_splits)

definition enc_UpdateNamespacePropertiesRequest :: "UpdateNamespacePropertiesRequest \<Rightarrow> wval" where
  "enc_UpdateNamespacePropertiesRequest b =
     VStruct [(''Removals'', enc_opt enc_strings (unrRemovals b)),
       (''Updates'', enc_opt enc_strmap (unrUpdates b))]"

lemma enc_UpdateNamespacePropertiesRequest [simp]:
  "marshal cat_UpdateNamespacePropertiesRequest (enc_UpdateNamespacePropertiesRequest b) = Inr (marshal_UpdateNamespacePropertiesRequest b)"
  "json_wf (marshal_UpdateNamespacePropertiesRequest b) \<Longrightarrow> typed L cat_UpdateNamespacePropertiesRequest (enc_UpdateNamespacePropertiesRequest b)"
  "marshal_UpdateNamespacePropertiesRequest b \<noteq> JNull"
  by (simp_all add: cat_UpdateNamespacePropertiesRequest_def enc_UpdateNamespacePropertiesRequest_def marshal_UpdateNamespacePropertiesRequest_def body_simps split: option.splits if_splits)

definition enc_StructField :: "StructField \<Rightarrow> wval" where
  "enc_StructField f =
     VStruct [(''Doc'', enc_opt VString (sfDoc f)),
       (''Id'', VInt (sfId f)),
       (''InitialDefault'', VNil),
       (''Name'', VString (sfName f)),
       (''Required'', VBool (sfRequired f)),
       (''Type'', enc_union (sfType f)),
       (''WriteDefault'', VNil)]"

lemma enc_StructField [simp]:
  "marshal cat_StructField (enc_StructField f) = Inr (marshal_StructField f)"
  "json_wf (marshal_StructField f) \<Longrightarrow> typed L cat_StructField (enc_StructField f)"
  "marshal_StructField f \<noteq> JNull"
  by (simp_all add: cat_StructField_def enc_StructField_def marshal_StructField_def body_simps split: option.splits if_splits)

lemma enc_StructField_list [simp]:
  "traverse (marshal cat_StructField) (map enc_StructField xs) = Inr (map marshal_StructField xs)"
  "list_all id (map json_wf (map marshal_StructField xs)) \<Longrightarrow> list_all (typed L cat_StructField) (map enc_StructField xs)"
  by (simp add: traverse_docs [of _ enc_StructField marshal_StructField]) (erule typed_list, erule enc_StructField)

definition enc_Schema :: "Schema \<Rightarrow> wval" where
  "enc_Schema s =
     VStruct [(''Fields'', enc_slice enc_StructField (schFields s)),
       (''IdentifierFieldIds'', enc_opt (\<lambda>ids. VSlice (map VInt ids)) (schIdentifierFieldIds s)),
       (''SchemaId'', VNil),
       (''Type'', VString (schType s))]"

lemma enc_Schema [simp]:
  "marshal cat_Schema (enc_Schema s) = Inr (marshal_Schema s)"
  "json_wf (marshal_Schema s) \<Longrightarrow> typed L cat_Schema (enc_Schema s)"
  "marshal_Schema s \<noteq> JNull"
  by (simp_all add: cat_Schema_def enc_Schema_def marshal_Schema_def body_simps split: option.splits if_splits)

definition enc_PartitionField :: "PartitionField \<Rightarrow> wval" where
  "enc_PartitionField f =
     VStruct [(''FieldId'', enc_opt VInt (pfFieldId f)),
       (''Name'', VString (pfName f)),
       (''SourceId'', VInt (pfSourceId f)),
       (''Transform'', VString (pfTransform f))]"

lemma enc_PartitionField [simp]:
  "marshal cat_PartitionField (enc_PartitionField f) = Inr (marshal_PartitionField f)"
  "json_wf (marshal_PartitionField f) \<Longrightarrow> typed L cat_PartitionField (enc_PartitionField f)"
  "marshal_PartitionField f \<noteq> JNull"
  by (simp_all add: cat_PartitionField_def enc_PartitionField_def marshal_PartitionField_def body_simps split: option.splits if_splits)

lemma enc_PartitionField_list [simp]:
  "traverse (marshal cat_PartitionField) (map enc_PartitionField xs) = Inr (map marshal_PartitionField xs)"
  "list_all id (map json_wf (map marshal_PartitionField xs)) \<Longrightarrow> list_all (typed L cat_PartitionField) (map enc_PartitionField xs)"
  by (simp add: traverse_docs [of _ enc_PartitionField marshal_PartitionField]) (erule typed_list, erule enc_PartitionField)

definition enc_PartitionSpec :: "PartitionSpec \<Rightarrow> wval" where
  "enc_PartitionSpec s =
     VStruct [(''Fields'', enc_slice enc_PartitionField (psFields s)),
       (''SpecId'', VNil)]"

lemma enc_PartitionSpec [simp]:
  "marshal cat_PartitionSpec (enc_PartitionSpec s) = Inr (marshal_PartitionSpec s)"
  "json_wf (marshal_PartitionSpec s) \<Longrightarrow> typed L cat_PartitionSpec (enc_PartitionSpec s)"
  "marshal_PartitionSpec s \<noteq> JNull"
  by (simp_all add: cat_PartitionSpec_def enc_PartitionSpec_def marshal_PartitionSpec_def body_simps split: option.splits if_splits)

definition enc_CreateTableRequest :: "CreateTableRequest \<Rightarrow> wval" where
  "enc_CreateTableRequest b =
     VStruct [(''Location'', VNil),
       (''Name'', VString (ctrName b)),
       (''PartitionSpec'', enc_opt enc_PartitionSpec (ctrPartitionSpec b)),
       (''Properties'', enc_opt enc_strmap (ctrProperties b)),
       (''Schema'', enc_Schema (ctrSchema b)),
       (''StageCreate'', VNil),
       (''WriteOrder'', VNil)]"

lemma enc_CreateTableRequest [simp]:
  "marshal cat_CreateTableRequest (enc_CreateTableRequest b) = Inr (marshal_CreateTableRequest b)"
  "json_wf (marshal_CreateTableRequest b) \<Longrightarrow> typed L cat_CreateTableRequest (enc_CreateTableRequest b)"
  "marshal_CreateTableRequest b \<noteq> JNull"
  by (simp_all add: cat_CreateTableRequest_def enc_CreateTableRequest_def marshal_CreateTableRequest_def body_simps split: option.splits if_splits)

definition enc_ViewVersion :: "ViewVersion \<Rightarrow> wval" where
  "enc_ViewVersion v =
     VStruct [(''DefaultCatalog'', VNil),
       (''DefaultNamespace'', enc_strings (vvDefaultNamespace v)),
       (''Representations'', VSlice (map enc_union (vvRepresentations v))),
       (''SchemaId'', VInt (vvSchemaId v)),
       (''Summary'', enc_strmap (vvSummary v)),
       (''TimestampMs'', VInt (vvTimestampMs v)),
       (''VersionId'', VInt (vvVersionId v))]"

lemma enc_ViewVersion [simp]:
  "marshal cat_ViewVersion (enc_ViewVersion v) = Inr (marshal_ViewVersion v)"
  "json_wf (marshal_ViewVersion v) \<Longrightarrow> typed L cat_ViewVersion (enc_ViewVersion v)"
  "marshal_ViewVersion v \<noteq> JNull"
  by (simp_all add: cat_ViewVersion_def enc_ViewVersion_def marshal_ViewVersion_def body_simps split: option.splits if_splits)

definition enc_CreateViewRequest :: "CreateViewRequest \<Rightarrow> wval" where
  "enc_CreateViewRequest b =
     VStruct [(''Location'', VNil),
       (''Name'', VString (cvrName b)),
       (''Properties'', enc_strmap (cvrProperties b)),
       (''Schema'', enc_Schema (cvrSchema b)),
       (''ViewVersion'', enc_ViewVersion (cvrViewVersion b))]"

lemma enc_CreateViewRequest [simp]:
  "marshal cat_CreateViewRequest (enc_CreateViewRequest b) = Inr (marshal_CreateViewRequest b)"
  "json_wf (marshal_CreateViewRequest b) \<Longrightarrow> typed L cat_CreateViewRequest (enc_CreateViewRequest b)"
  "marshal_CreateViewRequest b \<noteq> JNull"
  by (simp_all add: cat_CreateViewRequest_def enc_CreateViewRequest_def marshal_CreateViewRequest_def body_simps split: option.splits if_splits)

definition enc_CreatePolicyRequest :: "CreatePolicyRequest \<Rightarrow> wval" where
  "enc_CreatePolicyRequest b =
     VStruct [(''Content'', enc_opt VString (cpqContent b)),
       (''Description'', enc_opt VString (cpqDescription b)),
       (''Name'', VString (cpqName b)),
       (''Type'', VString (cpqType b))]"

lemma enc_CreatePolicyRequest [simp]:
  "marshal cat_CreatePolicyRequest (enc_CreatePolicyRequest b) = Inr (marshal_CreatePolicyRequest b)"
  "json_wf (marshal_CreatePolicyRequest b) \<Longrightarrow> typed L cat_CreatePolicyRequest (enc_CreatePolicyRequest b)"
  "marshal_CreatePolicyRequest b \<noteq> JNull"
  by (simp_all add: cat_CreatePolicyRequest_def enc_CreatePolicyRequest_def marshal_CreatePolicyRequest_def body_simps split: option.splits if_splits)

definition enc_UpdatePolicyRequest :: "UpdatePolicyRequest \<Rightarrow> wval" where
  "enc_UpdatePolicyRequest b =
     VStruct [(''Content'', enc_opt VString (upqContent b)),
       (''CurrentPolicyVersion'', enc_opt VInt (upqCurrentPolicyVersion b)),
       (''Description'', enc_opt VString (upqDescription b))]"

lemma enc_UpdatePolicyRequest [simp]:
  "marshal cat_UpdatePolicyRequest (enc_UpdatePolicyRequest b) = Inr (marshal_UpdatePolicyRequest b)"
  "json_wf (marshal_UpdatePolicyRequest b) \<Longrightarrow> typed L cat_UpdatePolicyRequest (enc_UpdatePolicyRequest b)"
  "marshal_UpdatePolicyRequest b \<noteq> JNull"
  by (simp_all add: cat_UpdatePolicyRequest_def enc_UpdatePolicyRequest_def marshal_UpdatePolicyRequest_def body_simps split: option.splits if_splits)

end
