(* ===== verification/Go_Http.thy ===== *)
theory Go_Http
  imports Go_Json World
begin

text \<open>
  What the two generated clients share: building an \<open>http.Request\<close> from a server URL, path,
  query and header parameters and a body, running the request editors, sending, and turning
  an \<open>http.Response\<close> into the result struct of an operation. \<open>net/url\<close> and
  \<open>runtime.StyleParamWithOptions\<close> are parameters (\<open>http_lib\<close>); a request editor and the doer
  are stateful functions, as the operator's token source is. A body is the text its reader
  delivers. The context argument has no effect in the model.
\<close>

section \<open>Requests and responses\<close>

type_synonym header = "(string \<times> string list) list"

text \<open>All header names of the clients are in canonical form already.\<close>

definition header_Add :: "header \<Rightarrow> string \<Rightarrow> string \<Rightarrow> header" where
  "header_Add h k v =
     AList.update k ((case map_of h k of Some vs \<Rightarrow> vs | None \<Rightarrow> []) @ [v]) h"

definition header_Set :: "header \<Rightarrow> string \<Rightarrow> string \<Rightarrow> header" where
  "header_Set h k v = AList.update k [v] h"

definition header_Get :: "header \<Rightarrow> string \<Rightarrow> string" where
  "header_Get h k = (case map_of h k of Some (v # _) \<Rightarrow> v | _ \<Rightarrow> [])"

record http_request =
  hqMethod :: string
  hqURL :: url
  hqHeader :: header
  hqBody :: "string option"

record http_response =
  hsStatus :: string
  hsStatusCode :: int
  hsHeader :: header
  hsBody :: string
  hsReadErr :: "goerr option"

text \<open>
  \<open>StyleParam style explode name value location type\<close> is \<open>StyleParamWithOptions\<close>;
  \<open>url_encoded_query u\<close> is \<open>u.Query().Encode()\<close>, \<open>url_with_query u q\<close> sets \<open>u.RawQuery\<close>;
  \<open>json_text\<close> is the text \<open>json.Marshal\<close> writes for a document; \<open>MarshalForm\<close> is
  \<open>runtime.MarshalForm\<close> with the encoding of its result.
\<close>

record http_lib =
  hl_env :: env
  hl_json :: jlib
  json_text :: "json \<Rightarrow> string"
  StyleParam :: "string \<Rightarrow> bool \<Rightarrow> string \<Rightarrow> wval \<Rightarrow> string \<Rightarrow> string \<Rightarrow> goerr + string"
  url_encoded_query :: "url \<Rightarrow> string"
  url_with_query :: "url \<Rightarrow> string \<Rightarrow> url"
  MarshalForm :: "wval \<Rightarrow> goerr + string"
  StatusText :: "int \<Rightarrow> string"
  default_Do :: "event list \<Rightarrow> http_request \<Rightarrow> goerr + http_response"

definition json_Marshal :: "http_lib \<Rightarrow> wtype \<Rightarrow> wval \<Rightarrow> goerr + string" where
  "json_Marshal L T v = sum_bind (marshal T v) (\<lambda>j. Inr (json_text L j))"

section \<open>Building a request\<close>

definition path_param :: "http_lib \<Rightarrow> string \<Rightarrow> string \<Rightarrow> goerr + string" where
  "path_param L name v = StyleParam L ''simple'' False name (VString v) ''path'' ''string''"

text \<open>\<open>strings.Split\<close> with a one-character separator.\<close>

fun split_on :: "char \<Rightarrow> string \<Rightarrow> string list" where
  "split_on c [] = [[]]"
| "split_on c (x # s) =
     (if x = c then [] # split_on c s
      else case split_on c s of [] \<Rightarrow> [[x]] | p # ps \<Rightarrow> (x # p) # ps)"

text \<open>The parameter struct behind its pointer, and a field that may be nil.\<close>

definition param :: "wval \<Rightarrow> string \<Rightarrow> wval option" where
  "param params f =
     (case params of VPtr p \<Rightarrow> (case vget p f of VPtr x \<Rightarrow> Some x | _ \<Rightarrow> None) | _ \<Rightarrow> None)"

definition query_fragments ::
  "http_lib \<Rightarrow> wval \<Rightarrow> string \<times> string \<times> string \<Rightarrow> goerr + string list" where
  "query_fragments L params =
     (\<lambda>(f, name, ty).
        case param params f of
          None \<Rightarrow> Inr []
        | Some x \<Rightarrow>
            sum_bind (StyleParam L ''form'' True name x ''query'' ty) (\<lambda>queryFrag.
              Inr (split_on CHR 0x26 queryFrag)))"

definition query_params ::
  "http_lib \<Rightarrow> wval \<Rightarrow> (string \<times> string \<times> string) list \<Rightarrow> url \<Rightarrow> goerr + url" where
  "query_params L params qs queryURL =
     (if params = VNil then Inr queryURL
      else
        sum_bind (traverse (query_fragments L params) qs) (\<lambda>frags.
        let encoded = url_encoded_query L queryURL;
            rawQueryFragments = concat frags @ (if encoded \<noteq> [] then [encoded] else []) in
        Inr (url_with_query L queryURL (str_join rawQueryFragments [CHR 0x26]))))"

definition new_request ::
  "http_lib \<Rightarrow> string \<Rightarrow> string \<Rightarrow> (url \<Rightarrow> goerr + url) \<Rightarrow> string \<Rightarrow> string option \<Rightarrow>
    goerr + http_request" where
  "new_request L server path query meth body =
     sum_bind (url_Parse (hl_env L) server) (\<lambda>serverURL.
     let operationPath = if has_prefix path ''/'' then ''.'' @ path else path in
     sum_bind (url_Resolve (hl_env L) serverURL operationPath) (\<lambda>queryURL.
     sum_bind (query queryURL) (\<lambda>queryURL.
     sum_bind (url_Parse (hl_env L) (url_String (hl_env L) queryURL)) (\<lambda>u.
       Inr \<lparr>hqMethod = meth, hqURL = u, hqHeader = [], hqBody = body\<rparr>))))"

definition content_type :: "string \<Rightarrow> http_request \<Rightarrow> goerr + http_request" where
  "content_type ct req = Inr (req\<lparr>hqHeader := header_Add (hqHeader req) ''Content-Type'' ct\<rparr>)"

definition header_param ::
  "http_lib \<Rightarrow> wval \<Rightarrow> string \<Rightarrow> string \<Rightarrow> http_request \<Rightarrow> goerr + http_request" where
  "header_param L params f name req =
     (case param params f of
        None \<Rightarrow> Inr req
      | Some x \<Rightarrow>
          sum_bind (StyleParam L ''simple'' False name x ''header'' ''string'') (\<lambda>headerParam.
            Inr (req\<lparr>hqHeader := header_Set (hqHeader req) name headerParam\<rparr>)))"

section \<open>Clients\<close>

type_synonym editor = "http_request \<Rightarrow> (goerr + http_request) io"

record http_client =
  hcServer :: string
  hcDoer :: "(http_request \<Rightarrow> (goerr + http_response) io) option"
  hcEditors :: "editor list"

type_synonym client_option = "http_client \<Rightarrow> goerr + http_client"

fun run_options :: "client_option list \<Rightarrow> http_client \<Rightarrow> goerr + http_client" where
  "run_options [] client = Inr client"
| "run_options (opt # opts) client = sum_bind (opt client) (run_options opts)"

text \<open>The doer \<open>&http.Client{}\<close>; \<open>ev\<close> is how its exchange shows in the history.\<close>

definition default_doer ::
  "http_lib \<Rightarrow> (http_request \<Rightarrow> (goerr + http_response) \<Rightarrow> event) \<Rightarrow> http_request \<Rightarrow>
    (goerr + http_response) io" where
  "default_doer L ev req = ask (\<lambda>h. default_Do L h req) (ev req)"

definition new_client ::
  "(http_request \<Rightarrow> (goerr + http_response) io) \<Rightarrow> string \<Rightarrow> client_option list \<Rightarrow>
    goerr + http_client" where
  "new_client dflt server opts =
     sum_bind (run_options opts \<lparr>hcServer = server, hcDoer = None, hcEditors = []\<rparr>) (\<lambda>client.
     let client = if \<not> has_suffix (hcServer client) ''/''
           then client\<lparr>hcServer := hcServer client @ ''/''\<rparr> else client in
     Inr (if hcDoer client = None then client\<lparr>hcDoer := Some dflt\<rparr> else client))"

definition with_http_client ::
  "(http_request \<Rightarrow> (goerr + http_response) io) \<Rightarrow> client_option" where
  "with_http_client doer c = Inr (c\<lparr>hcDoer := Some doer\<rparr>)"

definition with_request_editor_fn :: "editor \<Rightarrow> client_option" where
  "with_request_editor_fn fn c = Inr (c\<lparr>hcEditors := hcEditors c @ [fn]\<rparr>)"

definition with_base_url :: "http_lib \<Rightarrow> string \<Rightarrow> client_option" where
  "with_base_url L baseURL c =
     sum_bind (url_Parse (hl_env L) baseURL) (\<lambda>newBaseURL.
       Inr (c\<lparr>hcServer := url_String (hl_env L) newBaseURL\<rparr>))"

fun run_editors :: "editor list \<Rightarrow> http_request \<Rightarrow> (goerr + http_request) io" where
  "run_editors [] req = State_Monad.return (Inr req)"
| "run_editors (r # rs) req = do {
     x \<leftarrow> r req;
     case x of Inl err \<Rightarrow> State_Monad.return (Inl err) | Inr req \<Rightarrow> run_editors rs req
   }"

definition apply_editors ::
  "http_client \<Rightarrow> http_request \<Rightarrow> editor list \<Rightarrow> (goerr + http_request) io" where
  "apply_editors c req additionalEditors = do {
     x \<leftarrow> run_editors (hcEditors c) req;
     case x of Inl err \<Rightarrow> State_Monad.return (Inl err)
     | Inr req \<Rightarrow> run_editors additionalEditors req
   }"

text \<open>
  An operation of a client: the request, the editors, the doer. A client without a doer, which
  \<open>NewClient\<close> never returns, panics.
\<close>

definition do_request ::
  "http_client \<Rightarrow> goerr + http_request \<Rightarrow> editor list \<Rightarrow> (goerr + http_response) io" where
  "do_request c built reqEditors =
     (case built of
        Inl err \<Rightarrow> State_Monad.return (Inl err)
      | Inr req \<Rightarrow> do {
          x \<leftarrow> apply_editors c req reqEditors;
          case x of
            Inl err \<Rightarrow> State_Monad.return (Inl err)
          | Inr req \<Rightarrow>
              (case hcDoer c of
                 None \<Rightarrow> State_Monad.return (Inl (ErrLib ''nil pointer dereference''))
               | Some doer \<Rightarrow> doer req)
        })"

section \<open>Results\<close>

text \<open>
  The result struct of an operation: the body, the response, and the fields \<open>JSON200\<close>,
  \<open>JSON404\<close> and so on that have been set. Which of these fields there are is declared per
  operation (\<open>result_fields\<close>), with their types.
\<close>

record http_wrapper =
  hwBody :: string
  hwHTTPResponse :: "http_response option"
  hwJSON :: "(string \<times> wval) list"

type_synonym result_fields = "(string \<times> wtype) list"

definition wrapper_Status :: "http_lib \<Rightarrow> http_wrapper \<Rightarrow> string" where
  "wrapper_Status L r =
     (case hwHTTPResponse r of Some rsp \<Rightarrow> hsStatus rsp | None \<Rightarrow> StatusText L 0)"

definition wrapper_StatusCode :: "http_wrapper \<Rightarrow> int" where
  "wrapper_StatusCode r = (case hwHTTPResponse r of Some rsp \<Rightarrow> hsStatusCode rsp | None \<Rightarrow> 0)"

definition wrapper_ContentType :: "http_wrapper \<Rightarrow> string" where
  "wrapper_ContentType r =
     (case hwHTTPResponse r of
        Some rsp \<Rightarrow> header_Get (hsHeader rsp) ''Content-Type'' | None \<Rightarrow> [])"

text \<open>
  The body of a generated \<open>Parse...Wrapper\<close>: read the body, then the first case of the switch
  that applies decodes it into its field.
\<close>

definition parse_response ::
  "http_lib \<Rightarrow> (code \<times> string \<times> wtype) list \<Rightarrow> http_response \<Rightarrow> goerr + http_wrapper" where
  "parse_response L cases rsp =
     (case hsReadErr rsp of
        Some err \<Rightarrow> Inl err
      | None \<Rightarrow>
          let response = \<lparr>hwBody = hsBody rsp, hwHTTPResponse = Some rsp, hwJSON = []\<rparr> in
          (case find (\<lambda>(c, _). str_contains (header_Get (hsHeader rsp) ''Content-Type'') ''json'' \<and>
                               code_matches (hsStatusCode rsp) c) cases of
             None \<Rightarrow> Inr response
           | Some (_, f, T) \<Rightarrow>
               sum_bind (json_Unmarshal (json_parse (codec (hl_env L))) (hl_json L) T (hsBody rsp))
                 (\<lambda>dest. Inr (response\<lparr>hwJSON := [(f, dest)]\<rparr>))))"

definition with_response ::
  "(http_response \<Rightarrow> goerr + http_wrapper) \<Rightarrow> (goerr + http_response) io \<Rightarrow>
    (goerr + http_wrapper) io" where
  "with_response parse call = do {
     rsp \<leftarrow> call;
     State_Monad.return (sum_bind rsp parse)
   }"

end
