(* ===== verification/Http_Docs.thy ===== *)
theory Http_Docs
  imports Go_Http Json_Typing
begin

text \<open>
  What an OpenAPI document says of an operation, and what a client is to do about it: the
  request with its method, path, query, headers and body, and the decoding of a response by
  its status. The tables of the two documents are in the theories Management_Api and
  Catalog_Api.
\<close>

section \<open>Operations of an OpenAPI document\<close>

text \<open>
  A path is a list of literals and named parameters; a query parameter is given with the Go
  field that holds it and its type, a header parameter with its Go field. The responses are
  those with JSON content; \<open>Class 5\<close> is \<open>5XX\<close>.
\<close>

record api_operation =
  opMethod :: string
  opPath :: "segment list"
  opQuery :: "(string \<times> string \<times> string) list"
  opHeader :: "(string \<times> string) list"
  opBody :: bool
  opResponses :: "(code \<times> wtype) list"

fun is_par :: "segment \<Rightarrow> bool" where
  "is_par (Lit s) \<longleftrightarrow> False"
| "is_par (Par p) \<longleftrightarrow> True"

fun documented_path :: "http_lib \<Rightarrow> segment list \<Rightarrow> string list \<Rightarrow> goerr + string" where
  "documented_path L [] args = Inr []"
| "documented_path L (Lit s # sgs) args =
     sum_bind (documented_path L sgs args) (\<lambda>p. Inr (''/'' @ s @ p))"
| "documented_path L (Par n # sgs) args =
     sum_bind (path_param L n (hd args)) (\<lambda>x.
     sum_bind (documented_path L sgs (tl args)) (\<lambda>p. Inr (''/'' @ x @ p)))"

fun header_params ::
  "http_lib \<Rightarrow> wval \<Rightarrow> (string \<times> string) list \<Rightarrow> http_request \<Rightarrow> goerr + http_request" where
  "header_params L params [] req = Inr req"
| "header_params L params ((f, name) # hs) req =
     sum_bind (header_param L params f name req) (header_params L params hs)"

definition documented_request ::
  "http_lib \<Rightarrow> string \<Rightarrow> api_operation \<Rightarrow> string list \<Rightarrow> wval \<Rightarrow> string \<Rightarrow> string \<Rightarrow>
    goerr + http_request" where
  "documented_request L server p args params ct body =
     sum_bind (documented_path L (opPath p) args) (\<lambda>path.
     sum_bind
       (new_request L server path
         (if opQuery p = [] then Inr else query_params L params (opQuery p))
         (opMethod p) (if opBody p then Some body else None)) (\<lambda>req.
     sum_bind (if opBody p then content_type ct req else Inr req)
       (header_params L params (opHeader p))))"

text \<open>
  A response with JSON content is decoded into the field for its status: the documented
  type of that status, or else that of its class.
\<close>

definition documented_field :: "(code \<times> wtype) list \<Rightarrow> int \<Rightarrow> (string \<times> wtype) option" where
  "documented_field docs s =
     (case map_of docs (Code s) of
        Some T \<Rightarrow> Some (''JSON'' @ show_int s, T)
      | None \<Rightarrow>
          map_option (\<lambda>T. (''JSON'' @ show_int (s div 100) @ ''XX'', T)) (map_of docs (Class (s div 100))))"

definition decode_documented ::
  "http_lib \<Rightarrow> (code \<times> wtype) list \<Rightarrow> http_response \<Rightarrow> goerr + http_wrapper" where
  "decode_documented L docs rsp =
     (case hsReadErr rsp of
        Some err \<Rightarrow> Inl err
      | None \<Rightarrow>
          let response = \<lparr>hwBody = hsBody rsp, hwHTTPResponse = Some rsp, hwJSON = []\<rparr> in
          (case (if str_contains (header_Get (hsHeader rsp) ''Content-Type'') ''json''
                 then documented_field docs (hsStatusCode rsp) else None) of
             None \<Rightarrow> Inr response
           | Some (f, T) \<Rightarrow>
               sum_bind (json_Unmarshal (json_parse (codec (hl_env L))) (hl_json L) T (hsBody rsp))
                 (\<lambda>dest. Inr (response\<lparr>hwJSON := [(f, dest)]\<rparr>))))"

lemma header_params_fun [simp]:
  "header_params L params [] = Inr"
  "header_params L params ((f, name) # hs) =
     (\<lambda>req. sum_bind (header_param L params f name req) (header_params L params hs))"
  by (simp_all add: fun_eq_iff)

section \<open>Switches that follow the document\<close>

lemma sum_bind_assoc [simp]: "sum_bind (sum_bind x f) g = sum_bind x (\<lambda>y. sum_bind (f y) g)"
  by (simp add: sum_bind_def split: sum.split)

lemma sum_bind_right [simp]: "sum_bind x Inr = x"
  by (simp add: sum_bind_def split: sum.split)

text \<open>Statuses first, each with the field of its name, then classes.\<close>

fun switch_ok :: "(code \<times> string \<times> wtype) list \<Rightarrow> bool" where
  "switch_ok [] \<longleftrightarrow> True"
| "switch_ok ((Code s, f, T) # cs) \<longleftrightarrow> f = ''JSON'' @ show_int s \<and> switch_ok cs"
| "switch_ok ((Class s, f, T) # cs) \<longleftrightarrow>
     f = ''JSON'' @ show_int s @ ''XX'' \<and>
     list_all (\<lambda>(c, _). case c of Code _ \<Rightarrow> False | Class _ \<Rightarrow> True) cs \<and> switch_ok cs"

lemma show_status:
  "show_int 200 = ''200''"
  "show_int 201 = ''201''"
  "show_int 400 = ''400''"
  "show_int 401 = ''401''"
  "show_int 403 = ''403''"
  "show_int 404 = ''404''"
  "show_int 406 = ''406''"
  "show_int 409 = ''409''"
  "show_int 419 = ''419''"
  "show_int 422 = ''422''"
  "show_int 500 = ''500''"
  "show_int 502 = ''502''"
  "show_int 503 = ''503''"
  "show_int 504 = ''504''"
  "show_int 5 = ''5''"
  by code_simp+

definition undocumented :: "(code \<times> string \<times> wtype) list \<Rightarrow> (code \<times> wtype) list" where
  "undocumented cs = map (\<lambda>(c, f, T). (c, T)) cs"

lemma no_codes:
  "list_all (\<lambda>(c, _). case c of Code _ \<Rightarrow> False | Class _ \<Rightarrow> True) cs \<Longrightarrow>
   map_of (undocumented cs) (Code s) = None"
  by (induction cs) (auto simp: undocumented_def split: code.splits)

lemma switch_follows:
  "switch_ok cs \<Longrightarrow>
   map_option snd (find (\<lambda>(c, _). code_matches s c) cs) = documented_field (undocumented cs) s"
proof (induction cs rule: switch_ok.induct)
  case (2 s' f T cs)
  then show ?case by (auto simp: documented_field_def undocumented_def split: option.split)
next
  case (3 s' f T cs)
  then show ?case using no_codes [of cs s]
    by (simp add: documented_field_def undocumented_def)
qed (simp add: documented_field_def undocumented_def)

lemma find_False: "find (\<lambda>(c, _). False) cs = None"
  by (induction cs) auto

lemma parse_documented:
  assumes "switch_ok cs" "docs = undocumented cs"
  shows "parse_response L cs rsp = decode_documented L docs rsp"
  using switch_follows [OF assms(1), of "hsStatusCode rsp"] assms(2)
  by (auto simp: parse_response_def decode_documented_def Let_def find_False
      split: option.splits)

text \<open>The JSON field of a result is one the result struct declares, with a value of its type.\<close>

definition well_typed_result :: "result_fields \<Rightarrow> http_wrapper \<Rightarrow> bool" where
  "well_typed_result decls r \<longleftrightarrow>
     list_all (\<lambda>(f, v). list_ex (\<lambda>(g, T). g = f \<and> shaped T v) decls) (hwJSON r)"

lemma parse_well_typed:
  assumes "list_all (\<lambda>(c, f, T). (f, T) \<in> set decls \<and> wf_type T) cs"
    and "parse_response L cs rsp = Inr r"
  shows "well_typed_result decls r"
proof (cases "hwJSON r = []")
  case True
  then show ?thesis by (simp add: well_typed_result_def)
next
  case False
  then obtain c f T v where
    "find (\<lambda>(c, _). str_contains (header_Get (hsHeader rsp) ''Content-Type'') ''json'' \<and>
       code_matches (hsStatusCode rsp) c) cs = Some (c, f, T)"
    and v: "json_Unmarshal (json_parse (codec (hl_env L))) (hl_json L) T (hsBody rsp) = Inr v"
    and r: "hwJSON r = [(f, v)]"
    using assms(2)
    by (auto simp: parse_response_def Let_def sum_bind_def split: option.splits sum.splits)
  then have "(f, T) \<in> set decls" "wf_type T"
    using assms(1) by (auto simp: list_all_iff dest!: find_in)
  moreover have "shaped T v"
    using v \<open>wf_type T\<close> unmarshal_shaped(1) zero_shaped(1)
    by (fastforce simp: json_Unmarshal_def sum_bind_def split: sum.splits)
  ultimately show ?thesis
    using r by (auto simp: well_typed_result_def list_ex_iff)
qed

end
