(* ===== verification/Management_Requests.thy ===== *)
theory Management_Requests
  imports Go_Http Management_Types
begin

text \<open>
  The sending half of the generated management client: the constructors and options of its
  client, the request of every operation (\<open>mgmt_New...Request\<close>, with a typed body and with any
  body) and the method of \<open>Client\<close> that sends it (\<open>mgmt_Client_...\<close>).
\<close>

definition mgmt_NewClient ::
  "(http_request \<Rightarrow> (goerr + http_response) io) \<Rightarrow> string \<Rightarrow> client_option list \<Rightarrow>
    goerr + http_client" where
  "mgmt_NewClient dflt server opts = new_client dflt server opts"

definition mgmt_NewClientWithResponses ::
  "(http_request \<Rightarrow> (goerr + http_response) io) \<Rightarrow> string \<Rightarrow> client_option list \<Rightarrow>
    goerr + http_client" where
  "mgmt_NewClientWithResponses dflt server opts = mgmt_NewClient dflt server opts"

definition mgmt_WithHTTPClient :: "(http_request \<Rightarrow> (goerr + http_response) io) \<Rightarrow> client_option" where
  "mgmt_WithHTTPClient doer = with_http_client doer"

definition mgmt_WithRequestEditorFn :: "editor \<Rightarrow> client_option" where
  "mgmt_WithRequestEditorFn fn = with_request_editor_fn fn"

definition mgmt_WithBaseURL :: "http_lib \<Rightarrow> string \<Rightarrow> client_option" where
  "mgmt_WithBaseURL L baseURL = with_base_url L baseURL"

definition mgmt_applyEditors ::
  "http_client \<Rightarrow> http_request \<Rightarrow> editor list \<Rightarrow> (goerr + http_request) io" where
  "mgmt_applyEditors c req additionalEditors = apply_editors c req additionalEditors"

definition mgmt_NewListCatalogsRequest ::
  "http_lib \<Rightarrow> string \<Rightarrow> goerr + http_request" where
  "mgmt_NewListCatalogsRequest L server =
     new_request L server ''/catalogs'' Inr ''GET'' None"

definition mgmt_NewCreateCatalogRequestWithBody ::
  "http_lib \<Rightarrow> string \<Rightarrow> string \<Rightarrow> string \<Rightarrow> goerr + http_request" where
  "mgmt_NewCreateCatalogRequestWithBody L server contentType body =
     sum_bind (new_request L server ''/catalogs'' Inr ''POST'' (Some body)) (content_type contentType)"

definition mgmt_NewCreateCatalogRequest ::
  "http_lib \<Rightarrow> string \<Rightarrow> wval \<Rightarrow> goerr + http_request" where
  "mgmt_NewCreateCatalogRequest L server body =
     sum_bind (json_Marshal L mgmt_CreateCatalogJSONRequestBody body) (\<lambda>buf.
       mgmt_NewCreateCatalogRequestWithBody L server ''application/json'' buf)"

definition mgmt_NewDeleteCatalogRequest ::
  "http_lib \<Rightarrow> string \<Rightarrow> string \<Rightarrow> goerr + http_request" where
  "mgmt_NewDeleteCatalogRequest L server catalogName =
     sum_bind (path_param L ''catalogName'' catalogName) (\<lambda>pathParam0.
     new_request L server (''/catalogs/'' @ pathParam0) Inr ''DELETE'' None)"

definition mgmt_NewGetCatalogRequest ::
  "http_lib \<Rightarrow> string \<Rightarrow> string \<Rightarrow> goerr + http_request" where
  "mgmt_NewGetCatalogRequest L server catalogName =
     sum_bind (path_param L ''catalogName'' catalogName) (\<lambda>pathParam0.
     new_request L server (''/catalogs/'' @ pathParam0) Inr ''GET'' None)"

definition mgmt_NewUpdateCatalogRequestWithBody ::
  "http_lib \<Rightarrow> string \<Rightarrow> string \<Rightarrow> string \<Rightarrow> string \<Rightarrow> goerr + http_request" where
  "mgmt_NewUpdateCatalogRequestWithBody L server catalogName contentType body =
     sum_bind (path_param L ''catalogName'' catalogName) (\<lambda>pathParam0.
     sum_bind (new_request L server (''/catalogs/'' @ pathParam0) Inr ''PUT'' (Some body)) (content_type contentType))"

definition mgmt_NewUpdateCatalogRequest ::
  "http_lib \<Rightarrow> string \<Rightarrow> string \<Rightarrow> wval \<Rightarrow> goerr + http_request" where
  "mgmt_NewUpdateCatalogRequest L server catalogName body =
     sum_bind (json_Marshal L mgmt_UpdateCatalogJSONRequestBody body) (\<lambda>buf.
       mgmt_NewUpdateCatalogRequestWithBody L server catalogName ''application/json'' buf)"

definition mgmt_NewListCatalogRolesRequest ::
  "http_lib \<Rightarrow> string \<Rightarrow> string \<Rightarrow> goerr + http_request" where
  "mgmt_NewListCatalogRolesRequest L server catalogName =
     sum_bind (path_param L ''catalogName'' catalogName) (\<lambda>pathParam0.
     new_request L server (''/catalogs/'' @ pathParam0 @ ''/catalog-roles'') Inr ''GET'' None)"

definition mgmt_NewCreateCatalogRoleRequestWithBody ::
  "http_lib \<Rightarrow> string \<Rightarrow> string \<Rightarrow> string \<Rightarrow> string \<Rightarrow> goerr + http_request" where
  "mgmt_NewCreateCatalogRoleRequestWithBody L server catalogName contentType body =
     sum_bind (path_param L ''catalogName'' catalogName) (\<lambda>pathParam0.
     sum_bind (new_request L server (''/catalogs/'' @ pathParam0 @ ''/catalog-roles'') Inr ''POST'' (Some body)) (content_type contentType))"

definition mgmt_NewCreateCatalogRoleRequest ::
  "http_lib \<Rightarrow> string \<Rightarrow> string \<Rightarrow> wval \<Rightarrow> goerr + http_request" where
  "mgmt_NewCreateCatalogRoleRequest L server catalogName body =
     sum_bind (json_Marshal L mgmt_CreateCatalogRoleJSONRequestBody body) (\<lambda>buf.
       mgmt_NewCreateCatalogRoleRequestWithBody L server catalogName ''application/json'' buf)"

definition mgmt_NewDeleteCatalogRoleRequest ::
  "http_lib \<Rightarrow> string \<Rightarrow> string \<Rightarrow> string \<Rightarrow> goerr + http_request" where
  "mgmt_NewDeleteCatalogRoleRequest L server catalogName catalogRoleName =
     sum_bind (path_param L ''catalogName'' catalogName) (\<lambda>pathParam0.
     sum_bind (path_param L ''catalogRoleName'' catalogRoleName) (\<lambda>pathParam1.
     new_request L server (''/catalogs/'' @ pathParam0 @ ''/catalog-roles/'' @ pathParam1) Inr ''DELETE'' None))"

definition mgmt_NewGetCatalogRoleRequest ::
  "http_lib \<Rightarrow> string \<Rightarrow> string \<Rightarrow> string \<Rightarrow> goerr + http_request" where
  "mgmt_NewGetCatalogRoleRequest L server catalogName catalogRoleName =
     sum_bind (path_param L ''catalogName'' catalogName) (\<lambda>pathParam0.
     sum_bind (path_param L ''catalogRoleName'' catalogRoleName) (\<lambda>pathParam1.
     new_request L server (''/catalogs/'' @ pathParam0 @ ''/catalog-roles/'' @ pathParam1) Inr ''GET'' None))"

definition mgmt_NewUpdateCatalogRoleRequestWithBody ::
  "http_lib \<Rightarrow> string \<Rightarrow> string \<Rightarrow> string \<Rightarrow> string \<Rightarrow> string \<Rightarrow> goerr + http_request" where
  "mgmt_NewUpdateCatalogRoleRequestWithBody L server catalogName catalogRoleName contentType body =
     sum_bind (path_param L ''catalogName'' catalogName) (\<lambda>pathParam0.
     sum_bind (path_param L ''catalogRoleName'' catalogRoleName) (\<lambda>pathParam1.
     sum_bind (new_request L server (''/catalogs/'' @ pathParam0 @ ''/catalog-roles/'' @ pathParam1) Inr ''PUT'' (Some body)) (content_type contentType)))"

definition mgmt_NewUpdateCatalogRoleRequest ::
  "http_lib \<Rightarrow> string \<Rightarrow> string \<Rightarrow> string \<Rightarrow> wval \<Rightarrow> goerr + http_request" where
  "mgmt_NewUpdateCatalogRoleRequest L server catalogName catalogRoleName body =
     sum_bind (json_Marshal L mgmt_UpdateCatalogRoleJSONRequestBody body) (\<lambda>buf.
       mgmt_NewUpdateCatalogRoleRequestWithBody L server catalogName catalogRoleName ''application/json'' buf)"

definition mgmt_NewListGrantsForCatalogRoleRequest ::
  "http_lib \<Rightarrow> string \<Rightarrow> string \<Rightarrow> string \<Rightarrow> goerr + http_request" where
  "mgmt_NewListGrantsForCatalogRoleRequest L server catalogName catalogRoleName =
     sum_bind (path_param L ''catalogName'' catalogName) (\<lambda>pathParam0.
     sum_bind (path_param L ''catalogRoleName'' catalogRoleName) (\<lambda>pathParam1.
     new_request L server (''/catalogs/'' @ pathParam0 @ ''/catalog-roles/'' @ pathParam1 @ ''/grants'') Inr ''GET'' None))"

definition mgmt_NewRevokeGrantFromCatalogRoleRequestWithBody ::
  "http_lib \<Rightarrow> string \<Rightarrow> string \<Rightarrow> string \<Rightarrow> wval \<Rightarrow> string \<Rightarrow> string \<Rightarrow> goerr + http_request" where
  "mgmt_NewRevokeGrantFromCatalogRoleRequestWithBody L server catalogName catalogRoleName params contentType body =
     sum_bind (path_param L ''catalogName'' catalogName) (\<lambda>pathParam0.
     sum_bind (path_param L ''catalogRoleName'' catalogRoleName) (\<lambda>pathParam1.
     sum_bind (new_request L server (''/catalogs/'' @ pathParam0 @ ''/catalog-roles/'' @ pathParam1 @ ''/grants'') (query_params L params
          [(''Cascade'', ''cascade'', ''boolean'')]) ''POST'' (Some body)) (content_type contentType)))"

definition mgmt_NewRevokeGrantFromCatalogRoleRequest ::
  "http_lib \<Rightarrow> string \<Rightarrow> string \<Rightarrow> string \<Rightarrow> wval \<Rightarrow> wval \<Rightarrow> goerr + http_request" where
  "mgmt_NewRevokeGrantFromCatalogRoleRequest L server catalogName catalogRoleName params body =
     sum_bind (json_Marshal L mgmt_RevokeGrantFromCatalogRoleJSONRequestBody body) (\<lambda>buf.
       mgmt_NewRevokeGrantFromCatalogRoleRequestWithBody L server catalogName catalogRoleName params ''application/json'' buf)"

definition mgmt_NewAddGrantToCatalogRoleRequestWithBody ::
  "http_lib \<Rightarrow> string \<Rightarrow> string \<Rightarrow> string \<Rightarrow> string \<Rightarrow> string \<Rightarrow> goerr + http_request" where
  "mgmt_NewAddGrantToCatalogRoleRequestWithBody L server catalogName catalogRoleName contentType body =
     sum_bind (path_param L ''catalogName'' catalogName) (\<lambda>pathParam0.
     sum_bind (path_param L ''catalogRoleName'' catalogRoleName) (\<lambda>pathParam1.
     sum_bind (new_request L server (''/catalogs/'' @ pathParam0 @ ''/catalog-roles/'' @ pathParam1 @ ''/grants'') Inr ''PUT'' (Some body)) (content_type contentType)))"

definition mgmt_NewAddGrantToCatalogRoleRequest ::
  "http_lib \<Rightarrow> string \<Rightarrow> string \<Rightarrow> string \<Rightarrow> wval \<Rightarrow> goerr + http_request" where
  "mgmt_NewAddGrantToCatalogRoleRequest L server catalogName catalogRoleName body =
     sum_bind (json_Marshal L mgmt_AddGrantToCatalogRoleJSONRequestBody body) (\<lambda>buf.
       mgmt_NewAddGrantToCatalogRoleRequestWithBody L server catalogName catalogRoleName ''application/json'' buf)"

definition mgmt_NewListAssigneePrincipalRolesForCatalogRoleRequest ::
  "http_lib \<Rightarrow> string \<Rightarrow> string \<Rightarrow> string \<Rightarrow> goerr + http_request" where
  "mgmt_NewListAssigneePrincipalRolesForCatalogRoleRequest L server catalogName catalogRoleName =
     sum_bind (path_param L ''catalogName'' catalogName) (\<lambda>pathParam0.
     sum_bind (path_param L ''catalogRoleName'' catalogRoleName) (\<lambda>pathParam1.
     new_request L server (''/catalogs/'' @ pathParam0 @ ''/catalog-roles/'' @ pathParam1 @ ''/principal-roles'') Inr ''GET'' None))"

definition mgmt_NewListPrincipalRolesRequest ::
  "http_lib \<Rightarrow> string \<Rightarrow> goerr + http_request" where
  "mgmt_NewListPrincipalRolesRequest L server =
     new_request L server ''/principal-roles'' Inr ''GET'' None"

definition mgmt_NewCreatePrincipalRoleRequestWithBody ::
  "http_lib \<Rightarrow> string \<Rightarrow> string \<Rightarrow> string \<Rightarrow> goerr + http_request" where
  "mgmt_NewCreatePrincipalRoleRequestWithBody L server contentType body =
     sum_bind (new_request L server ''/principal-roles'' Inr ''POST'' (Some body)) (content_type contentType)"

definition mgmt_NewCreatePrincipalRoleRequest ::
  "http_lib \<Rightarrow> string \<Rightarrow> wval \<Rightarrow> goerr + http_request" where
  "mgmt_NewCreatePrincipalRoleRequest L server body =
     sum_bind (json_Marshal L mgmt_CreatePrincipalRoleJSONRequestBody body) (\<lambda>buf.
       mgmt_NewCreatePrincipalRoleRequestWithBody L server ''application/json'' buf)"

definition mgmt_NewDeletePrincipalRoleRequest ::
  "http_lib \<Rightarrow> string \<Rightarrow> string \<Rightarrow> goerr + http_request" where
  "mgmt_NewDeletePrincipalRoleRequest L server principalRoleName =
     sum_bind (path_param L ''principalRoleName'' principalRoleName) (\<lambda>pathParam0.
     new_request L server (''/principal-roles/'' @ pathParam0) Inr ''DELETE'' None)"

definition mgmt_NewGetPrincipalRoleRequest ::
  "http_lib \<Rightarrow> string \<Rightarrow> string \<Rightarrow> goerr + http_request" where
  "mgmt_NewGetPrincipalRoleRequest L server principalRoleName =
     sum_bind (path_param L ''principalRoleName'' principalRoleName) (\<lambda>pathParam0.
     new_request L server (''/principal-roles/'' @ pathParam0) Inr ''GET'' None)"

definition mgmt_NewUpdatePrincipalRoleRequestWithBody ::
  "http_lib \<Rightarrow> string \<Rightarrow> string \<Rightarrow> string \<Rightarrow> string \<Rightarrow> goerr + http_request" where
  "mgmt_NewUpdatePrincipalRoleRequestWithBody L server principalRoleName contentType body =
     sum_bind (path_param L ''principalRoleName'' principalRoleName) (\<lambda>pathParam0.
     sum_bind (new_request L server (''/principal-roles/'' @ pathParam0) Inr ''PUT'' (Some body)) (content_type contentType))"

definition mgmt_NewUpdatePrincipalRoleRequest ::
  "http_lib \<Rightarrow> string \<Rightarrow> string \<Rightarrow> wval \<Rightarrow> goerr + http_request" where
  "mgmt_NewUpdatePrincipalRoleRequest L server principalRoleName body =
     sum_bind (json_Marshal L mgmt_UpdatePrincipalRoleJSONRequestBody body) (\<lambda>buf.
       mgmt_NewUpdatePrincipalRoleRequestWithBody L server principalRoleName ''application/json'' buf)"

definition mgmt_NewListCatalogRolesForPrincipalRoleRequest ::
  "http_lib \<Rightarrow> string \<Rightarrow> string \<Rightarrow> string \<Rightarrow> goerr + http_request" where
  "mgmt_NewListCatalogRolesForPrincipalRoleRequest L server principalRoleName catalogName =
     sum_bind (path_param L ''principalRoleName'' principalRoleName) (\<lambda>pathParam0.
     sum_bind (path_param L ''catalogName'' catalogName) (\<lambda>pathParam1.
     new_request L server (''/principal-roles/'' @ pathParam0 @ ''/catalog-roles/'' @ pathParam1) Inr ''GET'' None))"

definition mgmt_NewAssignCatalogRoleToPrincipalRoleRequestWithBody ::
  "http_lib \<Rightarrow> string \<Rightarrow> string \<Rightarrow> string \<Rightarrow> string \<Rightarrow> string \<Rightarrow> goerr + http_request" where
  "mgmt_NewAssignCatalogRoleToPrincipalRoleRequestWithBody L server principalRoleName catalogName contentType body =
     sum_bind (path_param L ''principalRoleName'' principalRoleName) (\<lambda>pathParam0.
     sum_bind (path_param L ''catalogName'' catalogName) (\<lambda>pathParam1.
     sum_bind (new_request L server (''/principal-roles/'' @ pathParam0 @ ''/catalog-roles/'' @ pathParam1) Inr ''PUT'' (Some body)) (content_type contentType)))"

definition mgmt_NewAssignCatalogRoleToPrincipalRoleRequest ::
  "http_lib \<Rightarrow> string \<Rightarrow> string \<Rightarrow> string \<Rightarrow> wval \<Rightarrow> goerr + http_request" where
  "mgmt_NewAssignCatalogRoleToPrincipalRoleRequest L server principalRoleName catalogName body =
     sum_bind (json_Marshal L mgmt_AssignCatalogRoleToPrincipalRoleJSONRequestBody body) (\<lambda>buf.
       mgmt_NewAssignCatalogRoleToPrincipalRoleRequestWithBody L server principalRoleName catalogName ''application/json'' buf)"

definition mgmt_NewRevokeCatalogRoleFromPrincipalRoleRequest ::
  "http_lib \<Rightarrow> string \<Rightarrow> string \<Rightarrow> string \<Rightarrow> string \<Rightarrow> goerr + http_request" where
  "mgmt_NewRevokeCatalogRoleFromPrincipalRoleRequest L server principalRoleName catalogName catalogRoleName =
     sum_bind (path_param L ''principalRoleName'' principalRoleName) (\<lambda>pathParam0.
     sum_bind (path_param L ''catalogName'' catalogName) (\<lambda>pathParam1.
     sum_bind (path_param L ''catalogRoleName'' catalogRoleName) (\<lambda>pathParam2.
     new_request L server (''/principal-roles/'' @ pathParam0 @ ''/catalog-roles/'' @ pathParam1 @ ''/'' @ pathParam2) Inr ''DELETE'' None)))"

definition mgmt_NewListAssigneePrincipalsForPrincipalRoleRequest ::
  "http_lib \<Rightarrow> string \<Rightarrow> string \<Rightarrow> goerr + http_request" where
  "mgmt_NewListAssigneePrincipalsForPrincipalRoleRequest L server principalRoleName =
     sum_bind (path_param L ''principalRoleName'' principalRoleName) (\<lambda>pathParam0.
     new_request L server (''/principal-roles/'' @ pathParam0 @ ''/principals'') Inr ''GET'' None)"

definition mgmt_NewListPrincipalsRequest ::
  "http_lib \<Rightarrow> string \<Rightarrow> goerr + http_request" where
  "mgmt_NewListPrincipalsRequest L server =
     new_request L server ''/principals'' Inr ''GET'' None"

definition mgmt_NewCreatePrincipalRequestWithBody ::
  "http_lib \<Rightarrow> string \<Rightarrow> string \<Rightarrow> string \<Rightarrow> goerr + http_request" where
  "mgmt_NewCreatePrincipalRequestWithBody L server contentType body =
     sum_bind (new_request L server ''/principals'' Inr ''POST'' (Some body)) (content_type contentType)"

definition mgmt_NewCreatePrincipalRequest ::
  "http_lib \<Rightarrow> string \<Rightarrow> wval \<Rightarrow> goerr + http_request" where
  "mgmt_NewCreatePrincipalRequest L server body =
     sum_bind (json_Marshal L mgmt_CreatePrincipalJSONRequestBody body) (\<lambda>buf.
       mgmt_NewCreatePrincipalRequestWithBody L server ''application/json'' buf)"

definition mgmt_NewDeletePrincipalRequest ::
  "http_lib \<Rightarrow> string \<Rightarrow> string \<Rightarrow> goerr + http_request" where
  "mgmt_NewDeletePrincipalRequest L server principalName =
     sum_bind (path_param L ''principalName'' principalName) (\<lambda>pathParam0.
     new_request L server (''/principals/'' @ pathParam0) Inr ''DELETE'' None)"

definition mgmt_NewGetPrincipalRequest ::
  "http_lib \<Rightarrow> string \<Rightarrow> string \<Rightarrow> goerr + http_request" where
  "mgmt_NewGetPrincipalRequest L server principalName =
     sum_bind (path_param L ''principalName'' principalName) (\<lambda>pathParam0.
     new_request L server (''/principals/'' @ pathParam0) Inr ''GET'' None)"

definition mgmt_NewUpdatePrincipalRequestWithBody ::
  "http_lib \<Rightarrow> string \<Rightarrow> string \<Rightarrow> string \<Rightarrow> string \<Rightarrow> goerr + http_request" where
  "mgmt_NewUpdatePrincipalRequestWithBody L server principalName contentType body =
     sum_bind (path_param L ''principalName'' principalName) (\<lambda>pathParam0.
     sum_bind (new_request L server (''/principals/'' @ pathParam0) Inr ''PUT'' (Some body)) (content_type contentType))"

definition mgmt_NewUpdatePrincipalRequest ::
  "http_lib \<Rightarrow> string \<Rightarrow> string \<Rightarrow> wval \<Rightarrow> goerr + http_request" where
  "mgmt_NewUpdatePrincipalRequest L server principalName body =
     sum_bind (json_Marshal L mgmt_UpdatePrincipalJSONRequestBody body) (\<lambda>buf.
       mgmt_NewUpdatePrincipalRequestWithBody L server principalName ''application/json'' buf)"

definition mgmt_NewListPrincipalRolesAssignedRequest ::
  "http_lib \<Rightarrow> string \<Rightarrow> string \<Rightarrow> goerr + http_request" where
  "mgmt_NewListPrincipalRolesAssignedRequest L server principalName =
     sum_bind (path_param L ''principalName'' principalName) (\<lambda>pathParam0.
     new_request L server (''/principals/'' @ pathParam0 @ ''/principal-roles'') Inr ''GET'' None)"

definition mgmt_NewAssignPrincipalRoleRequestWithBody ::
  "http_lib \<Rightarrow> string \<Rightarrow> string \<Rightarrow> string \<Rightarrow> string \<Rightarrow> goerr + http_request" where
  "mgmt_NewAssignPrincipalRoleRequestWithBody L server principalName contentType body =
     sum_bind (path_param L ''principalName'' principalName) (\<lambda>pathParam0.
     sum_bind (new_request L server (''/principals/'' @ pathParam0 @ ''/principal-roles'') Inr ''PUT'' (Some body)) (content_type contentType))"

definition mgmt_NewAssignPrincipalRoleRequest ::
  "http_lib \<Rightarrow> string \<Rightarrow> string \<Rightarrow> wval \<Rightarrow> goerr + http_request" where
  "mgmt_NewAssignPrincipalRoleRequest L server principalName body =
     sum_bind (json_Marshal L mgmt_AssignPrincipalRoleJSONRequestBody body) (\<lambda>buf.
       mgmt_NewAssignPrincipalRoleRequestWithBody L server principalName ''application/json'' buf)"

definition mgmt_NewRevokePrincipalRoleRequest ::
  "http_lib \<Rightarrow> string \<Rightarrow> string \<Rightarrow> string \<Rightarrow> goerr + http_request" where
  "mgmt_NewRevokePrincipalRoleRequest L server principalName principalRoleName =
     sum_bind (path_param L ''principalName'' principalName) (\<lambda>pathParam0.
     sum_bind (path_param L ''principalRoleName'' principalRoleName) (\<lambda>pathParam1.
     new_request L server (''/principals/'' @ pathParam0 @ ''/principal-roles/'' @ pathParam1) Inr ''DELETE'' None))"

definition mgmt_NewResetCredentialsRequestWithBody ::
  "http_lib \<Rightarrow> string \<Rightarrow> string \<Rightarrow> string \<Rightarrow> string \<Rightarrow> goerr + http_request" where
  "mgmt_NewResetCredentialsRequestWithBody L server principalName contentType body =
     sum_bind (path_param L ''principalName'' principalName) (\<lambda>pathParam0.
     sum_bind (new_request L server (''/principals/'' @ pathParam0 @ ''/reset'') Inr ''POST'' (Some body)) (content_type contentType))"

definition mgmt_NewResetCredentialsRequest ::
  "http_lib \<Rightarrow> string \<Rightarrow> string \<Rightarrow> wval \<Rightarrow> goerr + http_request" where
  "mgmt_NewResetCredentialsRequest L server principalName body =
     sum_bind (json_Marshal L mgmt_ResetCredentialsJSONRequestBody body) (\<lambda>buf.
       mgmt_NewResetCredentialsRequestWithBody L server principalName ''application/json'' buf)"

definition mgmt_NewRotateCredentialsRequest ::
  "http_lib \<Rightarrow> string \<Rightarrow> string \<Rightarrow> goerr + http_request" where
  "mgmt_NewRotateCredentialsRequest L server principalName =
     sum_bind (path_param L ''principalName'' principalName) (\<lambda>pathParam0.
     new_request L server (''/principals/'' @ pathParam0 @ ''/rotate'') Inr ''POST'' None)"

definition mgmt_Client_ListCatalogs ::
  "http_lib \<Rightarrow> http_client \<Rightarrow> editor list \<Rightarrow> (goerr + http_response) io" where
  "mgmt_Client_ListCatalogs L c reqEditors =
     do_request c (mgmt_NewListCatalogsRequest L (hcServer c)) reqEditors"

definition mgmt_Client_CreateCatalogWithBody ::
  "http_lib \<Rightarrow> http_client \<Rightarrow> string \<Rightarrow> string \<Rightarrow> editor list \<Rightarrow> (goerr + http_response) io" where
  "mgmt_Client_CreateCatalogWithBody L c contentType body reqEditors =
     do_request c (mgmt_NewCreateCatalogRequestWithBody L (hcServer c) contentType body) reqEditors"

definition mgmt_Client_CreateCatalog ::
  "http_lib \<Rightarrow> http_client \<Rightarrow> wval \<Rightarrow> editor list \<Rightarrow> (goerr + http_response) io" where
  "mgmt_Client_CreateCatalog L c body reqEditors =
     do_request c (mgmt_NewCreateCatalogRequest L (hcServer c) body) reqEditors"

definition mgmt_Client_DeleteCatalog ::
  "http_lib \<Rightarrow> http_client \<Rightarrow> string \<Rightarrow> editor list \<Rightarrow> (goerr + http_response) io" where
  "mgmt_Client_DeleteCatalog L c catalogName reqEditors =
     do_request c (mgmt_NewDeleteCatalogRequest L (hcServer c) catalogName) reqEditors"

definition mgmt_Client_GetCatalog ::
  "http_lib \<Rightarrow> http_client \<Rightarrow> string \<Rightarrow> editor list \<Rightarrow> (goerr + http_response) io" where
  "mgmt_Client_GetCatalog L c catalogName reqEditors =
     do_request c (mgmt_NewGetCatalogRequest L (hcServer c) catalogName) reqEditors"

definition mgmt_Client_UpdateCatalogWithBody ::
  "http_lib \<Rightarrow> http_client \<Rightarrow> string \<Rightarrow> string \<Rightarrow> string \<Rightarrow> editor list \<Rightarrow> (goerr + http_response) io" where
  "mgmt_Client_UpdateCatalogWithBody L c catalogName contentType body reqEditors =
     do_request c (mgmt_NewUpdateCatalogRequestWithBody L (hcServer c) catalogName contentType body) reqEditors"

definition mgmt_Client_UpdateCatalog ::
  "http_lib \<Rightarrow> http_client \<Rightarrow> string \<Rightarrow> wval \<Rightarrow> editor list \<Rightarrow> (goerr + http_response) io" where
  "mgmt_Client_UpdateCatalog L c catalogName body reqEditors =
     do_request c (mgmt_NewUpdateCatalogRequest L (hcServer c) catalogName body) reqEditors"

definition mgmt_Client_ListCatalogRoles ::
  "http_lib \<Rightarrow> http_client \<Rightarrow> string \<Rightarrow> editor list \<Rightarrow> (goerr + http_response) io" where
  "mgmt_Client_ListCatalogRoles L c catalogName reqEditors =
     do_request c (mgmt_NewListCatalogRolesRequest L (hcServer c) catalogName) reqEditors"

definition mgmt_Client_CreateCatalogRoleWithBody ::
  "http_lib \<Rightarrow> http_client \<Rightarrow> string \<Rightarrow> string \<Rightarrow> string \<Rightarrow> editor list \<Rightarrow> (goerr + http_response) io" where
  "mgmt_Client_CreateCatalogRoleWithBody L c catalogName contentType body reqEditors =
     do_request c (mgmt_NewCreateCatalogRoleRequestWithBody L (hcServer c) catalogName contentType body) reqEditors"

definition mgmt_Client_CreateCatalogRole ::
  "http_lib \<Rightarrow> http_client \<Rightarrow> string \<Rightarrow> wval \<Rightarrow> editor list \<Rightarrow> (goerr + http_response) io" where
  "mgmt_Client_CreateCatalogRole L c catalogName body reqEditors =
     do_request c (mgmt_NewCreateCatalogRoleRequest L (hcServer c) catalogName body) reqEditors"

definition mgmt_Client_DeleteCatalogRole ::
  "http_lib \<Rightarrow> http_client \<Rightarrow> string \<Rightarrow> string \<Rightarrow> editor list \<Rightarrow> (goerr + http_response) io" where
  "mgmt_Client_DeleteCatalogRole L c catalogName catalogRoleName reqEditors =
     do_request c (mgmt_NewDeleteCatalogRoleRequest L (hcServer c) catalogName catalogRoleName) reqEditors"

definition mgmt_Client_GetCatalogRole ::
  "http_lib \<Rightarrow> http_client \<Rightarrow> string \<Rightarrow> string \<Rightarrow> editor list \<Rightarrow> (goerr + http_response) io" where
  "mgmt_Client_GetCatalogRole L c catalogName catalogRoleName reqEditors =
     do_request c (mgmt_NewGetCatalogRoleRequest L (hcServer c) catalogName catalogRoleName) reqEditors"

definition mgmt_Client_UpdateCatalogRoleWithBody ::
  "http_lib \<Rightarrow> http_client \<Rightarrow> string \<Rightarrow> string \<Rightarrow> string \<Rightarrow> string \<Rightarrow> editor list \<Rightarrow> (goerr + http_response) io" where
  "mgmt_Client_UpdateCatalogRoleWithBody L c catalogName catalogRoleName contentType body reqEditors =
     do_request c (mgmt_NewUpdateCatalogRoleRequestWithBody L (hcServer c) catalogName catalogRoleName contentType body) reqEditors"

definition mgmt_Client_UpdateCatalogRole ::
  "http_lib \<Rightarrow> http_client \<Rightarrow> string \<Rightarrow> string \<Rightarrow> wval \<Rightarrow> editor list \<Rightarrow> (goerr + http_response) io" where
  "mgmt_Client_UpdateCatalogRole L c catalogName catalogRoleName body reqEditors =
     do_request c (mgmt_NewUpdateCatalogRoleRequest L (hcServer c) catalogName catalogRoleName body) reqEditors"

definition mgmt_Client_ListGrantsForCatalogRole ::
  "http_lib \<Rightarrow> http_client \<Rightarrow> string \<Rightarrow> string \<Rightarrow> editor list \<Rightarrow> (goerr + http_response) io" where
  "mgmt_Client_ListGrantsForCatalogRole L c catalogName catalogRoleName reqEditors =
     do_request c (mgmt_NewListGrantsForCatalogRoleRequest L (hcServer c) catalogName catalogRoleName) reqEditors"

definition mgmt_Client_RevokeGrantFromCatalogRoleWithBody ::
  "http_lib \<Rightarrow> http_client \<Rightarrow> string \<Rightarrow> string \<Rightarrow> wval \<Rightarrow> string \<Rightarrow> string \<Rightarrow> editor list \<Rightarrow> (goerr + http_response) io" where
  "mgmt_Client_RevokeGrantFromCatalogRoleWithBody L c catalogName catalogRoleName params contentType body reqEditors =
     do_request c (mgmt_NewRevokeGrantFromCatalogRoleRequestWithBody L (hcServer c) catalogName catalogRoleName params contentType body) reqEditors"

definition mgmt_Client_RevokeGrantFromCatalogRole ::
  "http_lib \<Rightarrow> http_client \<Rightarrow> string \<Rightarrow> string \<Rightarrow> wval \<Rightarrow> wval \<Rightarrow> editor list \<Rightarrow> (goerr + http_response) io" where
  "mgmt_Client_RevokeGrantFromCatalogRole L c catalogName catalogRoleName params body reqEditors =
     do_request c (mgmt_NewRevokeGrantFromCatalogRoleRequest L (hcServer c) catalogName catalogRoleName params body) reqEditors"

definition mgmt_Client_AddGrantToCatalogRoleWithBody ::
  "http_lib \<Rightarrow> http_client \<Rightarrow> string \<Rightarrow> string \<Rightarrow> string \<Rightarrow> string \<Rightarrow> editor list \<Rightarrow> (goerr + http_response) io" where
  "mgmt_Client_AddGrantToCatalogRoleWithBody L c catalogName catalogRoleName contentType body reqEditors =
     do_request c (mgmt_NewAddGrantToCatalogRoleRequestWithBody L (hcServer c) catalogName catalogRoleName contentType body) reqEditors"

definition mgmt_Client_AddGrantToCatalogRole ::
  "http_lib \<Rightarrow> http_client \<Rightarrow> string \<Rightarrow> string \<Rightarrow> wval \<Rightarrow> editor list \<Rightarrow> (goerr + http_response) io" where
  "mgmt_Client_AddGrantToCatalogRole L c catalogName catalogRoleName body reqEditors =
     do_request c (mgmt_NewAddGrantToCatalogRoleRequest L (hcServer c) catalogName catalogRoleName body) reqEditors"

definition mgmt_Client_ListAssigneePrincipalRolesForCatalogRole ::
  "http_lib \<Rightarrow> http_client \<Rightarrow> string \<Rightarrow> string \<Rightarrow> editor list \<Rightarrow> (goerr + http_response) io" where
  "mgmt_Client_ListAssigneePrincipalRolesForCatalogRole L c catalogName catalogRoleName reqEditors =
     do_request c (mgmt_NewListAssigneePrincipalRolesForCatalogRoleRequest L (hcServer c) catalogName catalogRoleName) reqEditors"

definition mgmt_Client_ListPrincipalRoles ::
  "http_lib \<Rightarrow> http_client \<Rightarrow> editor list \<Rightarrow> (goerr + http_response) io" where
  "mgmt_Client_ListPrincipalRoles L c reqEditors =
     do_request c (mgmt_NewListPrincipalRolesRequest L (hcServer c)) reqEditors"

definition mgmt_Client_CreatePrincipalRoleWithBody ::
  "http_lib \<Rightarrow> http_client \<Rightarrow> string \<Rightarrow> string \<Rightarrow> editor list \<Rightarrow> (goerr + http_response) io" where
  "mgmt_Client_CreatePrincipalRoleWithBody L c contentType body reqEditors =
     do_request c (mgmt_NewCreatePrincipalRoleRequestWithBody L (hcServer c) contentType body) reqEditors"

definition mgmt_Client_CreatePrincipalRole ::
  "http_lib \<Rightarrow> http_client \<Rightarrow> wval \<Rightarrow> editor list \<Rightarrow> (goerr + http_response) io" where
  "mgmt_Client_CreatePrincipalRole L c body reqEditors =
     do_request c (mgmt_NewCreatePrincipalRoleRequest L (hcServer c) body) reqEditors"

definition mgmt_Client_DeletePrincipalRole ::
  "http_lib \<Rightarrow> http_client \<Rightarrow> string \<Rightarrow> editor list \<Rightarrow> (goerr + http_response) io" where
  "mgmt_Client_DeletePrincipalRole L c principalRoleName reqEditors =
     do_request c (mgmt_NewDeletePrincipalRoleRequest L (hcServer c) principalRoleName) reqEditors"

definition mgmt_Client_GetPrincipalRole ::
  "http_lib \<Rightarrow> http_client \<Rightarrow> string \<Rightarrow> editor list \<Rightarrow> (goerr + http_response) io" where
  "mgmt_Client_GetPrincipalRole L c principalRoleName reqEditors =
     do_request c (mgmt_NewGetPrincipalRoleRequest L (hcServer c) principalRoleName) reqEditors"

definition mgmt_Client_UpdatePrincipalRoleWithBody ::
  "http_lib \<Rightarrow> http_client \<Rightarrow> string \<Rightarrow> string \<Rightarrow> string \<Rightarrow> editor list \<Rightarrow> (goerr + http_response) io" where
  "mgmt_Client_UpdatePrincipalRoleWithBody L c principalRoleName contentType body reqEditors =
     do_request c (mgmt_NewUpdatePrincipalRoleRequestWithBody L (hcServer c) principalRoleName contentType body) reqEditors"

definition mgmt_Client_UpdatePrincipalRole ::
  "http_lib \<Rightarrow> http_client \<Rightarrow> string \<Rightarrow> wval \<Rightarrow> editor list \<Rightarrow> (goerr + http_response) io" where
  "mgmt_Client_UpdatePrincipalRole L c principalRoleName body reqEditors =
     do_request c (mgmt_NewUpdatePrincipalRoleRequest L (hcServer c) principalRoleName body) reqEditors"

definition mgmt_Client_ListCatalogRolesForPrincipalRole ::
  "http_lib \<Rightarrow> http_client \<Rightarrow> string \<Rightarrow> string \<Rightarrow> editor list \<Rightarrow> (goerr + http_response) io" where
  "mgmt_Client_ListCatalogRolesForPrincipalRole L c principalRoleName catalogName reqEditors =
     do_request c (mgmt_NewListCatalogRolesForPrincipalRoleRequest L (hcServer c) principalRoleName catalogName) reqEditors"

definition mgmt_Client_AssignCatalogRoleToPrincipalRoleWithBody ::
  "http_lib \<Rightarrow> http_client \<Rightarrow> string \<Rightarrow> string \<Rightarrow> string \<Rightarrow> string \<Rightarrow> editor list \<Rightarrow> (goerr + http_response) io" where
  "mgmt_Client_AssignCatalogRoleToPrincipalRoleWithBody L c principalRoleName catalogName contentType body reqEditors =
     do_request c (mgmt_NewAssignCatalogRoleToPrincipalRoleRequestWithBody L (hcServer c) principalRoleName catalogName contentType body) reqEditors"

definition mgmt_Client_AssignCatalogRoleToPrincipalRole ::
  "http_lib \<Rightarrow> http_client \<Rightarrow> string \<Rightarrow> string \<Rightarrow> wval \<Rightarrow> editor list \<Rightarrow> (goerr + http_response) io" where
  "mgmt_Client_AssignCatalogRoleToPrincipalRole L c principalRoleName catalogName body reqEditors =
     do_request c (mgmt_NewAssignCatalogRoleToPrincipalRoleRequest L (hcServer c) principalRoleName catalogName body) reqEditors"

definition mgmt_Client_RevokeCatalogRoleFromPrincipalRole ::
  "http_lib \<Rightarrow> http_client \<Rightarrow> string \<Rightarrow> string \<Rightarrow> string \<Rightarrow> editor list \<Rightarrow> (goerr + http_response) io" where
  "mgmt_Client_RevokeCatalogRoleFromPrincipalRole L c principalRoleName catalogName catalogRoleName reqEditors =
     do_request c (mgmt_NewRevokeCatalogRoleFromPrincipalRoleRequest L (hcServer c) principalRoleName catalogName catalogRoleName) reqEditors"

definition mgmt_Client_ListAssigneePrincipalsForPrincipalRole ::
  "http_lib \<Rightarrow> http_client \<Rightarrow> string \<Rightarrow> editor list \<Rightarrow> (goerr + http_response) io" where
  "mgmt_Client_ListAssigneePrincipalsForPrincipalRole L c principalRoleName reqEditors =
     do_request c (mgmt_NewListAssigneePrincipalsForPrincipalRoleRequest L (hcServer c) principalRoleName) reqEditors"

definition mgmt_Client_ListPrincipals ::
  "http_lib \<Rightarrow> http_client \<Rightarrow> editor list \<Rightarrow> (goerr + http_response) io" where
  "mgmt_Client_ListPrincipals L c reqEditors =
     do_request c (mgmt_NewListPrincipalsRequest L (hcServer c)) reqEditors"

definition mgmt_Client_CreatePrincipalWithBody ::
  "http_lib \<Rightarrow> http_client \<Rightarrow> string \<Rightarrow> string \<Rightarrow> editor list \<Rightarrow> (goerr + http_response) io" where
  "mgmt_Client_CreatePrincipalWithBody L c contentType body reqEditors =
     do_request c (mgmt_NewCreatePrincipalRequestWithBody L (hcServer c) contentType body) reqEditors"

definition mgmt_Client_CreatePrincipal ::
  "http_lib \<Rightarrow> http_client \<Rightarrow> wval \<Rightarrow> editor list \<Rightarrow> (goerr + http_response) io" where
  "mgmt_Client_CreatePrincipal L c body reqEditors =
     do_request c (mgmt_NewCreatePrincipalRequest L (hcServer c) body) reqEditors"

definition mgmt_Client_DeletePrincipal ::
  "http_lib \<Rightarrow> http_client \<Rightarrow> string \<Rightarrow> editor list \<Rightarrow> (goerr + http_response) io" where
  "mgmt_Client_DeletePrincipal L c principalName reqEditors =
     do_request c (mgmt_NewDeletePrincipalRequest L (hcServer c) principalName) reqEditors"

definition mgmt_Client_GetPrincipal ::
  "http_lib \<Rightarrow> http_client \<Rightarrow> string \<Rightarrow> editor list \<Rightarrow> (goerr + http_response) io" where
  "mgmt_Client_GetPrincipal L c principalName reqEditors =
     do_request c (mgmt_NewGetPrincipalRequest L (hcServer c) principalName) reqEditors"

definition mgmt_Client_UpdatePrincipalWithBody ::
  "http_lib \<Rightarrow> http_client \<Rightarrow> string \<Rightarrow> string \<Rightarrow> string \<Rightarrow> editor list \<Rightarrow> (goerr + http_response) io" where
  "mgmt_Client_UpdatePrincipalWithBody L c principalName contentType body reqEditors =
     do_request c (mgmt_NewUpdatePrincipalRequestWithBody L (hcServer c) principalName contentType body) reqEditors"

definition mgmt_Client_UpdatePrincipal ::
  "http_lib \<Rightarrow> http_client \<Rightarrow> string \<Rightarrow> wval \<Rightarrow> editor list \<Rightarrow> (goerr + http_response) io" where
  "mgmt_Client_UpdatePrincipal L c principalName body reqEditors =
     do_request c (mgmt_NewUpdatePrincipalRequest L (hcServer c) principalName body) reqEditors"

definition mgmt_Client_ListPrincipalRolesAssigned ::
  "http_lib \<Rightarrow> http_client \<Rightarrow> string \<Rightarrow> editor list \<Rightarrow> (goerr + http_response) io" where
  "mgmt_Client_ListPrincipalRolesAssigned L c principalName reqEditors =
     do_request c (mgmt_NewListPrincipalRolesAssignedRequest L (hcServer c) principalName) reqEditors"

definition mgmt_Client_AssignPrincipalRoleWithBody ::
  "http_lib \<Rightarrow> http_client \<Rightarrow> string \<Rightarrow> string \<Rightarrow> string \<Rightarrow> editor list \<Rightarrow> (goerr + http_response) io" where
  "mgmt_Client_AssignPrincipalRoleWithBody L c principalName contentType body reqEditors =
     do_request c (mgmt_NewAssignPrincipalRoleRequestWithBody L (hcServer c) principalName contentType body) reqEditors"

definition mgmt_Client_AssignPrincipalRole ::
  "http_lib \<Rightarrow> http_client \<Rightarrow> string \<Rightarrow> wval \<Rightarrow> editor list \<Rightarrow> (goerr + http_response) io" where
  "mgmt_Client_AssignPrincipalRole L c principalName body reqEditors =
     do_request c (mgmt_NewAssignPrincipalRoleRequest L (hcServer c) principalName body) reqEditors"

definition mgmt_Client_RevokePrincipalRole ::
  "http_lib \<Rightarrow> http_client \<Rightarrow> string \<Rightarrow> string \<Rightarrow> editor list \<Rightarrow> (goerr + http_response) io" where
  "mgmt_Client_RevokePrincipalRole L c principalName principalRoleName reqEditors =
     do_request c (mgmt_NewRevokePrincipalRoleRequest L (hcServer c) principalName principalRoleName) reqEditors"

definition mgmt_Client_ResetCredentialsWithBody ::
  "http_lib \<Rightarrow> http_client \<Rightarrow> string \<Rightarrow> string \<Rightarrow> string \<Rightarrow> editor list \<Rightarrow> (goerr + http_response) io" where
  "mgmt_Client_ResetCredentialsWithBody L c principalName contentType body reqEditors =
     do_request c (mgmt_NewResetCredentialsRequestWithBody L (hcServer c) principalName contentType body) reqEditors"

definition mgmt_Client_ResetCredentials ::
  "http_lib \<Rightarrow> http_client \<Rightarrow> string \<Rightarrow> wval \<Rightarrow> editor list \<Rightarrow> (goerr + http_response) io" where
  "mgmt_Client_ResetCredentials L c principalName body reqEditors =
     do_request c (mgmt_NewResetCredentialsRequest L (hcServer c) principalName body) reqEditors"

definition mgmt_Client_RotateCredentials ::
  "http_lib \<Rightarrow> http_client \<Rightarrow> string \<Rightarrow> editor list \<Rightarrow> (goerr + http_response) io" where
  "mgmt_Client_RotateCredentials L c principalName reqEditors =
     do_request c (mgmt_NewRotateCredentialsRequest L (hcServer c) principalName) reqEditors"

end
