(* ===== verification/Management_Results.thy ===== *)
theory Management_Results
  imports Management_Requests
begin

text \<open>
  The receiving half of the generated management client: the result struct of every operation
  with its methods, the parser of its response, and the operation of \<open>ClientWithResponses\<close>.
\<close>

definition mgmt_ListCatalogsWrapper :: result_fields where
  "mgmt_ListCatalogsWrapper =
     [(''JSON200'', mgmt_Catalogs)]"

definition mgmt_ListCatalogsWrapper_Status :: "http_lib \<Rightarrow> http_wrapper \<Rightarrow> string" where
  "mgmt_ListCatalogsWrapper_Status L r = wrapper_Status L r"

definition mgmt_ListCatalogsWrapper_StatusCode :: "http_wrapper \<Rightarrow> int" where
  "mgmt_ListCatalogsWrapper_StatusCode r = wrapper_StatusCode r"

definition mgmt_ListCatalogsWrapper_ContentType :: "http_wrapper \<Rightarrow> string" where
  "mgmt_ListCatalogsWrapper_ContentType r = wrapper_ContentType r"

definition mgmt_CreateCatalogWrapper :: result_fields where
  "mgmt_CreateCatalogWrapper =
     [(''JSON201'', mgmt_Catalog)]"

definition mgmt_CreateCatalogWrapper_Status :: "http_lib \<Rightarrow> http_wrapper \<Rightarrow> string" where
  "mgmt_CreateCatalogWrapper_Status L r = wrapper_Status L r"

definition mgmt_CreateCatalogWrapper_StatusCode :: "http_wrapper \<Rightarrow> int" where
  "mgmt_CreateCatalogWrapper_StatusCode r = wrapper_StatusCode r"

definition mgmt_CreateCatalogWrapper_ContentType :: "http_wrapper \<Rightarrow> string" where
  "mgmt_CreateCatalogWrapper_ContentType r = wrapper_ContentType r"

definition mgmt_DeleteCatalogWrapper :: result_fields where
  "mgmt_DeleteCatalogWrapper = []"

definition mgmt_DeleteCatalogWrapper_Status :: "http_lib \<Rightarrow> http_wrapper \<Rightarrow> string" where
  "mgmt_DeleteCatalogWrapper_Status L r = wrapper_Status L r"

definition mgmt_DeleteCatalogWrapper_StatusCode :: "http_wrapper \<Rightarrow> int" where
  "mgmt_DeleteCatalogWrapper_StatusCode r = wrapper_StatusCode r"

definition mgmt_DeleteCatalogWrapper_ContentType :: "http_wrapper \<Rightarrow> string" where
  "mgmt_DeleteCatalogWrapper_ContentType r = wrapper_ContentType r"

definition mgmt_GetCatalogWrapper :: result_fields where
  "mgmt_GetCatalogWrapper =
     [(''JSON200'', mgmt_Catalog)]"

definition mgmt_GetCatalogWrapper_Status :: "http_lib \<Rightarrow> http_wrapper \<Rightarrow> string" where
  "mgmt_GetCatalogWrapper_Status L r = wrapper_Status L r"

definition mgmt_GetCatalogWrapper_StatusCode :: "http_wrapper \<Rightarrow> int" where
  "mgmt_GetCatalogWrapper_StatusCode r = wrapper_StatusCode r"

definition mgmt_GetCatalogWrapper_ContentType :: "http_wrapper \<Rightarrow> string" where
  "mgmt_GetCatalogWrapper_ContentType r = wrapper_ContentType r"

definition mgmt_UpdateCatalogWrapper :: result_fields where
  "mgmt_UpdateCatalogWrapper =
     [(''JSON200'', mgmt_Catalog)]"

definition mgmt_UpdateCatalogWrapper_Status :: "http_lib \<Rightarrow> http_wrapper \<Rightarrow> string" where
  "mgmt_UpdateCatalogWrapper_Status L r = wrapper_Status L r"

definition mgmt_UpdateCatalogWrapper_StatusCode :: "http_wrapper \<Rightarrow> int" where
  "mgmt_UpdateCatalogWrapper_StatusCode r = wrapper_StatusCode r"

definition mgmt_UpdateCatalogWrapper_ContentType :: "http_wrapper \<Rightarrow> string" where
  "mgmt_UpdateCatalogWrapper_ContentType r = wrapper_ContentType r"

definition mgmt_ListCatalogRolesWrapper :: result_fields where
  "mgmt_ListCatalogRolesWrapper =
     [(''JSON200'', mgmt_CatalogRoles)]"

definition mgmt_ListCatalogRolesWrapper_Status :: "http_lib \<Rightarrow> http_wrapper \<Rightarrow> string" where
  "mgmt_ListCatalogRolesWrapper_Status L r = wrapper_Status L r"

definition mgmt_ListCatalogRolesWrapper_StatusCode :: "http_wrapper \<Rightarrow> int" where
  "mgmt_ListCatalogRolesWrapper_StatusCode r = wrapper_StatusCode r"

definition mgmt_ListCatalogRolesWrapper_ContentType :: "http_wrapper \<Rightarrow> string" where
  "mgmt_ListCatalogRolesWrapper_ContentType r = wrapper_ContentType r"

definition mgmt_CreateCatalogRoleWrapper :: result_fields where
  "mgmt_CreateCatalogRoleWrapper =
     [(''JSON201'', mgmt_CatalogRole)]"

definition mgmt_CreateCatalogRoleWrapper_Status :: "http_lib \<Rightarrow> http_wrapper \<Rightarrow> string" where
  "mgmt_CreateCatalogRoleWrapper_Status L r = wrapper_Status L r"

definition mgmt_CreateCatalogRoleWrapper_StatusCode :: "http_wrapper \<Rightarrow> int" where
  "mgmt_CreateCatalogRoleWrapper_StatusCode r = wrapper_StatusCode r"

definition mgmt_CreateCatalogRoleWrapper_ContentType :: "http_wrapper \<Rightarrow> string" where
  "mgmt_CreateCatalogRoleWrapper_ContentType r = wrapper_ContentType r"

definition mgmt_DeleteCatalogRoleWrapper :: result_fields where
  "mgmt_DeleteCatalogRoleWrapper = []"

definition mgmt_DeleteCatalogRoleWrapper_Status :: "http_lib \<Rightarrow> http_wrapper \<Rightarrow> string" where
  "mgmt_DeleteCatalogRoleWrapper_Status L r = wrapper_Status L r"

definition mgmt_DeleteCatalogRoleWrapper_StatusCode :: "http_wrapper \<Rightarrow> int" where
  "mgmt_DeleteCatalogRoleWrapper_StatusCode r = wrapper_StatusCode r"

definition mgmt_DeleteCatalogRoleWrapper_ContentType :: "http_wrapper \<Rightarrow> string" where
  "mgmt_DeleteCatalogRoleWrapper_ContentType r = wrapper_ContentType r"

definition mgmt_GetCatalogRoleWrapper :: result_fields where
  "mgmt_GetCatalogRoleWrapper =
     [(''JSON200'', mgmt_CatalogRole)]"

definition mgmt_GetCatalogRoleWrapper_Status :: "http_lib \<Rightarrow> http_wrapper \<Rightarrow> string" where
  "mgmt_GetCatalogRoleWrapper_Status L r = wrapper_Status L r"

definition mgmt_GetCatalogRoleWrapper_StatusCode :: "http_wrapper \<Rightarrow> int" where
  "mgmt_GetCatalogRoleWrapper_StatusCode r = wrapper_StatusCode r"

definition mgmt_GetCatalogRoleWrapper_ContentType :: "http_wrapper \<Rightarrow> string" where
  "mgmt_GetCatalogRoleWrapper_ContentType r = wrapper_ContentType r"

definition mgmt_UpdateCatalogRoleWrapper :: result_fields where
  "mgmt_UpdateCatalogRoleWrapper =
     [(''JSON200'', mgmt_CatalogRole)]"

definition mgmt_UpdateCatalogRoleWrapper_Status :: "http_lib \<Rightarrow> http_wrapper \<Rightarrow> string" where
  "mgmt_UpdateCatalogRoleWrapper_Status L r = wrapper_Status L r"

definition mgmt_UpdateCatalogRoleWrapper_StatusCode :: "http_wrapper \<Rightarrow> int" where
  "mgmt_UpdateCatalogRoleWrapper_StatusCode r = wrapper_StatusCode r"

definition mgmt_UpdateCatalogRoleWrapper_ContentType :: "http_wrapper \<Rightarrow> string" where
  "mgmt_UpdateCatalogRoleWrapper_ContentType r = wrapper_ContentType r"

definition mgmt_ListGrantsForCatalogRoleWrapper :: result_fields where
  "mgmt_ListGrantsForCatalogRoleWrapper =
     [(''JSON200'', mgmt_GrantResources)]"

definition mgmt_ListGrantsForCatalogRoleWrapper_Status :: "http_lib \<Rightarrow> http_wrapper \<Rightarrow> string" where
  "mgmt_ListGrantsForCatalogRoleWrapper_Status L r = wrapper_Status L r"

definition mgmt_ListGrantsForCatalogRoleWrapper_StatusCode :: "http_wrapper \<Rightarrow> int" where
  "mgmt_ListGrantsForCatalogRoleWrapper_StatusCode r = wrapper_StatusCode r"

definition mgmt_ListGrantsForCatalogRoleWrapper_ContentType :: "http_wrapper \<Rightarrow> string" where
  "mgmt_ListGrantsForCatalogRoleWrapper_ContentType r = wrapper_ContentType r"

definition mgmt_RevokeGrantFromCatalogRoleWrapper :: result_fields where
  "mgmt_RevokeGrantFromCatalogRoleWrapper = []"

definition mgmt_RevokeGrantFromCatalogRoleWrapper_Status :: "http_lib \<Rightarrow> http_wrapper \<Rightarrow> string" where
  "mgmt_RevokeGrantFromCatalogRoleWrapper_Status L r = wrapper_Status L r"

definition mgmt_RevokeGrantFromCatalogRoleWrapper_StatusCode :: "http_wrapper \<Rightarrow> int" where
  "mgmt_RevokeGrantFromCatalogRoleWrapper_StatusCode r = wrapper_StatusCode r"

definition mgmt_RevokeGrantFromCatalogRoleWrapper_ContentType :: "http_wrapper \<Rightarrow> string" where
  "mgmt_RevokeGrantFromCatalogRoleWrapper_ContentType r = wrapper_ContentType r"

definition mgmt_AddGrantToCatalogRoleWrapper :: result_fields where
  "mgmt_AddGrantToCatalogRoleWrapper = []"

definition mgmt_AddGrantToCatalogRoleWrapper_Status :: "http_lib \<Rightarrow> http_wrapper \<Rightarrow> string" where
  "mgmt_AddGrantToCatalogRoleWrapper_Status L r = wrapper_Status L r"

definition mgmt_AddGrantToCatalogRoleWrapper_StatusCode :: "http_wrapper \<Rightarrow> int" where
  "mgmt_AddGrantToCatalogRoleWrapper_StatusCode r = wrapper_StatusCode r"

definition mgmt_AddGrantToCatalogRoleWrapper_ContentType :: "http_wrapper \<Rightarrow> string" where
  "mgmt_AddGrantToCatalogRoleWrapper_ContentType r = wrapper_ContentType r"

definition mgmt_ListAssigneePrincipalRolesForCatalogRoleWrapper :: result_fields where
  "mgmt_ListAssigneePrincipalRolesForCatalogRoleWrapper =
     [(''JSON200'', mgmt_PrincipalRoles)]"

definition mgmt_ListAssigneePrincipalRolesForCatalogRoleWrapper_Status :: "http_lib \<Rightarrow> http_wrapper \<Rightarrow> string" where
  "mgmt_ListAssigneePrincipalRolesForCatalogRoleWrapper_Status L r = wrapper_Status L r"

definition mgmt_ListAssigneePrincipalRolesForCatalogRoleWrapper_StatusCode :: "http_wrapper \<Rightarrow> int" where
  "mgmt_ListAssigneePrincipalRolesForCatalogRoleWrapper_StatusCode r = wrapper_StatusCode r"

definition mgmt_ListAssigneePrincipalRolesForCatalogRoleWrapper_ContentType :: "http_wrapper \<Rightarrow> string" where
  "mgmt_ListAssigneePrincipalRolesForCatalogRoleWrapper_ContentType r = wrapper_ContentType r"

definition mgmt_ListPrincipalRolesWrapper :: result_fields where
  "mgmt_ListPrincipalRolesWrapper =
     [(''JSON200'', mgmt_PrincipalRoles)]"

definition mgmt_ListPrincipalRolesWrapper_Status :: "http_lib \<Rightarrow> http_wrapper \<Rightarrow> string" where
  "mgmt_ListPrincipalRolesWrapper_Status L r = wrapper_Status L r"

definition mgmt_ListPrincipalRolesWrapper_StatusCode :: "http_wrapper \<Rightarrow> int" where
  "mgmt_ListPrincipalRolesWrapper_StatusCode r = wrapper_StatusCode r"

definition mgmt_ListPrincipalRolesWrapper_ContentType :: "http_wrapper \<Rightarrow> string" where
  "mgmt_ListPrincipalRolesWrapper_ContentType r = wrapper_ContentType r"

definition mgmt_CreatePrincipalRoleWrapper :: result_fields where
  "mgmt_CreatePrincipalRoleWrapper =
     [(''JSON201'', mgmt_PrincipalRole)]"

definition mgmt_CreatePrincipalRoleWrapper_Status :: "http_lib \<Rightarrow> http_wrapper \<Rightarrow> string" where
  "mgmt_CreatePrincipalRoleWrapper_Status L r = wrapper_Status L r"

definition mgmt_CreatePrincipalRoleWrapper_StatusCode :: "http_wrapper \<Rightarrow> int" where
  "mgmt_CreatePrincipalRoleWrapper_StatusCode r = wrapper_StatusCode r"

definition mgmt_CreatePrincipalRoleWrapper_ContentType :: "http_wrapper \<Rightarrow> string" where
  "mgmt_CreatePrincipalRoleWrapper_ContentType r = wrapper_ContentType r"

definition mgmt_DeletePrincipalRoleWrapper :: result_fields where
  "mgmt_DeletePrincipalRoleWrapper = []"

definition mgmt_DeletePrincipalRoleWrapper_Status :: "http_lib \<Rightarrow> http_wrapper \<Rightarrow> string" where
  "mgmt_DeletePrincipalRoleWrapper_Status L r = wrapper_Status L r"

definition mgmt_DeletePrincipalRoleWrapper_StatusCode :: "http_wrapper \<Rightarrow> int" where
  "mgmt_DeletePrincipalRoleWrapper_StatusCode r = wrapper_StatusCode r"

definition mgmt_DeletePrincipalRoleWrapper_ContentType :: "http_wrapper \<Rightarrow> string" where
  "mgmt_DeletePrincipalRoleWrapper_ContentType r = wrapper_ContentType r"

definition mgmt_GetPrincipalRoleWrapper :: result_fields where
  "mgmt_GetPrincipalRoleWrapper =
     [(''JSON200'', mgmt_PrincipalRole)]"

definition mgmt_GetPrincipalRoleWrapper_Status :: "http_lib \<Rightarrow> http_wrapper \<Rightarrow> string" where
  "mgmt_GetPrincipalRoleWrapper_Status L r = wrapper_Status L r"

definition mgmt_GetPrincipalRoleWrapper_StatusCode :: "http_wrapper \<Rightarrow> int" where
  "mgmt_GetPrincipalRoleWrapper_StatusCode r = wrapper_StatusCode r"

definition mgmt_GetPrincipalRoleWrapper_ContentType :: "http_wrapper \<Rightarrow> string" where
  "mgmt_GetPrincipalRoleWrapper_ContentType r = wrapper_ContentType r"

definition mgmt_UpdatePrincipalRoleWrapper :: result_fields where
  "mgmt_UpdatePrincipalRoleWrapper =
     [(''JSON200'', mgmt_PrincipalRole)]"

definition mgmt_UpdatePrincipalRoleWrapper_Status :: "http_lib \<Rightarrow> http_wrapper \<Rightarrow> string" where
  "mgmt_UpdatePrincipalRoleWrapper_Status L r = wrapper_Status L r"

definition mgmt_UpdatePrincipalRoleWrapper_StatusCode :: "http_wrapper \<Rightarrow> int" where
  "mgmt_UpdatePrincipalRoleWrapper_StatusCode r = wrapper_StatusCode r"

definition mgmt_UpdatePrincipalRoleWrapper_ContentType :: "http_wrapper \<Rightarrow> string" where
  "mgmt_UpdatePrincipalRoleWrapper_ContentType r = wrapper_ContentType r"

definition mgmt_ListCatalogRolesForPrincipalRoleWrapper :: result_fields where
  "mgmt_ListCatalogRolesForPrincipalRoleWrapper =
     [(''JSON200'', mgmt_CatalogRoles)]"

definition mgmt_ListCatalogRolesForPrincipalRoleWrapper_Status :: "http_lib \<Rightarrow> http_wrapper \<Rightarrow> string" where
  "mgmt_ListCatalogRolesForPrincipalRoleWrapper_Status L r = wrapper_Status L r"

definition mgmt_ListCatalogRolesForPrincipalRoleWrapper_StatusCode :: "http_wrapper \<Rightarrow> int" where
  "mgmt_ListCatalogRolesForPrincipalRoleWrapper_StatusCode r = wrapper_StatusCode r"

definition mgmt_ListCatalogRolesForPrincipalRoleWrapper_ContentType :: "http_wrapper \<Rightarrow> string" where
  "mgmt_ListCatalogRolesForPrincipalRoleWrapper_ContentType r = wrapper_ContentType r"

definition mgmt_AssignCatalogRoleToPrincipalRoleWrapper :: result_fields where
  "mgmt_AssignCatalogRoleToPrincipalRoleWrapper = []"

definition mgmt_AssignCatalogRoleToPrincipalRoleWrapper_Status :: "http_lib \<Rightarrow> http_wrapper \<Rightarrow> string" where
  "mgmt_AssignCatalogRoleToPrincipalRoleWrapper_Status L r = wrapper_Status L r"

definition mgmt_AssignCatalogRoleToPrincipalRoleWrapper_StatusCode :: "http_wrapper \<Rightarrow> int" where
  "mgmt_AssignCatalogRoleToPrincipalRoleWrapper_StatusCode r = wrapper_StatusCode r"

definition mgmt_AssignCatalogRoleToPrincipalRoleWrapper_ContentType :: "http_wrapper \<Rightarrow> string" where
  "mgmt_AssignCatalogRoleToPrincipalRoleWrapper_ContentType r = wrapper_ContentType r"

definition mgmt_RevokeCatalogRoleFromPrincipalRoleWrapper :: result_fields where
  "mgmt_RevokeCatalogRoleFromPrincipalRoleWrapper = []"

definition mgmt_RevokeCatalogRoleFromPrincipalRoleWrapper_Status :: "http_lib \<Rightarrow> http_wrapper \<Rightarrow> string" where
  "mgmt_RevokeCatalogRoleFromPrincipalRoleWrapper_Status L r = wrapper_Status L r"

definition mgmt_RevokeCatalogRoleFromPrincipalRoleWrapper_StatusCode :: "http_wrapper \<Rightarrow> int" where
  "mgmt_RevokeCatalogRoleFromPrincipalRoleWrapper_StatusCode r = wrapper_StatusCode r"

definition mgmt_RevokeCatalogRoleFromPrincipalRoleWrapper_ContentType :: "http_wrapper \<Rightarrow> string" where
  "mgmt_RevokeCatalogRoleFromPrincipalRoleWrapper_ContentType r = wrapper_ContentType r"

definition mgmt_ListAssigneePrincipalsForPrincipalRoleWrapper :: result_fields where
  "mgmt_ListAssigneePrincipalsForPrincipalRoleWrapper =
     [(''JSON200'', mgmt_Principals)]"

definition mgmt_ListAssigneePrincipalsForPrincipalRoleWrapper_Status :: "http_lib \<Rightarrow> http_wrapper \<Rightarrow> string" where
  "mgmt_ListAssigneePrincipalsForPrincipalRoleWrapper_Status L r = wrapper_Status L r"

definition mgmt_ListAssigneePrincipalsForPrincipalRoleWrapper_StatusCode :: "http_wrapper \<Rightarrow> int" where
  "mgmt_ListAssigneePrincipalsForPrincipalRoleWrapper_StatusCode r = wrapper_StatusCode r"

definition mgmt_ListAssigneePrincipalsForPrincipalRoleWrapper_ContentType :: "http_wrapper \<Rightarrow> string" where
  "mgmt_ListAssigneePrincipalsForPrincipalRoleWrapper_ContentType r = wrapper_ContentType r"

definition mgmt_ListPrincipalsWrapper :: result_fields where
  "mgmt_ListPrincipalsWrapper =
     [(''JSON200'', mgmt_Principals)]"

definition mgmt_ListPrincipalsWrapper_Status :: "http_lib \<Rightarrow> http_wrapper \<Rightarrow> string" where
  "mgmt_ListPrincipalsWrapper_Status L r = wrapper_Status L r"

definition mgmt_ListPrincipalsWrapper_StatusCode :: "http_wrapper \<Rightarrow> int" where
  "mgmt_ListPrincipalsWrapper_StatusCode r = wrapper_StatusCode r"

definition mgmt_ListPrincipalsWrapper_ContentType :: "http_wrapper \<Rightarrow> string" where
  "mgmt_ListPrincipalsWrapper_ContentType r = wrapper_ContentType r"

definition mgmt_CreatePrincipalWrapper :: result_fields where
  "mgmt_CreatePrincipalWrapper =
     [(''JSON201'', mgmt_PrincipalWithCredentials)]"

definition mgmt_CreatePrincipalWrapper_Status :: "http_lib \<Rightarrow> http_wrapper \<Rightarrow> string" where
  "mgmt_CreatePrincipalWrapper_Status L r = wrapper_Status L r"

definition mgmt_CreatePrincipalWrapper_StatusCode :: "http_wrapper \<Rightarrow> int" where
  "mgmt_CreatePrincipalWrapper_StatusCode r = wrapper_StatusCode r"

definition mgmt_CreatePrincipalWrapper_ContentType :: "http_wrapper \<Rightarrow> string" where
  "mgmt_CreatePrincipalWrapper_ContentType r = wrapper_ContentType r"

definition mgmt_DeletePrincipalWrapper :: result_fields where
  "mgmt_DeletePrincipalWrapper = []"

definition mgmt_DeletePrincipalWrapper_Status :: "http_lib \<Rightarrow> http_wrapper \<Rightarrow> string" where
  "mgmt_DeletePrincipalWrapper_Status L r = wrapper_Status L r"

definition mgmt_DeletePrincipalWrapper_StatusCode :: "http_wrapper \<Rightarrow> int" where
  "mgmt_DeletePrincipalWrapper_StatusCode r = wrapper_StatusCode r"

definition mgmt_DeletePrincipalWrapper_ContentType :: "http_wrapper \<Rightarrow> string" where
  "mgmt_DeletePrincipalWrapper_ContentType r = wrapper_ContentType r"

definition mgmt_GetPrincipalWrapper :: result_fields where
  "mgmt_GetPrincipalWrapper =
     [(''JSON200'', mgmt_Principal)]"

definition mgmt_GetPrincipalWrapper_Status :: "http_lib \<Rightarrow> http_wrapper \<Rightarrow> string" where
  "mgmt_GetPrincipalWrapper_Status L r = wrapper_Status L r"

definition mgmt_GetPrincipalWrapper_StatusCode :: "http_wrapper \<Rightarrow> int" where
  "mgmt_GetPrincipalWrapper_StatusCode r = wrapper_StatusCode r"

definition mgmt_GetPrincipalWrapper_ContentType :: "http_wrapper \<Rightarrow> string" where
  "mgmt_GetPrincipalWrapper_ContentType r = wrapper_ContentType r"

definition mgmt_UpdatePrincipalWrapper :: result_fields where
  "mgmt_UpdatePrincipalWrapper =
     [(''JSON200'', mgmt_Principal)]"

definition mgmt_UpdatePrincipalWrapper_Status :: "http_lib \<Rightarrow> http_wrapper \<Rightarrow> string" where
  "mgmt_UpdatePrincipalWrapper_Status L r = wrapper_Status L r"

definition mgmt_UpdatePrincipalWrapper_StatusCode :: "http_wrapper \<Rightarrow> int" where
  "mgmt_UpdatePrincipalWrapper_StatusCode r = wrapper_StatusCode r"

definition mgmt_UpdatePrincipalWrapper_ContentType :: "http_wrapper \<Rightarrow> string" where
  "mgmt_UpdatePrincipalWrapper_ContentType r = wrapper_ContentType r"

definition mgmt_ListPrincipalRolesAssignedWrapper :: result_fields where
  "mgmt_ListPrincipalRolesAssignedWrapper =
     [(''JSON200'', mgmt_PrincipalRoles)]"

definition mgmt_ListPrincipalRolesAssignedWrapper_Status :: "http_lib \<Rightarrow> http_wrapper \<Rightarrow> string" where
  "mgmt_ListPrincipalRolesAssignedWrapper_Status L r = wrapper_Status L r"

definition mgmt_ListPrincipalRolesAssignedWrapper_StatusCode :: "http_wrapper \<Rightarrow> int" where
  "mgmt_ListPrincipalRolesAssignedWrapper_StatusCode r = wrapper_StatusCode r"

definition mgmt_ListPrincipalRolesAssignedWrapper_ContentType :: "http_wrapper \<Rightarrow> string" where
  "mgmt_ListPrincipalRolesAssignedWrapper_ContentType r = wrapper_ContentType r"

definition mgmt_AssignPrincipalRoleWrapper :: result_fields where
  "mgmt_AssignPrincipalRoleWrapper = []"

definition mgmt_AssignPrincipalRoleWrapper_Status :: "http_lib \<Rightarrow> http_wrapper \<Rightarrow> string" where
  "mgmt_AssignPrincipalRoleWrapper_Status L r = wrapper_Status L r"

definition mgmt_AssignPrincipalRoleWrapper_StatusCode :: "http_wrapper \<Rightarrow> int" where
  "mgmt_AssignPrincipalRoleWrapper_StatusCode r = wrapper_StatusCode r"

definition mgmt_AssignPrincipalRoleWrapper_ContentType :: "http_wrapper \<Rightarrow> string" where
  "mgmt_AssignPrincipalRoleWrapper_ContentType r = wrapper_ContentType r"

definition mgmt_RevokePrincipalRoleWrapper :: result_fields where
  "mgmt_RevokePrincipalRoleWrapper = []"

definition mgmt_RevokePrincipalRoleWrapper_Status :: "http_lib \<Rightarrow> http_wrapper \<Rightarrow> string" where
  "mgmt_RevokePrincipalRoleWrapper_Status L r = wrapper_Status L r"

definition mgmt_RevokePrincipalRoleWrapper_StatusCode :: "http_wrapper \<Rightarrow> int" where
  "mgmt_RevokePrincipalRoleWrapper_StatusCode r = wrapper_StatusCode r"

definition mgmt_RevokePrincipalRoleWrapper_ContentType :: "http_wrapper \<Rightarrow> string" where
  "mgmt_RevokePrincipalRoleWrapper_ContentType r = wrapper_ContentType r"

definition mgmt_ResetCredentialsWrapper :: result_fields where
  "mgmt_ResetCredentialsWrapper =
     [(''JSON200'', mgmt_PrincipalWithCredentials)]"

definition mgmt_ResetCredentialsWrapper_Status :: "http_lib \<Rightarrow> http_wrapper \<Rightarrow> string" where
  "mgmt_ResetCredentialsWrapper_Status L r = wrapper_Status L r"

definition mgmt_ResetCredentialsWrapper_StatusCode :: "http_wrapper \<Rightarrow> int" where
  "mgmt_ResetCredentialsWrapper_StatusCode r = wrapper_StatusCode r"

definition mgmt_ResetCredentialsWrapper_ContentType :: "http_wrapper \<Rightarrow> string" where
  "mgmt_ResetCredentialsWrapper_ContentType r = wrapper_ContentType r"

definition mgmt_RotateCredentialsWrapper :: result_fields where
  "mgmt_RotateCredentialsWrapper =
     [(''JSON200'', mgmt_PrincipalWithCredentials)]"

definition mgmt_RotateCredentialsWrapper_Status :: "http_lib \<Rightarrow> http_wrapper \<Rightarrow> string" where
  "mgmt_RotateCredentialsWrapper_Status L r = wrapper_Status L r"

definition mgmt_RotateCredentialsWrapper_StatusCode :: "http_wrapper \<Rightarrow> int" where
  "mgmt_RotateCredentialsWrapper_StatusCode r = wrapper_StatusCode r"

definition mgmt_RotateCredentialsWrapper_ContentType :: "http_wrapper \<Rightarrow> string" where
  "mgmt_RotateCredentialsWrapper_ContentType r = wrapper_ContentType r"

definition mgmt_ParseListCatalogsWrapper :: "http_lib \<Rightarrow> http_response \<Rightarrow> goerr + http_wrapper" where
  "mgmt_ParseListCatalogsWrapper L = parse_response L
     [(Code 200, ''JSON200'', mgmt_Catalogs)]"

definition mgmt_ParseCreateCatalogWrapper :: "http_lib \<Rightarrow> http_response \<Rightarrow> goerr + http_wrapper" where
  "mgmt_ParseCreateCatalogWrapper L = parse_response L
     [(Code 201, ''JSON201'', mgmt_Catalog)]"

definition mgmt_ParseDeleteCatalogWrapper :: "http_lib \<Rightarrow> http_response \<Rightarrow> goerr + http_wrapper" where
  "mgmt_ParseDeleteCatalogWrapper L = parse_response L []"

definition mgmt_ParseGetCatalogWrapper :: "http_lib \<Rightarrow> http_response \<Rightarrow> goerr + http_wrapper" where
  "mgmt_ParseGetCatalogWrapper L = parse_response L
     [(Code 200, ''JSON200'', mgmt_Catalog)]"

definition mgmt_ParseUpdateCatalogWrapper :: "http_lib \<Rightarrow> http_response \<Rightarrow> goerr + http_wrapper" where
  "mgmt_ParseUpdateCatalogWrapper L = parse_response L
     [(Code 200, ''JSON200'', mgmt_Catalog)]"

definition mgmt_ParseListCatalogRolesWrapper :: "http_lib \<Rightarrow> http_response \<Rightarrow> goerr + http_wrapper" where
  "mgmt_ParseListCatalogRolesWrapper L = parse_response L
     [(Code 200, ''JSON200'', mgmt_CatalogRoles)]"

definition mgmt_ParseCreateCatalogRoleWrapper :: "http_lib \<Rightarrow> http_response \<Rightarrow> goerr + http_wrapper" where
  "mgmt_ParseCreateCatalogRoleWrapper L = parse_response L
     [(Code 201, ''JSON201'', mgmt_CatalogRole)]"

definition mgmt_ParseDeleteCatalogRoleWrapper :: "http_lib \<Rightarrow> http_response \<Rightarrow> goerr + http_wrapper" where
  "mgmt_ParseDeleteCatalogRoleWrapper L = parse_response L []"

definition mgmt_ParseGetCatalogRoleWrapper :: "http_lib \<Rightarrow> http_response \<Rightarrow> goerr + http_wrapper" where
  "mgmt_ParseGetCatalogRoleWrapper L = parse_response L
     [(Code 200, ''JSON200'', mgmt_CatalogRole)]"

definition mgmt_ParseUpdateCatalogRoleWrapper :: "http_lib \<Rightarrow> http_response \<Rightarrow> goerr + http_wrapper" where
  "mgmt_ParseUpdateCatalogRoleWrapper L = parse_response L
     [(Code 200, ''JSON200'', mgmt_CatalogRole)]"

definition mgmt_ParseListGrantsForCatalogRoleWrapper :: "http_lib \<Rightarrow> http_response \<Rightarrow> goerr + http_wrapper" where
  "mgmt_ParseListGrantsForCatalogRoleWrapper L = parse_response L
     [(Code 200, ''JSON200'', mgmt_GrantResources)]"

definition mgmt_ParseRevokeGrantFromCatalogRoleWrapper :: "http_lib \<Rightarrow> http_response \<Rightarrow> goerr + http_wrapper" where
  "mgmt_ParseRevokeGrantFromCatalogRoleWrapper L = parse_response L []"

definition mgmt_ParseAddGrantToCatalogRoleWrapper :: "http_lib \<Rightarrow> http_response \<Rightarrow> goerr + http_wrapper" where
  "mgmt_ParseAddGrantToCatalogRoleWrapper L = parse_response L []"

definition mgmt_ParseListAssigneePrincipalRolesForCatalogRoleWrapper :: "http_lib \<Rightarrow> http_response \<Rightarrow> goerr + http_wrapper" where
  "mgmt_ParseListAssigneePrincipalRolesForCatalogRoleWrapper L = parse_response L
     [(Code 200, ''JSON200'', mgmt_PrincipalRoles)]"

definition mgmt_ParseListPrincipalRolesWrapper :: "http_lib \<Rightarrow> http_response \<Rightarrow> goerr + http_wrapper" where
  "mgmt_ParseListPrincipalRolesWrapper L = parse_response L
     [(Code 200, ''JSON200'', mgmt_PrincipalRoles)]"

definition mgmt_ParseCreatePrincipalRoleWrapper :: "http_lib \<Rightarrow> http_response \<Rightarrow> goerr + http_wrapper" where
  "mgmt_ParseCreatePrincipalRoleWrapper L = parse_response L
     [(Code 201, ''JSON201'', mgmt_PrincipalRole)]"

definition mgmt_ParseDeletePrincipalRoleWrapper :: "http_lib \<Rightarrow> http_response \<Rightarrow> goerr + http_wrapper" where
  "mgmt_ParseDeletePrincipalRoleWrapper L = parse_response L []"

definition mgmt_ParseGetPrincipalRoleWrapper :: "http_lib \<Rightarrow> http_response \<Rightarrow> goerr + http_wrapper" where
  "mgmt_ParseGetPrincipalRoleWrapper L = parse_response L
     [(Code 200, ''JSON200'', mgmt_PrincipalRole)]"

definition mgmt_ParseUpdatePrincipalRoleWrapper :: "http_lib \<Rightarrow> http_response \<Rightarrow> goerr + http_wrapper" where
  "mgmt_ParseUpdatePrincipalRoleWrapper L = parse_response L
     [(Code 200, ''JSON200'', mgmt_PrincipalRole)]"

definition mgmt_ParseListCatalogRolesForPrincipalRoleWrapper :: "http_lib \<Rightarrow> http_response \<Rightarrow> goerr + http_wrapper" where
  "mgmt_ParseListCatalogRolesForPrincipalRoleWrapper L = parse_response L
     [(Code 200, ''JSON200'', mgmt_CatalogRoles)]"

definition mgmt_ParseAssignCatalogRoleToPrincipalRoleWrapper :: "http_lib \<Rightarrow> http_response \<Rightarrow> goerr + http_wrapper" where
  "mgmt_ParseAssignCatalogRoleToPrincipalRoleWrapper L = parse_response L []"

definition mgmt_ParseRevokeCatalogRoleFromPrincipalRoleWrapper :: "http_lib \<Rightarrow> http_response \<Rightarrow> goerr + http_wrapper" where
  "mgmt_ParseRevokeCatalogRoleFromPrincipalRoleWrapper L = parse_response L []"

definition mgmt_ParseListAssigneePrincipalsForPrincipalRoleWrapper :: "http_lib \<Rightarrow> http_response \<Rightarrow> goerr + http_wrapper" where
  "mgmt_ParseListAssigneePrincipalsForPrincipalRoleWrapper L = parse_response L
     [(Code 200, ''JSON200'', mgmt_Principals)]"

definition mgmt_ParseListPrincipalsWrapper :: "http_lib \<Rightarrow> http_response \<Rightarrow> goerr + http_wrapper" where
  "mgmt_ParseListPrincipalsWrapper L = parse_response L
     [(Code 200, ''JSON200'', mgmt_Principals)]"

definition mgmt_ParseCreatePrincipalWrapper :: "http_lib \<Rightarrow> http_response \<Rightarrow> goerr + http_wrapper" where
  "mgmt_ParseCreatePrincipalWrapper L = parse_response L
     [(Code 201, ''JSON201'', mgmt_PrincipalWithCredentials)]"

definition mgmt_ParseDeletePrincipalWrapper :: "http_lib \<Rightarrow> http_response \<Rightarrow> goerr + http_wrapper" where
  "mgmt_ParseDeletePrincipalWrapper L = parse_response L []"

definition mgmt_ParseGetPrincipalWrapper :: "http_lib \<Rightarrow> http_response \<Rightarrow> goerr + http_wrapper" where
  "mgmt_ParseGetPrincipalWrapper L = parse_response L
     [(Code 200, ''JSON200'', mgmt_Principal)]"

definition mgmt_ParseUpdatePrincipalWrapper :: "http_lib \<Rightarrow> http_response \<Rightarrow> goerr + http_wrapper" where
  "mgmt_ParseUpdatePrincipalWrapper L = parse_response L
     [(Code 200, ''JSON200'', mgmt_Principal)]"

definition mgmt_ParseListPrincipalRolesAssignedWrapper :: "http_lib \<Rightarrow> http_response \<Rightarrow> goerr + http_wrapper" where
  "mgmt_ParseListPrincipalRolesAssignedWrapper L = parse_response L
     [(Code 200, ''JSON200'', mgmt_PrincipalRoles)]"

definition mgmt_ParseAssignPrincipalRoleWrapper :: "http_lib \<Rightarrow> http_response \<Rightarrow> goerr + http_wrapper" where
  "mgmt_ParseAssignPrincipalRoleWrapper L = parse_response L []"

definition mgmt_ParseRevokePrincipalRoleWrapper :: "http_lib \<Rightarrow> http_response \<Rightarrow> goerr + http_wrapper" where
  "mgmt_ParseRevokePrincipalRoleWrapper L = parse_response L []"

definition mgmt_ParseResetCredentialsWrapper :: "http_lib \<Rightarrow> http_response \<Rightarrow> goerr + http_wrapper" where
  "mgmt_ParseResetCredentialsWrapper L = parse_response L
     [(Code 200, ''JSON200'', mgmt_PrincipalWithCredentials)]"

definition mgmt_ParseRotateCredentialsWrapper :: "http_lib \<Rightarrow> http_response \<Rightarrow> goerr + http_wrapper" where
  "mgmt_ParseRotateCredentialsWrapper L = parse_response L
     [(Code 200, ''JSON200'', mgmt_PrincipalWithCredentials)]"

definition mgmt_ListCatalogsWithResponse ::
  "http_lib \<Rightarrow> http_client \<Rightarrow> editor list \<Rightarrow> (goerr + http_wrapper) io" where
  "mgmt_ListCatalogsWithResponse L c reqEditors =
     with_response (mgmt_ParseListCatalogsWrapper L) (mgmt_Client_ListCatalogs L c reqEditors)"

definition mgmt_CreateCatalogWithBodyWithResponse ::
  "http_lib \<Rightarrow> http_client \<Rightarrow> string \<Rightarrow> string \<Rightarrow> editor list \<Rightarrow> (goerr + http_wrapper) io" where
  "mgmt_CreateCatalogWithBodyWithResponse L c contentType body reqEditors =
     with_response (mgmt_ParseCreateCatalogWrapper L) (mgmt_Client_CreateCatalogWithBody L c contentType body reqEditors)"

definition mgmt_CreateCatalogWithResponse ::
  "http_lib \<Rightarrow> http_client \<Rightarrow> wval \<Rightarrow> editor list \<Rightarrow> (goerr + http_wrapper) io" where
  "mgmt_CreateCatalogWithResponse L c body reqEditors =
     with_response (mgmt_ParseCreateCatalogWrapper L) (mgmt_Client_CreateCatalog L c body reqEditors)"

definition mgmt_DeleteCatalogWithResponse ::
  "http_lib \<Rightarrow> http_client \<Rightarrow> string \<Rightarrow> editor list \<Rightarrow> (goerr + http_wrapper) io" where
  "mgmt_DeleteCatalogWithResponse L c catalogName reqEditors =
     with_response (mgmt_ParseDeleteCatalogWrapper L) (mgmt_Client_DeleteCatalog L c catalogName reqEditors)"

definition mgmt_GetCatalogWithResponse ::
  "http_lib \<Rightarrow> http_client \<Rightarrow> string \<Rightarrow> editor list \<Rightarrow> (goerr + http_wrapper) io" where
  "mgmt_GetCatalogWithResponse L c catalogName reqEditors =
     with_response (mgmt_ParseGetCatalogWrapper L) (mgmt_Client_GetCatalog L c catalogName reqEditors)"

definition mgmt_UpdateCatalogWithBodyWithResponse ::
  "http_lib \<Rightarrow> http_client \<Rightarrow> string \<Rightarrow> string \<Rightarrow> string \<Rightarrow> editor list \<Rightarrow> (goerr + http_wrapper) io" where
  "mgmt_UpdateCatalogWithBodyWithResponse L c catalogName contentType body reqEditors =
     with_response (mgmt_ParseUpdateCatalogWrapper L) (mgmt_Client_UpdateCatalogWithBody L c catalogName contentType body reqEditors)"

definition mgmt_UpdateCatalogWithResponse ::
  "http_lib \<Rightarrow> http_client \<Rightarrow> string \<Rightarrow> wval \<Rightarrow> editor list \<Rightarrow> (goerr + http_wrapper) io" where
  "mgmt_UpdateCatalogWithResponse L c catalogName body reqEditors =
     with_response (mgmt_ParseUpdateCatalogWrapper L) (mgmt_Client_UpdateCatalog L c catalogName body reqEditors)"

definition mgmt_ListCatalogRolesWithResponse ::
  "http_lib \<Rightarrow> http_client \<Rightarrow> string \<Rightarrow> editor list \<Rightarrow> (goerr + http_wrapper) io" where
  "mgmt_ListCatalogRolesWithResponse L c catalogName reqEditors =
     with_response (mgmt_ParseListCatalogRolesWrapper L) (mgmt_Client_ListCatalogRoles L c catalogName reqEditors)"

definition mgmt_CreateCatalogRoleWithBodyWithResponse ::
  "http_lib \<Rightarrow> http_client \<Rightarrow> string \<Rightarrow> string \<Rightarrow> string \<Rightarrow> editor list \<Rightarrow> (goerr + http_wrapper) io" where
  "mgmt_CreateCatalogRoleWithBodyWithResponse L c catalogName contentType body reqEditors =
     with_response (mgmt_ParseCreateCatalogRoleWrapper L) (mgmt_Client_CreateCatalogRoleWithBody L c catalogName contentType body reqEditors)"

definition mgmt_CreateCatalogRoleWithResponse ::
  "http_lib \<Rightarrow> http_client \<Rightarrow> string \<Rightarrow> wval \<Rightarrow> editor list \<Rightarrow> (goerr + http_wrapper) io" where
  "mgmt_CreateCatalogRoleWithResponse L c catalogName body reqEditors =
     with_response (mgmt_ParseCreateCatalogRoleWrapper L) (mgmt_Client_CreateCatalogRole L c catalogName body reqEditors)"

definition mgmt_DeleteCatalogRoleWithResponse ::
  "http_lib \<Rightarrow> http_client \<Rightarrow> string \<Rightarrow> string \<Rightarrow> editor list \<Rightarrow> (goerr + http_wrapper) io" where
  "mgmt_DeleteCatalogRoleWithResponse L c catalogName catalogRoleName reqEditors =
     with_response (mgmt_ParseDeleteCatalogRoleWrapper L) (mgmt_Client_DeleteCatalogRole L c catalogName catalogRoleName reqEditors)"

definition mgmt_GetCatalogRoleWithResponse ::
  "http_lib \<Rightarrow> http_client \<Rightarrow> string \<Rightarrow> string \<Rightarrow> editor list \<Rightarrow> (goerr + http_wrapper) io" where
  "mgmt_GetCatalogRoleWithResponse L c catalogName catalogRoleName reqEditors =
     with_response (mgmt_ParseGetCatalogRoleWrapper L) (mgmt_Client_GetCatalogRole L c catalogName catalogRoleName reqEditors)"

definition mgmt_UpdateCatalogRoleWithBodyWithResponse ::
  "http_lib \<Rightarrow> http_client \<Rightarrow> string \<Rightarrow> string \<Rightarrow> string \<Rightarrow> string \<Rightarrow> editor list \<Rightarrow> (goerr + http_wrapper) io" where
  "mgmt_UpdateCatalogRoleWithBodyWithResponse L c catalogName catalogRoleName contentType body reqEditors =
     with_response (mgmt_ParseUpdateCatalogRoleWrapper L) (mgmt_Client_UpdateCatalogRoleWithBody L c catalogName catalogRoleName contentType body reqEditors)"

definition mgmt_UpdateCatalogRoleWithResponse ::
  "http_lib \<Rightarrow> http_client \<Rightarrow> string \<Rightarrow> string \<Rightarrow> wval \<Rightarrow> editor list \<Rightarrow> (goerr + http_wrapper) io" where
  "mgmt_UpdateCatalogRoleWithResponse L c catalogName catalogRoleName body reqEditors =
     with_response (mgmt_ParseUpdateCatalogRoleWrapper L) (mgmt_Client_UpdateCatalogRole L c catalogName catalogRoleName body reqEditors)"

definition mgmt_ListGrantsForCatalogRoleWithResponse ::
  "http_lib \<Rightarrow> http_client \<Rightarrow> string \<Rightarrow> string \<Rightarrow> editor list \<Rightarrow> (goerr + http_wrapper) io" where
  "mgmt_ListGrantsForCatalogRoleWithResponse L c catalogName catalogRoleName reqEditors =
     with_response (mgmt_ParseListGrantsForCatalogRoleWrapper L) (mgmt_Client_ListGrantsForCatalogRole L c catalogName catalogRoleName reqEditors)"

definition mgmt_RevokeGrantFromCatalogRoleWithBodyWithResponse ::
  "http_lib \<Rightarrow> http_client \<Rightarrow> string \<Rightarrow> string \<Rightarrow> wval \<Rightarrow> string \<Rightarrow> string \<Rightarrow> editor list \<Rightarrow> (goerr + http_wrapper) io" where
  "mgmt_RevokeGrantFromCatalogRoleWithBodyWithResponse L c catalogName catalogRoleName params contentType body reqEditors =
     with_response (mgmt_ParseRevokeGrantFromCatalogRoleWrapper L) (mgmt_Client_RevokeGrantFromCatalogRoleWithBody L c catalogName catalogRoleName params contentType body reqEditors)"

definition mgmt_RevokeGrantFromCatalogRoleWithResponse ::
  "http_lib \<Rightarrow> http_client \<Rightarrow> string \<Rightarrow> string \<Rightarrow> wval \<Rightarrow> wval \<Rightarrow> editor list \<Rightarrow> (goerr + http_wrapper) io" where
  "mgmt_RevokeGrantFromCatalogRoleWithResponse L c catalogName catalogRoleName params body reqEditors =
     with_response (mgmt_ParseRevokeGrantFromCatalogRoleWrapper L) (mgmt_Client_RevokeGrantFromCatalogRole L c catalogName catalogRoleName params body reqEditors)"

definition mgmt_AddGrantToCatalogRoleWithBodyWithResponse ::
  "http_lib \<Rightarrow> http_client \<Rightarrow> string \<Rightarrow> string \<Rightarrow> string \<Rightarrow> string \<Rightarrow> editor list \<Rightarrow> (goerr + http_wrapper) io" where
  "mgmt_AddGrantToCatalogRoleWithBodyWithResponse L c catalogName catalogRoleName contentType body reqEditors =
     with_response (mgmt_ParseAddGrantToCatalogRoleWrapper L) (mgmt_Client_AddGrantToCatalogRoleWithBody L c catalogName catalogRoleName contentType body reqEditors)"

definition mgmt_AddGrantToCatalogRoleWithResponse ::
  "http_lib \<Rightarrow> http_client \<Rightarrow> string \<Rightarrow> string \<Rightarrow> wval \<Rightarrow> editor list \<Rightarrow> (goerr + http_wrapper) io" where
  "mgmt_AddGrantToCatalogRoleWithResponse L c catalogName catalogRoleName body reqEditors =
     with_response (mgmt_ParseAddGrantToCatalogRoleWrapper L) (mgmt_Client_AddGrantToCatalogRole L c catalogName catalogRoleName body reqEditors)"

definition mgmt_ListAssigneePrincipalRolesForCatalogRoleWithResponse ::
  "http_lib \<Rightarrow> http_client \<Rightarrow> string \<Rightarrow> string \<Rightarrow> editor list \<Rightarrow> (goerr + http_wrapper) io" where
  "mgmt_ListAssigneePrincipalRolesForCatalogRoleWithResponse L c catalogName catalogRoleName reqEditors =
     with_response (mgmt_ParseListAssigneePrincipalRolesForCatalogRoleWrapper L) (mgmt_Client_ListAssigneePrincipalRolesForCatalogRole L c catalogName catalogRoleName reqEditors)"

definition mgmt_ListPrincipalRolesWithResponse ::
  "http_lib \<Rightarrow> http_client \<Rightarrow> editor list \<Rightarrow> (goerr + http_wrapper) io" where
  "mgmt_ListPrincipalRolesWithResponse L c reqEditors =
     with_response (mgmt_ParseListPrincipalRolesWrapper L) (mgmt_Client_ListPrincipalRoles L c reqEditors)"

definition mgmt_CreatePrincipalRoleWithBodyWithResponse ::
  "http_lib \<Rightarrow> http_client \<Rightarrow> string \<Rightarrow> string \<Rightarrow> editor list \<Rightarrow> (goerr + http_wrapper) io" where
  "mgmt_CreatePrincipalRoleWithBodyWithResponse L c contentType body reqEditors =
     with_response (mgmt_ParseCreatePrincipalRoleWrapper L) (mgmt_Client_CreatePrincipalRoleWithBody L c contentType body reqEditors)"

definition mgmt_CreatePrincipalRoleWithResponse ::
  "http_lib \<Rightarrow> http_client \<Rightarrow> wval \<Rightarrow> editor list \<Rightarrow> (goerr + http_wrapper) io" where
  "mgmt_CreatePrincipalRoleWithResponse L c body reqEditors =
     with_response (mgmt_ParseCreatePrincipalRoleWrapper L) (mgmt_Client_CreatePrincipalRole L c body reqEditors)"

definition mgmt_DeletePrincipalRoleWithResponse ::
  "http_lib \<Rightarrow> http_client \<Rightarrow> string \<Rightarrow> editor list \<Rightarrow> (goerr + http_wrapper) io" where
  "mgmt_DeletePrincipalRoleWithResponse L c principalRoleName reqEditors =
     with_response (mgmt_ParseDeletePrincipalRoleWrapper L) (mgmt_Client_DeletePrincipalRole L c principalRoleName reqEditors)"

definition mgmt_GetPrincipalRoleWithResponse ::
  "http_lib \<Rightarrow> http_client \<Rightarrow> string \<Rightarrow> editor list \<Rightarrow> (goerr + http_wrapper) io" where
  "mgmt_GetPrincipalRoleWithResponse L c principalRoleName reqEditors =
     with_response (mgmt_ParseGetPrincipalRoleWrapper L) (mgmt_Client_GetPrincipalRole L c principalRoleName reqEditors)"

definition mgmt_UpdatePrincipalRoleWithBodyWithResponse ::
  "http_lib \<Rightarrow> http_client \<Rightarrow> string \<Rightarrow> string \<Rightarrow> string \<Rightarrow> editor list \<Rightarrow> (goerr + http_wrapper) io" where
  "mgmt_UpdatePrincipalRoleWithBodyWithResponse L c principalRoleName contentType body reqEditors =
     with_response (mgmt_ParseUpdatePrincipalRoleWrapper L) (mgmt_Client_UpdatePrincipalRoleWithBody L c principalRoleName contentType body reqEditors)"

definition mgmt_UpdatePrincipalRoleWithResponse ::
  "http_lib \<Rightarrow> http_client \<Rightarrow> string \<Rightarrow> wval \<Rightarrow> editor list \<Rightarrow> (goerr + http_wrapper) io" where
  "mgmt_UpdatePrincipalRoleWithResponse L c principalRoleName body reqEditors =
     with_response (mgmt_ParseUpdatePrincipalRoleWrapper L) (mgmt_Client_UpdatePrincipalRole L c principalRoleName body reqEditors)"

definition mgmt_ListCatalogRolesForPrincipalRoleWithResponse ::
  "http_lib \<Rightarrow> http_client \<Rightarrow> string \<Rightarrow> string \<Rightarrow> editor list \<Rightarrow> (goerr + http_wrapper) io" where
  "mgmt_ListCatalogRolesForPrincipalRoleWithResponse L c principalRoleName catalogName reqEditors =
     with_response (mgmt_ParseListCatalogRolesForPrincipalRoleWrapper L) (mgmt_Client_ListCatalogRolesForPrincipalRole L c principalRoleName catalogName reqEditors)"

definition mgmt_AssignCatalogRoleToPrincipalRoleWithBodyWithResponse ::
  "http_lib \<Rightarrow> http_client \<Rightarrow> string \<Rightarrow> string \<Rightarrow> string \<Rightarrow> string \<Rightarrow> editor list \<Rightarrow> (goerr + http_wrapper) io" where
  "mgmt_AssignCatalogRoleToPrincipalRoleWithBodyWithResponse L c principalRoleName catalogName contentType body reqEditors =
     with_response (mgmt_ParseAssignCatalogRoleToPrincipalRoleWrapper L) (mgmt_Client_AssignCatalogRoleToPrincipalRoleWithBody L c principalRoleName catalogName contentType body reqEditors)"

definition mgmt_AssignCatalogRoleToPrincipalRoleWithResponse ::
  "http_lib \<Rightarrow> http_client \<Rightarrow> string \<Rightarrow> string \<Rightarrow> wval \<Rightarrow> editor list \<Rightarrow> (goerr + http_wrapper) io" where
  "mgmt_AssignCatalogRoleToPrincipalRoleWithResponse L c principalRoleName catalogName body reqEditors =
     with_response (mgmt_ParseAssignCatalogRoleToPrincipalRoleWrapper L) (mgmt_Client_AssignCatalogRoleToPrincipalRole L c principalRoleName catalogName body reqEditors)"

definition mgmt_RevokeCatalogRoleFromPrincipalRoleWithResponse ::
  "http_lib \<Rightarrow> http_client \<Rightarrow> string \<Rightarrow> string \<Rightarrow> string \<Rightarrow> editor list \<Rightarrow> (goerr + http_wrapper) io" where
  "mgmt_RevokeCatalogRoleFromPrincipalRoleWithResponse L c principalRoleName catalogName catalogRoleName reqEditors =
     with_response (mgmt_ParseRevokeCatalogRoleFromPrincipalRoleWrapper L) (mgmt_Client_RevokeCatalogRoleFromPrincipalRole L c principalRoleName catalogName catalogRoleName reqEditors)"

definition mgmt_ListAssigneePrincipalsForPrincipalRoleWithResponse ::
  "http_lib \<Rightarrow> http_client \<Rightarrow> string \<Rightarrow> editor list \<Rightarrow> (goerr + http_wrapper) io" where
  "mgmt_ListAssigneePrincipalsForPrincipalRoleWithResponse L c principalRoleName reqEditors =
     with_response (mgmt_ParseListAssigneePrincipalsForPrincipalRoleWrapper L) (mgmt_Client_ListAssigneePrincipalsForPrincipalRole L c principalRoleName reqEditors)"

definition mgmt_ListPrincipalsWithResponse ::
  "http_lib \<Rightarrow> http_client \<Rightarrow> editor list \<Rightarrow> (goerr + http_wrapper) io" where
  "mgmt_ListPrincipalsWithResponse L c reqEditors =
     with_response (mgmt_ParseListPrincipalsWrapper L) (mgmt_Client_ListPrincipals L c reqEditors)"

definition mgmt_CreatePrincipalWithBodyWithResponse ::
  "http_lib \<Rightarrow> http_client \<Rightarrow> string \<Rightarrow> string \<Rightarrow> editor list \<Rightarrow> (goerr + http_wrapper) io" where
  "mgmt_CreatePrincipalWithBodyWithResponse L c contentType body reqEditors =
     with_response (mgmt_ParseCreatePrincipalWrapper L) (mgmt_Client_CreatePrincipalWithBody L c contentType body reqEditors)"

definition mgmt_CreatePrincipalWithResponse ::
  "http_lib \<Rightarrow> http_client \<Rightarrow> wval \<Rightarrow> editor list \<Rightarrow> (goerr + http_wrapper) io" where
  "mgmt_CreatePrincipalWithResponse L c body reqEditors =
     with_response (mgmt_ParseCreatePrincipalWrapper L) (mgmt_Client_CreatePrincipal L c body reqEditors)"

definition mgmt_DeletePrincipalWithResponse ::
  "http_lib \<Rightarrow> http_client \<Rightarrow> string \<Rightarrow> editor list \<Rightarrow> (goerr + http_wrapper) io" where
  "mgmt_DeletePrincipalWithResponse L c principalName reqEditors =
     with_response (mgmt_ParseDeletePrincipalWrapper L) (mgmt_Client_DeletePrincipal L c principalName reqEditors)"

definition mgmt_GetPrincipalWithResponse ::
  "http_lib \<Rightarrow> http_client \<Rightarrow> string \<Rightarrow> editor list \<Rightarrow> (goerr + http_wrapper) io" where
  "mgmt_GetPrincipalWithResponse L c principalName reqEditors =
     with_response (mgmt_ParseGetPrincipalWrapper L) (mgmt_Client_GetPrincipal L c principalName reqEditors)"

definition mgmt_UpdatePrincipalWithBodyWithResponse ::
  "http_lib \<Rightarrow> http_client \<Rightarrow> string \<Rightarrow> string \<Rightarrow> string \<Rightarrow> editor list \<Rightarrow> (goerr + http_wrapper) io" where
  "mgmt_UpdatePrincipalWithBodyWithResponse L c principalName contentType body reqEditors =
     with_response (mgmt_ParseUpdatePrincipalWrapper L) (mgmt_Client_UpdatePrincipalWithBody L c principalName contentType body reqEditors)"

definition mgmt_UpdatePrincipalWithResponse ::
  "http_lib \<Rightarrow> http_client \<Rightarrow> string \<Rightarrow> wval \<Rightarrow> editor list \<Rightarrow> (goerr + http_wrapper) io" where
  "mgmt_UpdatePrincipalWithResponse L c principalName body reqEditors =
     with_response (mgmt_ParseUpdatePrincipalWrapper L) (mgmt_Client_UpdatePrincipal L c principalName body reqEditors)"

definition mgmt_ListPrincipalRolesAssignedWithResponse ::
  "http_lib \<Rightarrow> http_client \<Rightarrow> string \<Rightarrow> editor list \<Rightarrow> (goerr + http_wrapper) io" where
  "mgmt_ListPrincipalRolesAssignedWithResponse L c principalName reqEditors =
     with_response (mgmt_ParseListPrincipalRolesAssignedWrapper L) (mgmt_Client_ListPrincipalRolesAssigned L c principalName reqEditors)"

definition mgmt_AssignPrincipalRoleWithBodyWithResponse ::
  "http_lib \<Rightarrow> http_client \<Rightarrow> string \<Rightarrow> string \<Rightarrow> string \<Rightarrow> editor list \<Rightarrow> (goerr + http_wrapper) io" where
  "mgmt_AssignPrincipalRoleWithBodyWithResponse L c principalName contentType body reqEditors =
     with_response (mgmt_ParseAssignPrincipalRoleWrapper L) (mgmt_Client_AssignPrincipalRoleWithBody L c principalName contentType body reqEditors)"

definition mgmt_AssignPrincipalRoleWithResponse ::
  "http_lib \<Rightarrow> http_client \<Rightarrow> string \<Rightarrow> wval \<Rightarrow> editor list \<Rightarrow> (goerr + http_wrapper) io" where
  "mgmt_AssignPrincipalRoleWithResponse L c principalName body reqEditors =
     with_response (mgmt_ParseAssignPrincipalRoleWrapper L) (mgmt_Client_AssignPrincipalRole L c principalName body reqEditors)"

definition mgmt_RevokePrincipalRoleWithResponse ::
  "http_lib \<Rightarrow> http_client \<Rightarrow> string \<Rightarrow> string \<Rightarrow> editor list \<Rightarrow> (goerr + http_wrapper) io" where
  "mgmt_RevokePrincipalRoleWithResponse L c principalName principalRoleName reqEditors =
     with_response (mgmt_ParseRevokePrincipalRoleWrapper L) (mgmt_Client_RevokePrincipalRole L c principalName principalRoleName reqEditors)"

definition mgmt_ResetCredentialsWithBodyWithResponse ::
  "http_lib \<Rightarrow> http_client \<Rightarrow> string \<Rightarrow> string \<Rightarrow> string \<Rightarrow> editor list \<Rightarrow> (goerr + http_wrapper) io" where
  "mgmt_ResetCredentialsWithBodyWithResponse L c principalName contentType body reqEditors =
     with_response (mgmt_ParseResetCredentialsWrapper L) (mgmt_Client_ResetCredentialsWithBody L c principalName contentType body reqEditors)"

definition mgmt_ResetCredentialsWithResponse ::
  "http_lib \<Rightarrow> http_client \<Rightarrow> string \<Rightarrow> wval \<Rightarrow> editor list \<Rightarrow> (goerr + http_wrapper) io" where
  "mgmt_ResetCredentialsWithResponse L c principalName body reqEditors =
     with_response (mgmt_ParseResetCredentialsWrapper L) (mgmt_Client_ResetCredentials L c principalName body reqEditors)"

definition mgmt_RotateCredentialsWithResponse ::
  "http_lib \<Rightarrow> http_client \<Rightarrow> string \<Rightarrow> editor list \<Rightarrow> (goerr + http_wrapper) io" where
  "mgmt_RotateCredentialsWithResponse L c principalName reqEditors =
     with_response (mgmt_ParseRotateCredentialsWrapper L) (mgmt_Client_RotateCredentials L c principalName reqEditors)"

end
