(* ===== verification/Management_Api.thy ===== *)
theory Management_Api
  imports Http_Docs Management_Results
begin

text \<open>
  The operations of \<open>openapi/polaris-management-service.yaml\<close> (\<open>mgmt_doc_...\<close>), and that the
  requests and the response parsers of the generated client are what the document says.
\<close>

section \<open>The document\<close>

definition mgmt_doc_listCatalogs :: api_operation where
  "mgmt_doc_listCatalogs =
     \<lparr>opMethod = ''GET'',
      opPath = [Lit ''catalogs''],
      opQuery = [],
      opHeader = [],
      opBody = False,
      opResponses =
       [(Code 200, mgmt_Catalogs)]\<rparr>"

definition mgmt_doc_createCatalog :: api_operation where
  "mgmt_doc_createCatalog =
     \<lparr>opMethod = ''POST'',
      opPath = [Lit ''catalogs''],
      opQuery = [],
      opHeader = [],
      opBody = True,
      opResponses =
       [(Code 201, mgmt_Catalog)]\<rparr>"

definition mgmt_doc_getCatalog :: api_operation where
  "mgmt_doc_getCatalog =
     \<lparr>opMethod = ''GET'',
      opPath = [Lit ''catalogs'', Par ''catalogName''],
      opQuery = [],
      opHeader = [],
      opBody = False,
      opResponses =
       [(Code 200, mgmt_Catalog)]\<rparr>"

definition mgmt_doc_updateCatalog :: api_operation where
  "mgmt_doc_updateCatalog =
     \<lparr>opMethod = ''PUT'',
      opPath = [Lit ''catalogs'', Par ''catalogName''],
      opQuery = [],
      opHeader = [],
      opBody = True,
      opResponses =
       [(Code 200, mgmt_Catalog)]\<rparr>"

definition mgmt_doc_deleteCatalog :: api_operation where
  "mgmt_doc_deleteCatalog =
     \<lparr>opMethod = ''DELETE'',
      opPath = [Lit ''catalogs'', Par ''catalogName''],
      opQuery = [],
      opHeader = [],
      opBody = False,
      opResponses =
       []\<rparr>"

definition mgmt_doc_listPrincipals :: api_operation where
  "mgmt_doc_listPrincipals =
     \<lparr>opMethod = ''GET'',
      opPath = [Lit ''principals''],
      opQuery = [],
      opHeader = [],
      opBody = False,
      opResponses =
       [(Code 200, mgmt_Principals)]\<rparr>"

definition mgmt_doc_createPrincipal :: api_operation where
  "mgmt_doc_createPrincipal =
     \<lparr>opMethod = ''POST'',
      opPath = [Lit ''principals''],
      opQuery = [],
      opHeader = [],
      opBody = True,
      opResponses =
       [(Code 201, mgmt_PrincipalWithCredentials)]\<rparr>"

definition mgmt_doc_getPrincipal :: api_operation where
  "mgmt_doc_getPrincipal =
     \<lparr>opMethod = ''GET'',
      opPath = [Lit ''principals'', Par ''principalName''],
      opQuery = [],
      opHeader = [],
      opBody = False,
      opResponses =
       [(Code 200, mgmt_Principal)]\<rparr>"

definition mgmt_doc_updatePrincipal :: api_operation where
  "mgmt_doc_updatePrincipal =
     \<lparr>opMethod = ''PUT'',
      opPath = [Lit ''principals'', Par ''principalName''],
      opQuery = [],
      opHeader = [],
      opBody = True,
      opResponses =
       [(Code 200, mgmt_Principal)]\<rparr>"

definition mgmt_doc_deletePrincipal :: api_operation where
  "mgmt_doc_deletePrincipal =
     \<lparr>opMethod = ''DELETE'',
      opPath = [Lit ''principals'', Par ''principalName''],
      opQuery = [],
      opHeader = [],
      opBody = False,
      opResponses =
       []\<rparr>"

definition mgmt_doc_rotateCredentials :: api_operation where
  "mgmt_doc_rotateCredentials =
     \<lparr>opMethod = ''POST'',
      opPath = [Lit ''principals'', Par ''principalName'', Lit ''rotate''],
      opQuery = [],
      opHeader = [],
      opBody = False,
      opResponses =
       [(Code 200, mgmt_PrincipalWithCredentials)]\<rparr>"

definition mgmt_doc_resetCredentials :: api_operation where
  "mgmt_doc_resetCredentials =
     \<lparr>opMethod = ''POST'',
      opPath = [Lit ''principals'', Par ''principalName'', Lit ''reset''],
      opQuery = [],
      opHeader = [],
      opBody = True,
      opResponses =
       [(Code 200, mgmt_PrincipalWithCredentials)]\<rparr>"

definition mgmt_doc_listPrincipalRolesAssigned :: api_operation where
  "mgmt_doc_listPrincipalRolesAssigned =
     \<lparr>opMethod = ''GET'',
      opPath = [Lit ''principals'', Par ''principalName'', Lit ''principal-roles''],
      opQuery = [],
      opHeader = [],
      opBody = False,
      opResponses =
       [(Code 200, mgmt_PrincipalRoles)]\<rparr>"

definition mgmt_doc_assignPrincipalRole :: api_operation where
  "mgmt_doc_assignPrincipalRole =
     \<lparr>opMethod = ''PUT'',
      opPath = [Lit ''principals'', Par ''principalName'', Lit ''principal-roles''],
      opQuery = [],
      opHeader = [],
      opBody = True,
      opResponses =
       []\<rparr>"

definition mgmt_doc_revokePrincipalRole :: api_operation where
  "mgmt_doc_revokePrincipalRole =
     \<lparr>opMethod = ''DELETE'',
      opPath = [Lit ''principals'', Par ''principalName'', Lit ''principal-roles'', Par ''principalRoleName''],
      opQuery = [],
      opHeader = [],
      opBody = False,
      opResponses =
       []\<rparr>"

definition mgmt_doc_listPrincipalRoles :: api_operation where
  "mgmt_doc_listPrincipalRoles =
     \<lparr>opMethod = ''GET'',
      opPath = [Lit ''principal-roles''],
      opQuery = [],
      opHeader = [],
      opBody = False,
      opResponses =
       [(Code 200, mgmt_PrincipalRoles)]\<rparr>"

definition mgmt_doc_createPrincipalRole :: api_operation where
  "mgmt_doc_createPrincipalRole =
     \<lparr>opMethod = ''POST'',
      opPath = [Lit ''principal-roles''],
      opQuery = [],
      opHeader = [],
      opBody = True,
      opResponses =
       [(Code 201, mgmt_PrincipalRole)]\<rparr>"

definition mgmt_doc_getPrincipalRole :: api_operation where
  "mgmt_doc_getPrincipalRole =
     \<lparr>opMethod = ''GET'',
      opPath = [Lit ''principal-roles'', Par ''principalRoleName''],
      opQuery = [],
      opHeader = [],
      opBody = False,
      opResponses =
       [(Code 200, mgmt_PrincipalRole)]\<rparr>"

definition mgmt_doc_updatePrincipalRole :: api_operation where
  "mgmt_doc_updatePrincipalRole =
     \<lparr>opMethod = ''PUT'',
      opPath = [Lit ''principal-roles'', Par ''principalRoleName''],
      opQuery = [],
      opHeader = [],
      opBody = True,
      opResponses =
       [(Code 200, mgmt_PrincipalRole)]\<rparr>"

definition mgmt_doc_deletePrincipalRole :: api_operation where
  "mgmt_doc_deletePrincipalRole =
     \<lparr>opMethod = ''DELETE'',
      opPath = [Lit ''principal-roles'', Par ''principalRoleName''],
      opQuery = [],
      opHeader = [],
      opBody = False,
      opResponses =
       []\<rparr>"

definition mgmt_doc_listAssigneePrincipalsForPrincipalRole :: api_operation where
  "mgmt_doc_listAssigneePrincipalsForPrincipalRole =
     \<lparr>opMethod = ''GET'',
      opPath = [Lit ''principal-roles'', Par ''principalRoleName'', Lit ''principals''],
      opQuery = [],
      opHeader = [],
      opBody = False,
      opResponses =
       [(Code 200, mgmt_Principals)]\<rparr>"

definition mgmt_doc_listCatalogRolesForPrincipalRole :: api_operation where
  "mgmt_doc_listCatalogRolesForPrincipalRole =
     \<lparr>opMethod = ''GET'',
      opPath = [Lit ''principal-roles'', Par ''principalRoleName'', Lit ''catalog-roles'', Par ''catalogName''],
      opQuery = [],
      opHeader = [],
      opBody = False,
      opResponses =
       [(Code 200, mgmt_CatalogRoles)]\<rparr>"

definition mgmt_doc_assignCatalogRoleToPrincipalRole :: api_operation where
  "mgmt_doc_assignCatalogRoleToPrincipalRole =
     \<lparr>opMethod = ''PUT'',
      opPath = [Lit ''principal-roles'', Par ''principalRoleName'', Lit ''catalog-roles'', Par ''catalogName''],
      opQuery = [],
      opHeader = [],
      opBody = True,
      opResponses =
       []\<rparr>"

definition mgmt_doc_revokeCatalogRoleFromPrincipalRole :: api_operation where
  "mgmt_doc_revokeCatalogRoleFromPrincipalRole =
     \<lparr>opMethod = ''DELETE'',
      opPath = [Lit ''principal-roles'', Par ''principalRoleName'', Lit ''catalog-roles'', Par ''catalogName'', Par ''catalogRoleName''],
      opQuery = [],
      opHeader = [],
      opBody = False,
      opResponses =
       []\<rparr>"

definition mgmt_doc_listCatalogRoles :: api_operation where
  "mgmt_doc_listCatalogRoles =
     \<lparr>opMethod = ''GET'',
      opPath = [Lit ''catalogs'', Par ''catalogName'', Lit ''catalog-roles''],
      opQuery = [],
      opHeader = [],
      opBody = False,
      opResponses =
       [(Code 200, mgmt_CatalogRoles)]\<rparr>"

definition mgmt_doc_createCatalogRole :: api_operation where
  "mgmt_doc_createCatalogRole =
     \<lparr>opMethod = ''POST'',
      opPath = [Lit ''catalogs'', Par ''catalogName'', Lit ''catalog-roles''],
      opQuery = [],
      opHeader = [],
      opBody = True,
      opResponses =
       [(Code 201, mgmt_CatalogRole)]\<rparr>"

definition mgmt_doc_getCatalogRole :: api_operation where
  "mgmt_doc_getCatalogRole =
     \<lparr>opMethod = ''GET'',
      opPath = [Lit ''catalogs'', Par ''catalogName'', Lit ''catalog-roles'', Par ''catalogRoleName''],
      opQuery = [],
      opHeader = [],
      opBody = False,
      opResponses =
       [(Code 200, mgmt_CatalogRole)]\<rparr>"

definition mgmt_doc_updateCatalogRole :: api_operation where
  "mgmt_doc_updateCatalogRole =
     \<lparr>opMethod = ''PUT'',
      opPath = [Lit ''catalogs'', Par ''catalogName'', Lit ''catalog-roles'', Par ''catalogRoleName''],
      opQuery = [],
      opHeader = [],
      opBody = True,
      opResponses =
       [(Code 200, mgmt_CatalogRole)]\<rparr>"

definition mgmt_doc_deleteCatalogRole :: api_operation where
  "mgmt_doc_deleteCatalogRole =
     \<lparr>opMethod = ''DELETE'',
      opPath = [Lit ''catalogs'', Par ''catalogName'', Lit ''catalog-roles'', Par ''catalogRoleName''],
      opQuery = [],
      opHeader = [],
      opBody = False,
      opResponses =
       []\<rparr>"

definition mgmt_doc_listAssigneePrincipalRolesForCatalogRole :: api_operation where
  "mgmt_doc_listAssigneePrincipalRolesForCatalogRole =
     \<lparr>opMethod = ''GET'',
      opPath = [Lit ''catalogs'', Par ''catalogName'', Lit ''catalog-roles'', Par ''catalogRoleName'', Lit ''principal-roles''],
      opQuery = [],
      opHeader = [],
      opBody = False,
      opResponses =
       [(Code 200, mgmt_PrincipalRoles)]\<rparr>"

definition mgmt_doc_listGrantsForCatalogRole :: api_operation where
  "mgmt_doc_listGrantsForCatalogRole =
     \<lparr>opMethod = ''GET'',
      opPath = [Lit ''catalogs'', Par ''catalogName'', Lit ''catalog-roles'', Par ''catalogRoleName'', Lit ''grants''],
      opQuery = [],
      opHeader = [],
      opBody = False,
      opResponses =
       [(Code 200, mgmt_GrantResources)]\<rparr>"

definition mgmt_doc_addGrantToCatalogRole :: api_operation where
  "mgmt_doc_addGrantToCatalogRole =
     \<lparr>opMethod = ''PUT'',
      opPath = [Lit ''catalogs'', Par ''catalogName'', Lit ''catalog-roles'', Par ''catalogRoleName'', Lit ''grants''],
      opQuery = [],
      opHeader = [],
      opBody = True,
      opResponses =
       []\<rparr>"

definition mgmt_doc_revokeGrantFromCatalogRole :: api_operation where
  "mgmt_doc_revokeGrantFromCatalogRole =
     \<lparr>opMethod = ''POST'',
      opPath = [Lit ''catalogs'', Par ''catalogName'', Lit ''catalog-roles'', Par ''catalogRoleName'', Lit ''grants''],
      opQuery = [(''Cascade'', ''cascade'', ''boolean'')],
      opHeader = [],
      opBody = True,
      opResponses =
       []\<rparr>"

section \<open>Requests\<close>

lemma mgmt_requests:
  "mgmt_NewListCatalogsRequest L server =
     documented_request L server mgmt_doc_listCatalogs [] params ct body"
  "mgmt_NewCreateCatalogRequestWithBody L server ct body =
     documented_request L server mgmt_doc_createCatalog [] params ct body"
  "mgmt_NewGetCatalogRequest L server catalogName =
     documented_request L server mgmt_doc_getCatalog [catalogName] params ct body"
  "mgmt_NewUpdateCatalogRequestWithBody L server catalogName ct body =
     documented_request L server mgmt_doc_updateCatalog [catalogName] params ct body"
  "mgmt_NewDeleteCatalogRequest L server catalogName =
     documented_request L server mgmt_doc_deleteCatalog [catalogName] params ct body"
  "mgmt_NewListPrincipalsRequest L server =
     documented_request L server mgmt_doc_listPrincipals [] params ct body"
  "mgmt_NewCreatePrincipalRequestWithBody L server ct body =
     documented_request L server mgmt_doc_createPrincipal [] params ct body"
  "mgmt_NewGetPrincipalRequest L server principalName =
     documented_request L server mgmt_doc_getPrincipal [principalName] params ct body"
  "mgmt_NewUpdatePrincipalRequestWithBody L server principalName ct body =
     documented_request L server mgmt_doc_updatePrincipal [principalName] params ct body"
  "mgmt_NewDeletePrincipalRequest L server principalName =
     documented_request L server mgmt_doc_deletePrincipal [principalName] params ct body"
  "mgmt_NewRotateCredentialsRequest L server principalName =
     documented_request L server mgmt_doc_rotateCredentials [principalName] params ct body"
  "mgmt_NewResetCredentialsRequestWithBody L server principalName ct body =
     documented_request L server mgmt_doc_resetCredentials [principalName] params ct body"
  "mgmt_NewListPrincipalRolesAssignedRequest L server principalName =
     documented_request L server mgmt_doc_listPrincipalRolesAssigned [principalName] params ct body"
  "mgmt_NewAssignPrincipalRoleRequestWithBody L server principalName ct body =
     documented_request L server mgmt_doc_assignPrincipalRole [principalName] params ct body"
  "mgmt_NewRevokePrincipalRoleRequest L server principalName principalRoleName =
     documented_request L server mgmt_doc_revokePrincipalRole [principalName, principalRoleName] params ct body"
  "mgmt_NewListPrincipalRolesRequest L server =
     documented_request L server mgmt_doc_listPrincipalRoles [] params ct body"
  "mgmt_NewCreatePrincipalRoleRequestWithBody L server ct body =
     documented_request L server mgmt_doc_createPrincipalRole [] params ct body"
  "mgmt_NewGetPrincipalRoleRequest L server principalRoleName =
     documented_request L server mgmt_doc_getPrincipalRole [principalRoleName] params ct body"
  "mgmt_NewUpdatePrincipalRoleRequestWithBody L server principalRoleName ct body =
     documented_request L server mgmt_doc_updatePrincipalRole [principalRoleName] params ct body"
  "mgmt_NewDeletePrincipalRoleRequest L server principalRoleName =
     documented_request L server mgmt_doc_deletePrincipalRole [principalRoleName] params ct body"
  "mgmt_NewListAssigneePrincipalsForPrincipalRoleRequest L server principalRoleName =
     documented_request L server mgmt_doc_listAssigneePrincipalsForPrincipalRole [principalRoleName] params ct body"
  "mgmt_NewListCatalogRolesForPrincipalRoleRequest L server principalRoleName catalogName =
     documented_request L server mgmt_doc_listCatalogRolesForPrincipalRole [principalRoleName, catalogName] params ct body"
  "mgmt_NewAssignCatalogRoleToPrincipalRoleRequestWithBody L server principalRoleName catalogName ct body =
     documented_request L server mgmt_doc_assignCatalogRoleToPrincipalRole [principalRoleName, catalogName] params ct body"
  "mgmt_NewRevokeCatalogRoleFromPrincipalRoleRequest L server principalRoleName catalogName catalogRoleName =
     documented_request L server mgmt_doc_revokeCatalogRoleFromPrincipalRole [principalRoleName, catalogName, catalogRoleName] params ct body"
  "mgmt_NewListCatalogRolesRequest L server catalogName =
     documented_request L server mgmt_doc_listCatalogRoles [catalogName] params ct body"
  "mgmt_NewCreateCatalogRoleRequestWithBody L server catalogName ct body =
     documented_request L server mgmt_doc_createCatalogRole [catalogName] params ct body"
  "mgmt_NewGetCatalogRoleRequest L server catalogName catalogRoleName =
     documented_request L server mgmt_doc_getCatalogRole [catalogName, catalogRoleName] params ct body"
  "mgmt_NewUpdateCatalogRoleRequestWithBody L server catalogName catalogRoleName ct body =
     documented_request L server mgmt_doc_updateCatalogRole [catalogName, catalogRoleName] params ct body"
  "mgmt_NewDeleteCatalogRoleRequest L server catalogName catalogRoleName =
     documented_request L server mgmt_doc_deleteCatalogRole [catalogName, catalogRoleName] params ct body"
  "mgmt_NewListAssigneePrincipalRolesForCatalogRoleRequest L server catalogName catalogRoleName =
     documented_request L server mgmt_doc_listAssigneePrincipalRolesForCatalogRole [catalogName, catalogRoleName] params ct body"
  "mgmt_NewListGrantsForCatalogRoleRequest L server catalogName catalogRoleName =
     documented_request L server mgmt_doc_listGrantsForCatalogRole [catalogName, catalogRoleName] params ct body"
  "mgmt_NewAddGrantToCatalogRoleRequestWithBody L server catalogName catalogRoleName ct body =
     documented_request L server mgmt_doc_addGrantToCatalogRole [catalogName, catalogRoleName] params ct body"
  "mgmt_NewRevokeGrantFromCatalogRoleRequestWithBody L server catalogName catalogRoleName params ct body =
     documented_request L server mgmt_doc_revokeGrantFromCatalogRole [catalogName, catalogRoleName] params ct body"
  by (simp_all add: documented_request_def
    mgmt_NewListCatalogsRequest_def
    mgmt_NewCreateCatalogRequestWithBody_def
    mgmt_NewGetCatalogRequest_def
    mgmt_NewUpdateCatalogRequestWithBody_def
    mgmt_NewDeleteCatalogRequest_def
    mgmt_NewListPrincipalsRequest_def
    mgmt_NewCreatePrincipalRequestWithBody_def
    mgmt_NewGetPrincipalRequest_def
    mgmt_NewUpdatePrincipalRequestWithBody_def
    mgmt_NewDeletePrincipalRequest_def
    mgmt_NewRotateCredentialsRequest_def
    mgmt_NewResetCredentialsRequestWithBody_def
    mgmt_NewListPrincipalRolesAssignedRequest_def
    mgmt_NewAssignPrincipalRoleRequestWithBody_def
    mgmt_NewRevokePrincipalRoleRequest_def
    mgmt_NewListPrincipalRolesRequest_def
    mgmt_NewCreatePrincipalRoleRequestWithBody_def
    mgmt_NewGetPrincipalRoleRequest_def
    mgmt_NewUpdatePrincipalRoleRequestWithBody_def
    mgmt_NewDeletePrincipalRoleRequest_def
    mgmt_NewListAssigneePrincipalsForPrincipalRoleRequest_def
    mgmt_NewListCatalogRolesForPrincipalRoleRequest_def
    mgmt_NewAssignCatalogRoleToPrincipalRoleRequestWithBody_def
    mgmt_NewRevokeCatalogRoleFromPrincipalRoleRequest_def
    mgmt_NewListCatalogRolesRequest_def
    mgmt_NewCreateCatalogRoleRequestWithBody_def
    mgmt_NewGetCatalogRoleRequest_def
    mgmt_NewUpdateCatalogRoleRequestWithBody_def
    mgmt_NewDeleteCatalogRoleRequest_def
    mgmt_NewListAssigneePrincipalRolesForCatalogRoleRequest_def
    mgmt_NewListGrantsForCatalogRoleRequest_def
    mgmt_NewAddGrantToCatalogRoleRequestWithBody_def
    mgmt_NewRevokeGrantFromCatalogRoleRequestWithBody_def
    mgmt_doc_listCatalogs_def
    mgmt_doc_createCatalog_def
    mgmt_doc_getCatalog_def
    mgmt_doc_updateCatalog_def
    mgmt_doc_deleteCatalog_def
    mgmt_doc_listPrincipals_def
    mgmt_doc_createPrincipal_def
    mgmt_doc_getPrincipal_def
    mgmt_doc_updatePrincipal_def
    mgmt_doc_deletePrincipal_def
    mgmt_doc_rotateCredentials_def
    mgmt_doc_resetCredentials_def
    mgmt_doc_listPrincipalRolesAssigned_def
    mgmt_doc_assignPrincipalRole_def
    mgmt_doc_revokePrincipalRole_def
    mgmt_doc_listPrincipalRoles_def
    mgmt_doc_createPrincipalRole_def
    mgmt_doc_getPrincipalRole_def
    mgmt_doc_updatePrincipalRole_def
    mgmt_doc_deletePrincipalRole_def
    mgmt_doc_listAssigneePrincipalsForPrincipalRole_def
    mgmt_doc_listCatalogRolesForPrincipalRole_def
    mgmt_doc_assignCatalogRoleToPrincipalRole_def
    mgmt_doc_revokeCatalogRoleFromPrincipalRole_def
    mgmt_doc_listCatalogRoles_def
    mgmt_doc_createCatalogRole_def
    mgmt_doc_getCatalogRole_def
    mgmt_doc_updateCatalogRole_def
    mgmt_doc_deleteCatalogRole_def
    mgmt_doc_listAssigneePrincipalRolesForCatalogRole_def
    mgmt_doc_listGrantsForCatalogRole_def
    mgmt_doc_addGrantToCatalogRole_def
    mgmt_doc_revokeGrantFromCatalogRole_def)

section \<open>Responses\<close>

lemmas mgmt_alias_defs =
    mgmt_AddGrantToCatalogRoleJSONRequestBody_def
    mgmt_AssignCatalogRoleToPrincipalRoleJSONRequestBody_def
    mgmt_AssignPrincipalRoleJSONRequestBody_def
    mgmt_CreateCatalogJSONRequestBody_def
    mgmt_CreateCatalogRoleJSONRequestBody_def
    mgmt_CreatePrincipalJSONRequestBody_def
    mgmt_CreatePrincipalRoleJSONRequestBody_def
    mgmt_ResetCredentialsJSONRequestBody_def
    mgmt_RevokeGrantFromCatalogRoleJSONRequestBody_def
    mgmt_UpdateCatalogJSONRequestBody_def
    mgmt_UpdateCatalogRoleJSONRequestBody_def
    mgmt_UpdatePrincipalJSONRequestBody_def
    mgmt_UpdatePrincipalRoleJSONRequestBody_def

lemma mgmt_responses:
  "mgmt_ParseListCatalogsWrapper L = decode_documented L (opResponses mgmt_doc_listCatalogs)"
  "mgmt_ParseCreateCatalogWrapper L = decode_documented L (opResponses mgmt_doc_createCatalog)"
  "mgmt_ParseGetCatalogWrapper L = decode_documented L (opResponses mgmt_doc_getCatalog)"
  "mgmt_ParseUpdateCatalogWrapper L = decode_documented L (opResponses mgmt_doc_updateCatalog)"
  "mgmt_ParseDeleteCatalogWrapper L = decode_documented L (opResponses mgmt_doc_deleteCatalog)"
  "mgmt_ParseListPrincipalsWrapper L = decode_documented L (opResponses mgmt_doc_listPrincipals)"
  "mgmt_ParseCreatePrincipalWrapper L = decode_documented L (opResponses mgmt_doc_createPrincipal)"
  "mgmt_ParseGetPrincipalWrapper L = decode_documented L (opResponses mgmt_doc_getPrincipal)"
  "mgmt_ParseUpdatePrincipalWrapper L = decode_documented L (opResponses mgmt_doc_updatePrincipal)"
  "mgmt_ParseDeletePrincipalWrapper L = decode_documented L (opResponses mgmt_doc_deletePrincipal)"
  "mgmt_ParseRotateCredentialsWrapper L = decode_documented L (opResponses mgmt_doc_rotateCredentials)"
  "mgmt_ParseResetCredentialsWrapper L = decode_documented L (opResponses mgmt_doc_resetCredentials)"
  "mgmt_ParseListPrincipalRolesAssignedWrapper L = decode_documented L (opResponses mgmt_doc_listPrincipalRolesAssigned)"
  "mgmt_ParseAssignPrincipalRoleWrapper L = decode_documented L (opResponses mgmt_doc_assignPrincipalRole)"
  "mgmt_ParseRevokePrincipalRoleWrapper L = decode_documented L (opResponses mgmt_doc_revokePrincipalRole)"
  "mgmt_ParseListPrincipalRolesWrapper L = decode_documented L (opResponses mgmt_doc_listPrincipalRoles)"
  "mgmt_ParseCreatePrincipalRoleWrapper L = decode_documented L (opResponses mgmt_doc_createPrincipalRole)"
  "mgmt_ParseGetPrincipalRoleWrapper L = decode_documented L (opResponses mgmt_doc_getPrincipalRole)"
  "mgmt_ParseUpdatePrincipalRoleWrapper L = decode_documented L (opResponses mgmt_doc_updatePrincipalRole)"
  "mgmt_ParseDeletePrincipalRoleWrapper L = decode_documented L (opResponses mgmt_doc_deletePrincipalRole)"
  "mgmt_ParseListAssigneePrincipalsForPrincipalRoleWrapper L = decode_documented L (opResponses mgmt_doc_listAssigneePrincipalsForPrincipalRole)"
  "mgmt_ParseListCatalogRolesForPrincipalRoleWrapper L = decode_documented L (opResponses mgmt_doc_listCatalogRolesForPrincipalRole)"
  "mgmt_ParseAssignCatalogRoleToPrincipalRoleWrapper L = decode_documented L (opResponses mgmt_doc_assignCatalogRoleToPrincipalRole)"
  "mgmt_ParseRevokeCatalogRoleFromPrincipalRoleWrapper L = decode_documented L (opResponses mgmt_doc_revokeCatalogRoleFromPrincipalRole)"
  "mgmt_ParseListCatalogRolesWrapper L = decode_documented L (opResponses mgmt_doc_listCatalogRoles)"
  "mgmt_ParseCreateCatalogRoleWrapper L = decode_documented L (opResponses mgmt_doc_createCatalogRole)"
  "mgmt_ParseGetCatalogRoleWrapper L = decode_documented L (opResponses mgmt_doc_getCatalogRole)"
  "mgmt_ParseUpdateCatalogRoleWrapper L = decode_documented L (opResponses mgmt_doc_updateCatalogRole)"
  "mgmt_ParseDeleteCatalogRoleWrapper L = decode_documented L (opResponses mgmt_doc_deleteCatalogRole)"
  "mgmt_ParseListAssigneePrincipalRolesForCatalogRoleWrapper L = decode_documented L (opResponses mgmt_doc_listAssigneePrincipalRolesForCatalogRole)"
  "mgmt_ParseListGrantsForCatalogRoleWrapper L = decode_documented L (opResponses mgmt_doc_listGrantsForCatalogRole)"
  "mgmt_ParseAddGrantToCatalogRoleWrapper L = decode_documented L (opResponses mgmt_doc_addGrantToCatalogRole)"
  "mgmt_ParseRevokeGrantFromCatalogRoleWrapper L = decode_documented L (opResponses mgmt_doc_revokeGrantFromCatalogRole)"
  unfolding mgmt_ParseListCatalogsWrapper_def
      mgmt_ParseCreateCatalogWrapper_def
      mgmt_ParseGetCatalogWrapper_def
      mgmt_ParseUpdateCatalogWrapper_def
      mgmt_ParseDeleteCatalogWrapper_def
      mgmt_ParseListPrincipalsWrapper_def
      mgmt_ParseCreatePrincipalWrapper_def
      mgmt_ParseGetPrincipalWrapper_def
      mgmt_ParseUpdatePrincipalWrapper_def
      mgmt_ParseDeletePrincipalWrapper_def
      mgmt_ParseRotateCredentialsWrapper_def
      mgmt_ParseResetCredentialsWrapper_def
      mgmt_ParseListPrincipalRolesAssignedWrapper_def
      mgmt_ParseAssignPrincipalRoleWrapper_def
      mgmt_ParseRevokePrincipalRoleWrapper_def
      mgmt_ParseListPrincipalRolesWrapper_def
      mgmt_ParseCreatePrincipalRoleWrapper_def
      mgmt_ParseGetPrincipalRoleWrapper_def
      mgmt_ParseUpdatePrincipalRoleWrapper_def
      mgmt_ParseDeletePrincipalRoleWrapper_def
      mgmt_ParseListAssigneePrincipalsForPrincipalRoleWrapper_def
      mgmt_ParseListCatalogRolesForPrincipalRoleWrapper_def
      mgmt_ParseAssignCatalogRoleToPrincipalRoleWrapper_def
      mgmt_ParseRevokeCatalogRoleFromPrincipalRoleWrapper_def
      mgmt_ParseListCatalogRolesWrapper_def
      mgmt_ParseCreateCatalogRoleWrapper_def
      mgmt_ParseGetCatalogRoleWrapper_def
      mgmt_ParseUpdateCatalogRoleWrapper_def
      mgmt_ParseDeleteCatalogRoleWrapper_def
      mgmt_ParseListAssigneePrincipalRolesForCatalogRoleWrapper_def
      mgmt_ParseListGrantsForCatalogRoleWrapper_def
      mgmt_ParseAddGrantToCatalogRoleWrapper_def
      mgmt_ParseRevokeGrantFromCatalogRoleWrapper_def
  by (rule ext, rule parse_documented, simp add: show_status, simp add: undocumented_def mgmt_alias_defs
    mgmt_doc_listCatalogs_def
    mgmt_doc_createCatalog_def
    mgmt_doc_getCatalog_def
    mgmt_doc_updateCatalog_def
    mgmt_doc_deleteCatalog_def
    mgmt_doc_listPrincipals_def
    mgmt_doc_createPrincipal_def
    mgmt_doc_getPrincipal_def
    mgmt_doc_updatePrincipal_def
    mgmt_doc_deletePrincipal_def
    mgmt_doc_rotateCredentials_def
    mgmt_doc_resetCredentials_def
    mgmt_doc_listPrincipalRolesAssigned_def
    mgmt_doc_assignPrincipalRole_def
    mgmt_doc_revokePrincipalRole_def
    mgmt_doc_listPrincipalRoles_def
    mgmt_doc_createPrincipalRole_def
    mgmt_doc_getPrincipalRole_def
    mgmt_doc_updatePrincipalRole_def
    mgmt_doc_deletePrincipalRole_def
    mgmt_doc_listAssigneePrincipalsForPrincipalRole_def
    mgmt_doc_listCatalogRolesForPrincipalRole_def
    mgmt_doc_assignCatalogRoleToPrincipalRole_def
    mgmt_doc_revokeCatalogRoleFromPrincipalRole_def
    mgmt_doc_listCatalogRoles_def
    mgmt_doc_createCatalogRole_def
    mgmt_doc_getCatalogRole_def
    mgmt_doc_updateCatalogRole_def
    mgmt_doc_deleteCatalogRole_def
    mgmt_doc_listAssigneePrincipalRolesForCatalogRole_def
    mgmt_doc_listGrantsForCatalogRole_def
    mgmt_doc_addGrantToCatalogRole_def
    mgmt_doc_revokeGrantFromCatalogRole_def)+

section \<open>The table\<close>

definition mgmt_api ::
  "(api_operation \<times>
    (http_lib \<Rightarrow> string \<Rightarrow> string list \<Rightarrow> wval \<Rightarrow> string \<Rightarrow> string \<Rightarrow> goerr + http_request) \<times>
    (http_lib \<Rightarrow> http_response \<Rightarrow> goerr + http_wrapper) \<times> result_fields) list" where
  "mgmt_api =
     [(mgmt_doc_listCatalogs,
       \<lambda>L server args params ct body. mgmt_NewListCatalogsRequest L server,
       mgmt_ParseListCatalogsWrapper, mgmt_ListCatalogsWrapper),
      (mgmt_doc_createCatalog,
       \<lambda>L server args params ct body. mgmt_NewCreateCatalogRequestWithBody L server ct body,
       mgmt_ParseCreateCatalogWrapper, mgmt_CreateCatalogWrapper),
      (mgmt_doc_getCatalog,
       \<lambda>L server args params ct body. mgmt_NewGetCatalogRequest L server (args ! 0),
       mgmt_ParseGetCatalogWrapper, mgmt_GetCatalogWrapper),
      (mgmt_doc_updateCatalog,
       \<lambda>L server args params ct body. mgmt_NewUpdateCatalogRequestWithBody L server (args ! 0) ct body,
       mgmt_ParseUpdateCatalogWrapper, mgmt_UpdateCatalogWrapper),
      (mgmt_doc_deleteCatalog,
       \<lambda>L server args params ct body. mgmt_NewDeleteCatalogRequest L server (args ! 0),
       mgmt_ParseDeleteCatalogWrapper, mgmt_DeleteCatalogWrapper),
      (mgmt_doc_listPrincipals,
       \<lambda>L server args params ct body. mgmt_NewListPrincipalsRequest L server,
       mgmt_ParseListPrincipalsWrapper, mgmt_ListPrincipalsWrapper),
      (mgmt_doc_createPrincipal,
       \<lambda>L server args params ct body. mgmt_NewCreatePrincipalRequestWithBody L server ct body,
       mgmt_ParseCreatePrincipalWrapper, mgmt_CreatePrincipalWrapper),
      (mgmt_doc_getPrincipal,
       \<lambda>L server args params ct body. mgmt_NewGetPrincipalRequest L server (args ! 0),
       mgmt_ParseGetPrincipalWrapper, mgmt_GetPrincipalWrapper),
      (mgmt_doc_updatePrincipal,
       \<lambda>L server args params ct body. mgmt_NewUpdatePrincipalRequestWithBody L server (args ! 0) ct body,
       mgmt_ParseUpdatePrincipalWrapper, mgmt_UpdatePrincipalWrapper),
      (mgmt_doc_deletePrincipal,
       \<lambda>L server args params ct body. mgmt_NewDeletePrincipalRequest L server (args ! 0),
       mgmt_ParseDeletePrincipalWrapper, mgmt_DeletePrincipalWrapper),
      (mgmt_doc_rotateCredentials,
       \<lambda>L server args params ct body. mgmt_NewRotateCredentialsRequest L server (args ! 0),
       mgmt_ParseRotateCredentialsWrapper, mgmt_RotateCredentialsWrapper),
      (mgmt_doc_resetCredentials,
       \<lambda>L server args params ct body. mgmt_NewResetCredentialsRequestWithBody L server (args ! 0) ct body,
       mgmt_ParseResetCredentialsWrapper, mgmt_ResetCredentialsWrapper),
      (mgmt_doc_listPrincipalRolesAssigned,
       \<lambda>L server args params ct body. mgmt_NewListPrincipalRolesAssignedRequest L server (args ! 0),
       mgmt_ParseListPrincipalRolesAssignedWrapper, mgmt_ListPrincipalRolesAssignedWrapper),
      (mgmt_doc_assignPrincipalRole,
       \<lambda>L server args params ct body. mgmt_NewAssignPrincipalRoleRequestWithBody L server (args ! 0) ct body,
       mgmt_ParseAssignPrincipalRoleWrapper, mgmt_AssignPrincipalRoleWrapper),
      (mgmt_doc_revokePrincipalRole,
       \<lambda>L server args params ct body. mgmt_NewRevokePrincipalRoleRequest L server (args ! 0) (args ! 1),
       mgmt_ParseRevokePrincipalRoleWrapper, mgmt_RevokePrincipalRoleWrapper),
      (mgmt_doc_listPrincipalRoles,
       \<lambda>L server args params ct body. mgmt_NewListPrincipalRolesRequest L server,
       mgmt_ParseListPrincipalRolesWrapper, mgmt_ListPrincipalRolesWrapper),
      (mgmt_doc_createPrincipalRole,
       \<lambda>L server args params ct body. mgmt_NewCreatePrincipalRoleRequestWithBody L server ct body,
       mgmt_ParseCreatePrincipalRoleWrapper, mgmt_CreatePrincipalRoleWrapper),
      (mgmt_doc_getPrincipalRole,
       \<lambda>L server args params ct body. mgmt_NewGetPrincipalRoleRequest L server (args ! 0),
       mgmt_ParseGetPrincipalRoleWrapper, mgmt_GetPrincipalRoleWrapper),
      (mgmt_doc_updatePrincipalRole,
       \<lambda>L server args params ct body. mgmt_NewUpdatePrincipalRoleRequestWithBody L server (args ! 0) ct body,
       mgmt_ParseUpdatePrincipalRoleWrapper, mgmt_UpdatePrincipalRoleWrapper),
      (mgmt_doc_deletePrincipalRole,
       \<lambda>L server args params ct body. mgmt_NewDeletePrincipalRoleRequest L server (args ! 0),
       mgmt_ParseDeletePrincipalRoleWrapper, mgmt_DeletePrincipalRoleWrapper),
      (mgmt_doc_listAssigneePrincipalsForPrincipalRole,
       \<lambda>L server args params ct body. mgmt_NewListAssigneePrincipalsForPrincipalRoleRequest L server (args ! 0),
       mgmt_ParseListAssigneePrincipalsForPrincipalRoleWrapper, mgmt_ListAssigneePrincipalsForPrincipalRoleWrapper),
      (mgmt_doc_listCatalogRolesForPrincipalRole,
       \<lambda>L server args params ct body. mgmt_NewListCatalogRolesForPrincipalRoleRequest L server (args ! 0) (args ! 1),
       mgmt_ParseListCatalogRolesForPrincipalRoleWrapper, mgmt_ListCatalogRolesForPrincipalRoleWrapper),
      (mgmt_doc_assignCatalogRoleToPrincipalRole,
       \<lambda>L server args params ct body. mgmt_NewAssignCatalogRoleToPrincipalRoleRequestWithBody L server (args ! 0) (args ! 1) ct body,
       mgmt_ParseAssignCatalogRoleToPrincipalRoleWrapper, mgmt_AssignCatalogRoleToPrincipalRoleWrapper),
      (mgmt_doc_revokeCatalogRoleFromPrincipalRole,
       \<lambda>L server args params ct body. mgmt_NewRevokeCatalogRoleFromPrincipalRoleRequest L server (args ! 0) (args ! 1) (args ! 2),
       mgmt_ParseRevokeCatalogRoleFromPrincipalRoleWrapper, mgmt_RevokeCatalogRoleFromPrincipalRoleWrapper),
      (mgmt_doc_listCatalogRoles,
       \<lambda>L server args params ct body. mgmt_NewListCatalogRolesRequest L server (args ! 0),
       mgmt_ParseListCatalogRolesWrapper, mgmt_ListCatalogRolesWrapper),
      (mgmt_doc_createCatalogRole,
       \<lambda>L server args params ct body. mgmt_NewCreateCatalogRoleRequestWithBody L server (args ! 0) ct body,
       mgmt_ParseCreateCatalogRoleWrapper, mgmt_CreateCatalogRoleWrapper),
      (mgmt_doc_getCatalogRole,
       \<lambda>L server args params ct body. mgmt_NewGetCatalogRoleRequest L server (args ! 0) (args ! 1),
       mgmt_ParseGetCatalogRoleWrapper, mgmt_GetCatalogRoleWrapper),
      (mgmt_doc_updateCatalogRole,
       \<lambda>L server args params ct body. mgmt_NewUpdateCatalogRoleRequestWithBody L server (args ! 0) (args ! 1) ct body,
       mgmt_ParseUpdateCatalogRoleWrapper, mgmt_UpdateCatalogRoleWrapper),
      (mgmt_doc_deleteCatalogRole,
       \<lambda>L server args params ct body. mgmt_NewDeleteCatalogRoleRequest L server (args ! 0) (args ! 1),
       mgmt_ParseDeleteCatalogRoleWrapper, mgmt_DeleteCatalogRoleWrapper),
      (mgmt_doc_listAssigneePrincipalRolesForCatalogRole,
       \<lambda>L server args params ct body. mgmt_NewListAssigneePrincipalRolesForCatalogRoleRequest L server (args ! 0) (args ! 1),
       mgmt_ParseListAssigneePrincipalRolesForCatalogRoleWrapper, mgmt_ListAssigneePrincipalRolesForCatalogRoleWrapper),
      (mgmt_doc_listGrantsForCatalogRole,
       \<lambda>L server args params ct body. mgmt_NewListGrantsForCatalogRoleRequest L server (args ! 0) (args ! 1),
       mgmt_ParseListGrantsForCatalogRoleWrapper, mgmt_ListGrantsForCatalogRoleWrapper),
      (mgmt_doc_addGrantToCatalogRole,
       \<lambda>L server args params ct body. mgmt_NewAddGrantToCatalogRoleRequestWithBody L server (args ! 0) (args ! 1) ct body,
       mgmt_ParseAddGrantToCatalogRoleWrapper, mgmt_AddGrantToCatalogRoleWrapper),
      (mgmt_doc_revokeGrantFromCatalogRole,
       \<lambda>L server args params ct body. mgmt_NewRevokeGrantFromCatalogRoleRequestWithBody L server (args ! 0) (args ! 1) params ct body,
       mgmt_ParseRevokeGrantFromCatalogRoleWrapper, mgmt_RevokeGrantFromCatalogRoleWrapper)]"

end
