(* ===== verification/Catalog_Requests.thy ===== *)
theory Catalog_Requests
  imports Go_Http Catalog_Types
begin

text \<open>
  The sending half of the generated catalog client: the constructors and options of its
  client, the request of every operation (\<open>cat_New...Request\<close>, with a typed body and with any
  body) and the method of \<open>Client\<close> that sends it (\<open>cat_Client_...\<close>).
\<close>

definition cat_NewClient ::
  "(http_request \<Rightarrow> (goerr + http_response) io) \<Rightarrow> string \<Rightarrow> client_option list \<Rightarrow>
    goerr + http_client" where
  "cat_NewClient dflt server opts = new_client dflt server opts"

definition cat_NewClientWithResponses ::
  "(http_request \<Rightarrow> (goerr + http_response) io) \<Rightarrow> string \<Rightarrow> client_option list \<Rightarrow>
    goerr + http_client" where
  "cat_NewClientWithResponses dflt server opts = cat_NewClient dflt server opts"

definition cat_WithHTTPClient :: "(http_request \<Rightarrow> (goerr + http_response) io) \<Rightarrow> client_option" where
  "cat_WithHTTPClient doer = with_http_client doer"

definition cat_WithRequestEditorFn :: "editor \<Rightarrow> client_option" where
  "cat_WithRequestEditorFn fn = with_request_editor_fn fn"

definition cat_WithBaseURL :: "http_lib \<Rightarrow> string \<Rightarrow> client_option" where
  "cat_WithBaseURL L baseURL = with_base_url L baseURL"

definition cat_applyEditors ::
  "http_client \<Rightarrow> http_request \<Rightarrow> editor list \<Rightarrow> (goerr + http_request) io" where
  "cat_applyEditors c req additionalEditors = apply_editors c req additionalEditors"

definition cat_NewGetApplicablePoliciesRequest ::
  "http_lib \<Rightarrow> string \<Rightarrow> string \<Rightarrow> wval \<Rightarrow> goerr + http_request" where
  "cat_NewGetApplicablePoliciesRequest L server prefix params =
     sum_bind (path_param L ''prefix'' prefix) (\<lambda>pathParam0.
     new_request L server (''/polaris/v1/'' @ pathParam0 @ ''/applicable-policies'') (query_params L params
          [(''PageToken'', ''pageToken'', ''string''),
           (''PageSize'', ''pageSize'', ''integer''),
           (''Namespace'', ''namespace'', ''string''),
           (''TargetName'', ''target-name'', ''string''),
           (''PolicyType'', ''policyType'', ''string'')]) ''GET'' None)"

definition cat_NewListPoliciesRequest ::
  "http_lib \<Rightarrow> string \<Rightarrow> string \<Rightarrow> string \<Rightarrow> wval \<Rightarrow> goerr + http_request" where
  "cat_NewListPoliciesRequest L server prefix namespace params =
     sum_bind (path_param L ''prefix'' prefix) (\<lambda>pathParam0.
     sum_bind (path_param L ''namespace'' namespace) (\<lambda>pathParam1.
     new_request L server (''/polaris/v1/'' @ pathParam0 @ ''/namespaces/'' @ pathParam1 @ ''/policies'') (query_params L params
          [(''PageToken'', ''pageToken'', ''string''),
           (''PageSize'', ''pageSize'', ''integer''),
           (''PolicyType'', ''policyType'', ''string'')]) ''GET'' None))"

definition cat_NewCreatePolicyRequestWithBody ::
  "http_lib \<Rightarrow> string \<Rightarrow> string \<Rightarrow> string \<Rightarrow> string \<Rightarrow> string \<Rightarrow> goerr + http_request" where
  "cat_NewCreatePolicyRequestWithBody L server prefix namespace contentType body =
     sum_bind (path_param L ''prefix'' prefix) (\<lambda>pathParam0.
     sum_bind (path_param L ''namespace'' namespace) (\<lambda>pathParam1.
     sum_bind (new_request L server (''/polaris/v1/'' @ pathParam0 @ ''/namespaces/'' @ pathParam1 @ ''/policies'') Inr ''POST'' (Some body)) (content_type contentType)))"

definition cat_NewCreatePolicyRequest ::
  "http_lib \<Rightarrow> string \<Rightarrow> string \<Rightarrow> string \<Rightarrow> wval \<Rightarrow> goerr + http_request" where
  "cat_NewCreatePolicyRequest L server prefix namespace body =
     sum_bind (json_Marshal L cat_CreatePolicyJSONRequestBody body) (\<lambda>buf.
       cat_NewCreatePolicyRequestWithBody L server prefix namespace ''application/json'' buf)"

definition cat_NewDropPolicyRequest ::
  "http_lib \<Rightarrow> string \<Rightarrow> string \<Rightarrow> string \<Rightarrow> string \<Rightarrow> wval \<Rightarrow> goerr + http_request" where
  "cat_NewDropPolicyRequest L server prefix namespace policyName params =
     sum_bind (path_param L ''prefix'' prefix) (\<lambda>pathParam0.
     sum_bind (path_param L ''namespace'' namespace) (\<lambda>pathParam1.
     sum_bind (path_param L ''policy-name'' policyName) (\<lambda>pathParam2.
     new_request L server (''/polaris/v1/'' @ pathParam0 @ ''/namespaces/'' @ pathParam1 @ ''/policies/'' @ pathParam2) (query_params L params
          [(''DetachAll'', ''detach-all'', ''boolean'')]) ''DELETE'' None)))"

definition cat_NewLoadPolicyRequest ::
  "http_lib \<Rightarrow> string \<Rightarrow> string \<Rightarrow> string \<Rightarrow> string \<Rightarrow> goerr + http_request" where
  "cat_NewLoadPolicyRequest L server prefix namespace policyName =
     sum_bind (path_param L ''prefix'' prefix) (\<lambda>pathParam0.
     sum_bind (path_param L ''namespace'' namespace) (\<lambda>pathParam1.
     sum_bind (path_param L ''policy-name'' policyName) (\<lambda>pathParam2.
     new_request L server (''/polaris/v1/'' @ pathParam0 @ ''/namespaces/'' @ pathParam1 @ ''/policies/'' @ pathParam2) Inr ''GET'' None)))"

definition cat_NewUpdatePolicyRequestWithBody ::
  "http_lib \<Rightarrow> string \<Rightarrow> string \<Rightarrow> string \<Rightarrow> string \<Rightarrow> string \<Rightarrow> string \<Rightarrow> goerr + http_request" where
  "cat_NewUpdatePolicyRequestWithBody L server prefix namespace policyName contentType body =
     sum_bind (path_param L ''prefix'' prefix) (\<lambda>pathParam0.
     sum_bind (path_param L ''namespace'' namespace) (\<lambda>pathParam1.
     sum_bind (path_param L ''policy-name'' policyName) (\<lambda>pathParam2.
     sum_bind (new_request L server (''/polaris/v1/'' @ pathParam0 @ ''/namespaces/'' @ pathParam1 @ ''/policies/'' @ pathParam2) Inr ''PUT'' (Some body)) (content_type contentType))))"

definition cat_NewUpdatePolicyRequest ::
  "http_lib \<Rightarrow> string \<Rightarrow> string \<Rightarrow> string \<Rightarrow> string \<Rightarrow> wval \<Rightarrow> goerr + http_request" where
  "cat_NewUpdatePolicyRequest L server prefix namespace policyName body =
     sum_bind (json_Marshal L cat_UpdatePolicyJSONRequestBody body) (\<lambda>buf.
       cat_NewUpdatePolicyRequestWithBody L server prefix namespace policyName ''application/json'' buf)"

definition cat_NewDetachPolicyRequestWithBody ::
  "http_lib \<Rightarrow> string \<Rightarrow> string \<Rightarrow> string \<Rightarrow> string \<Rightarrow> string \<Rightarrow> string \<Rightarrow> goerr + http_request" where
  "cat_NewDetachPolicyRequestWithBody L server prefix namespace policyName contentType body =
     sum_bind (path_param L ''prefix'' prefix) (\<lambda>pathParam0.
     sum_bind (path_param L ''namespace'' namespace) (\<lambda>pathParam1.
     sum_bind (path_param L ''policy-name'' policyName) (\<lambda>pathParam2.
     sum_bind (new_request L server (''/polaris/v1/'' @ pathParam0 @ ''/namespaces/'' @ pathParam1 @ ''/policies/'' @ pathParam2 @ ''/mappings'') Inr ''POST'' (Some body)) (content_type contentType))))"

definition cat_NewDetachPolicyRequest ::
  "http_lib \<Rightarrow> string \<Rightarrow> string \<Rightarrow> string \<Rightarrow> string \<Rightarrow> wval \<Rightarrow> goerr + http_request" where
  "cat_NewDetachPolicyRequest L server prefix namespace policyName body =
     sum_bind (json_Marshal L cat_DetachPolicyJSONRequestBody body) (\<lambda>buf.
       cat_NewDetachPolicyRequestWithBody L server prefix namespace policyName ''application/json'' buf)"

definition cat_NewAttachPolicyRequestWithBody ::
  "http_lib \<Rightarrow> string \<Rightarrow> string \<Rightarrow> string \<Rightarrow> string \<Rightarrow> string \<Rightarrow> string \<Rightarrow> goerr + http_request" where
  "cat_NewAttachPolicyRequestWithBody L server prefix namespace policyName contentType body =
     sum_bind (path_param L ''prefix'' prefix) (\<lambda>pathParam0.
     sum_bind (path_param L ''namespace'' namespace) (\<lambda>pathParam1.
     sum_bind (path_param L ''policy-name'' policyName) (\<lambda>pathParam2.
     sum_bind (new_request L server (''/polaris/v1/'' @ pathParam0 @ ''/namespaces/'' @ pathParam1 @ ''/policies/'' @ pathParam2 @ ''/mappings'') Inr ''PUT'' (Some body)) (content_type contentType))))"

definition cat_NewAttachPolicyRequest ::
  "http_lib \<Rightarrow> string \<Rightarrow> string \<Rightarrow> string \<Rightarrow> string \<Rightarrow> wval \<Rightarrow> goerr + http_request" where
  "cat_NewAttachPolicyRequest L server prefix namespace policyName body =
     sum_bind (json_Marshal L cat_AttachPolicyJSONRequestBody body) (\<lambda>buf.
       cat_NewAttachPolicyRequestWithBody L server prefix namespace policyName ''application/json'' buf)"

definition cat_NewGetConfigRequest ::
  "http_lib \<Rightarrow> string \<Rightarrow> wval \<Rightarrow> goerr + http_request" where
  "cat_NewGetConfigRequest L server params =
     new_request L server ''/v1/config'' (query_params L params
          [(''Warehouse'', ''warehouse'', ''string'')]) ''GET'' None"

definition cat_NewGetTokenRequestWithBody ::
  "http_lib \<Rightarrow> string \<Rightarrow> wval \<Rightarrow> string \<Rightarrow> string \<Rightarrow> goerr + http_request" where
  "cat_NewGetTokenRequestWithBody L server params contentType body =
     sum_bind (new_request L server ''/v1/oauth/tokens'' Inr ''POST'' (Some body)) (\<lambda>req.
     sum_bind (content_type contentType req) (header_param L params ''Authorization'' ''Authorization''))"

definition cat_NewGetTokenRequestWithFormdataBody ::
  "http_lib \<Rightarrow> string \<Rightarrow> wval \<Rightarrow> wval \<Rightarrow> goerr + http_request" where
  "cat_NewGetTokenRequestWithFormdataBody L server params body =
     sum_bind (MarshalForm L body) (\<lambda>buf.
       cat_NewGetTokenRequestWithBody L server params ''application/x-www-form-urlencoded'' buf)"

definition cat_NewListNamespacesRequest ::
  "http_lib \<Rightarrow> string \<Rightarrow> string \<Rightarrow> wval \<Rightarrow> goerr + http_request" where
  "cat_NewListNamespacesRequest L server prefix params =
     sum_bind (path_param L ''prefix'' prefix) (\<lambda>pathParam0.
     new_request L server (''/v1/'' @ pathParam0 @ ''/namespaces'') (query_params L params
          [(''PageToken'', ''pageToken'', ''string''),
           (''PageSize'', ''pageSize'', ''integer''),
           (''Parent'', ''parent'', ''string'')]) ''GET'' None)"

definition cat_NewCreateNamespaceRequestWithBody ::
  "http_lib \<Rightarrow> string \<Rightarrow> string \<Rightarrow> string \<Rightarrow> string \<Rightarrow> goerr + http_request" where
  "cat_NewCreateNamespaceRequestWithBody L server prefix contentType body =
     sum_bind (path_param L ''prefix'' prefix) (\<lambda>pathParam0.
     sum_bind (new_request L server (''/v1/'' @ pathParam0 @ ''/namespaces'') Inr ''POST'' (Some body)) (content_type contentType))"

definition cat_NewCreateNamespaceRequest ::
  "http_lib \<Rightarrow> string \<Rightarrow> string \<Rightarrow> wval \<Rightarrow> goerr + http_request" where
  "cat_NewCreateNamespaceRequest L server prefix body =
     sum_bind (json_Marshal L cat_CreateNamespaceJSONRequestBody body) (\<lambda>buf.
       cat_NewCreateNamespaceRequestWithBody L server prefix ''application/json'' buf)"

definition cat_NewDropNamespaceRequest ::
  "http_lib \<Rightarrow> string \<Rightarrow> string \<Rightarrow> string \<Rightarrow> goerr + http_request" where
  "cat_NewDropNamespaceRequest L server prefix namespace =
     sum_bind (path_param L ''prefix'' prefix) (\<lambda>pathParam0.
     sum_bind (path_param L ''namespace'' namespace) (\<lambda>pathParam1.
     new_request L server (''/v1/'' @ pathParam0 @ ''/namespaces/'' @ pathParam1) Inr ''DELETE'' None))"

definition cat_NewLoadNamespaceMetadataRequest ::
  "http_lib \<Rightarrow> string \<Rightarrow> string \<Rightarrow> string \<Rightarrow> goerr + http_request" where
  "cat_NewLoadNamespaceMetadataRequest L server prefix namespace =
     sum_bind (path_param L ''prefix'' prefix) (\<lambda>pathParam0.
     sum_bind (path_param L ''namespace'' namespace) (\<lambda>pathParam1.
     new_request L server (''/v1/'' @ pathParam0 @ ''/namespaces/'' @ pathParam1) Inr ''GET'' None))"

definition cat_NewNamespaceExistsRequest ::
  "http_lib \<Rightarrow> string \<Rightarrow> string \<Rightarrow> string \<Rightarrow> goerr + http_request" where
  "cat_NewNamespaceExistsRequest L server prefix namespace =
     sum_bind (path_param L ''prefix'' prefix) (\<lambda>pathParam0.
     sum_bind (path_param L ''namespace'' namespace) (\<lambda>pathParam1.
     new_request L server (''/v1/'' @ pathParam0 @ ''/namespaces/'' @ pathParam1) Inr ''HEAD'' None))"

definition cat_NewUpdatePropertiesRequestWithBody ::
  "http_lib \<Rightarrow> string \<Rightarrow> string \<Rightarrow> string \<Rightarrow> string \<Rightarrow> string \<Rightarrow> goerr + http_request" where
  "cat_NewUpdatePropertiesRequestWithBody L server prefix namespace contentType body =
     sum_bind (path_param L ''prefix'' prefix) (\<lambda>pathParam0.
     sum_bind (path_param L ''namespace'' namespace) (\<lambda>pathParam1.
     sum_bind (new_request L server (''/v1/'' @ pathParam0 @ ''/namespaces/'' @ pathParam1 @ ''/properties'') Inr ''POST'' (Some body)) (content_type contentType)))"

definition cat_NewUpdatePropertiesRequest ::
  "http_lib \<Rightarrow> string \<Rightarrow> string \<Rightarrow> string \<Rightarrow> wval \<Rightarrow> goerr + http_request" where
  "cat_NewUpdatePropertiesRequest L server prefix namespace body =
     sum_bind (json_Marshal L cat_UpdatePropertiesJSONRequestBody body) (\<lambda>buf.
       cat_NewUpdatePropertiesRequestWithBody L server prefix namespace ''application/json'' buf)"

definition cat_NewRegisterTableRequestWithBody ::
  "http_lib \<Rightarrow> string \<Rightarrow> string \<Rightarrow> string \<Rightarrow> string \<Rightarrow> string \<Rightarrow> goerr + http_request" where
  "cat_NewRegisterTableRequestWithBody L server prefix namespace contentType body =
     sum_bind (path_param L ''prefix'' prefix) (\<lambda>pathParam0.
     sum_bind (path_param L ''namespace'' namespace) (\<lambda>pathParam1.
     sum_bind (new_request L server (''/v1/'' @ pathParam0 @ ''/namespaces/'' @ pathParam1 @ ''/register'') Inr ''POST'' (Some body)) (content_type contentType)))"

definition cat_NewRegisterTableRequest ::
  "http_lib \<Rightarrow> string \<Rightarrow> string \<Rightarrow> string \<Rightarrow> wval \<Rightarrow> goerr + http_request" where
  "cat_NewRegisterTableRequest L server prefix namespace body =
     sum_bind (json_Marshal L cat_RegisterTableJSONRequestBody body) (\<lambda>buf.
       cat_NewRegisterTableRequestWithBody L server prefix namespace ''application/json'' buf)"

definition cat_NewListTablesRequest ::
  "http_lib \<Rightarrow> string \<Rightarrow> string \<Rightarrow> string \<Rightarrow> wval \<Rightarrow> goerr + http_request" where
  "cat_NewListTablesRequest L server prefix namespace params =
     sum_bind (path_param L ''prefix'' prefix) (\<lambda>pathParam0.
     sum_bind (path_param L ''namespace'' namespace) (\<lambda>pathParam1.
     new_request L server (''/v1/'' @ pathParam0 @ ''/namespaces/'' @ pathParam1 @ ''/tables'') (query_params L params
          [(''PageToken'', ''pageToken'', ''string''),
           (''PageSize'', ''pageSize'', ''integer'')]) ''GET'' None))"

definition cat_NewCreateTableRequestWithBody ::
  "http_lib \<Rightarrow> string \<Rightarrow> string \<Rightarrow> string \<Rightarrow> wval \<Rightarrow> string \<Rightarrow> string \<Rightarrow> goerr + http_request" where
  "cat_NewCreateTableRequestWithBody L server prefix namespace params contentType body =
     sum_bind (path_param L ''prefix'' prefix) (\<lambda>pathParam0.
     sum_bind (path_param L ''namespace'' namespace) (\<lambda>pathParam1.
     sum_bind (new_request L server (''/v1/'' @ pathParam0 @ ''/namespaces/'' @ pathParam1 @ ''/tables'') Inr ''POST'' (Some body)) (\<lambda>req.
     sum_bind (content_type contentType req) (header_param L params ''XIcebergAccessDelegation'' ''X-Iceberg-Access-Delegation''))))"

definition cat_NewCreateTableRequest ::
  "http_lib \<Rightarrow> string \<Rightarrow> string \<Rightarrow> string \<Rightarrow> wval \<Rightarrow> wval \<Rightarrow> goerr + http_request" where
  "cat_NewCreateTableRequest L server prefix namespace params body =
     sum_bind (json_Marshal L cat_CreateTableJSONRequestBody body) (\<lambda>buf.
       cat_NewCreateTableRequestWithBody L server prefix namespace params ''application/json'' buf)"

definition cat_NewDropTableRequest ::
  "http_lib \<Rightarrow> string \<Rightarrow> string \<Rightarrow> string \<Rightarrow> string \<Rightarrow> wval \<Rightarrow> goerr + http_request" where
  "cat_NewDropTableRequest L server prefix namespace table params =
     sum_bind (path_param L ''prefix'' prefix) (\<lambda>pathParam0.
     sum_bind (path_param L ''namespace'' namespace) (\<lambda>pathParam1.
     sum_bind (path_param L ''table'' table) (\<lambda>pathParam2.
     new_request L server (''/v1/'' @ pathParam0 @ ''/namespaces/'' @ pathParam1 @ ''/tables/'' @ pathParam2) (query_params L params
          [(''PurgeRequested'', ''purgeRequested'', ''boolean'')]) ''DELETE'' None)))"

definition cat_NewLoadTableRequest ::
  "http_lib \<Rightarrow> string \<Rightarrow> string \<Rightarrow> string \<Rightarrow> string \<Rightarrow> wval \<Rightarrow> goerr + http_request" where
  "cat_NewLoadTableRequest L server prefix namespace table params =
     sum_bind (path_param L ''prefix'' prefix) (\<lambda>pathParam0.
     sum_bind (path_param L ''namespace'' namespace) (\<lambda>pathParam1.
     sum_bind (path_param L ''table'' table) (\<lambda>pathParam2.
     sum_bind (new_request L server (''/v1/'' @ pathParam0 @ ''/namespaces/'' @ pathParam1 @ ''/tables/'' @ pathParam2) (query_params L params
          [(''Snapshots'', ''snapshots'', ''string'')]) ''GET'' None) (\<lambda>req.
     sum_bind (header_param L params ''XIcebergAccessDelegation'' ''X-Iceberg-Access-Delegation'' req) (header_param L params ''IfNoneMatch'' ''If-None-Match'')))))"

definition cat_NewTableExistsRequest ::
  "http_lib \<Rightarrow> string \<Rightarrow> string \<Rightarrow> string \<Rightarrow> string \<Rightarrow> goerr + http_request" where
  "cat_NewTableExistsRequest L server prefix namespace table =
     sum_bind (path_param L ''prefix'' prefix) (\<lambda>pathParam0.
     sum_bind (path_param L ''namespace'' namespace) (\<lambda>pathParam1.
     sum_bind (path_param L ''table'' table) (\<lambda>pathParam2.
     new_request L server (''/v1/'' @ pathParam0 @ ''/namespaces/'' @ pathParam1 @ ''/tables/'' @ pathParam2) Inr ''HEAD'' None)))"

definition cat_NewUpdateTableRequestWithBody ::
  "http_lib \<Rightarrow> string \<Rightarrow> string \<Rightarrow> string \<Rightarrow> string \<Rightarrow> string \<Rightarrow> string \<Rightarrow> goerr + http_request" where
  "cat_NewUpdateTableRequestWithBody L server prefix namespace table contentType body =
     sum_bind (path_param L ''prefix'' prefix) (\<lambda>pathParam0.
     sum_bind (path_param L ''namespace'' namespace) (\<lambda>pathParam1.
     sum_bind (path_param L ''table'' table) (\<lambda>pathParam2.
     sum_bind (new_request L server (''/v1/'' @ pathParam0 @ ''/namespaces/'' @ pathParam1 @ ''/tables/'' @ pathParam2) Inr ''POST'' (Some body)) (content_type contentType))))"

definition cat_NewUpdateTableRequest ::
  "http_lib \<Rightarrow> string \<Rightarrow> string \<Rightarrow> string \<Rightarrow> string \<Rightarrow> wval \<Rightarrow> goerr + http_request" where
  "cat_NewUpdateTableRequest L server prefix namespace table body =
     sum_bind (json_Marshal L cat_UpdateTableJSONRequestBody body) (\<lambda>buf.
       cat_NewUpdateTableRequestWithBody L server prefix namespace table ''application/json'' buf)"

definition cat_NewLoadCredentialsRequest ::
  "http_lib \<Rightarrow> string \<Rightarrow> string \<Rightarrow> string \<Rightarrow> string \<Rightarrow> goerr + http_request" where
  "cat_NewLoadCredentialsRequest L server prefix namespace table =
     sum_bind (path_param L ''prefix'' prefix) (\<lambda>pathParam0.
     sum_bind (path_param L ''namespace'' namespace) (\<lambda>pathParam1.
     sum_bind (path_param L ''table'' table) (\<lambda>pathParam2.
     new_request L server (''/v1/'' @ pathParam0 @ ''/namespaces/'' @ pathParam1 @ ''/tables/'' @ pathParam2 @ ''/credentials'') Inr ''GET'' None)))"

definition cat_NewReportMetricsRequestWithBody ::
  "http_lib \<Rightarrow> string \<Rightarrow> string \<Rightarrow> string \<Rightarrow> string \<Rightarrow> string \<Rightarrow> string \<Rightarrow> goerr + http_request" where
  "cat_NewReportMetricsRequestWithBody L server prefix namespace table contentType body =
     sum_bind (path_param L ''prefix'' prefix) (\<lambda>pathParam0.
     sum_bind (path_param L ''namespace'' namespace) (\<lambda>pathParam1.
     sum_bind (path_param L ''table'' table) (\<lambda>pathParam2.
     sum_bind (new_request L server (''/v1/'' @ pathParam0 @ ''/namespaces/'' @ pathParam1 @ ''/tables/'' @ pathParam2 @ ''/metrics'') Inr ''POST'' (Some body)) (content_type contentType))))"

definition cat_NewReportMetricsRequest ::
  "http_lib \<Rightarrow> string \<Rightarrow> string \<Rightarrow> string \<Rightarrow> string \<Rightarrow> wval \<Rightarrow> goerr + http_request" where
  "cat_NewReportMetricsRequest L server prefix namespace table body =
     sum_bind (json_Marshal L cat_ReportMetricsJSONRequestBody body) (\<lambda>buf.
       cat_NewReportMetricsRequestWithBody L server prefix namespace table ''application/json'' buf)"

definition cat_NewSendNotificationRequestWithBody ::
  "http_lib \<Rightarrow> string \<Rightarrow> string \<Rightarrow> string \<Rightarrow> string \<Rightarrow> string \<Rightarrow> string \<Rightarrow> goerr + http_request" where
  "cat_NewSendNotificationRequestWithBody L server prefix namespace table contentType body =
     sum_bind (path_param L ''prefix'' prefix) (\<lambda>pathParam0.
     sum_bind (path_param L ''namespace'' namespace) (\<lambda>pathParam1.
     sum_bind (path_param L ''table'' table) (\<lambda>pathParam2.
     sum_bind (new_request L server (''/v1/'' @ pathParam0 @ ''/namespaces/'' @ pathParam1 @ ''/tables/'' @ pathParam2 @ ''/notifications'') Inr ''POST'' (Some body)) (content_type contentType))))"

definition cat_NewSendNotificationRequest ::
  "http_lib \<Rightarrow> string \<Rightarrow> string \<Rightarrow> string \<Rightarrow> string \<Rightarrow> wval \<Rightarrow> goerr + http_request" where
  "cat_NewSendNotificationRequest L server prefix namespace table body =
     sum_bind (json_Marshal L cat_SendNotificationJSONRequestBody body) (\<lambda>buf.
       cat_NewSendNotificationRequestWithBody L server prefix namespace table ''application/json'' buf)"

definition cat_NewListViewsRequest ::
  "http_lib \<Rightarrow> string \<Rightarrow> string \<Rightarrow> string \<Rightarrow> wval \<Rightarrow> goerr + http_request" where
  "cat_NewListViewsRequest L server prefix namespace params =
     sum_bind (path_param L ''prefix'' prefix) (\<lambda>pathParam0.
     sum_bind (path_param L ''namespace'' namespace) (\<lambda>pathParam1.
     new_request L server (''/v1/'' @ pathParam0 @ ''/namespaces/'' @ pathParam1 @ ''/views'') (query_params L params
          [(''PageToken'', ''pageToken'', ''string''),
           (''PageSize'', ''pageSize'', ''integer'')]) ''GET'' None))"

definition cat_NewCreateViewRequestWithBody ::
  "http_lib \<Rightarrow> string \<Rightarrow> string \<Rightarrow> string \<Rightarrow> string \<Rightarrow> string \<Rightarrow> goerr + http_request" where
  "cat_NewCreateViewRequestWithBody L server prefix namespace contentType body =
     sum_bind (path_param L ''prefix'' prefix) (\<lambda>pathParam0.
     sum_bind (path_param L ''namespace'' namespace) (\<lambda>pathParam1.
     sum_bind (new_request L server (''/v1/'' @ pathParam0 @ ''/namespaces/'' @ pathParam1 @ ''/views'') Inr ''POST'' (Some body)) (content_type contentType)))"

definition cat_NewCreateViewRequest ::
  "http_lib \<Rightarrow> string \<Rightarrow> string \<Rightarrow> string \<Rightarrow> wval \<Rightarrow> goerr + http_request" where
  "cat_NewCreateViewRequest L server prefix namespace body =
     sum_bind (json_Marshal L cat_CreateViewJSONRequestBody body) (\<lambda>buf.
       cat_NewCreateViewRequestWithBody L server prefix namespace ''application/json'' buf)"

definition cat_NewDropViewRequest ::
  "http_lib \<Rightarrow> string \<Rightarrow> string \<Rightarrow> string \<Rightarrow> string \<Rightarrow> goerr + http_request" where
  "cat_NewDropViewRequest L server prefix namespace view =
     sum_bind (path_param L ''prefix'' prefix) (\<lambda>pathParam0.
     sum_bind (path_param L ''namespace'' namespace) (\<lambda>pathParam1.
     sum_bind (path_param L ''view'' view) (\<lambda>pathParam2.
     new_request L server (''/v1/'' @ pathParam0 @ ''/namespaces/'' @ pathParam1 @ ''/views/'' @ pathParam2) Inr ''DELETE'' None)))"

definition cat_NewLoadViewRequest ::
  "http_lib \<Rightarrow> string \<Rightarrow> string \<Rightarrow> string \<Rightarrow> string \<Rightarrow> goerr + http_request" where
  "cat_NewLoadViewRequest L server prefix namespace view =
     sum_bind (path_param L ''prefix'' prefix) (\<lambda>pathParam0.
     sum_bind (path_param L ''namespace'' namespace) (\<lambda>pathParam1.
     sum_bind (path_param L ''view'' view) (\<lambda>pathParam2.
     new_request L server (''/v1/'' @ pathParam0 @ ''/namespaces/'' @ pathParam1 @ ''/views/'' @ pathParam2) Inr ''GET'' None)))"

definition cat_NewViewExistsRequest ::
  "http_lib \<Rightarrow> string \<Rightarrow> string \<Rightarrow> string \<Rightarrow> string \<Rightarrow> goerr + http_request" where
  "cat_NewViewExistsRequest L server prefix namespace view =
     sum_bind (path_param L ''prefix'' prefix) (\<lambda>pathParam0.
     sum_bind (path_param L ''namespace'' namespace) (\<lambda>pathParam1.
     sum_bind (path_param L ''view'' view) (\<lambda>pathParam2.
     new_request L server (''/v1/'' @ pathParam0 @ ''/namespaces/'' @ pathParam1 @ ''/views/'' @ pathParam2) Inr ''HEAD'' None)))"

definition cat_NewReplaceViewRequestWithBody ::
  "http_lib \<Rightarrow> string \<Rightarrow> string \<Rightarrow> string \<Rightarrow> string \<Rightarrow> string \<Rightarrow> string \<Rightarrow> goerr + http_request" where
  "cat_NewReplaceViewRequestWithBody L server prefix namespace view contentType body =
     sum_bind (path_param L ''prefix'' prefix) (\<lambda>pathParam0.
     sum_bind (path_param L ''namespace'' namespace) (\<lambda>pathParam1.
     sum_bind (path_param L ''view'' view) (\<lambda>pathParam2.
     sum_bind (new_request L server (''/v1/'' @ pathParam0 @ ''/namespaces/'' @ pathParam1 @ ''/views/'' @ pathParam2) Inr ''POST'' (Some body)) (content_type contentType))))"

definition cat_NewReplaceViewRequest ::
  "http_lib \<Rightarrow> string \<Rightarrow> string \<Rightarrow> string \<Rightarrow> string \<Rightarrow> wval \<Rightarrow> goerr + http_request" where
  "cat_NewReplaceViewRequest L server prefix namespace view body =
     sum_bind (json_Marshal L cat_ReplaceViewJSONRequestBody body) (\<lambda>buf.
       cat_NewReplaceViewRequestWithBody L server prefix namespace view ''application/json'' buf)"

definition cat_NewRenameTableRequestWithBody ::
  "http_lib \<Rightarrow> string \<Rightarrow> string \<Rightarrow> string \<Rightarrow> string \<Rightarrow> goerr + http_request" where
  "cat_NewRenameTableRequestWithBody L server prefix contentType body =
     sum_bind (path_param L ''prefix'' prefix) (\<lambda>pathParam0.
     sum_bind (new_request L server (''/v1/'' @ pathParam0 @ ''/tables/rename'') Inr ''POST'' (Some body)) (content_type contentType))"

definition cat_NewRenameTableRequest ::
  "http_lib \<Rightarrow> string \<Rightarrow> string \<Rightarrow> wval \<Rightarrow> goerr + http_request" where
  "cat_NewRenameTableRequest L server prefix body =
     sum_bind (json_Marshal L cat_RenameTableJSONRequestBody body) (\<lambda>buf.
       cat_NewRenameTableRequestWithBody L server prefix ''application/json'' buf)"

definition cat_NewCommitTransactionRequestWithBody ::
  "http_lib \<Rightarrow> string \<Rightarrow> string \<Rightarrow> string \<Rightarrow> string \<Rightarrow> goerr + http_request" where
  "cat_NewCommitTransactionRequestWithBody L server prefix contentType body =
     sum_bind (path_param L ''prefix'' prefix) (\<lambda>pathParam0.
     sum_bind (new_request L server (''/v1/'' @ pathParam0 @ ''/transactions/commit'') Inr ''POST'' (Some body)) (content_type contentType))"

definition cat_NewCommitTransactionRequest ::
  "http_lib \<Rightarrow> string \<Rightarrow> string \<Rightarrow> wval \<Rightarrow> goerr + http_request" where
  "cat_NewCommitTransactionRequest L server prefix body =
     sum_bind (json_Marshal L cat_CommitTransactionJSONRequestBody body) (\<lambda>buf.
       cat_NewCommitTransactionRequestWithBody L server prefix ''application/json'' buf)"

definition cat_NewRenameViewRequestWithBody ::
  "http_lib \<Rightarrow> string \<Rightarrow> string \<Rightarrow> string \<Rightarrow> string \<Rightarrow> goerr + http_request" where
  "cat_NewRenameViewRequestWithBody L server prefix contentType body =
     sum_bind (path_param L ''prefix'' prefix) (\<lambda>pathParam0.
     sum_bind (new_request L server (''/v1/'' @ pathParam0 @ ''/views/rename'') Inr ''POST'' (Some body)) (content_type contentType))"

definition cat_NewRenameViewRequest ::
  "http_lib \<Rightarrow> string \<Rightarrow> string \<Rightarrow> wval \<Rightarrow> goerr + http_request" where
  "cat_NewRenameViewRequest L server prefix body =
     sum_bind (json_Marshal L cat_RenameViewJSONRequestBody body) (\<lambda>buf.
       cat_NewRenameViewRequestWithBody L server prefix ''application/json'' buf)"

definition cat_Client_GetApplicablePolicies ::
  "http_lib \<Rightarrow> http_client \<Rightarrow> string \<Rightarrow> wval \<Rightarrow> editor list \<Rightarrow> (goerr + http_response) io" where
  "cat_Client_GetApplicablePolicies L c prefix params reqEditors =
     do_request c (cat_NewGetApplicablePoliciesRequest L (hcServer c) prefix params) reqEditors"

definition cat_Client_ListPolicies ::
  "http_lib \<Rightarrow> http_client \<Rightarrow> string \<Rightarrow> string \<Rightarrow> wval \<Rightarrow> editor list \<Rightarrow> (goerr + http_response) io" where
  "cat_Client_ListPolicies L c prefix namespace params reqEditors =
     do_request c (cat_NewListPoliciesRequest L (hcServer c) prefix namespace params) reqEditors"

definition cat_Client_CreatePolicyWithBody ::
  "http_lib \<Rightarrow> http_client \<Rightarrow> string \<Rightarrow> string \<Rightarrow> string \<Rightarrow> string \<Rightarrow> editor list \<Rightarrow> (goerr + http_response) io" where
  "cat_Client_CreatePolicyWithBody L c prefix namespace contentType body reqEditors =
     do_request c (cat_NewCreatePolicyRequestWithBody L (hcServer c) prefix namespace contentType body) reqEditors"

definition cat_Client_CreatePolicy ::
  "http_lib \<Rightarrow> http_client \<Rightarrow> string \<Rightarrow> string \<Rightarrow> wval \<Rightarrow> editor list \<Rightarrow> (goerr + http_response) io" where
  "cat_Client_CreatePolicy L c prefix namespace body reqEditors =
     do_request c (cat_NewCreatePolicyRequest L (hcServer c) prefix namespace body) reqEditors"

definition cat_Client_DropPolicy ::
  "http_lib \<Rightarrow> http_client \<Rightarrow> string \<Rightarrow> string \<Rightarrow> string \<Rightarrow> wval \<Rightarrow> editor list \<Rightarrow> (goerr + http_response) io" where
  "cat_Client_DropPolicy L c prefix namespace policyName params reqEditors =
     do_request c (cat_NewDropPolicyRequest L (hcServer c) prefix namespace policyName params) reqEditors"

definition cat_Client_LoadPolicy ::
  "http_lib \<Rightarrow> http_client \<Rightarrow> string \<Rightarrow> string \<Rightarrow> string \<Rightarrow> editor list \<Rightarrow> (goerr + http_response) io" where
  "cat_Client_LoadPolicy L c prefix namespace policyName reqEditors =
     do_request c (cat_NewLoadPolicyRequest L (hcServer c) prefix namespace policyName) reqEditors"

definition cat_Client_UpdatePolicyWithBody ::
  "http_lib \<Rightarrow> http_client \<Rightarrow> string \<Rightarrow> string \<Rightarrow> string \<Rightarrow> string \<Rightarrow> string \<Rightarrow> editor list \<Rightarrow> (goerr + http_response) io" where
  "cat_Client_UpdatePolicyWithBody L c prefix namespace policyName contentType body reqEditors =
     do_request c (cat_NewUpdatePolicyRequestWithBody L (hcServer c) prefix namespace policyName contentType body) reqEditors"

definition cat_Client_UpdatePolicy ::
  "http_lib \<Rightarrow> http_client \<Rightarrow> string \<Rightarrow> string \<Rightarrow> string \<Rightarrow> wval \<Rightarrow> editor list \<Rightarrow> (goerr + http_response) io" where
  "cat_Client_UpdatePolicy L c prefix namespace policyName body reqEditors =
     do_request c (cat_NewUpdatePolicyRequest L (hcServer c) prefix namespace policyName body) reqEditors"

definition cat_Client_DetachPolicyWithBody ::
  "http_lib \<Rightarrow> http_client \<Rightarrow> string \<Rightarrow> string \<Rightarrow> string \<Rightarrow> string \<Rightarrow> string \<Rightarrow> editor list \<Rightarrow> (goerr + http_response) io" where
  "cat_Client_DetachPolicyWithBody L c prefix namespace policyName contentType body reqEditors =
     do_request c (cat_NewDetachPolicyRequestWithBody L (hcServer c) prefix namespace policyName contentType body) reqEditors"

definition cat_Client_DetachPolicy ::
  "http_lib \<Rightarrow> http_client \<Rightarrow> string \<Rightarrow> string \<Rightarrow> string \<Rightarrow> wval \<Rightarrow> editor list \<Rightarrow> (goerr + http_response) io" where
  "cat_Client_DetachPolicy L c prefix namespace policyName body reqEditors =
     do_request c (cat_NewDetachPolicyRequest L (hcServer c) prefix namespace policyName body) reqEditors"

definition cat_Client_AttachPolicyWithBody ::
  "http_lib \<Rightarrow> http_client \<Rightarrow> string \<Rightarrow> string \<Rightarrow> string \<Rightarrow> string \<Rightarrow> string \<Rightarrow> editor list \<Rightarrow> (goerr + http_response) io" where
  "cat_Client_AttachPolicyWithBody L c prefix namespace policyName contentType body reqEditors =
     do_request c (cat_NewAttachPolicyRequestWithBody L (hcServer c) prefix namespace policyName contentType body) reqEditors"

definition cat_Client_AttachPolicy ::
  "http_lib \<Rightarrow> http_client \<Rightarrow> string \<Rightarrow> string \<Rightarrow> string \<Rightarrow> wval \<Rightarrow> editor list \<Rightarrow> (goerr + http_response) io" where
  "cat_Client_AttachPolicy L c prefix namespace policyName body reqEditors =
     do_request c (cat_NewAttachPolicyRequest L (hcServer c) prefix namespace policyName body) reqEditors"

definition cat_Client_GetConfig ::
  "http_lib \<Rightarrow> http_client \<Rightarrow> wval \<Rightarrow> editor list \<Rightarrow> (goerr + http_response) io" where
  "cat_Client_GetConfig L c params reqEditors =
     do_request c (cat_NewGetConfigRequest L (hcServer c) params) reqEditors"

definition cat_Client_GetTokenWithBody ::
  "http_lib \<Rightarrow> http_client \<Rightarrow> wval \<Rightarrow> string \<Rightarrow> string \<Rightarrow> editor list \<Rightarrow> (goerr + http_response) io" where
  "cat_Client_GetTokenWithBody L c params contentType body reqEditors =
     do_request c (cat_NewGetTokenRequestWithBody L (hcServer c) params contentType body) reqEditors"

definition cat_Client_GetTokenWithFormdataBody ::
  "http_lib \<Rightarrow> http_client \<Rightarrow> wval \<Rightarrow> wval \<Rightarrow> editor list \<Rightarrow> (goerr + http_response) io" where
  "cat_Client_GetTokenWithFormdataBody L c params body reqEditors =
     do_request c (cat_NewGetTokenRequestWithFormdataBody L (hcServer c) params body) reqEditors"

definition cat_Client_ListNamespaces ::
  "http_lib \<Rightarrow> http_client \<Rightarrow> string \<Rightarrow> wval \<Rightarrow> editor list \<Rightarrow> (goerr + http_response) io" where
  "cat_Client_ListNamespaces L c prefix params reqEditors =
     do_request c (cat_NewListNamespacesRequest L (hcServer c) prefix params) reqEditors"

definition cat_Client_CreateNamespaceWithBody ::
  "http_lib \<Rightarrow> http_client \<Rightarrow> string \<Rightarrow> string \<Rightarrow> string \<Rightarrow> editor list \<Rightarrow> (goerr + http_response) io" where
  "cat_Client_CreateNamespaceWithBody L c prefix contentType body reqEditors =
     do_request c (cat_NewCreateNamespaceRequestWithBody L (hcServer c) prefix contentType body) reqEditors"

definition cat_Client_CreateNamespace ::
  "http_lib \<Rightarrow> http_client \<Rightarrow> string \<Rightarrow> wval \<Rightarrow> editor list \<Rightarrow> (goerr + http_response) io" where
  "cat_Client_CreateNamespace L c prefix body reqEditors =
     do_request c (cat_NewCreateNamespaceRequest L (hcServer c) prefix body) reqEditors"

definition cat_Client_DropNamespace ::
  "http_lib \<Rightarrow> http_client \<Rightarrow> string \<Rightarrow> string \<Rightarrow> editor list \<Rightarrow> (goerr + http_response) io" where
  "cat_Client_DropNamespace L c prefix namespace reqEditors =
     do_request c (cat_NewDropNamespaceRequest L (hcServer c) prefix namespace) reqEditors"

definition cat_Client_LoadNamespaceMetadata ::
  "http_lib \<Rightarrow> http_client \<Rightarrow> string \<Rightarrow> string \<Rightarrow> editor list \<Rightarrow> (goerr + http_response) io" where
  "cat_Client_LoadNamespaceMetadata L c prefix namespace reqEditors =
     do_request c (cat_NewLoadNamespaceMetadataRequest L (hcServer c) prefix namespace) reqEditors"

definition cat_Client_NamespaceExists ::
  "http_lib \<Rightarrow> http_client \<Rightarrow> string \<Rightarrow> string \<Rightarrow> editor list \<Rightarrow> (goerr + http_response) io" where
  "cat_Client_NamespaceExists L c prefix namespace reqEditors =
     do_request c (cat_NewNamespaceExistsRequest L (hcServer c) prefix namespace) reqEditors"

definition cat_Client_UpdatePropertiesWithBody ::
  "http_lib \<Rightarrow> http_client \<Rightarrow> string \<Rightarrow> string \<Rightarrow> string \<Rightarrow> string \<Rightarrow> editor list \<Rightarrow> (goerr + http_response) io" where
  "cat_Client_UpdatePropertiesWithBody L c prefix namespace contentType body reqEditors =
     do_request c (cat_NewUpdatePropertiesRequestWithBody L (hcServer c) prefix namespace contentType body) reqEditors"

definition cat_Client_UpdateProperties ::
  "http_lib \<Rightarrow> http_client \<Rightarrow> string \<Rightarrow> string \<Rightarrow> wval \<Rightarrow> editor list \<Rightarrow> (goerr + http_response) io" where
  "cat_Client_UpdateProperties L c prefix namespace body reqEditors =
     do_request c (cat_NewUpdatePropertiesRequest L (hcServer c) prefix namespace body) reqEditors"

definition cat_Client_RegisterTableWithBody ::
  "http_lib \<Rightarrow> http_client \<Rightarrow> string \<Rightarrow> string \<Rightarrow> string \<Rightarrow> string \<Rightarrow> editor list \<Rightarrow> (goerr + http_response) io" where
  "cat_Client_RegisterTableWithBody L c prefix namespace contentType body reqEditors =
     do_request c (cat_NewRegisterTableRequestWithBody L (hcServer c) prefix namespace contentType body) reqEditors"

definition cat_Client_RegisterTable ::
  "http_lib \<Rightarrow> http_client \<Rightarrow> string \<Rightarrow> string \<Rightarrow> wval \<Rightarrow> editor list \<Rightarrow> (goerr + http_response) io" where
  "cat_Client_RegisterTable L c prefix namespace body reqEditors =
     do_request c (cat_NewRegisterTableRequest L (hcServer c) prefix namespace body) reqEditors"

definition cat_Client_ListTables ::
  "http_lib \<Rightarrow> http_client \<Rightarrow> string \<Rightarrow> string \<Rightarrow> wval \<Rightarrow> editor list \<Rightarrow> (goerr + http_response) io" where
  "cat_Client_ListTables L c prefix namespace params reqEditors =
     do_request c (cat_NewListTablesRequest L (hcServer c) prefix namespace params) reqEditors"

definition cat_Client_CreateTableWithBody ::
  "http_lib \<Rightarrow> http_client \<Rightarrow> string \<Rightarrow> string \<Rightarrow> wval \<Rightarrow> string \<Rightarrow> string \<Rightarrow> editor list \<Rightarrow> (goerr + http_response) io" where
  "cat_Client_CreateTableWithBody L c prefix namespace params contentType body reqEditors =
     do_request c (cat_NewCreateTableRequestWithBody L (hcServer c) prefix namespace params contentType body) reqEditors"

definition cat_Client_CreateTable ::
  "http_lib \<Rightarrow> http_client \<Rightarrow> string \<Rightarrow> string \<Rightarrow> wval \<Rightarrow> wval \<Rightarrow> editor list \<Rightarrow> (goerr + http_response) io" where
  "cat_Client_CreateTable L c prefix namespace params body reqEditors =
     do_request c (cat_NewCreateTableRequest L (hcServer c) prefix namespace params body) reqEditors"

definition cat_Client_DropTable ::
  "http_lib \<Rightarrow> http_client \<Rightarrow> string \<Rightarrow> string \<Rightarrow> string \<Rightarrow> wval \<Rightarrow> editor list \<Rightarrow> (goerr + http_response) io" where
  "cat_Client_DropTable L c prefix namespace table params reqEditors =
     do_request c (cat_NewDropTableRequest L (hcServer c) prefix namespace table params) reqEditors"

definition cat_Client_LoadTable ::
  "http_lib \<Rightarrow> http_client \<Rightarrow> string \<Rightarrow> string \<Rightarrow> string \<Rightarrow> wval \<Rightarrow> editor list \<Rightarrow> (goerr + http_response) io" where
  "cat_Client_LoadTable L c prefix namespace table params reqEditors =
     do_request c (cat_NewLoadTableRequest L (hcServer c) prefix namespace table params) reqEditors"

definition cat_Client_TableExists ::
  "http_lib \<Rightarrow> http_client \<Rightarrow> string \<Rightarrow> string \<Rightarrow> string \<Rightarrow> editor list \<Rightarrow> (goerr + http_response) io" where
  "cat_Client_TableExists L c prefix namespace table reqEditors =
     do_request c (cat_NewTableExistsRequest L (hcServer c) prefix namespace table) reqEditors"

definition cat_Client_UpdateTableWithBody ::
  "http_lib \<Rightarrow> http_client \<Rightarrow> string \<Rightarrow> string \<Rightarrow> string \<Rightarrow> string \<Rightarrow> string \<Rightarrow> editor list \<Rightarrow> (goerr + http_response) io" where
  "cat_Client_UpdateTableWithBody L c prefix namespace table contentType body reqEditors =
     do_request c (cat_NewUpdateTableRequestWithBody L (hcServer c) prefix namespace table contentType body) reqEditors"

definition cat_Client_UpdateTable ::
  "http_lib \<Rightarrow> http_client \<Rightarrow> string \<Rightarrow> string \<Rightarrow> string \<Rightarrow> wval \<Rightarrow> editor list \<Rightarrow> (goerr + http_response) io" where
  "cat_Client_UpdateTable L c prefix namespace table body reqEditors =
     do_request c (cat_NewUpdateTableRequest L (hcServer c) prefix namespace table body) reqEditors"

definition cat_Client_LoadCredentials ::
  "http_lib \<Rightarrow> http_client \<Rightarrow> string \<Rightarrow> string \<Rightarrow> string \<Rightarrow> editor list \<Rightarrow> (goerr + http_response) io" where
  "cat_Client_LoadCredentials L c prefix namespace table reqEditors =
     do_request c (cat_NewLoadCredentialsRequest L (hcServer c) prefix namespace table) reqEditors"

definition cat_Client_ReportMetricsWithBody ::
  "http_lib \<Rightarrow> http_client \<Rightarrow> string \<Rightarrow> string \<Rightarrow> string \<Rightarrow> string \<Rightarrow> string \<Rightarrow> editor list \<Rightarrow> (goerr + http_response) io" where
  "cat_Client_ReportMetricsWithBody L c prefix namespace table contentType body reqEditors =
     do_request c (cat_NewReportMetricsRequestWithBody L (hcServer c) prefix namespace table contentType body) reqEditors"

definition cat_Client_ReportMetrics ::
  "http_lib \<Rightarrow> http_client \<Rightarrow> string \<Rightarrow> string \<Rightarrow> string \<Rightarrow> wval \<Rightarrow> editor list \<Rightarrow> (goerr + http_response) io" where
  "cat_Client_ReportMetrics L c prefix namespace table body reqEditors =
     do_request c (cat_NewReportMetricsRequest L (hcServer c) prefix namespace table body) reqEditors"

definition cat_Client_SendNotificationWithBody ::
  "http_lib \<Rightarrow> http_client \<Rightarrow> string \<Rightarrow> string \<Rightarrow> string \<Rightarrow> string \<Rightarrow> string \<Rightarrow> editor list \<Rightarrow> (goerr + http_response) io" where
  "cat_Client_SendNotificationWithBody L c prefix namespace table contentType body reqEditors =
     do_request c (cat_NewSendNotificationRequestWithBody L (hcServer c) prefix namespace table contentType body) reqEditors"

definition cat_Client_SendNotification ::
  "http_lib \<Rightarrow> http_client \<Rightarrow> string \<Rightarrow> string \<Rightarrow> string \<Rightarrow> wval \<Rightarrow> editor list \<Rightarrow> (goerr + http_response) io" where
  "cat_Client_SendNotification L c prefix namespace table body reqEditors =
     do_request c (cat_NewSendNotificationRequest L (hcServer c) prefix namespace table body) reqEditors"

definition cat_Client_ListViews ::
  "http_lib \<Rightarrow> http_client \<Rightarrow> string \<Rightarrow> string \<Rightarrow> wval \<Rightarrow> editor list \<Rightarrow> (goerr + http_response) io" where
  "cat_Client_ListViews L c prefix namespace params reqEditors =
     do_request c (cat_NewListViewsRequest L (hcServer c) prefix namespace params) reqEditors"

definition cat_Client_CreateViewWithBody ::
  "http_lib \<Rightarrow> http_client \<Rightarrow> string \<Rightarrow> string \<Rightarrow> string \<Rightarrow> string \<Rightarrow> editor list \<Rightarrow> (goerr + http_response) io" where
  "cat_Client_CreateViewWithBody L c prefix namespace contentType body reqEditors =
     do_request c (cat_NewCreateViewRequestWithBody L (hcServer c) prefix namespace contentType body) reqEditors"

definition cat_Client_CreateView ::
  "http_lib \<Rightarrow> http_client \<Rightarrow> string \<Rightarrow> string \<Rightarrow> wval \<Rightarrow> editor list \<Rightarrow> (goerr + http_response) io" where
  "cat_Client_CreateView L c prefix namespace body reqEditors =
     do_request c (cat_NewCreateViewRequest L (hcServer c) prefix namespace body) reqEditors"

definition cat_Client_DropView ::
  "http_lib \<Rightarrow> http_client \<Rightarrow> string \<Rightarrow> string \<Rightarrow> string \<Rightarrow> editor list \<Rightarrow> (goerr + http_response) io" where
  "cat_Client_DropView L c prefix namespace view reqEditors =
     do_request c (cat_NewDropViewRequest L (hcServer c) prefix namespace view) reqEditors"

definition cat_Client_LoadView ::
  "http_lib \<Rightarrow> http_client \<Rightarrow> string \<Rightarrow> string \<Rightarrow> string \<Rightarrow> editor list \<Rightarrow> (goerr + http_response) io" where
  "cat_Client_LoadView L c prefix namespace view reqEditors =
     do_request c (cat_NewLoadViewRequest L (hcServer c) prefix namespace view) reqEditors"

definition cat_Client_ViewExists ::
  "http_lib \<Rightarrow> http_client \<Rightarrow> string \<Rightarrow> string \<Rightarrow> string \<Rightarrow> editor list \<Rightarrow> (goerr + http_response) io" where
  "cat_Client_ViewExists L c prefix namespace view reqEditors =
     do_request c (cat_NewViewExistsRequest L (hcServer c) prefix namespace view) reqEditors"

definition cat_Client_ReplaceViewWithBody ::
  "http_lib \<Rightarrow> http_client \<Rightarrow> string \<Rightarrow> string \<Rightarrow> string \<Rightarrow> string \<Rightarrow> string \<Rightarrow> editor list \<Rightarrow> (goerr + http_response) io" where
  "cat_Client_ReplaceViewWithBody L c prefix namespace view contentType body reqEditors =
     do_request c (cat_NewReplaceViewRequestWithBody L (hcServer c) prefix namespace view contentType body) reqEditors"

definition cat_Client_ReplaceView ::
  "http_lib \<Rightarrow> http_client \<Rightarrow> string \<Rightarrow> string \<Rightarrow> string \<Rightarrow> wval \<Rightarrow> editor list \<Rightarrow> (goerr + http_response) io" where
  "cat_Client_ReplaceView L c prefix namespace view body reqEditors =
     do_request c (cat_NewReplaceViewRequest L (hcServer c) prefix namespace view body) reqEditors"

definition cat_Client_RenameTableWithBody ::
  "http_lib \<Rightarrow> http_client \<Rightarrow> string \<Rightarrow> string \<Rightarrow> string \<Rightarrow> editor list \<Rightarrow> (goerr + http_response) io" where
  "cat_Client_RenameTableWithBody L c prefix contentType body reqEditors =
     do_request c (cat_NewRenameTableRequestWithBody L (hcServer c) prefix contentType body) reqEditors"

definition cat_Client_RenameTable ::
  "http_lib \<Rightarrow> http_client \<Rightarrow> string \<Rightarrow> wval \<Rightarrow> editor list \<Rightarrow> (goerr + http_response) io" where
  "cat_Client_RenameTable L c prefix body reqEditors =
     do_request c (cat_NewRenameTableRequest L (hcServer c) prefix body) reqEditors"

definition cat_Client_CommitTransactionWithBody ::
  "http_lib \<Rightarrow> http_client \<Rightarrow> string \<Rightarrow> string \<Rightarrow> string \<Rightarrow> editor list \<Rightarrow> (goerr + http_response) io" where
  "cat_Client_CommitTransactionWithBody L c prefix contentType body reqEditors =
     do_request c (cat_NewCommitTransactionRequestWithBody L (hcServer c) prefix contentType body) reqEditors"

definition cat_Client_CommitTransaction ::
  "http_lib \<Rightarrow> http_client \<Rightarrow> string \<Rightarrow> wval \<Rightarrow> editor list \<Rightarrow> (goerr + http_response) io" where
  "cat_Client_CommitTransaction L c prefix body reqEditors =
     do_request c (cat_NewCommitTransactionRequest L (hcServer c) prefix body) reqEditors"

definition cat_Client_RenameViewWithBody ::
  "http_lib \<Rightarrow> http_client \<Rightarrow> string \<Rightarrow> string \<Rightarrow> string \<Rightarrow> editor list \<Rightarrow> (goerr + http_response) io" where
  "cat_Client_RenameViewWithBody L c prefix contentType body reqEditors =
     do_request c (cat_NewRenameViewRequestWithBody L (hcServer c) prefix contentType body) reqEditors"

definition cat_Client_RenameView ::
  "http_lib \<Rightarrow> http_client \<Rightarrow> string \<Rightarrow> wval \<Rightarrow> editor list \<Rightarrow> (goerr + http_response) io" where
  "cat_Client_RenameView L c prefix body reqEditors =
     do_request c (cat_NewRenameViewRequest L (hcServer c) prefix body) reqEditors"

end
