(* ===== verification/Catalog_Results.thy ===== *)
theory Catalog_Results
  imports Catalog_Requests
begin

text \<open>
  The receiving half of the generated catalog client: the result struct of every operation
  with its methods, the parser of its response, and the operation of \<open>ClientWithResponses\<close>.
\<close>

definition cat_GetApplicablePoliciesWrapper :: result_fields where
  "cat_GetApplicablePoliciesWrapper =
     [(''JSON200'', cat_GetApplicablePoliciesResponse),
      (''JSON400'', cat_BadRequestErrorResponse),
      (''JSON401'', cat_UnauthorizedResponse),
      (''JSON403'', cat_ForbiddenResponse),
      (''JSON404'', cat_IcebergErrorResponse),
      (''JSON503'', cat_ServiceUnavailableResponse),
      (''JSON5XX'', cat_ServerErrorResponse)]"

definition cat_GetApplicablePoliciesWrapper_Status :: "http_lib \<Rightarrow> http_wrapper \<Rightarrow> string" where
  "cat_GetApplicablePoliciesWrapper_Status L r = wrapper_Status L r"

definition cat_GetApplicablePoliciesWrapper_StatusCode :: "http_wrapper \<Rightarrow> int" where
  "cat_GetApplicablePoliciesWrapper_StatusCode r = wrapper_StatusCode r"

definition cat_GetApplicablePoliciesWrapper_ContentType :: "http_wrapper \<Rightarrow> string" where
  "cat_GetApplicablePoliciesWrapper_ContentType r = wrapper_ContentType r"

definition cat_ListPoliciesWrapper :: result_fields where
  "cat_ListPoliciesWrapper =
     [(''JSON200'', cat_ListPoliciesResponse),
      (''JSON400'', cat_BadRequestErrorResponse),
      (''JSON401'', cat_UnauthorizedResponse),
      (''JSON403'', cat_ForbiddenResponse),
      (''JSON404'', cat_IcebergErrorResponse),
      (''JSON503'', cat_ServiceUnavailableResponse),
      (''JSON5XX'', cat_ServerErrorResponse)]"

definition cat_ListPoliciesWrapper_Status :: "http_lib \<Rightarrow> http_wrapper \<Rightarrow> string" where
  "cat_ListPoliciesWrapper_Status L r = wrapper_Status L r"

definition cat_ListPoliciesWrapper_StatusCode :: "http_wrapper \<Rightarrow> int" where
  "cat_ListPoliciesWrapper_StatusCode r = wrapper_StatusCode r"

definition cat_ListPoliciesWrapper_ContentType :: "http_wrapper \<Rightarrow> string" where
  "cat_ListPoliciesWrapper_ContentType r = wrapper_ContentType r"

definition cat_CreatePolicyWrapper :: result_fields where
  "cat_CreatePolicyWrapper =
     [(''JSON200'', cat_CreatePolicyResponse),
      (''JSON400'', cat_BadRequestErrorResponse),
      (''JSON401'', cat_UnauthorizedResponse),
      (''JSON403'', cat_ForbiddenResponse),
      (''JSON404'', cat_IcebergErrorResponse),
      (''JSON409'', cat_IcebergErrorResponse),
      (''JSON503'', cat_ServiceUnavailableResponse),
      (''JSON5XX'', cat_ServerErrorResponse)]"

definition cat_CreatePolicyWrapper_Status :: "http_lib \<Rightarrow> http_wrapper \<Rightarrow> string" where
  "cat_CreatePolicyWrapper_Status L r = wrapper_Status L r"

definition cat_CreatePolicyWrapper_StatusCode :: "http_wrapper \<Rightarrow> int" where
  "cat_CreatePolicyWrapper_StatusCode r = wrapper_StatusCode r"

definition cat_CreatePolicyWrapper_ContentType :: "http_wrapper \<Rightarrow> string" where
  "cat_CreatePolicyWrapper_ContentType r = wrapper_ContentType r"

definition cat_DropPolicyWrapper :: result_fields where
  "cat_DropPolicyWrapper =
     [(''JSON400'', cat_IcebergErrorResponse),
      (''JSON401'', cat_UnauthorizedResponse),
      (''JSON403'', cat_ForbiddenResponse),
      (''JSON404'', cat_IcebergErrorResponse),
      (''JSON503'', cat_ServiceUnavailableResponse),
      (''JSON5XX'', cat_ServerErrorResponse)]"

definition cat_DropPolicyWrapper_Status :: "http_lib \<Rightarrow> http_wrapper \<Rightarrow> string" where
  "cat_DropPolicyWrapper_Status L r = wrapper_Status L r"

definition cat_DropPolicyWrapper_StatusCode :: "http_wrapper \<Rightarrow> int" where
  "cat_DropPolicyWrapper_StatusCode r = wrapper_StatusCode r"

definition cat_DropPolicyWrapper_ContentType :: "http_wrapper \<Rightarrow> string" where
  "cat_DropPolicyWrapper_ContentType r = wrapper_ContentType r"

definition cat_LoadPolicyWrapper :: result_fields where
  "cat_LoadPolicyWrapper =
     [(''JSON200'', cat_LoadPolicyResponse),
      (''JSON400'', cat_BadRequestErrorResponse),
      (''JSON401'', cat_UnauthorizedResponse),
      (''JSON403'', cat_ForbiddenResponse),
      (''JSON404'', cat_IcebergErrorResponse),
      (''JSON503'', cat_ServiceUnavailableResponse),
      (''JSON5XX'', cat_ServerErrorResponse)]"

definition cat_LoadPolicyWrapper_Status :: "http_lib \<Rightarrow> http_wrapper \<Rightarrow> string" where
  "cat_LoadPolicyWrapper_Status L r = wrapper_Status L r"

definition cat_LoadPolicyWrapper_StatusCode :: "http_wrapper \<Rightarrow> int" where
  "cat_LoadPolicyWrapper_StatusCode r = wrapper_StatusCode r"

definition cat_LoadPolicyWrapper_ContentType :: "http_wrapper \<Rightarrow> string" where
  "cat_LoadPolicyWrapper_ContentType r = wrapper_ContentType r"

definition cat_UpdatePolicyWrapper :: result_fields where
  "cat_UpdatePolicyWrapper =
     [(''JSON200'', cat_UpdatePolicyResponse),
      (''JSON400'', cat_BadRequestErrorResponse),
      (''JSON401'', cat_UnauthorizedResponse),
      (''JSON403'', cat_ForbiddenResponse),
      (''JSON404'', cat_IcebergErrorResponse),
      (''JSON409'', cat_IcebergErrorResponse),
      (''JSON503'', cat_ServiceUnavailableResponse),
      (''JSON5XX'', cat_ServerErrorResponse)]"

definition cat_UpdatePolicyWrapper_Status :: "http_lib \<Rightarrow> http_wrapper \<Rightarrow> string" where
  "cat_UpdatePolicyWrapper_Status L r = wrapper_Status L r"

definition cat_UpdatePolicyWrapper_StatusCode :: "http_wrapper \<Rightarrow> int" where
  "cat_UpdatePolicyWrapper_StatusCode r = wrapper_StatusCode r"

definition cat_UpdatePolicyWrapper_ContentType :: "http_wrapper \<Rightarrow> string" where
  "cat_UpdatePolicyWrapper_ContentType r = wrapper_ContentType r"

definition cat_DetachPolicyWrapper :: result_fields where
  "cat_DetachPolicyWrapper =
     [(''JSON400'', cat_BadRequestErrorResponse),
      (''JSON401'', cat_UnauthorizedResponse),
      (''JSON403'', cat_ForbiddenResponse),
      (''JSON404'', cat_IcebergErrorResponse),
      (''JSON503'', cat_ServiceUnavailableResponse),
      (''JSON5XX'', cat_ServerErrorResponse)]"

definition cat_DetachPolicyWrapper_Status :: "http_lib \<Rightarrow> http_wrapper \<Rightarrow> string" where
  "cat_DetachPolicyWrapper_Status L r = wrapper_Status L r"

definition cat_DetachPolicyWrapper_StatusCode :: "http_wrapper \<Rightarrow> int" where
  "cat_DetachPolicyWrapper_StatusCode r = wrapper_StatusCode r"

definition cat_DetachPolicyWrapper_ContentType :: "http_wrapper \<Rightarrow> string" where
  "cat_DetachPolicyWrapper_ContentType r = wrapper_ContentType r"

definition cat_AttachPolicyWrapper :: result_fields where
  "cat_AttachPolicyWrapper =
     [(''JSON400'', cat_BadRequestErrorResponse),
      (''JSON401'', cat_UnauthorizedResponse),
      (''JSON403'', cat_ForbiddenResponse),
      (''JSON404'', cat_IcebergErrorResponse),
      (''JSON409'', cat_IcebergErrorResponse),
      (''JSON503'', cat_ServiceUnavailableResponse),
      (''JSON5XX'', cat_ServerErrorResponse)]"

definition cat_AttachPolicyWrapper_Status :: "http_lib \<Rightarrow> http_wrapper \<Rightarrow> string" where
  "cat_AttachPolicyWrapper_Status L r = wrapper_Status L r"

definition cat_AttachPolicyWrapper_StatusCode :: "http_wrapper \<Rightarrow> int" where
  "cat_AttachPolicyWrapper_StatusCode r = wrapper_StatusCode r"

definition cat_AttachPolicyWrapper_ContentType :: "http_wrapper \<Rightarrow> string" where
  "cat_AttachPolicyWrapper_ContentType r = wrapper_ContentType r"

definition cat_GetConfigWrapper :: result_fields where
  "cat_GetConfigWrapper =
     [(''JSON200'', cat_CatalogConfig),
      (''JSON400'', cat_BadRequestErrorResponse),
      (''JSON401'', cat_UnauthorizedResponse),
      (''JSON403'', cat_ForbiddenResponse),
      (''JSON419'', cat_AuthenticationTimeoutResponse),
      (''JSON503'', cat_ServiceUnavailableResponse),
      (''JSON5XX'', cat_ServerErrorResponse)]"

definition cat_GetConfigWrapper_Status :: "http_lib \<Rightarrow> http_wrapper \<Rightarrow> string" where
  "cat_GetConfigWrapper_Status L r = wrapper_Status L r"

definition cat_GetConfigWrapper_StatusCode :: "http_wrapper \<Rightarrow> int" where
  "cat_GetConfigWrapper_StatusCode r = wrapper_StatusCode r"

definition cat_GetConfigWrapper_ContentType :: "http_wrapper \<Rightarrow> string" where
  "cat_GetConfigWrapper_ContentType r = wrapper_ContentType r"

definition cat_GetTokenWrapper :: result_fields where
  "cat_GetTokenWrapper =
     [(''JSON200'', cat_OAuthTokenResponse),
      (''JSON400'', cat_OAuthErrorResponse),
      (''JSON401'', cat_OAuthErrorResponse),
      (''JSON5XX'', cat_OAuthErrorResponse)]"

definition cat_GetTokenWrapper_Status :: "http_lib \<Rightarrow> http_wrapper \<Rightarrow> string" where
  "cat_GetTokenWrapper_Status L r = wrapper_Status L r"

definition cat_GetTokenWrapper_StatusCode :: "http_wrapper \<Rightarrow> int" where
  "cat_GetTokenWrapper_StatusCode r = wrapper_StatusCode r"

definition cat_GetTokenWrapper_ContentType :: "http_wrapper \<Rightarrow> string" where
  "cat_GetTokenWrapper_ContentType r = wrapper_ContentType r"

definition cat_ListNamespacesWrapper :: result_fields where
  "cat_ListNamespacesWrapper =
     [(''JSON200'', cat_ListNamespacesResponse),
      (''JSON400'', cat_BadRequestErrorResponse),
      (''JSON401'', cat_UnauthorizedResponse),
      (''JSON403'', cat_ForbiddenResponse),
      (''JSON404'', cat_IcebergErrorResponse),
      (''JSON419'', cat_AuthenticationTimeoutResponse),
      (''JSON503'', cat_ServiceUnavailableResponse),
      (''JSON5XX'', cat_ServerErrorResponse)]"

definition cat_ListNamespacesWrapper_Status :: "http_lib \<Rightarrow> http_wrapper \<Rightarrow> string" where
  "cat_ListNamespacesWrapper_Status L r = wrapper_Status L r"

definition cat_ListNamespacesWrapper_StatusCode :: "http_wrapper \<Rightarrow> int" where
  "cat_ListNamespacesWrapper_StatusCode r = wrapper_StatusCode r"

definition cat_ListNamespacesWrapper_ContentType :: "http_wrapper \<Rightarrow> string" where
  "cat_ListNamespacesWrapper_ContentType r = wrapper_ContentType r"

definition cat_CreateNamespaceWrapper :: result_fields where
  "cat_CreateNamespaceWrapper =
     [(''JSON200'', cat_CreateNamespaceResponse),
      (''JSON400'', cat_BadRequestErrorResponse),
      (''JSON401'', cat_UnauthorizedResponse),
      (''JSON403'', cat_ForbiddenResponse),
      (''JSON406'', cat_UnsupportedOperationResponse),
      (''JSON409'', cat_IcebergErrorResponse),
      (''JSON419'', cat_AuthenticationTimeoutResponse),
      (''JSON503'', cat_ServiceUnavailableResponse),
      (''JSON5XX'', cat_ServerErrorResponse)]"

definition cat_CreateNamespaceWrapper_Status :: "http_lib \<Rightarrow> http_wrapper \<Rightarrow> string" where
  "cat_CreateNamespaceWrapper_Status L r = wrapper_Status L r"

definition cat_CreateNamespaceWrapper_StatusCode :: "http_wrapper \<Rightarrow> int" where
  "cat_CreateNamespaceWrapper_StatusCode r = wrapper_StatusCode r"

definition cat_CreateNamespaceWrapper_ContentType :: "http_wrapper \<Rightarrow> string" where
  "cat_CreateNamespaceWrapper_ContentType r = wrapper_ContentType r"

definition cat_DropNamespaceWrapper :: result_fields where
  "cat_DropNamespaceWrapper =
     [(''JSON400'', cat_BadRequestErrorResponse),
      (''JSON401'', cat_UnauthorizedResponse),
      (''JSON403'', cat_ForbiddenResponse),
      (''JSON404'', cat_IcebergErrorResponse),
      (''JSON409'', cat_IcebergErrorResponse),
      (''JSON419'', cat_AuthenticationTimeoutResponse),
      (''JSON503'', cat_ServiceUnavailableResponse),
      (''JSON5XX'', cat_ServerErrorResponse)]"

definition cat_DropNamespaceWrapper_Status :: "http_lib \<Rightarrow> http_wrapper \<Rightarrow> string" where
  "cat_DropNamespaceWrapper_Status L r = wrapper_Status L r"

definition cat_DropNamespaceWrapper_StatusCode :: "http_wrapper \<Rightarrow> int" where
  "cat_DropNamespaceWrapper_StatusCode r = wrapper_StatusCode r"

definition cat_DropNamespaceWrapper_ContentType :: "http_wrapper \<Rightarrow> string" where
  "cat_DropNamespaceWrapper_ContentType r = wrapper_ContentType r"

definition cat_LoadNamespaceMetadataWrapper :: result_fields where
  "cat_LoadNamespaceMetadataWrapper =
     [(''JSON200'', cat_GetNamespaceResponse),
      (''JSON400'', cat_BadRequestErrorResponse),
      (''JSON401'', cat_UnauthorizedResponse),
      (''JSON403'', cat_ForbiddenResponse),
      (''JSON404'', cat_IcebergErrorResponse),
      (''JSON419'', cat_AuthenticationTimeoutResponse),
      (''JSON503'', cat_ServiceUnavailableResponse),
      (''JSON5XX'', cat_ServerErrorResponse)]"

definition cat_LoadNamespaceMetadataWrapper_Status :: "http_lib \<Rightarrow> http_wrapper \<Rightarrow> string" where
  "cat_LoadNamespaceMetadataWrapper_Status L r = wrapper_Status L r"

definition cat_LoadNamespaceMetadataWrapper_StatusCode :: "http_wrapper \<Rightarrow> int" where
  "cat_LoadNamespaceMetadataWrapper_StatusCode r = wrapper_StatusCode r"

definition cat_LoadNamespaceMetadataWrapper_ContentType :: "http_wrapper \<Rightarrow> string" where
  "cat_LoadNamespaceMetadataWrapper_ContentType r = wrapper_ContentType r"

definition cat_NamespaceExistsWrapper :: result_fields where
  "cat_NamespaceExistsWrapper =
     [(''JSON400'', cat_BadRequestErrorResponse),
      (''JSON401'', cat_UnauthorizedResponse),
      (''JSON403'', cat_ForbiddenResponse),
      (''JSON404'', cat_IcebergErrorResponse),
      (''JSON419'', cat_AuthenticationTimeoutResponse),
      (''JSON503'', cat_ServiceUnavailableResponse),
      (''JSON5XX'', cat_ServerErrorResponse)]"

definition cat_NamespaceExistsWrapper_Status :: "http_lib \<Rightarrow> http_wrapper \<Rightarrow> string" where
  "cat_NamespaceExistsWrapper_Status L r = wrapper_Status L r"

definition cat_NamespaceExistsWrapper_StatusCode :: "http_wrapper \<Rightarrow> int" where
  "cat_NamespaceExistsWrapper_StatusCode r = wrapper_StatusCode r"

definition cat_NamespaceExistsWrapper_ContentType :: "http_wrapper \<Rightarrow> string" where
  "cat_NamespaceExistsWrapper_ContentType r = wrapper_ContentType r"

definition cat_UpdatePropertiesWrapper :: result_fields where
  "cat_UpdatePropertiesWrapper =
     [(''JSON200'', cat_UpdateNamespacePropertiesResponse),
      (''JSON400'', cat_BadRequestErrorResponse),
      (''JSON401'', cat_UnauthorizedResponse),
      (''JSON403'', cat_ForbiddenResponse),
      (''JSON404'', cat_IcebergErrorResponse),
      (''JSON406'', cat_UnsupportedOperationResponse),
      (''JSON419'', cat_AuthenticationTimeoutResponse),
      (''JSON422'', cat_IcebergErrorResponse),
      (''JSON503'', cat_ServiceUnavailableResponse),
      (''JSON5XX'', cat_ServerErrorResponse)]"

definition cat_UpdatePropertiesWrapper_Status :: "http_lib \<Rightarrow> http_wrapper \<Rightarrow> string" where
  "cat_UpdatePropertiesWrapper_Status L r = wrapper_Status L r"

definition cat_UpdatePropertiesWrapper_StatusCode :: "http_wrapper \<Rightarrow> int" where
  "cat_UpdatePropertiesWrapper_StatusCode r = wrapper_StatusCode r"

definition cat_UpdatePropertiesWrapper_ContentType :: "http_wrapper \<Rightarrow> string" where
  "cat_UpdatePropertiesWrapper_ContentType r = wrapper_ContentType r"

definition cat_RegisterTableWrapper :: result_fields where
  "cat_RegisterTableWrapper =
     [(''JSON200'', cat_LoadTableResponse),
      (''JSON400'', cat_BadRequestErrorResponse),
      (''JSON401'', cat_UnauthorizedResponse),
      (''JSON403'', cat_ForbiddenResponse),
      (''JSON404'', cat_IcebergErrorResponse),
      (''JSON409'', cat_IcebergErrorResponse),
      (''JSON419'', cat_AuthenticationTimeoutResponse),
      (''JSON503'', cat_ServiceUnavailableResponse),
      (''JSON5XX'', cat_ServerErrorResponse)]"

definition cat_RegisterTableWrapper_Status :: "http_lib \<Rightarrow> http_wrapper \<Rightarrow> string" where
  "cat_RegisterTableWrapper_Status L r = wrapper_Status L r"

definition cat_RegisterTableWrapper_StatusCode :: "http_wrapper \<Rightarrow> int" where
  "cat_RegisterTableWrapper_StatusCode r = wrapper_StatusCode r"

definition cat_RegisterTableWrapper_ContentType :: "http_wrapper \<Rightarrow> string" where
  "cat_RegisterTableWrapper_ContentType r = wrapper_ContentType r"

definition cat_ListTablesWrapper :: result_fields where
  "cat_ListTablesWrapper =
     [(''JSON200'', cat_ListTablesResponse),
      (''JSON400'', cat_BadRequestErrorResponse),
      (''JSON401'', cat_UnauthorizedResponse),
      (''JSON403'', cat_ForbiddenResponse),
      (''JSON404'', cat_IcebergErrorResponse),
      (''JSON419'', cat_AuthenticationTimeoutResponse),
      (''JSON503'', cat_ServiceUnavailableResponse),
      (''JSON5XX'', cat_ServerErrorResponse)]"

definition cat_ListTablesWrapper_Status :: "http_lib \<Rightarrow> http_wrapper \<Rightarrow> string" where
  "cat_ListTablesWrapper_Status L r = wrapper_Status L r"

definition cat_ListTablesWrapper_StatusCode :: "http_wrapper \<Rightarrow> int" where
  "cat_ListTablesWrapper_StatusCode r = wrapper_StatusCode r"

definition cat_ListTablesWrapper_ContentType :: "http_wrapper \<Rightarrow> string" where
  "cat_ListTablesWrapper_ContentType r = wrapper_ContentType r"

definition cat_CreateTableWrapper :: result_fields where
  "cat_CreateTableWrapper =
     [(''JSON200'', cat_CreateTableResponse),
      (''JSON400'', cat_BadRequestErrorResponse),
      (''JSON401'', cat_UnauthorizedResponse),
      (''JSON403'', cat_ForbiddenResponse),
      (''JSON404'', cat_IcebergErrorResponse),
      (''JSON409'', cat_IcebergErrorResponse),
      (''JSON419'', cat_AuthenticationTimeoutResponse),
      (''JSON503'', cat_ServiceUnavailableResponse),
      (''JSON5XX'', cat_ServerErrorResponse)]"

definition cat_CreateTableWrapper_Status :: "http_lib \<Rightarrow> http_wrapper \<Rightarrow> string" where
  "cat_CreateTableWrapper_Status L r = wrapper_Status L r"

definition cat_CreateTableWrapper_StatusCode :: "http_wrapper \<Rightarrow> int" where
  "cat_CreateTableWrapper_StatusCode r = wrapper_StatusCode r"

definition cat_CreateTableWrapper_ContentType :: "http_wrapper \<Rightarrow> string" where
  "cat_CreateTableWrapper_ContentType r = wrapper_ContentType r"

definition cat_DropTableWrapper :: result_fields where
  "cat_DropTableWrapper =
     [(''JSON400'', cat_BadRequestErrorResponse),
      (''JSON401'', cat_UnauthorizedResponse),
      (''JSON403'', cat_ForbiddenResponse),
      (''JSON404'', cat_IcebergErrorResponse),
      (''JSON419'', cat_AuthenticationTimeoutResponse),
      (''JSON503'', cat_ServiceUnavailableResponse),
      (''JSON5XX'', cat_ServerErrorResponse)]"

definition cat_DropTableWrapper_Status :: "http_lib \<Rightarrow> http_wrapper \<Rightarrow> string" where
  "cat_DropTableWrapper_Status L r = wrapper_Status L r"

definition cat_DropTableWrapper_StatusCode :: "http_wrapper \<Rightarrow> int" where
  "cat_DropTableWrapper_StatusCode r = wrapper_StatusCode r"

definition cat_DropTableWrapper_ContentType :: "http_wrapper \<Rightarrow> string" where
  "cat_DropTableWrapper_ContentType r = wrapper_ContentType r"

definition cat_LoadTableWrapper :: result_fields where
  "cat_LoadTableWrapper =
     [(''JSON200'', cat_LoadTableResponse),
      (''JSON400'', cat_BadRequestErrorResponse),
      (''JSON401'', cat_UnauthorizedResponse),
      (''JSON403'', cat_ForbiddenResponse),
      (''JSON404'', cat_IcebergErrorResponse),
      (''JSON419'', cat_AuthenticationTimeoutResponse),
      (''JSON503'', cat_ServiceUnavailableResponse),
      (''JSON5XX'', cat_ServerErrorResponse)]"

definition cat_LoadTableWrapper_Status :: "http_lib \<Rightarrow> http_wrapper \<Rightarrow> string" where
  "cat_LoadTableWrapper_Status L r = wrapper_Status L r"

definition cat_LoadTableWrapper_StatusCode :: "http_wrapper \<Rightarrow> int" where
  "cat_LoadTableWrapper_StatusCode r = wrapper_StatusCode r"

definition cat_LoadTableWrapper_ContentType :: "http_wrapper \<Rightarrow> string" where
  "cat_LoadTableWrapper_ContentType r = wrapper_ContentType r"

definition cat_TableExistsWrapper :: result_fields where
  "cat_TableExistsWrapper =
     [(''JSON400'', cat_BadRequestErrorResponse),
      (''JSON401'', cat_UnauthorizedResponse),
      (''JSON403'', cat_ForbiddenResponse),
      (''JSON404'', cat_IcebergErrorResponse),
      (''JSON419'', cat_AuthenticationTimeoutResponse),
      (''JSON503'', cat_ServiceUnavailableResponse),
      (''JSON5XX'', cat_ServerErrorResponse)]"

definition cat_TableExistsWrapper_Status :: "http_lib \<Rightarrow> http_wrapper \<Rightarrow> string" where
  "cat_TableExistsWrapper_Status L r = wrapper_Status L r"

definition cat_TableExistsWrapper_StatusCode :: "http_wrapper \<Rightarrow> int" where
  "cat_TableExistsWrapper_StatusCode r = wrapper_StatusCode r"

definition cat_TableExistsWrapper_ContentType :: "http_wrapper \<Rightarrow> string" where
  "cat_TableExistsWrapper_ContentType r = wrapper_ContentType r"

definition cat_UpdateTableWrapper :: result_fields where
  "cat_UpdateTableWrapper =
     [(''JSON200'', cat_CommitTableResponse),
      (''JSON400'', cat_BadRequestErrorResponse),
      (''JSON401'', cat_UnauthorizedResponse),
      (''JSON403'', cat_ForbiddenResponse),
      (''JSON404'', cat_IcebergErrorResponse),
      (''JSON409'', cat_IcebergErrorResponse),
      (''JSON419'', cat_AuthenticationTimeoutResponse),
      (''JSON500'', cat_IcebergErrorResponse),
      (''JSON502'', cat_IcebergErrorResponse),
      (''JSON503'', cat_ServiceUnavailableResponse),
      (''JSON504'', cat_IcebergErrorResponse),
      (''JSON5XX'', cat_IcebergErrorResponse)]"

definition cat_UpdateTableWrapper_Status :: "http_lib \<Rightarrow> http_wrapper \<Rightarrow> string" where
  "cat_UpdateTableWrapper_Status L r = wrapper_Status L r"

definition cat_UpdateTableWrapper_StatusCode :: "http_wrapper \<Rightarrow> int" where
  "cat_UpdateTableWrapper_StatusCode r = wrapper_StatusCode r"

definition cat_UpdateTableWrapper_ContentType :: "http_wrapper \<Rightarrow> string" where
  "cat_UpdateTableWrapper_ContentType r = wrapper_ContentType r"

definition cat_LoadCredentialsWrapper :: result_fields where
  "cat_LoadCredentialsWrapper =
     [(''JSON200'', cat_LoadCredentialsResponse),
      (''JSON400'', cat_BadRequestErrorResponse),
      (''JSON401'', cat_UnauthorizedResponse),
      (''JSON403'', cat_ForbiddenResponse),
      (''JSON404'', cat_IcebergErrorResponse),
      (''JSON419'', cat_AuthenticationTimeoutResponse),
      (''JSON503'', cat_ServiceUnavailableResponse),
      (''JSON5XX'', cat_ServerErrorResponse)]"

definition cat_LoadCredentialsWrapper_Status :: "http_lib \<Rightarrow> http_wrapper \<Rightarrow> string" where
  "cat_LoadCredentialsWrapper_Status L r = wrapper_Status L r"

definition cat_LoadCredentialsWrapper_StatusCode :: "http_wrapper \<Rightarrow> int" where
  "cat_LoadCredentialsWrapper_StatusCode r = wrapper_StatusCode r"

definition cat_LoadCredentialsWrapper_ContentType :: "http_wrapper \<Rightarrow> string" where
  "cat_LoadCredentialsWrapper_ContentType r = wrapper_ContentType r"

definition cat_ReportMetricsWrapper :: result_fields where
  "cat_ReportMetricsWrapper =
     [(''JSON400'', cat_BadRequestErrorResponse),
      (''JSON401'', cat_UnauthorizedResponse),
      (''JSON403'', cat_ForbiddenResponse),
      (''JSON404'', cat_IcebergErrorResponse),
      (''JSON419'', cat_AuthenticationTimeoutResponse),
      (''JSON503'', cat_ServiceUnavailableResponse),
      (''JSON5XX'', cat_ServerErrorResponse)]"

definition cat_ReportMetricsWrapper_Status :: "http_lib \<Rightarrow> http_wrapper \<Rightarrow> string" where
  "cat_ReportMetricsWrapper_Status L r = wrapper_Status L r"

definition cat_ReportMetricsWrapper_StatusCode :: "http_wrapper \<Rightarrow> int" where
  "cat_ReportMetricsWrapper_StatusCode r = wrapper_StatusCode r"

definition cat_ReportMetricsWrapper_ContentType :: "http_wrapper \<Rightarrow> string" where
  "cat_ReportMetricsWrapper_ContentType r = wrapper_ContentType r"

definition cat_SendNotificationWrapper :: result_fields where
  "cat_SendNotificationWrapper =
     [(''JSON400'', cat_BadRequestErrorResponse),
      (''JSON401'', cat_UnauthorizedResponse),
      (''JSON403'', cat_ForbiddenResponse),
      (''JSON404'', cat_IcebergErrorResponse),
      (''JSON409'', cat_IcebergErrorResponse),
      (''JSON419'', cat_AuthenticationTimeoutResponse),
      (''JSON503'', cat_ServiceUnavailableResponse),
      (''JSON5XX'', cat_ServerErrorResponse)]"

definition cat_SendNotificationWrapper_Status :: "http_lib \<Rightarrow> http_wrapper \<Rightarrow> string" where
  "cat_SendNotificationWrapper_Status L r = wrapper_Status L r"

definition cat_SendNotificationWrapper_StatusCode :: "http_wrapper \<Rightarrow> int" where
  "cat_SendNotificationWrapper_StatusCode r = wrapper_StatusCode r"

definition cat_SendNotificationWrapper_ContentType :: "http_wrapper \<Rightarrow> string" where
  "cat_SendNotificationWrapper_ContentType r = wrapper_ContentType r"

definition cat_ListViewsWrapper :: result_fields where
  "cat_ListViewsWrapper =
     [(''JSON200'', cat_ListTablesResponse),
      (''JSON400'', cat_BadRequestErrorResponse),
      (''JSON401'', cat_UnauthorizedResponse),
      (''JSON403'', cat_ForbiddenResponse),
      (''JSON404'', cat_ErrorModel),
      (''JSON419'', cat_AuthenticationTimeoutResponse),
      (''JSON503'', cat_ServiceUnavailableResponse),
      (''JSON5XX'', cat_ServerErrorResponse)]"

definition cat_ListViewsWrapper_Status :: "http_lib \<Rightarrow> http_wrapper \<Rightarrow> string" where
  "cat_ListViewsWrapper_Status L r = wrapper_Status L r"

definition cat_ListViewsWrapper_StatusCode :: "http_wrapper \<Rightarrow> int" where
  "cat_ListViewsWrapper_StatusCode r = wrapper_StatusCode r"

definition cat_ListViewsWrapper_ContentType :: "http_wrapper \<Rightarrow> string" where
  "cat_ListViewsWrapper_ContentType r = wrapper_ContentType r"

definition cat_CreateViewWrapper :: result_fields where
  "cat_CreateViewWrapper =
     [(''JSON200'', cat_LoadViewResponse),
      (''JSON400'', cat_BadRequestErrorResponse),
      (''JSON401'', cat_UnauthorizedResponse),
      (''JSON403'', cat_ForbiddenResponse),
      (''JSON404'', cat_ErrorModel),
      (''JSON409'', cat_ErrorModel),
      (''JSON419'', cat_AuthenticationTimeoutResponse),
      (''JSON503'', cat_ServiceUnavailableResponse),
      (''JSON5XX'', cat_ServerErrorResponse)]"

definition cat_CreateViewWrapper_Status :: "http_lib \<Rightarrow> http_wrapper \<Rightarrow> string" where
  "cat_CreateViewWrapper_Status L r = wrapper_Status L r"

definition cat_CreateViewWrapper_StatusCode :: "http_wrapper \<Rightarrow> int" where
  "cat_CreateViewWrapper_StatusCode r = wrapper_StatusCode r"

definition cat_CreateViewWrapper_ContentType :: "http_wrapper \<Rightarrow> string" where
  "cat_CreateViewWrapper_ContentType r = wrapper_ContentType r"

definition cat_DropViewWrapper :: result_fields where
  "cat_DropViewWrapper =
     [(''JSON400'', cat_BadRequestErrorResponse),
      (''JSON401'', cat_UnauthorizedResponse),
      (''JSON403'', cat_ForbiddenResponse),
      (''JSON404'', cat_ErrorModel),
      (''JSON419'', cat_AuthenticationTimeoutResponse),
      (''JSON503'', cat_ServiceUnavailableResponse),
      (''JSON5XX'', cat_ServerErrorResponse)]"

definition cat_DropViewWrapper_Status :: "http_lib \<Rightarrow> http_wrapper \<Rightarrow> string" where
  "cat_DropViewWrapper_Status L r = wrapper_Status L r"

definition cat_DropViewWrapper_StatusCode :: "http_wrapper \<Rightarrow> int" where
  "cat_DropViewWrapper_StatusCode r = wrapper_StatusCode r"

definition cat_DropViewWrapper_ContentType :: "http_wrapper \<Rightarrow> string" where
  "cat_DropViewWrapper_ContentType r = wrapper_ContentType r"

definition cat_LoadViewWrapper :: result_fields where
  "cat_LoadViewWrapper =
     [(''JSON200'', cat_LoadViewResponse),
      (''JSON400'', cat_BadRequestErrorResponse),
      (''JSON401'', cat_UnauthorizedResponse),
      (''JSON403'', cat_ForbiddenResponse),
      (''JSON404'', cat_ErrorModel),
      (''JSON419'', cat_AuthenticationTimeoutResponse),
      (''JSON503'', cat_ServiceUnavailableResponse),
      (''JSON5XX'', cat_ServerErrorResponse)]"

definition cat_LoadViewWrapper_Status :: "http_lib \<Rightarrow> http_wrapper \<Rightarrow> string" where
  "cat_LoadViewWrapper_Status L r = wrapper_Status L r"

definition cat_LoadViewWrapper_StatusCode :: "http_wrapper \<Rightarrow> int" where
  "cat_LoadViewWrapper_StatusCode r = wrapper_StatusCode r"

definition cat_LoadViewWrapper_ContentType :: "http_wrapper \<Rightarrow> string" where
  "cat_LoadViewWrapper_ContentType r = wrapper_ContentType r"

definition cat_ViewExistsWrapper :: result_fields where
  "cat_ViewExistsWrapper =
     [(''JSON419'', cat_AuthenticationTimeoutResponse),
      (''JSON503'', cat_ServiceUnavailableResponse),
      (''JSON5XX'', cat_ServerErrorResponse)]"

definition cat_ViewExistsWrapper_Status :: "http_lib \<Rightarrow> http_wrapper \<Rightarrow> string" where
  "cat_ViewExistsWrapper_Status L r = wrapper_Status L r"

definition cat_ViewExistsWrapper_StatusCode :: "http_wrapper \<Rightarrow> int" where
  "cat_ViewExistsWrapper_StatusCode r = wrapper_StatusCode r"

definition cat_ViewExistsWrapper_ContentType :: "http_wrapper \<Rightarrow> string" where
  "cat_ViewExistsWrapper_ContentType r = wrapper_ContentType r"

definition cat_ReplaceViewWrapper :: result_fields where
  "cat_ReplaceViewWrapper =
     [(''JSON200'', cat_LoadViewResponse),
      (''JSON400'', cat_BadRequestErrorResponse),
      (''JSON401'', cat_UnauthorizedResponse),
      (''JSON403'', cat_ForbiddenResponse),
      (''JSON404'', cat_ErrorModel),
      (''JSON409'', cat_ErrorModel),
      (''JSON419'', cat_AuthenticationTimeoutResponse),
      (''JSON500'', cat_ErrorModel),
      (''JSON502'', cat_ErrorModel),
      (''JSON503'', cat_ServiceUnavailableResponse),
      (''JSON504'', cat_ErrorModel),
      (''JSON5XX'', cat_ErrorModel)]"

definition cat_ReplaceViewWrapper_Status :: "http_lib \<Rightarrow> http_wrapper \<Rightarrow> string" where
  "cat_ReplaceViewWrapper_Status L r = wrapper_Status L r"

definition cat_ReplaceViewWrapper_StatusCode :: "http_wrapper \<Rightarrow> int" where
  "cat_ReplaceViewWrapper_StatusCode r = wrapper_StatusCode r"

definition cat_ReplaceViewWrapper_ContentType :: "http_wrapper \<Rightarrow> string" where
  "cat_ReplaceViewWrapper_ContentType r = wrapper_ContentType r"

definition cat_RenameTableWrapper :: result_fields where
  "cat_RenameTableWrapper =
     [(''JSON400'', cat_BadRequestErrorResponse),
      (''JSON401'', cat_UnauthorizedResponse),
      (''JSON403'', cat_ForbiddenResponse),
      (''JSON404'', cat_IcebergErrorResponse),
      (''JSON406'', cat_UnsupportedOperationResponse),
      (''JSON409'', cat_IcebergErrorResponse),
      (''JSON419'', cat_AuthenticationTimeoutResponse),
      (''JSON503'', cat_ServiceUnavailableResponse),
      (''JSON5XX'', cat_ServerErrorResponse)]"

definition cat_RenameTableWrapper_Status :: "http_lib \<Rightarrow> http_wrapper \<Rightarrow> string" where
  "cat_RenameTableWrapper_Status L r = wrapper_Status L r"

definition cat_RenameTableWrapper_StatusCode :: "http_wrapper \<Rightarrow> int" where
  "cat_RenameTableWrapper_StatusCode r = wrapper_StatusCode r"

definition cat_RenameTableWrapper_ContentType :: "http_wrapper \<Rightarrow> string" where
  "cat_RenameTableWrapper_ContentType r = wrapper_ContentType r"

definition cat_CommitTransactionWrapper :: result_fields where
  "cat_CommitTransactionWrapper =
     [(''JSON400'', cat_BadRequestErrorResponse),
      (''JSON401'', cat_UnauthorizedResponse),
      (''JSON403'', cat_ForbiddenResponse),
      (''JSON404'', cat_IcebergErrorResponse),
      (''JSON409'', cat_IcebergErrorResponse),
      (''JSON419'', cat_AuthenticationTimeoutResponse),
      (''JSON500'', cat_IcebergErrorResponse),
      (''JSON502'', cat_IcebergErrorResponse),
      (''JSON503'', cat_ServiceUnavailableResponse),
      (''JSON504'', cat_IcebergErrorResponse),
      (''JSON5XX'', cat_IcebergErrorResponse)]"

definition cat_CommitTransactionWrapper_Status :: "http_lib \<Rightarrow> http_wrapper \<Rightarrow> string" where
  "cat_CommitTransactionWrapper_Status L r = wrapper_Status L r"

definition cat_CommitTransactionWrapper_StatusCode :: "http_wrapper \<Rightarrow> int" where
  "cat_CommitTransactionWrapper_StatusCode r = wrapper_StatusCode r"

definition cat_CommitTransactionWrapper_ContentType :: "http_wrapper \<Rightarrow> string" where
  "cat_CommitTransactionWrapper_ContentType r = wrapper_ContentType r"

definition cat_RenameViewWrapper :: result_fields where
  "cat_RenameViewWrapper =
     [(''JSON400'', cat_BadRequestErrorResponse),
      (''JSON401'', cat_UnauthorizedResponse),
      (''JSON403'', cat_ForbiddenResponse),
      (''JSON404'', cat_ErrorModel),
      (''JSON406'', cat_UnsupportedOperationResponse),
      (''JSON409'', cat_ErrorModel),
      (''JSON419'', cat_AuthenticationTimeoutResponse),
      (''JSON503'', cat_ServiceUnavailableResponse),
      (''JSON5XX'', cat_ServerErrorResponse)]"

definition cat_RenameViewWrapper_Status :: "http_lib \<Rightarrow> http_wrapper \<Rightarrow> string" where
  "cat_RenameViewWrapper_Status L r = wrapper_Status L r"

definition cat_RenameViewWrapper_StatusCode :: "http_wrapper \<Rightarrow> int" where
  "cat_RenameViewWrapper_StatusCode r = wrapper_StatusCode r"

definition cat_RenameViewWrapper_ContentType :: "http_wrapper \<Rightarrow> string" where
  "cat_RenameViewWrapper_ContentType r = wrapper_ContentType r"

definition cat_ParseGetApplicablePoliciesWrapper :: "http_lib \<Rightarrow> http_response \<Rightarrow> goerr + http_wrapper" where
  "cat_ParseGetApplicablePoliciesWrapper L = parse_response L
     [(Code 200, ''JSON200'', cat_GetApplicablePoliciesResponse),
      (Code 400, ''JSON400'', cat_BadRequestErrorResponse),
      (Code 401, ''JSON401'', cat_UnauthorizedResponse),
      (Code 403, ''JSON403'', cat_ForbiddenResponse),
      (Code 404, ''JSON404'', cat_IcebergErrorResponse),
      (Code 503, ''JSON503'', cat_ServiceUnavailableResponse),
      (Class 5, ''JSON5XX'', cat_ServerErrorResponse)]"

definition cat_ParseListPoliciesWrapper :: "http_lib \<Rightarrow> http_response \<Rightarrow> goerr + http_wrapper" where
  "cat_ParseListPoliciesWrapper L = parse_response L
     [(Code 200, ''JSON200'', cat_ListPoliciesResponse),
      (Code 400, ''JSON400'', cat_BadRequestErrorResponse),
      (Code 401, ''JSON401'', cat_UnauthorizedResponse),
      (Code 403, ''JSON403'', cat_ForbiddenResponse),
      (Code 404, ''JSON404'', cat_IcebergErrorResponse),
      (Code 503, ''JSON503'', cat_ServiceUnavailableResponse),
      (Class 5, ''JSON5XX'', cat_ServerErrorResponse)]"

definition cat_ParseCreatePolicyWrapper :: "http_lib \<Rightarrow> http_response \<Rightarrow> goerr + http_wrapper" where
  "cat_ParseCreatePolicyWrapper L = parse_response L
     [(Code 200, ''JSON200'', cat_CreatePolicyResponse),
      (Code 400, ''JSON400'', cat_BadRequestErrorResponse),
      (Code 401, ''JSON401'', cat_UnauthorizedResponse),
      (Code 403, ''JSON403'', cat_ForbiddenResponse),
      (Code 404, ''JSON404'', cat_IcebergErrorResponse),
      (Code 409, ''JSON409'', cat_IcebergErrorResponse),
      (Code 503, ''JSON503'', cat_ServiceUnavailableResponse),
      (Class 5, ''JSON5XX'', cat_ServerErrorResponse)]"

definition cat_ParseDropPolicyWrapper :: "http_lib \<Rightarrow> http_response \<Rightarrow> goerr + http_wrapper" where
  "cat_ParseDropPolicyWrapper L = parse_response L
     [(Code 400, ''JSON400'', cat_IcebergErrorResponse),
      (Code 401, ''JSON401'', cat_UnauthorizedResponse),
      (Code 403, ''JSON403'', cat_ForbiddenResponse),
      (Code 404, ''JSON404'', cat_IcebergErrorResponse),
      (Code 503, ''JSON503'', cat_ServiceUnavailableResponse),
      (Class 5, ''JSON5XX'', cat_ServerErrorResponse)]"

definition cat_ParseLoadPolicyWrapper :: "http_lib \<Rightarrow> http_response \<Rightarrow> goerr + http_wrapper" where
  "cat_ParseLoadPolicyWrapper L = parse_response L
     [(Code 200, ''JSON200'', cat_LoadPolicyResponse),
      (Code 400, ''JSON400'', cat_BadRequestErrorResponse),
      (Code 401, ''JSON401'', cat_UnauthorizedResponse),
      (Code 403, ''JSON403'', cat_ForbiddenResponse),
      (Code 404, ''JSON404'', cat_IcebergErrorResponse),
      (Code 503, ''JSON503'', cat_ServiceUnavailableResponse),
      (Class 5, ''JSON5XX'', cat_ServerErrorResponse)]"

definition cat_ParseUpdatePolicyWrapper :: "http_lib \<Rightarrow> http_response \<Rightarrow> goerr + http_wrapper" where
  "cat_ParseUpdatePolicyWrapper L = parse_response L
     [(Code 200, ''JSON200'', cat_UpdatePolicyResponse),
      (Code 400, ''JSON400'', cat_BadRequestErrorResponse),
      (Code 401, ''JSON401'', cat_UnauthorizedResponse),
      (Code 403, ''JSON403'', cat_ForbiddenResponse),
      (Code 404, ''JSON404'', cat_IcebergErrorResponse),
      (Code 409, ''JSON409'', cat_IcebergErrorResponse),
      (Code 503, ''JSON503'', cat_ServiceUnavailableResponse),
      (Class 5, ''JSON5XX'', cat_ServerErrorResponse)]"

definition cat_ParseDetachPolicyWrapper :: "http_lib \<Rightarrow> http_response \<Rightarrow> goerr + http_wrapper" where
  "cat_ParseDetachPolicyWrapper L = parse_response L
     [(Code 400, ''JSON400'', cat_BadRequestErrorResponse),
      (Code 401, ''JSON401'', cat_UnauthorizedResponse),
      (Code 403, ''JSON403'', cat_ForbiddenResponse),
      (Code 404, ''JSON404'', cat_IcebergErrorResponse),
      (Code 503, ''JSON503'', cat_ServiceUnavailableResponse),
      (Class 5, ''JSON5XX'', cat_ServerErrorResponse)]"

definition cat_ParseAttachPolicyWrapper :: "http_lib \<Rightarrow> http_response \<Rightarrow> goerr + http_wrapper" where
  "cat_ParseAttachPolicyWrapper L = parse_response L
     [(Code 400, ''JSON400'', cat_BadRequestErrorResponse),
      (Code 401, ''JSON401'', cat_UnauthorizedResponse),
      (Code 403, ''JSON403'', cat_ForbiddenResponse),
      (Code 404, ''JSON404'', cat_IcebergErrorResponse),
      (Code 409, ''JSON409'', cat_IcebergErrorResponse),
      (Code 503, ''JSON503'', cat_ServiceUnavailableResponse),
      (Class 5, ''JSON5XX'', cat_ServerErrorResponse)]"

definition cat_ParseGetConfigWrapper :: "http_lib \<Rightarrow> http_response \<Rightarrow> goerr + http_wrapper" where
  "cat_ParseGetConfigWrapper L = parse_response L
     [(Code 200, ''JSON200'', cat_CatalogConfig),
      (Code 400, ''JSON400'', cat_BadRequestErrorResponse),
      (Code 401, ''JSON401'', cat_UnauthorizedResponse),
      (Code 403, ''JSON403'', cat_ForbiddenResponse),
      (Code 419, ''JSON419'', cat_AuthenticationTimeoutResponse),
      (Code 503, ''JSON503'', cat_ServiceUnavailableResponse),
      (Class 5, ''JSON5XX'', cat_ServerErrorResponse)]"

definition cat_ParseGetTokenWrapper :: "http_lib \<Rightarrow> http_response \<Rightarrow> goerr + http_wrapper" where
  "cat_ParseGetTokenWrapper L = parse_response L
     [(Code 200, ''JSON200'', cat_OAuthTokenResponse),
      (Code 400, ''JSON400'', cat_OAuthErrorResponse),
      (Code 401, ''JSON401'', cat_OAuthErrorResponse),
      (Class 5, ''JSON5XX'', cat_OAuthErrorResponse)]"

definition cat_ParseListNamespacesWrapper :: "http_lib \<Rightarrow> http_response \<Rightarrow> goerr + http_wrapper" where
  "cat_ParseListNamespacesWrapper L = parse_response L
     [(Code 200, ''JSON200'', cat_ListNamespacesResponse),
      (Code 400, ''JSON400'', cat_BadRequestErrorResponse),
      (Code 401, ''JSON401'', cat_UnauthorizedResponse),
      (Code 403, ''JSON403'', cat_ForbiddenResponse),
      (Code 404, ''JSON404'', cat_IcebergErrorResponse),
      (Code 419, ''JSON419'', cat_AuthenticationTimeoutResponse),
      (Code 503, ''JSON503'', cat_ServiceUnavailableResponse),
      (Class 5, ''JSON5XX'', cat_ServerErrorResponse)]"

definition cat_ParseCreateNamespaceWrapper :: "http_lib \<Rightarrow> http_response \<Rightarrow> goerr + http_wrapper" where
  "cat_ParseCreateNamespaceWrapper L = parse_response L
     [(Code 200, ''JSON200'', cat_CreateNamespaceResponse),
      (Code 400, ''JSON400'', cat_BadRequestErrorResponse),
      (Code 401, ''JSON401'', cat_UnauthorizedResponse),
      (Code 403, ''JSON403'', cat_ForbiddenResponse),
      (Code 406, ''JSON406'', cat_UnsupportedOperationResponse),
      (Code 409, ''JSON409'', cat_IcebergErrorResponse),
      (Code 419, ''JSON419'', cat_AuthenticationTimeoutResponse),
      (Code 503, ''JSON503'', cat_ServiceUnavailableResponse),
      (Class 5, ''JSON5XX'', cat_ServerErrorResponse)]"

definition cat_ParseDropNamespaceWrapper :: "http_lib \<Rightarrow> http_response \<Rightarrow> goerr + http_wrapper" where
  "cat_ParseDropNamespaceWrapper L = parse_response L
     [(Code 400, ''JSON400'', cat_BadRequestErrorResponse),
      (Code 401, ''JSON401'', cat_UnauthorizedResponse),
      (Code 403, ''JSON403'', cat_ForbiddenResponse),
      (Code 404, ''JSON404'', cat_IcebergErrorResponse),
      (Code 409, ''JSON409'', cat_IcebergErrorResponse),
      (Code 419, ''JSON419'', cat_AuthenticationTimeoutResponse),
      (Code 503, ''JSON503'', cat_ServiceUnavailableResponse),
      (Class 5, ''JSON5XX'', cat_ServerErrorResponse)]"

definition cat_ParseLoadNamespaceMetadataWrapper :: "http_lib \<Rightarrow> http_response \<Rightarrow> goerr + http_wrapper" where
  "cat_ParseLoadNamespaceMetadataWrapper L = parse_response L
     [(Code 200, ''JSON200'', cat_GetNamespaceResponse),
      (Code 400, ''JSON400'', cat_BadRequestErrorResponse),
      (Code 401, ''JSON401'', cat_UnauthorizedResponse),
      (Code 403, ''JSON403'', cat_ForbiddenResponse),
      (Code 404, ''JSON404'', cat_IcebergErrorResponse),
      (Code 419, ''JSON419'', cat_AuthenticationTimeoutResponse),
      (Code 503, ''JSON503'', cat_ServiceUnavailableResponse),
      (Class 5, ''JSON5XX'', cat_ServerErrorResponse)]"

definition cat_ParseNamespaceExistsWrapper :: "http_lib \<Rightarrow> http_response \<Rightarrow> goerr + http_wrapper" where
  "cat_ParseNamespaceExistsWrapper L = parse_response L
     [(Code 400, ''JSON400'', cat_BadRequestErrorResponse),
      (Code 401, ''JSON401'', cat_UnauthorizedResponse),
      (Code 403, ''JSON403'', cat_ForbiddenResponse),
      (Code 404, ''JSON404'', cat_IcebergErrorResponse),
      (Code 419, ''JSON419'', cat_AuthenticationTimeoutResponse),
      (Code 503, ''JSON503'', cat_ServiceUnavailableResponse),
      (Class 5, ''JSON5XX'', cat_ServerErrorResponse)]"

definition cat_ParseUpdatePropertiesWrapper :: "http_lib \<Rightarrow> http_response \<Rightarrow> goerr + http_wrapper" where
  "cat_ParseUpdatePropertiesWrapper L = parse_response L
     [(Code 200, ''JSON200'', cat_UpdateNamespacePropertiesResponse),
      (Code 400, ''JSON400'', cat_BadRequestErrorResponse),
      (Code 401, ''JSON401'', cat_UnauthorizedResponse),
      (Code 403, ''JSON403'', cat_ForbiddenResponse),
      (Code 404, ''JSON404'', cat_IcebergErrorResponse),
      (Code 406, ''JSON406'', cat_UnsupportedOperationResponse),
      (Code 419, ''JSON419'', cat_AuthenticationTimeoutResponse),
      (Code 422, ''JSON422'', cat_IcebergErrorResponse),
      (Code 503, ''JSON503'', cat_ServiceUnavailableResponse),
      (Class 5, ''JSON5XX'', cat_ServerErrorResponse)]"

definition cat_ParseRegisterTableWrapper :: "http_lib \<Rightarrow> http_response \<Rightarrow> goerr + http_wrapper" where
  "cat_ParseRegisterTableWrapper L = parse_response L
     [(Code 200, ''JSON200'', cat_LoadTableResponse),
      (Code 400, ''JSON400'', cat_BadRequestErrorResponse),
      (Code 401, ''JSON401'', cat_UnauthorizedResponse),
      (Code 403, ''JSON403'', cat_ForbiddenResponse),
      (Code 404, ''JSON404'', cat_IcebergErrorResponse),
      (Code 409, ''JSON409'', cat_IcebergErrorResponse),
      (Code 419, ''JSON419'', cat_AuthenticationTimeoutResponse),
      (Code 503, ''JSON503'', cat_ServiceUnavailableResponse),
      (Class 5, ''JSON5XX'', cat_ServerErrorResponse)]"

definition cat_ParseListTablesWrapper :: "http_lib \<Rightarrow> http_response \<Rightarrow> goerr + http_wrapper" where
  "cat_ParseListTablesWrapper L = parse_response L
     [(Code 200, ''JSON200'', cat_ListTablesResponse),
      (Code 400, ''JSON400'', cat_BadRequestErrorResponse),
      (Code 401, ''JSON401'', cat_UnauthorizedResponse),
      (Code 403, ''JSON403'', cat_ForbiddenResponse),
      (Code 404, ''JSON404'', cat_IcebergErrorResponse),
      (Code 419, ''JSON419'', cat_AuthenticationTimeoutResponse),
      (Code 503, ''JSON503'', cat_ServiceUnavailableResponse),
      (Class 5, ''JSON5XX'', cat_ServerErrorResponse)]"

definition cat_ParseCreateTableWrapper :: "http_lib \<Rightarrow> http_response \<Rightarrow> goerr + http_wrapper" where
  "cat_ParseCreateTableWrapper L = parse_response L
     [(Code 200, ''JSON200'', cat_CreateTableResponse),
      (Code 400, ''JSON400'', cat_BadRequestErrorResponse),
      (Code 401, ''JSON401'', cat_UnauthorizedResponse),
      (Code 403, ''JSON403'', cat_ForbiddenResponse),
      (Code 404, ''JSON404'', cat_IcebergErrorResponse),
      (Code 409, ''JSON409'', cat_IcebergErrorResponse),
      (Code 419, ''JSON419'', cat_AuthenticationTimeoutResponse),
      (Code 503, ''JSON503'', cat_ServiceUnavailableResponse),
      (Class 5, ''JSON5XX'', cat_ServerErrorResponse)]"

definition cat_ParseDropTableWrapper :: "http_lib \<Rightarrow> http_response \<Rightarrow> goerr + http_wrapper" where
  "cat_ParseDropTableWrapper L = parse_response L
     [(Code 400, ''JSON400'', cat_BadRequestErrorResponse),
      (Code 401, ''JSON401'', cat_UnauthorizedResponse),
      (Code 403, ''JSON403'', cat_ForbiddenResponse),
      (Code 404, ''JSON404'', cat_IcebergErrorResponse),
      (Code 419, ''JSON419'', cat_AuthenticationTimeoutResponse),
      (Code 503, ''JSON503'', cat_ServiceUnavailableResponse),
      (Class 5, ''JSON5XX'', cat_ServerErrorResponse)]"

definition cat_ParseLoadTableWrapper :: "http_lib \<Rightarrow> http_response \<Rightarrow> goerr + http_wrapper" where
  "cat_ParseLoadTableWrapper L = parse_response L
     [(Code 200, ''JSON200'', cat_LoadTableResponse),
      (Code 400, ''JSON400'', cat_BadRequestErrorResponse),
      (Code 401, ''JSON401'', cat_UnauthorizedResponse),
      (Code 403, ''JSON403'', cat_ForbiddenResponse),
      (Code 404, ''JSON404'', cat_IcebergErrorResponse),
      (Code 419, ''JSON419'', cat_AuthenticationTimeoutResponse),
      (Code 503, ''JSON503'', cat_ServiceUnavailableResponse),
      (Class 5, ''JSON5XX'', cat_ServerErrorResponse)]"

definition cat_ParseTableExistsWrapper :: "http_lib \<Rightarrow> http_response \<Rightarrow> goerr + http_wrapper" where
  "cat_ParseTableExistsWrapper L = parse_response L
     [(Code 400, ''JSON400'', cat_BadRequestErrorResponse),
      (Code 401, ''JSON401'', cat_UnauthorizedResponse),
      (Code 403, ''JSON403'', cat_ForbiddenResponse),
      (Code 404, ''JSON404'', cat_IcebergErrorResponse),
      (Code 419, ''JSON419'', cat_AuthenticationTimeoutResponse),
      (Code 503, ''JSON503'', cat_ServiceUnavailableResponse),
      (Class 5, ''JSON5XX'', cat_ServerErrorResponse)]"

definition cat_ParseUpdateTableWrapper :: "http_lib \<Rightarrow> http_response \<Rightarrow> goerr + http_wrapper" where
  "cat_ParseUpdateTableWrapper L = parse_response L
     [(Code 200, ''JSON200'', cat_CommitTableResponse),
      (Code 400, ''JSON400'', cat_BadRequestErrorResponse),
      (Code 401, ''JSON401'', cat_UnauthorizedResponse),
      (Code 403, ''JSON403'', cat_ForbiddenResponse),
      (Code 404, ''JSON404'', cat_IcebergErrorResponse),
      (Code 409, ''JSON409'', cat_IcebergErrorResponse),
      (Code 419, ''JSON419'', cat_AuthenticationTimeoutResponse),
      (Code 500, ''JSON500'', cat_IcebergErrorResponse),
      (Code 502, ''JSON502'', cat_IcebergErrorResponse),
      (Code 503, ''JSON503'', cat_ServiceUnavailableResponse),
      (Code 504, ''JSON504'', cat_IcebergErrorResponse),
      (Class 5, ''JSON5XX'', cat_IcebergErrorResponse)]"

definition cat_ParseLoadCredentialsWrapper :: "http_lib \<Rightarrow> http_response \<Rightarrow> goerr + http_wrapper" where
  "cat_ParseLoadCredentialsWrapper L = parse_response L
     [(Code 200, ''JSON200'', cat_LoadCredentialsResponse),
      (Code 400, ''JSON400'', cat_BadRequestErrorResponse),
      (Code 401, ''JSON401'', cat_UnauthorizedResponse),
      (Code 403, ''JSON403'', cat_ForbiddenResponse),
      (Code 404, ''JSON404'', cat_IcebergErrorResponse),
      (Code 419, ''JSON419'', cat_AuthenticationTimeoutResponse),
      (Code 503, ''JSON503'', cat_ServiceUnavailableResponse),
      (Class 5, ''JSON5XX'', cat_ServerErrorResponse)]"

definition cat_ParseReportMetricsWrapper :: "http_lib \<Rightarrow> http_response \<Rightarrow> goerr + http_wrapper" where
  "cat_ParseReportMetricsWrapper L = parse_response L
     [(Code 400, ''JSON400'', cat_BadRequestErrorResponse),
      (Code 401, ''JSON401'', cat_UnauthorizedResponse),
      (Code 403, ''JSON403'', cat_ForbiddenResponse),
      (Code 404, ''JSON404'', cat_IcebergErrorResponse),
      (Code 419, ''JSON419'', cat_AuthenticationTimeoutResponse),
      (Code 503, ''JSON503'', cat_ServiceUnavailableResponse),
      (Class 5, ''JSON5XX'', cat_ServerErrorResponse)]"

definition cat_ParseSendNotificationWrapper :: "http_lib \<Rightarrow> http_response \<Rightarrow> goerr + http_wrapper" where
  "cat_ParseSendNotificationWrapper L = parse_response L
     [(Code 400, ''JSON400'', cat_BadRequestErrorResponse),
      (Code 401, ''JSON401'', cat_UnauthorizedResponse),
      (Code 403, ''JSON403'', cat_ForbiddenResponse),
      (Code 404, ''JSON404'', cat_IcebergErrorResponse),
      (Code 409, ''JSON409'', cat_IcebergErrorResponse),
      (Code 419, ''JSON419'', cat_AuthenticationTimeoutResponse),
      (Code 503, ''JSON503'', cat_ServiceUnavailableResponse),
      (Class 5, ''JSON5XX'', cat_ServerErrorResponse)]"

definition cat_ParseListViewsWrapper :: "http_lib \<Rightarrow> http_response \<Rightarrow> goerr + http_wrapper" where
  "cat_ParseListViewsWrapper L = parse_response L
     [(Code 200, ''JSON200'', cat_ListTablesResponse),
      (Code 400, ''JSON400'', cat_BadRequestErrorResponse),
      (Code 401, ''JSON401'', cat_UnauthorizedResponse),
      (Code 403, ''JSON403'', cat_ForbiddenResponse),
      (Code 404, ''JSON404'', cat_ErrorModel),
      (Code 419, ''JSON419'', cat_AuthenticationTimeoutResponse),
      (Code 503, ''JSON503'', cat_ServiceUnavailableResponse),
      (Class 5, ''JSON5XX'', cat_ServerErrorResponse)]"

definition cat_ParseCreateViewWrapper :: "http_lib \<Rightarrow> http_response \<Rightarrow> goerr + http_wrapper" where
  "cat_ParseCreateViewWrapper L = parse_response L
     [(Code 200, ''JSON200'', cat_LoadViewResponse),
      (Code 400, ''JSON400'', cat_BadRequestErrorResponse),
      (Code 401, ''JSON401'', cat_UnauthorizedResponse),
      (Code 403, ''JSON403'', cat_ForbiddenResponse),
      (Code 404, ''JSON404'', cat_ErrorModel),
      (Code 409, ''JSON409'', cat_ErrorModel),
      (Code 419, ''JSON419'', cat_AuthenticationTimeoutResponse),
      (Code 503, ''JSON503'', cat_ServiceUnavailableResponse),
      (Class 5, ''JSON5XX'', cat_ServerErrorResponse)]"

definition cat_ParseDropViewWrapper :: "http_lib \<Rightarrow> http_response \<Rightarrow> goerr + http_wrapper" where
  "cat_ParseDropViewWrapper L = parse_response L
     [(Code 400, ''JSON400'', cat_BadRequestErrorResponse),
      (Code 401, ''JSON401'', cat_UnauthorizedResponse),
      (Code 403, ''JSON403'', cat_ForbiddenResponse),
      (Code 404, ''JSON404'', cat_ErrorModel),
      (Code 419, ''JSON419'', cat_AuthenticationTimeoutResponse),
      (Code 503, ''JSON503'', cat_ServiceUnavailableResponse),
      (Class 5, ''JSON5XX'', cat_ServerErrorResponse)]"

definition cat_ParseLoadViewWrapper :: "http_lib \<Rightarrow> http_response \<Rightarrow> goerr + http_wrapper" where
  "cat_ParseLoadViewWrapper L = parse_response L
     [(Code 200, ''JSON200'', cat_LoadViewResponse),
      (Code 400, ''JSON400'', cat_BadRequestErrorResponse),
      (Code 401, ''JSON401'', cat_UnauthorizedResponse),
      (Code 403, ''JSON403'', cat_ForbiddenResponse),
      (Code 404, ''JSON404'', cat_ErrorModel),
      (Code 419, ''JSON419'', cat_AuthenticationTimeoutResponse),
      (Code 503, ''JSON503'', cat_ServiceUnavailableResponse),
      (Class 5, ''JSON5XX'', cat_ServerErrorResponse)]"

definition cat_ParseViewExistsWrapper :: "http_lib \<Rightarrow> http_response \<Rightarrow> goerr + http_wrapper" where
  "cat_ParseViewExistsWrapper L = parse_response L
     [(Code 419, ''JSON419'', cat_AuthenticationTimeoutResponse),
      (Code 503, ''JSON503'', cat_ServiceUnavailableResponse),
      (Class 5, ''JSON5XX'', cat_ServerErrorResponse)]"

definition cat_ParseReplaceViewWrapper :: "http_lib \<Rightarrow> http_response \<Rightarrow> goerr + http_wrapper" where
  "cat_ParseReplaceViewWrapper L = parse_response L
     [(Code 200, ''JSON200'', cat_LoadViewResponse),
      (Code 400, ''JSON400'', cat_BadRequestErrorResponse),
      (Code 401, ''JSON401'', cat_UnauthorizedResponse),
      (Code 403, ''JSON403'', cat_ForbiddenResponse),
      (Code 404, ''JSON404'', cat_ErrorModel),
      (Code 409, ''JSON409'', cat_ErrorModel),
      (Code 419, ''JSON419'', cat_AuthenticationTimeoutResponse),
      (Code 500, ''JSON500'', cat_ErrorModel),
      (Code 502, ''JSON502'', cat_ErrorModel),
      (Code 503, ''JSON503'', cat_ServiceUnavailableResponse),
      (Code 504, ''JSON504'', cat_ErrorModel),
      (Class 5, ''JSON5XX'', cat_ErrorModel)]"

definition cat_ParseRenameTableWrapper :: "http_lib \<Rightarrow> http_response \<Rightarrow> goerr + http_wrapper" where
  "cat_ParseRenameTableWrapper L = parse_response L
     [(Code 400, ''JSON400'', cat_BadRequestErrorResponse),
      (Code 401, ''JSON401'', cat_UnauthorizedResponse),
      (Code 403, ''JSON403'', cat_ForbiddenResponse),
      (Code 404, ''JSON404'', cat_IcebergErrorResponse),
      (Code 406, ''JSON406'', cat_UnsupportedOperationResponse),
      (Code 409, ''JSON409'', cat_IcebergErrorResponse),
      (Code 419, ''JSON419'', cat_AuthenticationTimeoutResponse),
      (Code 503, ''JSON503'', cat_ServiceUnavailableResponse),
      (Class 5, ''JSON5XX'', cat_ServerErrorResponse)]"

definition cat_ParseCommitTransactionWrapper :: "http_lib \<Rightarrow> http_response \<Rightarrow> goerr + http_wrapper" where
  "cat_ParseCommitTransactionWrapper L = parse_response L
     [(Code 400, ''JSON400'', cat_BadRequestErrorResponse),
      (Code 401, ''JSON401'', cat_UnauthorizedResponse),
      (Code 403, ''JSON403'', cat_ForbiddenResponse),
      (Code 404, ''JSON404'', cat_IcebergErrorResponse),
      (Code 409, ''JSON409'', cat_IcebergErrorResponse),
      (Code 419, ''JSON419'', cat_AuthenticationTimeoutResponse),
      (Code 500, ''JSON500'', cat_IcebergErrorResponse),
      (Code 502, ''JSON502'', cat_IcebergErrorResponse),
      (Code 503, ''JSON503'', cat_ServiceUnavailableResponse),
      (Code 504, ''JSON504'', cat_IcebergErrorResponse),
      (Class 5, ''JSON5XX'', cat_IcebergErrorResponse)]"

definition cat_ParseRenameViewWrapper :: "http_lib \<Rightarrow> http_response \<Rightarrow> goerr + http_wrapper" where
  "cat_ParseRenameViewWrapper L = parse_response L
     [(Code 400, ''JSON400'', cat_BadRequestErrorResponse),
      (Code 401, ''JSON401'', cat_UnauthorizedResponse),
      (Code 403, ''JSON403'', cat_ForbiddenResponse),
      (Code 404, ''JSON404'', cat_ErrorModel),
      (Code 406, ''JSON406'', cat_UnsupportedOperationResponse),
      (Code 409, ''JSON409'', cat_ErrorModel),
      (Code 419, ''JSON419'', cat_AuthenticationTimeoutResponse),
      (Code 503, ''JSON503'', cat_ServiceUnavailableResponse),
      (Class 5, ''JSON5XX'', cat_ServerErrorResponse)]"

definition cat_GetApplicablePoliciesWithResponse ::
  "http_lib \<Rightarrow> http_client \<Rightarrow> string \<Rightarrow> wval \<Rightarrow> editor list \<Rightarrow> (goerr + http_wrapper) io" where
  "cat_GetApplicablePoliciesWithResponse L c prefix params reqEditors =
     with_response (cat_ParseGetApplicablePoliciesWrapper L) (cat_Client_GetApplicablePolicies L c prefix params reqEditors)"

definition cat_ListPoliciesWithResponse ::
  "http_lib \<Rightarrow> http_client \<Rightarrow> string \<Rightarrow> string \<Rightarrow> wval \<Rightarrow> editor list \<Rightarrow> (goerr + http_wrapper) io" where
  "cat_ListPoliciesWithResponse L c prefix namespace params reqEditors =
     with_response (cat_ParseListPoliciesWrapper L) (cat_Client_ListPolicies L c prefix namespace params reqEditors)"

definition cat_CreatePolicyWithBodyWithResponse ::
  "http_lib \<Rightarrow> http_client \<Rightarrow> string \<Rightarrow> string \<Rightarrow> string \<Rightarrow> string \<Rightarrow> editor list \<Rightarrow> (goerr + http_wrapper) io" where
  "cat_CreatePolicyWithBodyWithResponse L c prefix namespace contentType body reqEditors =
     with_response (cat_ParseCreatePolicyWrapper L) (cat_Client_CreatePolicyWithBody L c prefix namespace contentType body reqEditors)"

definition cat_CreatePolicyWithResponse ::
  "http_lib \<Rightarrow> http_client \<Rightarrow> string \<Rightarrow> string \<Rightarrow> wval \<Rightarrow> editor list \<Rightarrow> (goerr + http_wrapper) io" where
  "cat_CreatePolicyWithResponse L c prefix namespace body reqEditors =
     with_response (cat_ParseCreatePolicyWrapper L) (cat_Client_CreatePolicy L c prefix namespace body reqEditors)"

definition cat_DropPolicyWithResponse ::
  "http_lib \<Rightarrow> http_client \<Rightarrow> string \<Rightarrow> string \<Rightarrow> string \<Rightarrow> wval \<Rightarrow> editor list \<Rightarrow> (goerr + http_wrapper) io" where
  "cat_DropPolicyWithResponse L c prefix namespace policyName params reqEditors =
     with_response (cat_ParseDropPolicyWrapper L) (cat_Client_DropPolicy L c prefix namespace policyName params reqEditors)"

definition cat_LoadPolicyWithResponse ::
  "http_lib \<Rightarrow> http_client \<Rightarrow> string \<Rightarrow> string \<Rightarrow> string \<Rightarrow> editor list \<Rightarrow> (goerr + http_wrapper) io" where
  "cat_LoadPolicyWithResponse L c prefix namespace policyName reqEditors =
     with_response (cat_ParseLoadPolicyWrapper L) (cat_Client_LoadPolicy L c prefix namespace policyName reqEditors)"

definition cat_UpdatePolicyWithBodyWithResponse ::
  "http_lib \<Rightarrow> http_client \<Rightarrow> string \<Rightarrow> string \<Rightarrow> string \<Rightarrow> string \<Rightarrow> string \<Rightarrow> editor list \<Rightarrow> (goerr + http_wrapper) io" where
  "cat_UpdatePolicyWithBodyWithResponse L c prefix namespace policyName contentType body reqEditors =
     with_response (cat_ParseUpdatePolicyWrapper L) (cat_Client_UpdatePolicyWithBody L c prefix namespace policyName contentType body reqEditors)"

definition cat_UpdatePolicyWithResponse ::
  "http_lib \<Rightarrow> http_client \<Rightarrow> string \<Rightarrow> string \<Rightarrow> string \<Rightarrow> wval \<Rightarrow> editor list \<Rightarrow> (goerr + http_wrapper) io" where
  "cat_UpdatePolicyWithResponse L c prefix namespace policyName body reqEditors =
     with_response (cat_ParseUpdatePolicyWrapper L) (cat_Client_UpdatePolicy L c prefix namespace policyName body reqEditors)"

definition cat_DetachPolicyWithBodyWithResponse ::
  "http_lib \<Rightarrow> http_client \<Rightarrow> string \<Rightarrow> string \<Rightarrow> string \<Rightarrow> string \<Rightarrow> string \<Rightarrow> editor list \<Rightarrow> (goerr + http_wrapper) io" where
  "cat_DetachPolicyWithBodyWithResponse L c prefix namespace policyName contentType body reqEditors =
     with_response (cat_ParseDetachPolicyWrapper L) (cat_Client_DetachPolicyWithBody L c prefix namespace policyName contentType body reqEditors)"

definition cat_DetachPolicyWithResponse ::
  "http_lib \<Rightarrow> http_client \<Rightarrow> string \<Rightarrow> string \<Rightarrow> string \<Rightarrow> wval \<Rightarrow> editor list \<Rightarrow> (goerr + http_wrapper) io" where
  "cat_DetachPolicyWithResponse L c prefix namespace policyName body reqEditors =
     with_response (cat_ParseDetachPolicyWrapper L) (cat_Client_DetachPolicy L c prefix namespace policyName body reqEditors)"

definition cat_AttachPolicyWithBodyWithResponse ::
  "http_lib \<Rightarrow> http_client \<Rightarrow> string \<Rightarrow> string \<Rightarrow> string \<Rightarrow> string \<Rightarrow> string \<Rightarrow> editor list \<Rightarrow> (goerr + http_wrapper) io" where
  "cat_AttachPolicyWithBodyWithResponse L c prefix namespace policyName contentType body reqEditors =
     with_response (cat_ParseAttachPolicyWrapper L) (cat_Client_AttachPolicyWithBody L c prefix namespace policyName contentType body reqEditors)"

definition cat_AttachPolicyWithResponse ::
  "http_lib \<Rightarrow> http_client \<Rightarrow> string \<Rightarrow> string \<Rightarrow> string \<Rightarrow> wval \<Rightarrow> editor list \<Rightarrow> (goerr + http_wrapper) io" where
  "cat_AttachPolicyWithResponse L c prefix namespace policyName body reqEditors =
     with_response (cat_ParseAttachPolicyWrapper L) (cat_Client_AttachPolicy L c prefix namespace policyName body reqEditors)"

definition cat_GetConfigWithResponse ::
  "http_lib \<Rightarrow> http_client \<Rightarrow> wval \<Rightarrow> editor list \<Rightarrow> (goerr + http_wrapper) io" where
  "cat_GetConfigWithResponse L c params reqEditors =
     with_response (cat_ParseGetConfigWrapper L) (cat_Client_GetConfig L c params reqEditors)"

definition cat_GetTokenWithBodyWithResponse ::
  "http_lib \<Rightarrow> http_client \<Rightarrow> wval \<Rightarrow> string \<Rightarrow> string \<Rightarrow> editor list \<Rightarrow> (goerr + http_wrapper) io" where
  "cat_GetTokenWithBodyWithResponse L c params contentType body reqEditors =
     with_response (cat_ParseGetTokenWrapper L) (cat_Client_GetTokenWithBody L c params contentType body reqEditors)"

definition cat_GetTokenWithFormdataBodyWithResponse ::
  "http_lib \<Rightarrow> http_client \<Rightarrow> wval \<Rightarrow> wval \<Rightarrow> editor list \<Rightarrow> (goerr + http_wrapper) io" where
  "cat_GetTokenWithFormdataBodyWithResponse L c params body reqEditors =
     with_response (cat_ParseGetTokenWrapper L) (cat_Client_GetTokenWithFormdataBody L c params body reqEditors)"

definition cat_ListNamespacesWithResponse ::
  "http_lib \<Rightarrow> http_client \<Rightarrow> string \<Rightarrow> wval \<Rightarrow> editor list \<Rightarrow> (goerr + http_wrapper) io" where
  "cat_ListNamespacesWithResponse L c prefix params reqEditors =
     with_response (cat_ParseListNamespacesWrapper L) (cat_Client_ListNamespaces L c prefix params reqEditors)"

definition cat_CreateNamespaceWithBodyWithResponse ::
  "http_lib \<Rightarrow> http_client \<Rightarrow> string \<Rightarrow> string \<Rightarrow> string \<Rightarrow> editor list \<Rightarrow> (goerr + http_wrapper) io" where
  "cat_CreateNamespaceWithBodyWithResponse L c prefix contentType body reqEditors =
     with_response (cat_ParseCreateNamespaceWrapper L) (cat_Client_CreateNamespaceWithBody L c prefix contentType body reqEditors)"

definition cat_CreateNamespaceWithResponse ::
  "http_lib \<Rightarrow> http_client \<Rightarrow> string \<Rightarrow> wval \<Rightarrow> editor list \<Rightarrow> (goerr + http_wrapper) io" where
  "cat_CreateNamespaceWithResponse L c prefix body reqEditors =
     with_response (cat_ParseCreateNamespaceWrapper L) (cat_Client_CreateNamespace L c prefix body reqEditors)"

definition cat_DropNamespaceWithResponse ::
  "http_lib \<Rightarrow> http_client \<Rightarrow> string \<Rightarrow> string \<Rightarrow> editor list \<Rightarrow> (goerr + http_wrapper) io" where
  "cat_DropNamespaceWithResponse L c prefix namespace reqEditors =
     with_response (cat_ParseDropNamespaceWrapper L) (cat_Client_DropNamespace L c prefix namespace reqEditors)"

definition cat_LoadNamespaceMetadataWithResponse ::
  "http_lib \<Rightarrow> http_client \<Rightarrow> string \<Rightarrow> string \<Rightarrow> editor list \<Rightarrow> (goerr + http_wrapper) io" where
  "cat_LoadNamespaceMetadataWithResponse L c prefix namespace reqEditors =
     with_response (cat_ParseLoadNamespaceMetadataWrapper L) (cat_Client_LoadNamespaceMetadata L c prefix namespace reqEditors)"

definition cat_NamespaceExistsWithResponse ::
  "http_lib \<Rightarrow> http_client \<Rightarrow> string \<Rightarrow> string \<Rightarrow> editor list \<Rightarrow> (goerr + http_wrapper) io" where
  "cat_NamespaceExistsWithResponse L c prefix namespace reqEditors =
     with_response (cat_ParseNamespaceExistsWrapper L) (cat_Client_NamespaceExists L c prefix namespace reqEditors)"

definition cat_UpdatePropertiesWithBodyWithResponse ::
  "http_lib \<Rightarrow> http_client \<Rightarrow> string \<Rightarrow> string \<Rightarrow> string \<Rightarrow> string \<Rightarrow> editor list \<Rightarrow> (goerr + http_wrapper) io" where
  "cat_UpdatePropertiesWithBodyWithResponse L c prefix namespace contentType body reqEditors =
     with_response (cat_ParseUpdatePropertiesWrapper L) (cat_Client_UpdatePropertiesWithBody L c prefix namespace contentType body reqEditors)"

definition cat_UpdatePropertiesWithResponse ::
  "http_lib \<Rightarrow> http_client \<Rightarrow> string \<Rightarrow> string \<Rightarrow> wval \<Rightarrow> editor list \<Rightarrow> (goerr + http_wrapper) io" where
  "cat_UpdatePropertiesWithResponse L c prefix namespace body reqEditors =
     with_response (cat_ParseUpdatePropertiesWrapper L) (cat_Client_UpdateProperties L c prefix namespace body reqEditors)"

definition cat_RegisterTableWithBodyWithResponse ::
  "http_lib \<Rightarrow> http_client \<Rightarrow> string \<Rightarrow> string \<Rightarrow> string \<Rightarrow> string \<Rightarrow> editor list \<Rightarrow> (goerr + http_wrapper) io" where
  "cat_RegisterTableWithBodyWithResponse L c prefix namespace contentType body reqEditors =
     with_response (cat_ParseRegisterTableWrapper L) (cat_Client_RegisterTableWithBody L c prefix namespace contentType body reqEditors)"

definition cat_RegisterTableWithResponse ::
  "http_lib \<Rightarrow> http_client \<Rightarrow> string \<Rightarrow> string \<Rightarrow> wval \<Rightarrow> editor list \<Rightarrow> (goerr + http_wrapper) io" where
  "cat_RegisterTableWithResponse L c prefix namespace body reqEditors =
     with_response (cat_ParseRegisterTableWrapper L) (cat_Client_RegisterTable L c prefix namespace body reqEditors)"

definition cat_ListTablesWithResponse ::
  "http_lib \<Rightarrow> http_client \<Rightarrow> string \<Rightarrow> string \<Rightarrow> wval \<Rightarrow> editor list \<Rightarrow> (goerr + http_wrapper) io" where
  "cat_ListTablesWithResponse L c prefix namespace params reqEditors =
     with_response (cat_ParseListTablesWrapper L) (cat_Client_ListTables L c prefix namespace params reqEditors)"

definition cat_CreateTableWithBodyWithResponse ::
  "http_lib \<Rightarrow> http_client \<Rightarrow> string \<Rightarrow> string \<Rightarrow> wval \<Rightarrow> string \<Rightarrow> string \<Rightarrow> editor list \<Rightarrow> (goerr + http_wrapper) io" where
  "cat_CreateTableWithBodyWithResponse L c prefix namespace params contentType body reqEditors =
     with_response (cat_ParseCreateTableWrapper L) (cat_Client_CreateTableWithBody L c prefix namespace params contentType body reqEditors)"

definition cat_CreateTableWithResponse ::
  "http_lib \<Rightarrow> http_client \<Rightarrow> string \<Rightarrow> string \<Rightarrow> wval \<Rightarrow> wval \<Rightarrow> editor list \<Rightarrow> (goerr + http_wrapper) io" where
  "cat_CreateTableWithResponse L c prefix namespace params body reqEditors =
     with_response (cat_ParseCreateTableWrapper L) (cat_Client_CreateTable L c prefix namespace params body reqEditors)"

definition cat_DropTableWithResponse ::
  "http_lib \<Rightarrow> http_client \<Rightarrow> string \<Rightarrow> string \<Rightarrow> string \<Rightarrow> wval \<Rightarrow> editor list \<Rightarrow> (goerr + http_wrapper) io" where
  "cat_DropTableWithResponse L c prefix namespace table params reqEditors =
     with_response (cat_ParseDropTableWrapper L) (cat_Client_DropTable L c prefix namespace table params reqEditors)"

definition cat_LoadTableWithResponse ::
  "http_lib \<Rightarrow> http_client \<Rightarrow> string \<Rightarrow> string \<Rightarrow> string \<Rightarrow> wval \<Rightarrow> editor list \<Rightarrow> (goerr + http_wrapper) io" where
  "cat_LoadTableWithResponse L c prefix namespace table params reqEditors =
     with_response (cat_ParseLoadTableWrapper L) (cat_Client_LoadTable L c prefix namespace table params reqEditors)"

definition cat_TableExistsWithResponse ::
  "http_lib \<Rightarrow> http_client \<Rightarrow> string \<Rightarrow> string \<Rightarrow> string \<Rightarrow> editor list \<Rightarrow> (goerr + http_wrapper) io" where
  "cat_TableExistsWithResponse L c prefix namespace table reqEditors =
     with_response (cat_ParseTableExistsWrapper L) (cat_Client_TableExists L c prefix namespace table reqEditors)"

definition cat_UpdateTableWithBodyWithResponse ::
  "http_lib \<Rightarrow> http_client \<Rightarrow> string \<Rightarrow> string \<Rightarrow> string \<Rightarrow> string \<Rightarrow> string \<Rightarrow> editor list \<Rightarrow> (goerr + http_wrapper) io" where
  "cat_UpdateTableWithBodyWithResponse L c prefix namespace table contentType body reqEditors =
     with_response (cat_ParseUpdateTableWrapper L) (cat_Client_UpdateTableWithBody L c prefix namespace table contentType body reqEditors)"

definition cat_UpdateTableWithResponse ::
  "http_lib \<Rightarrow> http_client \<Rightarrow> string \<Rightarrow> string \<Rightarrow> string \<Rightarrow> wval \<Rightarrow> editor list \<Rightarrow> (goerr + http_wrapper) io" where
  "cat_UpdateTableWithResponse L c prefix namespace table body reqEditors =
     with_response (cat_ParseUpdateTableWrapper L) (cat_Client_UpdateTable L c prefix namespace table body reqEditors)"

definition cat_LoadCredentialsWithResponse ::
  "http_lib \<Rightarrow> http_client \<Rightarrow> string \<Rightarrow> string \<Rightarrow> string \<Rightarrow> editor list \<Rightarrow> (goerr + http_wrapper) io" where
  "cat_LoadCredentialsWithResponse L c prefix namespace table reqEditors =
     with_response (cat_ParseLoadCredentialsWrapper L) (cat_Client_LoadCredentials L c prefix namespace table reqEditors)"

definition cat_ReportMetricsWithBodyWithResponse ::
  "http_lib \<Rightarrow> http_client \<Rightarrow> string \<Rightarrow> string \<Rightarrow> string \<Rightarrow> string \<Rightarrow> string \<Rightarrow> editor list \<Rightarrow> (goerr + http_wrapper) io" where
  "cat_ReportMetricsWithBodyWithResponse L c prefix namespace table contentType body reqEditors =
     with_response (cat_ParseReportMetricsWrapper L) (cat_Client_ReportMetricsWithBody L c prefix namespace table contentType body reqEditors)"

definition cat_ReportMetricsWithResponse ::
  "http_lib \<Rightarrow> http_client \<Rightarrow> string \<Rightarrow> string \<Rightarrow> string \<Rightarrow> wval \<Rightarrow> editor list \<Rightarrow> (goerr + http_wrapper) io" where
  "cat_ReportMetricsWithResponse L c prefix namespace table body reqEditors =
     with_response (cat_ParseReportMetricsWrapper L) (cat_Client_ReportMetrics L c prefix namespace table body reqEditors)"

definition cat_SendNotificationWithBodyWithResponse ::
  "http_lib \<Rightarrow> http_client \<Rightarrow> string \<Rightarrow> string \<Rightarrow> string \<Rightarrow> string \<Rightarrow> string \<Rightarrow> editor list \<Rightarrow> (goerr + http_wrapper) io" where
  "cat_SendNotificationWithBodyWithResponse L c prefix namespace table contentType body reqEditors =
     with_response (cat_ParseSendNotificationWrapper L) (cat_Client_SendNotificationWithBody L c prefix namespace table contentType body reqEditors)"

definition cat_SendNotificationWithResponse ::
  "http_lib \<Rightarrow> http_client \<Rightarrow> string \<Rightarrow> string \<Rightarrow> string \<Rightarrow> wval \<Rightarrow> editor list \<Rightarrow> (goerr + http_wrapper) io" where
  "cat_SendNotificationWithResponse L c prefix namespace table body reqEditors =
     with_response (cat_ParseSendNotificationWrapper L) (cat_Client_SendNotification L c prefix namespace table body reqEditors)"

definition cat_ListViewsWithResponse ::
  "http_lib \<Rightarrow> http_client \<Rightarrow> string \<Rightarrow> string \<Rightarrow> wval \<Rightarrow> editor list \<Rightarrow> (goerr + http_wrapper) io" where
  "cat_ListViewsWithResponse L c prefix namespace params reqEditors =
     with_response (cat_ParseListViewsWrapper L) (cat_Client_ListViews L c prefix namespace params reqEditors)"

definition cat_CreateViewWithBodyWithResponse ::
  "http_lib \<Rightarrow> http_client \<Rightarrow> string \<Rightarrow> string \<Rightarrow> string \<Rightarrow> string \<Rightarrow> editor list \<Rightarrow> (goerr + http_wrapper) io" where
  "cat_CreateViewWithBodyWithResponse L c prefix namespace contentType body reqEditors =
     with_response (cat_ParseCreateViewWrapper L) (cat_Client_CreateViewWithBody L c prefix namespace contentType body reqEditors)"

definition cat_CreateViewWithResponse ::
  "http_lib \<Rightarrow> http_client \<Rightarrow> string \<Rightarrow> string \<Rightarrow> wval \<Rightarrow> editor list \<Rightarrow> (goerr + http_wrapper) io" where
  "cat_CreateViewWithResponse L c prefix namespace body reqEditors =
     with_response (cat_ParseCreateViewWrapper L) (cat_Client_CreateView L c prefix namespace body reqEditors)"

definition cat_DropViewWithResponse ::
  "http_lib \<Rightarrow> http_client \<Rightarrow> string \<Rightarrow> string \<Rightarrow> string \<Rightarrow> editor list \<Rightarrow> (goerr + http_wrapper) io" where
  "cat_DropViewWithResponse L c prefix namespace view reqEditors =
     with_response (cat_ParseDropViewWrapper L) (cat_Client_DropView L c prefix namespace view reqEditors)"

definition cat_LoadViewWithResponse ::
  "http_lib \<Rightarrow> http_client \<Rightarrow> string \<Rightarrow> string \<Rightarrow> string \<Rightarrow> editor list \<Rightarrow> (goerr + http_wrapper) io" where
  "cat_LoadViewWithResponse L c prefix namespace view reqEditors =
     with_response (cat_ParseLoadViewWrapper L) (cat_Client_LoadView L c prefix namespace view reqEditors)"

definition cat_ViewExistsWithResponse ::
  "http_lib \<Rightarrow> http_client \<Rightarrow> string \<Rightarrow> string \<Rightarrow> string \<Rightarrow> editor list \<Rightarrow> (goerr + http_wrapper) io" where
  "cat_ViewExistsWithResponse L c prefix namespace view reqEditors =
     with_response (cat_ParseViewExistsWrapper L) (cat_Client_ViewExists L c prefix namespace view reqEditors)"

definition cat_ReplaceViewWithBodyWithResponse ::
  "http_lib \<Rightarrow> http_client \<Rightarrow> string \<Rightarrow> string \<Rightarrow> string \<Rightarrow> string \<Rightarrow> string \<Rightarrow> editor list \<Rightarrow> (goerr + http_wrapper) io" where
  "cat_ReplaceViewWithBodyWithResponse L c prefix namespace view contentType body reqEditors =
     with_response (cat_ParseReplaceViewWrapper L) (cat_Client_ReplaceViewWithBody L c prefix namespace view contentType body reqEditors)"

definition cat_ReplaceViewWithResponse ::
  "http_lib \<Rightarrow> http_client \<Rightarrow> string \<Rightarrow> string \<Rightarrow> string \<Rightarrow> wval \<Rightarrow> editor list \<Rightarrow> (goerr + http_wrapper) io" where
  "cat_ReplaceViewWithResponse L c prefix namespace view body reqEditors =
     with_response (cat_ParseReplaceViewWrapper L) (cat_Client_ReplaceView L c prefix namespace view body reqEditors)"

definition cat_RenameTableWithBodyWithResponse ::
  "http_lib \<Rightarrow> http_client \<Rightarrow> string \<Rightarrow> string \<Rightarrow> string \<Rightarrow> editor list \<Rightarrow> (goerr + http_wrapper) io" where
  "cat_RenameTableWithBodyWithResponse L c prefix contentType body reqEditors =
     with_response (cat_ParseRenameTableWrapper L) (cat_Client_RenameTableWithBody L c prefix contentType body reqEditors)"

definition cat_RenameTableWithResponse ::
  "http_lib \<Rightarrow> http_client \<Rightarrow> string \<Rightarrow> wval \<Rightarrow> editor list \<Rightarrow> (goerr + http_wrapper) io" where
  "cat_RenameTableWithResponse L c prefix body reqEditors =
     with_response (cat_ParseRenameTableWrapper L) (cat_Client_RenameTable L c prefix body reqEditors)"

definition cat_CommitTransactionWithBodyWithResponse ::
  "http_lib \<Rightarrow> http_client \<Rightarrow> string \<Rightarrow> string \<Rightarrow> string \<Rightarrow> editor list \<Rightarrow> (goerr + http_wrapper) io" where
  "cat_CommitTransactionWithBodyWithResponse L c prefix contentType body reqEditors =
     with_response (cat_ParseCommitTransactionWrapper L) (cat_Client_CommitTransactionWithBody L c prefix contentType body reqEditors)"

definition cat_CommitTransactionWithResponse ::
  "http_lib \<Rightarrow> http_client \<Rightarrow> string \<Rightarrow> wval \<Rightarrow> editor list \<Rightarrow> (goerr + http_wrapper) io" where
  "cat_CommitTransactionWithResponse L c prefix body reqEditors =
     with_response (cat_ParseCommitTransactionWrapper L) (cat_Client_CommitTransaction L c prefix body reqEditors)"

definition cat_RenameViewWithBodyWithResponse ::
  "http_lib \<Rightarrow> http_client \<Rightarrow> string \<Rightarrow> string \<Rightarrow> string \<Rightarrow> editor list \<Rightarrow> (goerr + http_wrapper) io" where
  "cat_RenameViewWithBodyWithResponse L c prefix contentType body reqEditors =
     with_response (cat_ParseRenameViewWrapper L) (cat_Client_RenameViewWithBody L c prefix contentType body reqEditors)"

definition cat_RenameViewWithResponse ::
  "http_lib \<Rightarrow> http_client \<Rightarrow> string \<Rightarrow> wval \<Rightarrow> editor list \<Rightarrow> (goerr + http_wrapper) io" where
  "cat_RenameViewWithResponse L c prefix body reqEditors =
     with_response (cat_ParseRenameViewWrapper L) (cat_Client_RenameView L c prefix body reqEditors)"

end
