(* ===== verification/Catalog_Api.thy ===== *)
theory Catalog_Api
  imports Http_Docs Catalog_Results
begin

text \<open>
  The operations of \<open>openapi/polaris-catalog-service.yaml\<close> (\<open>cat_doc_...\<close>, without the
  generic tables, for which no code is generated), and that the
  requests and the response parsers of the generated client are what the document says.
\<close>

section \<open>The document\<close>

definition cat_doc_getConfig :: api_operation where
  "cat_doc_getConfig =
     \<lparr>opMethod = ''GET'',
      opPath = [Lit ''v1'', Lit ''config''],
      opQuery = [(''Warehouse'', ''warehouse'', ''string'')],
      opHeader = [],
      opBody = False,
      opResponses =
       [(Code 200, cat_CatalogConfig), (Code 400, cat_IcebergErrorResponse),
        (Code 401, cat_IcebergErrorResponse), (Code 403, cat_IcebergErrorResponse),
        (Code 419, cat_IcebergErrorResponse), (Code 503, cat_IcebergErrorResponse),
        (Class 5, cat_IcebergErrorResponse)]\<rparr>"

definition cat_doc_getToken :: api_operation where
  "cat_doc_getToken =
     \<lparr>opMethod = ''POST'',
      opPath = [Lit ''v1'', Lit ''oauth'', Lit ''tokens''],
      opQuery = [],
      opHeader = [(''Authorization'', ''Authorization'')],
      opBody = True,
      opResponses =
       [(Code 200, cat_OAuthTokenResponse), (Code 400, cat_OAuthError),
        (Code 401, cat_OAuthError), (Class 5, cat_OAuthError)]\<rparr>"

definition cat_doc_listNamespaces :: api_operation where
  "cat_doc_listNamespaces =
     \<lparr>opMethod = ''GET'',
      opPath = [Lit ''v1'', Par ''prefix'', Lit ''namespaces''],
      opQuery = [(''PageToken'', ''pageToken'', ''string''), (''PageSize'', ''pageSize'', ''integer''), (''Parent'', ''parent'', ''string'')],
      opHeader = [],
      opBody = False,
      opResponses =
       [(Code 200, cat_ListNamespacesResponse), (Code 400, cat_IcebergErrorResponse),
        (Code 401, cat_IcebergErrorResponse), (Code 403, cat_IcebergErrorResponse),
        (Code 404, cat_IcebergErrorResponse), (Code 419, cat_IcebergErrorResponse),
        (Code 503, cat_IcebergErrorResponse), (Class 5, cat_IcebergErrorResponse)]\<rparr>"

definition cat_doc_createNamespace :: api_operation where
  "cat_doc_createNamespace =
     \<lparr>opMethod = ''POST'',
      opPath = [Lit ''v1'', Par ''prefix'', Lit ''namespaces''],
      opQuery = [],
      opHeader = [],
      opBody = True,
      opResponses =
       [(Code 200, cat_CreateNamespaceResponse), (Code 400, cat_IcebergErrorResponse),
        (Code 401, cat_IcebergErrorResponse), (Code 403, cat_IcebergErrorResponse),
        (Code 406, cat_ErrorModel), (Code 409, cat_IcebergErrorResponse),
        (Code 419, cat_IcebergErrorResponse), (Code 503, cat_IcebergErrorResponse),
        (Class 5, cat_IcebergErrorResponse)]\<rparr>"

definition cat_doc_loadNamespaceMetadata :: api_operation where
  "cat_doc_loadNamespaceMetadata =
     \<lparr>opMethod = ''GET'',
      opPath = [Lit ''v1'', Par ''prefix'', Lit ''namespaces'', Par ''namespace''],
      opQuery = [],
      opHeader = [],
      opBody = False,
      opResponses =
       [(Code 200, cat_GetNamespaceResponse), (Code 400, cat_IcebergErrorResponse),
        (Code 401, cat_IcebergErrorResponse), (Code 403, cat_IcebergErrorResponse),
        (Code 404, cat_IcebergErrorResponse), (Code 419, cat_IcebergErrorResponse),
        (Code 503, cat_IcebergErrorResponse), (Class 5, cat_IcebergErrorResponse)]\<rparr>"

definition cat_doc_dropNamespace :: api_operation where
  "cat_doc_dropNamespace =
     \<lparr>opMethod = ''DELETE'',
      opPath = [Lit ''v1'', Par ''prefix'', Lit ''namespaces'', Par ''namespace''],
      opQuery = [],
      opHeader = [],
      opBody = False,
      opResponses =
       [(Code 400, cat_IcebergErrorResponse), (Code 401, cat_IcebergErrorResponse),
        (Code 403, cat_IcebergErrorResponse), (Code 404, cat_IcebergErrorResponse),
        (Code 409, cat_IcebergErrorResponse), (Code 419, cat_IcebergErrorResponse),
        (Code 503, cat_IcebergErrorResponse), (Class 5, cat_IcebergErrorResponse)]\<rparr>"

definition cat_doc_namespaceExists :: api_operation where
  "cat_doc_namespaceExists =
     \<lparr>opMethod = ''HEAD'',
      opPath = [Lit ''v1'', Par ''prefix'', Lit ''namespaces'', Par ''namespace''],
      opQuery = [],
      opHeader = [],
      opBody = False,
      opResponses =
       [(Code 400, cat_IcebergErrorResponse), (Code 401, cat_IcebergErrorResponse),
        (Code 403, cat_IcebergErrorResponse), (Code 404, cat_IcebergErrorResponse),
        (Code 419, cat_IcebergErrorResponse), (Code 503, cat_IcebergErrorResponse),
        (Class 5, cat_IcebergErrorResponse)]\<rparr>"

definition cat_doc_updateProperties :: api_operation where
  "cat_doc_updateProperties =
     \<lparr>opMethod = ''POST'',
      opPath = [Lit ''v1'', Par ''prefix'', Lit ''namespaces'', Par ''namespace'', Lit ''properties''],
      opQuery = [],
      opHeader = [],
      opBody = True,
      opResponses =
       [(Code 200, cat_UpdateNamespacePropertiesResponse),
        (Code 400, cat_IcebergErrorResponse), (Code 401, cat_IcebergErrorResponse),
        (Code 403, cat_IcebergErrorResponse), (Code 404, cat_IcebergErrorResponse),
        (Code 406, cat_ErrorModel), (Code 419, cat_IcebergErrorResponse),
        (Code 422, cat_IcebergErrorResponse), (Code 503, cat_IcebergErrorResponse),
        (Class 5, cat_IcebergErrorResponse)]\<rparr>"

definition cat_doc_listTables :: api_operation where
  "cat_doc_listTables =
     \<lparr>opMethod = ''GET'',
      opPath = [Lit ''v1'', Par ''prefix'', Lit ''namespaces'', Par ''namespace'', Lit ''tables''],
      opQuery = [(''PageToken'', ''pageToken'', ''string''), (''PageSize'', ''pageSize'', ''integer'')],
      opHeader = [],
      opBody = False,
      opResponses =
       [(Code 200, cat_ListTablesResponse), (Code 400, cat_IcebergErrorResponse),
        (Code 401, cat_IcebergErrorResponse), (Code 403, cat_IcebergErrorResponse),
        (Code 404, cat_IcebergErrorResponse), (Code 419, cat_IcebergErrorResponse),
        (Code 503, cat_IcebergErrorResponse), (Class 5, cat_IcebergErrorResponse)]\<rparr>"

definition cat_doc_createTable :: api_operation where
  "cat_doc_createTable =
     \<lparr>opMethod = ''POST'',
      opPath = [Lit ''v1'', Par ''prefix'', Lit ''namespaces'', Par ''namespace'', Lit ''tables''],
      opQuery = [],
      opHeader = [(''XIcebergAccessDelegation'', ''X-Iceberg-Access-Delegation'')],
      opBody = True,
      opResponses =
       [(Code 200, cat_LoadTableResult), (Code 400, cat_IcebergErrorResponse),
        (Code 401, cat_IcebergErrorResponse), (Code 403, cat_IcebergErrorResponse),
        (Code 404, cat_IcebergErrorResponse), (Code 409, cat_IcebergErrorResponse),
        (Code 419, cat_IcebergErrorResponse), (Code 503, cat_IcebergErrorResponse),
        (Class 5, cat_IcebergErrorResponse)]\<rparr>"

definition cat_doc_registerTable :: api_operation where
  "cat_doc_registerTable =
     \<lparr>opMethod = ''POST'',
      opPath = [Lit ''v1'', Par ''prefix'', Lit ''namespaces'', Par ''namespace'', Lit ''register''],
      opQuery = [],
      opHeader = [],
      opBody = True,
      opResponses =
       [(Code 200, cat_LoadTableResult), (Code 400, cat_IcebergErrorResponse),
        (Code 401, cat_IcebergErrorResponse), (Code 403, cat_IcebergErrorResponse),
        (Code 404, cat_IcebergErrorResponse), (Code 409, cat_IcebergErrorResponse),
        (Code 419, cat_IcebergErrorResponse), (Code 503, cat_IcebergErrorResponse),
        (Class 5, cat_IcebergErrorResponse)]\<rparr>"

definition cat_doc_loadTable :: api_operation where
  "cat_doc_loadTable =
     \<lparr>opMethod = ''GET'',
      opPath = [Lit ''v1'', Par ''prefix'', Lit ''namespaces'', Par ''namespace'', Lit ''tables'', Par ''table''],
      opQuery = [(''Snapshots'', ''snapshots'', ''string'')],
      opHeader = [(''XIcebergAccessDelegation'', ''X-Iceberg-Access-Delegation''), (''IfNoneMatch'', ''If-None-Match'')],
      opBody = False,
      opResponses =
       [(Code 200, cat_LoadTableResult), (Code 400, cat_IcebergErrorResponse),
        (Code 401, cat_IcebergErrorResponse), (Code 403, cat_IcebergErrorResponse),
        (Code 404, cat_IcebergErrorResponse), (Code 419, cat_IcebergErrorResponse),
        (Code 503, cat_IcebergErrorResponse), (Class 5, cat_IcebergErrorResponse)]\<rparr>"

definition cat_doc_updateTable :: api_operation where
  "cat_doc_updateTable =
     \<lparr>opMethod = ''POST'',
      opPath = [Lit ''v1'', Par ''prefix'', Lit ''namespaces'', Par ''namespace'', Lit ''tables'', Par ''table''],
      opQuery = [],
      opHeader = [],
      opBody = True,
      opResponses =
       [(Code 200, cat_CommitTableResponse), (Code 400, cat_IcebergErrorResponse),
        (Code 401, cat_IcebergErrorResponse), (Code 403, cat_IcebergErrorResponse),
        (Code 404, cat_IcebergErrorResponse), (Code 409, cat_IcebergErrorResponse),
        (Code 419, cat_IcebergErrorResponse), (Code 500, cat_IcebergErrorResponse),
        (Code 502, cat_IcebergErrorResponse), (Code 503, cat_IcebergErrorResponse),
        (Code 504, cat_IcebergErrorResponse), (Class 5, cat_IcebergErrorResponse)]\<rparr>"

definition cat_doc_dropTable :: api_operation where
  "cat_doc_dropTable =
     \<lparr>opMethod = ''DELETE'',
      opPath = [Lit ''v1'', Par ''prefix'', Lit ''namespaces'', Par ''namespace'', Lit ''tables'', Par ''table''],
      opQuery = [(''PurgeRequested'', ''purgeRequested'', ''boolean'')],
      opHeader = [],
      opBody = False,
      opResponses =
       [(Code 400, cat_IcebergErrorResponse), (Code 401, cat_IcebergErrorResponse),
        (Code 403, cat_IcebergErrorResponse), (Code 404, cat_IcebergErrorResponse),
        (Code 419, cat_IcebergErrorResponse), (Code 503, cat_IcebergErrorResponse),
        (Class 5, cat_IcebergErrorResponse)]\<rparr>"

definition cat_doc_tableExists :: api_operation where
  "cat_doc_tableExists =
     \<lparr>opMethod = ''HEAD'',
      opPath = [Lit ''v1'', Par ''prefix'', Lit ''namespaces'', Par ''namespace'', Lit ''tables'', Par ''table''],
      opQuery = [],
      opHeader = [],
      opBody = False,
      opResponses =
       [(Code 400, cat_IcebergErrorResponse), (Code 401, cat_IcebergErrorResponse),
        (Code 403, cat_IcebergErrorResponse), (Code 404, cat_IcebergErrorResponse),
        (Code 419, cat_IcebergErrorResponse), (Code 503, cat_IcebergErrorResponse),
        (Class 5, cat_IcebergErrorResponse)]\<rparr>"

definition cat_doc_loadCredentials :: api_operation where
  "cat_doc_loadCredentials =
     \<lparr>opMethod = ''GET'',
      opPath = [Lit ''v1'', Par ''prefix'', Lit ''namespaces'', Par ''namespace'', Lit ''tables'', Par ''table'', Lit ''credentials''],
      opQuery = [],
      opHeader = [],
      opBody = False,
      opResponses =
       [(Code 200, cat_LoadCredentialsResponse), (Code 400, cat_IcebergErrorResponse),
        (Code 401, cat_IcebergErrorResponse), (Code 403, cat_IcebergErrorResponse),
        (Code 404, cat_IcebergErrorResponse), (Code 419, cat_IcebergErrorResponse),
        (Code 503, cat_IcebergErrorResponse), (Class 5, cat_IcebergErrorResponse)]\<rparr>"

definition cat_doc_renameTable :: api_operation where
  "cat_doc_renameTable =
     \<lparr>opMethod = ''POST'',
      opPath = [Lit ''v1'', Par ''prefix'', Lit ''tables'', Lit ''rename''],
      opQuery = [],
      opHeader = [],
      opBody = True,
      opResponses =
       [(Code 400, cat_IcebergErrorResponse), (Code 401, cat_IcebergErrorResponse),
        (Code 403, cat_IcebergErrorResponse), (Code 404, cat_IcebergErrorResponse),
        (Code 406, cat_ErrorModel), (Code 409, cat_IcebergErrorResponse),
        (Code 419, cat_IcebergErrorResponse), (Code 503, cat_IcebergErrorResponse),
        (Class 5, cat_IcebergErrorResponse)]\<rparr>"

definition cat_doc_reportMetrics :: api_operation where
  "cat_doc_reportMetrics =
     \<lparr>opMethod = ''POST'',
      opPath = [Lit ''v1'', Par ''prefix'', Lit ''namespaces'', Par ''namespace'', Lit ''tables'', Par ''table'', Lit ''metrics''],
      opQuery = [],
      opHeader = [],
      opBody = True,
      opResponses =
       [(Code 400, cat_IcebergErrorResponse), (Code 401, cat_IcebergErrorResponse),
        (Code 403, cat_IcebergErrorResponse), (Code 404, cat_IcebergErrorResponse),
        (Code 419, cat_IcebergErrorResponse), (Code 503, cat_IcebergErrorResponse),
        (Class 5, cat_IcebergErrorResponse)]\<rparr>"

definition cat_doc_commitTransaction :: api_operation where
  "cat_doc_commitTransaction =
     \<lparr>opMethod = ''POST'',
      opPath = [Lit ''v1'', Par ''prefix'', Lit ''transactions'', Lit ''commit''],
      opQuery = [],
      opHeader = [],
      opBody = True,
      opResponses =
       [(Code 400, cat_IcebergErrorResponse), (Code 401, cat_IcebergErrorResponse),
        (Code 403, cat_IcebergErrorResponse), (Code 404, cat_IcebergErrorResponse),
        (Code 409, cat_IcebergErrorResponse), (Code 419, cat_IcebergErrorResponse),
        (Code 500, cat_IcebergErrorResponse), (Code 502, cat_IcebergErrorResponse),
        (Code 503, cat_IcebergErrorResponse), (Code 504, cat_IcebergErrorResponse),
        (Class 5, cat_IcebergErrorResponse)]\<rparr>"

definition cat_doc_listViews :: api_operation where
  "cat_doc_listViews =
     \<lparr>opMethod = ''GET'',
      opPath = [Lit ''v1'', Par ''prefix'', Lit ''namespaces'', Par ''namespace'', Lit ''views''],
      opQuery = [(''PageToken'', ''pageToken'', ''string''), (''PageSize'', ''pageSize'', ''integer'')],
      opHeader = [],
      opBody = False,
      opResponses =
       [(Code 200, cat_ListTablesResponse), (Code 400, cat_IcebergErrorResponse),
        (Code 401, cat_IcebergErrorResponse), (Code 403, cat_IcebergErrorResponse),
        (Code 404, cat_ErrorModel), (Code 419, cat_IcebergErrorResponse),
        (Code 503, cat_IcebergErrorResponse), (Class 5, cat_IcebergErrorResponse)]\<rparr>"

definition cat_doc_createView :: api_operation where
  "cat_doc_createView =
     \<lparr>opMethod = ''POST'',
      opPath = [Lit ''v1'', Par ''prefix'', Lit ''namespaces'', Par ''namespace'', Lit ''views''],
      opQuery = [],
      opHeader = [],
      opBody = True,
      opResponses =
       [(Code 200, cat_LoadViewResult), (Code 400, cat_IcebergErrorResponse),
        (Code 401, cat_IcebergErrorResponse), (Code 403, cat_IcebergErrorResponse),
        (Code 404, cat_ErrorModel), (Code 409, cat_ErrorModel),
        (Code 419, cat_IcebergErrorResponse), (Code 503, cat_IcebergErrorResponse),
        (Class 5, cat_IcebergErrorResponse)]\<rparr>"

definition cat_doc_loadView :: api_operation where
  "cat_doc_loadView =
     \<lparr>opMethod = ''GET'',
      opPath = [Lit ''v1'', Par ''prefix'', Lit ''namespaces'', Par ''namespace'', Lit ''views'', Par ''view''],
      opQuery = [],
      opHeader = [],
      opBody = False,
      opResponses =
       [(Code 200, cat_LoadViewResult), (Code 400, cat_IcebergErrorResponse),
        (Code 401, cat_IcebergErrorResponse), (Code 403, cat_IcebergErrorResponse),
        (Code 404, cat_ErrorModel), (Code 419, cat_IcebergErrorResponse),
        (Code 503, cat_IcebergErrorResponse), (Class 5, cat_IcebergErrorResponse)]\<rparr>"

definition cat_doc_replaceView :: api_operation where
  "cat_doc_replaceView =
     \<lparr>opMethod = ''POST'',
      opPath = [Lit ''v1'', Par ''prefix'', Lit ''namespaces'', Par ''namespace'', Lit ''views'', Par ''view''],
      opQuery = [],
      opHeader = [],
      opBody = True,
      opResponses =
       [(Code 200, cat_LoadViewResult), (Code 400, cat_IcebergErrorResponse),
        (Code 401, cat_IcebergErrorResponse), (Code 403, cat_IcebergErrorResponse),
        (Code 404, cat_ErrorModel), (Code 409, cat_ErrorModel),
        (Code 419, cat_IcebergErrorResponse), (Code 500, cat_ErrorModel),
        (Code 502, cat_ErrorModel), (Code 503, cat_IcebergErrorResponse),
        (Code 504, cat_ErrorModel), (Class 5, cat_ErrorModel)]\<rparr>"

definition cat_doc_dropView :: api_operation where
  "cat_doc_dropView =
     \<lparr>opMethod = ''DELETE'',
      opPath = [Lit ''v1'', Par ''prefix'', Lit ''namespaces'', Par ''namespace'', Lit ''views'', Par ''view''],
      opQuery = [],
      opHeader = [],
      opBody = False,
      opResponses =
       [(Code 400, cat_IcebergErrorResponse), (Code 401, cat_IcebergErrorResponse),
        (Code 403, cat_IcebergErrorResponse), (Code 404, cat_ErrorModel),
        (Code 419, cat_IcebergErrorResponse), (Code 503, cat_IcebergErrorResponse),
        (Class 5, cat_IcebergErrorResponse)]\<rparr>"

definition cat_doc_viewExists :: api_operation where
  "cat_doc_viewExists =
     \<lparr>opMethod = ''HEAD'',
      opPath = [Lit ''v1'', Par ''prefix'', Lit ''namespaces'', Par ''namespace'', Lit ''views'', Par ''view''],
      opQuery = [],
      opHeader = [],
      opBody = False,
      opResponses =
       [(Code 419, cat_IcebergErrorResponse), (Code 503, cat_IcebergErrorResponse),
        (Class 5, cat_IcebergErrorResponse)]\<rparr>"

definition cat_doc_renameView :: api_operation where
  "cat_doc_renameView =
     \<lparr>opMethod = ''POST'',
      opPath = [Lit ''v1'', Par ''prefix'', Lit ''views'', Lit ''rename''],
      opQuery = [],
      opHeader = [],
      opBody = True,
      opResponses =
       [(Code 400, cat_IcebergErrorResponse), (Code 401, cat_IcebergErrorResponse),
        (Code 403, cat_IcebergErrorResponse), (Code 404, cat_ErrorModel),
        (Code 406, cat_ErrorModel), (Code 409, cat_ErrorModel),
        (Code 419, cat_IcebergErrorResponse), (Code 503, cat_IcebergErrorResponse),
        (Class 5, cat_IcebergErrorResponse)]\<rparr>"

definition cat_doc_sendNotification :: api_operation where
  "cat_doc_sendNotification =
     \<lparr>opMethod = ''POST'',
      opPath = [Lit ''v1'', Par ''prefix'', Lit ''namespaces'', Par ''namespace'', Lit ''tables'', Par ''table'', Lit ''notifications''],
      opQuery = [],
      opHeader = [],
      opBody = True,
      opResponses =
       [(Code 400, cat_IcebergErrorResponse), (Code 401, cat_IcebergErrorResponse),
        (Code 403, cat_IcebergErrorResponse), (Code 404, cat_IcebergErrorResponse),
        (Code 409, cat_IcebergErrorResponse), (Code 419, cat_IcebergErrorResponse),
        (Code 503, cat_IcebergErrorResponse), (Class 5, cat_IcebergErrorResponse)]\<rparr>"

definition cat_doc_listPolicies :: api_operation where
  "cat_doc_listPolicies =
     \<lparr>opMethod = ''GET'',
      opPath = [Lit ''polaris'', Lit ''v1'', Par ''prefix'', Lit ''namespaces'', Par ''namespace'', Lit ''policies''],
      opQuery = [(''PageToken'', ''pageToken'', ''string''), (''PageSize'', ''pageSize'', ''integer''), (''PolicyType'', ''policyType'', ''string'')],
      opHeader = [],
      opBody = False,
      opResponses =
       [(Code 200, cat_ListPoliciesResponse), (Code 400, cat_IcebergErrorResponse),
        (Code 401, cat_IcebergErrorResponse), (Code 403, cat_IcebergErrorResponse),
        (Code 404, cat_IcebergErrorResponse), (Code 503, cat_IcebergErrorResponse),
        (Class 5, cat_IcebergErrorResponse)]\<rparr>"

definition cat_doc_createPolicy :: api_operation where
  "cat_doc_createPolicy =
     \<lparr>opMethod = ''POST'',
      opPath = [Lit ''polaris'', Lit ''v1'', Par ''prefix'', Lit ''namespaces'', Par ''namespace'', Lit ''policies''],
      opQuery = [],
      opHeader = [],
      opBody = True,
      opResponses =
       [(Code 200, cat_LoadPolicyResponse), (Code 400, cat_IcebergErrorResponse),
        (Code 401, cat_IcebergErrorResponse), (Code 403, cat_IcebergErrorResponse),
        (Code 404, cat_IcebergErrorResponse), (Code 409, cat_IcebergErrorResponse),
        (Code 503, cat_IcebergErrorResponse), (Class 5, cat_IcebergErrorResponse)]\<rparr>"

definition cat_doc_loadPolicy :: api_operation where
  "cat_doc_loadPolicy =
     \<lparr>opMethod = ''GET'',
      opPath = [Lit ''polaris'', Lit ''v1'', Par ''prefix'', Lit ''namespaces'', Par ''namespace'', Lit ''policies'', Par ''policy-name''],
      opQuery = [],
      opHeader = [],
      opBody = False,
      opResponses =
       [(Code 200, cat_LoadPolicyResponse), (Code 400, cat_IcebergErrorResponse),
        (Code 401, cat_IcebergErrorResponse), (Code 403, cat_IcebergErrorResponse),
        (Code 404, cat_IcebergErrorResponse), (Code 503, cat_IcebergErrorResponse),
        (Class 5, cat_IcebergErrorResponse)]\<rparr>"

definition cat_doc_updatePolicy :: api_operation where
  "cat_doc_updatePolicy =
     \<lparr>opMethod = ''PUT'',
      opPath = [Lit ''polaris'', Lit ''v1'', Par ''prefix'', Lit ''namespaces'', Par ''namespace'', Lit ''policies'', Par ''policy-name''],
      opQuery = [],
      opHeader = [],
      opBody = True,
      opResponses =
       [(Code 200, cat_LoadPolicyResponse), (Code 400, cat_IcebergErrorResponse),
        (Code 401, cat_IcebergErrorResponse), (Code 403, cat_IcebergErrorResponse),
        (Code 404, cat_IcebergErrorResponse), (Code 409, cat_IcebergErrorResponse),
        (Code 503, cat_IcebergErrorResponse), (Class 5, cat_IcebergErrorResponse)]\<rparr>"

definition cat_doc_dropPolicy :: api_operation where
  "cat_doc_dropPolicy =
     \<lparr>opMethod = ''DELETE'',
      opPath = [Lit ''polaris'', Lit ''v1'', Par ''prefix'', Lit ''namespaces'', Par ''namespace'', Lit ''policies'', Par ''policy-name''],
      opQuery = [(''DetachAll'', ''detach-all'', ''boolean'')],
      opHeader = [],
      opBody = False,
      opResponses =
       [(Code 400, cat_IcebergErrorResponse), (Code 401, cat_IcebergErrorResponse),
        (Code 403, cat_IcebergErrorResponse), (Code 404, cat_IcebergErrorResponse),
        (Code 503, cat_IcebergErrorResponse), (Class 5, cat_IcebergErrorResponse)]\<rparr>"

definition cat_doc_attachPolicy :: api_operation where
  "cat_doc_attachPolicy =
     \<lparr>opMethod = ''PUT'',
      opPath = [Lit ''polaris'', Lit ''v1'', Par ''prefix'', Lit ''namespaces'', Par ''namespace'', Lit ''policies'', Par ''policy-name'', Lit ''mappings''],
      opQuery = [],
      opHeader = [],
      opBody = True,
      opResponses =
       [(Code 400, cat_IcebergErrorResponse), (Code 401, cat_IcebergErrorResponse),
        (Code 403, cat_IcebergErrorResponse), (Code 404, cat_IcebergErrorResponse),
        (Code 409, cat_IcebergErrorResponse), (Code 503, cat_IcebergErrorResponse),
        (Class 5, cat_IcebergErrorResponse)]\<rparr>"

definition cat_doc_detachPolicy :: api_operation where
  "cat_doc_detachPolicy =
     \<lparr>opMethod = ''POST'',
      opPath = [Lit ''polaris'', Lit ''v1'', Par ''prefix'', Lit ''namespaces'', Par ''namespace'', Lit ''policies'', Par ''policy-name'', Lit ''mappings''],
      opQuery = [],
      opHeader = [],
      opBody = True,
      opResponses =
       [(Code 400, cat_IcebergErrorResponse), (Code 401, cat_IcebergErrorResponse),
        (Code 403, cat_IcebergErrorResponse), (Code 404, cat_IcebergErrorResponse),
        (Code 503, cat_IcebergErrorResponse), (Class 5, cat_IcebergErrorResponse)]\<rparr>"

definition cat_doc_getApplicablePolicies :: api_operation where
  "cat_doc_getApplicablePolicies =
     \<lparr>opMethod = ''GET'',
      opPath = [Lit ''polaris'', Lit ''v1'', Par ''prefix'', Lit ''applicable-policies''],
      opQuery = [(''PageToken'', ''pageToken'', ''string''), (''PageSize'', ''pageSize'', ''integer''), (''Namespace'', ''namespace'', ''string''), (''TargetName'', ''target-name'', ''string''), (''PolicyType'', ''policyType'', ''string'')],
      opHeader = [],
      opBody = False,
      opResponses =
       [(Code 200, cat_GetApplicablePoliciesResponse),
        (Code 400, cat_IcebergErrorResponse), (Code 401, cat_IcebergErrorResponse),
        (Code 403, cat_IcebergErrorResponse), (Code 404, cat_IcebergErrorResponse),
        (Code 503, cat_IcebergErrorResponse), (Class 5, cat_IcebergErrorResponse)]\<rparr>"

section \<open>Requests\<close>

lemma cat_requests:
  "cat_NewGetConfigRequest L server params =
     documented_request L server cat_doc_getConfig [] params ct body"
  "cat_NewGetTokenRequestWithBody L server params ct body =
     documented_request L server cat_doc_getToken [] params ct body"
  "cat_NewListNamespacesRequest L server prefix params =
     documented_request L server cat_doc_listNamespaces [prefix] params ct body"
  "cat_NewCreateNamespaceRequestWithBody L server prefix ct body =
     documented_request L server cat_doc_createNamespace [prefix] params ct body"
  "cat_NewLoadNamespaceMetadataRequest L server prefix namespace =
     documented_request L server cat_doc_loadNamespaceMetadata [prefix, namespace] params ct body"
  "cat_NewDropNamespaceRequest L server prefix namespace =
     documented_request L server cat_doc_dropNamespace [prefix, namespace] params ct body"
  "cat_NewNamespaceExistsRequest L server prefix namespace =
     documented_request L server cat_doc_namespaceExists [prefix, namespace] params ct body"
  "cat_NewUpdatePropertiesRequestWithBody L server prefix namespace ct body =
     documented_request L server cat_doc_updateProperties [prefix, namespace] params ct body"
  "cat_NewListTablesRequest L server prefix namespace params =
     documented_request L server cat_doc_listTables [prefix, namespace] params ct body"
  "cat_NewCreateTableRequestWithBody L server prefix namespace params ct body =
     documented_request L server cat_doc_createTable [prefix, namespace] params ct body"
  "cat_NewRegisterTableRequestWithBody L server prefix namespace ct body =
     documented_request L server cat_doc_registerTable [prefix, namespace] params ct body"
  "cat_NewLoadTableRequest L server prefix namespace table params =
     documented_request L server cat_doc_loadTable [prefix, namespace, table] params ct body"
  "cat_NewUpdateTableRequestWithBody L server prefix namespace table ct body =
     documented_request L server cat_doc_updateTable [prefix, namespace, table] params ct body"
  "cat_NewDropTableRequest L server prefix namespace table params =
     documented_request L server cat_doc_dropTable [prefix, namespace, table] params ct body"
  "cat_NewTableExistsRequest L server prefix namespace table =
     documented_request L server cat_doc_tableExists [prefix, namespace, table] params ct body"
  "cat_NewLoadCredentialsRequest L server prefix namespace table =
     documented_request L server cat_doc_loadCredentials [prefix, namespace, table] params ct body"
  "cat_NewRenameTableRequestWithBody L server prefix ct body =
     documented_request L server cat_doc_renameTable [prefix] params ct body"
  "cat_NewReportMetricsRequestWithBody L server prefix namespace table ct body =
     documented_request L server cat_doc_reportMetrics [prefix, namespace, table] params ct body"
  "cat_NewCommitTransactionRequestWithBody L server prefix ct body =
     documented_request L server cat_doc_commitTransaction [prefix] params ct body"
  "cat_NewListViewsRequest L server prefix namespace params =
     documented_request L server cat_doc_listViews [prefix, namespace] params ct body"
  "cat_NewCreateViewRequestWithBody L server prefix namespace ct body =
     documented_request L server cat_doc_createView [prefix, namespace] params ct body"
  "cat_NewLoadViewRequest L server prefix namespace view =
     documented_request L server cat_doc_loadView [prefix, namespace, view] params ct body"
  "cat_NewReplaceViewRequestWithBody L server prefix namespace view ct body =
     documented_request L server cat_doc_replaceView [prefix, namespace, view] params ct body"
  "cat_NewDropViewRequest L server prefix namespace view =
     documented_request L server cat_doc_dropView [prefix, namespace, view] params ct body"
  "cat_NewViewExistsRequest L server prefix namespace view =
     documented_request L server cat_doc_viewExists [prefix, namespace, view] params ct body"
  "cat_NewRenameViewRequestWithBody L server prefix ct body =
     documented_request L server cat_doc_renameView [prefix] params ct body"
  "cat_NewSendNotificationRequestWithBody L server prefix namespace table ct body =
     documented_request L server cat_doc_sendNotification [prefix, namespace, table] params ct body"
  "cat_NewListPoliciesRequest L server prefix namespace params =
     documented_request L server cat_doc_listPolicies [prefix, namespace] params ct body"
  "cat_NewCreatePolicyRequestWithBody L server prefix namespace ct body =
     documented_request L server cat_doc_createPolicy [prefix, namespace] params ct body"
  "cat_NewLoadPolicyRequest L server prefix namespace policyName =
     documented_request L server cat_doc_loadPolicy [prefix, namespace, policyName] params ct body"
  "cat_NewUpdatePolicyRequestWithBody L server prefix namespace policyName ct body =
     documented_request L server cat_doc_updatePolicy [prefix, namespace, policyName] params ct body"
  "cat_NewDropPolicyRequest L server prefix namespace policyName params =
     documented_request L server cat_doc_dropPolicy [prefix, namespace, policyName] params ct body"
  "cat_NewAttachPolicyRequestWithBody L server prefix namespace policyName ct body =
     documented_request L server cat_doc_attachPolicy [prefix, namespace, policyName] params ct body"
  "cat_NewDetachPolicyRequestWithBody L server prefix namespace policyName ct body =
     documented_request L server cat_doc_detachPolicy [prefix, namespace, policyName] params ct body"
  "cat_NewGetApplicablePoliciesRequest L server prefix params =
     documented_request L server cat_doc_getApplicablePolicies [prefix] params ct body"
  by (simp_all add: documented_request_def
    cat_NewGetConfigRequest_def
    cat_NewGetTokenRequestWithBody_def
    cat_NewListNamespacesRequest_def
    cat_NewCreateNamespaceRequestWithBody_def
    cat_NewLoadNamespaceMetadataRequest_def
    cat_NewDropNamespaceRequest_def
    cat_NewNamespaceExistsRequest_def
    cat_NewUpdatePropertiesRequestWithBody_def
    cat_NewListTablesRequest_def
    cat_NewCreateTableRequestWithBody_def
    cat_NewRegisterTableRequestWithBody_def
    cat_NewLoadTableRequest_def
    cat_NewUpdateTableRequestWithBody_def
    cat_NewDropTableRequest_def
    cat_NewTableExistsRequest_def
    cat_NewLoadCredentialsRequest_def
    cat_NewRenameTableRequestWithBody_def
    cat_NewReportMetricsRequestWithBody_def
    cat_NewCommitTransactionRequestWithBody_def
    cat_NewListViewsRequest_def
    cat_NewCreateViewRequestWithBody_def
    cat_NewLoadViewRequest_def
    cat_NewReplaceViewRequestWithBody_def
    cat_NewDropViewRequest_def
    cat_NewViewExistsRequest_def
    cat_NewRenameViewRequestWithBody_def
    cat_NewSendNotificationRequestWithBody_def
    cat_NewListPoliciesRequest_def
    cat_NewCreatePolicyRequestWithBody_def
    cat_NewLoadPolicyRequest_def
    cat_NewUpdatePolicyRequestWithBody_def
    cat_NewDropPolicyRequest_def
    cat_NewAttachPolicyRequestWithBody_def
    cat_NewDetachPolicyRequestWithBody_def
    cat_NewGetApplicablePoliciesRequest_def
    cat_doc_getConfig_def
    cat_doc_getToken_def
    cat_doc_listNamespaces_def
    cat_doc_createNamespace_def
    cat_doc_loadNamespaceMetadata_def
    cat_doc_dropNamespace_def
    cat_doc_namespaceExists_def
    cat_doc_updateProperties_def
    cat_doc_listTables_def
    cat_doc_createTable_def
    cat_doc_registerTable_def
    cat_doc_loadTable_def
    cat_doc_updateTable_def
    cat_doc_dropTable_def
    cat_doc_tableExists_def
    cat_doc_loadCredentials_def
    cat_doc_renameTable_def
    cat_doc_reportMetrics_def
    cat_doc_commitTransaction_def
    cat_doc_listViews_def
    cat_doc_createView_def
    cat_doc_loadView_def
    cat_doc_replaceView_def
    cat_doc_dropView_def
    cat_doc_viewExists_def
    cat_doc_renameView_def
    cat_doc_sendNotification_def
    cat_doc_listPolicies_def
    cat_doc_createPolicy_def
    cat_doc_loadPolicy_def
    cat_doc_updatePolicy_def
    cat_doc_dropPolicy_def
    cat_doc_attachPolicy_def
    cat_doc_detachPolicy_def
    cat_doc_getApplicablePolicies_def)

section \<open>Responses\<close>

lemmas cat_alias_defs =
    cat_AddEncryptionKeyUpdate_def
    cat_AddPartitionSpecUpdate_def
    cat_AddSchemaUpdate_def
    cat_AddSnapshotUpdate_def
    cat_AddSortOrderUpdate_def
    cat_AddViewVersionUpdate_def
    cat_AssignUUIDUpdate_def
    cat_AttachPolicyJSONRequestBody_def
    cat_AuthenticationTimeoutResponse_def
    cat_BadRequestErrorResponse_def
    cat_CommitTransactionJSONRequestBody_def
    cat_CreateNamespaceJSONRequestBody_def
    cat_CreatePolicyJSONRequestBody_def
    cat_CreatePolicyResponse_def
    cat_CreateTableJSONRequestBody_def
    cat_CreateTableResponse_def
    cat_CreateViewJSONRequestBody_def
    cat_DetachPolicyJSONRequestBody_def
    cat_ForbiddenResponse_def
    cat_GetTokenFormdataRequestBody_def
    cat_LoadTableResponse_def
    cat_LoadViewResponse_def
    cat_OAuthErrorResponse_def
    cat_RegisterTableJSONRequestBody_def
    cat_RemoveEncryptionKeyUpdate_def
    cat_RemovePartitionSpecsUpdate_def
    cat_RemovePropertiesUpdate_def
    cat_RemoveSchemasUpdate_def
    cat_RemoveSnapshotRefUpdate_def
    cat_RemoveSnapshotsUpdate_def
    cat_RemoveStatisticsUpdate_def
    cat_RenameTableJSONRequestBody_def
    cat_RenameViewJSONRequestBody_def
    cat_ReplaceViewJSONRequestBody_def
    cat_ReportMetricsJSONRequestBody_def
    cat_SendNotificationJSONRequestBody_def
    cat_ServerErrorResponse_def
    cat_ServiceUnavailableResponse_def
    cat_SetCurrentSchemaUpdate_def
    cat_SetCurrentViewVersionUpdate_def
    cat_SetDefaultSortOrderUpdate_def
    cat_SetDefaultSpecUpdate_def
    cat_SetLocationUpdate_def
    cat_SetPropertiesUpdate_def
    cat_SetStatisticsUpdate_def
    cat_UnauthorizedResponse_def
    cat_UnsupportedOperationResponse_def
    cat_UpdatePolicyJSONRequestBody_def
    cat_UpdatePolicyResponse_def
    cat_UpdatePropertiesJSONRequestBody_def
    cat_UpdateTableJSONRequestBody_def
    cat_UpgradeFormatVersionUpdate_def

lemma cat_responses:
  "cat_ParseGetConfigWrapper L = decode_documented L (opResponses cat_doc_getConfig)"
  "cat_ParseGetTokenWrapper L = decode_documented L (opResponses cat_doc_getToken)"
  "cat_ParseListNamespacesWrapper L = decode_documented L (opResponses cat_doc_listNamespaces)"
  "cat_ParseCreateNamespaceWrapper L = decode_documented L (opResponses cat_doc_createNamespace)"
  "cat_ParseLoadNamespaceMetadataWrapper L = decode_documented L (opResponses cat_doc_loadNamespaceMetadata)"
  "cat_ParseDropNamespaceWrapper L = decode_documented L (opResponses cat_doc_dropNamespace)"
  "cat_ParseNamespaceExistsWrapper L = decode_documented L (opResponses cat_doc_namespaceExists)"
  "cat_ParseUpdatePropertiesWrapper L = decode_documented L (opResponses cat_doc_updateProperties)"
  "cat_ParseListTablesWrapper L = decode_documented L (opResponses cat_doc_listTables)"
  "cat_ParseCreateTableWrapper L = decode_documented L (opResponses cat_doc_createTable)"
  "cat_ParseRegisterTableWrapper L = decode_documented L (opResponses cat_doc_registerTable)"
  "cat_ParseLoadTableWrapper L = decode_documented L (opResponses cat_doc_loadTable)"
  "cat_ParseUpdateTableWrapper L = decode_documented L (opResponses cat_doc_updateTable)"
  "cat_ParseDropTableWrapper L = decode_documented L (opResponses cat_doc_dropTable)"
  "cat_ParseTableExistsWrapper L = decode_documented L (opResponses cat_doc_tableExists)"
  "cat_ParseLoadCredentialsWrapper L = decode_documented L (opResponses cat_doc_loadCredentials)"
  "cat_ParseRenameTableWrapper L = decode_documented L (opResponses cat_doc_renameTable)"
  "cat_ParseReportMetricsWrapper L = decode_documented L (opResponses cat_doc_reportMetrics)"
  "cat_ParseCommitTransactionWrapper L = decode_documented L (opResponses cat_doc_commitTransaction)"
  "cat_ParseListViewsWrapper L = decode_documented L (opResponses cat_doc_listViews)"
  "cat_ParseCreateViewWrapper L = decode_documented L (opResponses cat_doc_createView)"
  "cat_ParseLoadViewWrapper L = decode_documented L (opResponses cat_doc_loadView)"
  "cat_ParseReplaceViewWrapper L = decode_documented L (opResponses cat_doc_replaceView)"
  "cat_ParseDropViewWrapper L = decode_documented L (opResponses cat_doc_dropView)"
  "cat_ParseViewExistsWrapper L = decode_documented L (opResponses cat_doc_viewExists)"
  "cat_ParseRenameViewWrapper L = decode_documented L (opResponses cat_doc_renameView)"
  "cat_ParseSendNotificationWrapper L = decode_documented L (opResponses cat_doc_sendNotification)"
  "cat_ParseListPoliciesWrapper L = decode_documented L (opResponses cat_doc_listPolicies)"
  "cat_ParseCreatePolicyWrapper L = decode_documented L (opResponses cat_doc_createPolicy)"
  "cat_ParseLoadPolicyWrapper L = decode_documented L (opResponses cat_doc_loadPolicy)"
  "cat_ParseUpdatePolicyWrapper L = decode_documented L (opResponses cat_doc_updatePolicy)"
  "cat_ParseDropPolicyWrapper L = decode_documented L (opResponses cat_doc_dropPolicy)"
  "cat_ParseAttachPolicyWrapper L = decode_documented L (opResponses cat_doc_attachPolicy)"
  "cat_ParseDetachPolicyWrapper L = decode_documented L (opResponses cat_doc_detachPolicy)"
  "cat_ParseGetApplicablePoliciesWrapper L = decode_documented L (opResponses cat_doc_getApplicablePolicies)"
  unfolding cat_ParseGetConfigWrapper_def
      cat_ParseGetTokenWrapper_def
      cat_ParseListNamespacesWrapper_def
      cat_ParseCreateNamespaceWrapper_def
      cat_ParseLoadNamespaceMetadataWrapper_def
      cat_ParseDropNamespaceWrapper_def
      cat_ParseNamespaceExistsWrapper_def
      cat_ParseUpdatePropertiesWrapper_def
      cat_ParseListTablesWrapper_def
      cat_ParseCreateTableWrapper_def
      cat_ParseRegisterTableWrapper_def
      cat_ParseLoadTableWrapper_def
      cat_ParseUpdateTableWrapper_def
      cat_ParseDropTableWrapper_def
      cat_ParseTableExistsWrapper_def
      cat_ParseLoadCredentialsWrapper_def
      cat_ParseRenameTableWrapper_def
      cat_ParseReportMetricsWrapper_def
      cat_ParseCommitTransactionWrapper_def
      cat_ParseListViewsWrapper_def
      cat_ParseCreateViewWrapper_def
      cat_ParseLoadViewWrapper_def
      cat_ParseReplaceViewWrapper_def
      cat_ParseDropViewWrapper_def
      cat_ParseViewExistsWrapper_def
      cat_ParseRenameViewWrapper_def
      cat_ParseSendNotificationWrapper_def
      cat_ParseListPoliciesWrapper_def
      cat_ParseCreatePolicyWrapper_def
      cat_ParseLoadPolicyWrapper_def
      cat_ParseUpdatePolicyWrapper_def
      cat_ParseDropPolicyWrapper_def
      cat_ParseAttachPolicyWrapper_def
      cat_ParseDetachPolicyWrapper_def
      cat_ParseGetApplicablePoliciesWrapper_def
  by (rule ext, rule parse_documented, simp add: show_status, simp add: undocumented_def cat_alias_defs
    cat_doc_getConfig_def
    cat_doc_getToken_def
    cat_doc_listNamespaces_def
    cat_doc_createNamespace_def
    cat_doc_loadNamespaceMetadata_def
    cat_doc_dropNamespace_def
    cat_doc_namespaceExists_def
    cat_doc_updateProperties_def
    cat_doc_listTables_def
    cat_doc_createTable_def
    cat_doc_registerTable_def
    cat_doc_loadTable_def
    cat_doc_updateTable_def
    cat_doc_dropTable_def
    cat_doc_tableExists_def
    cat_doc_loadCredentials_def
    cat_doc_renameTable_def
    cat_doc_reportMetrics_def
    cat_doc_commitTransaction_def
    cat_doc_listViews_def
    cat_doc_createView_def
    cat_doc_loadView_def
    cat_doc_replaceView_def
    cat_doc_dropView_def
    cat_doc_viewExists_def
    cat_doc_renameView_def
    cat_doc_sendNotification_def
    cat_doc_listPolicies_def
    cat_doc_createPolicy_def
    cat_doc_loadPolicy_def
    cat_doc_updatePolicy_def
    cat_doc_dropPolicy_def
    cat_doc_attachPolicy_def
    cat_doc_detachPolicy_def
    cat_doc_getApplicablePolicies_def)+

section \<open>The table\<close>

definition cat_api ::
  "(api_operation \<times>
    (http_lib \<Rightarrow> string \<Rightarrow> string list \<Rightarrow> wval \<Rightarrow> string \<Rightarrow> string \<Rightarrow> goerr + http_request) \<times>
    (http_lib \<Rightarrow> http_response \<Rightarrow> goerr + http_wrapper) \<times> result_fields) list" where
  "cat_api =
     [(cat_doc_getConfig,
       \<lambda>L server args params ct body. cat_NewGetConfigRequest L server params,
       cat_ParseGetConfigWrapper, cat_GetConfigWrapper),
      (cat_doc_getToken,
       \<lambda>L server args params ct body. cat_NewGetTokenRequestWithBody L server params ct body,
       cat_ParseGetTokenWrapper, cat_GetTokenWrapper),
      (cat_doc_listNamespaces,
       \<lambda>L server args params ct body. cat_NewListNamespacesRequest L server (args ! 0) params,
       cat_ParseListNamespacesWrapper, cat_ListNamespacesWrapper),
      (cat_doc_createNamespace,
       \<lambda>L server args params ct body. cat_NewCreateNamespaceRequestWithBody L server (args ! 0) ct body,
       cat_ParseCreateNamespaceWrapper, cat_CreateNamespaceWrapper),
      (cat_doc_loadNamespaceMetadata,
       \<lambda>L server args params ct body. cat_NewLoadNamespaceMetadataRequest L server (args ! 0) (args ! 1),
       cat_ParseLoadNamespaceMetadataWrapper, cat_LoadNamespaceMetadataWrapper),
      (cat_doc_dropNamespace,
       \<lambda>L server args params ct body. cat_NewDropNamespaceRequest L server (args ! 0) (args ! 1),
       cat_ParseDropNamespaceWrapper, cat_DropNamespaceWrapper),
      (cat_doc_namespaceExists,
       \<lambda>L server args params ct body. cat_NewNamespaceExistsRequest L server (args ! 0) (args ! 1),
       cat_ParseNamespaceExistsWrapper, cat_NamespaceExistsWrapper),
      (cat_doc_updateProperties,
       \<lambda>L server args params ct body. cat_NewUpdatePropertiesRequestWithBody L server (args ! 0) (args ! 1) ct body,
       cat_ParseUpdatePropertiesWrapper, cat_UpdatePropertiesWrapper),
      (cat_doc_listTables,
       \<lambda>L server args params ct body. cat_NewListTablesRequest L server (args ! 0) (args ! 1) params,
       cat_ParseListTablesWrapper, cat_ListTablesWrapper),
      (cat_doc_createTable,
       \<lambda>L server args params ct body. cat_NewCreateTableRequestWithBody L server (args ! 0) (args ! 1) params ct body,
       cat_ParseCreateTableWrapper, cat_CreateTableWrapper),
      (cat_doc_registerTable,
       \<lambda>L server args params ct body. cat_NewRegisterTableRequestWithBody L server (args ! 0) (args ! 1) ct body,
       cat_ParseRegisterTableWrapper, cat_RegisterTableWrapper),
      (cat_doc_loadTable,
       \<lambda>L server args params ct body. cat_NewLoadTableRequest L server (args ! 0) (args ! 1) (args ! 2) params,
       cat_ParseLoadTableWrapper, cat_LoadTableWrapper),
      (cat_doc_updateTable,
       \<lambda>L server args params ct body. cat_NewUpdateTableRequestWithBody L server (args ! 0) (args ! 1) (args ! 2) ct body,
       cat_ParseUpdateTableWrapper, cat_UpdateTableWrapper),
      (cat_doc_dropTable,
       \<lambda>L server args params ct body. cat_NewDropTableRequest L server (args ! 0) (args ! 1) (args ! 2) params,
       cat_ParseDropTableWrapper, cat_DropTableWrapper),
      (cat_doc_tableExists,
       \<lambda>L server args params ct body. cat_NewTableExistsRequest L server (args ! 0) (args ! 1) (args ! 2),
       cat_ParseTableExistsWrapper, cat_TableExistsWrapper),
      (cat_doc_loadCredentials,
       \<lambda>L server args params ct body. cat_NewLoadCredentialsRequest L server (args ! 0) (args ! 1) (args ! 2),
       cat_ParseLoadCredentialsWrapper, cat_LoadCredentialsWrapper),
      (cat_doc_renameTable,
       \<lambda>L server args params ct body. cat_NewRenameTableRequestWithBody L server (args ! 0) ct body,
       cat_ParseRenameTableWrapper, cat_RenameTableWrapper),
      (cat_doc_reportMetrics,
       \<lambda>L server args params ct body. cat_NewReportMetricsRequestWithBody L server (args ! 0) (args ! 1) (args ! 2) ct body,
       cat_ParseReportMetricsWrapper, cat_ReportMetricsWrapper),
      (cat_doc_commitTransaction,
       \<lambda>L server args params ct body. cat_NewCommitTransactionRequestWithBody L server (args ! 0) ct body,
       cat_ParseCommitTransactionWrapper, cat_CommitTransactionWrapper),
      (cat_doc_listViews,
       \<lambda>L server args params ct body. cat_NewListViewsRequest L server (args ! 0) (args ! 1) params,
       cat_ParseListViewsWrapper, cat_ListViewsWrapper),
      (cat_doc_createView,
       \<lambda>L server args params ct body. cat_NewCreateViewRequestWithBody L server (args ! 0) (args ! 1) ct body,
       cat_ParseCreateViewWrapper, cat_CreateViewWrapper),
      (cat_doc_loadView,
       \<lambda>L server args params ct body. cat_NewLoadViewRequest L server (args ! 0) (args ! 1) (args ! 2),
       cat_ParseLoadViewWrapper, cat_LoadViewWrapper),
      (cat_doc_replaceView,
       \<lambda>L server args params ct body. cat_NewReplaceViewRequestWithBody L server (args ! 0) (args ! 1) (args ! 2) ct body,
       cat_ParseReplaceViewWrapper, cat_ReplaceViewWrapper),
      (cat_doc_dropView,
       \<lambda>L server args params ct body. cat_NewDropViewRequest L server (args ! 0) (args ! 1) (args ! 2),
       cat_ParseDropViewWrapper, cat_DropViewWrapper),
      (cat_doc_viewExists,
       \<lambda>L server args params ct body. cat_NewViewExistsRequest L server (args ! 0) (args ! 1) (args ! 2),
       cat_ParseViewExistsWrapper, cat_ViewExistsWrapper),
      (cat_doc_renameView,
       \<lambda>L server args params ct body. cat_NewRenameViewRequestWithBody L server (args ! 0) ct body,
       cat_ParseRenameViewWrapper, cat_RenameViewWrapper),
      (cat_doc_sendNotification,
       \<lambda>L server args params ct body. cat_NewSendNotificationRequestWithBody L server (args ! 0) (args ! 1) (args ! 2) ct body,
       cat_ParseSendNotificationWrapper, cat_SendNotificationWrapper),
      (cat_doc_listPolicies,
       \<lambda>L server args params ct body. cat_NewListPoliciesRequest L server (args ! 0) (args ! 1) params,
       cat_ParseListPoliciesWrapper, cat_ListPoliciesWrapper),
      (cat_doc_createPolicy,
       \<lambda>L server args params ct body. cat_NewCreatePolicyRequestWithBody L server (args ! 0) (args ! 1) ct body,
       cat_ParseCreatePolicyWrapper, cat_CreatePolicyWrapper),
      (cat_doc_loadPolicy,
       \<lambda>L server args params ct body. cat_NewLoadPolicyRequest L server (args ! 0) (args ! 1) (args ! 2),
       cat_ParseLoadPolicyWrapper, cat_LoadPolicyWrapper),
      (cat_doc_updatePolicy,
       \<lambda>L server args params ct body. cat_NewUpdatePolicyRequestWithBody L server (args ! 0) (args ! 1) (args ! 2) ct body,
       cat_ParseUpdatePolicyWrapper, cat_UpdatePolicyWrapper),
      (cat_doc_dropPolicy,
       \<lambda>L server args params ct body. cat_NewDropPolicyRequest L server (args ! 0) (args ! 1) (args ! 2) params,
       cat_ParseDropPolicyWrapper, cat_DropPolicyWrapper),
      (cat_doc_attachPolicy,
       \<lambda>L server args params ct body. cat_NewAttachPolicyRequestWithBody L server (args ! 0) (args ! 1) (args ! 2) ct body,
       cat_ParseAttachPolicyWrapper, cat_AttachPolicyWrapper),
      (cat_doc_detachPolicy,
       \<lambda>L server args params ct body. cat_NewDetachPolicyRequestWithBody L server (args ! 0) (args ! 1) (args ! 2) ct body,
       cat_ParseDetachPolicyWrapper, cat_DetachPolicyWrapper),
      (cat_doc_getApplicablePolicies,
       \<lambda>L server args params ct body. cat_NewGetApplicablePoliciesRequest L server (args ! 0) params,
       cat_ParseGetApplicablePoliciesWrapper, cat_GetApplicablePoliciesWrapper)]"

end
