(* ===== verification/Client_Tables.thy ===== *)
theory Client_Tables
  imports Wire_Types Management_Api Catalog_Api
begin

text \<open>
  The tables of the two interfaces, row by row: every request constructor builds the documented
  request, every response parser decodes as documented, and every result is of its declared type.
\<close>

section \<open>The management interface\<close>

lemma mgmt_arity:
  "length (filter is_par (opPath mgmt_doc_listCatalogs)) = 0"
  "length (filter is_par (opPath mgmt_doc_createCatalog)) = 0"
  "length (filter is_par (opPath mgmt_doc_getCatalog)) = 1"
  "length (filter is_par (opPath mgmt_doc_updateCatalog)) = 1"
  "length (filter is_par (opPath mgmt_doc_deleteCatalog)) = 1"
  "length (filter is_par (opPath mgmt_doc_listPrincipals)) = 0"
  "length (filter is_par (opPath mgmt_doc_createPrincipal)) = 0"
  "length (filter is_par (opPath mgmt_doc_getPrincipal)) = 1"
  "length (filter is_par (opPath mgmt_doc_updatePrincipal)) = 1"
  "length (filter is_par (opPath mgmt_doc_deletePrincipal)) = 1"
  "length (filter is_par (opPath mgmt_doc_rotateCredentials)) = 1"
  "length (filter is_par (opPath mgmt_doc_resetCredentials)) = 1"
  "length (filter is_par (opPath mgmt_doc_listPrincipalRolesAssigned)) = 1"
  "length (filter is_par (opPath mgmt_doc_assignPrincipalRole)) = 1"
  "length (filter is_par (opPath mgmt_doc_revokePrincipalRole)) = 2"
  "length (filter is_par (opPath mgmt_doc_listPrincipalRoles)) = 0"
  "length (filter is_par (opPath mgmt_doc_createPrincipalRole)) = 0"
  "length (filter is_par (opPath mgmt_doc_getPrincipalRole)) = 1"
  "length (filter is_par (opPath mgmt_doc_updatePrincipalRole)) = 1"
  "length (filter is_par (opPath mgmt_doc_deletePrincipalRole)) = 1"
  "length (filter is_par (opPath mgmt_doc_listAssigneePrincipalsForPrincipalRole)) = 1"
  "length (filter is_par (opPath mgmt_doc_listCatalogRolesForPrincipalRole)) = 2"
  "length (filter is_par (opPath mgmt_doc_assignCatalogRoleToPrincipalRole)) = 2"
  "length (filter is_par (opPath mgmt_doc_revokeCatalogRoleFromPrincipalRole)) = 3"
  "length (filter is_par (opPath mgmt_doc_listCatalogRoles)) = 1"
  "length (filter is_par (opPath mgmt_doc_createCatalogRole)) = 1"
  "length (filter is_par (opPath mgmt_doc_getCatalogRole)) = 2"
  "length (filter is_par (opPath mgmt_doc_updateCatalogRole)) = 2"
  "length (filter is_par (opPath mgmt_doc_deleteCatalogRole)) = 2"
  "length (filter is_par (opPath mgmt_doc_listAssigneePrincipalRolesForCatalogRole)) = 2"
  "length (filter is_par (opPath mgmt_doc_listGrantsForCatalogRole)) = 2"
  "length (filter is_par (opPath mgmt_doc_addGrantToCatalogRole)) = 2"
  "length (filter is_par (opPath mgmt_doc_revokeGrantFromCatalogRole)) = 2"
  by (simp_all add:
    mgmt_doc_listCatalogs_def mgmt_doc_createCatalog_def mgmt_doc_getCatalog_def
    mgmt_doc_updateCatalog_def mgmt_doc_deleteCatalog_def mgmt_doc_listPrincipals_def
    mgmt_doc_createPrincipal_def mgmt_doc_getPrincipal_def mgmt_doc_updatePrincipal_def
    mgmt_doc_deletePrincipal_def mgmt_doc_rotateCredentials_def mgmt_doc_resetCredentials_def
    mgmt_doc_listPrincipalRolesAssigned_def mgmt_doc_assignPrincipalRole_def
    mgmt_doc_revokePrincipalRole_def mgmt_doc_listPrincipalRoles_def
    mgmt_doc_createPrincipalRole_def mgmt_doc_getPrincipalRole_def
    mgmt_doc_updatePrincipalRole_def mgmt_doc_deletePrincipalRole_def
    mgmt_doc_listAssigneePrincipalsForPrincipalRole_def
    mgmt_doc_listCatalogRolesForPrincipalRole_def mgmt_doc_assignCatalogRoleToPrincipalRole_def
    mgmt_doc_revokeCatalogRoleFromPrincipalRole_def mgmt_doc_listCatalogRoles_def
    mgmt_doc_createCatalogRole_def mgmt_doc_getCatalogRole_def mgmt_doc_updateCatalogRole_def
    mgmt_doc_deleteCatalogRole_def mgmt_doc_listAssigneePrincipalRolesForCatalogRole_def
    mgmt_doc_listGrantsForCatalogRole_def mgmt_doc_addGrantToCatalogRole_def
    mgmt_doc_revokeGrantFromCatalogRole_def)

lemma mgmt_response_types:
  "list_all (\<lambda>(p, _). list_all (\<lambda>(c, T). wf_type T) (opResponses p)) mgmt_api"
  by (simp add: mgmt_api_def
    mgmt_doc_listCatalogs_def mgmt_doc_createCatalog_def mgmt_doc_getCatalog_def
    mgmt_doc_updateCatalog_def mgmt_doc_deleteCatalog_def mgmt_doc_listPrincipals_def
    mgmt_doc_createPrincipal_def mgmt_doc_getPrincipal_def mgmt_doc_updatePrincipal_def
    mgmt_doc_deletePrincipal_def mgmt_doc_rotateCredentials_def mgmt_doc_resetCredentials_def
    mgmt_doc_listPrincipalRolesAssigned_def mgmt_doc_assignPrincipalRole_def
    mgmt_doc_revokePrincipalRole_def mgmt_doc_listPrincipalRoles_def
    mgmt_doc_createPrincipalRole_def mgmt_doc_getPrincipalRole_def
    mgmt_doc_updatePrincipalRole_def mgmt_doc_deletePrincipalRole_def
    mgmt_doc_listAssigneePrincipalsForPrincipalRole_def
    mgmt_doc_listCatalogRolesForPrincipalRole_def mgmt_doc_assignCatalogRoleToPrincipalRole_def
    mgmt_doc_revokeCatalogRoleFromPrincipalRole_def mgmt_doc_listCatalogRoles_def
    mgmt_doc_createCatalogRole_def mgmt_doc_getCatalogRole_def mgmt_doc_updateCatalogRole_def
    mgmt_doc_deleteCatalogRole_def mgmt_doc_listAssigneePrincipalRolesForCatalogRole_def
    mgmt_doc_listGrantsForCatalogRole_def mgmt_doc_addGrantToCatalogRole_def
    mgmt_doc_revokeGrantFromCatalogRole_def)

lemma mgmt_api_requests:
  "list_all (\<lambda>(p, new, _). \<forall>L server args params ct body.
     length args = length (filter is_par (opPath p)) \<longrightarrow>
     new L server args params ct body = documented_request L server p args params ct body) mgmt_api"
  by (auto simp: mgmt_api_def mgmt_arity length_Suc_conv numeral_eq_Suc mgmt_requests [symmetric])

lemma mgmt_api_responses:
  "list_all (\<lambda>(p, new, parse, decls). \<forall>L. parse L = decode_documented L (opResponses p)) mgmt_api"
  by (simp add: mgmt_api_def mgmt_responses)

lemma mgmt_results_typed:
  "mgmt_ParseListCatalogsWrapper L rsp = Inr r \<Longrightarrow> well_typed_result mgmt_ListCatalogsWrapper r"
  "mgmt_ParseCreateCatalogWrapper L rsp = Inr r \<Longrightarrow> well_typed_result mgmt_CreateCatalogWrapper r"
  "mgmt_ParseGetCatalogWrapper L rsp = Inr r \<Longrightarrow> well_typed_result mgmt_GetCatalogWrapper r"
  "mgmt_ParseUpdateCatalogWrapper L rsp = Inr r \<Longrightarrow> well_typed_result mgmt_UpdateCatalogWrapper r"
  "mgmt_ParseDeleteCatalogWrapper L rsp = Inr r \<Longrightarrow> well_typed_result mgmt_DeleteCatalogWrapper r"
  "mgmt_ParseListPrincipalsWrapper L rsp = Inr r \<Longrightarrow> well_typed_result mgmt_ListPrincipalsWrapper r"
  "mgmt_ParseCreatePrincipalWrapper L rsp = Inr r \<Longrightarrow> well_typed_result mgmt_CreatePrincipalWrapper r"
  "mgmt_ParseGetPrincipalWrapper L rsp = Inr r \<Longrightarrow> well_typed_result mgmt_GetPrincipalWrapper r"
  "mgmt_ParseUpdatePrincipalWrapper L rsp = Inr r \<Longrightarrow> well_typed_result mgmt_UpdatePrincipalWrapper r"
  "mgmt_ParseDeletePrincipalWrapper L rsp = Inr r \<Longrightarrow> well_typed_result mgmt_DeletePrincipalWrapper r"
  "mgmt_ParseRotateCredentialsWrapper L rsp = Inr r \<Longrightarrow> well_typed_result mgmt_RotateCredentialsWrapper r"
  "mgmt_ParseResetCredentialsWrapper L rsp = Inr r \<Longrightarrow> well_typed_result mgmt_ResetCredentialsWrapper r"
  "mgmt_ParseListPrincipalRolesAssignedWrapper L rsp = Inr r \<Longrightarrow> well_typed_result mgmt_ListPrincipalRolesAssignedWrapper r"
  "mgmt_ParseAssignPrincipalRoleWrapper L rsp = Inr r \<Longrightarrow> well_typed_result mgmt_AssignPrincipalRoleWrapper r"
  "mgmt_ParseRevokePrincipalRoleWrapper L rsp = Inr r \<Longrightarrow> well_typed_result mgmt_RevokePrincipalRoleWrapper r"
  "mgmt_ParseListPrincipalRolesWrapper L rsp = Inr r \<Longrightarrow> well_typed_result mgmt_ListPrincipalRolesWrapper r"
  "mgmt_ParseCreatePrincipalRoleWrapper L rsp = Inr r \<Longrightarrow> well_typed_result mgmt_CreatePrincipalRoleWrapper r"
  "mgmt_ParseGetPrincipalRoleWrapper L rsp = Inr r \<Longrightarrow> well_typed_result mgmt_GetPrincipalRoleWrapper r"
  "mgmt_ParseUpdatePrincipalRoleWrapper L rsp = Inr r \<Longrightarrow> well_typed_result mgmt_UpdatePrincipalRoleWrapper r"
  "mgmt_ParseDeletePrincipalRoleWrapper L rsp = Inr r \<Longrightarrow> well_typed_result mgmt_DeletePrincipalRoleWrapper r"
  "mgmt_ParseListAssigneePrincipalsForPrincipalRoleWrapper L rsp = Inr r \<Longrightarrow> well_typed_result mgmt_ListAssigneePrincipalsForPrincipalRoleWrapper r"
  "mgmt_ParseListCatalogRolesForPrincipalRoleWrapper L rsp = Inr r \<Longrightarrow> well_typed_result mgmt_ListCatalogRolesForPrincipalRoleWrapper r"
  "mgmt_ParseAssignCatalogRoleToPrincipalRoleWrapper L rsp = Inr r \<Longrightarrow> well_typed_result mgmt_AssignCatalogRoleToPrincipalRoleWrapper r"
  "mgmt_ParseRevokeCatalogRoleFromPrincipalRoleWrapper L rsp = Inr r \<Longrightarrow> well_typed_result mgmt_RevokeCatalogRoleFromPrincipalRoleWrapper r"
  "mgmt_ParseListCatalogRolesWrapper L rsp = Inr r \<Longrightarrow> well_typed_result mgmt_ListCatalogRolesWrapper r"
  "mgmt_ParseCreateCatalogRoleWrapper L rsp = Inr r \<Longrightarrow> well_typed_result mgmt_CreateCatalogRoleWrapper r"
  "mgmt_ParseGetCatalogRoleWrapper L rsp = Inr r \<Longrightarrow> well_typed_result mgmt_GetCatalogRoleWrapper r"
  "mgmt_ParseUpdateCatalogRoleWrapper L rsp = Inr r \<Longrightarrow> well_typed_result mgmt_UpdateCatalogRoleWrapper r"
  "mgmt_ParseDeleteCatalogRoleWrapper L rsp = Inr r \<Longrightarrow> well_typed_result mgmt_DeleteCatalogRoleWrapper r"
  "mgmt_ParseListAssigneePrincipalRolesForCatalogRoleWrapper L rsp = Inr r \<Longrightarrow> well_typed_result mgmt_ListAssigneePrincipalRolesForCatalogRoleWrapper r"
  "mgmt_ParseListGrantsForCatalogRoleWrapper L rsp = Inr r \<Longrightarrow> well_typed_result mgmt_ListGrantsForCatalogRoleWrapper r"
  "mgmt_ParseAddGrantToCatalogRoleWrapper L rsp = Inr r \<Longrightarrow> well_typed_result mgmt_AddGrantToCatalogRoleWrapper r"
  "mgmt_ParseRevokeGrantFromCatalogRoleWrapper L rsp = Inr r \<Longrightarrow> well_typed_result mgmt_RevokeGrantFromCatalogRoleWrapper r"
  unfolding
    mgmt_ParseListCatalogsWrapper_def mgmt_ParseCreateCatalogWrapper_def
    mgmt_ParseGetCatalogWrapper_def mgmt_ParseUpdateCatalogWrapper_def
    mgmt_ParseDeleteCatalogWrapper_def mgmt_ParseListPrincipalsWrapper_def
    mgmt_ParseCreatePrincipalWrapper_def mgmt_ParseGetPrincipalWrapper_def
    mgmt_ParseUpdatePrincipalWrapper_def mgmt_ParseDeletePrincipalWrapper_def
    mgmt_ParseRotateCredentialsWrapper_def mgmt_ParseResetCredentialsWrapper_def
    mgmt_ParseListPrincipalRolesAssignedWrapper_def mgmt_ParseAssignPrincipalRoleWrapper_def
    mgmt_ParseRevokePrincipalRoleWrapper_def mgmt_ParseListPrincipalRolesWrapper_def
    mgmt_ParseCreatePrincipalRoleWrapper_def mgmt_ParseGetPrincipalRoleWrapper_def
    mgmt_ParseUpdatePrincipalRoleWrapper_def mgmt_ParseDeletePrincipalRoleWrapper_def
    mgmt_ParseListAssigneePrincipalsForPrincipalRoleWrapper_def
    mgmt_ParseListCatalogRolesForPrincipalRoleWrapper_def
    mgmt_ParseAssignCatalogRoleToPrincipalRoleWrapper_def
    mgmt_ParseRevokeCatalogRoleFromPrincipalRoleWrapper_def
    mgmt_ParseListCatalogRolesWrapper_def mgmt_ParseCreateCatalogRoleWrapper_def
    mgmt_ParseGetCatalogRoleWrapper_def mgmt_ParseUpdateCatalogRoleWrapper_def
    mgmt_ParseDeleteCatalogRoleWrapper_def
    mgmt_ParseListAssigneePrincipalRolesForCatalogRoleWrapper_def
    mgmt_ParseListGrantsForCatalogRoleWrapper_def mgmt_ParseAddGrantToCatalogRoleWrapper_def
    mgmt_ParseRevokeGrantFromCatalogRoleWrapper_def
  by (erule parse_well_typed [rotated], simp add:
    mgmt_ListCatalogsWrapper_def mgmt_CreateCatalogWrapper_def mgmt_GetCatalogWrapper_def
    mgmt_UpdateCatalogWrapper_def mgmt_DeleteCatalogWrapper_def mgmt_ListPrincipalsWrapper_def
    mgmt_CreatePrincipalWrapper_def mgmt_GetPrincipalWrapper_def
    mgmt_UpdatePrincipalWrapper_def mgmt_DeletePrincipalWrapper_def
    mgmt_RotateCredentialsWrapper_def mgmt_ResetCredentialsWrapper_def
    mgmt_ListPrincipalRolesAssignedWrapper_def mgmt_AssignPrincipalRoleWrapper_def
    mgmt_RevokePrincipalRoleWrapper_def mgmt_ListPrincipalRolesWrapper_def
    mgmt_CreatePrincipalRoleWrapper_def mgmt_GetPrincipalRoleWrapper_def
    mgmt_UpdatePrincipalRoleWrapper_def mgmt_DeletePrincipalRoleWrapper_def
    mgmt_ListAssigneePrincipalsForPrincipalRoleWrapper_def
    mgmt_ListCatalogRolesForPrincipalRoleWrapper_def
    mgmt_AssignCatalogRoleToPrincipalRoleWrapper_def
    mgmt_RevokeCatalogRoleFromPrincipalRoleWrapper_def mgmt_ListCatalogRolesWrapper_def
    mgmt_CreateCatalogRoleWrapper_def mgmt_GetCatalogRoleWrapper_def
    mgmt_UpdateCatalogRoleWrapper_def mgmt_DeleteCatalogRoleWrapper_def
    mgmt_ListAssigneePrincipalRolesForCatalogRoleWrapper_def
    mgmt_ListGrantsForCatalogRoleWrapper_def mgmt_AddGrantToCatalogRoleWrapper_def
    mgmt_RevokeGrantFromCatalogRoleWrapper_def)+

lemma mgmt_api_results:
  "list_all (\<lambda>(p, new, parse, decls). \<forall>L rsp r.
     parse L rsp = Inr r \<longrightarrow> well_typed_result decls r) mgmt_api"
  by (simp add: mgmt_api_def mgmt_results_typed)

section \<open>The catalog interface\<close>

lemma cat_arity:
  "length (filter is_par (opPath cat_doc_getConfig)) = 0"
  "length (filter is_par (opPath cat_doc_getToken)) = 0"
  "length (filter is_par (opPath cat_doc_listNamespaces)) = 1"
  "length (filter is_par (opPath cat_doc_createNamespace)) = 1"
  "length (filter is_par (opPath cat_doc_loadNamespaceMetadata)) = 2"
  "length (filter is_par (opPath cat_doc_dropNamespace)) = 2"
  "length (filter is_par (opPath cat_doc_namespaceExists)) = 2"
  "length (filter is_par (opPath cat_doc_updateProperties)) = 2"
  "length (filter is_par (opPath cat_doc_listTables)) = 2"
  "length (filter is_par (opPath cat_doc_createTable)) = 2"
  "length (filter is_par (opPath cat_doc_registerTable)) = 2"
  "length (filter is_par (opPath cat_doc_loadTable)) = 3"
  "length (filter is_par (opPath cat_doc_updateTable)) = 3"
  "length (filter is_par (opPath cat_doc_dropTable)) = 3"
  "length (filter is_par (opPath cat_doc_tableExists)) = 3"
  "length (filter is_par (opPath cat_doc_loadCredentials)) = 3"
  "length (filter is_par (opPath cat_doc_renameTable)) = 1"
  "length (filter is_par (opPath cat_doc_reportMetrics)) = 3"
  "length (filter is_par (opPath cat_doc_commitTransaction)) = 1"
  "length (filter is_par (opPath cat_doc_listViews)) = 2"
  "length (filter is_par (opPath cat_doc_createView)) = 2"
  "length (filter is_par (opPath cat_doc_loadView)) = 3"
  "length (filter is_par (opPath cat_doc_replaceView)) = 3"
  "length (filter is_par (opPath cat_doc_dropView)) = 3"
  "length (filter is_par (opPath cat_doc_viewExists)) = 3"
  "length (filter is_par (opPath cat_doc_renameView)) = 1"
  "length (filter is_par (opPath cat_doc_sendNotification)) = 3"
  "length (filter is_par (opPath cat_doc_listPolicies)) = 2"
  "length (filter is_par (opPath cat_doc_createPolicy)) = 2"
  "length (filter is_par (opPath cat_doc_loadPolicy)) = 3"
  "length (filter is_par (opPath cat_doc_updatePolicy)) = 3"
  "length (filter is_par (opPath cat_doc_dropPolicy)) = 3"
  "length (filter is_par (opPath cat_doc_attachPolicy)) = 3"
  "length (filter is_par (opPath cat_doc_detachPolicy)) = 3"
  "length (filter is_par (opPath cat_doc_getApplicablePolicies)) = 1"
  by (simp_all add:
    cat_doc_getConfig_def cat_doc_getToken_def cat_doc_listNamespaces_def
    cat_doc_createNamespace_def cat_doc_loadNamespaceMetadata_def cat_doc_dropNamespace_def
    cat_doc_namespaceExists_def cat_doc_updateProperties_def cat_doc_listTables_def
    cat_doc_createTable_def cat_doc_registerTable_def cat_doc_loadTable_def
    cat_doc_updateTable_def cat_doc_dropTable_def cat_doc_tableExists_def
    cat_doc_loadCredentials_def cat_doc_renameTable_def cat_doc_reportMetrics_def
    cat_doc_commitTransaction_def cat_doc_listViews_def cat_doc_createView_def
    cat_doc_loadView_def cat_doc_replaceView_def cat_doc_dropView_def cat_doc_viewExists_def
    cat_doc_renameView_def cat_doc_sendNotification_def cat_doc_listPolicies_def
    cat_doc_createPolicy_def cat_doc_loadPolicy_def cat_doc_updatePolicy_def
    cat_doc_dropPolicy_def cat_doc_attachPolicy_def cat_doc_detachPolicy_def
    cat_doc_getApplicablePolicies_def)

lemma cat_response_types:
  "list_all (\<lambda>(p, _). list_all (\<lambda>(c, T). wf_type T) (opResponses p)) cat_api"
  by (simp add: cat_api_def
    cat_doc_getConfig_def cat_doc_getToken_def cat_doc_listNamespaces_def
    cat_doc_createNamespace_def cat_doc_loadNamespaceMetadata_def cat_doc_dropNamespace_def
    cat_doc_namespaceExists_def cat_doc_updateProperties_def cat_doc_listTables_def
    cat_doc_createTable_def cat_doc_registerTable_def cat_doc_loadTable_def
    cat_doc_updateTable_def cat_doc_dropTable_def cat_doc_tableExists_def
    cat_doc_loadCredentials_def cat_doc_renameTable_def cat_doc_reportMetrics_def
    cat_doc_commitTransaction_def cat_doc_listViews_def cat_doc_createView_def
    cat_doc_loadView_def cat_doc_replaceView_def cat_doc_dropView_def cat_doc_viewExists_def
    cat_doc_renameView_def cat_doc_sendNotification_def cat_doc_listPolicies_def
    cat_doc_createPolicy_def cat_doc_loadPolicy_def cat_doc_updatePolicy_def
    cat_doc_dropPolicy_def cat_doc_attachPolicy_def cat_doc_detachPolicy_def
    cat_doc_getApplicablePolicies_def)

lemma cat_api_requests:
  "list_all (\<lambda>(p, new, _). \<forall>L server args params ct body.
     length args = length (filter is_par (opPath p)) \<longrightarrow>
     new L server args params ct body = documented_request L server p args params ct body) cat_api"
  by (auto simp: cat_api_def cat_arity length_Suc_conv numeral_eq_Suc cat_requests [symmetric])

lemma cat_api_responses:
  "list_all (\<lambda>(p, new, parse, decls). \<forall>L. parse L = decode_documented L (opResponses p)) cat_api"
  by (simp add: cat_api_def cat_responses)

lemma cat_results_typed:
  "cat_ParseGetConfigWrapper L rsp = Inr r \<Longrightarrow> well_typed_result cat_GetConfigWrapper r"
  "cat_ParseGetTokenWrapper L rsp = Inr r \<Longrightarrow> well_typed_result cat_GetTokenWrapper r"
  "cat_ParseListNamespacesWrapper L rsp = Inr r \<Longrightarrow> well_typed_result cat_ListNamespacesWrapper r"
  "cat_ParseCreateNamespaceWrapper L rsp = Inr r \<Longrightarrow> well_typed_result cat_CreateNamespaceWrapper r"
  "cat_ParseLoadNamespaceMetadataWrapper L rsp = Inr r \<Longrightarrow> well_typed_result cat_LoadNamespaceMetadataWrapper r"
  "cat_ParseDropNamespaceWrapper L rsp = Inr r \<Longrightarrow> well_typed_result cat_DropNamespaceWrapper r"
  "cat_ParseNamespaceExistsWrapper L rsp = Inr r \<Longrightarrow> well_typed_result cat_NamespaceExistsWrapper r"
  "cat_ParseUpdatePropertiesWrapper L rsp = Inr r \<Longrightarrow> well_typed_result cat_UpdatePropertiesWrapper r"
  "cat_ParseListTablesWrapper L rsp = Inr r \<Longrightarrow> well_typed_result cat_ListTablesWrapper r"
  "cat_ParseCreateTableWrapper L rsp = Inr r \<Longrightarrow> well_typed_result cat_CreateTableWrapper r"
  "cat_ParseRegisterTableWrapper L rsp = Inr r \<Longrightarrow> well_typed_result cat_RegisterTableWrapper r"
  "cat_ParseLoadTableWrapper L rsp = Inr r \<Longrightarrow> well_typed_result cat_LoadTableWrapper r"
  "cat_ParseUpdateTableWrapper L rsp = Inr r \<Longrightarrow> well_typed_result cat_UpdateTableWrapper r"
  "cat_ParseDropTableWrapper L rsp = Inr r \<Longrightarrow> well_typed_result cat_DropTableWrapper r"
  "cat_ParseTableExistsWrapper L rsp = Inr r \<Longrightarrow> well_typed_result cat_TableExistsWrapper r"
  "cat_ParseLoadCredentialsWrapper L rsp = Inr r \<Longrightarrow> well_typed_result cat_LoadCredentialsWrapper r"
  "cat_ParseRenameTableWrapper L rsp = Inr r \<Longrightarrow> well_typed_result cat_RenameTableWrapper r"
  "cat_ParseReportMetricsWrapper L rsp = Inr r \<Longrightarrow> well_typed_result cat_ReportMetricsWrapper r"
  "cat_ParseCommitTransactionWrapper L rsp = Inr r \<Longrightarrow> well_typed_result cat_CommitTransactionWrapper r"
  "cat_ParseListViewsWrapper L rsp = Inr r \<Longrightarrow> well_typed_result cat_ListViewsWrapper r"
  "cat_ParseCreateViewWrapper L rsp = Inr r \<Longrightarrow> well_typed_result cat_CreateViewWrapper r"
  "cat_ParseLoadViewWrapper L rsp = Inr r \<Longrightarrow> well_typed_result cat_LoadViewWrapper r"
  "cat_ParseReplaceViewWrapper L rsp = Inr r \<Longrightarrow> well_typed_result cat_ReplaceViewWrapper r"
  "cat_ParseDropViewWrapper L rsp = Inr r \<Longrightarrow> well_typed_result cat_DropViewWrapper r"
  "cat_ParseViewExistsWrapper L rsp = Inr r \<Longrightarrow> well_typed_result cat_ViewExistsWrapper r"
  "cat_ParseRenameViewWrapper L rsp = Inr r \<Longrightarrow> well_typed_result cat_RenameViewWrapper r"
  "cat_ParseSendNotificationWrapper L rsp = Inr r \<Longrightarrow> well_typed_result cat_SendNotificationWrapper r"
  "cat_ParseListPoliciesWrapper L rsp = Inr r \<Longrightarrow> well_typed_result cat_ListPoliciesWrapper r"
  "cat_ParseCreatePolicyWrapper L rsp = Inr r \<Longrightarrow> well_typed_result cat_CreatePolicyWrapper r"
  "cat_ParseLoadPolicyWrapper L rsp = Inr r \<Longrightarrow> well_typed_result cat_LoadPolicyWrapper r"
  "cat_ParseUpdatePolicyWrapper L rsp = Inr r \<Longrightarrow> well_typed_result cat_UpdatePolicyWrapper r"
  "cat_ParseDropPolicyWrapper L rsp = Inr r \<Longrightarrow> well_typed_result cat_DropPolicyWrapper r"
  "cat_ParseAttachPolicyWrapper L rsp = Inr r \<Longrightarrow> well_typed_result cat_AttachPolicyWrapper r"
  "cat_ParseDetachPolicyWrapper L rsp = Inr r \<Longrightarrow> well_typed_result cat_DetachPolicyWrapper r"
  "cat_ParseGetApplicablePoliciesWrapper L rsp = Inr r \<Longrightarrow> well_typed_result cat_GetApplicablePoliciesWrapper r"
  unfolding
    cat_ParseGetConfigWrapper_def cat_ParseGetTokenWrapper_def
    cat_ParseListNamespacesWrapper_def cat_ParseCreateNamespaceWrapper_def
    cat_ParseLoadNamespaceMetadataWrapper_def cat_ParseDropNamespaceWrapper_def
    cat_ParseNamespaceExistsWrapper_def cat_ParseUpdatePropertiesWrapper_def
    cat_ParseListTablesWrapper_def cat_ParseCreateTableWrapper_def
    cat_ParseRegisterTableWrapper_def cat_ParseLoadTableWrapper_def
    cat_ParseUpdateTableWrapper_def cat_ParseDropTableWrapper_def
    cat_ParseTableExistsWrapper_def cat_ParseLoadCredentialsWrapper_def
    cat_ParseRenameTableWrapper_def cat_ParseReportMetricsWrapper_def
    cat_ParseCommitTransactionWrapper_def cat_ParseListViewsWrapper_def
    cat_ParseCreateViewWrapper_def cat_ParseLoadViewWrapper_def cat_ParseReplaceViewWrapper_def
    cat_ParseDropViewWrapper_def cat_ParseViewExistsWrapper_def cat_ParseRenameViewWrapper_def
    cat_ParseSendNotificationWrapper_def cat_ParseListPoliciesWrapper_def
    cat_ParseCreatePolicyWrapper_def cat_ParseLoadPolicyWrapper_def
    cat_ParseUpdatePolicyWrapper_def cat_ParseDropPolicyWrapper_def
    cat_ParseAttachPolicyWrapper_def cat_ParseDetachPolicyWrapper_def
    cat_ParseGetApplicablePoliciesWrapper_def
  by (erule parse_well_typed [rotated], simp add:
    cat_GetConfigWrapper_def cat_GetTokenWrapper_def cat_ListNamespacesWrapper_def
    cat_CreateNamespaceWrapper_def cat_LoadNamespaceMetadataWrapper_def
    cat_DropNamespaceWrapper_def cat_NamespaceExistsWrapper_def cat_UpdatePropertiesWrapper_def
    cat_ListTablesWrapper_def cat_CreateTableWrapper_def cat_RegisterTableWrapper_def
    cat_LoadTableWrapper_def cat_UpdateTableWrapper_def cat_DropTableWrapper_def
    cat_TableExistsWrapper_def cat_LoadCredentialsWrapper_def cat_RenameTableWrapper_def
    cat_ReportMetricsWrapper_def cat_CommitTransactionWrapper_def cat_ListViewsWrapper_def
    cat_CreateViewWrapper_def cat_LoadViewWrapper_def cat_ReplaceViewWrapper_def
    cat_DropViewWrapper_def cat_ViewExistsWrapper_def cat_RenameViewWrapper_def
    cat_SendNotificationWrapper_def cat_ListPoliciesWrapper_def cat_CreatePolicyWrapper_def
    cat_LoadPolicyWrapper_def cat_UpdatePolicyWrapper_def cat_DropPolicyWrapper_def
    cat_AttachPolicyWrapper_def cat_DetachPolicyWrapper_def
    cat_GetApplicablePoliciesWrapper_def)+

lemma cat_api_results:
  "list_all (\<lambda>(p, new, parse, decls). \<forall>L rsp r.
     parse L rsp = Inr r \<longrightarrow> well_typed_result decls r) cat_api"
  by (simp add: cat_api_def cat_results_typed)

end
