(* ===== verification/Generated_Clients.thy ===== *)
theory Generated_Clients
  imports Client_Tables
begin

text \<open>
  What the two generated REST clients promise: requests and responses as the two OpenAPI
  documents have them, results of the declared types, and values, unions and responses that
  survive the way over the wire.
\<close>

section \<open>Rows of the tables\<close>

definition client_api ::
  "(api_operation \<times>
    (http_lib \<Rightarrow> string \<Rightarrow> string list \<Rightarrow> wval \<Rightarrow> string \<Rightarrow> string \<Rightarrow> goerr + http_request) \<times>
    (http_lib \<Rightarrow> http_response \<Rightarrow> goerr + http_wrapper) \<times> result_fields) list" where
  "client_api = mgmt_api @ cat_api"

definition client_types :: "wtype list" where
  "client_types = mgmt_types @ cat_types"

lemmas api_requests = mgmt_api_requests cat_api_requests
lemmas api_responses = mgmt_api_responses cat_api_responses
lemmas api_results = mgmt_api_results cat_api_results

lemma row_responses:
  assumes "(p, new, parse, decls) \<in> set client_api"
  shows "parse L = decode_documented L (opResponses p)"
  using api_responses assms by (auto simp: client_api_def list_all_iff)

lemma client_type_wf: "T \<in> set client_types \<Longrightarrow> wf_type T"
  using types_wf by (auto simp: client_types_def list_all_iff)

text \<open>
  A library for the examples: a server that knows one document, \<open>j\<close>, written as \<open>t\<close>; escaping
  that changes nothing, and a URL that resolves a path by appending it.
\<close>

definition sample_http :: "string \<Rightarrow> json \<Rightarrow> http_lib" where
  "sample_http t j =
     \<lparr>hl_env = sample_env\<lparr>codec :=
        \<lparr>json_parse = \<lambda>s. if s = t then Inr j else Inl (ErrLib ''invalid character''),
         json_rest = \<lambda>t j. None\<rparr>\<rparr>,
      hl_json = \<lparr>lib_zero = \<lambda>n. JNull, lib_dec = \<lambda>n old x. Inr x, JSONMerge = \<lambda>old x. Inr x\<rparr>,
      json_text = \<lambda>x. t,
      StyleParam = \<lambda>style explode name v loc ty. Inr (case v of VString s \<Rightarrow> s | _ \<Rightarrow> []),
      url_encoded_query = \<lambda>u. [],
      url_with_query = \<lambda>u q. u\<lparr>urlRest := urlRest u @ q\<rparr>,
      MarshalForm = \<lambda>v. Inr [],
      StatusText = \<lambda>s. [],
      default_Do = \<lambda>h req. Inl (ErrLib ''connection refused'')\<rparr>"

definition sample_grant :: wval where
  "sample_grant = VStruct [(''Type'', VString ''catalog'')]"

definition sample_response :: http_response where
  "sample_response =
     \<lparr>hsStatus = ''200 OK'', hsStatusCode = 200, hsHeader = [(''Content-Type'', [''application/json''])],
       hsBody = ''x'', hsReadErr = None\<rparr>"

definition sample_doc :: json where
  "sample_doc = JObject [(''type'', JString ''catalog'')]"

section \<open>Requests and responses as documented\<close>

text \<open>
  C16. Every operation of the two OpenAPI documents (the generic
  tables apart) has a request constructor in the generated clients, and that constructor builds
  what the document describes: the method, the path with its parameters escaped in the order
  of the path, the query and header parameters under their names, and the body with its
  content type; or the error of escaping, resolving or parsing that comes first.
\<close>

theorem generated_requests_documented:
  assumes "(p, new, parse, decls) \<in> set client_api"
    and "length args = length (filter is_par (opPath p))"
  shows "new L server args params ct body = documented_request L server p args params ct body"
  using api_requests assms by (auto simp: client_api_def list_all_iff)

theorem generated_requests_documented_witness:
  "mgmt_NewGetCatalogRequest (sample_http [] JNull) ''http://polaris'' ''prod'' =
     documented_request (sample_http [] JNull) ''http://polaris'' mgmt_doc_getCatalog [''prod'']
       VNil [] []"
  using generated_requests_documented
    [of mgmt_doc_getCatalog
      "\<lambda>L server args params ct body. mgmt_NewGetCatalogRequest L server (args ! 0)"
      mgmt_ParseGetCatalogWrapper mgmt_GetCatalogWrapper "[''prod'']"]
  by (simp add: client_api_def mgmt_api_def mgmt_arity)

text \<open>
  C17. The response parser of an operation decodes a response with JSON
  content by its status, as the document types it: the type documented for that status if
  there is one, else that of its class (\<open>5XX\<close>), into the field of that name; any other
  response leaves the JSON fields nil, and a body that cannot be read or decoded is an error.
\<close>

theorem responses_documented:
  assumes "(p, new, parse, decls) \<in> set client_api"
  shows "parse L rsp = decode_documented L (opResponses p) rsp"
  using row_responses [OF assms] by simp

theorem responses_documented_witness:
  "mgmt_ParseListCatalogsWrapper (sample_http ''x'' JNull) sample_response =
     decode_documented (sample_http ''x'' JNull) (opResponses mgmt_doc_listCatalogs) sample_response"
  using responses_documented
    [of mgmt_doc_listCatalogs
      "\<lambda>L server args params ct body. mgmt_NewListCatalogsRequest L server"
      mgmt_ParseListCatalogsWrapper mgmt_ListCatalogsWrapper]
  by (simp add: client_api_def mgmt_api_def)

text \<open>
  C19. Whatever a server answers, a result that a response parser returns
  is of its declared type: each JSON field that is set is a field of the operation's result
  struct, and holds a value of the type declared for it, down to every nested field.
\<close>

theorem results_well_typed:
  assumes "(p, new, parse, decls) \<in> set client_api" and "parse L rsp = Inr r"
  shows "well_typed_result decls r"
  using api_results assms by (auto simp: client_api_def list_all_iff)

theorem results_well_typed_witness:
  "well_typed_result mgmt_ListCatalogsWrapper
     \<lparr>hwBody = ''x'', hwHTTPResponse = Some sample_response,
      hwJSON = [(''JSON200'', zero (hl_json (sample_http ''x'' JNull)) mgmt_Catalogs)]\<rparr>"
  by (rule results_well_typed
    [of mgmt_doc_listCatalogs
      "\<lambda>L server args params ct body. mgmt_NewListCatalogsRequest L server"
      mgmt_ParseListCatalogsWrapper mgmt_ListCatalogsWrapper "sample_http ''x'' JNull" sample_response])
    (simp_all add: client_api_def mgmt_api_def mgmt_ParseListCatalogsWrapper_def parse_response_def
      sample_response_def sample_http_def header_Get_def has_prefix_def json_Unmarshal_def
      sum_bind_def mgmt_Catalogs_def)

section \<open>Values over the wire\<close>

lemma to_the_wire:
  assumes "wf_type T" "typed (hl_json H) T v"
    and "\<And>j. marshal T v = Inr j \<Longrightarrow> json_parse (codec (hl_env H)) (json_text H j) = Inr j"
  shows "sum_bind (json_Marshal H T v) (json_Unmarshal (json_parse (codec (hl_env H))) (hl_json H) T) =
    Inr v"
proof -
  obtain j where "marshal T v = Inr j" "unmarshal (hl_json H) T (zero (hl_json H) T) j = Inr v"
    using type_roundtrip(1) [OF assms(1,2)] by blast
  then show ?thesis using assms(3)
    by (simp add: json_Marshal_def json_Unmarshal_def sum_bind_def)
qed

text \<open>
  C20. For every type of the two clients, a value that is marshalled and then
  unmarshalled into a fresh variable is the same value, through nested structs, pointers,
  slices, maps, structs with additional properties and unions, if the parser reads back the
  text that was written for the value.
\<close>

theorem wire_roundtrip:
  assumes "T \<in> set client_types" and "typed (hl_json H) T v"
    and "\<And>j. marshal T v = Inr j \<Longrightarrow> json_parse (codec (hl_env H)) (json_text H j) = Inr j"
  shows "sum_bind (json_Marshal H T v) (json_Unmarshal (json_parse (codec (hl_env H))) (hl_json H) T) =
    Inr v"
  using to_the_wire [OF client_type_wf [OF assms(1)] assms(2,3)] .

theorem wire_roundtrip_witness:
  "let H = sample_http ''doc'' sample_doc in
   sum_bind (json_Marshal H mgmt_GrantResource sample_grant)
     (json_Unmarshal (json_parse (codec (hl_env H))) (hl_json H) mgmt_GrantResource) =
   Inr sample_grant"
  unfolding Let_def
  by (rule wire_roundtrip)
    (simp_all add: client_types_def mgmt_types_def mgmt_GrantResource_def mgmt_GrantResourceType_def
      sample_grant_def sample_doc_def sample_http_def marshal_string_def sum_bind_def)

text \<open>
  C21. A variant stored in a union by its \<open>From\<close> method is what its \<open>As\<close> method
  reads from the union, whatever the union held before (the variant of \<open>ViewRequirement\<close> with
  its \<open>Type\<close> set); and a union without fields of its own is sent as that variant.
\<close>

theorem union_roundtrip:
  assumes "(U, V, dec, enc, prep) \<in> set cat_unions"
    and "shaped U t" and "typed L V (prep v)"
  shows "fst (enc t v) = None \<and> dec L (snd (enc t v)) = Inr (prep v) \<and>
    (U = WUnion n \<longrightarrow> marshal U (snd (enc t v)) = marshal V (prep v))"
proof -
  have "dec = (\<lambda>L. union_As L V)" "enc = (\<lambda>t v. union_From V t (prep v))"
    and U: "is_union U" and V: "wf_type V"
    using cat_unions_rows cat_unions_types assms(1) by (auto simp: list_all_iff)
  moreover obtain j where "marshal V (prep v) = Inr j" "unmarshal L V (zero L V) j = Inr (prep v)"
    using type_roundtrip(1) [OF V assms(3)] by blast
  moreover obtain fs where "t = VStruct fs"
    using U assms(2) by (cases U) auto
  ultimately show ?thesis
    by (auto simp: union_As_def union_From_def vget_vset raw_json_def)
qed

theorem union_roundtrip_witness:
  "let t = VStruct [(''union'', VNil)];
       w = VStruct [(''Type'', VString ''assert-view-uuid''), (''Uuid'', VString ''u'')];
       r = cat_ViewRequirement_FromAssertViewUUID t
             (VStruct [(''Type'', VString []), (''Uuid'', VString ''u'')]) in
   fst r = None \<and>
   cat_ViewRequirement_AsAssertViewUUID (hl_json (sample_http [] JNull)) (snd r) = Inr w \<and>
   marshal cat_ViewRequirement (snd r) = marshal cat_AssertViewUUID w"
  unfolding Let_def
  using union_roundtrip
    [of cat_ViewRequirement cat_AssertViewUUID cat_ViewRequirement_AsAssertViewUUID
      cat_ViewRequirement_FromAssertViewUUID "\<lambda>v. vset v ''Type'' (VString ''assert-view-uuid'')"
      "VStruct [(''union'', VNil)]" "hl_json (sample_http [] JNull)"
      "VStruct [(''Type'', VString []), (''Uuid'', VString ''u'')]" "''ViewRequirement''"]
  by (simp add: cat_unions_def cat_ViewRequirement_def cat_AssertViewUUID_def)

text \<open>
  C18. A server that answers an operation with a documented status and a
  value of the documented type, encoded as JSON, is understood: the result holds exactly this
  value, in the field of that status.
\<close>

theorem response_roundtrip:
  assumes "(p, new, parse, decls) \<in> set client_api"
    and "map_of (opResponses p) (Code (hsStatusCode rsp)) = Some T"
    and "typed (hl_json L) T v" and "json_Marshal L T v = Inr (hsBody rsp)"
    and "hsReadErr rsp = None"
    and "str_contains (header_Get (hsHeader rsp) ''Content-Type'') ''json''"
    and "\<And>j. marshal T v = Inr j \<Longrightarrow> json_parse (codec (hl_env L)) (json_text L j) = Inr j"
  shows "parse L rsp =
    Inr \<lparr>hwBody = hsBody rsp, hwHTTPResponse = Some rsp,
         hwJSON = [(''JSON'' @ show_int (hsStatusCode rsp), v)]\<rparr>"
proof -
  have "wf_type T"
    using mgmt_response_types cat_response_types assms(1) map_of_SomeD [OF assms(2)]
    by (fastforce simp: client_api_def list_all_iff)
  from to_the_wire [OF this assms(3,7)] assms(2,4-6) show ?thesis
    by (simp add: row_responses [OF assms(1)] decode_documented_def documented_field_def sum_bind_def)
qed

theorem response_roundtrip_witness:
  "mgmt_ParseListCatalogsWrapper (sample_http ''x'' (JObject [(''catalogs'', JArray [])])) sample_response =
     Inr \<lparr>hwBody = ''x'', hwHTTPResponse = Some sample_response,
          hwJSON = [(''JSON200'', VStruct [(''Catalogs'', VSlice [])])]\<rparr>"
  using response_roundtrip
    [of mgmt_doc_listCatalogs
      "\<lambda>L server args params ct body. mgmt_NewListCatalogsRequest L server"
      mgmt_ParseListCatalogsWrapper mgmt_ListCatalogsWrapper
      sample_response mgmt_Catalogs "sample_http ''x'' (JObject [(''catalogs'', JArray [])])"
      "VStruct [(''Catalogs'', VSlice [])]"]
  by (simp add: client_api_def mgmt_api_def mgmt_doc_listCatalogs_def sample_response_def
      sample_http_def mgmt_Catalogs_def json_Marshal_def header_Get_def has_prefix_def sum_bind_def show_status)

end
