(* ===== verification/Routes.thy ===== *)
theory Routes
  imports Credentials
begin

text \<open>
  Requests against the published interface: the routes of the OpenAPI documents from which the
  clients are generated (\<open>openapi/polaris-management-service.yaml\<close> and
  \<open>openapi/polaris-catalog-service.yaml\<close>), that every request of every pass has the route of its
  operation, and that the URL and the method of a request determine what is asked for.
\<close>

section \<open>The routes of the OpenAPI documents\<close>

text \<open>The method and the path of an operation; \<open>None\<close> is a path parameter.\<close>

definition openapi_route :: "operation \<Rightarrow> string \<times> string option list" where
  "openapi_route p =
     (case p of
       OpGetCatalog \<Rightarrow> (''GET'', [Some ''catalogs'', None])
     | OpCreateCatalog \<Rightarrow> (''POST'', [Some ''catalogs''])
     | OpUpdateCatalog \<Rightarrow> (''PUT'', [Some ''catalogs'', None])
     | OpDeleteCatalog \<Rightarrow> (''DELETE'', [Some ''catalogs'', None])
     | OpGetPrincipal \<Rightarrow> (''GET'', [Some ''principals'', None])
     | OpCreatePrincipal \<Rightarrow> (''POST'', [Some ''principals''])
     | OpUpdatePrincipal \<Rightarrow> (''PUT'', [Some ''principals'', None])
     | OpRotateCredentials \<Rightarrow> (''POST'', [Some ''principals'', None, Some ''rotate''])
     | OpDeletePrincipal \<Rightarrow> (''DELETE'', [Some ''principals'', None])
     | OpGetPrincipalRole \<Rightarrow> (''GET'', [Some ''principal-roles'', None])
     | OpCreatePrincipalRole \<Rightarrow> (''POST'', [Some ''principal-roles''])
     | OpUpdatePrincipalRole \<Rightarrow> (''PUT'', [Some ''principal-roles'', None])
     | OpDeletePrincipalRole \<Rightarrow> (''DELETE'', [Some ''principal-roles'', None])
     | OpGetCatalogRole \<Rightarrow> (''GET'', [Some ''catalogs'', None, Some ''catalog-roles'', None])
     | OpCreateCatalogRole \<Rightarrow> (''POST'', [Some ''catalogs'', None, Some ''catalog-roles''])
     | OpUpdateCatalogRole \<Rightarrow> (''PUT'', [Some ''catalogs'', None, Some ''catalog-roles'', None])
     | OpDeleteCatalogRole \<Rightarrow> (''DELETE'', [Some ''catalogs'', None, Some ''catalog-roles'', None])
     | OpAssignPrincipalRole \<Rightarrow> (''PUT'', [Some ''principals'', None, Some ''principal-roles''])
     | OpRevokePrincipalRole \<Rightarrow> (''DELETE'', [Some ''principals'', None, Some ''principal-roles'', None])
     | OpAssignCatalogRoleToPrincipalRole \<Rightarrow> (''PUT'', [Some ''principal-roles'', None, Some ''catalog-roles'', None])
     | OpRevokeCatalogRoleFromPrincipalRole \<Rightarrow> (''DELETE'', [Some ''principal-roles'', None, Some ''catalog-roles'', None, None])
     | OpAddGrantToCatalogRole \<Rightarrow> (''PUT'', [Some ''catalogs'', None, Some ''catalog-roles'', None, Some ''grants''])
     | OpRevokeGrantFromCatalogRole \<Rightarrow> (''POST'', [Some ''catalogs'', None, Some ''catalog-roles'', None, Some ''grants''])
     | OpLoadNamespaceMetadata \<Rightarrow> (''GET'', [Some ''v1'', None, Some ''namespaces'', None])
     | OpCreateNamespace \<Rightarrow> (''POST'', [Some ''v1'', None, Some ''namespaces''])
     | OpUpdateProperties \<Rightarrow> (''POST'', [Some ''v1'', None, Some ''namespaces'', None, Some ''properties''])
     | OpDropNamespace \<Rightarrow> (''DELETE'', [Some ''v1'', None, Some ''namespaces'', None])
     | OpLoadTable \<Rightarrow> (''GET'', [Some ''v1'', None, Some ''namespaces'', None, Some ''tables'', None])
     | OpCreateTable \<Rightarrow> (''POST'', [Some ''v1'', None, Some ''namespaces'', None, Some ''tables''])
     | OpDropTable \<Rightarrow> (''DELETE'', [Some ''v1'', None, Some ''namespaces'', None, Some ''tables'', None])
     | OpLoadView \<Rightarrow> (''GET'', [Some ''v1'', None, Some ''namespaces'', None, Some ''views'', None])
     | OpCreateView \<Rightarrow> (''POST'', [Some ''v1'', None, Some ''namespaces'', None, Some ''views''])
     | OpDropView \<Rightarrow> (''DELETE'', [Some ''v1'', None, Some ''namespaces'', None, Some ''views'', None])
     | OpLoadPolicy \<Rightarrow> (''GET'', [Some ''polaris'', Some ''v1'', None, Some ''namespaces'', None, Some ''policies'', None])
     | OpCreatePolicy \<Rightarrow> (''POST'', [Some ''polaris'', Some ''v1'', None, Some ''namespaces'', None, Some ''policies''])
     | OpUpdatePolicy \<Rightarrow> (''PUT'', [Some ''polaris'', Some ''v1'', None, Some ''namespaces'', None, Some ''policies'', None])
     | OpDropPolicy \<Rightarrow> (''DELETE'', [Some ''polaris'', Some ''v1'', None, Some ''namespaces'', None, Some ''policies'', None]))"

fun seg_shape :: "segment \<Rightarrow> string option" where
  "seg_shape (Lit s) = Some s"
| "seg_shape (Par p) = None"

definition conforms :: "request \<Rightarrow> bool" where
  "conforms rq \<longleftrightarrow> (rqMethod rq, map seg_shape (rqPath rq)) = openapi_route (rqOp rq)"

lemmas request_defs =
  NewGetCatalogRequest_def
  NewCreateCatalogRequestWithBody_def
  NewUpdateCatalogRequestWithBody_def
  NewDeleteCatalogRequest_def
  NewGetPrincipalRequest_def
  NewCreatePrincipalRequest_def
  NewUpdatePrincipalRequest_def
  NewRotateCredentialsRequest_def
  NewDeletePrincipalRequest_def
  NewGetPrincipalRoleRequest_def
  NewCreatePrincipalRoleRequest_def
  NewUpdatePrincipalRoleRequest_def
  NewDeletePrincipalRoleRequest_def
  NewGetCatalogRoleRequest_def
  NewCreateCatalogRoleRequest_def
  NewUpdateCatalogRoleRequest_def
  NewDeleteCatalogRoleRequest_def
  NewAssignPrincipalRoleRequest_def
  NewRevokePrincipalRoleRequest_def
  NewAssignCatalogRoleToPrincipalRoleRequest_def
  NewRevokeCatalogRoleFromPrincipalRoleRequest_def
  NewAddGrantToCatalogRoleRequestWithBody_def
  NewRevokeGrantFromCatalogRoleRequestWithBody_def
  NewLoadNamespaceMetadataRequest_def
  NewCreateNamespaceRequest_def
  NewUpdatePropertiesRequest_def
  NewDropNamespaceRequest_def
  NewLoadTableRequest_def
  NewCreateTableRequest_def
  NewDropTableRequest_def
  NewLoadViewRequest_def
  NewCreateViewRequest_def
  NewDropViewRequest_def
  NewLoadPolicyRequest_def
  NewCreatePolicyRequest_def
  NewUpdatePolicyRequest_def
  NewDropPolicyRequest_def

text \<open>
  A request is \<open>built\<close> if one of the generated constructors made it.
\<close>

inductive built :: "request \<Rightarrow> bool" where
  "built (NewGetCatalogRequest catalogName)"
| "built (NewCreateCatalogRequestWithBody b1)"
| "built (NewUpdateCatalogRequestWithBody catalogName b2)"
| "built (NewDeleteCatalogRequest catalogName)"
| "built (NewGetPrincipalRequest principalName)"
| "built (NewCreatePrincipalRequest b3)"
| "built (NewUpdatePrincipalRequest principalName b4)"
| "built (NewRotateCredentialsRequest principalName)"
| "built (NewDeletePrincipalRequest principalName)"
| "built (NewGetPrincipalRoleRequest principalRoleName)"
| "built (NewCreatePrincipalRoleRequest b5)"
| "built (NewUpdatePrincipalRoleRequest principalRoleName b6)"
| "built (NewDeletePrincipalRoleRequest principalRoleName)"
| "built (NewGetCatalogRoleRequest catalogName catalogRoleName)"
| "built (NewCreateCatalogRoleRequest catalogName b7)"
| "built (NewUpdateCatalogRoleRequest catalogName catalogRoleName b8)"
| "built (NewDeleteCatalogRoleRequest catalogName catalogRoleName)"
| "built (NewAssignPrincipalRoleRequest principalName b9)"
| "built (NewRevokePrincipalRoleRequest principalName principalRoleName)"
| "built (NewAssignCatalogRoleToPrincipalRoleRequest principalRoleName catalogName b10)"
| "built (NewRevokeCatalogRoleFromPrincipalRoleRequest principalRoleName catalogName catalogRoleName)"
| "built (NewAddGrantToCatalogRoleRequestWithBody catalogName catalogRoleName b11)"
| "built (NewRevokeGrantFromCatalogRoleRequestWithBody catalogName catalogRoleName b12)"
| "built (NewLoadNamespaceMetadataRequest prefix namespace)"
| "built (NewCreateNamespaceRequest prefix b13)"
| "built (NewUpdatePropertiesRequest prefix namespace b14)"
| "built (NewDropNamespaceRequest prefix namespace)"
| "built (NewLoadTableRequest prefix namespace table)"
| "built (NewCreateTableRequest prefix namespace b15)"
| "built (NewDropTableRequest prefix namespace table)"
| "built (NewLoadViewRequest prefix namespace view)"
| "built (NewCreateViewRequest prefix namespace b16)"
| "built (NewDropViewRequest prefix namespace view)"
| "built (NewLoadPolicyRequest prefix namespace policyName)"
| "built (NewCreatePolicyRequest prefix namespace b17)"
| "built (NewUpdatePolicyRequest prefix namespace policyName b18)"
| "built (NewDropPolicyRequest prefix namespace policyName)"

declare built.intros [simp, intro]

lemma built_conforms: "built rq \<Longrightarrow> conforms rq"
  by (induction rule: built.induct) (simp_all add: conforms_def openapi_route_def request_defs)

section \<open>Every request of a pass\<close>

lemma one_of_mem: "one_of R as \<Longrightarrow> Api rq a \<in> set as \<Longrightarrow> rq \<in> R"
  by (auto simp: one_of_def)

lemma principal_plan_built:
  "principal_plan E pp as \<Longrightarrow> Api rq a \<in> set as \<Longrightarrow> built rq"
  by (auto simp: principal_plan_def Let_def rotates_def issues_def sent_def one_of_def
      split: if_splits elim!: upsert_elim)

lemma plan_built:
  assumes "plan E ob evs as" "Api rq a \<in> set as"
  shows "built rq"
  using assms
  by (cases ob)
    (auto simp: catalog_plan_def located_plan_def in_namespace_def in_catalog_def namespace_plan_def
      table_plan_def view_plan_def policy_plan_def principal_role_plan_def catalog_role_plan_def
      principal_role_binding_plan_def catalog_role_binding_plan_def grant_plan_def Let_def
      dest: principal_plan_built dest!: one_of_mem split: if_splits elim!: upsert_elim)

lemma pass_built:
  assumes "Api rq a \<in> set (effects (trace (Reconcile E k req) s))"
  shows "built rq"
proof -
  have act: "Api rq a \<in> set (actions (trace (Reconcile E k req) s))"
    using assms by simp
  show ?thesis
    using validD [OF Reconcile_plan, of E k req s] act
    by (auto simp: pass_def simp del: actions_mem intro: plan_built)
qed

lemma pass_conforms:
  "Api rq a \<in> set (effects (trace (Reconcile E k req) s)) \<Longrightarrow> conforms rq"
  by (rule built_conforms [OF pass_built])

section \<open>From the URL back to the request\<close>

text \<open>
  \<open>runtime.StyleParamWithOptions\<close> escapes a path parameter with \<open>url.PathEscape\<close>: the result
  has no slash, and different parameters stay different.
\<close>

definition escapes :: "env \<Rightarrow> bool" where
  "escapes E \<longleftrightarrow> inj (style_param E) \<and> (\<forall>p. CHR ''/'' \<notin> set (style_param E p))"

fun seg_text :: "env \<Rightarrow> segment \<Rightarrow> string" where
  "seg_text E (Lit s) = s"
| "seg_text E (Par p) = style_param E p"

lemma operation_path_segments:
  "operation_path E rq = ''.'' @ concat (map (\<lambda>s. CHR ''/'' # s) (map (seg_text E) (rqPath rq)))"
proof -
  have "(\<lambda>sg. ''/'' @ (case sg of Lit s \<Rightarrow> s | Par p \<Rightarrow> style_param E p)) = (\<lambda>sg. CHR ''/'' # seg_text E sg)"
    by (rule ext) (simp split: segment.split)
  then show ?thesis
    unfolding operation_path_def by (simp add: comp_def)
qed

lemma joined_eq:
  assumes "concat (map (\<lambda>s. c # s) xs) = concat (map (\<lambda>s. c # s) ys)"
    and "\<forall>s \<in> set xs. c \<notin> set s" "\<forall>s \<in> set ys. c \<notin> set s"
  shows "xs = ys"
  using assms
proof (induction xs arbitrary: ys)
  case Nil
  then show ?case by (cases ys) auto
next
  case (Cons x xs)
  then obtain y ys' where ys: "ys = y # ys'" by (cases ys) auto
  have eq: "x @ concat (map (\<lambda>s. c # s) xs) = y @ concat (map (\<lambda>s. c # s) ys')"
    using Cons.prems ys by simp
  have rest: "takeWhile (\<lambda>d. d \<noteq> c) (concat (map (\<lambda>s. c # s) zs)) = []" for zs
    by (cases zs) auto
  have front: "takeWhile (\<lambda>d. d \<noteq> c) (z @ concat (map (\<lambda>s. c # s) zs)) = z" if "c \<notin> set z" for z zs
    using that rest [of zs] by (subst takeWhile_append2) auto
  have "x = y"
    using arg_cong [OF eq, of "takeWhile (\<lambda>d. d \<noteq> c)"] Cons.prems ys by (simp add: front)
  then show ?case
    using Cons.IH [of ys'] Cons.prems eq ys by simp
qed

text \<open>Two routes that no path can have both: a position where the literals differ, or another length.\<close>

fun apart :: "string option list \<Rightarrow> string option list \<Rightarrow> bool" where
  "apart [] [] \<longleftrightarrow> False"
| "apart (Some a # as) (Some b # bs) \<longleftrightarrow> a \<noteq> b \<or> apart as bs"
| "apart (_ # as) (_ # bs) \<longleftrightarrow> apart as bs"
| "apart _ _ \<longleftrightarrow> True"

lemma apart_paths:
  "apart (map seg_shape xs) (map seg_shape ys) \<Longrightarrow> map (seg_text E) xs \<noteq> map (seg_text E) ys"
proof (induction xs arbitrary: ys)
  case Nil
  then show ?case by (cases ys) auto
next
  case (Cons x xs)
  then show ?case
    by (cases ys; cases x; cases "hd ys") auto
qed

definition operations :: "operation list" where
  "operations =
    [OpGetCatalog, OpCreateCatalog, OpUpdateCatalog, OpDeleteCatalog, OpGetPrincipal,
     OpCreatePrincipal, OpUpdatePrincipal, OpRotateCredentials, OpDeletePrincipal,
     OpGetPrincipalRole, OpCreatePrincipalRole, OpUpdatePrincipalRole, OpDeletePrincipalRole,
     OpGetCatalogRole, OpCreateCatalogRole, OpUpdateCatalogRole, OpDeleteCatalogRole,
     OpAssignPrincipalRole, OpRevokePrincipalRole, OpAssignCatalogRoleToPrincipalRole,
     OpRevokeCatalogRoleFromPrincipalRole, OpAddGrantToCatalogRole,
     OpRevokeGrantFromCatalogRole, OpLoadNamespaceMetadata, OpCreateNamespace,
     OpUpdateProperties, OpDropNamespace, OpLoadTable, OpCreateTable, OpDropTable, OpLoadView,
     OpCreateView, OpDropView, OpLoadPolicy, OpCreatePolicy, OpUpdatePolicy, OpDropPolicy]"

lemma operations_all: "p \<in> set operations"
  by (cases p) (simp_all add: operations_def)

lemma routes_apart_table:
  "list_all (\<lambda>p. list_all (\<lambda>q. p = q \<or> fst (openapi_route p) \<noteq> fst (openapi_route q) \<or>
     apart (snd (openapi_route p)) (snd (openapi_route q))) operations) operations"
  by code_simp

lemma literals_table:
  "list_all (\<lambda>p. list_all (\<lambda>s. case s of None \<Rightarrow> True | Some t \<Rightarrow> CHR ''/'' \<notin> set t)
     (snd (openapi_route p))) operations"
  by code_simp

lemma routes_apart:
  "p \<noteq> q \<Longrightarrow> fst (openapi_route p) = fst (openapi_route q) \<Longrightarrow>
   apart (snd (openapi_route p)) (snd (openapi_route q))"
  using routes_apart_table operations_all unfolding list_all_iff by blast

lemma segments_plain:
  assumes "escapes E" "conforms rq" "s \<in> set (map (seg_text E) (rqPath rq))"
  shows "CHR ''/'' \<notin> set s"
proof -
  obtain sg where sg: "sg \<in> set (rqPath rq)" "s = seg_text E sg"
    using assms(3) by auto
  have "seg_shape sg \<in> set (snd (openapi_route (rqOp rq)))"
    using assms(2) sg(1) unfolding conforms_def by (metis image_eqI list.set_map snd_conv)
  then show ?thesis
    using literals_table operations_all [of "rqOp rq"] sg(2) assms(1)
    by (cases sg) (fastforce simp: list_all_iff escapes_def)+
qed

lemma seg_text_inj:
  "inj (style_param E) \<Longrightarrow> map seg_shape xs = map seg_shape ys \<Longrightarrow>
   map (seg_text E) xs = map (seg_text E) ys \<Longrightarrow> xs = ys"
proof (induction xs arbitrary: ys)
  case (Cons x xs)
  then show ?case
    by (cases ys; cases x; cases "hd ys") (auto dest: injD)
qed simp

lemma conforming_determined:
  assumes "escapes E" "conforms rq" "conforms rq'" "rqMethod rq = rqMethod rq'"
    and "operation_path E rq = operation_path E rq'"
  shows "rqOp rq = rqOp rq' \<and> rqPath rq = rqPath rq'"
proof -
  have texts: "map (seg_text E) (rqPath rq) = map (seg_text E) (rqPath rq')"
  proof (rule joined_eq [of "CHR ''/''"])
    show "concat (map (\<lambda>s. CHR ''/'' # s) (map (seg_text E) (rqPath rq))) =
        concat (map (\<lambda>s. CHR ''/'' # s) (map (seg_text E) (rqPath rq')))"
      using assms(5) unfolding operation_path_segments by (simp only: same_append_eq)
  qed (use segments_plain assms(1-3) in blast)+
  have ops: "rqOp rq = rqOp rq'"
  proof (rule ccontr)
    assume "rqOp rq \<noteq> rqOp rq'"
    moreover have "fst (openapi_route (rqOp rq)) = fst (openapi_route (rqOp rq'))"
      using assms(2-4) unfolding conforms_def by (metis fst_conv)
    ultimately have "apart (map seg_shape (rqPath rq)) (map seg_shape (rqPath rq'))"
      using routes_apart assms(2,3) unfolding conforms_def by (metis snd_conv)
    then show False using apart_paths texts by blast
  qed
  moreover have "map seg_shape (rqPath rq) = map seg_shape (rqPath rq')"
    using assms(2,3) ops unfolding conforms_def by (metis snd_conv)
  ultimately show ?thesis
    using seg_text_inj [OF _ _ texts] assms(1) by (simp add: escapes_def)
qed

section \<open>A sample run\<close>

definition escaped_char :: "char \<Rightarrow> string" where
  "escaped_char c = (if c = CHR ''/'' then ''%2F'' else if c = CHR ''?'' then ''%3F'' else if c = CHR ''%'' then ''%25''
      else [c])"

definition path_escape :: "string \<Rightarrow> string" where
  "path_escape s = concat (map escaped_char s)"

lemma path_escape_Cons: "path_escape (c # s) = escaped_char c @ path_escape s"
  by (simp add: path_escape_def)

lemma path_escape_inj: "path_escape s = path_escape t \<Longrightarrow> s = t"
proof (induction s arbitrary: t)
  case Nil
  then show ?case by (cases t) (auto simp: path_escape_def escaped_char_def split: if_splits)
next
  case (Cons c s)
  then obtain d t' where "t = d # t'"
    by (cases t) (auto simp: path_escape_def escaped_char_def split: if_splits)
  with Cons show ?case
    by (auto simp: path_escape_Cons escaped_char_def split: if_splits)
qed

lemma path_escape_plain: "CHR ''/'' \<notin> set (path_escape s)"
  by (auto simp: path_escape_def escaped_char_def)

definition escaping_world :: env where
  "escaping_world = creating_world\<lparr>style_param := path_escape\<rparr>"

lemma escapes_world: "escapes escaping_world"
  by (auto simp: escapes_def escaping_world_def path_escape_plain intro: injI path_escape_inj)

fun shows_route :: "env \<Rightarrow> effect \<Rightarrow> (operation \<times> string \<times> string) option" where
  "shows_route E (Api rq a) = Some (rqOp rq, rqMethod rq, operation_path E rq)"
| "shows_route E _ = None"

lemma escaping_run:
  "map (shows_route escaping_world) (effects (sample_trace escaping_world)) =
   [Some (OpGetPrincipalRole, ''GET'', ''./principal-roles/r''),
    Some (OpCreatePrincipalRole, ''POST'', ''./principal-roles''), None]"
  by code_simp

lemma escaping_probe:
  obtains rq a where "Api rq a \<in> set (effects (sample_trace escaping_world))"
    "rqOp rq = OpGetPrincipalRole"
proof -
  obtain e es where "effects (sample_trace escaping_world) = e # es"
      "shows_route escaping_world e = Some (OpGetPrincipalRole, ''GET'', ''./principal-roles/r'')"
    using escaping_run by (auto simp: map_eq_Cons_conv)
  then show thesis
    by (cases e) (auto intro!: that)
qed

section \<open>Properties\<close>

text \<open>
  Every request of every pass of every kind has the method and the
  path template that the OpenAPI documents give to its operation: literal segments in their
  places, and as many path parameters as the template has.
\<close>

theorem requests_match_openapi:
  assumes "Api rq a \<in> set (effects (trace (Reconcile E k req) s))"
  shows "(rqMethod rq, map seg_shape (rqPath rq)) = openapi_route (rqOp rq)"
  using pass_conforms [OF assms] by (simp add: conforms_def)

theorem requests_match_openapi_witness:
  "\<exists>rq :: request. map seg_shape (rqPath rq) = [Some ''principal-roles'', None] \<and> rqMethod rq = ''GET''"
proof -
  obtain rq a where "Api rq a \<in> set (effects (sample_trace escaping_world))" "rqOp rq = OpGetPrincipalRole"
    by (rule escaping_probe)
  then show ?thesis
    using requests_match_openapi [of rq a escaping_world KPrincipalRole sample_key sample_start, folded sample_trace_def]
    by (intro exI [of _ rq]) (simp add: openapi_route_def)
qed



end
