(* ===== verification/Operator_Clients.thy ===== *)
theory Operator_Clients
  imports Operator_Bodies Generated_Clients Routes
begin

text \<open>
  The operator on the generated clients: every request of every pass is the one that the generated
  request constructor of its operation builds, with a body of the type the client declares.
\<close>

section \<open>The generated operation behind a request\<close>

text \<open>
  The call of the generated constructor, as the reconcilers make it: \<open>args\<close> are the path
  parameters, \<open>v\<close> is the body of a typed call, \<open>text\<close> the body of a call \<open>...WithBody\<close>; the
  parameter structs are empty.
\<close>

definition op_new ::
  "http_lib \<Rightarrow> string \<Rightarrow> operation \<Rightarrow> string list \<Rightarrow> wval \<Rightarrow> string \<Rightarrow> goerr + http_request" where
  "op_new H server p args v text =
     (let ct = ''application/json'' in
      case p of
        OpGetCatalog \<Rightarrow> mgmt_NewGetCatalogRequest H server (args ! 0)
      | OpCreateCatalog \<Rightarrow> mgmt_NewCreateCatalogRequestWithBody H server ct text
      | OpUpdateCatalog \<Rightarrow> mgmt_NewUpdateCatalogRequestWithBody H server (args ! 0) ct text
      | OpDeleteCatalog \<Rightarrow> mgmt_NewDeleteCatalogRequest H server (args ! 0)
      | OpGetPrincipal \<Rightarrow> mgmt_NewGetPrincipalRequest H server (args ! 0)
      | OpCreatePrincipal \<Rightarrow> mgmt_NewCreatePrincipalRequest H server v
      | OpUpdatePrincipal \<Rightarrow> mgmt_NewUpdatePrincipalRequest H server (args ! 0) v
      | OpRotateCredentials \<Rightarrow> mgmt_NewRotateCredentialsRequest H server (args ! 0)
      | OpDeletePrincipal \<Rightarrow> mgmt_NewDeletePrincipalRequest H server (args ! 0)
      | OpGetPrincipalRole \<Rightarrow> mgmt_NewGetPrincipalRoleRequest H server (args ! 0)
      | OpCreatePrincipalRole \<Rightarrow> mgmt_NewCreatePrincipalRoleRequest H server v
      | OpUpdatePrincipalRole \<Rightarrow> mgmt_NewUpdatePrincipalRoleRequest H server (args ! 0) v
      | OpDeletePrincipalRole \<Rightarrow> mgmt_NewDeletePrincipalRoleRequest H server (args ! 0)
      | OpGetCatalogRole \<Rightarrow> mgmt_NewGetCatalogRoleRequest H server (args ! 0) (args ! 1)
      | OpCreateCatalogRole \<Rightarrow> mgmt_NewCreateCatalogRoleRequest H server (args ! 0) v
      | OpUpdateCatalogRole \<Rightarrow> mgmt_NewUpdateCatalogRoleRequest H server (args ! 0) (args ! 1) v
      | OpDeleteCatalogRole \<Rightarrow> mgmt_NewDeleteCatalogRoleRequest H server (args ! 0) (args ! 1)
      | OpAssignPrincipalRole \<Rightarrow> mgmt_NewAssignPrincipalRoleRequest H server (args ! 0) v
      | OpRevokePrincipalRole \<Rightarrow> mgmt_NewRevokePrincipalRoleRequest H server (args ! 0) (args ! 1)
      | OpAssignCatalogRoleToPrincipalRole \<Rightarrow> mgmt_NewAssignCatalogRoleToPrincipalRoleRequest H server (args ! 0) (args ! 1) v
      | OpRevokeCatalogRoleFromPrincipalRole \<Rightarrow> mgmt_NewRevokeCatalogRoleFromPrincipalRoleRequest H server (args ! 0) (args ! 1) (args ! 2)
      | OpAddGrantToCatalogRole \<Rightarrow> mgmt_NewAddGrantToCatalogRoleRequestWithBody H server (args ! 0) (args ! 1) ct text
      | OpRevokeGrantFromCatalogRole \<Rightarrow> mgmt_NewRevokeGrantFromCatalogRoleRequestWithBody H server (args ! 0) (args ! 1) (VPtr (zero (hl_json H) mgmt_RevokeGrantFromCatalogRoleParams)) ct text
      | OpLoadNamespaceMetadata \<Rightarrow> cat_NewLoadNamespaceMetadataRequest H server (args ! 0) (args ! 1)
      | OpCreateNamespace \<Rightarrow> cat_NewCreateNamespaceRequest H server (args ! 0) v
      | OpUpdateProperties \<Rightarrow> cat_NewUpdatePropertiesRequest H server (args ! 0) (args ! 1) v
      | OpDropNamespace \<Rightarrow> cat_NewDropNamespaceRequest H server (args ! 0) (args ! 1)
      | OpLoadTable \<Rightarrow> cat_NewLoadTableRequest H server (args ! 0) (args ! 1) (args ! 2) (VPtr (zero (hl_json H) cat_LoadTableParams))
      | OpCreateTable \<Rightarrow> cat_NewCreateTableRequest H server (args ! 0) (args ! 1) (VPtr (zero (hl_json H) cat_CreateTableParams)) v
      | OpDropTable \<Rightarrow> cat_NewDropTableRequest H server (args ! 0) (args ! 1) (args ! 2) (VPtr (zero (hl_json H) cat_DropTableParams))
      | OpLoadView \<Rightarrow> cat_NewLoadViewRequest H server (args ! 0) (args ! 1) (args ! 2)
      | OpCreateView \<Rightarrow> cat_NewCreateViewRequest H server (args ! 0) (args ! 1) v
      | OpDropView \<Rightarrow> cat_NewDropViewRequest H server (args ! 0) (args ! 1) (args ! 2)
      | OpLoadPolicy \<Rightarrow> cat_NewLoadPolicyRequest H server (args ! 0) (args ! 1) (args ! 2)
      | OpCreatePolicy \<Rightarrow> cat_NewCreatePolicyRequest H server (args ! 0) (args ! 1) v
      | OpUpdatePolicy \<Rightarrow> cat_NewUpdatePolicyRequest H server (args ! 0) (args ! 1) (args ! 2) v
      | OpDropPolicy \<Rightarrow> cat_NewDropPolicyRequest H server (args ! 0) (args ! 1) (args ! 2) (VPtr (zero (hl_json H) cat_DropPolicyParams)))"

definition op_body :: "operation \<Rightarrow> wtype option" where
  "op_body p =
     (case p of
        OpCreatePrincipal \<Rightarrow> Some mgmt_CreatePrincipalJSONRequestBody
      | OpUpdatePrincipal \<Rightarrow> Some mgmt_UpdatePrincipalJSONRequestBody
      | OpCreatePrincipalRole \<Rightarrow> Some mgmt_CreatePrincipalRoleJSONRequestBody
      | OpUpdatePrincipalRole \<Rightarrow> Some mgmt_UpdatePrincipalRoleJSONRequestBody
      | OpCreateCatalogRole \<Rightarrow> Some mgmt_CreateCatalogRoleJSONRequestBody
      | OpUpdateCatalogRole \<Rightarrow> Some mgmt_UpdateCatalogRoleJSONRequestBody
      | OpAssignPrincipalRole \<Rightarrow> Some mgmt_AssignPrincipalRoleJSONRequestBody
      | OpAssignCatalogRoleToPrincipalRole \<Rightarrow> Some mgmt_AssignCatalogRoleToPrincipalRoleJSONRequestBody
      | OpCreateNamespace \<Rightarrow> Some cat_CreateNamespaceJSONRequestBody
      | OpUpdateProperties \<Rightarrow> Some cat_UpdatePropertiesJSONRequestBody
      | OpCreateTable \<Rightarrow> Some cat_CreateTableJSONRequestBody
      | OpCreateView \<Rightarrow> Some cat_CreateViewJSONRequestBody
      | OpCreatePolicy \<Rightarrow> Some cat_CreatePolicyJSONRequestBody
      | OpUpdatePolicy \<Rightarrow> Some cat_UpdatePolicyJSONRequestBody
      | _ \<Rightarrow> None)"

lemmas op_new_defs =
    mgmt_NewGetCatalogRequest_def mgmt_NewCreateCatalogRequestWithBody_def
    mgmt_NewUpdateCatalogRequestWithBody_def mgmt_NewDeleteCatalogRequest_def
    mgmt_NewGetPrincipalRequest_def mgmt_NewCreatePrincipalRequest_def
    mgmt_NewCreatePrincipalRequestWithBody_def mgmt_NewUpdatePrincipalRequest_def
    mgmt_NewUpdatePrincipalRequestWithBody_def mgmt_NewRotateCredentialsRequest_def
    mgmt_NewDeletePrincipalRequest_def mgmt_NewGetPrincipalRoleRequest_def
    mgmt_NewCreatePrincipalRoleRequest_def mgmt_NewCreatePrincipalRoleRequestWithBody_def
    mgmt_NewUpdatePrincipalRoleRequest_def mgmt_NewUpdatePrincipalRoleRequestWithBody_def
    mgmt_NewDeletePrincipalRoleRequest_def mgmt_NewGetCatalogRoleRequest_def
    mgmt_NewCreateCatalogRoleRequest_def mgmt_NewCreateCatalogRoleRequestWithBody_def
    mgmt_NewUpdateCatalogRoleRequest_def mgmt_NewUpdateCatalogRoleRequestWithBody_def
    mgmt_NewDeleteCatalogRoleRequest_def mgmt_NewAssignPrincipalRoleRequest_def
    mgmt_NewAssignPrincipalRoleRequestWithBody_def mgmt_NewRevokePrincipalRoleRequest_def
    mgmt_NewAssignCatalogRoleToPrincipalRoleRequest_def
    mgmt_NewAssignCatalogRoleToPrincipalRoleRequestWithBody_def
    mgmt_NewRevokeCatalogRoleFromPrincipalRoleRequest_def
    mgmt_NewAddGrantToCatalogRoleRequestWithBody_def
    mgmt_NewRevokeGrantFromCatalogRoleRequestWithBody_def cat_NewLoadNamespaceMetadataRequest_def
    cat_NewCreateNamespaceRequest_def cat_NewCreateNamespaceRequestWithBody_def
    cat_NewUpdatePropertiesRequest_def cat_NewUpdatePropertiesRequestWithBody_def
    cat_NewDropNamespaceRequest_def cat_NewLoadTableRequest_def cat_NewCreateTableRequest_def
    cat_NewCreateTableRequestWithBody_def cat_NewDropTableRequest_def cat_NewLoadViewRequest_def
    cat_NewCreateViewRequest_def cat_NewCreateViewRequestWithBody_def cat_NewDropViewRequest_def
    cat_NewLoadPolicyRequest_def cat_NewCreatePolicyRequest_def
    cat_NewCreatePolicyRequestWithBody_def cat_NewUpdatePolicyRequest_def
    cat_NewUpdatePolicyRequestWithBody_def cat_NewDropPolicyRequest_def

section \<open>The request on the wire\<close>

text \<open>The path parameters of a request, and the HTTP request that a request of the model stands for.\<close>

fun pars :: "segment list \<Rightarrow> string list" where
  "pars [] = []"
| "pars (Lit s # sgs) = pars sgs"
| "pars (Par p # sgs) = p # pars sgs"

definition wire_request :: "http_lib \<Rightarrow> string \<Rightarrow> request \<Rightarrow> goerr + http_request" where
  "wire_request H server rq =
     sum_bind (new_http_request (hl_env H) server rq) (\<lambda>u.
       Inr \<lparr>hqMethod = rqMethod rq, hqURL = u,
            hqHeader = (if rqBody rq = None then [] else [(''Content-Type'', [''application/json''])]),
            hqBody = map_option (json_text H) (rqBody rq)\<rparr>)"

text \<open>
  The two views of the libraries agree: a path parameter is escaped by \<open>style_param\<close>, which leaves
  no question mark, and a URL that was resolved from a path without one has no query.
\<close>

definition lib_agrees :: "env \<Rightarrow> http_lib \<Rightarrow> bool" where
  "lib_agrees E H \<longleftrightarrow>
     hl_env H = E \<and>
     (\<forall>n x. path_param H n x = Inr (style_param E x)) \<and>
     (\<forall>x. CHR ''?'' \<notin> set (style_param E x)) \<and>
     (\<forall>u p q. url_Resolve E u p = Inr q \<longrightarrow> CHR ''?'' \<notin> set p \<longrightarrow>
        url_encoded_query H q = [] \<and> url_with_query H q [] = q)"

lemma lib_agrees_path:
  assumes "lib_agrees E H"
  shows "hl_env H = E" "path_param H n x = Inr (style_param E x)" "CHR ''?'' \<notin> set (style_param E x)"
  using assms by (auto simp: lib_agrees_def)

lemma traverse_none: "(\<And>x. x \<in> set xs \<Longrightarrow> f x = Inr []) \<Longrightarrow> \<exists>ys. traverse f xs = Inr ys \<and> concat ys = []"
  by (induction xs) auto

lemma no_query:
  assumes "lib_agrees E H" "CHR ''?'' \<notin> set path"
    and "\<forall>(f, n, ty) \<in> set qs. param params f = None"
  shows "new_request H server path (query_params H params qs) m b = new_request H server path Inr m b"
proof -
  obtain frags where frags: "traverse (query_fragments H params) qs = Inr frags" "concat frags = []"
    using traverse_none [of qs "query_fragments H params"] assms(3)
    by (fastforce simp: query_fragments_def)
  have "query_params H params qs q = Inr q"
    if "url_Resolve (hl_env H) u (if has_prefix path ''/'' then ''.'' @ path else path) = Inr q" for u q
  proof -
    have "CHR ''?'' \<notin> set (if has_prefix path ''/'' then ''.'' @ path else path)"
      using assms(2) by simp
    then have "url_encoded_query H q = [] \<and> url_with_query H q [] = q"
      using that assms(1) unfolding lib_agrees_def by blast
    then show ?thesis
      using frags by (simp add: query_params_def del: concat_eq_Nil_conv)
  qed
  then show ?thesis
    by (auto simp: new_request_def Let_def sum_bind_def split: sum.split)
qed

lemma plain_request:
  "new_request L server path Inr meth body =
     sum_bind (url_Parse (hl_env L) server) (\<lambda>serverURL.
     sum_bind (url_Resolve (hl_env L) serverURL (if has_prefix path ''/'' then ''.'' @ path else path)) (\<lambda>queryURL.
     sum_bind (url_Parse (hl_env L) (url_String (hl_env L) queryURL)) (\<lambda>u.
       Inr \<lparr>hqMethod = meth, hqURL = u, hqHeader = [], hqBody = body\<rparr>)))"
  by (simp add: new_request_def Let_def)

lemmas client_simps = request_defs op_body_def op_new_def wire_request_def op_new_defs
  new_http_request_def plain_request operation_path_def has_prefix_def json_Marshal_def
  param_def content_type_def header_param_def header_Add_def
  mgmt_RevokeGrantFromCatalogRoleParams_def cat_LoadTableParams_def cat_CreateTableParams_def
  cat_DropTableParams_def cat_DropPolicyParams_def
    mgmt_CreatePrincipalJSONRequestBody_def mgmt_UpdatePrincipalJSONRequestBody_def
    mgmt_CreatePrincipalRoleJSONRequestBody_def mgmt_UpdatePrincipalRoleJSONRequestBody_def
    mgmt_CreateCatalogRoleJSONRequestBody_def mgmt_UpdateCatalogRoleJSONRequestBody_def
    mgmt_AssignPrincipalRoleJSONRequestBody_def
    mgmt_AssignCatalogRoleToPrincipalRoleJSONRequestBody_def
    cat_CreateNamespaceJSONRequestBody_def cat_UpdatePropertiesJSONRequestBody_def
    cat_CreateTableJSONRequestBody_def cat_CreateViewJSONRequestBody_def
    cat_CreatePolicyJSONRequestBody_def cat_UpdatePolicyJSONRequestBody_def

lemma built_generated:
  assumes "built rq" "lib_agrees E H"
  shows "\<exists>v. (\<forall>T j. op_body (rqOp rq) = Some T \<longrightarrow> rqBody rq = Some j \<longrightarrow> json_wf j \<longrightarrow>
        typed (hl_json H) T v) \<and>
      op_new H server (rqOp rq) (pars (rqPath rq)) v (json_text H (the (rqBody rq))) =
      wire_request H server rq"
proof -
  note [simp] = lib_agrees_path [OF assms(2)] no_query [OF assms(2)]
  show ?thesis
    using assms(1)
  proof (induction rule: built.induct)
    case (6 b3)
    show ?case
      by (rule exI [of _ "enc_CreatePrincipalRequest b3"]) (auto simp: client_simps)
  next
    case (7 principalName b4)
    show ?case
      by (rule exI [of _ "enc_UpdateRequest b4"]) (auto simp: client_simps)
  next
    case (11 b5)
    show ?case
      by (rule exI [of _ "enc_PrincipalRoleRequest b5"]) (auto simp: client_simps)
  next
    case (12 principalRoleName b6)
    show ?case
      by (rule exI [of _ "enc_UpdateRequest b6"]) (auto simp: client_simps)
  next
    case (15 catalogName b7)
    show ?case
      by (rule exI [of _ "enc_CatalogRoleRequest b7"]) (auto simp: client_simps)
  next
    case (16 catalogName catalogRoleName b8)
    show ?case
      by (rule exI [of _ "enc_UpdateRequest b8"]) (auto simp: client_simps)
  next
    case (18 principalName b9)
    show ?case
      by (rule exI [of _ "enc_PrincipalRoleRequest b9"]) (auto simp: client_simps)
  next
    case (20 principalRoleName catalogName b10)
    show ?case
      by (rule exI [of _ "enc_CatalogRoleRequest b10"]) (auto simp: client_simps)
  next
    case (25 prefix b13)
    show ?case
      by (rule exI [of _ "enc_CreateNamespaceRequest b13"]) (auto simp: client_simps)
  next
    case (26 prefix namespace b14)
    show ?case
      by (rule exI [of _ "enc_UpdateNamespacePropertiesRequest b14"]) (auto simp: client_simps)
  next
    case (29 prefix namespace b15)
    show ?case
      by (rule exI [of _ "enc_CreateTableRequest b15"]) (auto simp: client_simps)
  next
    case (32 prefix namespace b16)
    show ?case
      by (rule exI [of _ "enc_CreateViewRequest b16"]) (auto simp: client_simps)
  next
    case (35 prefix namespace b17)
    show ?case
      by (rule exI [of _ "enc_CreatePolicyRequest b17"]) (auto simp: client_simps)
  next
    case (36 prefix namespace policyName b18)
    show ?case
      by (rule exI [of _ "enc_UpdatePolicyRequest b18"]) (auto simp: client_simps)
  qed (simp_all add: client_simps)
qed

section \<open>Sending\<close>

text \<open>
  The sub-clients of \<open>NewClient\<close>: the transport as the doer and \<open>injectBearer\<close> as the only request
  editor. An answer of the model is an HTTP response with its content type as the only header.
\<close>

definition with_bearer :: "string option \<Rightarrow> http_request \<Rightarrow> http_request" where
  "with_bearer b req =
     (case b of None \<Rightarrow> req
      | Some t \<Rightarrow> req\<lparr>hqHeader := header_Set (hqHeader req) ''Authorization'' t\<rparr>)"

definition bearer_editor :: "env \<Rightarrow> Client \<Rightarrow> editor" where
  "bearer_editor E pc req = do {
     b \<leftarrow> injectBearer E pc (urlPath (hqURL req));
     State_Monad.return (sum_bind b (\<lambda>b. Inr (with_bearer b req)))
   }"

definition sub_client ::
  "plane \<Rightarrow> env \<Rightarrow> Client \<Rightarrow> (http_request \<Rightarrow> (goerr + http_response) io) \<Rightarrow> string \<Rightarrow>
    goerr + http_client" where
  "sub_client pl E pc doer server =
     (case pl of
        Management \<Rightarrow> mgmt_NewClientWithResponses doer server
          [mgmt_WithHTTPClient doer, mgmt_WithRequestEditorFn (bearer_editor E pc)]
      | CatalogPlane \<Rightarrow> cat_NewClientWithResponses doer server
          [cat_WithHTTPClient doer, cat_WithRequestEditorFn (bearer_editor E pc)])"

definition response_of :: "rawresp \<Rightarrow> http_response" where
  "response_of raw =
     \<lparr>hsStatus = [], hsStatusCode = rrStatus raw,
      hsHeader = [(''Content-Type'', [rrContentType raw])],
      hsBody = rrBody raw, hsReadErr = rrReadErr raw\<rparr>"

definition delivered :: "(goerr + rawresp) io \<Rightarrow> (goerr + http_response) io" where
  "delivered m = do { r \<leftarrow> m; State_Monad.return (map_sum id response_of r) }"

text \<open>The transport does with a request what the environment of the model does with it.\<close>

definition transports ::
  "env \<Rightarrow> http_lib \<Rightarrow> string \<Rightarrow> request \<Rightarrow> (http_request \<Rightarrow> (goerr + http_response) io) \<Rightarrow> bool" where
  "transports E H server rq doer \<longleftrightarrow>
     (\<forall>req b. wire_request H server rq = Inr req \<longrightarrow>
        doer (with_bearer b req) = delivered (ask (\<lambda>h. http_Do E h (hqURL req) rq b) (EHttp rq b)))"

lemma sub_client_is:
  "sub_client pl E pc doer server =
     Inr \<lparr>hcServer = generated_NewClient server, hcDoer = Some doer, hcEditors = [bearer_editor E pc]\<rparr>"
  by (auto simp: sub_client_def mgmt_NewClientWithResponses_def cat_NewClientWithResponses_def
      mgmt_NewClient_def cat_NewClient_def mgmt_WithHTTPClient_def cat_WithHTTPClient_def
      mgmt_WithRequestEditorFn_def cat_WithRequestEditorFn_def new_client_def with_http_client_def
      with_request_editor_fn_def generated_NewClient_def Let_def split: plane.split)

lemma sent_is_call:
  assumes "lib_agrees E H" "transports E H (hcServer c) rq doer"
    and "sub_client pl E pc doer server = Inr c" "plane_server pc pl = generated_NewClient server"
  shows "do_request c (wire_request H (hcServer c) rq) [] = delivered (call E pc pl rq Inr)"
proof (cases "new_http_request E (plane_server pc pl) rq")
  case (Inl err)
  then show ?thesis using assms
    by (auto simp: sub_client_is wire_request_def lib_agrees_def do_request_def call_def delivered_def)
next
  case (Inr u)
  then obtain req where req: "wire_request H (hcServer c) rq = Inr req" "hqURL req = u"
    using assms by (auto simp: sub_client_is wire_request_def lib_agrees_def)
  have path: "urlPath (hqURL req) = urlPath u" using req by simp
  have "do_request c (Inr req) [] =
      do { b \<leftarrow> injectBearer E pc (urlPath u);
           case b of Inl err \<Rightarrow> State_Monad.return (Inl err) | Inr b \<Rightarrow> doer (with_bearer b req) }"
    using assms(3) unfolding do_request_def apply_editors_def sub_client_is
    by (auto simp: bearer_editor_def path sum_bind_def split: sum.split
        intro!: arg_cong [of _ _ "State_Monad.bind _"] ext)
  moreover have "delivered (call E pc pl rq Inr) =
      do { b \<leftarrow> injectBearer E pc (urlPath u);
           case b of Inl err \<Rightarrow> State_Monad.return (Inl err)
           | Inr b \<Rightarrow> delivered (ask (\<lambda>h. http_Do E h u rq b) (EHttp rq b)) }"
    using Inr unfolding call_def delivered_def
    by (auto simp: split: sum.split intro!: arg_cong [of _ _ "State_Monad.bind _"] ext)
  moreover have "doer (with_bearer b req) = delivered (ask (\<lambda>h. http_Do E h u rq b) (EHttp rq b))" for b
    using assms(2) req unfolding transports_def by blast
  ultimately show ?thesis using req by (simp cong: sum.case_cong)
qed

text \<open>A transport for one request: it reads the bearer token from the header and asks the environment.\<close>

definition model_doer :: "env \<Rightarrow> request \<Rightarrow> http_request \<Rightarrow> (goerr + http_response) io" where
  "model_doer E rq req =
     (let b = (case map_of (hqHeader req) ''Authorization'' of Some (t # _) \<Rightarrow> Some t | _ \<Rightarrow> None) in
      delivered (ask (\<lambda>h. http_Do E h (hqURL req) rq b) (EHttp rq b)))"

lemma model_doer_transports: "transports E H server rq (model_doer E rq)"
  by (auto simp: transports_def model_doer_def Let_def with_bearer_def wire_request_def header_Set_def
      sum_bind_def split: sum.splits option.splits)

section \<open>Properties\<close>



definition escaping_http :: http_lib where
  "escaping_http = (sample_http [] JNull)
     \<lparr>hl_env := escaping_world,
      StyleParam := \<lambda>style explode name v loc ty.
        Inr (path_escape (case v of VString s \<Rightarrow> s | _ \<Rightarrow> [])),
      url_with_query := \<lambda>u q. if q = [] then u else u\<lparr>urlPath := urlPath u @ ''?'' @ q\<rparr>\<rparr>"

lemma escaping_agrees: "lib_agrees escaping_world escaping_http"
  by (auto simp: lib_agrees_def escaping_http_def escaping_world_def sample_http_def path_param_def
      path_escape_def escaped_char_def split: if_splits)


definition sample_client :: Client where
  "sample_client =
     \<lparr>clManagement = ''http://polaris/'', clCatalog = ''http://polaris/'',
      clTransport = \<lparr>trInsecureSkipVerify = False, trRootCAs = None\<rparr>,
      clCfg = \<lparr>cfgServerURL = ''http://polaris'', cfgTokenPath = ''/token'', cfgScope = [],
        cfgClientID = ''id'', cfgClientSecret = ''secret'', cfgCABundle = [],
        cfgInsecureSkipVerify = False, cfgHTTPTimeout = 0\<rparr>\<rparr>"


end
