(* ===== verification/Spec2Isabelle.thy ===== *)
theory Spec2Isabelle
  imports Convergence Deep_Copies Watches Connection_Health Catalog_Drift Table_Bodies
    Operator_Clients
begin

text \<open>
  The Polaris operator (\<open>antoniocali/polaris-k8s\<close>): Kubernetes controllers that keep an Apache
  Polaris server in line with custom resources.

  \<^bold>\<open>The program.\<close> \<open>cmd/main.go\<close> registers twelve controllers, one per kind of resource. A pass of
  a controller (its method \<open>Reconcile\<close>) reads one object from the Kubernetes API server, reads the
  objects it refers to (\<open>internal/controller/helpers.go\<close>), builds a Polaris client from the
  connection and its credentials Secret, checks that the parents are ready, adds a finalizer,
  compares the resource on the Polaris server with the specification, creates or changes it, and
  writes conditions into the status; an object that is being deleted has its remote side removed
  and then loses the finalizer. Requests go through a generated client
  (\<open>internal/polaris/management\<close>, \<open>internal/polaris/catalog\<close>) and an OAuth transport
  (\<open>internal/polaris/auth.go\<close>) that caches its token.

  \<^bold>\<open>Theories and sources.\<close>
  \<^item> \<open>Polaris_Prelude\<close>: numbers as text, \<open>%q\<close>, association lists, JSON values, generic lemmas.
  \<^item> \<open>Go_Errors\<close>: \<open>internal/polaris/errors.go\<close>; errors are values of \<open>goerr\<close>, and \<open>fmt.Errorf\<close>
    with \<open>%w\<close> is the constructor \<open>ErrWrap\<close>.
  \<^item> \<open>Api_Types\<close>: \<open>api/v1alpha1/*_types.go\<close>, \<open>refs.go\<close>, \<open>common.go\<close>; one record per
    specification and status, the object itself is a \<open>cr\<close>, and \<open>obj\<close> is \<open>client.Object\<close>.
  \<^item> \<open>Wire\<close>, \<open>Rest_Api\<close>: the generated clients as the reconcilers use them; the wire types in use
    as records with their JSON encoders and decoders, the 37 operations in use
    (\<open>New...Request\<close>, \<open>Parse...Wrapper\<close>) and the union of the storage configurations. Sending
    them is in \<open>Polaris_Client\<close>.
  \<^item> \<open>Go_Json\<close>, \<open>Json_Typing\<close>, \<open>Go_Http\<close>: \<open>encoding/json\<close> over descriptions of Go types, and the
    code both generated clients share (building, editing and sending requests, results).
  \<^item> \<open>Management_Types\<close>, \<open>Management_Requests\<close>, \<open>Management_Results\<close>, \<open>Catalog_Types\<close>,
    \<open>Catalog_Unions\<close>, \<open>Catalog_Requests\<close>, \<open>Catalog_Results\<close>: the two files
    \<open>internal/polaris/*/zz_generated.gen.go\<close> in full. A declaration \<open>X\<close> is \<open>mgmt_X\<close> or \<open>cat_X\<close>, a
    method \<open>M\<close> of \<open>X\<close> is \<open>mgmt_X_M\<close>.
  \<^item> \<open>Http_Docs\<close>, \<open>Management_Api\<close>, \<open>Catalog_Api\<close>: the operations of \<open>openapi/*.yaml\<close>, and that the
    functions above do what they say.
  \<^item> \<open>Wire_Types\<close>, \<open>Client_Tables\<close>, \<open>Generated_Clients\<close>: tables of the types, unions and operations,
    and the properties of the clients.
  \<^item> \<open>Operator_Bodies\<close>, \<open>Operator_Clients\<close>: the requests of the passes against the generated
    clients: \<open>Rest_Api\<close> and \<open>Polaris_Client\<close> write and send exactly what these do.
  \<^item> \<open>World\<close>: the environment \<open>env\<close>, the events of a run, the state \<open>mstate\<close> and the judgement
    \<open>valid m P\<close> with its backward rules.
  \<^item> \<open>Polaris_Client\<close>: \<open>internal/polaris/client.go\<close> and \<open>auth.go\<close>.
  \<^item> \<open>Controller_Helpers\<close>: \<open>internal/controller/helpers.go\<close>, and the blocks that every
    reconciler repeats, as one definition each.
  \<^item> \<open>Lifecycle\<close>: the abstract specification of a pass, the inductive relation \<open>lifecycle\<close>; the
    locale \<open>resource_kind\<close> (what the helpers need of a kind) and the locale \<open>managed_resource\<close>
    (a reconciler that refines the relation), in which the consequences are proved once.
  \<^item> \<open>Catalog_Controller\<close>, \<open>Namespace_Controller\<close>, \<open>Table_Controller\<close>, \<open>View_Controller\<close>,
    \<open>Policy_Controller\<close>, \<open>Principal_Controller\<close>, \<open>Role_Controllers\<close>, \<open>Binding_Controllers\<close>,
    \<open>Grant_Controller\<close>, \<open>Connection_Controller\<close>: \<open>internal/controller/polaris*_controller.go\<close>.
    Each translates its file, interprets \<open>resource_kind\<close> on its kind, proves the refinement and
    interprets \<open>managed_resource\<close> on its \<open>Reconcile\<close>.
  \<^item> \<open>Manager\<close>: the dispatch of \<open>cmd/main.go\<close> from a kind to its reconciler.
  \<^item> \<open>Namespace_Paths\<close>: the walk up the \<open>parentRef\<close> chain against a declarative ancestry.
  \<^item> \<open>Property_Sync\<close>: property maps, the difference sent to the server, namespaces in URLs.
  \<^item> \<open>Catalog_Drift\<close>: the bodies the catalog reconciler sends, and that its drift test is
    satisfied by a server that stored them.
  \<^item> \<open>Plan_Rules\<close>, \<open>Request_Plans\<close>: a specification, per kind, of the requests of a pass: what may
    be sent, in which order, with which body and under which names. \<open>requests_follow_plan\<close> says
    that every pass of every kind follows its plan; the theories below work from the plans.
  \<^item> \<open>Credentials\<close>: when a principal's credentials are rotated and its Secret is written.
  \<^item> \<open>Convergence\<close>: the round trips of the wire types and the passes that find nothing to do.
  \<^item> \<open>Routes\<close>: the routes of \<open>openapi/*.yaml\<close>, and that the requests of the passes have them.
  \<^item> \<open>Go_Heap\<close>, \<open>Deep_Copies\<close>: Go values with their sharing, and
    \<open>api/v1alpha1/zz_generated.deepcopy.go\<close> over a store of them. (The reconcilers are modelled
    over plain values; that they may be is what these two theories show of the copies.)
  \<^item> \<open>Operator_Runs\<close>: the state machine of one object in the cluster: passes of the operator
    alternate with edits and deletion by users. Its steps assume of the API server that an accepted
    write stores what was sent, that an edit of a specification increases the generation, that only
    the operator writes its status and its finalizer, and that an object marked for deletion
    stays while it has a finalizer.
  \<^item> \<open>Start_Up\<close>: \<open>cmd/main.go\<close> (flags, options, the sequence of calls and exit codes), the
    \<open>SetupWithManager\<close> methods and the registration of the types in \<open>api/v1alpha1\<close>.
  \<^item> \<open>Watches\<close>: \<open>Operator_Runs\<close> with the work queue of controller-runtime: which events queue an
    object, and when a pass is owed.
  \<^item> \<open>Connection_Health\<close>: \<open>PolarisConnection_reconcileObject\<close>.
  \<^item> \<open>Table_Bodies\<close>: the schema and partition specification sent for a table.
  \<^item> \<open>Sample_Runs\<close>: concrete environments and runs for the witnesses.

  \<^bold>\<open>State.\<close> A run is a value of the state monad over \<open>mstate\<close>: the list of all calls made so far
  with their answers, and the token cache. Every call that leaves the program (API server, Polaris
  server, token endpoint, clock) is a function of that list, so the environment may answer the
  same call differently each time and other clients may change the objects in between. The
  outcome of a pass is a \<open>ctrl.Result\<close> with an error, or a panic; \<open>trace\<close> is the list of calls of
  the pass, \<open>effects\<close> the part of it that changes something or talks to the Polaris server.

  \<^bold>\<open>What is proved.\<close> Of every pass of every managed kind: which requests it
  sends (the plan of its kind) and when, how it ends after an error, that Ready is only set
  after an answered synchronisation, how the finalizer is kept and given up, that specifications
  are never written, which passes can panic, that a pass which finds the server in agreement
  sends its probe only, and that it has at most five effects. Of a whole life of an object, over
  all interleavings of passes with edits: a true Ready condition of the present generation was
  earned by a pass that synchronised the present specification, and no object that was acted for
  disappears before its remote side was removed or its parents were gone. Of the parts:
  soundness and completeness of the namespace walk and its behaviour on cycles; the cache and
  the request rule of the token source; construction of the client; the classification of
  errors; rotation and storage of credentials; the health of a connection; the body of a new
  table; property differences; round trips of namespace paths; the storage union of a catalog
  and the convergence of its drift test, with the specifications that never converge; that
  created roles reach the steady state; that method and URL of a request determine what it asks
  for; that the deep copies of the API types share nothing with their originals. Of the
  generated clients: requests and responses are those of the OpenAPI documents, results are of
  their declared types, and values of all 244 types, variants of unions and answers of a server
  survive encoding and decoding; and every request of a pass is built, typed and sent by them as
  the model of the pass says. Of the process: the manager starts with all twelve controllers
  or not at all, its servers are hardened, and when a controller has nothing left to do for an
  object, the object is in the state its specification asks for.

  \<^bold>\<open>Bounds.\<close> The walk up the namespaces is a recursion on \<open>maxDepth - i\<close>, so the bound 32 of the
  code is its measure and no fuel is needed. All other loops run over lists. Integers of the API
  that Go keeps in 32 bits are words; lifetimes are multiplied in 64 bits as in the code.

  \<^bold>\<open>Parameters.\<close> The fields of \<open>env\<close> stand for code outside the repository: the Kubernetes
  client, the condition and finalizer helpers (with their documented laws, \<open>lib_ok\<close>), \<open>net/url\<close>,
  \<open>net/http\<close>, the certificate parser, the clock and the JSON parser; those of
  \<open>meta_lib\<close> for the types of \<open>metav1\<close> and their deep copies; those of \<open>http_lib\<close> and \<open>jlib\<close>
  for what the generated clients use of \<open>net/url\<close>, \<open>net/http\<close>, \<open>encoding/json\<close> and the runtime of
  the generator. \<open>sample_env\<close> and \<open>sample_http\<close> satisfy the laws.

  \<^bold>\<open>Not modelled.\<close> The library side of what \<open>Start_Up\<close> calls
  (scheme, servers, leader election, informers; of the work queue \<open>Watches\<close> states
  the documented behaviour it uses); of the generated clients the Go interfaces that list their
  methods; logging and contexts; the mutex of the token source (a run is sequential); charts,
  manifests and tests.
\<close>

section \<open>Properties of every managed resource\<close>

text \<open>
  C2. Gating. A reconciler of any of the eleven managed kinds sends a request other than a
  removal only for an object that is not being deleted, that carries the operator's
  finalizer, and all of whose required parents it has read with a true Ready condition in
  this very pass.
\<close>

theorem requests_only_when_ready:
  assumes "k \<noteq> KConnection"
    and "Api rq ans \<in> set (effects (trace (Reconcile E k req) s))"
    and "op_class (rqOp rq) \<noteq> Remove"
  shows "\<exists>ob. read_object (trace (Reconcile E k req) s) = Some ob \<and> kind_of ob = k \<and>
    \<not> isDeleting (obj_meta ob) \<and> may_act E ob (trace (Reconcile E k req) s)"
  using managed_resource.acts_only_when_ready [OF Reconcile_managed] assms by blast

theorem requests_only_when_ready_witness:
  "\<exists>ob. read_object (sample_trace creating_world) = Some ob \<and> kind_of ob = KPrincipalRole \<and>
    \<not> isDeleting (obj_meta ob) \<and> may_act creating_world ob (sample_trace creating_world)"
  by (rule creating_calls)
    (use requests_only_when_ready [of KPrincipalRole _ _ creating_world sample_key sample_start]
      in \<open>auto simp: sample_defs\<close>)

text \<open>
  C7. Removal only on deletion. A request that removes something from the Polaris server is
  sent only while the object is being deleted, and it is the first effect of the pass.
\<close>

theorem removals_only_on_deletion:
  assumes "k \<noteq> KConnection"
    and "Api rq ans \<in> set (effects (trace (Reconcile E k req) s))"
    and "op_class (rqOp rq) = Remove"
  shows "\<exists>ob. read_object (trace (Reconcile E k req) s) = Some ob \<and> isDeleting (obj_meta ob) \<and>
    hd (effects (trace (Reconcile E k req) s)) = Api rq ans"
  using managed_resource.removes_only_when_deleted [OF Reconcile_managed] assms by blast

theorem removals_only_on_deletion_witness:
  "\<exists>ob rq ans. read_object (sample_trace deleting_world) = Some ob \<and> isDeleting (obj_meta ob) \<and>
    hd (effects (sample_trace deleting_world)) = Api rq ans"
proof (rule deleting_calls)
  fix rq ans
  assume "Api rq ans \<in> set (effects (sample_trace deleting_world))" "op_class (rqOp rq) = Remove"
  then show ?thesis
    using removals_only_on_deletion
      [of KPrincipalRole rq ans deleting_world sample_key sample_start, folded sample_trace_def]
    by blast
qed





text \<open>
  C9. No error is swallowed. A pass over a live object that returns success without asking to
  be run again ends in a stored status with a true Ready condition for the current
  generation, after requests that were all accepted.
\<close>

theorem success_means_synced:
  assumes "k \<noteq> KConnection" "result (Reconcile E k req) s = Returns noResult None"
    and "read_object (trace (Reconcile E k req) s) = Some ob" "\<not> isDeleting (obj_meta ob)"
  shows "\<exists>es ob'. effects (trace (Reconcile E k req) s) = es @ [Stat ob' None] \<and> sync_run es \<and>
    obj_meta ob' = obj_meta ob \<and> obj_observed ob' = gen_of ob \<and>
    (\<exists>cs msg. obj_conds ob' = setReady E cs (gen_of ob) msg)"
  using managed_resource.success_is_synced [OF Reconcile_managed [OF assms(1)] assms(2-4)] .

theorem success_means_synced_witness:
  "\<exists>es ob'. effects (sample_trace creating_world) = es @ [Stat ob' None] \<and> sync_run es"
proof -
  have run: "reads_object creating_world False (sample_trace creating_world)"
    "sample_result creating_world = Returns noResult None"
    using creating_run by blast+
  obtain ob where "read_object (sample_trace creating_world) = Some ob" "\<not> isDeleting (obj_meta ob)"
    using sample_reads [OF run(1)] by blast
  then show ?thesis
    using success_means_synced [of KPrincipalRole creating_world sample_key sample_start ob] run(2)
    by (auto simp: sample_defs)
qed

text \<open>
  Waiting is quiet. A pass that asks to be run again after the fixed delay belongs to a
  live object; every status it writes has been stored, leaves metadata and observed
  generation as they were and is not Ready, and the object itself is not written.
\<close>

theorem waiting_is_quiet:
  assumes "k \<noteq> KConnection" "lib_ok E"
    and "result (Reconcile E k req) s = Returns requeueLater None"
  shows "\<exists>ob. read_object (trace (Reconcile E k req) s) = Some ob \<and> \<not> isDeleting (obj_meta ob) \<and>
    list_all (\<lambda>x. case x of
        Stat ob' e \<Rightarrow> e = None \<and> obj_observed ob' = obj_observed ob \<and> obj_meta ob' = obj_meta ob \<and>
          \<not> parentReady E (obj_conds ob')
      | Upd ob' e \<Rightarrow> False
      | _ \<Rightarrow> True) (effects (trace (Reconcile E k req) s))"
  using managed_resource.waiting_reports_only [OF Reconcile_managed [OF assms(1)] assms(2,3)] .

theorem waiting_is_quiet_witness:
  "\<exists>ob. read_object (sample_trace waiting_world) = Some ob \<and> \<not> isDeleting (obj_meta ob)"
  using waiting_is_quiet [of KPrincipalRole waiting_world sample_key sample_start] waiting_run
    lib_ok_world by (auto simp: sample_defs waiting_world_def)

text \<open>
  C26. Deletion completes. When a pass over an object being deleted returns success and the
  object carried the operator's finalizer, its last effect is the stored removal of that
  finalizer, so that Kubernetes can delete the object.
\<close>

theorem deletion_drops_finalizer:
  assumes "k \<noteq> KConnection" "result (Reconcile E k req) s = Returns noResult None"
    and "read_object (trace (Reconcile E k req) s) = Some ob" "isDeleting (obj_meta ob)"
    and "ContainsFinalizer E (obj_meta ob) PolarisFinalizer"
  shows "last (effects (trace (Reconcile E k req) s)) =
    Upd (set_obj_meta (RemoveFinalizer E (obj_meta ob) PolarisFinalizer) ob) None"
  using managed_resource.deletion_completes [OF Reconcile_managed [OF assms(1)] assms(2-5)] .

theorem deletion_drops_finalizer_witness:
  "\<exists>ob. last (effects (sample_trace deleting_world)) =
    Upd (set_obj_meta (RemoveFinalizer deleting_world (obj_meta ob) PolarisFinalizer) ob) None"
proof -
  have run: "reads_object deleting_world True (sample_trace deleting_world)"
    "sample_result deleting_world = Returns noResult None"
    using deleting_run by blast+
  obtain ob where "read_object (sample_trace deleting_world) = Some ob" "isDeleting (obj_meta ob)"
    "ContainsFinalizer deleting_world (obj_meta ob) PolarisFinalizer"
    using sample_reads [OF run(1)] by blast
  then show ?thesis
    using deletion_drops_finalizer [of KPrincipalRole deleting_world sample_key sample_start ob] run(2)
    by (auto simp: sample_defs)
qed

text \<open>
  C39. Bounded work. A pass has at most five effects (four remote calls or Secret writes and a
  status write), and a status write can only be the last of them.
\<close>

theorem pass_bounded:
  assumes "k \<noteq> KConnection"
  shows "length (effects (trace (Reconcile E k req) s)) \<le> 5 \<and>
    list_all (\<lambda>x. \<not> is_status_write x) (butlast (effects (trace (Reconcile E k req) s)))"
  using managed_resource.effects_bounded [OF Reconcile_managed [OF assms]] .

theorem pass_bounded_witness:
  "length (effects (sample_trace creating_world)) \<le> 5"
  using pass_bounded [of KPrincipalRole creating_world sample_key sample_start]
  by (simp add: sample_trace_def)





text \<open>
  C10. No error is swallowed or hidden. When a pass over an object that is not being
  deleted returns an error, then either the update that adds the finalizer failed and nothing
  else was done, or the last effect is a status write, and the error returned is the failure of
  that write or is quoted at the end of the message of a False condition (Ready, or
  CredentialsWritten for a principal) that carries the object's generation.
\<close>

theorem errors_are_reported:
  assumes "k \<noteq> KConnection" "lib_ok E"
    and "result (Reconcile E k req) s = Returns noResult (Some e)"
    and "read_object (trace (Reconcile E k req) s) = Some ob" "\<not> isDeleting (obj_meta ob)"
  shows "(\<exists>ob' err. effects (trace (Reconcile E k req) s) = [Upd ob' (Some err)] \<and>
      e = ErrWrap ''add finalizer: '' err) \<or>
    (\<exists>es ob' w. effects (trace (Reconcile E k req) s) = es @ [Stat ob' w] \<and>
      (w = Some e \<or>
       (\<exists>t c. FindStatusCondition E (obj_conds ob') t = Some c \<and> condStatus c = ConditionFalse \<and>
          condObservedGeneration c = gen_of ob \<and> has_suffix (Error e) (condMessage c) \<and>
          (t = ConditionReady \<or> k = KPrincipal \<and> t = ConditionCredentialsWritten))))"
  using managed_resource.errors_reported [OF Reconcile_managed [OF assms(1)] assms(2-5)] .

theorem errors_are_reported_witness:
  "\<exists>es ob' w. effects (sample_trace failing_world) = es @ [Stat ob' w]"
proof -
  obtain ob where "read_object (sample_trace failing_world) = Some ob" "\<not> isDeleting (obj_meta ob)"
    using sample_reads [OF failing_run(1)] by blast
  then show ?thesis
    using errors_are_reported [of KPrincipalRole failing_world sample_key sample_start sample_failure ob]
      failing_run(2) lib_ok_world
    by (auto simp: sample_defs failing_world_def sample_failure_def)
qed

text \<open>
  Waiting does not keep a controller busy. Waiting for a dependency writes the status
  at most once, with the condition the message and the generation ask for; as long as the
  object keeps that status, waiting again for the same dependency does nothing but ask to be
  run later.
\<close>

theorem waiting_settles:
  assumes "lib_ok E"
    and "x' = setConds (setNotReady E (conditions (crStatus x)) (objGeneration (crMeta x))
      ReasonDependencyNotReady (dependencyMessage dep)) x"
  shows "(trace (waitForDependency E mk x dep) s = [] \<or>
      (\<exists>e. trace (waitForDependency E mk x dep) s = [EStatusUpdate (mk x') e])) \<and>
    run_state (waitForDependency E mk x' dep) s' = (Returns requeueLater None, s')"
  using assms(1) find_set [OF assms(1)]
  by (auto simp: assms(2) waitForDependency_def Let_def trace_def call_defs setNotReady_def
      split: option.split)

theorem waiting_settles_witness:
  "run_state (waitForDependency sample_env OPrincipalRole
     (setConds (setNotReady sample_env [] 2 ReasonDependencyNotReady (dependencyMessage ''x''))
       (sample_role None [])) ''x'') sample_start = (Returns requeueLater None, sample_start)"
  using waiting_settles [of sample_env _ "sample_role None []" "''x''" OPrincipalRole sample_start sample_start]
    lib_ok_sample
  by (simp add: sample_role_def sample_meta_def)

end
